(* ===== verification/Status.thy ===== *)
theory Status
  imports Ocs_Prelude
begin

text \<open>
  \<open>status.py\<close>: the normalisation of status words. Every status the program stores or compares
  goes through \<open>short_status\<close>, which maps the servers' many spellings to seven terms and leaves
  any other word in its trimmed, lower-case form.
\<close>

definition STATUS_TERMS :: "string list" where
  "STATUS_TERMS = [''queued'', ''active'', ''blocked'', ''done'', ''failed'', ''aborted'', ''timeout'']"

definition status_word :: "string \<Rightarrow> string" where
  "status_word s = replace_char (CHR ''-'') (CHR ''_'') (py_lower (py_strip s))"

definition status_groups :: "(string \<times> string list) list" where
  "status_groups =
    [(''queued'', [''queued'', ''pending'', ''initialized'', ''submitted'', ''admitted'']),
     (''active'', [''active'', ''running'', ''started'', ''promoted'', ''processing'',
        ''in_progress'', ''working'', ''aborting'']),
     (''blocked'', [''blocked'', ''waiting'', ''needs_input'']),
     (''done'', [''done'', ''complete'', ''completed'', ''success'', ''succeeded'', ''idle'']),
     (''failed'', [''failed'', ''failure'', ''error'', ''errored'']),
     (''aborted'', [''aborted'', ''abort'', ''cancelled'', ''canceled'']),
     (''timeout'', [''timeout'', ''timed_out'', ''timedout''])]"

definition short_status_str :: "string \<Rightarrow> string" where
  "short_status_str s = (let value = status_word s in
     case find (\<lambda>g. value \<in> set (snd g)) status_groups of
       Some g \<Rightarrow> fst g
     | None \<Rightarrow> value)"

text \<open>\<open>None\<close> stays \<open>None\<close>; any other value is read through \<open>str\<close>.\<close>

definition short_status :: "json \<Rightarrow> string option" where
  "short_status v = (case v of JNull \<Rightarrow> None | _ \<Rightarrow> Some (short_status_str (py_str v)))"

definition short_status_opt :: "string option \<Rightarrow> string option" where
  "short_status_opt s = map_option short_status_str s"

lemma short_status_simps [simp]:
  "short_status JNull = None"
  "short_status (JStr s) = Some (short_status_str s)"
  by (simp_all add: short_status_def)

section \<open>Normal forms\<close>

lemma is_space_lower [simp]: "is_space (lower_char c) = is_space c"
  by (auto simp: is_space_def lower_char_def char_code_def Let_def)

lemma lower_lower [simp]: "lower_char (lower_char c) = lower_char c"
  by (auto simp: lower_char_def char_code_def Let_def)

lemma lower_minus [simp]: "lower_char c = CHR ''-'' \<longleftrightarrow> c = CHR ''-''"
proof
  assume eq: "lower_char c = CHR ''-''"
  show "c = CHR ''-''"
  proof (cases "lower_char c = c")
    case False
    then have "of_char (lower_char c) = (of_char c + 32 :: nat)" and "65 \<le> (of_char c :: nat)"
      by (auto simp: lower_char_def char_code_def Let_def split: if_splits)
    with eq show ?thesis by simp
  qed (use eq in simp)
qed (simp add: lower_char_def char_code_def)

lemma lower_underscore [simp]: "lower_char (CHR ''_'') = CHR ''_''"
  by (simp add: lower_char_def char_code_def)

lemma is_space_dash [simp]: "\<not> is_space (CHR ''-'')" "\<not> is_space (CHR ''_'')"
  by (simp_all add: is_space_def char_code_def)

lemma dropWhile_map_eq:
  "(\<And>c. P (f c) = P c) \<Longrightarrow> dropWhile P (map f s) = map f (dropWhile P s)"
  by (induction s) auto

lemma py_strip_map: "(\<And>c. is_space (f c) = is_space c) \<Longrightarrow> py_strip (map f s) = map f (py_strip s)"
  by (simp add: py_strip_def dropWhile_map_eq rev_map)

lemma dropWhile_idem_rev:
  assumes "dropWhile P s = s"
  shows "dropWhile P (rev (dropWhile P (rev s))) = rev (dropWhile P (rev s))"
proof (cases "rev (dropWhile P (rev s))")
  case (Cons c r)
  have "s = rev (dropWhile P (rev s)) @ rev (takeWhile P (rev s))"
    by (metis rev_append rev_rev_ident takeWhile_dropWhile_id)
  with Cons have "hd s = c" "s \<noteq> []" by (metis append_Cons list.sel(1), auto)
  with assms have "\<not> P c" using dropWhile_eq_self_iff by blast
  with Cons show ?thesis by simp
next
  case Nil
  then show ?thesis by (simp only: dropWhile.simps)
qed

lemma py_strip_idem [simp]: "py_strip (py_strip s) = py_strip s"
proof -
  let ?t = "dropWhile is_space s"
  have "dropWhile is_space ?t = ?t" by (simp add: dropWhile_idem)
  then have "dropWhile is_space (py_strip s) = py_strip s"
    unfolding py_strip_def by (rule dropWhile_idem_rev)
  then show ?thesis by (simp add: py_strip_def dropWhile_idem)
qed

lemma status_word_idem [simp]: "status_word (status_word s) = status_word s"
proof -
  let ?f = "(\<lambda>c. if c = CHR ''-'' then CHR ''_'' else c) \<circ> lower_char"
  have word: "status_word t = map ?f (py_strip t)" for t
    by (simp add: status_word_def py_lower_def replace_char_def)
  have "py_strip (map ?f (py_strip s)) = map ?f (py_strip s)"
    by (subst py_strip_map) auto
  moreover have "map ?f (map ?f t) = map ?f t" for t
    by auto
  ultimately show ?thesis by (simp only: word)
qed

lemma short_status_str_term:
  "short_status_str s \<in> set STATUS_TERMS \<or> short_status_str s = status_word s"
  by (auto simp: short_status_str_def STATUS_TERMS_def status_groups_def Let_def)

lemma status_word_terms:
  "status_word ''queued'' = ''queued''" "status_word ''active'' = ''active''"
  "status_word ''blocked'' = ''blocked''" "status_word ''done'' = ''done''"
  "status_word ''failed'' = ''failed''" "status_word ''aborted'' = ''aborted''"
  "status_word ''timeout'' = ''timeout''"
  by code_simp+

lemma short_status_terms [simp]:
  "short_status_str ''queued'' = ''queued''" "short_status_str ''active'' = ''active''"
  "short_status_str ''blocked'' = ''blocked''" "short_status_str ''done'' = ''done''"
  "short_status_str ''failed'' = ''failed''" "short_status_str ''aborted'' = ''aborted''"
  "short_status_str ''timeout'' = ''timeout''"
  by (simp_all add: short_status_str_def status_word_terms status_groups_def)

lemma short_status_str_idem [simp]: "short_status_str (short_status_str s) = short_status_str s"
proof (cases "short_status_str s \<in> set STATUS_TERMS")
  case True
  then show ?thesis by (auto simp: STATUS_TERMS_def)
next
  case False
  then have w: "short_status_str s = status_word s" using short_status_str_term by blast
  then show ?thesis by (simp add: short_status_str_def Let_def)
qed

end
