(* ===== verification/Worker_Lifecycle.thy ===== *)
theory Worker_Lifecycle
  imports Status
begin

text \<open>
  The lifecycle table of \<open>worker_state.py\<close>: fourteen lifecycle states, each with a public status
  and action, the dimensions they are projected from, and the flags the scheduler reads. The
  program derives every lookup table from \<open>_WORKER_LIFECYCLE_TABLE\<close>; so does this theory.
\<close>

section \<open>The enumerations\<close>

datatype lifecycle =
    Queued | Active_Wait | Active_Retry | Blocked_Dependency | Blocked_Timeout | Done_Collect
  | Failed_Retry | Failed_Terminal | Timeout_Retry | Timeout_Terminal | Timeout_Failed_Retry
  | Timeout_Failed_Terminal | Timeout_Aborted | Aborted

datatype wstatus = St_Queued | St_Active | St_Blocked | St_Done | St_Failed | St_Aborted | St_Timeout

datatype waction = Act_Start | Act_Wait | Act_Retry | Act_Resolve_Blocker | Act_Collect | Act_None

fun lifecycle_name :: "lifecycle \<Rightarrow> string" where
  "lifecycle_name Queued = ''queued''"
| "lifecycle_name Active_Wait = ''active_wait''"
| "lifecycle_name Active_Retry = ''active_retry''"
| "lifecycle_name Blocked_Dependency = ''blocked_dependency''"
| "lifecycle_name Blocked_Timeout = ''blocked_timeout''"
| "lifecycle_name Done_Collect = ''done_collect''"
| "lifecycle_name Failed_Retry = ''failed_retry''"
| "lifecycle_name Failed_Terminal = ''failed_terminal''"
| "lifecycle_name Timeout_Retry = ''timeout_retry''"
| "lifecycle_name Timeout_Terminal = ''timeout_terminal''"
| "lifecycle_name Timeout_Failed_Retry = ''timeout_failed_retry''"
| "lifecycle_name Timeout_Failed_Terminal = ''timeout_failed_terminal''"
| "lifecycle_name Timeout_Aborted = ''timeout_aborted''"
| "lifecycle_name Aborted = ''aborted''"

fun status_name :: "wstatus \<Rightarrow> string" where
  "status_name St_Queued = ''queued''"
| "status_name St_Active = ''active''"
| "status_name St_Blocked = ''blocked''"
| "status_name St_Done = ''done''"
| "status_name St_Failed = ''failed''"
| "status_name St_Aborted = ''aborted''"
| "status_name St_Timeout = ''timeout''"

fun action_name :: "waction \<Rightarrow> string" where
  "action_name Act_Start = ''start''"
| "action_name Act_Wait = ''wait''"
| "action_name Act_Retry = ''retry''"
| "action_name Act_Resolve_Blocker = ''resolve_blocker''"
| "action_name Act_Collect = ''collect''"
| "action_name Act_None = ''none''"

definition all_lifecycles :: "lifecycle list" where
  "all_lifecycles = [Queued, Active_Wait, Active_Retry, Blocked_Dependency, Blocked_Timeout,
     Done_Collect, Failed_Retry, Failed_Terminal, Timeout_Retry, Timeout_Terminal,
     Timeout_Failed_Retry, Timeout_Failed_Terminal, Timeout_Aborted, Aborted]"

definition all_statuses :: "wstatus list" where
  "all_statuses = [St_Queued, St_Active, St_Blocked, St_Done, St_Failed, St_Timeout, St_Aborted]"

definition all_actions :: "waction list" where
  "all_actions = [Act_Start, Act_Wait, Act_Retry, Act_Resolve_Blocker, Act_Collect, Act_None]"

definition lifecycle_of_name :: "string \<Rightarrow> lifecycle option" where
  "lifecycle_of_name s = find (\<lambda>l. lifecycle_name l = s) all_lifecycles"

definition status_of_name :: "string \<Rightarrow> wstatus option" where
  "status_of_name s = find (\<lambda>x. status_name x = s) all_statuses"

definition action_of_name :: "string \<Rightarrow> waction option" where
  "action_of_name s = find (\<lambda>x. action_name x = s) all_actions"

section \<open>The table\<close>

record lifecycle_row =
  lr_state :: lifecycle
  lr_status :: wstatus
  lr_action :: waction
  lr_retryable :: bool
  lr_timeout_origin :: bool
  lr_status_alias :: bool
  lr_terminal_status :: bool
  lr_failed_dependency_status :: bool
  lr_executable :: bool
  lr_status_priority :: nat

definition lifecycle_row :: "lifecycle \<Rightarrow> wstatus \<Rightarrow> waction \<Rightarrow> lifecycle_row" where
  "lifecycle_row s st a = \<lparr>lr_state = s, lr_status = st, lr_action = a, lr_retryable = False,
     lr_timeout_origin = False, lr_status_alias = False, lr_terminal_status = False,
     lr_failed_dependency_status = False, lr_executable = False, lr_status_priority = 0\<rparr>"

definition lifecycle_table :: "lifecycle_row list" where
  "lifecycle_table =
   [(lifecycle_row Queued St_Queued Act_Start)
      \<lparr>lr_status_alias := True, lr_executable := True, lr_status_priority := 0\<rparr>,
    (lifecycle_row Active_Wait St_Active Act_Wait)
      \<lparr>lr_status_alias := True, lr_status_priority := 1\<rparr>,
    (lifecycle_row Active_Retry St_Active Act_Retry)
      \<lparr>lr_retryable := True, lr_executable := True, lr_status_priority := 1\<rparr>,
    (lifecycle_row Blocked_Dependency St_Blocked Act_Resolve_Blocker)
      \<lparr>lr_status_alias := True, lr_failed_dependency_status := True, lr_status_priority := 2\<rparr>,
    (lifecycle_row Blocked_Timeout St_Blocked Act_Resolve_Blocker)
      \<lparr>lr_failed_dependency_status := True, lr_timeout_origin := True, lr_status_priority := 2\<rparr>,
    (lifecycle_row Done_Collect St_Done Act_Collect)
      \<lparr>lr_status_alias := True, lr_terminal_status := True, lr_status_priority := 3\<rparr>,
    (lifecycle_row Failed_Retry St_Failed Act_Retry)
      \<lparr>lr_retryable := True, lr_terminal_status := True, lr_failed_dependency_status := True,
       lr_executable := True, lr_status_priority := 6\<rparr>,
    (lifecycle_row Failed_Terminal St_Failed Act_Retry)
      \<lparr>lr_status_alias := True, lr_terminal_status := True, lr_failed_dependency_status := True,
       lr_status_priority := 6\<rparr>,
    (lifecycle_row Timeout_Retry St_Timeout Act_Retry)
      \<lparr>lr_retryable := True, lr_terminal_status := True, lr_failed_dependency_status := True,
       lr_executable := True, lr_timeout_origin := True, lr_status_priority := 4\<rparr>,
    (lifecycle_row Timeout_Terminal St_Timeout Act_Retry)
      \<lparr>lr_status_alias := True, lr_terminal_status := True, lr_failed_dependency_status := True,
       lr_timeout_origin := True, lr_status_priority := 4\<rparr>,
    (lifecycle_row Timeout_Failed_Retry St_Failed Act_Retry)
      \<lparr>lr_retryable := True, lr_terminal_status := True, lr_failed_dependency_status := True,
       lr_executable := True, lr_timeout_origin := True, lr_status_priority := 6\<rparr>,
    (lifecycle_row Timeout_Failed_Terminal St_Failed Act_Retry)
      \<lparr>lr_terminal_status := True, lr_failed_dependency_status := True,
       lr_timeout_origin := True, lr_status_priority := 6\<rparr>,
    (lifecycle_row Timeout_Aborted St_Aborted Act_None)
      \<lparr>lr_terminal_status := True, lr_failed_dependency_status := True,
       lr_timeout_origin := True, lr_status_priority := 5\<rparr>,
    (lifecycle_row Aborted St_Aborted Act_None)
      \<lparr>lr_status_alias := True, lr_terminal_status := True, lr_failed_dependency_status := True,
       lr_status_priority := 5\<rparr>]"

section \<open>Dimensions\<close>

record lifecycle_dimensions =
  dim_status :: wstatus
  dim_action :: waction
  dim_retryable :: bool
  dim_timeout_origin :: bool

definition make_dimensions ::
  "wstatus \<Rightarrow> waction \<Rightarrow> bool \<Rightarrow> bool \<Rightarrow> lifecycle_dimensions result" where
  "make_dimensions status action retryable timeout_origin =
     (if retryable \<and> action \<noteq> Act_Retry
      then Inl (ValueError ''retryable worker lifecycle states must use the retry action dimension'')
      else Inr \<lparr>dim_status = status, dim_action = action, dim_retryable = retryable,
                dim_timeout_origin = timeout_origin\<rparr>)"

definition parse_status :: "string option \<Rightarrow> wstatus result" where
  "parse_status s = (case Option.bind (short_status_opt s) status_of_name of
     None \<Rightarrow> Inl (ValueError ''not a valid WorkerLifecycleStatus'')
   | Some st \<Rightarrow> Inr st)"

definition parse_action :: "string option \<Rightarrow> waction result" where
  "parse_action a =
     (case action_of_name (case a of None \<Rightarrow> ''none'' | Some s \<Rightarrow> if s = [] then ''none'' else s) of
        None \<Rightarrow> Inl (ValueError ''not a valid WorkerLifecycleAction'')
      | Some x \<Rightarrow> Inr x)"

definition dimensions_from_public_state ::
  "string option \<Rightarrow> string option \<Rightarrow> bool \<Rightarrow> lifecycle_dimensions result" where
  "dimensions_from_public_state status action timeout_origin =
     res_bind (parse_status status) (\<lambda>st.
     res_bind (parse_action action) (\<lambda>act.
       let retryable = (act = Act_Retry);
           act' = (if act = Act_None \<and> st \<in> {St_Failed, St_Timeout} then Act_Retry else act)
       in make_dimensions st act' retryable timeout_origin))"

definition dimensions_timeout :: "string option \<Rightarrow> bool \<Rightarrow> lifecycle_dimensions result" where
  "dimensions_timeout status retry_available =
     (case (case parse_status status of Inl _ \<Rightarrow> St_Timeout | Inr st \<Rightarrow> st) of
        St_Blocked \<Rightarrow> make_dimensions St_Blocked Act_Resolve_Blocker False True
      | St_Aborted \<Rightarrow> make_dimensions St_Aborted Act_None False True
      | St_Failed \<Rightarrow> make_dimensions St_Failed Act_Retry retry_available True
      | _ \<Rightarrow> make_dimensions St_Timeout Act_Retry retry_available True)"

definition public_status :: "lifecycle_dimensions \<Rightarrow> string" where
  "public_status d = status_name (dim_status d)"

definition public_action :: "lifecycle_dimensions \<Rightarrow> string" where
  "public_action d =
     (if dim_action d = Act_Retry then (if dim_retryable d then ''retry'' else ''none'')
      else action_name (dim_action d))"

section \<open>Metadata and the tables derived from it\<close>

record lifecycle_metadata =
  lm_dimensions :: lifecycle_dimensions
  lm_status_alias :: bool
  lm_terminal_status :: bool
  lm_failed_dependency_status :: bool
  lm_executable :: bool
  lm_status_priority :: nat

definition row_dimensions :: "lifecycle_row \<Rightarrow> lifecycle_dimensions" where
  "row_dimensions r = \<lparr>dim_status = lr_status r, dim_action = lr_action r,
     dim_retryable = lr_retryable r, dim_timeout_origin = lr_timeout_origin r\<rparr>"

definition metadata_from_row :: "lifecycle_row \<Rightarrow> lifecycle_metadata" where
  "metadata_from_row r = \<lparr>lm_dimensions = row_dimensions r, lm_status_alias = lr_status_alias r,
     lm_terminal_status = lr_terminal_status r,
     lm_failed_dependency_status = lr_failed_dependency_status r,
     lm_executable = lr_executable r, lm_status_priority = lr_status_priority r\<rparr>"

definition lifecycle_metadata_table :: "(lifecycle \<times> lifecycle_metadata) list" where
  "lifecycle_metadata_table = map (\<lambda>r. (lr_state r, metadata_from_row r)) lifecycle_table"

definition lifecycle_metadata :: "lifecycle \<Rightarrow> lifecycle_metadata option" where
  "lifecycle_metadata l = map_of lifecycle_metadata_table l"

definition lifecycle_dims :: "lifecycle \<Rightarrow> lifecycle_dimensions option" where
  "lifecycle_dims l = map_option lm_dimensions (lifecycle_metadata l)"

definition public_worker_state :: "lifecycle option \<Rightarrow> string option \<times> string" where
  "public_worker_state l =
     (case Option.bind l lifecycle_metadata of
        None \<Rightarrow> (None, ''none'')
      | Some m \<Rightarrow> (Some (public_status (lm_dimensions m)), public_action (lm_dimensions m)))"

definition worker_lifecycle_state_for_dimensions :: "lifecycle_dimensions \<Rightarrow> lifecycle option" where
  "worker_lifecycle_state_for_dimensions d =
     map_option fst (find (\<lambda>p. lm_dimensions (snd p) = d) lifecycle_metadata_table)"

definition worker_lifecycle_state_for_status_alias :: "string option \<Rightarrow> lifecycle option" where
  "worker_lifecycle_state_for_status_alias status =
     map_option fst (find (\<lambda>p. lm_status_alias (snd p)
         \<and> Some (public_status (lm_dimensions (snd p))) = short_status_opt status)
       lifecycle_metadata_table)"

definition lifecycle_states_matching ::
  "wstatus option \<Rightarrow> waction option \<Rightarrow> bool option \<Rightarrow> bool option \<Rightarrow> lifecycle list" where
  "lifecycle_states_matching status action retryable timeout_origin =
     map fst (filter (\<lambda>p. let d = lm_dimensions (snd p) in
         (status = None \<or> status = Some (dim_status d))
       \<and> (action = None \<or> action = Some (dim_action d))
       \<and> (retryable = None \<or> retryable = Some (dim_retryable d))
       \<and> (timeout_origin = None \<or> timeout_origin = Some (dim_timeout_origin d)))
     lifecycle_metadata_table)"

definition TERMINAL_WORKER_STATUSES :: "string list" where
  "TERMINAL_WORKER_STATUSES = remdups (map (public_status \<circ> lm_dimensions \<circ> snd)
     (filter (lm_terminal_status \<circ> snd) lifecycle_metadata_table))"

definition FAILED_DEPENDENCY_STATUSES :: "string list" where
  "FAILED_DEPENDENCY_STATUSES = remdups (map (public_status \<circ> lm_dimensions \<circ> snd)
     (filter (lm_failed_dependency_status \<circ> snd) lifecycle_metadata_table))"

definition status_priorities :: "(string \<times> nat) list" where
  "status_priorities = fold (\<lambda>p. dict_set (public_status (lm_dimensions (snd p)))
     (lm_status_priority (snd p))) lifecycle_metadata_table []"


section \<open>Status predicates and lookups\<close>

definition status_priority :: "string option \<Rightarrow> nat" where
  "status_priority status =
     (case Option.bind (short_status_opt status) (map_of status_priorities) of
        Some n \<Rightarrow> n
      | None \<Rightarrow> the (map_of status_priorities ''queued''))"

fun json_status :: "json \<Rightarrow> string option" where
  "json_status (JStr s) = Some s"
| "json_status _ = None"

definition merge_status :: "json \<Rightarrow> json \<Rightarrow> json" where
  "merge_status incoming current =
     (if \<not> is_str incoming \<or> \<not> is_str current then incoming
      else if status_priority (json_status current) > status_priority (json_status incoming)
      then current else incoming)"

definition status_owner :: "json \<Rightarrow> json \<Rightarrow> string" where
  "status_owner incoming current =
     (if \<not> is_str incoming \<or> \<not> is_str current then ''incoming''
      else if status_priority (json_status current) > status_priority (json_status incoming)
      then ''current'' else ''incoming'')"

text \<open>\<open>max(xs, key=f)\<close>: the first element with the largest key.\<close>

fun max_by :: "('a \<Rightarrow> nat) \<Rightarrow> 'a \<Rightarrow> 'a list \<Rightarrow> 'a" where
  "max_by f best [] = best"
| "max_by f best (x # xs) = max_by f (if f x > f best then x else best) xs"

definition aggregate_run_status :: "string option list \<Rightarrow> string option" where
  "aggregate_run_status statuses =
     (let sts = map short_status_opt statuses in
      if sts = [] then None
      else if sts = [Some ''done''] \<or> list_all (\<lambda>s. s = Some ''done'') sts then Some ''done''
      else (case filter (\<lambda>s. s \<noteq> Some ''done'') sts of
              [] \<Rightarrow> Some ''queued''
            | c # cs \<Rightarrow>
                (let status = max_by status_priority c cs in
                 case status of
                   None \<Rightarrow> Some ''queued''
                 | Some t \<Rightarrow> if dict_has status_priorities t then Some t else Some ''queued'')))"

definition worker_lifecycle_state_for_public_state ::
  "string option \<Rightarrow> string option \<Rightarrow> bool \<Rightarrow> lifecycle option" where
  "worker_lifecycle_state_for_public_state status action timeout_origin =
     (case dimensions_from_public_state status action timeout_origin of
        Inl _ \<Rightarrow> None
      | Inr d \<Rightarrow> worker_lifecycle_state_for_dimensions d)"

definition worker_failed_lifecycle_state :: "bool \<Rightarrow> bool \<Rightarrow> lifecycle" where
  "worker_failed_lifecycle_state retryable retry_available =
     (case make_dimensions St_Failed Act_Retry (retryable \<and> retry_available) False of
        Inl _ \<Rightarrow> Failed_Terminal
      | Inr d \<Rightarrow> (case worker_lifecycle_state_for_dimensions d of
                   None \<Rightarrow> Failed_Terminal | Some l \<Rightarrow> l))"

definition worker_timeout_lifecycle_state :: "string option \<Rightarrow> bool \<Rightarrow> lifecycle" where
  "worker_timeout_lifecycle_state status retry_available =
     (case dimensions_timeout status retry_available of
        Inl _ \<Rightarrow> Timeout_Terminal
      | Inr d \<Rightarrow> (case worker_lifecycle_state_for_dimensions d of
                   None \<Rightarrow> Timeout_Terminal | Some l \<Rightarrow> l))"

definition worker_result_lifecycle_state :: "string option \<Rightarrow> lifecycle" where
  "worker_result_lifecycle_state status =
     (let s = short_status_opt status;
          s' = (if s \<in> {Some ''aborted'', Some ''blocked'', Some ''done'', Some ''failed'', Some ''timeout''}
                then s else Some ''failed'')
      in case worker_lifecycle_state_for_status_alias s' of
           None \<Rightarrow> Failed_Terminal | Some l \<Rightarrow> l)"

definition is_blocked_status :: "string option \<Rightarrow> bool" where
  "is_blocked_status status \<longleftrightarrow> short_status_opt status = Some ''blocked''"

definition is_terminal_status :: "string option \<Rightarrow> bool" where
  "is_terminal_status status \<longleftrightarrow>
     (case short_status_opt status of None \<Rightarrow> False | Some s \<Rightarrow> s \<in> set TERMINAL_WORKER_STATUSES)"

definition is_runnable_status :: "string option \<Rightarrow> bool" where
  "is_runnable_status status \<longleftrightarrow> \<not> is_terminal_status status \<and> \<not> is_blocked_status status"

definition is_dependency_blockable_status :: "string option \<Rightarrow> bool" where
  "is_dependency_blockable_status status = is_runnable_status status"

definition is_failed_dependency_status :: "string option \<Rightarrow> bool" where
  "is_failed_dependency_status status \<longleftrightarrow>
     (case short_status_opt status of None \<Rightarrow> False | Some s \<Rightarrow> s \<in> set FAILED_DEPENDENCY_STATUSES)"

section \<open>Names\<close>

lemma lifecycle_of_name_name [simp]: "lifecycle_of_name (lifecycle_name l) = Some l"
  by (cases l) (simp_all add: lifecycle_of_name_def all_lifecycles_def)

lemma lifecycle_of_nameD: "lifecycle_of_name s = Some l \<Longrightarrow> lifecycle_name l = s"
  by (auto simp: lifecycle_of_name_def find_Some_iff)

lemma lifecycle_of_name_iff: "lifecycle_of_name s = Some l \<longleftrightarrow> s = lifecycle_name l"
  using lifecycle_of_nameD by auto

lemma lifecycle_name_inj [simp]: "lifecycle_name a = lifecycle_name b \<longleftrightarrow> a = b"
  by (metis lifecycle_of_name_name option.inject)

lemma status_of_name_name [simp]: "status_of_name (status_name s) = Some s"
  by (cases s) (simp_all add: status_of_name_def all_statuses_def)

lemma status_of_nameD: "status_of_name s = Some x \<Longrightarrow> status_name x = s"
  by (auto simp: status_of_name_def find_Some_iff)

lemma action_of_name_name [simp]: "action_of_name (action_name a) = Some a"
  by (cases a) (simp_all add: action_of_name_def all_actions_def)

lemma short_status_status_name [simp]: "short_status_str (status_name s) = status_name s"
  by (cases s) simp_all

lemma all_lifecycles_complete [simp]: "set all_lifecycles = UNIV"
proof -
  have "l \<in> set all_lifecycles" for l by (cases l) (simp_all add: all_lifecycles_def)
  then show ?thesis by auto
qed

section \<open>The derived tables, row by row\<close>

lemmas lifecycle_tables = lifecycle_metadata_def lifecycle_metadata_table_def lifecycle_table_def
  lifecycle_row_def metadata_from_row_def row_dimensions_def

lemma lifecycle_metadata_Some: "\<exists>m. lifecycle_metadata l = Some m"
  by (cases l) (simp_all add: lifecycle_tables)

lemma public_worker_state_simps [simp]:
  "public_worker_state None = (None, ''none'')"
  "public_worker_state (Some Queued) = (Some ''queued'', ''start'')"
  "public_worker_state (Some Active_Wait) = (Some ''active'', ''wait'')"
  "public_worker_state (Some Active_Retry) = (Some ''active'', ''retry'')"
  "public_worker_state (Some Blocked_Dependency) = (Some ''blocked'', ''resolve_blocker'')"
  "public_worker_state (Some Blocked_Timeout) = (Some ''blocked'', ''resolve_blocker'')"
  "public_worker_state (Some Done_Collect) = (Some ''done'', ''collect'')"
  "public_worker_state (Some Failed_Retry) = (Some ''failed'', ''retry'')"
  "public_worker_state (Some Failed_Terminal) = (Some ''failed'', ''none'')"
  "public_worker_state (Some Timeout_Retry) = (Some ''timeout'', ''retry'')"
  "public_worker_state (Some Timeout_Terminal) = (Some ''timeout'', ''none'')"
  "public_worker_state (Some Timeout_Failed_Retry) = (Some ''failed'', ''retry'')"
  "public_worker_state (Some Timeout_Failed_Terminal) = (Some ''failed'', ''none'')"
  "public_worker_state (Some Timeout_Aborted) = (Some ''aborted'', ''none'')"
  "public_worker_state (Some Aborted) = (Some ''aborted'', ''none'')"
  by (simp_all add: public_worker_state_def lifecycle_tables public_status_def public_action_def)

lemma terminal_statuses_eq:
  "set TERMINAL_WORKER_STATUSES = {''done'', ''failed'', ''timeout'', ''aborted''}"
  by (simp add: TERMINAL_WORKER_STATUSES_def lifecycle_tables public_status_def) auto

lemma failed_dependency_statuses_eq:
  "set FAILED_DEPENDENCY_STATUSES = {''blocked'', ''failed'', ''timeout'', ''aborted''}"
  by (simp add: FAILED_DEPENDENCY_STATUSES_def lifecycle_tables public_status_def) auto

lemma status_priorities_eq:
  "status_priorities = [(''queued'', 0), (''active'', 1), (''blocked'', 2), (''done'', 3),
     (''failed'', 6), (''timeout'', 4), (''aborted'', 5)]"
  by (simp add: status_priorities_def lifecycle_tables public_status_def dict_set_def)

lemma worker_failed_lifecycle_state_eq:
  "worker_failed_lifecycle_state r a = (if r \<and> a then Failed_Retry else Failed_Terminal)"
  by (simp add: worker_failed_lifecycle_state_def make_dimensions_def
      worker_lifecycle_state_for_dimensions_def lifecycle_tables)

lemma short_status_opt_simps [simp]:
  "short_status_opt None = None"
  "short_status_opt (Some s) = Some (short_status_str s)"
  by (simp_all add: short_status_opt_def)

lemma parse_status_name [simp]: "parse_status (Some (status_name s)) = Inr s"
  by (simp add: parse_status_def)

lemma timeout_dimensions_state:
  "worker_lifecycle_state_for_dimensions \<lparr>dim_status = St_Blocked, dim_action = Act_Resolve_Blocker,
     dim_retryable = False, dim_timeout_origin = True\<rparr> = Some Blocked_Timeout"
  "worker_lifecycle_state_for_dimensions \<lparr>dim_status = St_Aborted, dim_action = Act_None,
     dim_retryable = False, dim_timeout_origin = True\<rparr> = Some Timeout_Aborted"
  "worker_lifecycle_state_for_dimensions \<lparr>dim_status = St_Failed, dim_action = Act_Retry,
     dim_retryable = r, dim_timeout_origin = True\<rparr> =
     Some (if r then Timeout_Failed_Retry else Timeout_Failed_Terminal)"
  "worker_lifecycle_state_for_dimensions \<lparr>dim_status = St_Timeout, dim_action = Act_Retry,
     dim_retryable = r, dim_timeout_origin = True\<rparr> =
     Some (if r then Timeout_Retry else Timeout_Terminal)"
  by (simp_all add: worker_lifecycle_state_for_dimensions_def lifecycle_tables)

lemma worker_timeout_lifecycle_state_eq:
  "worker_timeout_lifecycle_state status r =
     (case parse_status status of
        Inr St_Blocked \<Rightarrow> Blocked_Timeout
      | Inr St_Aborted \<Rightarrow> Timeout_Aborted
      | Inr St_Failed \<Rightarrow> if r then Timeout_Failed_Retry else Timeout_Failed_Terminal
      | _ \<Rightarrow> if r then Timeout_Retry else Timeout_Terminal)"
  by (auto simp: worker_timeout_lifecycle_state_def dimensions_timeout_def make_dimensions_def
      timeout_dimensions_state split: sum.splits wstatus.splits)

lemma status_alias_state:
  "worker_lifecycle_state_for_status_alias (Some (status_name s)) = Some (case s of
     St_Queued \<Rightarrow> Queued | St_Active \<Rightarrow> Active_Wait | St_Blocked \<Rightarrow> Blocked_Dependency
   | St_Done \<Rightarrow> Done_Collect | St_Failed \<Rightarrow> Failed_Terminal | St_Aborted \<Rightarrow> Aborted
   | St_Timeout \<Rightarrow> Timeout_Terminal)"
  by (cases s) (simp_all add: worker_lifecycle_state_for_status_alias_def lifecycle_tables public_status_def)

lemma worker_result_lifecycle_state_range:
  "worker_result_lifecycle_state status \<in>
     {Blocked_Dependency, Done_Collect, Failed_Terminal, Timeout_Terminal, Aborted}"
proof -
  note st_alias = status_alias_state [of St_Aborted] status_alias_state [of St_Blocked]
    status_alias_state [of St_Done] status_alias_state [of St_Failed] status_alias_state [of St_Timeout]
  show ?thesis
    by (simp add: worker_result_lifecycle_state_def Let_def st_alias [simplified])
qed

lemma worker_result_lifecycle_state_done:
  "worker_result_lifecycle_state status = Done_Collect \<longleftrightarrow> short_status_opt status = Some ''done''"
proof -
  note st_alias = status_alias_state [of St_Aborted] status_alias_state [of St_Blocked]
    status_alias_state [of St_Done] status_alias_state [of St_Failed] status_alias_state [of St_Timeout]
  show ?thesis
    by (auto simp: worker_result_lifecycle_state_def Let_def st_alias [simplified])
qed

end
