(* ===== verification/Worker_Fields.thy ===== *)
theory Worker_Fields
  imports Worker_Lifecycle
begin

text \<open>
  \<open>worker_field_spec.py\<close>: the table of worker fields, their defaults, their validators, and the
  groups of field names the rest of the program reads off the table.
\<close>

section \<open>Field names\<close>

datatype wfield =
    F_id | F_role | F_session_id | F_agent | F_model | F_dependencies | F_prompt_ids
  | F_retry_count | F_retry_limit | F_retryable_failures | F_timeout_seconds | F_timeout_policy
  | F_timeout_started_at | F_timed_out_at | F_lifecycle_state | F_failure_category
  | F_failure_reason | F_last_failure_category | F_last_failure_reason | F_blockers | F_output_refs
  | F_name | F_title | F_prompt | F_error | F_failure_retryable | F_manual_retry_required
  | F_cleanup | F_abort | F_attempts | F_result

fun field_name :: "wfield \<Rightarrow> string" where
  "field_name F_id = ''id''"
| "field_name F_role = ''role''"
| "field_name F_session_id = ''session_id''"
| "field_name F_agent = ''agent''"
| "field_name F_model = ''model''"
| "field_name F_dependencies = ''dependencies''"
| "field_name F_prompt_ids = ''prompt_ids''"
| "field_name F_retry_count = ''retry_count''"
| "field_name F_retry_limit = ''retry_limit''"
| "field_name F_retryable_failures = ''retryable_failures''"
| "field_name F_timeout_seconds = ''timeout_seconds''"
| "field_name F_timeout_policy = ''timeout_policy''"
| "field_name F_timeout_started_at = ''timeout_started_at''"
| "field_name F_timed_out_at = ''timed_out_at''"
| "field_name F_lifecycle_state = ''lifecycle_state''"
| "field_name F_failure_category = ''failure_category''"
| "field_name F_failure_reason = ''failure_reason''"
| "field_name F_last_failure_category = ''last_failure_category''"
| "field_name F_last_failure_reason = ''last_failure_reason''"
| "field_name F_blockers = ''blockers''"
| "field_name F_output_refs = ''output_refs''"
| "field_name F_name = ''name''"
| "field_name F_title = ''title''"
| "field_name F_prompt = ''prompt''"
| "field_name F_error = ''error''"
| "field_name F_failure_retryable = ''failure_retryable''"
| "field_name F_manual_retry_required = ''manual_retry_required''"
| "field_name F_cleanup = ''cleanup''"
| "field_name F_abort = ''abort''"
| "field_name F_attempts = ''attempts''"
| "field_name F_result = ''result''"

section \<open>The specification table\<close>

datatype field_validator =
    V_any | V_id | V_int | V_lifecycle_state | V_list | V_timeout_seconds | V_timeout_policy

record worker_field_spec =
  fs_field :: wfield
  fs_annotation :: string
  fs_default :: json
  fs_required :: bool
  fs_validator :: field_validator
  fs_accepted_values :: "string list"
  fs_default_from_worker_id :: bool
  fs_record_update :: bool
  fs_run_upsert :: bool
  fs_removable_transition_field :: bool
  fs_snapshot_replay_field :: bool
  fs_snapshot_set_if_missing :: bool
  fs_snapshot_accepted_abort_passthrough :: bool
  fs_snapshot_prompt_ids :: bool

definition WorkerFieldSpec :: "wfield \<Rightarrow> string \<Rightarrow> worker_field_spec" where
  "WorkerFieldSpec f ann = \<lparr>fs_field = f, fs_annotation = ann, fs_default = JNull,
     fs_required = True, fs_validator = V_any, fs_accepted_values = [],
     fs_default_from_worker_id = False, fs_record_update = False, fs_run_upsert = False,
     fs_removable_transition_field = False, fs_snapshot_replay_field = False,
     fs_snapshot_set_if_missing = False, fs_snapshot_accepted_abort_passthrough = False,
     fs_snapshot_prompt_ids = False\<rparr>"

definition WORKER_FIELD_TIMEOUT_POLICY_STATUSES :: "string list" where
  "WORKER_FIELD_TIMEOUT_POLICY_STATUSES = [''timeout'', ''blocked'', ''failed'', ''aborted'']"

definition WORKER_FIELD_LIFECYCLE_STATES :: "string list" where
  "WORKER_FIELD_LIFECYCLE_STATES = map (\<lambda>r. lifecycle_name (lr_state r)) lifecycle_table"

definition WORKER_FIELD_SPECS :: "worker_field_spec list" where
  "WORKER_FIELD_SPECS =
   [(WorkerFieldSpec F_id ''str'')\<lparr>fs_default_from_worker_id := True, fs_validator := V_id\<rparr>,
    (WorkerFieldSpec F_role ''Optional[str]'')\<lparr>fs_record_update := True, fs_run_upsert := True\<rparr>,
    (WorkerFieldSpec F_session_id ''Optional[str]'')
      \<lparr>fs_record_update := True, fs_run_upsert := True, fs_snapshot_set_if_missing := True\<rparr>,
    (WorkerFieldSpec F_agent ''Optional[str]'')\<lparr>fs_record_update := True, fs_run_upsert := True\<rparr>,
    (WorkerFieldSpec F_model ''Optional[str]'')\<lparr>fs_record_update := True, fs_run_upsert := True\<rparr>,
    (WorkerFieldSpec F_dependencies ''List[str]'')
      \<lparr>fs_default := JList [], fs_validator := V_list, fs_record_update := True,
       fs_run_upsert := True\<rparr>,
    (WorkerFieldSpec F_prompt_ids ''List[str]'')
      \<lparr>fs_default := JList [], fs_validator := V_list, fs_record_update := True,
       fs_run_upsert := True, fs_snapshot_prompt_ids := True\<rparr>,
    (WorkerFieldSpec F_retry_count ''int'')
      \<lparr>fs_default := JInt 0, fs_validator := V_int, fs_record_update := True,
       fs_run_upsert := True, fs_snapshot_replay_field := True\<rparr>,
    (WorkerFieldSpec F_retry_limit ''int'')
      \<lparr>fs_default := JInt 0, fs_validator := V_int, fs_record_update := True,
       fs_run_upsert := True\<rparr>,
    (WorkerFieldSpec F_retryable_failures ''List[str]'')
      \<lparr>fs_default := JList [], fs_validator := V_list, fs_record_update := True,
       fs_run_upsert := True\<rparr>,
    (WorkerFieldSpec F_timeout_seconds ''Optional[float]'')
      \<lparr>fs_validator := V_timeout_seconds, fs_record_update := True, fs_run_upsert := True\<rparr>,
    (WorkerFieldSpec F_timeout_policy ''str'')
      \<lparr>fs_default := JStr ''timeout'', fs_validator := V_timeout_policy,
       fs_accepted_values := WORKER_FIELD_TIMEOUT_POLICY_STATUSES,
       fs_record_update := True, fs_run_upsert := True\<rparr>,
    (WorkerFieldSpec F_timeout_started_at ''JsonValue'')
      \<lparr>fs_record_update := True, fs_snapshot_replay_field := True\<rparr>,
    (WorkerFieldSpec F_timed_out_at ''JsonValue'')
      \<lparr>fs_record_update := True, fs_snapshot_replay_field := True\<rparr>,
    (WorkerFieldSpec F_lifecycle_state ''str'')
      \<lparr>fs_default := JStr ''queued'', fs_validator := V_lifecycle_state,
       fs_accepted_values := WORKER_FIELD_LIFECYCLE_STATES, fs_record_update := True,
       fs_run_upsert := True, fs_snapshot_replay_field := True\<rparr>,
    (WorkerFieldSpec F_failure_category ''Optional[str]'')
      \<lparr>fs_record_update := True, fs_snapshot_replay_field := True\<rparr>,
    (WorkerFieldSpec F_failure_reason ''Optional[str]'')
      \<lparr>fs_record_update := True, fs_snapshot_replay_field := True\<rparr>,
    (WorkerFieldSpec F_last_failure_category ''Optional[str]'')
      \<lparr>fs_record_update := True, fs_snapshot_replay_field := True\<rparr>,
    (WorkerFieldSpec F_last_failure_reason ''Optional[str]'')
      \<lparr>fs_record_update := True, fs_snapshot_replay_field := True\<rparr>,
    (WorkerFieldSpec F_blockers ''List[str]'')
      \<lparr>fs_default := JList [], fs_validator := V_list, fs_record_update := True,
       fs_run_upsert := True, fs_snapshot_replay_field := True\<rparr>,
    (WorkerFieldSpec F_output_refs ''List[str]'')
      \<lparr>fs_default := JList [], fs_validator := V_list, fs_record_update := True,
       fs_run_upsert := True, fs_snapshot_replay_field := True\<rparr>,
    (WorkerFieldSpec F_name ''str'')\<lparr>fs_required := False\<rparr>,
    (WorkerFieldSpec F_title ''str'')\<lparr>fs_required := False\<rparr>,
    (WorkerFieldSpec F_prompt ''str'')
      \<lparr>fs_required := False, fs_record_update := True, fs_run_upsert := True\<rparr>,
    (WorkerFieldSpec F_error ''str'')
      \<lparr>fs_required := False, fs_record_update := True, fs_removable_transition_field := True,
       fs_snapshot_replay_field := True\<rparr>,
    (WorkerFieldSpec F_failure_retryable ''bool'')
      \<lparr>fs_required := False, fs_record_update := True, fs_removable_transition_field := True,
       fs_snapshot_replay_field := True\<rparr>,
    (WorkerFieldSpec F_manual_retry_required ''bool'')
      \<lparr>fs_required := False, fs_record_update := True, fs_removable_transition_field := True,
       fs_snapshot_replay_field := True\<rparr>,
    (WorkerFieldSpec F_cleanup ''JsonObject'')
      \<lparr>fs_required := False, fs_record_update := True, fs_snapshot_replay_field := True,
       fs_snapshot_accepted_abort_passthrough := True\<rparr>,
    (WorkerFieldSpec F_abort ''JsonObject'')
      \<lparr>fs_required := False, fs_record_update := True, fs_snapshot_replay_field := True\<rparr>,
    (WorkerFieldSpec F_attempts ''List[WorkerAttemptRecord]'')
      \<lparr>fs_default := JList [], fs_required := False, fs_validator := V_list,
       fs_record_update := True, fs_snapshot_replay_field := True\<rparr>,
    (WorkerFieldSpec F_result ''JsonObject'')
      \<lparr>fs_required := False, fs_record_update := True, fs_snapshot_replay_field := True\<rparr>]"

definition spec_names :: "(worker_field_spec \<Rightarrow> bool) \<Rightarrow> wfield list" where
  "spec_names p = map fs_field (filter p WORKER_FIELD_SPECS)"

definition WORKER_RECORD_FIELD_NAMES :: "wfield list" where
  "WORKER_RECORD_FIELD_NAMES = map fs_field WORKER_FIELD_SPECS"

definition WORKER_REQUIRED_FIELD_NAMES :: "wfield list" where
  "WORKER_REQUIRED_FIELD_NAMES = spec_names fs_required"

definition WORKER_RECORD_OPTIONAL_FIELD_NAMES :: "wfield list" where
  "WORKER_RECORD_OPTIONAL_FIELD_NAMES = spec_names (\<lambda>s. \<not> fs_required s)"

definition WORKER_RECORD_UPDATE_FIELD_NAMES :: "wfield list" where
  "WORKER_RECORD_UPDATE_FIELD_NAMES = spec_names fs_record_update"

definition WORKER_RUN_UPSERT_FIELD_NAMES :: "wfield list" where
  "WORKER_RUN_UPSERT_FIELD_NAMES = spec_names fs_run_upsert"

definition REMOVABLE_WORKER_TRANSITION_FIELDS :: "wfield list" where
  "REMOVABLE_WORKER_TRANSITION_FIELDS = spec_names fs_removable_transition_field"

definition WORKER_STORAGE_INT_FIELD_NAMES :: "wfield list" where
  "WORKER_STORAGE_INT_FIELD_NAMES = spec_names (\<lambda>s. fs_validator s = V_int)"

definition WORKER_STORAGE_LIST_FIELD_NAMES :: "wfield list" where
  "WORKER_STORAGE_LIST_FIELD_NAMES = spec_names (\<lambda>s. fs_validator s = V_list)"

definition WORKER_STORAGE_TIMEOUT_SECONDS_FIELD_NAMES :: "wfield list" where
  "WORKER_STORAGE_TIMEOUT_SECONDS_FIELD_NAMES = spec_names (\<lambda>s. fs_validator s = V_timeout_seconds)"

definition WORKER_STORAGE_TIMEOUT_POLICY_FIELD_NAMES :: "wfield list" where
  "WORKER_STORAGE_TIMEOUT_POLICY_FIELD_NAMES = spec_names (\<lambda>s. fs_validator s = V_timeout_policy)"

definition WORKER_SNAPSHOT_REPLAY_FIELD_NAMES :: "wfield list" where
  "WORKER_SNAPSHOT_REPLAY_FIELD_NAMES = spec_names fs_snapshot_replay_field"

definition WORKER_SNAPSHOT_SET_IF_MISSING_FIELD_NAMES :: "wfield list" where
  "WORKER_SNAPSHOT_SET_IF_MISSING_FIELD_NAMES = spec_names fs_snapshot_set_if_missing"

definition WORKER_SNAPSHOT_REMOVE_WHEN_ABSENT_FIELD_NAMES :: "wfield list" where
  "WORKER_SNAPSHOT_REMOVE_WHEN_ABSENT_FIELD_NAMES = REMOVABLE_WORKER_TRANSITION_FIELDS"

definition WORKER_SNAPSHOT_ACCEPTED_ABORT_PASSTHROUGH_FIELD_NAMES :: "wfield list" where
  "WORKER_SNAPSHOT_ACCEPTED_ABORT_PASSTHROUGH_FIELD_NAMES =
     spec_names fs_snapshot_accepted_abort_passthrough"

definition WORKER_SNAPSHOT_PROMPT_ID_FIELD_NAMES :: "wfield list" where
  "WORKER_SNAPSHOT_PROMPT_ID_FIELD_NAMES = spec_names fs_snapshot_prompt_ids"

definition field_spec :: "wfield \<Rightarrow> worker_field_spec" where
  "field_spec f = the (find (\<lambda>s. fs_field s = f) WORKER_FIELD_SPECS)"

definition field_of_name :: "string \<Rightarrow> wfield option" where
  "field_of_name n = find (\<lambda>f. field_name f = n) WORKER_RECORD_FIELD_NAMES"

definition is_required :: "wfield \<Rightarrow> bool" where
  "is_required f = fs_required (field_spec f)"

section \<open>Defaults and validators\<close>

definition default_value :: "worker_field_spec \<Rightarrow> json \<Rightarrow> json" where
  "default_value s worker_id = (if fs_default_from_worker_id s then worker_id else fs_default s)"

definition worker_default_snapshot_fields :: "json \<Rightarrow> jdict" where
  "worker_default_snapshot_fields worker_id =
     map (\<lambda>s. (field_name (fs_field s), default_value s worker_id)) (filter fs_required WORKER_FIELD_SPECS)"

fun canonical_id :: "json \<Rightarrow> json result" where
  "canonical_id (JStr s) =
     (if s = [] then Inl (ValueError ''worker id must be a non-empty string'') else Inr (JStr s))"
| "canonical_id _ = Inl (ValueError ''worker id must be a non-empty string'')"

fun canonical_int :: "worker_field_spec \<Rightarrow> json \<Rightarrow> json result" where
  "canonical_int s (JInt i) = Inr (JInt i)"
| "canonical_int s _ = Inl (TypeError (''worker '' @ field_name (fs_field s) @ '' must be an int''))"

fun canonical_list :: "worker_field_spec \<Rightarrow> json \<Rightarrow> json result" where
  "canonical_list s (JList xs) = Inr (JList xs)"
| "canonical_list s _ = Inl (TypeError (''worker '' @ field_name (fs_field s) @ '' must be a list''))"

definition canonical_accepted_value :: "worker_field_spec \<Rightarrow> json \<Rightarrow> json result" where
  "canonical_accepted_value s v =
     (if \<not> py_in v (map JStr (fs_accepted_values s))
      then Inl (ValueError (''worker '' @ field_name (fs_field s) @ '' must be canonical: '' @ py_str v))
      else Inr v)"

text \<open>
  \<open>None\<close>, or a finite positive \<open>int\<close> or \<open>float\<close>; an integral float becomes the \<open>int\<close>.
  \<open>isfinite\<close> converts its argument to a float: an integer that rounds to \<open>2^1024\<close> or more raises.
  (A finite float is below that bound; the datatype's larger rationals are no floats and take the
  same branch.)
\<close>

definition float_overflow :: "int \<Rightarrow> bool" where
  "float_overflow i \<longleftrightarrow> 2 ^ 1024 - 2 ^ 970 \<le> \<bar>i\<bar>"

fun canonical_timeout_seconds :: "worker_field_spec \<Rightarrow> json \<Rightarrow> json result" where
  "canonical_timeout_seconds s JNull = Inr JNull"
| "canonical_timeout_seconds s (JInt i) =
     (if float_overflow i then Inl (OverflowError ''int too large to convert to float'')
      else if i \<le> 0 then Inl (ValueError (''worker '' @ field_name (fs_field s) @ '' must be a positive number or None''))
      else Inr (JInt i))"
| "canonical_timeout_seconds s (JFloat (FinFloat r t)) =
     (if float_overflow \<lfloor>r\<rfloor> then Inl (OverflowError ''int too large to convert to float'')
      else if r \<le> 0 then Inl (ValueError (''worker '' @ field_name (fs_field s) @ '' must be a positive number or None''))
      else if of_int \<lfloor>r\<rfloor> = r then Inr (JInt \<lfloor>r\<rfloor>)
      else Inr (JFloat (FinFloat r t)))"
| "canonical_timeout_seconds s (JFloat (NonFinite t)) =
     Inl (ValueError (''worker '' @ field_name (fs_field s) @ '' must be a positive number or None''))"
| "canonical_timeout_seconds s _ =
     Inl (TypeError (''worker '' @ field_name (fs_field s) @ '' must be a positive number or None''))"

definition spec_canonical_value :: "worker_field_spec \<Rightarrow> json \<Rightarrow> json result" where
  "spec_canonical_value s v =
     (case fs_validator s of
        V_any \<Rightarrow> Inr v
      | V_id \<Rightarrow> canonical_id v
      | V_int \<Rightarrow> canonical_int s v
      | V_lifecycle_state \<Rightarrow> canonical_accepted_value s v
      | V_list \<Rightarrow> canonical_list s v
      | V_timeout_seconds \<Rightarrow> canonical_timeout_seconds s v
      | V_timeout_policy \<Rightarrow> canonical_accepted_value s v)"

definition canonical_value :: "wfield \<Rightarrow> json \<Rightarrow> json result" where
  "canonical_value f v = spec_canonical_value (field_spec f) v"

section \<open>The table, evaluated\<close>

lemmas field_table = WORKER_FIELD_SPECS_def WorkerFieldSpec_def spec_names_def

lemma record_field_names_eq:
  "WORKER_RECORD_FIELD_NAMES =
    [F_id, F_role, F_session_id, F_agent, F_model, F_dependencies, F_prompt_ids, F_retry_count,
     F_retry_limit, F_retryable_failures, F_timeout_seconds, F_timeout_policy, F_timeout_started_at,
     F_timed_out_at, F_lifecycle_state, F_failure_category, F_failure_reason, F_last_failure_category,
     F_last_failure_reason, F_blockers, F_output_refs, F_name, F_title, F_prompt, F_error,
     F_failure_retryable, F_manual_retry_required, F_cleanup, F_abort, F_attempts, F_result]"
  by (simp add: WORKER_RECORD_FIELD_NAMES_def field_table)

lemma required_field_names_eq:
  "WORKER_REQUIRED_FIELD_NAMES =
    [F_id, F_role, F_session_id, F_agent, F_model, F_dependencies, F_prompt_ids, F_retry_count,
     F_retry_limit, F_retryable_failures, F_timeout_seconds, F_timeout_policy, F_timeout_started_at,
     F_timed_out_at, F_lifecycle_state, F_failure_category, F_failure_reason, F_last_failure_category,
     F_last_failure_reason, F_blockers, F_output_refs]"
  by (simp add: WORKER_REQUIRED_FIELD_NAMES_def field_table)

lemma optional_field_names_eq:
  "WORKER_RECORD_OPTIONAL_FIELD_NAMES =
    [F_name, F_title, F_prompt, F_error, F_failure_retryable, F_manual_retry_required,
     F_cleanup, F_abort, F_attempts, F_result]"
  by (simp add: WORKER_RECORD_OPTIONAL_FIELD_NAMES_def field_table)

lemma removable_fields_eq:
  "REMOVABLE_WORKER_TRANSITION_FIELDS = [F_error, F_failure_retryable, F_manual_retry_required]"
  by (simp add: REMOVABLE_WORKER_TRANSITION_FIELDS_def field_table)

lemma snapshot_replay_fields_eq:
  "WORKER_SNAPSHOT_REPLAY_FIELD_NAMES =
    [F_retry_count, F_timeout_started_at, F_timed_out_at, F_lifecycle_state, F_failure_category,
     F_failure_reason, F_last_failure_category, F_last_failure_reason, F_blockers, F_output_refs,
     F_error, F_failure_retryable, F_manual_retry_required, F_cleanup, F_abort, F_attempts, F_result]"
  by (simp add: WORKER_SNAPSHOT_REPLAY_FIELD_NAMES_def field_table)

lemma snapshot_single_fields_eq:
  "WORKER_SNAPSHOT_SET_IF_MISSING_FIELD_NAMES = [F_session_id]"
  "WORKER_SNAPSHOT_ACCEPTED_ABORT_PASSTHROUGH_FIELD_NAMES = [F_cleanup]"
  "WORKER_SNAPSHOT_PROMPT_ID_FIELD_NAMES = [F_prompt_ids]"
  by (simp_all add: WORKER_SNAPSHOT_SET_IF_MISSING_FIELD_NAMES_def
      WORKER_SNAPSHOT_ACCEPTED_ABORT_PASSTHROUGH_FIELD_NAMES_def
      WORKER_SNAPSHOT_PROMPT_ID_FIELD_NAMES_def field_table)

lemma record_field_names_complete [simp]: "set WORKER_RECORD_FIELD_NAMES = UNIV"
proof -
  have "f \<in> set WORKER_RECORD_FIELD_NAMES" for f
    by (cases f) (simp_all add: record_field_names_eq)
  then show ?thesis by auto
qed

lemma field_of_name_name [simp]: "field_of_name (field_name f) = Some f"
  by (cases f) (simp_all add: field_of_name_def record_field_names_eq)

lemma field_of_nameD: "field_of_name n = Some f \<Longrightarrow> field_name f = n"
  by (auto simp: field_of_name_def find_Some_iff)

lemma field_name_inj [simp]: "field_name a = field_name b \<longleftrightarrow> a = b"
  by (metis field_of_name_name option.inject)

lemma is_required_iff: "is_required f \<longleftrightarrow> f \<in> set WORKER_REQUIRED_FIELD_NAMES"
  by (cases f) (simp_all add: is_required_def field_spec_def required_field_names_eq field_table)

lemma optional_iff: "f \<in> set WORKER_RECORD_OPTIONAL_FIELD_NAMES \<longleftrightarrow> \<not> is_required f"
  by (cases f) (simp_all add: is_required_def field_spec_def optional_field_names_eq field_table)

lemma field_names_split: "WORKER_RECORD_FIELD_NAMES =
    WORKER_REQUIRED_FIELD_NAMES @ WORKER_RECORD_OPTIONAL_FIELD_NAMES"
  by (simp add: record_field_names_eq required_field_names_eq optional_field_names_eq)

lemma distinct_field_names [simp]:
  "distinct WORKER_REQUIRED_FIELD_NAMES" "distinct WORKER_RECORD_OPTIONAL_FIELD_NAMES"
  by (simp_all add: required_field_names_eq optional_field_names_eq)

lemma is_required_simps [simp]:
  "is_required F_id" "is_required F_role" "is_required F_session_id" "is_required F_agent"
  "is_required F_model" "is_required F_dependencies" "is_required F_prompt_ids"
  "is_required F_retry_count" "is_required F_retry_limit" "is_required F_retryable_failures"
  "is_required F_timeout_seconds" "is_required F_timeout_policy" "is_required F_timeout_started_at"
  "is_required F_timed_out_at" "is_required F_lifecycle_state" "is_required F_failure_category"
  "is_required F_failure_reason" "is_required F_last_failure_category"
  "is_required F_last_failure_reason" "is_required F_blockers" "is_required F_output_refs"
  "\<not> is_required F_name" "\<not> is_required F_title" "\<not> is_required F_prompt"
  "\<not> is_required F_error" "\<not> is_required F_failure_retryable"
  "\<not> is_required F_manual_retry_required" "\<not> is_required F_cleanup" "\<not> is_required F_abort"
  "\<not> is_required F_attempts" "\<not> is_required F_result"
  by (simp_all add: is_required_iff required_field_names_eq)

lemma field_validators [simp]:
  "fs_validator (field_spec f) =
     (if f = F_id then V_id
      else if f \<in> {F_retry_count, F_retry_limit} then V_int
      else if f \<in> {F_dependencies, F_prompt_ids, F_retryable_failures, F_blockers, F_output_refs, F_attempts}
      then V_list
      else if f = F_timeout_seconds then V_timeout_seconds
      else if f = F_timeout_policy then V_timeout_policy
      else if f = F_lifecycle_state then V_lifecycle_state
      else V_any)"
  by (cases f) (simp_all add: field_spec_def field_table)

lemma field_accepted_values [simp]:
  "fs_accepted_values (field_spec F_lifecycle_state) = WORKER_FIELD_LIFECYCLE_STATES"
  "fs_accepted_values (field_spec F_timeout_policy) = WORKER_FIELD_TIMEOUT_POLICY_STATUSES"
  by (simp_all add: field_spec_def field_table)

lemma lifecycle_states_names: "set WORKER_FIELD_LIFECYCLE_STATES = lifecycle_name ` UNIV"
proof -
  have "map lr_state lifecycle_table = all_lifecycles"
    by (simp add: lifecycle_table_def lifecycle_row_def all_lifecycles_def)
  then have "map lifecycle_name (map lr_state lifecycle_table) = map lifecycle_name all_lifecycles"
    by (simp only:)
  then have "WORKER_FIELD_LIFECYCLE_STATES = map lifecycle_name all_lifecycles"
    by (simp add: WORKER_FIELD_LIFECYCLE_STATES_def comp_def)
  then have "set WORKER_FIELD_LIFECYCLE_STATES = lifecycle_name ` set all_lifecycles"
    by (metis list.set_map)
  also have "\<dots> = lifecycle_name ` UNIV"
    by (rule arg_cong [OF all_lifecycles_complete])
  finally show ?thesis .
qed

lemma lifecycle_of_name_range:
  "s \<in> set WORKER_FIELD_LIFECYCLE_STATES \<longleftrightarrow> (\<exists>l. lifecycle_of_name s = Some l)"
  by (auto simp: lifecycle_states_names lifecycle_of_name_iff)

section \<open>Canonical values\<close>

lemma py_in_JStr_map: "py_in v (map JStr ss) \<longleftrightarrow> (\<exists>s \<in> set ss. v = JStr s)"
  by (auto simp: py_in_def list_ex_iff)

lemma canonical_timeout_idem:
  "canonical_timeout_seconds s v = Inr v' \<Longrightarrow> canonical_timeout_seconds s v' = Inr v'"
  by (cases "(s, v)" rule: canonical_timeout_seconds.cases) (auto split: if_splits)

lemma canonical_value_idem: "canonical_value f v = Inr v' \<Longrightarrow> canonical_value f v' = Inr v'"
proof -
  assume c: "canonical_value f v = Inr v'"
  show ?thesis
  proof (cases "f = F_timeout_seconds")
    case True
    with c show ?thesis by (simp add: canonical_value_def spec_canonical_value_def canonical_timeout_idem)
  next
    case False
    with c have "v' = v"
      by (cases v) (auto simp: canonical_value_def spec_canonical_value_def canonical_accepted_value_def
          split: if_splits)
    with c show ?thesis by simp
  qed
qed

lemma canonical_value_simps [simp]:
  "canonical_value F_id v = canonical_id v"
  "canonical_value F_retry_count v = canonical_int (field_spec F_retry_count) v"
  "canonical_value F_retry_limit v = canonical_int (field_spec F_retry_limit) v"
  "canonical_value F_lifecycle_state (JStr (lifecycle_name l)) = Inr (JStr (lifecycle_name l))"
  "f \<in> {F_dependencies, F_prompt_ids, F_retryable_failures, F_blockers, F_output_refs, F_attempts}
     \<Longrightarrow> canonical_value f v = canonical_list (field_spec f) v"
  "f \<notin> {F_id, F_retry_count, F_retry_limit, F_dependencies, F_prompt_ids, F_retryable_failures,
     F_blockers, F_output_refs, F_attempts, F_timeout_seconds, F_timeout_policy, F_lifecycle_state}
     \<Longrightarrow> canonical_value f v = Inr v"
  by (auto simp: canonical_value_def spec_canonical_value_def canonical_accepted_value_def
      py_in_JStr_map lifecycle_states_names)

lemma canonical_lifecycle_iff:
  "canonical_value F_lifecycle_state v = Inr v' \<longleftrightarrow> v' = v \<and> (\<exists>l. v = JStr (lifecycle_name l))"
  by (auto simp: canonical_value_def spec_canonical_value_def canonical_accepted_value_def
      py_in_JStr_map lifecycle_states_names)

lemma canonical_policy_iff:
  "canonical_value F_timeout_policy v = Inr v' \<longleftrightarrow>
     v' = v \<and> (\<exists>s \<in> set WORKER_FIELD_TIMEOUT_POLICY_STATUSES. v = JStr s)"
  by (auto simp: canonical_value_def spec_canonical_value_def canonical_accepted_value_def
      py_in_JStr_map)

lemma canonical_id_iff: "canonical_id v = Inr v' \<longleftrightarrow> v' = v \<and> (\<exists>s. v = JStr s \<and> s \<noteq> [])"
  by (cases v) auto

lemma canonical_int_iff: "canonical_int s v = Inr v' \<longleftrightarrow> v' = v \<and> (\<exists>i. v = JInt i)"
  by (cases v) auto

lemma canonical_list_iff: "canonical_list s v = Inr v' \<longleftrightarrow> v' = v \<and> (\<exists>xs. v = JList xs)"
  by (cases v) auto

lemma default_value_eq:
  "is_required f \<Longrightarrow> default_value (field_spec f) wid =
     (if f = F_id then wid
      else if f \<in> {F_retry_count, F_retry_limit} then JInt 0
      else if f \<in> {F_dependencies, F_prompt_ids, F_retryable_failures, F_blockers, F_output_refs}
      then JList []
      else if f = F_timeout_policy then JStr ''timeout''
      else if f = F_lifecycle_state then JStr ''queued''
      else JNull)"
  by (cases f) (simp_all add: default_value_def field_spec_def field_table)

lemma canonical_default:
  assumes "is_required f" and "wid = JStr s" and "s \<noteq> []"
  shows "canonical_value f (default_value (field_spec f) wid) = Inr (default_value (field_spec f) wid)"
proof -
  have q: "canonical_value F_lifecycle_state (JStr ''queued'') = Inr (JStr ''queued'')"
    using canonical_value_simps(4) [of Queued] by simp
  have t: "canonical_value F_timeout_policy (JStr ''timeout'') = Inr (JStr ''timeout'')"
    by (simp add: canonical_policy_iff WORKER_FIELD_TIMEOUT_POLICY_STATUSES_def)
  have s: "canonical_value F_timeout_seconds JNull = Inr JNull"
    by (simp add: canonical_value_def spec_canonical_value_def)
  from assms show ?thesis
    by (cases f) (simp_all add: default_value_eq q t s)
qed

end
