(* ===== verification/Worker_Record.thy ===== *)
theory Worker_Record
  imports Worker_Fields
begin

text \<open>
  Class \<open>WorkerRecord\<close> of \<open>worker_state.py\<close>: one slot per field of the specification table and
  the set of optional fields that are present. Attribute access \<open>worker.x\<close> is \<open>wr_slots w F_x\<close>.
  A method that mutates the worker returns the new record; where the method raises, the record
  is not observable any more and the result is the exception.
\<close>

section \<open>State\<close>

record worker_record =
  wr_slots :: "wfield \<Rightarrow> json"
  wr_present :: "wfield set"

definition put_field :: "worker_record \<Rightarrow> wfield \<Rightarrow> json \<Rightarrow> worker_record" where
  "put_field w f v = w\<lparr>wr_slots := (wr_slots w)(f := v),
     wr_present := (if is_required f then wr_present w else insert f (wr_present w))\<rparr>"

definition drop_field :: "worker_record \<Rightarrow> wfield \<Rightarrow> worker_record" where
  "drop_field w f = w\<lparr>wr_slots := (wr_slots w)(f := JNull), wr_present := wr_present w - {f}\<rparr>"

definition reset_fields :: "json \<Rightarrow> worker_record" where
  "reset_fields worker_id =
     \<lparr>wr_slots = (\<lambda>f. if is_required f then default_value (field_spec f) worker_id else JNull),
      wr_present = {}\<rparr>"

definition worker_id :: "worker_record \<Rightarrow> json" where
  "worker_id w = wr_slots w F_id"

definition worker_lifecycle :: "worker_record \<Rightarrow> lifecycle option" where
  "worker_lifecycle w =
     (case wr_slots w F_lifecycle_state of JStr s \<Rightarrow> lifecycle_of_name s | _ \<Rightarrow> None)"

section \<open>Field access\<close>

definition raw_field :: "worker_record \<Rightarrow> wfield \<Rightarrow> json \<Rightarrow> json" where
  "raw_field w f dflt =
     (if is_required f then wr_slots w f
      else if f \<in> wr_present w then wr_slots w f else dflt)"

definition set_canonical_field :: "worker_record \<Rightarrow> wfield \<Rightarrow> json \<Rightarrow> worker_record result" where
  "set_canonical_field w f v = res_bind (canonical_value f v) (\<lambda>v'. Inr (put_field w f v'))"

definition PUBLIC_WORKER_STATE_FIELD_NAMES :: "string list" where
  "PUBLIC_WORKER_STATE_FIELD_NAMES = [''status'', ''next_eligible_action'']"

definition set_field_value :: "worker_record \<Rightarrow> string \<Rightarrow> json \<Rightarrow> worker_record result" where
  "set_field_value w name v =
     (if name = [] then Inl (TypeError ''worker field name must be a non-empty string'')
      else if name \<in> set PUBLIC_WORKER_STATE_FIELD_NAMES
      then Inl (ValueError (''worker public field is output-only; use lifecycle_state: '' @ name))
      else case field_of_name name of
             Some f \<Rightarrow> set_canonical_field w f v
           | None \<Rightarrow> Inl (ValueError (''unknown worker field: '' @ name)))"

definition has_compat_field :: "worker_record \<Rightarrow> string \<Rightarrow> bool" where
  "has_compat_field w name =
     (case field_of_name name of
        None \<Rightarrow> False
      | Some f \<Rightarrow> is_required f \<or> f \<in> wr_present w)"

definition remove_field :: "worker_record \<Rightarrow> wfield \<Rightarrow> worker_record result" where
  "remove_field w f =
     (if is_required f then set_canonical_field w f (default_value (field_spec f) (worker_id w))
      else Inr (drop_field w f))"

definition remove_named_field :: "worker_record \<Rightarrow> string \<Rightarrow> worker_record result" where
  "remove_named_field w name =
     (case field_of_name name of None \<Rightarrow> Inr w | Some f \<Rightarrow> remove_field w f)"

definition merge_fields :: "worker_record \<Rightarrow> jdict \<Rightarrow> worker_record result" where
  "merge_fields w flds = res_fold (\<lambda>w' kv. set_field_value w' (fst kv) (snd kv)) w flds"

section \<open>Construction and serialization\<close>

text \<open>\<open>WorkerRecord(worker_id, fields)\<close>\<close>

definition worker_init :: "json \<Rightarrow> jdict \<Rightarrow> worker_record result" where
  "worker_init wid flds =
     res_bind (merge_fields (reset_fields wid) flds) (\<lambda>w.
       if py_truthy (worker_id w) then Inr w else set_canonical_field w F_id wid)"

text \<open>
  \<open>to_snapshot\<close>: every required field, then the optional fields that are present, each in its
  canonical form. (The defaults the method starts from are all overwritten.)
\<close>

definition snapshot_fields :: "worker_record \<Rightarrow> wfield list" where
  "snapshot_fields w =
     WORKER_REQUIRED_FIELD_NAMES @ filter (\<lambda>f. f \<in> wr_present w) WORKER_RECORD_OPTIONAL_FIELD_NAMES"

definition to_snapshot :: "worker_record \<Rightarrow> jdict result" where
  "to_snapshot w = res_map (\<lambda>f. res_bind (canonical_value f (wr_slots w f))
     (\<lambda>v. Inr (field_name f, v))) (snapshot_fields w)"

definition public_worker_state_fields :: "lifecycle option \<Rightarrow> json \<Rightarrow> jdict" where
  "public_worker_state_fields l lifecycle_state =
     [(''lifecycle_state'', lifecycle_state),
      (''status'', (case fst (public_worker_state l) of None \<Rightarrow> JNull | Some s \<Rightarrow> JStr s)),
      (''next_eligible_action'', JStr (snd (public_worker_state l)))]"

definition to_output_dict :: "worker_record \<Rightarrow> jdict result" where
  "to_output_dict w = res_bind (to_snapshot w) (\<lambda>flds.
     Inr (dict_update flds
       (public_worker_state_fields (worker_lifecycle w) (dict_get flds ''lifecycle_state''))))"

definition require_internal_worker :: "jdict \<Rightarrow> jdict result" where
  "require_internal_worker d =
     (if list_all (\<lambda>f. dict_has d (field_name f)) WORKER_REQUIRED_FIELD_NAMES then Inr d
      else Inl (ValueError (''internal worker missing required fields: '' @
        join_with '', '' (map field_name (filter (\<lambda>f. \<not> dict_has d (field_name f)) WORKER_REQUIRED_FIELD_NAMES)))))"

definition to_worker :: "worker_record \<Rightarrow> worker_record result" where
  "to_worker w = res_bind (to_snapshot w) (\<lambda>normalized.
     res_bind (require_internal_worker normalized) (\<lambda>flds. worker_init (worker_id w) flds))"

definition replace_fields :: "worker_record \<Rightarrow> worker_record \<Rightarrow> worker_record result" where
  "replace_fields w other =
     res_bind (to_snapshot other) (\<lambda>flds. merge_fields (reset_fields (worker_id w)) flds)"

definition from_worker :: "worker_record \<Rightarrow> json \<Rightarrow> worker_record result" where
  "from_worker w wid = res_bind (to_snapshot w) (\<lambda>flds.
     worker_init (if py_truthy (worker_id w) then worker_id w else wid) flds)"

definition default_worker_record :: "json \<Rightarrow> worker_record result" where
  "default_worker_record wid = worker_init wid (worker_default_snapshot_fields wid)"

definition deserialize_worker_record :: "worker_record \<Rightarrow> json \<Rightarrow> worker_record result" where
  "deserialize_worker_record w wid = res_bind (from_worker w wid) to_worker"

definition serialize_worker_snapshot :: "worker_record \<Rightarrow> json \<Rightarrow> jdict result" where
  "serialize_worker_snapshot w wid = res_bind (from_worker w wid) to_snapshot"

definition worker_record_for_mutation :: "worker_record option \<Rightarrow> json \<Rightarrow> worker_record result" where
  "worker_record_for_mutation w wid =
     (case w of
        Some r \<Rightarrow> Inr r
      | None \<Rightarrow> if wid \<noteq> JNull then default_worker_record wid
                else Inl (TypeError ''internal worker mutation requires WorkerRecord''))"

section \<open>Updates\<close>

text \<open>
  \<open>update_canonical_fields_from_mapping(fields, skip_none, field_names)\<close>: the named fields that
  the mapping holds, in the order of the names.
\<close>

definition update_canonical_fields_from_mapping ::
  "worker_record \<Rightarrow> jdict \<Rightarrow> bool \<Rightarrow> wfield list \<Rightarrow> worker_record result" where
  "update_canonical_fields_from_mapping w flds skip_none names =
     res_fold (\<lambda>w' f.
       case map_of flds (field_name f) of
         None \<Rightarrow> Inr w'
       | Some v \<Rightarrow> if skip_none \<and> v = JNull then Inr w' else set_canonical_field w' f v)
     w names"

definition update_canonical_fields :: "worker_record \<Rightarrow> jdict \<Rightarrow> worker_record result" where
  "update_canonical_fields w flds =
     (if list_ex (\<lambda>kv. fst kv \<notin> set (map field_name WORKER_RECORD_UPDATE_FIELD_NAMES)) flds
      then Inl (TypeError ''update_canonical_fields() got an unexpected keyword argument'')
      else update_canonical_fields_from_mapping w flds False WORKER_RECORD_UPDATE_FIELD_NAMES)"

definition worker_attempts :: "worker_record \<Rightarrow> json list" where
  "worker_attempts w = (case wr_slots w F_attempts of JList xs \<Rightarrow> xs | _ \<Rightarrow> [])"

definition new_attempt_record :: "worker_record \<Rightarrow> json \<Rightarrow> json list \<Rightarrow> jdict" where
  "new_attempt_record w started_at created_session_ids =
     [(''id'', JStr (''attempt-'' @ nat_text (length (worker_attempts w) + 1))),
      (''session_id'', wr_slots w F_session_id),
      (''created_session_ids'', JList created_session_ids),
      (''status'', JStr ''active''),
      (''started_at'', started_at),
      (''finished_at'', JNull)]"

text \<open>\<open>isinstance(attempt, dict) and attempt.get("id") == attempt_id\<close>\<close>

definition attempt_has_id :: "json \<Rightarrow> json \<Rightarrow> bool" where
  "attempt_has_id aid attempt = (case attempt of JObj d \<Rightarrow> py_eq (dict_get d ''id'') aid | _ \<Rightarrow> False)"

definition append_attempt :: "worker_record \<Rightarrow> jdict \<Rightarrow> worker_record result" where
  "append_attempt w attempt =
     (if attempt = [] then Inr w
      else if list_ex (attempt_has_id (dict_get attempt ''id'')) (worker_attempts w) then Inr w
      else set_canonical_field w F_attempts (JList (worker_attempts w @ [JObj attempt])))"

definition finalize_one :: "json \<Rightarrow> jdict \<Rightarrow> json \<Rightarrow> json" where
  "finalize_one aid flds attempt =
     (if attempt_has_id aid attempt
      then (case attempt of JObj d \<Rightarrow> JObj (dict_update d flds) | _ \<Rightarrow> attempt)
      else attempt)"

definition finalize_attempt :: "worker_record \<Rightarrow> json \<Rightarrow> jdict \<Rightarrow> worker_record result" where
  "finalize_attempt w attempt_id flds =
     (if \<not> py_truthy attempt_id then Inr w
      else if list_ex (attempt_has_id attempt_id) (worker_attempts w)
      then set_canonical_field w F_attempts (JList (map (finalize_one attempt_id flds) (worker_attempts w)))
      else Inr w)"

definition set_session :: "worker_record \<Rightarrow> json \<Rightarrow> json \<Rightarrow> json \<Rightarrow> worker_record result" where
  "set_session w session_id agent model =
     res_bind (set_canonical_field w F_session_id session_id) (\<lambda>w1.
     res_bind (if agent \<noteq> JNull then set_canonical_field w1 F_agent agent else Inr w1) (\<lambda>w2.
     if model \<noteq> JNull then set_canonical_field w2 F_model model else Inr w2))"

definition remember_prompt_id :: "worker_record \<Rightarrow> json \<Rightarrow> worker_record result" where
  "remember_prompt_id w prompt_id =
     (if \<not> nonempty_str prompt_id then Inl (TypeError ''worker prompt_id must be a non-empty string'')
      else case wr_slots w F_prompt_ids of
        JList ids \<Rightarrow> set_canonical_field w F_prompt_ids
          (JList (if py_in prompt_id ids then ids else ids @ [prompt_id]))
      | _ \<Rightarrow> Inl (TypeError ''prompt_ids is not iterable''))"

definition cleanup_dict :: "worker_record \<Rightarrow> jdict" where
  "cleanup_dict w = (case wr_slots w F_cleanup of
     JObj d \<Rightarrow> d | _ \<Rightarrow> [(''requested'', JBool True), (''deleted'', JBool False)])"

definition ensure_cleanup :: "worker_record \<Rightarrow> worker_record" where
  "ensure_cleanup w = (if is_dict (wr_slots w F_cleanup) then w else put_field w F_cleanup (JObj (cleanup_dict w)))"

text \<open>
  The method updates the dictionary that \<open>ensure_cleanup\<close> returns, which is the one the worker
  holds: the slot changes, the set of present fields does not change again.
\<close>

definition remember_session_for_cleanup :: "worker_record \<Rightarrow> json \<Rightarrow> worker_record" where
  "remember_session_for_cleanup w session_id =
     (let w1 = ensure_cleanup w;
          c1 = dict_set ''deleted'' (JBool False) (dict_set ''requested'' (JBool True) (cleanup_dict w1));
          sessions = (case dict_get c1 ''sessions'' of JList xs \<Rightarrow> xs | _ \<Rightarrow> []);
          c2 = dict_set ''sessions'' (JList (append_unique_string sessions session_id)) c1
      in w1\<lparr>wr_slots := (wr_slots w1)(F_cleanup := JObj c2)\<rparr>)"

section \<open>Queries\<close>

definition worker_prompt :: "worker_record \<Rightarrow> string option" where
  "worker_prompt w = (case wr_slots w F_prompt of JNull \<Rightarrow> None | v \<Rightarrow> Some (py_str v))"

definition has_prompt :: "worker_record \<Rightarrow> bool" where
  "has_prompt w = (case worker_prompt w of None \<Rightarrow> False | Some s \<Rightarrow> s \<noteq> [])"

text \<open>
  \<open>retry_available(category)\<close>: the retryable failures form a set, so an unhashable member or an
  unhashable category raises.
\<close>

definition retry_available :: "worker_record \<Rightarrow> json \<Rightarrow> bool result" where
  "retry_available w category =
     (if wr_slots w F_failure_retryable = JBool False then Inr False
      else
        let retryable = (case wr_slots w F_retryable_failures of JList xs \<Rightarrow> xs | _ \<Rightarrow> []) in
        if \<not> list_all hashable retryable then Inl (TypeError ''unhashable type'')
        else if retryable = [] then Inr False
        else
          let cat = (if category \<noteq> JNull then category
                     else if py_truthy (wr_slots w F_failure_category) then wr_slots w F_failure_category
                     else wr_slots w F_last_failure_category) in
          if py_truthy cat \<and> \<not> hashable cat then Inl (TypeError ''unhashable type'')
          else if py_truthy cat \<and> \<not> py_in cat retryable \<and> \<not> py_in (JStr ''all'') retryable
          then Inr False
          else case (wr_slots w F_retry_count, wr_slots w F_retry_limit) of
                 (JInt n, JInt m) \<Rightarrow> Inr (n < m)
               | _ \<Rightarrow> Inl (TypeError ''retry budget is not comparable''))"

definition can_execute :: "worker_record \<Rightarrow> bool" where
  "can_execute w \<longleftrightarrow> has_prompt w \<and>
     (case Option.bind (worker_lifecycle w) lifecycle_metadata of
        None \<Rightarrow> False
      | Some m \<Rightarrow> lm_executable m)"

definition can_block_for_dependency :: "worker_record \<Rightarrow> bool" where
  "can_block_for_dependency w \<longleftrightarrow> has_prompt w \<and>
     (case Option.bind (worker_lifecycle w) lifecycle_metadata of
        None \<Rightarrow> False
      | Some m \<Rightarrow> is_dependency_blockable_status (Some (public_status (lm_dimensions m))))"

definition worker_status :: "worker_record \<Rightarrow> string option" where
  "worker_status w = fst (public_worker_state (worker_lifecycle w))"

definition next_eligible_worker_action :: "worker_record \<Rightarrow> string" where
  "next_eligible_worker_action w = snd (public_worker_state (worker_lifecycle w))"

definition latest_prompt_ids_are_retry_marker :: "worker_record \<Rightarrow> bool" where
  "latest_prompt_ids_are_retry_marker w \<longleftrightarrow>
     worker_lifecycle w = Some Active_Retry \<and> wr_slots w F_last_failure_category \<noteq> JNull"

section \<open>Well-formed workers\<close>

text \<open>
  The invariant of hydrated workers: every required slot and every present optional slot holds a
  canonical value, only optional fields are recorded as present, and an absent optional slot is
  \<open>None\<close>.
\<close>

definition wf_worker :: "worker_record \<Rightarrow> bool" where
  "wf_worker w \<longleftrightarrow>
     (\<forall>f. is_required f \<or> f \<in> wr_present w \<longrightarrow> canonical_value f (wr_slots w f) = Inr (wr_slots w f))
   \<and> (\<forall>f \<in> wr_present w. \<not> is_required f)
   \<and> (\<forall>f. \<not> is_required f \<and> f \<notin> wr_present w \<longrightarrow> wr_slots w f = JNull)"

lemma slots_put_field [simp]: "wr_slots (put_field w f v) g = (if g = f then v else wr_slots w g)"
  by (simp add: put_field_def)

lemma present_put_field [simp]:
  "wr_present (put_field w f v) = (if is_required f then wr_present w else insert f (wr_present w))"
  by (simp add: put_field_def)

lemma slots_drop_field [simp]: "wr_slots (drop_field w f) g = (if g = f then JNull else wr_slots w g)"
  by (simp add: drop_field_def)

lemma present_drop_field [simp]: "wr_present (drop_field w f) = wr_present w - {f}"
  by (simp add: drop_field_def)

lemma wf_put_field [wf_intros]:
  "wf_worker w \<Longrightarrow> canonical_value f v = Inr v \<Longrightarrow> wf_worker (put_field w f v)"
  by (auto simp: wf_worker_def)

lemma wf_drop_field [wf_intros]:
  "wf_worker w \<Longrightarrow> \<not> is_required f \<Longrightarrow> wf_worker (drop_field w f)"
  by (auto simp: wf_worker_def)

lemma set_canonical_field_Inr:
  "set_canonical_field w f v = Inr w' \<longleftrightarrow> (\<exists>v'. canonical_value f v = Inr v' \<and> w' = put_field w f v')"
  by (auto simp: set_canonical_field_def res_bind_Inr_iff)

lemma set_canonical_field_eq:
  "canonical_value f v = Inr v' \<Longrightarrow> set_canonical_field w f v = Inr (put_field w f v')"
  by (simp add: set_canonical_field_def)

lemma wf_set_canonical_field [wf_intros]:
  "wf_worker w \<Longrightarrow> set_canonical_field w f v = Inr w' \<Longrightarrow> wf_worker w'"
  by (auto simp: set_canonical_field_Inr intro: wf_put_field canonical_value_idem)

lemma set_field_value_name:
  "set_field_value w (field_name f) v = set_canonical_field w f v"
  by (cases f) (simp_all add: set_field_value_def PUBLIC_WORKER_STATE_FIELD_NAMES_def
      field_of_name_def record_field_names_eq)

lemma set_field_value_Inr:
  assumes "set_field_value w name v = Inr w'"
  shows "\<exists>f v'. field_of_name name = Some f \<and> canonical_value f v = Inr v' \<and> w' = put_field w f v'"
  using assms by (auto simp: set_field_value_def set_canonical_field_Inr split: if_splits option.splits)

lemma wf_set_field_value [wf_intros]:
  "wf_worker w \<Longrightarrow> set_field_value w name v = Inr w' \<Longrightarrow> wf_worker w'"
  by (auto dest!: set_field_value_Inr intro: wf_put_field canonical_value_idem)

lemma wf_worker_slot:
  "wf_worker w \<Longrightarrow> is_required f \<or> f \<in> wr_present w \<Longrightarrow> canonical_value f (wr_slots w f) = Inr (wr_slots w f)"
  by (auto simp: wf_worker_def)

lemma wf_worker_id:
  assumes "wf_worker w" obtains s where "worker_id w = JStr s" and "s \<noteq> []"
  using wf_worker_slot [OF assms, of F_id] by (auto simp: worker_id_def canonical_id_iff)

lemma wf_worker_lifecycle:
  assumes "wf_worker w"
  obtains l where "wr_slots w F_lifecycle_state = JStr (lifecycle_name l)"
    and "worker_lifecycle w = Some l"
  using wf_worker_slot [OF assms, of F_lifecycle_state]
  by (auto simp: canonical_lifecycle_iff worker_lifecycle_def)

lemma wf_worker_int:
  assumes "wf_worker w" and "f \<in> {F_retry_count, F_retry_limit}"
  obtains i where "wr_slots w f = JInt i"
  using wf_worker_slot [OF assms(1), of f] assms(2) by (auto simp: canonical_int_iff)

lemma wf_worker_list:
  assumes "wf_worker w"
    and "f \<in> {F_dependencies, F_prompt_ids, F_retryable_failures, F_blockers, F_output_refs}"
  obtains xs where "wr_slots w f = JList xs"
  using wf_worker_slot [OF assms(1), of f] assms(2) by (auto simp: canonical_list_iff)

lemma wf_worker_policy:
  assumes "wf_worker w"
  obtains s where "wr_slots w F_timeout_policy = JStr s"
    and "s \<in> set WORKER_FIELD_TIMEOUT_POLICY_STATUSES"
  using wf_worker_slot [OF assms, of F_timeout_policy] by (auto simp: canonical_policy_iff)

lemma wf_worker_attempts:
  "wf_worker w \<Longrightarrow> wr_slots w F_attempts = JList (worker_attempts w) \<or>
     wr_slots w F_attempts = JNull \<and> worker_attempts w = []"
  using wf_worker_slot [of w F_attempts]
  by (cases "F_attempts \<in> wr_present w") (auto simp: canonical_list_iff worker_attempts_def wf_worker_def)

section \<open>Serialization is faithful\<close>

definition snapshot_of :: "worker_record \<Rightarrow> jdict" where
  "snapshot_of w = map (\<lambda>f. (field_name f, wr_slots w f)) (snapshot_fields w)"

lemma set_snapshot_fields:
  "wf_worker w \<Longrightarrow> set (snapshot_fields w) = {f. is_required f} \<union> wr_present w"
  by (auto simp: snapshot_fields_def optional_iff wf_worker_def simp flip: is_required_iff)

lemma distinct_snapshot_fields: "distinct (snapshot_fields w)"
  by (auto simp: snapshot_fields_def optional_iff is_required_iff [symmetric])

lemma to_snapshot_wf: "wf_worker w \<Longrightarrow> to_snapshot w = Inr (snapshot_of w)"
  unfolding to_snapshot_def snapshot_of_def
  by (rule res_map_Inr) (simp add: set_snapshot_fields wf_worker_slot)

lemma map_of_field_names:
  "map_of (map (\<lambda>f. (field_name f, g f)) fs) (field_name f) = (if f \<in> set fs then Some (g f) else None)"
  by (induction fs) auto

lemma map_of_snapshot_of:
  "wf_worker w \<Longrightarrow> map_of (snapshot_of w) (field_name f) =
     (if is_required f \<or> f \<in> wr_present w then Some (wr_slots w f) else None)"
  by (simp add: snapshot_of_def map_of_field_names set_snapshot_fields)

lemma dict_get_snapshot_of:
  "wf_worker w \<Longrightarrow> dict_get (snapshot_of w) (field_name f) = wr_slots w f"
  by (auto simp: dict_get_def map_of_snapshot_of wf_worker_def)

lemma wf_dict_snapshot_of: "wf_dict (snapshot_of w)"
proof -
  have "map fst (snapshot_of w) = map field_name (snapshot_fields w)"
    by (simp add: snapshot_of_def)
  moreover have "distinct (map field_name (snapshot_fields w))"
    by (simp add: distinct_map distinct_snapshot_fields inj_on_def)
  ultimately show ?thesis by (simp add: wf_dict_def)
qed

lemma require_internal_worker_snapshot:
  "wf_worker w \<Longrightarrow> require_internal_worker (snapshot_of w) = Inr (snapshot_of w)"
  by (auto simp: require_internal_worker_def list_all_iff dict_has_iff_map_of map_of_snapshot_of
      simp flip: is_required_iff)

text \<open>
  Merging a list of canonical fields writes each of them; over a reset record, the fields of a
  snapshot rebuild the worker.
\<close>

lemma merge_fields_list:
  assumes "\<And>f. f \<in> set fs \<Longrightarrow> canonical_value f (g f) = Inr (g f)"
  shows "merge_fields w (map (\<lambda>f. (field_name f, g f)) fs) = Inr (fold (\<lambda>f w'. put_field w' f (g f)) fs w)"
  using assms
  by (induction fs arbitrary: w) (simp_all add: merge_fields_def set_field_value_name set_canonical_field_eq)

lemma fold_put_field:
  "fold (\<lambda>f w'. put_field w' f (g f)) fs w = w
     \<lparr>wr_slots := (\<lambda>f. if f \<in> set fs then g f else wr_slots w f),
      wr_present := wr_present w \<union> {f \<in> set fs. \<not> is_required f}\<rparr>"
proof (induction fs arbitrary: w)
  case (Cons f fs)
  have "insert f A \<union> B = A \<union> insert f B" for A B :: "wfield set" by auto
  with Cons show ?case
    by (auto simp: put_field_def fun_eq_iff intro!: worker_record.equality)
qed simp

lemma merge_snapshot:
  assumes "wf_worker w"
  shows "merge_fields (reset_fields wid) (snapshot_of w) = Inr w"
proof -
  have "merge_fields (reset_fields wid) (snapshot_of w) =
      Inr (fold (\<lambda>f w'. put_field w' f (wr_slots w f)) (snapshot_fields w) (reset_fields wid))"
    unfolding snapshot_of_def
    by (rule merge_fields_list) (use assms in \<open>auto simp: set_snapshot_fields wf_worker_slot\<close>)
  also have "fold (\<lambda>f w'. put_field w' f (wr_slots w f)) (snapshot_fields w) (reset_fields wid) = w"
    using assms
    by (auto simp: fold_put_field set_snapshot_fields reset_fields_def wf_worker_def fun_eq_iff
        intro!: worker_record.equality)
  finally show ?thesis .
qed

lemma worker_init_snapshot: "wf_worker w \<Longrightarrow> worker_init wid (snapshot_of w) = Inr w"
  by (auto simp: worker_init_def merge_snapshot elim!: wf_worker_id)

lemma to_worker_wf [simp]: "wf_worker w \<Longrightarrow> to_worker w = Inr w"
  by (simp add: to_worker_def to_snapshot_wf require_internal_worker_snapshot worker_init_snapshot)

lemma replace_fields_wf: "wf_worker other \<Longrightarrow> replace_fields w other = Inr other"
  by (simp add: replace_fields_def to_snapshot_wf merge_snapshot)

lemma deserialize_wf: "wf_worker w \<Longrightarrow> deserialize_worker_record w wid = Inr w"
  by (simp add: deserialize_worker_record_def from_worker_def to_snapshot_wf worker_init_snapshot)

lemma serialize_wf: "wf_worker w \<Longrightarrow> serialize_worker_snapshot w wid = Inr (snapshot_of w)"
  by (simp add: serialize_worker_snapshot_def from_worker_def to_snapshot_wf worker_init_snapshot)

section \<open>New workers\<close>

lemma wf_reset_fields: "s \<noteq> [] \<Longrightarrow> wf_worker (reset_fields (JStr s))"
  by (auto simp: wf_worker_def reset_fields_def canonical_default)

lemma wf_merge_fields [wf_intros]:
  "wf_worker w \<Longrightarrow> merge_fields w d = Inr w' \<Longrightarrow> wf_worker w'"
  unfolding merge_fields_def
  by (erule res_fold_invariant) (auto intro: wf_intros)

lemma wf_worker_init:
  assumes "s \<noteq> []" and "worker_init (JStr s) d = Inr w" shows "wf_worker w"
proof -
  from assms(2) obtain w1 where w1: "merge_fields (reset_fields (JStr s)) d = Inr w1"
    and r: "(if py_truthy (worker_id w1) then Inr w1 else set_canonical_field w1 F_id (JStr s)) = Inr w"
    by (auto simp: worker_init_def res_bind_Inr_iff)
  have "wf_worker w1" using wf_reset_fields [OF assms(1)] w1 by (rule wf_merge_fields)
  with r show ?thesis by (auto split: if_splits intro: wf_intros)
qed

lemma default_fields_eq:
  "worker_default_snapshot_fields wid =
     map (\<lambda>f. (field_name f, default_value (field_spec f) wid)) WORKER_REQUIRED_FIELD_NAMES"
  by (simp add: worker_default_snapshot_fields_def WORKER_REQUIRED_FIELD_NAMES_def field_table
      field_spec_def)

lemma default_worker_record_eq:
  assumes "s \<noteq> []"
  shows "default_worker_record (JStr s) = Inr (reset_fields (JStr s))"
proof -
  have snap: "snapshot_of (reset_fields (JStr s)) = worker_default_snapshot_fields (JStr s)"
    by (auto simp: snapshot_of_def snapshot_fields_def default_fields_eq reset_fields_def is_required_iff)
  show ?thesis
    using worker_init_snapshot [OF wf_reset_fields [OF assms], of "JStr s"]
    by (simp add: default_worker_record_def snap)
qed

section \<open>Updates keep the invariant\<close>

lemma wf_update_canonical_fields_from_mapping [wf_intros]:
  "wf_worker w \<Longrightarrow> update_canonical_fields_from_mapping w d sk fs = Inr w' \<Longrightarrow> wf_worker w'"
  unfolding update_canonical_fields_from_mapping_def
  by (erule res_fold_invariant) (auto split: option.splits if_splits intro: wf_intros)

lemma wf_update_canonical_fields [wf_intros]:
  "wf_worker w \<Longrightarrow> update_canonical_fields w d = Inr w' \<Longrightarrow> wf_worker w'"
  by (auto simp: update_canonical_fields_def split: if_splits intro: wf_intros)

lemma wf_remove_field [wf_intros]:
  "wf_worker w \<Longrightarrow> remove_field w f = Inr w' \<Longrightarrow> wf_worker w'"
  by (auto simp: remove_field_def split: if_splits intro: wf_intros)

lemma remove_field_total:
  assumes "wf_worker w" shows "\<exists>w'. remove_field w f = Inr w'"
proof -
  obtain s where s: "worker_id w = JStr s" "s \<noteq> []" using wf_worker_id [OF assms] by blast
  show ?thesis
    by (cases "is_required f") (simp_all add: remove_field_def s set_canonical_field_eq canonical_default)
qed

lemma wf_append_attempt [wf_intros]:
  "wf_worker w \<Longrightarrow> append_attempt w a = Inr w' \<Longrightarrow> wf_worker w'"
  by (auto simp: append_attempt_def split: if_splits intro: wf_intros)

lemma wf_finalize_attempt [wf_intros]:
  "wf_worker w \<Longrightarrow> finalize_attempt w aid d = Inr w' \<Longrightarrow> wf_worker w'"
  by (auto simp: finalize_attempt_def split: if_splits intro: wf_intros)

lemma wf_set_session [wf_intros]:
  assumes "wf_worker w" and "set_session w sid agent model = Inr w'" shows "wf_worker w'"
proof -
  from assms(2) obtain w1 w2 where w1: "set_canonical_field w F_session_id sid = Inr w1"
    and w2: "(if agent \<noteq> JNull then set_canonical_field w1 F_agent agent else Inr w1) = Inr w2"
    and w': "(if model \<noteq> JNull then set_canonical_field w2 F_model model else Inr w2) = Inr w'"
    by (auto simp: set_session_def res_bind_Inr_iff simp del: not_None_eq)
  from assms(1) w1 have "wf_worker w1" by (rule wf_set_canonical_field)
  with w2 have "wf_worker w2" by (auto split: if_splits elim: wf_set_canonical_field)
  with w' show ?thesis by (auto split: if_splits elim: wf_set_canonical_field)
qed

lemma wf_remember_prompt_id [wf_intros]:
  assumes "wf_worker w" and "remember_prompt_id w p = Inr w'" shows "wf_worker w'"
proof -
  obtain ids where ids: "wr_slots w F_prompt_ids = JList ids"
    using wf_worker_list [OF assms(1), of F_prompt_ids] by auto
  from assms(2) obtain v where "set_canonical_field w F_prompt_ids v = Inr w'"
    by (auto simp: remember_prompt_id_def ids simp del: canonical_value_simps split: if_splits)
  with assms(1) show ?thesis by (rule wf_set_canonical_field)
qed

lemma wf_put_cleanup: "wf_worker w \<Longrightarrow> wf_worker (put_field w F_cleanup v)"
  by (rule wf_put_field) simp_all

lemma wf_ensure_cleanup [wf_intros]: "wf_worker w \<Longrightarrow> wf_worker (ensure_cleanup w)"
  by (simp add: ensure_cleanup_def wf_put_cleanup)

lemma ensure_cleanup_present: "wf_worker w \<Longrightarrow> F_cleanup \<in> wr_present (ensure_cleanup w)"
proof (cases "is_dict (wr_slots w F_cleanup)")
  case True
  assume "wf_worker w"
  then have "F_cleanup \<notin> wr_present w \<Longrightarrow> wr_slots w F_cleanup = JNull"
    by (simp add: wf_worker_def)
  with True show ?thesis by (cases "F_cleanup \<in> wr_present w") (simp_all add: ensure_cleanup_def)
qed (simp add: ensure_cleanup_def)

lemma update_present_slot:
  "f \<in> wr_present w \<Longrightarrow> \<not> is_required f \<Longrightarrow> w\<lparr>wr_slots := (wr_slots w)(f := v)\<rparr> = put_field w f v"
  by (simp add: put_field_def insert_absorb)

lemma wf_remember_session_for_cleanup [wf_intros]:
  assumes "wf_worker w" shows "wf_worker (remember_session_for_cleanup w sid)"
  using assms
  by (simp add: remember_session_for_cleanup_def Let_def update_present_slot ensure_cleanup_present
      wf_put_cleanup wf_ensure_cleanup)

end
