(* ===== verification/Worker_Transition.thy ===== *)
theory Worker_Transition
  imports Worker_Record
begin

text \<open>
  The transition part of \<open>worker_state.py\<close>: the eleven named transitions with their payloads,
  the table of their legal sources and declared targets, one reducer per transition, the
  invariant that an accepted abort is terminal, and the application of a transition to a worker
  record and to the worker map of a run.
\<close>

section \<open>Names, payloads, transitions\<close>

datatype transition_name =
    T_PROVISIONED | T_ACTIVE | T_ATTEMPT_STARTED | T_FAILED | T_DEPENDENCY_BLOCKED | T_ABORTED
  | T_RETRY_SCHEDULED | T_TIMED_OUT | T_RESULT_APPLIED | T_CLEANUP_UPDATED | T_SNAPSHOT_APPLIED

fun transition_name_str :: "transition_name \<Rightarrow> string" where
  "transition_name_str T_PROVISIONED = ''provisioned''"
| "transition_name_str T_ACTIVE = ''active''"
| "transition_name_str T_ATTEMPT_STARTED = ''attempt_started''"
| "transition_name_str T_FAILED = ''failed''"
| "transition_name_str T_DEPENDENCY_BLOCKED = ''dependency_blocked''"
| "transition_name_str T_ABORTED = ''aborted''"
| "transition_name_str T_RETRY_SCHEDULED = ''retry_scheduled''"
| "transition_name_str T_TIMED_OUT = ''timed_out''"
| "transition_name_str T_RESULT_APPLIED = ''result_applied''"
| "transition_name_str T_CLEANUP_UPDATED = ''cleanup_updated''"
| "transition_name_str T_SNAPSHOT_APPLIED = ''snapshot_applied''"

text \<open>\<open>WorkerSnapshotTransitionPatch\<close>, after its \<open>__post_init__\<close>\<close>

record snapshot_patch =
  sp_worker_id :: string
  sp_fields :: jdict
  sp_target :: "lifecycle option"
  sp_prompt_ids :: "json list option"
  sp_set_if_missing :: jdict
  sp_remove_fields :: "string list"
  sp_stale_recovery_allowed :: bool
  sp_accepted_abort_fields :: jdict
  sp_accepted_abort_prompt_ids :: "json list option"
  sp_source_states :: "lifecycle list"

text \<open>
  The payload classes, in the order of their fields; \<open>None\<close> of a \<open>json option\<close> is
  \<open>UNSET_TRANSITION_FIELD\<close>.
\<close>

datatype transition_payload =
    P_Provisioned json json json
      \<comment> \<open>session_id, agent, model\<close>
  | P_Active "json option" bool
      \<comment> \<open>timeout_started_at, clear_prompt_ids\<close>
  | P_AttemptStarted jdict
      \<comment> \<open>attempt\<close>
  | P_Failed string string bool bool "json option" "json list"
      \<comment> \<open>category, reason, retryable, retry_available, timeout_started_at, prompt_ids\<close>
  | P_DependencyBlocked "json list"
      \<comment> \<open>blockers\<close>
  | P_Aborted json
      \<comment> \<open>abort\<close>
  | P_RetryScheduled string string int "json option" "json list"
      \<comment> \<open>category, reason, retry_count, timeout_started_at, prompt_ids\<close>
  | P_TimedOut string string json bool bool "json option"
      \<comment> \<open>reason, status, timed_out_at, retry_available, manual_retry_required, timeout_started_at\<close>
  | P_ResultApplied jdict "json list" "json option"
      \<comment> \<open>result, prompt_ids, timeout_started_at\<close>
  | P_CleanupUpdated json
      \<comment> \<open>cleanup\<close>
  | P_SnapshotApplied snapshot_patch
      \<comment> \<open>patch\<close>

fun payload_name :: "transition_payload \<Rightarrow> transition_name" where
  "payload_name (P_Provisioned _ _ _) = T_PROVISIONED"
| "payload_name (P_Active _ _) = T_ACTIVE"
| "payload_name (P_AttemptStarted _) = T_ATTEMPT_STARTED"
| "payload_name (P_Failed _ _ _ _ _ _) = T_FAILED"
| "payload_name (P_DependencyBlocked _) = T_DEPENDENCY_BLOCKED"
| "payload_name (P_Aborted _) = T_ABORTED"
| "payload_name (P_RetryScheduled _ _ _ _ _) = T_RETRY_SCHEDULED"
| "payload_name (P_TimedOut _ _ _ _ _ _) = T_TIMED_OUT"
| "payload_name (P_ResultApplied _ _ _) = T_RESULT_APPLIED"
| "payload_name (P_CleanupUpdated _) = T_CLEANUP_UPDATED"
| "payload_name (P_SnapshotApplied _) = T_SNAPSHOT_APPLIED"

record worker_transition =
  wt_worker_id :: string
  wt_name :: transition_name
  wt_payload :: "transition_payload option"
  wt_attempt_finalization :: "(json \<times> jdict) option"

record transition_result =
  tres_applied :: bool
  tres_worker :: worker_record
  tres_reason :: "string option"
  tres_stale_snapshot_recovery :: bool

section \<open>The specification table\<close>

record transition_spec =
  ts_name :: transition_name
  ts_source_states :: "lifecycle list"
  ts_target_states :: "lifecycle list"
  ts_public_lifecycle_transition :: bool
  ts_target_uses_payload :: bool

definition WORKER_TRANSITION_SPECS :: "transition_spec list" where
  "WORKER_TRANSITION_SPECS =
   [\<lparr>ts_name = T_PROVISIONED,
     ts_source_states = [Queued, Active_Wait, Active_Retry, Failed_Retry, Timeout_Retry,
       Timeout_Failed_Retry],
     ts_target_states = [], ts_public_lifecycle_transition = True, ts_target_uses_payload = False\<rparr>,
    \<lparr>ts_name = T_ACTIVE,
     ts_source_states = [Queued, Active_Wait, Active_Retry, Blocked_Dependency, Blocked_Timeout,
       Failed_Retry, Timeout_Retry, Timeout_Failed_Retry],
     ts_target_states = [Active_Wait],
     ts_public_lifecycle_transition = True, ts_target_uses_payload = False\<rparr>,
    \<lparr>ts_name = T_ATTEMPT_STARTED,
     ts_source_states = [Active_Wait],
     ts_target_states = [], ts_public_lifecycle_transition = True, ts_target_uses_payload = False\<rparr>,
    \<lparr>ts_name = T_FAILED,
     ts_source_states = [Queued, Active_Wait, Active_Retry, Failed_Retry, Timeout_Retry,
       Timeout_Failed_Retry],
     ts_target_states = [Failed_Retry, Failed_Terminal],
     ts_public_lifecycle_transition = True, ts_target_uses_payload = True\<rparr>,
    \<lparr>ts_name = T_DEPENDENCY_BLOCKED,
     ts_source_states = [Queued, Active_Wait, Active_Retry],
     ts_target_states = [Blocked_Dependency],
     ts_public_lifecycle_transition = True, ts_target_uses_payload = False\<rparr>,
    \<lparr>ts_name = T_ABORTED,
     ts_source_states = [Queued, Active_Wait, Active_Retry, Blocked_Dependency, Blocked_Timeout,
       Failed_Retry, Timeout_Retry, Timeout_Failed_Retry, Timeout_Aborted, Aborted],
     ts_target_states = [Aborted],
     ts_public_lifecycle_transition = True, ts_target_uses_payload = False\<rparr>,
    \<lparr>ts_name = T_RETRY_SCHEDULED,
     ts_source_states = [Active_Wait, Failed_Retry, Timeout_Retry, Timeout_Failed_Retry],
     ts_target_states = [Active_Retry],
     ts_public_lifecycle_transition = True, ts_target_uses_payload = False\<rparr>,
    \<lparr>ts_name = T_TIMED_OUT,
     ts_source_states = [Active_Wait],
     ts_target_states = [Blocked_Timeout, Timeout_Retry, Timeout_Terminal, Timeout_Failed_Retry,
       Timeout_Failed_Terminal, Timeout_Aborted],
     ts_public_lifecycle_transition = True, ts_target_uses_payload = True\<rparr>,
    \<lparr>ts_name = T_RESULT_APPLIED,
     ts_source_states = [Active_Wait],
     ts_target_states = [Blocked_Dependency, Done_Collect, Failed_Terminal, Timeout_Terminal, Aborted],
     ts_public_lifecycle_transition = True, ts_target_uses_payload = True\<rparr>,
    \<lparr>ts_name = T_CLEANUP_UPDATED,
     ts_source_states = all_lifecycles,
     ts_target_states = [], ts_public_lifecycle_transition = False, ts_target_uses_payload = False\<rparr>,
    \<lparr>ts_name = T_SNAPSHOT_APPLIED,
     ts_source_states = all_lifecycles,
     ts_target_states = [], ts_public_lifecycle_transition = False, ts_target_uses_payload = True\<rparr>]"

definition worker_transition_spec :: "transition_name \<Rightarrow> transition_spec" where
  "worker_transition_spec n = the (find (\<lambda>s. ts_name s = n) WORKER_TRANSITION_SPECS)"

text \<open>
  \<open>_WORKER_SNAPSHOT_TARGET_STATES_BY_SOURCE\<close> and the source states from which a snapshot with a
  given target may be replayed.
\<close>

definition snapshot_target_states :: "lifecycle \<Rightarrow> lifecycle list" where
  "snapshot_target_states source =
     source # concat (map ts_target_states
       (filter (\<lambda>s. source \<in> set (ts_source_states s)) WORKER_TRANSITION_SPECS))"

definition worker_snapshot_replay_source_lifecycle_states :: "lifecycle option \<Rightarrow> lifecycle list" where
  "worker_snapshot_replay_source_lifecycle_states target =
     (case target of
        None \<Rightarrow> all_lifecycles
      | Some t \<Rightarrow> filter (\<lambda>s. t \<in> set (snapshot_target_states s)) all_lifecycles)"

section \<open>Resolving the target state\<close>

definition dict_index :: "jdict \<Rightarrow> string \<Rightarrow> json result" where
  "dict_index d k = (case map_of d k of None \<Rightarrow> Inl (KeyError k) | Some v \<Rightarrow> Inr v)"

definition incompatible_payload :: "transition_name \<Rightarrow> py_error" where
  "incompatible_payload n =
     TypeError (''worker transition has incompatible payload: '' @ transition_name_str n)"

definition require_transition_payload :: "worker_transition \<Rightarrow> transition_payload result" where
  "require_transition_payload tr =
     (case wt_payload tr of
        None \<Rightarrow> Inl (incompatible_payload (wt_name tr))
      | Some p \<Rightarrow> if payload_name p = wt_name tr then Inr p
                  else Inl (incompatible_payload (wt_name tr)))"

fun target_of_payload :: "transition_payload \<Rightarrow> lifecycle option result" where
  "target_of_payload (P_Failed _ _ retryable available _ _) =
     Inr (Some (worker_failed_lifecycle_state retryable available))"
| "target_of_payload (P_TimedOut _ status _ available _ _) =
     Inr (Some (worker_timeout_lifecycle_state (Some status) available))"
| "target_of_payload (P_ResultApplied result _ _) =
     res_bind (dict_index result ''status'')
       (\<lambda>s. Inr (Some (worker_result_lifecycle_state (short_status s))))"
| "target_of_payload (P_SnapshotApplied patch) = Inr (sp_target patch)"
| "target_of_payload _ = Inr None"

definition target_resolver :: "worker_transition \<Rightarrow> lifecycle option result" where
  "target_resolver tr =
     (case wt_name tr of
        T_ACTIVE \<Rightarrow> Inr (Some Active_Wait)
      | T_DEPENDENCY_BLOCKED \<Rightarrow> Inr (Some Blocked_Dependency)
      | T_ABORTED \<Rightarrow> Inr (Some Aborted)
      | T_RETRY_SCHEDULED \<Rightarrow> Inr (Some Active_Retry)
      | n \<Rightarrow> if ts_target_uses_payload (worker_transition_spec n)
             then res_bind (require_transition_payload tr) target_of_payload
             else Inr None)"

definition validate_target :: "transition_name \<Rightarrow> lifecycle option \<Rightarrow> lifecycle option result" where
  "validate_target n target =
     (let targets = ts_target_states (worker_transition_spec n) in
      case target of
        None \<Rightarrow> Inr None
      | Some t \<Rightarrow>
          if targets \<noteq> [] \<and> t \<notin> set targets
          then Inl (ValueError (''worker transition resolved unknown target lifecycle state: '' @ lifecycle_name t))
          else Inr target)"

definition worker_transition_target_lifecycle_state :: "worker_transition \<Rightarrow> lifecycle option result" where
  "worker_transition_target_lifecycle_state tr =
     res_bind (target_resolver tr) (validate_target (wt_name tr))"

section \<open>Legality\<close>

definition abort_is_accepted :: "json \<Rightarrow> bool" where
  "abort_is_accepted abort \<longleftrightarrow> (case abort of JObj d \<Rightarrow> py_truthy (dict_get d ''accepted'') | _ \<Rightarrow> False)"

definition accepted_abort_fields :: "json \<Rightarrow> lifecycle option \<Rightarrow> bool" where
  "accepted_abort_fields abort l \<longleftrightarrow> abort_is_accepted abort \<and> fst (public_worker_state l) = Some ''aborted''"

definition accepted_abort :: "worker_record \<Rightarrow> bool" where
  "accepted_abort w = accepted_abort_fields (wr_slots w F_abort) (worker_lifecycle w)"

definition accepted_abort_terminal_invariant_applies :: "worker_record \<Rightarrow> worker_transition \<Rightarrow> bool" where
  "accepted_abort_terminal_invariant_applies latest tr \<longleftrightarrow>
     accepted_abort latest \<and>
     (wt_name tr = T_SNAPSHOT_APPLIED
      \<or> ts_public_lifecycle_transition (worker_transition_spec (wt_name tr)))"

definition transition_source_lifecycle_states :: "worker_transition \<Rightarrow> lifecycle list result" where
  "transition_source_lifecycle_states tr =
     (if wt_name tr = T_SNAPSHOT_APPLIED
      then res_bind (require_transition_payload tr) (\<lambda>p.
        case p of P_SnapshotApplied patch \<Rightarrow> Inr (sp_source_states patch)
                | _ \<Rightarrow> Inl (incompatible_payload (wt_name tr)))
      else Inr (ts_source_states (worker_transition_spec (wt_name tr))))"

definition worker_transition_is_legal :: "worker_record \<Rightarrow> worker_transition \<Rightarrow> bool result" where
  "worker_transition_is_legal latest tr =
     (if accepted_abort_terminal_invariant_applies latest tr then Inr True
      else res_bind (transition_source_lifecycle_states tr) (\<lambda>sources.
        Inr (case worker_lifecycle latest of None \<Rightarrow> False | Some l \<Rightarrow> l \<in> set sources)))"

section \<open>Shared steps of the reducers\<close>

definition json_of_lifecycle :: "lifecycle option \<Rightarrow> json" where
  "json_of_lifecycle l = (case l of None \<Rightarrow> JNull | Some s \<Rightarrow> JStr (lifecycle_name s))"

definition set_transition_lifecycle_state ::
  "worker_record \<Rightarrow> worker_transition \<Rightarrow> lifecycle option \<Rightarrow> worker_record result" where
  "set_transition_lifecycle_state w tr target =
     res_bind (set_canonical_field w F_id (JStr (wt_worker_id tr))) (\<lambda>w1.
     set_canonical_field w1 F_lifecycle_state (json_of_lifecycle target))"

definition clear_current_status_fields :: "worker_record \<Rightarrow> worker_record result" where
  "clear_current_status_fields w =
     res_bind (set_canonical_field w F_blockers (JList [])) (\<lambda>w1.
     res_bind (update_canonical_fields w1 [(''failure_category'', JNull), (''failure_reason'', JNull)]) (\<lambda>w2.
     res_fold remove_field w2 REMOVABLE_WORKER_TRANSITION_FIELDS))"

definition set_if_not_unset :: "worker_record \<Rightarrow> wfield \<Rightarrow> json option \<Rightarrow> worker_record result" where
  "set_if_not_unset w f v = (case v of None \<Rightarrow> Inr w | Some x \<Rightarrow> set_canonical_field w f x)"

definition merge_value :: "json \<Rightarrow> json list \<Rightarrow> json list" where
  "merge_value v acc = (if py_in v acc then acc else acc @ [v])"

definition merge_values :: "json list \<Rightarrow> json list \<Rightarrow> json list" where
  "merge_values source incoming = fold merge_value incoming (fold merge_value source [])"

definition list_slot :: "worker_record \<Rightarrow> wfield \<Rightarrow> json list" where
  "list_slot w f = (case wr_slots w f of JList xs \<Rightarrow> xs | _ \<Rightarrow> [])"

text \<open>
  \<open>_merge_worker_prompt_ids\<close>: the prompt ids of a worker whose retry is scheduled belong to the
  attempt that failed, so they are dropped instead of merged.
\<close>

definition merge_worker_prompt_ids ::
  "worker_record \<Rightarrow> worker_record \<Rightarrow> json list \<Rightarrow> bool \<Rightarrow> worker_record result" where
  "merge_worker_prompt_ids w latest ids merge_empty =
     (if ids = [] \<and> \<not> merge_empty then Inr w
      else set_canonical_field w F_prompt_ids (JList (merge_values
        (if latest_prompt_ids_are_retry_marker latest then [] else list_slot latest F_prompt_ids) ids)))"

section \<open>The reducers\<close>

fun reduce_provisioned_transition ::
  "worker_record \<Rightarrow> worker_transition \<Rightarrow> json \<Rightarrow> json \<Rightarrow> json \<Rightarrow> worker_record result" where
  "reduce_provisioned_transition latest tr session_id agent model =
     res_bind (to_worker latest) (\<lambda>w.
     res_bind (set_canonical_field w F_id (JStr (wt_worker_id tr))) (\<lambda>w1.
     res_bind (if agent \<noteq> JNull then set_canonical_field w1 F_agent agent else Inr w1) (\<lambda>w2.
     res_bind (if model \<noteq> JNull then set_canonical_field w2 F_model model else Inr w2) (\<lambda>w3.
     if py_truthy session_id \<and> \<not> py_truthy (wr_slots w3 F_session_id)
     then set_canonical_field w3 F_session_id session_id else Inr w3))))"

definition reduce_active_transition ::
  "worker_record \<Rightarrow> worker_transition \<Rightarrow> lifecycle option \<Rightarrow> json option \<Rightarrow> bool \<Rightarrow> worker_record result" where
  "reduce_active_transition latest tr target started clear_prompt_ids =
     res_bind (to_worker latest) (\<lambda>w.
     res_bind (clear_current_status_fields w) (\<lambda>w1.
     res_bind (set_transition_lifecycle_state w1 tr target) (\<lambda>w2.
     res_bind (set_if_not_unset w2 F_timeout_started_at started) (\<lambda>w3.
     if clear_prompt_ids then set_canonical_field w3 F_prompt_ids (JList []) else Inr w3))))"

definition reduce_attempt_started_transition :: "worker_record \<Rightarrow> jdict \<Rightarrow> worker_record result" where
  "reduce_attempt_started_transition latest attempt =
     res_bind (to_worker latest) (\<lambda>w.
     res_bind (append_attempt w attempt) (\<lambda>w1.
     if nonempty_str (dict_get attempt ''user_message_id'')
     then remember_prompt_id w1 (dict_get attempt ''user_message_id'') else Inr w1))"

definition failure_fields :: "string \<Rightarrow> string \<Rightarrow> jdict" where
  "failure_fields category reason =
     [(''error'', JStr reason), (''failure_category'', JStr category), (''failure_reason'', JStr reason),
      (''last_failure_category'', JStr category), (''last_failure_reason'', JStr reason)]"

definition reduce_failed_transition ::
  "worker_record \<Rightarrow> worker_transition \<Rightarrow> lifecycle option \<Rightarrow> string \<Rightarrow> string \<Rightarrow> bool \<Rightarrow>
   json option \<Rightarrow> json list \<Rightarrow> worker_record result" where
  "reduce_failed_transition latest tr target category reason retryable started ids =
     res_bind (to_worker latest) (\<lambda>w.
     res_bind (set_transition_lifecycle_state w tr target) (\<lambda>w1.
     res_bind (update_canonical_fields w1 (failure_fields category reason)) (\<lambda>w2.
     res_bind (set_if_not_unset w2 F_timeout_started_at started) (\<lambda>w3.
     res_bind (remove_field w3 F_manual_retry_required) (\<lambda>w4.
     res_bind (if retryable then remove_field w4 F_failure_retryable
               else set_canonical_field w4 F_failure_retryable (JBool False)) (\<lambda>w5.
     merge_worker_prompt_ids w5 latest ids False))))))"

definition reduce_dependency_blocked_transition ::
  "worker_record \<Rightarrow> worker_transition \<Rightarrow> lifecycle option \<Rightarrow> json list \<Rightarrow> worker_record result" where
  "reduce_dependency_blocked_transition latest tr target blockers =
     res_bind (to_worker latest) (\<lambda>w.
     res_bind (set_transition_lifecycle_state w tr target) (\<lambda>w1.
     set_canonical_field w1 F_blockers (JList blockers)))"

definition reduce_aborted_transition ::
  "worker_record \<Rightarrow> worker_transition \<Rightarrow> lifecycle option \<Rightarrow> json \<Rightarrow> worker_record result" where
  "reduce_aborted_transition latest tr target abort =
     res_bind (to_worker latest) (\<lambda>w.
     res_bind (set_canonical_field w F_id (JStr (wt_worker_id tr))) (\<lambda>w1.
     res_bind (set_canonical_field w1 F_abort abort) (\<lambda>w2.
     if abort_is_accepted abort then set_transition_lifecycle_state w2 tr target else Inr w2)))"

definition reduce_retry_scheduled_transition ::
  "worker_record \<Rightarrow> worker_transition \<Rightarrow> lifecycle option \<Rightarrow> string \<Rightarrow> string \<Rightarrow> int \<Rightarrow>
   json option \<Rightarrow> json list \<Rightarrow> worker_record result" where
  "reduce_retry_scheduled_transition latest tr target category reason n started ids =
     res_bind (to_worker latest) (\<lambda>w.
     res_bind (clear_current_status_fields w) (\<lambda>w1.
     res_bind (set_transition_lifecycle_state w1 tr target) (\<lambda>w2.
     res_bind (update_canonical_fields w2 [(''retry_count'', JInt n),
       (''last_failure_category'', JStr category), (''last_failure_reason'', JStr reason)]) (\<lambda>w3.
     res_bind (set_if_not_unset w3 F_timeout_started_at started) (\<lambda>w4.
     merge_worker_prompt_ids w4 latest ids False)))))"

definition reduce_timed_out_transition ::
  "worker_record \<Rightarrow> worker_transition \<Rightarrow> lifecycle option \<Rightarrow> string \<Rightarrow> string \<Rightarrow> json \<Rightarrow> bool \<Rightarrow>
   json option \<Rightarrow> worker_record result" where
  "reduce_timed_out_transition latest tr target reason status timed_out_at manual started =
     res_bind (to_worker latest) (\<lambda>w.
     res_bind (set_transition_lifecycle_state w tr target) (\<lambda>w1.
     res_bind (update_canonical_fields w1 (failure_fields ''timeout'' reason @
       [(''timed_out_at'', timed_out_at), (''output_refs'', JList [])])) (\<lambda>w2.
     res_bind (if status = ''blocked'' then set_canonical_field w2 F_blockers (JList [JStr ''timeout''])
               else Inr w2) (\<lambda>w3.
     res_bind (set_if_not_unset w3 F_timeout_started_at started) (\<lambda>w4.
     if manual then set_canonical_field w4 F_manual_retry_required (JBool True)
     else remove_field w4 F_manual_retry_required)))))"

text \<open>\<open>payload.result["message_ids"].get("assistant")\<close>\<close>

definition result_assistant_id :: "jdict \<Rightarrow> json result" where
  "result_assistant_id result = res_bind (dict_index result ''message_ids'') (\<lambda>ids.
     case ids of JObj d \<Rightarrow> Inr (dict_get d ''assistant'')
               | _ \<Rightarrow> Inl (AttributeError ''message_ids has no attribute get''))"

definition result_output_refs :: "json \<Rightarrow> json list" where
  "result_output_refs assistant_message_id =
     (if py_truthy assistant_message_id then [JStr (''assistant:'' @ py_str assistant_message_id)] else [])"

definition reduce_result_applied_transition ::
  "worker_record \<Rightarrow> worker_transition \<Rightarrow> lifecycle option \<Rightarrow> jdict \<Rightarrow> json list \<Rightarrow> json option \<Rightarrow>
   worker_record result" where
  "reduce_result_applied_transition latest tr target result ids started =
     res_bind (to_worker latest) (\<lambda>w.
     res_bind (dict_index result ''status'') (\<lambda>status.
     res_bind (set_transition_lifecycle_state w tr target) (\<lambda>w1.
     res_bind (set_canonical_field w1 F_result (JObj result)) (\<lambda>w2.
     res_bind (set_if_not_unset w2 F_timeout_started_at started) (\<lambda>w3.
     res_bind (if short_status status = Some ''done''
               then res_bind (clear_current_status_fields w3) (\<lambda>w4.
                    res_bind (result_assistant_id result) (\<lambda>aid.
                    set_canonical_field w4 F_output_refs (JList (result_output_refs aid))))
               else update_canonical_fields w3 [(''failure_category'', JNull), (''failure_reason'', JNull)]) (\<lambda>w5.
     merge_worker_prompt_ids w5 latest ids False))))))"

definition reduce_cleanup_updated_transition ::
  "worker_record \<Rightarrow> worker_transition \<Rightarrow> json \<Rightarrow> worker_record result" where
  "reduce_cleanup_updated_transition latest tr cleanup =
     res_bind (to_worker latest) (\<lambda>w.
     res_bind (set_canonical_field w F_id (JStr (wt_worker_id tr))) (\<lambda>w1.
     set_canonical_field w1 F_cleanup cleanup))"

text \<open>
  \<open>getattr(worker, name, None)\<close>: the slots, the two properties, and the public methods (whose
  value is only tested for truth, so \<open>True\<close> stands for the bound method).
\<close>

definition WORKER_RECORD_METHOD_NAMES :: "string list" where
  "WORKER_RECORD_METHOD_NAMES =
     [''replace_fields'', ''from_worker'', ''default_snapshot_fields'', ''default_fields'',
      ''lifecycle_set_fields'', ''update_canonical_fields'', ''update_canonical_fields_from_mapping'',
      ''new_attempt_record'', ''append_attempt'', ''finalize_attempt'', ''retry_available'',
      ''scheduling_state'', ''to_snapshot'', ''to_output_dict'', ''to_worker'', ''set_session'',
      ''remember_prompt_id'', ''apply_transition'', ''ensure_cleanup'', ''remember_session_for_cleanup'']"

definition get_named_attr :: "worker_record \<Rightarrow> string \<Rightarrow> json" where
  "get_named_attr w name =
     (case field_of_name name of
        Some f \<Rightarrow> wr_slots w f
      | None \<Rightarrow> if name = ''worker_id'' then worker_id w
                else if name = ''has_prompt'' then JBool (has_prompt w)
                else JBool (name \<in> set WORKER_RECORD_METHOD_NAMES))"

definition set_missing_field :: "worker_record \<Rightarrow> string \<times> json \<Rightarrow> worker_record result" where
  "set_missing_field w kv =
     (if py_truthy (snd kv) \<and> \<not> py_truthy (get_named_attr w (fst kv))
      then set_field_value w (fst kv) (snd kv) else Inr w)"

definition merge_optional_prompt_ids ::
  "worker_record \<Rightarrow> worker_record \<Rightarrow> json list option \<Rightarrow> worker_record result" where
  "merge_optional_prompt_ids w latest ids =
     (case ids of None \<Rightarrow> Inr w | Some xs \<Rightarrow> merge_worker_prompt_ids w latest xs True)"

definition reduce_snapshot_applied_transition ::
  "worker_record \<Rightarrow> worker_transition \<Rightarrow> snapshot_patch \<Rightarrow> worker_record result" where
  "reduce_snapshot_applied_transition latest tr patch =
     res_bind (to_worker latest) (\<lambda>w.
     res_bind (set_canonical_field w F_id (JStr (wt_worker_id tr))) (\<lambda>w1.
     res_bind (merge_fields w1 (sp_fields patch)) (\<lambda>w2.
     res_bind (res_fold remove_named_field w2 (sp_remove_fields patch)) (\<lambda>w3.
     res_bind (merge_optional_prompt_ids w3 latest (sp_prompt_ids patch)) (\<lambda>w4.
     res_fold set_missing_field w4 (sp_set_if_missing patch))))))"

fun spec_reducer ::
  "worker_record \<Rightarrow> worker_transition \<Rightarrow> lifecycle option \<Rightarrow> transition_payload \<Rightarrow> worker_record result" where
  "spec_reducer latest tr target (P_Provisioned sid agent model) =
     reduce_provisioned_transition latest tr sid agent model"
| "spec_reducer latest tr target (P_Active started clear) =
     reduce_active_transition latest tr target started clear"
| "spec_reducer latest tr target (P_AttemptStarted attempt) =
     reduce_attempt_started_transition latest attempt"
| "spec_reducer latest tr target (P_Failed category reason retryable available started ids) =
     reduce_failed_transition latest tr target category reason retryable started ids"
| "spec_reducer latest tr target (P_DependencyBlocked blockers) =
     reduce_dependency_blocked_transition latest tr target blockers"
| "spec_reducer latest tr target (P_Aborted abort) = reduce_aborted_transition latest tr target abort"
| "spec_reducer latest tr target (P_RetryScheduled category reason n started ids) =
     reduce_retry_scheduled_transition latest tr target category reason n started ids"
| "spec_reducer latest tr target (P_TimedOut reason status tat available manual started) =
     reduce_timed_out_transition latest tr target reason status tat manual started"
| "spec_reducer latest tr target (P_ResultApplied result ids started) =
     reduce_result_applied_transition latest tr target result ids started"
| "spec_reducer latest tr target (P_CleanupUpdated cleanup) =
     reduce_cleanup_updated_transition latest tr cleanup"
| "spec_reducer latest tr target (P_SnapshotApplied patch) =
     reduce_snapshot_applied_transition latest tr patch"

section \<open>An accepted abort is terminal\<close>

text \<open>\<open>getattr(payload, "prompt_ids", ())\<close>\<close>

fun payload_prompt_ids :: "transition_payload \<Rightarrow> json list" where
  "payload_prompt_ids (P_Failed _ _ _ _ _ ids) = ids"
| "payload_prompt_ids (P_RetryScheduled _ _ _ _ ids) = ids"
| "payload_prompt_ids (P_ResultApplied _ ids _) = ids"
| "payload_prompt_ids _ = []"

definition json_lifecycle :: "json \<Rightarrow> lifecycle option" where
  "json_lifecycle v = (case v of JStr s \<Rightarrow> lifecycle_of_name s | _ \<Rightarrow> None)"

fun accepted_abort_transition_keeps_reduced_worker :: "transition_payload \<Rightarrow> bool" where
  "accepted_abort_transition_keeps_reduced_worker (P_Aborted abort) = abort_is_accepted abort"
| "accepted_abort_transition_keeps_reduced_worker (P_CleanupUpdated _) = True"
| "accepted_abort_transition_keeps_reduced_worker (P_SnapshotApplied patch) =
     accepted_abort_fields (dict_get (sp_fields patch) ''abort'')
       (json_lifecycle (dict_get (sp_fields patch) ''lifecycle_state''))"
| "accepted_abort_transition_keeps_reduced_worker _ = False"

fun apply_accepted_abort_passthrough ::
  "worker_record \<Rightarrow> worker_record \<Rightarrow> transition_payload \<Rightarrow> worker_record result" where
  "apply_accepted_abort_passthrough w latest (P_SnapshotApplied patch) =
     res_bind (merge_fields w (sp_accepted_abort_fields patch)) (\<lambda>w1.
     merge_optional_prompt_ids w1 latest (sp_accepted_abort_prompt_ids patch))"
| "apply_accepted_abort_passthrough w latest payload =
     merge_worker_prompt_ids w latest (payload_prompt_ids payload) False"

definition accepted_abort_terminal_invariant ::
  "worker_record \<Rightarrow> worker_record \<Rightarrow> transition_payload \<Rightarrow> worker_record result" where
  "accepted_abort_terminal_invariant latest w payload =
     (if \<not> accepted_abort latest \<or> accepted_abort_transition_keeps_reduced_worker payload then Inr w
      else res_bind (to_worker latest) (\<lambda>t. apply_accepted_abort_passthrough t latest payload))"

section \<open>Applying a transition\<close>

definition reduce_worker_transition_payload ::
  "worker_record \<Rightarrow> worker_transition \<Rightarrow> worker_record result" where
  "reduce_worker_transition_payload latest tr =
     res_bind (require_transition_payload tr) (\<lambda>payload.
     res_bind (worker_transition_target_lifecycle_state tr) (\<lambda>target.
     res_bind (spec_reducer latest tr target payload) (\<lambda>w.
     accepted_abort_terminal_invariant latest w payload)))"

definition apply_worker_transition_payload :: "worker_record \<Rightarrow> worker_transition \<Rightarrow> jdict result" where
  "apply_worker_transition_payload latest tr = res_bind (reduce_worker_transition_payload latest tr) to_snapshot"

definition is_stale_snapshot_recovery :: "worker_transition \<Rightarrow> bool" where
  "is_stale_snapshot_recovery tr \<longleftrightarrow> wt_name tr = T_SNAPSHOT_APPLIED \<and>
     (case wt_payload tr of Some (P_SnapshotApplied patch) \<Rightarrow> sp_stale_recovery_allowed patch | _ \<Rightarrow> False)"

text \<open>
  The target that the reason text names: a missing key, a type error or an attribute error of the
  resolver counts as no target; a \<open>ValueError\<close> passes through.
\<close>

definition transition_target_for_reason :: "worker_transition \<Rightarrow> lifecycle option result" where
  "transition_target_for_reason tr =
     (if is_stale_snapshot_recovery tr
      then Inr (case wt_payload tr of Some (P_SnapshotApplied patch) \<Rightarrow> sp_target patch | _ \<Rightarrow> None)
      else case worker_transition_target_lifecycle_state tr of
             Inl (KeyError _) \<Rightarrow> Inr None
           | Inl (TypeError _) \<Rightarrow> Inr None
           | Inl (AttributeError _) \<Rightarrow> Inr None
           | r \<Rightarrow> r)"

definition quoted :: "string \<Rightarrow> string" where
  "quoted s = [char_of (39::nat)] @ s @ [char_of (39::nat)]"

definition source_state_text :: "lifecycle option \<Rightarrow> string" where
  "source_state_text l = (case l of None \<Rightarrow> ''None'' | Some s \<Rightarrow> lifecycle_name s)"

definition illegal_transition_reason :: "worker_record \<Rightarrow> worker_transition \<Rightarrow> string result" where
  "illegal_transition_reason latest tr = res_bind (transition_target_for_reason tr) (\<lambda>target.
     let name = transition_name_str (wt_name tr);
         source = source_state_text (worker_lifecycle latest);
         to = (case target of None \<Rightarrow> [] | Some t \<Rightarrow> '' to lifecycle_state '' @ quoted (lifecycle_name t));
         sources = sort (map lifecycle_name (ts_source_states (worker_transition_spec (wt_name tr))))
     in Inr (if is_stale_snapshot_recovery tr
             then ''stale snapshot ignored for worker '' @ quoted (wt_worker_id tr) @ '': transition '' @
               quoted name @ '' cannot move from lifecycle_state '' @ quoted source @ to
             else ''illegal worker transition '' @ quoted name @ '' for worker '' @ quoted (wt_worker_id tr) @
               '' from lifecycle_state '' @ quoted source @ to @ ''; allowed source states: '' @
               (if sources = [] then ''none'' else join_with '', '' sources)))"

definition finalize_worker_attempt :: "worker_record \<Rightarrow> (json \<times> jdict) option \<Rightarrow> worker_record result" where
  "finalize_worker_attempt w finalization =
     (case finalization of None \<Rightarrow> Inr w | Some (aid, flds) \<Rightarrow> finalize_attempt w aid flds)"

definition reduce_worker_transition :: "worker_record \<Rightarrow> worker_transition \<Rightarrow> transition_result result" where
  "reduce_worker_transition w tr =
     res_bind (to_worker w) (\<lambda>latest.
     res_bind (worker_transition_is_legal latest tr) (\<lambda>legal.
     if \<not> legal
     then res_bind (to_worker latest) (\<lambda>unchanged.
          res_bind (illegal_transition_reason latest tr) (\<lambda>reason.
          Inr \<lparr>tres_applied = False, tres_worker = unchanged, tres_reason = Some reason,
               tres_stale_snapshot_recovery = is_stale_snapshot_recovery tr\<rparr>))
     else res_bind (reduce_worker_transition_payload latest tr) (\<lambda>w0.
          res_bind (finalize_worker_attempt w0 (wt_attempt_finalization tr)) (\<lambda>w1.
          res_bind (to_worker w1) (\<lambda>w2.
          Inr \<lparr>tres_applied = True, tres_worker = w2, tres_reason = None,
               tres_stale_snapshot_recovery = False\<rparr>)))))"

definition apply_transition :: "worker_record \<Rightarrow> worker_transition \<Rightarrow> worker_record result" where
  "apply_transition w tr =
     res_bind (reduce_worker_transition w tr) (\<lambda>res.
     if \<not> tres_applied res \<and> \<not> tres_stale_snapshot_recovery res
     then Inl (WorkerTransitionError (case tres_reason res of None \<Rightarrow> [] | Some r \<Rightarrow> r))
     else res_bind (replace_fields w (tres_worker res)) (\<lambda>w1.
          Inr (if py_truthy (worker_id w1) then w1
               else w1\<lparr>wr_slots := (wr_slots w1)(F_id := JStr (wt_worker_id tr))\<rparr>)))"

type_synonym workers = "(string \<times> worker_record) list"

definition apply_worker_transition :: "workers \<Rightarrow> worker_transition \<Rightarrow> workers result" where
  "apply_worker_transition latest_workers tr =
     res_bind (worker_record_for_mutation (map_of latest_workers (wt_worker_id tr)) (JStr (wt_worker_id tr)))
       (\<lambda>r. res_bind (apply_transition r tr) (\<lambda>r'. Inr (dict_set (wt_worker_id tr) r' latest_workers)))"

end
