(* ===== verification/Worker_Dependencies.thy ===== *)
theory Worker_Dependencies
  imports Worker_Transition
begin

text \<open>
  \<open>worker_dependencies.py\<close>: the dependency order of the workers of a run (depth-first search with
  cycle detection), the blockers of each worker, and the workers that are ready to run. Ids are the
  keys of the run's worker map. A dependency is any value of the worker's list; one that is not a
  string is never a worker.
\<close>

section \<open>The graph\<close>

type_synonym dependency_graph = "(string \<times> json list) list"
type_synonym blocker_map = "(string \<times> json list) list"

definition worker_dependencies :: "worker_record \<Rightarrow> json list" where
  "worker_dependencies w = (case wr_slots w F_dependencies of JList xs \<Rightarrow> xs | _ \<Rightarrow> [])"

definition worker_dependency_graph :: "workers \<Rightarrow> dependency_graph" where
  "worker_dependency_graph workers = map (\<lambda>(i, w). (i, worker_dependencies w)) workers"

definition graph_dependencies :: "dependency_graph \<Rightarrow> string \<Rightarrow> json list" where
  "graph_dependencies graph i = (case map_of graph i of None \<Rightarrow> [] | Some ds \<Rightarrow> ds)"

definition get_worker :: "workers \<Rightarrow> json \<Rightarrow> worker_record option" where
  "get_worker workers dep = (case dep of JStr s \<Rightarrow> map_of workers s | _ \<Rightarrow> None)"

definition sorted_ids :: "workers \<Rightarrow> string list" where
  "sorted_ids workers = sort (map fst workers)"

section \<open>Order and cycles\<close>

record dfs_state =
  dfs_ordered :: "string list"
  dfs_cycles :: "string list list"
  dfs_visited :: "string set"

text \<open>\<open>visiting[visiting.index(x):] + [x]\<close>\<close>

definition cycle_of :: "string list \<Rightarrow> string \<Rightarrow> string list" where
  "cycle_of visiting x = dropWhile (\<lambda>y. y \<noteq> x) visiting @ [x]"

definition unvisiting :: "dependency_graph \<Rightarrow> string list \<Rightarrow> nat" where
  "unvisiting graph visiting = card (set (map fst graph) - set visiting)"

lemma unvisiting_less:
  assumes "x \<in> set (map fst graph)" and "x \<notin> set visiting"
  shows "unvisiting graph (visiting @ [x]) < unvisiting graph visiting"
  unfolding unvisiting_def by (rule psubset_card_mono) (use assms in auto)

function (sequential)
  visit :: "dependency_graph \<Rightarrow> string list \<Rightarrow> json \<Rightarrow> dfs_state \<Rightarrow> dfs_state" and
  visit_all :: "dependency_graph \<Rightarrow> string list \<Rightarrow> json list \<Rightarrow> dfs_state \<Rightarrow> dfs_state" where
  "visit graph visiting (JStr x) s =
     (if x \<in> dfs_visited s then s
      else if x \<in> set visiting then s\<lparr>dfs_cycles := dfs_cycles s @ [cycle_of visiting x]\<rparr>
      else if x \<notin> set (map fst graph) then s
      else let s' = visit_all graph (visiting @ [x]) (graph_dependencies graph x) s
           in s'\<lparr>dfs_visited := insert x (dfs_visited s'), dfs_ordered := dfs_ordered s' @ [x]\<rparr>)"
| "visit graph visiting d s = s"
| "visit_all graph visiting [] s = s"
| "visit_all graph visiting (d # ds) s = visit_all graph visiting ds (visit graph visiting d s)"
  by pat_completeness auto

termination
proof (relation "measures [
    case_sum (\<lambda>(g, vs, d, s). unvisiting g vs) (\<lambda>(g, vs, ds, s). unvisiting g vs),
    case_sum (\<lambda>(g, vs, d, s). 0) (\<lambda>(g, vs, ds, s). Suc (length ds))]", goal_cases)
  case 1
  show ?case by simp
next
  case (2 graph visiting x s)
  then show ?case using unvisiting_less [of x graph visiting] by simp
qed simp_all

definition dfs_start :: dfs_state where
  "dfs_start = \<lparr>dfs_ordered = [], dfs_cycles = [], dfs_visited = {}\<rparr>"

definition dependency_order_and_cycles :: "workers \<Rightarrow> dependency_graph \<Rightarrow> string list \<times> string list list" where
  "dependency_order_and_cycles workers graph =
     (let s = visit_all graph [] (map JStr (sorted_ids workers)) dfs_start
      in (dfs_ordered s, dfs_cycles s))"

section \<open>Blockers\<close>

definition blockable_id :: "workers \<Rightarrow> string \<Rightarrow> bool" where
  "blockable_id workers i = (case map_of workers i of None \<Rightarrow> False | Some w \<Rightarrow> can_block_for_dependency w)"

definition non_runnable_dependency :: "worker_record option \<Rightarrow> bool" where
  "non_runnable_dependency w =
     (case w of None \<Rightarrow> False | Some r \<Rightarrow> is_runnable_status (worker_status r) \<and> \<not> has_prompt r)"

definition add_blocker :: "blocker_map \<Rightarrow> string \<Rightarrow> json \<Rightarrow> blocker_map" where
  "add_blocker m i b = dict_set i ((case map_of m i of None \<Rightarrow> [] | Some bs \<Rightarrow> bs) @ [b]) m"

text \<open>
  \<open>set(cycle[:-1])\<close> has no order; it is taken in the order of the cycle. The order only decides
  the insertion order of the map.
\<close>

definition cycle_blockers :: "workers \<Rightarrow> string list list \<Rightarrow> blocker_map" where
  "cycle_blockers workers cycles =
     fold (\<lambda>cycle m. fold (\<lambda>i m'. if blockable_id workers i
         then add_blocker m' i (JStr (''dependency-cycle:'' @ join_with ''->'' cycle)) else m')
       (remdups (butlast cycle)) m) cycles []"

definition blocker_text :: "string \<Rightarrow> json \<Rightarrow> json" where
  "blocker_text prefix dep = JStr (prefix @ '':'' @ py_str dep)"

definition not_runnable_blockers :: "workers \<Rightarrow> dependency_graph \<Rightarrow> string \<Rightarrow> json list" where
  "not_runnable_blockers workers graph i =
     map (blocker_text ''dependency-not-runnable'')
       (filter (\<lambda>d. non_runnable_dependency (get_worker workers d)) (graph_dependencies graph i))"

definition invalid_graph_blocker_seeds :: "workers \<Rightarrow> dependency_graph \<Rightarrow> string list list \<Rightarrow> blocker_map" where
  "invalid_graph_blocker_seeds workers graph cycles =
     fold (\<lambda>i m. if dict_has m i \<or> \<not> blockable_id workers i \<or> not_runnable_blockers workers graph i = []
                 then m else dict_set i (not_runnable_blockers workers graph i) m)
       (sorted_ids workers) (cycle_blockers workers cycles)"

definition failed_dependency :: "workers \<Rightarrow> json \<Rightarrow> bool" where
  "failed_dependency workers d =
     (case get_worker workers d of None \<Rightarrow> True | Some w \<Rightarrow> is_failed_dependency_status (worker_status w))"

definition failed_dependency_blockers :: "workers \<Rightarrow> dependency_graph \<Rightarrow> string \<Rightarrow> json list" where
  "failed_dependency_blockers workers graph i =
     map (blocker_text ''dependency'') (filter (failed_dependency workers) (graph_dependencies graph i))"

definition dependency_blocker_seeds :: "workers \<Rightarrow> dependency_graph \<Rightarrow> blocker_map" where
  "dependency_blocker_seeds workers graph =
     fold (\<lambda>i m. if \<not> blockable_id workers i \<or> failed_dependency_blockers workers graph i = []
                 then m else dict_set i (failed_dependency_blockers workers graph i) m)
       (sorted_ids workers) []"

text \<open>
  One round of the loop in \<open>_propagate_blocker_maps\<close> for one kind: the new entries, computed
  against the workers blocked before the round.
\<close>

definition propagated_blockers :: "dependency_graph \<Rightarrow> blocker_map \<Rightarrow> string \<Rightarrow> json list" where
  "propagated_blockers graph m i =
     map (blocker_text ''dependency'')
       (filter (\<lambda>d. case d of JStr s \<Rightarrow> dict_has m s | _ \<Rightarrow> False) (graph_dependencies graph i))"

definition newly_blocked :: "workers \<Rightarrow> dependency_graph \<Rightarrow> blocker_map \<Rightarrow> blocker_map" where
  "newly_blocked workers graph m =
     map (\<lambda>i. (i, propagated_blockers graph m i))
       (filter (\<lambda>i. \<not> dict_has m i \<and> blockable_id workers i \<and> propagated_blockers graph m i \<noteq> [])
         (sorted_ids workers))"

definition unblocked :: "workers \<Rightarrow> blocker_map \<Rightarrow> nat" where
  "unblocked workers m = card (set (map fst workers) - set (map fst m))"

lemma unblocked_le: "unblocked workers (m @ newly_blocked workers graph m) \<le> unblocked workers m"
  unfolding unblocked_def by (rule card_mono) auto

lemma unblocked_less:
  assumes "newly_blocked workers graph m \<noteq> []"
  shows "unblocked workers (m @ newly_blocked workers graph m) < unblocked workers m"
proof -
  from assms obtain e where e: "e \<in> set (newly_blocked workers graph m)"
    by (cases "newly_blocked workers graph m") auto
  then have i: "fst e \<in> set (map fst workers)" "fst e \<notin> set (map fst m)"
    by (auto simp: newly_blocked_def sorted_ids_def dict_has_def intro: rev_image_eqI)
  from e have "fst e \<in> set (map fst (m @ newly_blocked workers graph m))" by simp
  with i have "set (map fst workers) - set (map fst (m @ newly_blocked workers graph m))
      \<subset> set (map fst workers) - set (map fst m)" by auto
  then show ?thesis unfolding unblocked_def by (intro psubset_card_mono) simp_all
qed

text \<open>The loop runs for both kinds until neither has a new entry.\<close>

function propagate_blocker_maps ::
  "workers \<Rightarrow> dependency_graph \<Rightarrow> blocker_map \<times> blocker_map \<Rightarrow> blocker_map \<times> blocker_map" where
  "propagate_blocker_maps workers graph (invalid, dep) =
     (if newly_blocked workers graph invalid = [] \<and> newly_blocked workers graph dep = [] then (invalid, dep)
      else propagate_blocker_maps workers graph
        (invalid @ newly_blocked workers graph invalid, dep @ newly_blocked workers graph dep))"
  by pat_completeness auto

termination
proof (relation "measure (\<lambda>(ws, g, invalid, dep). unblocked ws invalid + unblocked ws dep)", goal_cases)
  case (2 workers graph invalid dep)
  then consider "newly_blocked workers graph invalid \<noteq> []" | "newly_blocked workers graph dep \<noteq> []" by blast
  then show ?case
    using unblocked_le [of workers invalid graph] unblocked_le [of workers dep graph]
      unblocked_less [of workers graph invalid] unblocked_less [of workers graph dep]
    by cases (simp_all add: add_less_le_mono add_le_less_mono)
qed simp

definition merge_blockers :: "json list \<Rightarrow> json list \<Rightarrow> json list" where
  "merge_blockers old new = fold (\<lambda>b bs. if b \<in> set bs then bs else bs @ [b]) new old"

definition merge_blocker_maps :: "blocker_map \<Rightarrow> blocker_map \<Rightarrow> blocker_map" where
  "merge_blocker_maps a b =
     fold (\<lambda>(i, bs) m. dict_set i (merge_blockers (case map_of m i of None \<Rightarrow> [] | Some old \<Rightarrow> old) bs) m) (a @ b) []"

section \<open>Ready workers and the analysis\<close>

definition dependencies_done :: "workers \<Rightarrow> dependency_graph \<Rightarrow> string \<Rightarrow> bool" where
  "dependencies_done workers graph i =
     list_all (\<lambda>d. case get_worker workers d of None \<Rightarrow> False | Some w \<Rightarrow> worker_status w = Some ''done'')
       (graph_dependencies graph i)"

definition executable_id :: "workers \<Rightarrow> string \<Rightarrow> bool" where
  "executable_id workers i = (case map_of workers i of None \<Rightarrow> False | Some w \<Rightarrow> can_execute w)"

definition ready_worker_ids :: "workers \<Rightarrow> dependency_graph \<Rightarrow> blocker_map \<Rightarrow> string list" where
  "ready_worker_ids workers graph blockers =
     filter (\<lambda>i. \<not> dict_has blockers i \<and> executable_id workers i \<and> dependencies_done workers graph i)
       (sorted_ids workers)"

record dependency_analysis =
  da_order :: "string list"
  da_ready :: "string list"
  da_blockers :: blocker_map
  da_invalid :: blocker_map
  da_dependency :: blocker_map

text \<open>
  \<open>analyze_worker_dependencies\<close>. The search looks every dependency of every worker up in a set,
  so a dependency that cannot be hashed raises there; nothing else raises.
\<close>

definition analyze_worker_dependencies :: "workers \<Rightarrow> dependency_analysis result" where
  "analyze_worker_dependencies workers =
     (let graph = worker_dependency_graph workers;
          (order, cycles) = dependency_order_and_cycles workers graph;
          (invalid, dep) = propagate_blocker_maps workers graph
            (invalid_graph_blocker_seeds workers graph cycles, dependency_blocker_seeds workers graph);
          blockers = merge_blocker_maps invalid dep
      in if list_ex (\<lambda>(i, ds). list_ex (\<lambda>d. \<not> hashable d) ds) graph
         then Inl (TypeError ''unhashable type'')
         else Inr \<lparr>da_order = order, da_ready = ready_worker_ids workers graph blockers,
                   da_blockers = blockers, da_invalid = invalid, da_dependency = dep\<rparr>)"

end
