(* ===== verification/Dependency_Order.thy ===== *)
theory Dependency_Order
  imports Worker_Dependencies
begin

text \<open>
  The depth-first search of \<open>worker_dependencies.py\<close> is correct: it orders every worker exactly
  once, the cycles it reports are cycles of the dependency graph, it reports none exactly when the
  graph has none, and then every worker comes after the workers it depends on.
\<close>

definition edge :: "dependency_graph \<Rightarrow> string \<Rightarrow> string \<Rightarrow> bool" where
  "edge graph x y \<longleftrightarrow> x \<in> set (map fst graph) \<and> y \<in> set (map fst graph) \<and>
     JStr y \<in> set (graph_dependencies graph x)"

definition edges :: "dependency_graph \<Rightarrow> (string \<times> string) set" where
  "edges graph = {(x, y). edge graph x y}"

section \<open>What a visit does to the state\<close>

definition dfs_ok :: "dependency_graph \<Rightarrow> string list \<Rightarrow> dfs_state \<Rightarrow> bool" where
  "dfs_ok graph visiting s \<longleftrightarrow> distinct (dfs_ordered s) \<and> dfs_visited s = set (dfs_ordered s) \<and>
     dfs_visited s \<subseteq> set (map fst graph) \<and> dfs_visited s \<inter> set visiting = {}"

definition extends :: "dfs_state \<Rightarrow> dfs_state \<Rightarrow> bool" where
  "extends s s' \<longleftrightarrow> dfs_visited s \<subseteq> dfs_visited s' \<and> set (dfs_cycles s) \<subseteq> set (dfs_cycles s')"

lemma extends_refl [simp]: "extends s s"
  by (simp add: extends_def)

lemma extends_trans: "extends s s' \<Longrightarrow> extends s' s'' \<Longrightarrow> extends s s''"
  by (auto simp: extends_def)

lemma extends_no_cycles: "extends s s' \<Longrightarrow> dfs_cycles s' = [] \<Longrightarrow> dfs_cycles s = []"
  by (auto simp: extends_def)

lemma visit_ok:
  "dfs_ok graph visiting s \<Longrightarrow>
     dfs_ok graph visiting (visit graph visiting d s) \<and> extends s (visit graph visiting d s) \<and>
     (\<forall>x. d = JStr x \<and> x \<in> set (map fst graph) \<and> x \<notin> set visiting \<longrightarrow> x \<in> dfs_visited (visit graph visiting d s))"
  "dfs_ok graph visiting s \<Longrightarrow>
     dfs_ok graph visiting (visit_all graph visiting ds s) \<and> extends s (visit_all graph visiting ds s) \<and>
     (\<forall>x. JStr x \<in> set ds \<and> x \<in> set (map fst graph) \<and> x \<notin> set visiting \<longrightarrow>
        x \<in> dfs_visited (visit_all graph visiting ds s))"
proof (induction graph visiting d s and graph visiting ds s rule: visit_visit_all.induct)
  case (1 graph visiting x s)
  show ?case
  proof (cases "x \<in> dfs_visited s \<or> x \<in> set visiting \<or> x \<notin> set (map fst graph)")
    case True
    with 1(2) show ?thesis by (auto simp: dfs_ok_def extends_def)
  next
    case False
    then have new: "x \<notin> dfs_visited s" "x \<notin> set visiting" "x \<in> set (map fst graph)" by auto
    let ?s' = "visit_all graph (visiting @ [x]) (graph_dependencies graph x) s"
    have "dfs_ok graph (visiting @ [x]) s" using 1(2) new by (auto simp: dfs_ok_def)
    then have IH: "dfs_ok graph (visiting @ [x]) ?s' \<and> extends s ?s'"
      using 1(1) new by blast
    moreover have eq: "visit graph visiting (JStr x) s =
        ?s'\<lparr>dfs_visited := insert x (dfs_visited ?s'), dfs_ordered := dfs_ordered ?s' @ [x]\<rparr>"
      using new by (simp add: Let_def)
    ultimately show ?thesis using new unfolding eq by (auto simp: dfs_ok_def extends_def)
  qed
next
  case (4 graph visiting d ds s)
  note IH1 = 4(1) [OF 4(3)]
  then have "dfs_ok graph visiting (visit graph visiting d s)" by blast
  note IH2 = 4(2) [OF this]
  show ?case
  proof (intro conjI allI impI)
    show "dfs_ok graph visiting (visit_all graph visiting (d # ds) s)" using IH2 by simp
    show "extends s (visit_all graph visiting (d # ds) s)"
      using IH1 IH2 extends_trans by simp blast
    fix x assume x: "JStr x \<in> set (d # ds) \<and> x \<in> set (map fst graph) \<and> x \<notin> set visiting"
    show "x \<in> dfs_visited (visit_all graph visiting (d # ds) s)"
    proof (cases "JStr x \<in> set ds")
      case True
      with IH2 x show ?thesis by simp
    next
      case False
      with x have "d = JStr x" by simp
      with IH1 x have "x \<in> dfs_visited (visit graph visiting d s)" by blast
      with IH2 show ?thesis by (auto simp: extends_def)
    qed
  qed
qed simp_all

section \<open>Topological order\<close>

text \<open>
  The ids on a reported cycle are the only ones that may come too late in the order: a dependency
  of an ordered worker either comes before it or is on a reported cycle.
\<close>

definition reported :: "dfs_state \<Rightarrow> string set" where
  "reported s = (\<Union>c \<in> set (dfs_cycles s). set (butlast c))"

definition topological :: "dependency_graph \<Rightarrow> string set \<Rightarrow> string list \<Rightarrow> bool" where
  "topological graph B xs \<longleftrightarrow>
     (\<forall>i < length xs. \<forall>y. edge graph (xs ! i) y \<longrightarrow> y \<in> set (take i xs) \<or> y \<in> B)"

lemma topological_Nil [simp]: "topological graph B []"
  by (simp add: topological_def)

lemma topological_mono: "topological graph A xs \<Longrightarrow> A \<subseteq> B \<Longrightarrow> topological graph B xs"
  by (auto simp: topological_def)

lemma topological_snoc:
  "topological graph B (xs @ [x]) \<longleftrightarrow>
     topological graph B xs \<and> (\<forall>y. edge graph x y \<longrightarrow> y \<in> set xs \<or> y \<in> B)"
proof -
  have "i < length xs \<Longrightarrow> (xs @ [x]) ! i = xs ! i \<and> take i (xs @ [x]) = take i xs" for i
    by (simp add: nth_append)
  then show ?thesis by (auto simp: topological_def less_Suc_eq)
qed

lemma extends_reported: "extends s s' \<Longrightarrow> reported s \<subseteq> reported s'"
  by (auto simp: extends_def reported_def)

lemma reported_cycle_of:
  "x \<in> set visiting \<Longrightarrow> x \<in> reported (s\<lparr>dfs_cycles := dfs_cycles s @ [cycle_of visiting x]\<rparr>)"
proof -
  assume "x \<in> set visiting"
  then have "dropWhile (\<lambda>y. y \<noteq> x) visiting \<noteq> []" by (auto simp: dropWhile_eq_Nil_conv)
  then have "x \<in> set (dropWhile (\<lambda>y. y \<noteq> x) visiting)"
    using hd_dropWhile [of "\<lambda>y. y \<noteq> x" visiting] hd_in_set by metis
  then show ?thesis by (simp add: reported_def cycle_of_def)
qed

lemma visit_topological:
  "dfs_ok graph visiting s \<Longrightarrow> topological graph (reported s) (dfs_ordered s) \<Longrightarrow>
     s' = visit graph visiting d s \<Longrightarrow>
     topological graph (reported s') (dfs_ordered s') \<and>
     (\<forall>x. d = JStr x \<and> x \<in> set (map fst graph) \<longrightarrow> x \<in> dfs_visited s' \<or> x \<in> reported s')"
  "dfs_ok graph visiting s \<Longrightarrow> topological graph (reported s) (dfs_ordered s) \<Longrightarrow>
     s' = visit_all graph visiting ds s \<Longrightarrow>
     topological graph (reported s') (dfs_ordered s') \<and>
     (\<forall>x. JStr x \<in> set ds \<and> x \<in> set (map fst graph) \<longrightarrow> x \<in> dfs_visited s' \<or> x \<in> reported s')"
proof (induction graph visiting d s and graph visiting ds s arbitrary: s' and s' rule: visit_visit_all.induct)
  case (1 graph visiting x s)
  consider (old) "x \<in> dfs_visited s \<or> x \<notin> set visiting \<and> x \<notin> set (map fst graph)"
    | (cycle) "x \<notin> dfs_visited s" "x \<in> set visiting"
    | (new) "x \<notin> dfs_visited s" "x \<notin> set visiting" "x \<in> set (map fst graph)" by blast
  then show ?case
  proof cases
    case old
    then have "s' = s" using 1(4) by auto
    with 1(3) old show ?thesis by blast
  next
    case cycle
    then have s': "s' = s\<lparr>dfs_cycles := dfs_cycles s @ [cycle_of visiting x]\<rparr>" using 1(4) by simp
    have "topological graph (reported s') (dfs_ordered s)"
      using 1(3) by (rule topological_mono) (auto simp: s' reported_def)
    with reported_cycle_of [OF cycle(2), of s] show ?thesis by (simp add: s')
  next
    case new
    define s1 where "s1 = visit_all graph (visiting @ [x]) (graph_dependencies graph x) s"
    have s': "s' = s1\<lparr>dfs_visited := insert x (dfs_visited s1), dfs_ordered := dfs_ordered s1 @ [x]\<rparr>"
      using new 1(4) by (simp add: Let_def s1_def)
    have r: "reported s' = reported s1" by (simp add: s' reported_def)
    have ok: "dfs_ok graph (visiting @ [x]) s" using 1(2) new by (auto simp: dfs_ok_def)
    then have IH: "topological graph (reported s1) (dfs_ordered s1) \<and>
        (\<forall>y. JStr y \<in> set (graph_dependencies graph x) \<and> y \<in> set (map fst graph) \<longrightarrow>
           y \<in> dfs_visited s1 \<or> y \<in> reported s1)"
      using 1(1) [OF new(1,2) _ ok 1(3) s1_def] new(3) by blast
    moreover have "dfs_visited s1 = set (dfs_ordered s1)"
      using visit_ok(2) [OF ok, of "graph_dependencies graph x"] by (simp add: dfs_ok_def s1_def)
    ultimately show ?thesis unfolding r using new by (auto simp: s' topological_snoc edge_def)
  qed
next
  case (4 graph visiting d ds s)
  define s1 where "s1 = visit graph visiting d s"
  have s': "s' = visit_all graph visiting ds s1" using 4(5) by (simp add: s1_def)
  have ok: "dfs_ok graph visiting s1" unfolding s1_def using visit_ok(1) [OF 4(3)] by blast
  have ext: "extends s1 s'" unfolding s' using visit_ok(2) [OF ok, of ds] by blast
  note IH1 = 4(1) [OF 4(3,4) s1_def]
  note IH2 = 4(2) [folded s1_def, OF ok conjunct1 [OF IH1] s']
  from IH1 IH2 ext extends_reported [OF ext] show ?case by (auto simp: extends_def)
qed auto

section \<open>Reported cycles are cycles\<close>

definition real_cycle :: "dependency_graph \<Rightarrow> string list \<Rightarrow> bool" where
  "real_cycle graph c \<longleftrightarrow> 2 \<le> length c \<and> hd c = last c \<and> successively (edge graph) c"

definition on_path :: "dependency_graph \<Rightarrow> string list \<Rightarrow> json list \<Rightarrow> bool" where
  "on_path graph visiting ds \<longleftrightarrow> set visiting \<subseteq> set (map fst graph) \<and> successively (edge graph) visiting \<and>
     (visiting \<noteq> [] \<longrightarrow> set ds \<subseteq> set (graph_dependencies graph (last visiting)))"

lemma cycle_of_real:
  assumes path: "on_path graph visiting [JStr x]" and x: "x \<in> set visiting"
  shows "real_cycle graph (cycle_of visiting x)"
proof -
  from x obtain pre post where split: "visiting = pre @ x # post" "x \<notin> set pre"
    by (meson split_list_first)
  then have c: "cycle_of visiting x = x # post @ [x]"
    by (simp add: cycle_of_def dropWhile_append)
  have s: "successively (edge graph) (x # post)"
    using path split by (simp add: on_path_def successively_append_iff)
  have "last visiting = last (x # post)" using split by simp
  moreover have "JStr x \<in> set (graph_dependencies graph (last visiting))"
    and keys: "set visiting \<subseteq> set (map fst graph)"
    using path x by (auto simp: on_path_def)
  moreover have "last visiting \<in> set visiting" using x by (cases visiting) auto
  ultimately have "edge graph (last (x # post)) x" using x by (auto simp: edge_def)
  then have "successively (edge graph) ((x # post) @ [x])" using s
    by (simp add: successively_append_iff del: append_Cons)
  then show ?thesis by (simp add: c real_cycle_def)
qed

lemma on_path_snoc:
  assumes "on_path graph visiting [JStr x]" and "x \<in> set (map fst graph)"
  shows "on_path graph (visiting @ [x]) (graph_dependencies graph x)"
proof -
  have "visiting \<noteq> [] \<Longrightarrow> last visiting \<in> set visiting" by simp
  with assms show ?thesis by (auto simp: on_path_def successively_append_iff edge_def)
qed

lemma visit_cycles:
  "on_path graph visiting [d] \<Longrightarrow> \<forall>c \<in> set (dfs_cycles s). real_cycle graph c \<Longrightarrow>
     \<forall>c \<in> set (dfs_cycles (visit graph visiting d s)). real_cycle graph c"
  "on_path graph visiting ds \<Longrightarrow> \<forall>c \<in> set (dfs_cycles s). real_cycle graph c \<Longrightarrow>
     \<forall>c \<in> set (dfs_cycles (visit_all graph visiting ds s)). real_cycle graph c"
proof (induction graph visiting d s and graph visiting ds s rule: visit_visit_all.induct)
  case (1 graph visiting x s)
  show ?case
  proof (cases "x \<in> dfs_visited s \<or> x \<in> set visiting \<or> x \<notin> set (map fst graph)")
    case True
    with 1(2,3) cycle_of_real [OF 1(2)] show ?thesis by auto
  next
    case False
    then have new: "x \<notin> dfs_visited s" "x \<notin> set visiting" "x \<in> set (map fst graph)" by auto
    have "\<forall>c \<in> set (dfs_cycles (visit_all graph (visiting @ [x]) (graph_dependencies graph x) s)). real_cycle graph c"
      using 1(1) [OF new(1,2)] new(3) on_path_snoc [OF 1(2) new(3)] 1(3) by blast
    then show ?thesis using new by (simp add: Let_def)
  qed
next
  case (4 graph visiting d ds s)
  have p: "on_path graph visiting [d]" "on_path graph visiting ds" using 4(3) by (auto simp: on_path_def)
  show ?case using 4(2) [OF p(2) 4(1) [OF p(1) 4(4)]] by simp
qed auto

section \<open>The search over all workers\<close>

lemma graph_keys [simp]: "map fst (worker_dependency_graph workers) = map fst workers"
  by (simp add: worker_dependency_graph_def case_prod_unfold)

lemma dependency_search:
  assumes s: "s = visit_all (worker_dependency_graph workers) [] (map JStr (sorted_ids workers)) dfs_start"
  shows "dfs_ok (worker_dependency_graph workers) [] s"
    and "set (dfs_ordered s) = fst ` set workers"
    and "topological (worker_dependency_graph workers) (reported s) (dfs_ordered s)"
    and "c \<in> set (dfs_cycles s) \<Longrightarrow> real_cycle (worker_dependency_graph workers) c"
proof -
  let ?g = "worker_dependency_graph workers"
  have start: "dfs_ok ?g [] dfs_start" by (simp add: dfs_ok_def dfs_start_def)
  note v = visit_ok(2) [OF start, of "map JStr (sorted_ids workers)", folded s]
  show ok: "dfs_ok ?g [] s" using v by blast
  have "fst ` set workers \<subseteq> dfs_visited s"
    using v by (auto simp: sorted_ids_def image_iff)
  with ok show "set (dfs_ordered s) = fst ` set workers"
    by (auto simp: dfs_ok_def)
  show "topological ?g (reported s) (dfs_ordered s)"
    using visit_topological(2) [OF start _ s] by (simp add: dfs_start_def)
  show "real_cycle ?g c" if "c \<in> set (dfs_cycles s)"
    using visit_cycles(2) [of ?g "[]" "map JStr (sorted_ids workers)" dfs_start, folded s] that
    by (simp add: on_path_def dfs_start_def)
qed

section \<open>No reported cycle means an acyclic graph\<close>

lemma topological_acyclic:
  assumes t: "topological graph B xs" and d: "distinct xs" and all: "set xs = set (map fst graph)"
  shows "acyclic {(x, y). edge graph x y \<and> y \<notin> B}" (is "acyclic ?E")
proof -
  define pos where "pos x = (THE i. i < length xs \<and> xs ! i = x)" for x
  have pos: "pos (xs ! i) = i" if "i < length xs" for i
    unfolding pos_def using that d by (intro the_equality) (auto simp: nth_eq_iff_index_eq)
  have less: "pos y < pos x" if "(x, y) \<in> ?E" for x y
  proof -
    from that have e: "edge graph x y" "y \<notin> B" and x: "x \<in> set xs" using all by (auto simp: edge_def)
    from x obtain i where i: "i < length xs" "xs ! i = x" by (auto simp: in_set_conv_nth)
    with t e have "y \<in> set (take i xs)" by (auto simp: topological_def)
    then obtain j where j: "j < i" "xs ! j = y" by (auto simp: in_set_conv_nth)
    with i pos [of i] pos [of j] show ?thesis by auto
  qed
  have "pos y < pos x" if "(x, y) \<in> ?E\<^sup>+" for x y
    using that
  proof (induction rule: trancl_induct)
    case (step y z)
    from step.IH less [OF step.hyps(2)] show ?case by simp
  qed (rule less)
  then show ?thesis unfolding acyclic_def by blast
qed

lemma successively_trancl:
  "successively (edge graph) (x # xs) \<Longrightarrow> xs \<noteq> [] \<Longrightarrow> (x, last xs) \<in> (edges graph)\<^sup>+"
proof (induction xs arbitrary: x)
  case (Cons y ys)
  then have "(x, y) \<in> edges graph" by (simp add: edges_def)
  with Cons show ?case by (cases "ys = []") (auto intro: trancl_into_trancl2)
qed simp

lemma real_cycle_not_acyclic: "real_cycle graph c \<Longrightarrow> \<not> acyclic (edges graph)"
proof -
  assume c: "real_cycle graph c"
  then obtain x xs where "c = x # xs" "xs \<noteq> []" by (cases c; cases "tl c") (auto simp: real_cycle_def)
  moreover have "successively (edge graph) c" "hd c = last c" using c by (simp_all add: real_cycle_def)
  ultimately have "successively (edge graph) (x # xs)" "last xs = x" by (metis list.sel(1) last_ConsR)+
  with successively_trancl [of graph x xs] \<open>xs \<noteq> []\<close> have "(x, x) \<in> (edges graph)\<^sup>+" by metis
  then show ?thesis by (auto simp: acyclic_def)
qed

end
