(* ===== verification/Worker_Transition_Facts.thy ===== *)
theory Worker_Transition_Facts
  imports Worker_Transition
begin

text \<open>
  The reducers on well-formed workers: each computes to a chain of slot updates, so its result,
  its effect on the lifecycle state and the fields it leaves alone are read off by rewriting.
\<close>

section \<open>Chains of slot updates\<close>

definition put_fields :: "worker_record \<Rightarrow> jdict \<Rightarrow> wfield list \<Rightarrow> worker_record" where
  "put_fields w d fs = fold (\<lambda>f w'. put_field w' f (dict_get d (field_name f))) fs w"

lemma put_fields_simps [simp]:
  "put_fields w d [] = w"
  "put_fields w d (f # fs) = put_fields (put_field w f (dict_get d (field_name f))) d fs"
  by (simp_all add: put_fields_def)

lemma update_from_mapping_eq:
  assumes "\<And>f. f \<in> set fs \<Longrightarrow> dict_has d (field_name f) \<Longrightarrow>
    canonical_value f (dict_get d (field_name f)) = Inr (dict_get d (field_name f))"
  shows "update_canonical_fields_from_mapping w d False fs =
    Inr (put_fields w d (filter (\<lambda>f. dict_has d (field_name f)) fs))"
  using assms
proof (induction fs arbitrary: w)
  case (Cons f fs)
  have IH: "update_canonical_fields_from_mapping w' d False fs =
      Inr (put_fields w' d (filter (\<lambda>f. dict_has d (field_name f)) fs))" for w'
    by (rule Cons.IH) (use Cons.prems in auto)
  then show ?case
    using Cons.prems [of f]
    by (auto simp: update_canonical_fields_from_mapping_def dict_has_iff_map_of dict_get_def
        set_canonical_field_def split: option.splits)
qed (simp add: update_canonical_fields_from_mapping_def)

lemma update_field_names_eq:
  "WORKER_RECORD_UPDATE_FIELD_NAMES =
     [F_role, F_session_id, F_agent, F_model, F_dependencies, F_prompt_ids, F_retry_count,
      F_retry_limit, F_retryable_failures, F_timeout_seconds, F_timeout_policy,
      F_timeout_started_at, F_timed_out_at, F_lifecycle_state, F_failure_category,
      F_failure_reason, F_last_failure_category, F_last_failure_reason, F_blockers, F_output_refs,
      F_prompt, F_error, F_failure_retryable, F_manual_retry_required, F_cleanup, F_abort,
      F_attempts, F_result]"
  by (simp add: WORKER_RECORD_UPDATE_FIELD_NAMES_def field_table)

lemma update_canonical_fields_eq:
  assumes "fs = filter (\<lambda>f. dict_has d (field_name f)) WORKER_RECORD_UPDATE_FIELD_NAMES"
    and "map fst d = map field_name gs" and "set gs \<subseteq> set WORKER_RECORD_UPDATE_FIELD_NAMES"
    and "\<And>f. f \<in> set gs \<Longrightarrow> canonical_value f (dict_get d (field_name f)) = Inr (dict_get d (field_name f))"
  shows "update_canonical_fields w d = Inr (put_fields w d fs)"
proof -
  have *: "f \<in> set gs" if "dict_has d (field_name f)" for f
    using that assms(2) by (auto simp: dict_has_def)
  have "fst kv \<in> field_name ` set WORKER_RECORD_UPDATE_FIELD_NAMES" if "kv \<in> set d" for kv
  proof -
    have "fst kv \<in> set (map fst d)" using that by simp
    with assms(2,3) show ?thesis by auto
  qed
  then have "\<not> list_ex (\<lambda>kv. fst kv \<notin> set (map field_name WORKER_RECORD_UPDATE_FIELD_NAMES)) d"
    by (auto simp: list_ex_iff)
  moreover have "update_canonical_fields_from_mapping w d False WORKER_RECORD_UPDATE_FIELD_NAMES =
      Inr (put_fields w d fs)"
    unfolding assms(1) by (rule update_from_mapping_eq) (use * assms(4) in blast)
  ultimately show ?thesis by (simp only: update_canonical_fields_def if_False)
qed

lemma update_failure_fields [simp]:
  "update_canonical_fields w (failure_fields c r) =
     Inr (put_field (put_field (put_field (put_field (put_field w
       F_failure_category (JStr c)) F_failure_reason (JStr r))
       F_last_failure_category (JStr c)) F_last_failure_reason (JStr r)) F_error (JStr r))"
  by (subst update_canonical_fields_eq [where gs = "[F_error, F_failure_category, F_failure_reason,
        F_last_failure_category, F_last_failure_reason]" and
        fs = "[F_failure_category, F_failure_reason, F_last_failure_category, F_last_failure_reason, F_error]"])
    (auto simp: update_field_names_eq failure_fields_def dict_has_def dict_get_Cons)

lemma update_timeout_fields [simp]:
  "update_canonical_fields w (failure_fields c r @ [(''timed_out_at'', t), (''output_refs'', JList xs)]) =
     Inr (put_field (put_field (put_field (put_field (put_field (put_field (put_field w
       F_timed_out_at t) F_failure_category (JStr c)) F_failure_reason (JStr r))
       F_last_failure_category (JStr c)) F_last_failure_reason (JStr r))
       F_output_refs (JList xs)) F_error (JStr r))"
  by (subst update_canonical_fields_eq [where gs = "[F_error, F_failure_category, F_failure_reason,
        F_last_failure_category, F_last_failure_reason, F_timed_out_at, F_output_refs]" and
        fs = "[F_timed_out_at, F_failure_category, F_failure_reason, F_last_failure_category,
          F_last_failure_reason, F_output_refs, F_error]"])
    (auto simp: update_field_names_eq failure_fields_def dict_has_def dict_get_Cons)

lemma update_retry_fields [simp]:
  "update_canonical_fields w [(''retry_count'', JInt n), (''last_failure_category'', JStr c),
      (''last_failure_reason'', JStr r)] =
     Inr (put_field (put_field (put_field w F_retry_count (JInt n))
       F_last_failure_category (JStr c)) F_last_failure_reason (JStr r))"
  by (subst update_canonical_fields_eq [where
        gs = "[F_retry_count, F_last_failure_category, F_last_failure_reason]" and
        fs = "[F_retry_count, F_last_failure_category, F_last_failure_reason]"])
    (auto simp: update_field_names_eq dict_has_def dict_get_Cons)

lemma update_clear_fields [simp]:
  "update_canonical_fields w [(''failure_category'', JNull), (''failure_reason'', JNull)] =
     Inr (put_field (put_field w F_failure_category JNull) F_failure_reason JNull)"
  by (subst update_canonical_fields_eq [where gs = "[F_failure_category, F_failure_reason]" and
        fs = "[F_failure_category, F_failure_reason]"])
    (auto simp: update_field_names_eq dict_has_def dict_get_Cons)

lemma remove_optional_field [simp]: "\<not> is_required f \<Longrightarrow> remove_field w f = Inr (drop_field w f)"
  by (simp add: remove_field_def)

lemma clear_current_status_fields_eq [simp]:
  "clear_current_status_fields w = Inr (fold (\<lambda>f w'. drop_field w' f) REMOVABLE_WORKER_TRANSITION_FIELDS
     (put_field (put_field (put_field w F_blockers (JList [])) F_failure_category JNull)
       F_failure_reason JNull))"
  by (simp add: clear_current_status_fields_def set_canonical_field_def removable_fields_eq)

lemma set_transition_lifecycle_state_eq [simp]:
  "wt_worker_id tr \<noteq> [] \<Longrightarrow> set_transition_lifecycle_state w tr (Some t) =
     Inr (put_field (put_field w F_id (JStr (wt_worker_id tr))) F_lifecycle_state (JStr (lifecycle_name t)))"
  by (simp add: set_transition_lifecycle_state_def set_canonical_field_def json_of_lifecycle_def)

lemma merge_worker_prompt_ids_eq [simp]:
  "merge_worker_prompt_ids w latest ids b =
     Inr (if ids = [] \<and> \<not> b then w
          else put_field w F_prompt_ids (JList (merge_values
            (if latest_prompt_ids_are_retry_marker latest then [] else list_slot latest F_prompt_ids) ids)))"
  by (simp add: merge_worker_prompt_ids_def set_canonical_field_def)

lemma set_timeout_started_at_eq [simp]:
  "set_if_not_unset w F_timeout_started_at v =
     Inr (case v of None \<Rightarrow> w | Some x \<Rightarrow> put_field w F_timeout_started_at x)"
  by (cases v) (simp_all add: set_if_not_unset_def set_canonical_field_def)

section \<open>What each reducer does\<close>

text \<open>
  \<open>effect w S l w'\<close>: the new worker \<open>w'\<close> is well-formed, its lifecycle state is \<open>l\<close>, and outside
  the fields \<open>S\<close> it is the old worker \<open>w\<close>.
\<close>

definition effect :: "worker_record \<Rightarrow> wfield set \<Rightarrow> lifecycle option \<Rightarrow> worker_record \<Rightarrow> bool" where
  "effect w S l w' \<longleftrightarrow> wf_worker w' \<and> worker_lifecycle w' = l \<and> (\<forall>g. g \<notin> S \<longrightarrow> wr_slots w' g = wr_slots w g)"

lemma effect_mono: "effect w S l w' \<Longrightarrow> S \<subseteq> T \<Longrightarrow> effect w T l w'"
  by (auto simp: effect_def)

lemma effect_slot: "effect w S l w' \<Longrightarrow> g \<notin> S \<Longrightarrow> wr_slots w' g = wr_slots w g"
  by (simp add: effect_def)

lemma effect_refl: "wf_worker w \<Longrightarrow> effect w S (worker_lifecycle w) w"
  by (simp add: effect_def)

lemma effect_trans:
  "effect w S l w1 \<Longrightarrow> effect w1 T l' w2 \<Longrightarrow> S \<subseteq> U \<Longrightarrow> T \<subseteq> U \<Longrightarrow> effect w U l' w2"
  by (simp add: effect_def) (metis subsetD)

lemma lifecycle_put_field [simp]:
  "worker_lifecycle (put_field w f v) = (if f = F_lifecycle_state then json_lifecycle v else worker_lifecycle w)"
  by (simp add: worker_lifecycle_def json_lifecycle_def)

lemma lifecycle_drop_field [simp]:
  "f \<noteq> F_lifecycle_state \<Longrightarrow> worker_lifecycle (drop_field w f) = worker_lifecycle w"
  by (simp add: worker_lifecycle_def)

lemma json_lifecycle_name [simp]: "json_lifecycle (JStr (lifecycle_name l)) = Some l"
  by (simp add: json_lifecycle_def)

lemma effect_put [wf_intros]:
  "effect w S l w1 \<Longrightarrow> f \<in> S \<Longrightarrow> canonical_value f v = Inr v \<Longrightarrow>
     l' = (if f = F_lifecycle_state then json_lifecycle v else l) \<Longrightarrow> effect w S l' (put_field w1 f v)"
  by (auto simp: effect_def wf_put_field)

lemma effect_drop [wf_intros]:
  "effect w S l w1 \<Longrightarrow> f \<in> S \<Longrightarrow> \<not> is_required f \<Longrightarrow> f \<noteq> F_lifecycle_state \<Longrightarrow>
     effect w S l (drop_field w1 f)"
  by (auto simp: effect_def wf_drop_field)

lemma effect_option:
  "effect w S l w1 \<Longrightarrow> F_timeout_started_at \<in> S \<Longrightarrow>
     effect w S l (case v of None \<Rightarrow> w1 | Some x \<Rightarrow> put_field w1 F_timeout_started_at x)"
  by (cases v) (simp_all add: effect_put)

lemma effect_if: "(c \<Longrightarrow> effect w S l a) \<Longrightarrow> (\<not> c \<Longrightarrow> effect w S l b) \<Longrightarrow> effect w S l (if c then a else b)"
  by simp

lemmas effect_rules = effect_put effect_drop effect_option effect_if effect_refl

definition status_fields :: "wfield set" where
  "status_fields = {F_id, F_lifecycle_state, F_blockers, F_failure_category, F_failure_reason,
     F_last_failure_category, F_last_failure_reason, F_error, F_failure_retryable,
     F_manual_retry_required, F_timeout_started_at, F_timed_out_at, F_prompt_ids, F_output_refs, F_result}"

lemma reduce_active_effect:
  assumes "wf_worker w" and "wt_worker_id tr \<noteq> []"
  shows "\<exists>w'. reduce_active_transition w tr (Some t) st cl = Inr w' \<and> effect w status_fields (Some t) w'"
  using assms
  by (simp add: reduce_active_transition_def removable_fields_eq set_canonical_field_def)
    (auto simp: status_fields_def intro!: effect_rules)

lemma reduce_failed_effect:
  assumes "wf_worker w" and "wt_worker_id tr \<noteq> []"
  shows "\<exists>w'. reduce_failed_transition w tr (Some t) c r re st ids = Inr w' \<and> effect w status_fields (Some t) w'"
  using assms
  by (simp add: reduce_failed_transition_def set_canonical_field_def)
    (auto simp: status_fields_def intro!: effect_rules)

lemma reduce_dependency_blocked_effect:
  assumes "wf_worker w" and "wt_worker_id tr \<noteq> []"
  shows "\<exists>w'. reduce_dependency_blocked_transition w tr (Some t) bs = Inr w' \<and> effect w status_fields (Some t) w'"
  using assms
  by (simp add: reduce_dependency_blocked_transition_def set_canonical_field_def)
    (auto simp: status_fields_def intro!: effect_rules)

lemma reduce_aborted_effect:
  assumes "wf_worker w" and "wt_worker_id tr \<noteq> []"
  shows "\<exists>w'. reduce_aborted_transition w tr (Some t) a = Inr w' \<and>
    effect w {F_id, F_abort, F_lifecycle_state} (if abort_is_accepted a then Some t else worker_lifecycle w) w' \<and>
    wr_slots w' F_abort = a"
  using assms
  by (simp add: reduce_aborted_transition_def set_canonical_field_def)
    (auto intro!: effect_rules)

lemma reduce_retry_scheduled_effect:
  assumes "wf_worker w" and "wt_worker_id tr \<noteq> []"
  shows "\<exists>w'. reduce_retry_scheduled_transition w tr (Some t) c r n st ids = Inr w' \<and>
    effect w (insert F_retry_count status_fields) (Some t) w' \<and> wr_slots w' F_retry_count = JInt n"
  using assms
  by (simp add: reduce_retry_scheduled_transition_def removable_fields_eq set_canonical_field_def)
    (auto simp: status_fields_def intro!: effect_rules split: option.split)

lemma reduce_timed_out_effect:
  assumes "wf_worker w" and "wt_worker_id tr \<noteq> []"
  shows "\<exists>w'. reduce_timed_out_transition w tr (Some t) r status tat man st = Inr w' \<and>
    effect w status_fields (Some t) w'"
  using assms
  by (simp add: reduce_timed_out_transition_def set_canonical_field_def)
    (auto simp: status_fields_def intro!: effect_rules)

lemma reduce_cleanup_effect:
  assumes "wf_worker w" and "wt_worker_id tr \<noteq> []"
  shows "\<exists>w'. reduce_cleanup_updated_transition w tr c = Inr w' \<and>
    effect w {F_id, F_cleanup} (worker_lifecycle w) w'"
  using assms
  by (simp add: reduce_cleanup_updated_transition_def set_canonical_field_def)
    (auto intro!: effect_rules)

lemma reduce_provisioned_effect:
  assumes "wf_worker w" and "wt_worker_id tr \<noteq> []"
  shows "\<exists>w'. reduce_provisioned_transition w tr sid agent model = Inr w' \<and>
    effect w {F_id, F_agent, F_model, F_session_id} (worker_lifecycle w) w'"
  using assms
  by (simp add: set_canonical_field_def)
    (auto intro!: effect_rules)

text \<open>A result that lacks \<open>status\<close> or \<open>message_ids\<close> makes the reducer raise; otherwise it is total.\<close>

lemma reduce_result_effect:
  assumes "wf_worker w" and "wt_worker_id tr \<noteq> []"
    and "reduce_result_applied_transition w tr (Some t) res ids st = Inr w'"
  shows "effect w status_fields (Some t) w'"
  using assms
  by (auto simp: reduce_result_applied_transition_def removable_fields_eq set_canonical_field_def
      status_fields_def res_bind_Inr_iff split: if_splits intro!: effect_rules)

lemma append_attempt_effect:
  assumes "wf_worker w"
  shows "\<exists>w'. append_attempt w a = Inr w' \<and> effect w {F_attempts} (worker_lifecycle w) w'"
  using assms by (auto simp: append_attempt_def set_canonical_field_def intro!: effect_rules)

lemma finalize_attempt_effect:
  assumes "wf_worker w"
  shows "\<exists>w'. finalize_attempt w aid d = Inr w' \<and> effect w {F_attempts} (worker_lifecycle w) w'"
  using assms by (auto simp: finalize_attempt_def set_canonical_field_def intro!: effect_rules)

lemma remember_prompt_id_effect:
  assumes "wf_worker w" and "nonempty_str p"
  shows "\<exists>w'. remember_prompt_id w p = Inr w' \<and> effect w {F_prompt_ids} (worker_lifecycle w) w'"
proof -
  obtain ids where "wr_slots w F_prompt_ids = JList ids"
    using wf_worker_list [OF assms(1), of F_prompt_ids] by auto
  with assms show ?thesis
    by (auto simp: remember_prompt_id_def set_canonical_field_def intro!: effect_rules)
qed

lemma reduce_attempt_started_effect:
  assumes "wf_worker w"
  shows "\<exists>w'. reduce_attempt_started_transition w a = Inr w' \<and>
    effect w {F_attempts, F_prompt_ids} (worker_lifecycle w) w'"
proof -
  obtain w1 where w1: "append_attempt w a = Inr w1" "effect w {F_attempts} (worker_lifecycle w) w1"
    using append_attempt_effect [OF assms] by blast
  have wf1: "wf_worker w1" and l1: "worker_lifecycle w1 = worker_lifecycle w"
    using w1(2) by (simp_all add: effect_def)
  show ?thesis
  proof (cases "nonempty_str (dict_get a ''user_message_id'')")
    case True
    from remember_prompt_id_effect [OF wf1 True] obtain w2
      where "remember_prompt_id w1 (dict_get a ''user_message_id'') = Inr w2"
        and "effect w1 {F_prompt_ids} (worker_lifecycle w1) w2" by blast
    with w1 True assms l1 show ?thesis
      by (auto simp: reduce_attempt_started_transition_def elim: effect_trans)
  next
    case False
    with w1 assms show ?thesis
      by (auto simp: reduce_attempt_started_transition_def elim: effect_mono)
  qed
qed

section \<open>The table, evaluated\<close>

lemma transition_spec_simps [simp]:
  "ts_name (worker_transition_spec n) = n"
  "ts_public_lifecycle_transition (worker_transition_spec n) \<longleftrightarrow> n \<noteq> T_CLEANUP_UPDATED \<and> n \<noteq> T_SNAPSHOT_APPLIED"
  "ts_target_uses_payload (worker_transition_spec n) \<longleftrightarrow>
     n \<in> {T_FAILED, T_TIMED_OUT, T_RESULT_APPLIED, T_SNAPSHOT_APPLIED}"
  by (cases n; simp add: worker_transition_spec_def WORKER_TRANSITION_SPECS_def)+

lemma transition_targets_simps [simp]:
  "ts_target_states (worker_transition_spec T_PROVISIONED) = []"
  "ts_target_states (worker_transition_spec T_ACTIVE) = [Active_Wait]"
  "ts_target_states (worker_transition_spec T_ATTEMPT_STARTED) = []"
  "ts_target_states (worker_transition_spec T_FAILED) = [Failed_Retry, Failed_Terminal]"
  "ts_target_states (worker_transition_spec T_DEPENDENCY_BLOCKED) = [Blocked_Dependency]"
  "ts_target_states (worker_transition_spec T_ABORTED) = [Aborted]"
  "ts_target_states (worker_transition_spec T_RETRY_SCHEDULED) = [Active_Retry]"
  "ts_target_states (worker_transition_spec T_TIMED_OUT) =
     [Blocked_Timeout, Timeout_Retry, Timeout_Terminal, Timeout_Failed_Retry,
      Timeout_Failed_Terminal, Timeout_Aborted]"
  "ts_target_states (worker_transition_spec T_RESULT_APPLIED) =
     [Blocked_Dependency, Done_Collect, Failed_Terminal, Timeout_Terminal, Aborted]"
  "ts_target_states (worker_transition_spec T_CLEANUP_UPDATED) = []"
  "ts_target_states (worker_transition_spec T_SNAPSHOT_APPLIED) = []"
  by (simp_all add: worker_transition_spec_def WORKER_TRANSITION_SPECS_def)

lemma transition_sources_simps [simp]:
  "ts_source_states (worker_transition_spec T_PROVISIONED) =
     [Queued, Active_Wait, Active_Retry, Failed_Retry, Timeout_Retry, Timeout_Failed_Retry]"
  "ts_source_states (worker_transition_spec T_ACTIVE) =
     [Queued, Active_Wait, Active_Retry, Blocked_Dependency, Blocked_Timeout, Failed_Retry,
      Timeout_Retry, Timeout_Failed_Retry]"
  "ts_source_states (worker_transition_spec T_ATTEMPT_STARTED) = [Active_Wait]"
  "ts_source_states (worker_transition_spec T_FAILED) =
     [Queued, Active_Wait, Active_Retry, Failed_Retry, Timeout_Retry, Timeout_Failed_Retry]"
  "ts_source_states (worker_transition_spec T_DEPENDENCY_BLOCKED) = [Queued, Active_Wait, Active_Retry]"
  "ts_source_states (worker_transition_spec T_ABORTED) =
     [Queued, Active_Wait, Active_Retry, Blocked_Dependency, Blocked_Timeout, Failed_Retry,
      Timeout_Retry, Timeout_Failed_Retry, Timeout_Aborted, Aborted]"
  "ts_source_states (worker_transition_spec T_RETRY_SCHEDULED) =
     [Active_Wait, Failed_Retry, Timeout_Retry, Timeout_Failed_Retry]"
  "ts_source_states (worker_transition_spec T_TIMED_OUT) = [Active_Wait]"
  "ts_source_states (worker_transition_spec T_RESULT_APPLIED) = [Active_Wait]"
  "ts_source_states (worker_transition_spec T_CLEANUP_UPDATED) = all_lifecycles"
  "ts_source_states (worker_transition_spec T_SNAPSHOT_APPLIED) = all_lifecycles"
  by (simp_all add: worker_transition_spec_def WORKER_TRANSITION_SPECS_def)

text \<open>
  A transition that changes the lifecycle state always resolves to a state its row declares: the
  check in \<open>validate_target\<close> never fires for the resolvers of the table.
\<close>

definition retargets :: "transition_name \<Rightarrow> bool" where
  "retargets n \<longleftrightarrow> ts_target_states (worker_transition_spec n) \<noteq> []"

lemma payload_target_in_targets:
  assumes "target_of_payload p = Inr (Some t)" and "payload_name p \<noteq> T_SNAPSHOT_APPLIED"
  shows "t \<in> set (ts_target_states (worker_transition_spec (payload_name p)))"
proof (cases p)
  case (P_ResultApplied res ids st)
  then show ?thesis
    using assms(1) worker_result_lifecycle_state_range by (auto simp: res_bind_Inr_iff)
qed (use assms in \<open>auto simp: worker_failed_lifecycle_state_eq worker_timeout_lifecycle_state_eq
  split: if_splits sum.splits wstatus.splits\<close>)

lemma resolver_in_targets:
  assumes "target_resolver tr = Inr (Some t)" and "wt_name tr \<noteq> T_SNAPSHOT_APPLIED"
  shows "t \<in> set (ts_target_states (worker_transition_spec (wt_name tr)))"
proof (cases "wt_name tr \<in> {T_FAILED, T_TIMED_OUT, T_RESULT_APPLIED}")
  case True
  then have "target_resolver tr = res_bind (require_transition_payload tr) target_of_payload"
    by (auto simp: target_resolver_def)
  with assms obtain p where p: "require_transition_payload tr = Inr p" "target_of_payload p = Inr (Some t)"
    by (auto simp: res_bind_Inr_iff)
  then have "payload_name p = wt_name tr"
    by (auto simp: require_transition_payload_def split: option.splits if_splits)
  with p assms payload_target_in_targets show ?thesis by metis
next
  case False
  with assms show ?thesis by (cases "wt_name tr") (auto simp: target_resolver_def)
qed

lemma resolved_target_in_targets:
  assumes "worker_transition_target_lifecycle_state tr = Inr (Some t)" and "wt_name tr \<noteq> T_SNAPSHOT_APPLIED"
  shows "t \<in> set (ts_target_states (worker_transition_spec (wt_name tr)))"
  using assms
  by (auto simp: worker_transition_target_lifecycle_state_def validate_target_def Let_def res_bind_Inr_iff
      split: option.splits if_splits intro: resolver_in_targets)

lemma validate_resolved:
  "target_resolver tr = Inr t \<Longrightarrow> worker_transition_target_lifecycle_state tr = Inr t"
  by (cases "wt_name tr = T_SNAPSHOT_APPLIED"; cases t)
    (auto simp: worker_transition_target_lifecycle_state_def validate_target_def Let_def
      dest: resolver_in_targets)

lemma payload_resolver:
  assumes "require_transition_payload tr = Inr p"
  shows "worker_transition_target_lifecycle_state tr =
    (case p of P_Active _ _ \<Rightarrow> Inr (Some Active_Wait)
     | P_DependencyBlocked _ \<Rightarrow> Inr (Some Blocked_Dependency)
     | P_Aborted _ \<Rightarrow> Inr (Some Aborted)
     | P_RetryScheduled _ _ _ _ _ \<Rightarrow> Inr (Some Active_Retry)
     | _ \<Rightarrow> target_of_payload p)" (is "_ = ?r")
proof -
  have n: "payload_name p = wt_name tr"
    using assms by (auto simp: require_transition_payload_def split: option.splits if_splits)
  have "target_resolver tr = ?r"
    by (cases p; insert n [symmetric] assms; simp add: target_resolver_def)
  then show ?thesis
    using validate_resolved [of tr] by (cases "?r") (auto simp: worker_transition_target_lifecycle_state_def)
qed

section \<open>Reducing a transition\<close>

definition payload_lifecycle :: "lifecycle option \<Rightarrow> lifecycle option \<Rightarrow> transition_payload \<Rightarrow> lifecycle option" where
  "payload_lifecycle current target p =
     (case p of
        P_Provisioned _ _ _ \<Rightarrow> current
      | P_AttemptStarted _ \<Rightarrow> current
      | P_CleanupUpdated _ \<Rightarrow> current
      | P_Aborted a \<Rightarrow> if abort_is_accepted a then target else current
      | _ \<Rightarrow> target)"

definition payload_retry_count :: "json \<Rightarrow> transition_payload \<Rightarrow> json" where
  "payload_retry_count n p = (case p of P_RetryScheduled _ _ m _ _ \<Rightarrow> JInt m | _ \<Rightarrow> n)"

definition payload_abort :: "json \<Rightarrow> transition_payload \<Rightarrow> json" where
  "payload_abort a p = (case p of P_Aborted b \<Rightarrow> b | _ \<Rightarrow> a)"

text \<open>What the plan of a run fixes for a worker; no lifecycle transition changes it.\<close>

definition configuration_fields :: "wfield set" where
  "configuration_fields = {F_role, F_name, F_title, F_prompt, F_dependencies, F_retry_limit,
     F_retryable_failures, F_timeout_seconds, F_timeout_policy}"

lemma spec_reducer_effect:
  assumes wf: "wf_worker w" and wid: "wt_worker_id tr \<noteq> []"
    and p: "require_transition_payload tr = Inr p" and ns: "payload_name p \<noteq> T_SNAPSHOT_APPLIED"
    and target: "worker_transition_target_lifecycle_state tr = Inr target"
    and red: "spec_reducer w tr target p = Inr w'"
  shows "wf_worker w'
    \<and> worker_lifecycle w' = payload_lifecycle (worker_lifecycle w) target p
    \<and> wr_slots w' F_retry_count = payload_retry_count (wr_slots w F_retry_count) p
    \<and> wr_slots w' F_abort = payload_abort (wr_slots w F_abort) p
    \<and> (\<forall>g \<in> configuration_fields. wr_slots w' g = wr_slots w g)
    \<and> (payload_name p \<noteq> T_ATTEMPT_STARTED \<longrightarrow> wr_slots w' F_attempts = wr_slots w F_attempts)"
proof -
  note folds = payload_lifecycle_def payload_retry_count_def payload_abort_def configuration_fields_def
  have use: "effect w S l w'" if "\<exists>v. r = Inr v \<and> effect w S l v" "r = Inr w'" for S l r
    using that by auto
  show ?thesis
  proof (cases p)
    case (P_Provisioned s a m)
    from use [OF reduce_provisioned_effect [OF wf wid, of s a m]] P_Provisioned red show ?thesis
      by (simp add: effect_def folds del: reduce_provisioned_transition.simps)
  next
    case (P_Active s b)
    with payload_resolver [OF p] target have "target = Some Active_Wait" by simp
    with use [OF reduce_active_effect [OF wf wid, of Active_Wait s b]] P_Active red show ?thesis
      by (simp add: effect_def folds status_fields_def)
  next
    case (P_AttemptStarted a)
    from use [OF reduce_attempt_started_effect [OF wf, of a]] P_AttemptStarted red show ?thesis
      by (simp add: effect_def folds)
  next
    case (P_Failed c r re av st ids)
    with payload_resolver [OF p] target obtain t where "target = Some t" by auto
    with use [OF reduce_failed_effect [OF wf wid, of t c r re st ids]] P_Failed red show ?thesis
      by (simp add: effect_def folds status_fields_def)
  next
    case (P_DependencyBlocked bs)
    with payload_resolver [OF p] target have "target = Some Blocked_Dependency" by simp
    with use [OF reduce_dependency_blocked_effect [OF wf wid, of Blocked_Dependency bs]]
      P_DependencyBlocked red show ?thesis
      by (simp add: effect_def folds status_fields_def)
  next
    case (P_Aborted a)
    with payload_resolver [OF p] target have "target = Some Aborted" by simp
    with reduce_aborted_effect [OF wf wid, of Aborted a] P_Aborted red show ?thesis
      by (auto simp: effect_def folds)
  next
    case (P_RetryScheduled c r n st ids)
    with payload_resolver [OF p] target have "target = Some Active_Retry" by simp
    with reduce_retry_scheduled_effect [OF wf wid, of Active_Retry c r n st ids] P_RetryScheduled red
    show ?thesis by (auto simp: effect_def folds status_fields_def)
  next
    case (P_TimedOut r s tat av man st)
    with payload_resolver [OF p] target obtain t where "target = Some t" by auto
    with use [OF reduce_timed_out_effect [OF wf wid, of t r s tat man st]] P_TimedOut red show ?thesis
      by (simp add: effect_def folds status_fields_def)
  next
    case (P_ResultApplied res ids st)
    with payload_resolver [OF p] target obtain t where "target = Some t"
      by (cases "dict_index res ''status''") auto
    with reduce_result_effect [OF wf wid, of t res ids st w'] P_ResultApplied red show ?thesis
      by (simp add: effect_def folds status_fields_def)
  next
    case (P_CleanupUpdated c)
    from use [OF reduce_cleanup_effect [OF wf wid, of c]] P_CleanupUpdated red show ?thesis
      by (simp add: effect_def folds)
  next
    case (P_SnapshotApplied patch)
    with ns show ?thesis by simp
  qed
qed

section \<open>Every applied transition keeps the invariant\<close>

lemma wf_remove_named_field [wf_intros]:
  "wf_worker w \<Longrightarrow> remove_named_field w n = Inr w' \<Longrightarrow> wf_worker w'"
  by (auto simp: remove_named_field_def split: option.splits elim: wf_remove_field)

lemma wf_set_missing_field [wf_intros]:
  "wf_worker w \<Longrightarrow> set_missing_field w kv = Inr w' \<Longrightarrow> wf_worker w'"
  by (auto simp: set_missing_field_def split: if_splits elim: wf_set_field_value)

lemma wf_merge_optional_prompt_ids [wf_intros]:
  "wf_worker w \<Longrightarrow> merge_optional_prompt_ids w latest ids = Inr w' \<Longrightarrow> wf_worker w'"
  by (auto simp: merge_optional_prompt_ids_def split: option.splits if_splits intro: wf_put_field)

lemma wf_reduce_snapshot:
  assumes wf: "wf_worker w" and r: "reduce_snapshot_applied_transition w tr patch = Inr w'"
  shows "wf_worker w'"
proof -
  from r wf obtain w1 w2 w3 w4
    where "set_canonical_field w F_id (JStr (wt_worker_id tr)) = Inr w1"
      and w2: "merge_fields w1 (sp_fields patch) = Inr w2"
      and w3: "res_fold remove_named_field w2 (sp_remove_fields patch) = Inr w3"
      and w4: "merge_optional_prompt_ids w3 w (sp_prompt_ids patch) = Inr w4"
      and w5: "res_fold set_missing_field w4 (sp_set_if_missing patch) = Inr w'"
    by (auto simp: reduce_snapshot_applied_transition_def res_bind_Inr_iff)
  with wf have "wf_worker w1" by (blast intro: wf_set_canonical_field)
  from this w2 have "wf_worker w2" by (rule wf_merge_fields)
  from w3 this have "wf_worker w3" by (rule res_fold_invariant) (erule wf_remove_named_field)
  from this w4 have "wf_worker w4" by (rule wf_merge_optional_prompt_ids)
  from w5 this show ?thesis by (rule res_fold_invariant) (erule wf_set_missing_field)
qed

lemma wf_spec_reducer:
  assumes "wf_worker w" and "wt_worker_id tr \<noteq> []" and "require_transition_payload tr = Inr p"
    and "worker_transition_target_lifecycle_state tr = Inr target"
    and "spec_reducer w tr target p = Inr w'"
  shows "wf_worker w'"
proof (cases "payload_name p = T_SNAPSHOT_APPLIED")
  case True
  then obtain patch where "p = P_SnapshotApplied patch" by (cases p) auto
  with assms(1,5) show ?thesis using wf_reduce_snapshot by simp
qed (use spec_reducer_effect assms in blast)

lemma wf_passthrough:
  assumes wf: "wf_worker w" and r: "apply_accepted_abort_passthrough w latest p = Inr w'"
  shows "wf_worker w'"
proof (cases "\<exists>patch. p = P_SnapshotApplied patch")
  case True
  then obtain patch where p: "p = P_SnapshotApplied patch" by blast
  with r obtain w1 where "merge_fields w (sp_accepted_abort_fields patch) = Inr w1"
    and w': "merge_optional_prompt_ids w1 latest (sp_accepted_abort_prompt_ids patch) = Inr w'"
    by (auto simp: res_bind_Inr_iff)
  with wf have "wf_worker w1" by (blast intro: wf_merge_fields)
  from this w' show ?thesis by (rule wf_merge_optional_prompt_ids)
next
  case False
  with r have "merge_worker_prompt_ids w latest (payload_prompt_ids p) False = Inr w'"
    by (cases p) auto
  with wf show ?thesis by (auto split: if_splits intro: wf_put_field)
qed

lemma wf_reduce_payload [wf_intros]:
  assumes wf: "wf_worker w" and wid: "wt_worker_id tr \<noteq> []"
    and r: "reduce_worker_transition_payload w tr = Inr w'"
  shows "wf_worker w'"
proof -
  from r obtain p target w1 where "require_transition_payload tr = Inr p"
    and "worker_transition_target_lifecycle_state tr = Inr target"
    and "spec_reducer w tr target p = Inr w1"
    and w': "accepted_abort_terminal_invariant w w1 p = Inr w'"
    by (auto simp: reduce_worker_transition_payload_def res_bind_Inr_iff)
  then have "wf_worker w1" using wf wid wf_spec_reducer by blast
  with w' wf show ?thesis
    by (auto simp: accepted_abort_terminal_invariant_def split: if_splits elim: wf_passthrough)
qed

lemma finalize_worker_attempt_effect:
  "wf_worker w \<Longrightarrow> \<exists>w'. finalize_worker_attempt w fin = Inr w' \<and> effect w {F_attempts} (worker_lifecycle w) w'"
  using finalize_attempt_effect
  by (auto simp: finalize_worker_attempt_def effect_refl split: option.split)

definition finalized :: "worker_record \<Rightarrow> (json \<times> jdict) option \<Rightarrow> worker_record" where
  "finalized w fin = projr (finalize_worker_attempt w fin)"

lemma finalize_worker_attempt_Inr:
  "wf_worker w \<Longrightarrow> finalize_worker_attempt w fin = Inr (finalized w fin)"
  using finalize_worker_attempt_effect [of w fin] by (auto simp: finalized_def)

lemma finalized_effect:
  "wf_worker w \<Longrightarrow> effect w {F_attempts} (worker_lifecycle w) (finalized w fin)"
  using finalize_worker_attempt_effect [of w fin] by (auto simp: finalized_def)

lemma wf_finalized [wf_intros]: "wf_worker w \<Longrightarrow> wf_worker (finalized w fin)"
  using finalized_effect [of w fin] by (simp add: effect_def)

lemma worker_id_truthy: "wf_worker w \<Longrightarrow> py_truthy (worker_id w)"
  by (auto elim!: wf_worker_id)

text \<open>Applying a transition to a well-formed worker, as one case distinction.\<close>

lemma apply_transition_eq:
  assumes wf: "wf_worker w" and wid: "wt_worker_id tr \<noteq> []"
  shows "apply_transition w tr =
    res_bind (worker_transition_is_legal w tr) (\<lambda>legal.
      if legal then res_bind (reduce_worker_transition_payload w tr)
        (\<lambda>w1. Inr (finalized w1 (wt_attempt_finalization tr)))
      else res_bind (illegal_transition_reason w tr) (\<lambda>reason.
        if is_stale_snapshot_recovery tr then Inr w else Inl (WorkerTransitionError reason)))"
proof (cases "worker_transition_is_legal w tr")
  case (Inr legal)
  show ?thesis
  proof (cases legal)
    case True
    show ?thesis
    proof (cases "reduce_worker_transition_payload w tr")
      case (Inr w1)
      have "wf_worker w1" using wf wid Inr by (rule wf_reduce_payload)
      with True Inr \<open>worker_transition_is_legal w tr = Inr legal\<close> wf show ?thesis
        by (simp add: apply_transition_def reduce_worker_transition_def finalize_worker_attempt_Inr
            wf_finalized replace_fields_wf worker_id_truthy)
    qed (use True Inr wf in \<open>simp add: apply_transition_def reduce_worker_transition_def\<close>)
  next
    case False
    with Inr wf show ?thesis
      by (cases "illegal_transition_reason w tr")
        (auto simp: apply_transition_def reduce_worker_transition_def replace_fields_wf worker_id_truthy)
  qed
qed (use wf in \<open>simp add: apply_transition_def reduce_worker_transition_def\<close>)

lemma wf_apply_transition [wf_intros]:
  assumes "wf_worker w" and "wt_worker_id tr \<noteq> []" and "apply_transition w tr = Inr w'"
  shows "wf_worker w'"
  using assms
  by (auto simp: apply_transition_eq res_bind_Inr_iff split: if_splits
      intro: wf_finalized wf_reduce_payload)

end
