(* ===== verification/Worker_Snapshot.thy ===== *)
theory Worker_Snapshot
  imports Worker_Transition_Facts
begin

text \<open>
  \<open>worker_snapshot_transition.py\<close> and the constructor of \<open>WorkerSnapshotTransitionPatch\<close>
  (\<open>worker_state.py\<close>): a worker snapshot read back from storage is replayed on the latest worker
  as one transition. The lemmas give the patch of a well-formed worker in closed form and the
  lifecycle state and abort record after a replay.
\<close>

section \<open>Building a patch\<close>

definition transition_prompt_ids :: "json list \<Rightarrow> json list" where
  "transition_prompt_ids ids = filter (\<lambda>p. p \<noteq> JNull) ids"

text \<open>
  \<open>__post_init__\<close>. The id of a patch is a string: a truthy \<open>id\<close> of another type is rejected
  here with the \<open>TypeError\<close> that the id validator raises when the patch is applied.
\<close>

definition snapshot_patch_id :: "string \<Rightarrow> jdict \<Rightarrow> string result" where
  "snapshot_patch_id wid flds =
     (case dict_get flds ''id'' of
        JStr s \<Rightarrow> if s \<noteq> [] then Inr s
                  else if wid \<noteq> [] then Inr wid else Inl (ValueError ''snapshot patch requires worker_id'')
      | v \<Rightarrow> if py_truthy v then Inl (TypeError ''snapshot patch worker_id must be a string'')
             else if wid \<noteq> [] then Inr wid else Inl (ValueError ''snapshot patch requires worker_id''))"

definition snapshot_patch_target :: "string option \<Rightarrow> json \<Rightarrow> lifecycle option result" where
  "snapshot_patch_target target patch_state =
     (if target = None \<and> \<not> hashable patch_state then Inl (TypeError ''unhashable type'')
      else
        let resolved = (case target of
              None \<Rightarrow> (case json_lifecycle patch_state of None \<Rightarrow> None | Some l \<Rightarrow> Some (lifecycle_name l))
            | Some t \<Rightarrow> Some t)
        in if resolved \<noteq> None \<and> lifecycle_of_name (the resolved) = None
           then Inl (ValueError (''snapshot patch target lifecycle_state must be normalized: '' @ the resolved))
           else if patch_state \<noteq> JNull \<and> \<not> hashable patch_state then Inl (TypeError ''unhashable type'')
           else if patch_state \<noteq> JNull \<and> json_lifecycle patch_state = None
           then Inl (ValueError (''snapshot patch lifecycle_state must be normalized: '' @ py_str patch_state))
           else Inr (Option.bind resolved lifecycle_of_name))"

definition snapshot_patch_sources :: "string list \<Rightarrow> lifecycle option \<Rightarrow> lifecycle list result" where
  "snapshot_patch_sources sources target =
     (if sources = [] then Inr (worker_snapshot_replay_source_lifecycle_states target)
      else let invalid = sort (remdups (filter (\<lambda>s. lifecycle_of_name s = None) sources)) in
        if invalid \<noteq> []
        then Inl (ValueError (''snapshot patch source lifecycle_state must be normalized: '' @ join_with '', '' invalid))
        else Inr (map (\<lambda>s. the (lifecycle_of_name s)) sources))"

definition make_snapshot_patch ::
  "string \<Rightarrow> jdict \<Rightarrow> string option \<Rightarrow> string list \<Rightarrow> json list option \<Rightarrow> jdict \<Rightarrow> string list \<Rightarrow> bool \<Rightarrow>
   jdict \<Rightarrow> json list option \<Rightarrow> snapshot_patch result" where
  "make_snapshot_patch wid flds target sources prompt_ids set_if_missing remove stale abort_fields abort_ids =
     res_bind (snapshot_patch_id wid flds) (\<lambda>pid.
     res_bind (snapshot_patch_target target (dict_get flds ''lifecycle_state'')) (\<lambda>t.
     res_bind (snapshot_patch_sources sources t) (\<lambda>states.
     Inr \<lparr>sp_worker_id = pid, sp_fields = dict_set ''id'' (JStr pid) flds, sp_target = t,
          sp_prompt_ids = map_option transition_prompt_ids prompt_ids,
          sp_set_if_missing = set_if_missing, sp_remove_fields = remove,
          sp_stale_recovery_allowed = stale, sp_accepted_abort_fields = abort_fields,
          sp_accepted_abort_prompt_ids = map_option transition_prompt_ids abort_ids,
          sp_source_states = states\<rparr>)))"

section \<open>The patch of a worker\<close>

definition snapshot_worker_id :: "worker_record \<Rightarrow> string option \<Rightarrow> string result" where
  "snapshot_worker_id w wid =
     (case wid of
        Some (c # cs) \<Rightarrow> Inr (c # cs)
      | _ \<Rightarrow> (case worker_id w of JStr (c # cs) \<Rightarrow> Inr (c # cs)
               | _ \<Rightarrow> Inl (ValueError ''snapshot worker requires id'')))"

definition snapshot_prompt_ids :: "jdict \<Rightarrow> json list option" where
  "snapshot_prompt_ids snapshot =
     (case filter (\<lambda>f. is_list (dict_get snapshot (field_name f))) WORKER_SNAPSHOT_PROMPT_ID_FIELD_NAMES of
        [] \<Rightarrow> None
      | f # _ \<Rightarrow> (case dict_get snapshot (field_name f) of JList xs \<Rightarrow> Some xs | _ \<Rightarrow> None))"

definition present_fields :: "jdict \<Rightarrow> wfield list \<Rightarrow> jdict" where
  "present_fields snapshot fs =
     map (\<lambda>f. (field_name f, dict_get snapshot (field_name f)))
       (filter (\<lambda>f. dict_has snapshot (field_name f)) fs)"

definition worker_snapshot_transition_patch :: "worker_record \<Rightarrow> string option \<Rightarrow> snapshot_patch result" where
  "worker_snapshot_transition_patch w wid =
     res_bind (snapshot_worker_id w wid) (\<lambda>pid.
     res_bind (to_snapshot w) (\<lambda>snapshot0.
       let snapshot = dict_set ''id'' (JStr pid) snapshot0;
           flds = (''id'', JStr pid) # present_fields snapshot WORKER_SNAPSHOT_REPLAY_FIELD_NAMES;
           state = dict_get flds ''lifecycle_state'';
           prompt_ids = snapshot_prompt_ids snapshot
       in make_snapshot_patch pid flds
            (case state of JStr s \<Rightarrow> Some s | _ \<Rightarrow> None)
            (map lifecycle_name (worker_snapshot_replay_source_lifecycle_states (json_lifecycle state)))
            prompt_ids
            (filter (\<lambda>kv. py_truthy (snd kv)) (present_fields snapshot WORKER_SNAPSHOT_SET_IF_MISSING_FIELD_NAMES))
            (map field_name (filter (\<lambda>f. \<not> dict_has snapshot (field_name f))
              WORKER_SNAPSHOT_REMOVE_WHEN_ABSENT_FIELD_NAMES))
            True
            (present_fields snapshot WORKER_SNAPSHOT_ACCEPTED_ABORT_PASSTHROUGH_FIELD_NAMES)
            prompt_ids))"

definition snapshot_applied :: "snapshot_patch \<Rightarrow> worker_transition" where
  "snapshot_applied patch =
     \<lparr>wt_worker_id = sp_worker_id patch, wt_name = T_SNAPSHOT_APPLIED,
      wt_payload = Some (P_SnapshotApplied patch), wt_attempt_finalization = None\<rparr>"

definition worker_snapshot_transition :: "worker_record \<Rightarrow> string option \<Rightarrow> worker_transition result" where
  "worker_snapshot_transition w wid =
     res_bind (worker_snapshot_transition_patch w wid) (\<lambda>patch. Inr (snapshot_applied patch))"

section \<open>The patch in closed form\<close>

definition patch_fields :: "worker_record \<Rightarrow> wfield list" where
  "patch_fields w = filter (\<lambda>f. is_required f \<or> f \<in> wr_present w) WORKER_SNAPSHOT_REPLAY_FIELD_NAMES"

definition patch_of :: "worker_record \<Rightarrow> string \<Rightarrow> lifecycle \<Rightarrow> snapshot_patch" where
  "patch_of w pid l =
     \<lparr>sp_worker_id = pid,
      sp_fields = (''id'', JStr pid) # map (\<lambda>f. (field_name f, wr_slots w f)) (patch_fields w),
      sp_target = Some l,
      sp_prompt_ids = Some (transition_prompt_ids (list_slot w F_prompt_ids)),
      sp_set_if_missing =
        (if py_truthy (wr_slots w F_session_id) then [(''session_id'', wr_slots w F_session_id)] else []),
      sp_remove_fields = map field_name (filter (\<lambda>f. f \<notin> wr_present w) REMOVABLE_WORKER_TRANSITION_FIELDS),
      sp_stale_recovery_allowed = True,
      sp_accepted_abort_fields =
        (if F_cleanup \<in> wr_present w then [(''cleanup'', wr_slots w F_cleanup)] else []),
      sp_accepted_abort_prompt_ids = Some (transition_prompt_ids (list_slot w F_prompt_ids)),
      sp_source_states = worker_snapshot_replay_source_lifecycle_states (Some l)\<rparr>"

lemma replay_sources_nonempty: "worker_snapshot_replay_source_lifecycle_states (Some l) \<noteq> []"
proof -
  have "l \<in> set (worker_snapshot_replay_source_lifecycle_states (Some l))"
    by (simp add: worker_snapshot_replay_source_lifecycle_states_def snapshot_target_states_def)
  then show ?thesis by auto
qed

lemma snapshot_patch_sources_names:
  "ls \<noteq> [] \<Longrightarrow> snapshot_patch_sources (map lifecycle_name ls) t = Inr ls"
  by (simp add: snapshot_patch_sources_def Let_def filter_empty_conv comp_def)

lemma field_name_id_iff [simp]: "field_name f = ''id'' \<longleftrightarrow> f = F_id"
  using field_name_inj [of f F_id] by simp

lemma map_of_snapshot_id:
  assumes "wf_worker w"
  shows "map_of (dict_set ''id'' v (snapshot_of w)) (field_name f) =
    (if f = F_id then Some v else if is_required f \<or> f \<in> wr_present w then Some (wr_slots w f) else None)"
  using map_of_snapshot_of [OF assms, of f] by simp

lemma dict_has_snapshot_id:
  "wf_worker w \<Longrightarrow> dict_has (dict_set ''id'' v (snapshot_of w)) (field_name f) \<longleftrightarrow>
     is_required f \<or> f \<in> wr_present w"
  using map_of_snapshot_id [of w v f] by (auto simp: dict_has_iff_map_of)

lemma dict_get_snapshot_id:
  "wf_worker w \<Longrightarrow> dict_get (dict_set ''id'' v (snapshot_of w)) (field_name f) =
     (if f = F_id then v else wr_slots w f)"
  using map_of_snapshot_id [of w v f] by (auto simp: dict_get_def wf_worker_def)

lemma present_fields_eq:
  "wf_worker w \<Longrightarrow> F_id \<notin> set fs \<Longrightarrow>
     present_fields (dict_set ''id'' v (snapshot_of w)) fs =
       map (\<lambda>f. (field_name f, wr_slots w f)) (filter (\<lambda>f. is_required f \<or> f \<in> wr_present w) fs)"
  unfolding present_fields_def dict_has_snapshot_id dict_get_snapshot_id
  by (intro map_cong filter_cong) auto

lemma snapshot_prompt_ids_eq:
  assumes "wf_worker w"
  shows "snapshot_prompt_ids (dict_set ''id'' v (snapshot_of w)) = Some (list_slot w F_prompt_ids)"
proof -
  obtain xs where "wr_slots w F_prompt_ids = JList xs" using wf_worker_list [OF assms, of F_prompt_ids] by auto
  with dict_get_snapshot_id [OF assms, of v F_prompt_ids] show ?thesis
    by (simp add: snapshot_prompt_ids_def snapshot_single_fields_eq list_slot_def)
qed

lemma lifecycle_slot:
  "wf_worker w \<Longrightarrow> worker_lifecycle w = Some l \<Longrightarrow> wr_slots w F_lifecycle_state = JStr (lifecycle_name l)"
  by (erule wf_worker_lifecycle) simp

lemma lifecycle_in_patch_fields: "F_lifecycle_state \<in> set (patch_fields w)"
  by (simp add: patch_fields_def snapshot_replay_fields_eq)

lemma snapshot_patch_eq:
  assumes wf: "wf_worker w" and wid: "wid = None \<or> wid = Some pid"
    and pid: "worker_id w = JStr pid \<or> wid = Some pid" "pid \<noteq> []"
    and l: "worker_lifecycle w = Some l"
  shows "worker_snapshot_transition_patch w wid = Inr (patch_of w pid l)"
proof -
  have id: "snapshot_worker_id w wid = Inr pid"
    using wid pid by (auto simp: snapshot_worker_id_def split: option.splits json.splits list.splits)
  have F: "present_fields (dict_set ''id'' (JStr pid) (snapshot_of w)) WORKER_SNAPSHOT_REPLAY_FIELD_NAMES =
      map (\<lambda>f. (field_name f, wr_slots w f)) (patch_fields w)"
    unfolding patch_fields_def by (rule present_fields_eq [OF wf]) (simp add: snapshot_replay_fields_eq)
  have ls: "wr_slots w F_lifecycle_state = JStr (lifecycle_name l)"
    using wf l by (rule lifecycle_slot)
  have st: "dict_get (map (\<lambda>f. (field_name f, wr_slots w f)) (patch_fields w)) ''lifecycle_state'' =
      JStr (lifecycle_name l)"
    using map_of_field_names [of "wr_slots w" "patch_fields w" F_lifecycle_state] lifecycle_in_patch_fields ls
    by (simp add: dict_get_def)
  have "snapshot_patch_id pid ((''id'', JStr pid) # d) = Inr pid" for d
    using pid(2) by (simp add: snapshot_patch_id_def dict_get_def)
  moreover have "snapshot_patch_target (Some (lifecycle_name l)) (JStr (lifecycle_name l)) = Inr (Some l)"
    by (simp add: snapshot_patch_target_def)
  moreover have R: "map field_name (filter (\<lambda>f. \<not> dict_has (dict_set ''id'' (JStr pid) (snapshot_of w)) (field_name f))
      WORKER_SNAPSHOT_REMOVE_WHEN_ABSENT_FIELD_NAMES) =
    map field_name (filter (\<lambda>f. f \<notin> wr_present w) REMOVABLE_WORKER_TRANSITION_FIELDS)"
    unfolding dict_has_snapshot_id [OF wf] WORKER_SNAPSHOT_REMOVE_WHEN_ABSENT_FIELD_NAMES_def
    by (simp add: removable_fields_eq)
  moreover have S: "present_fields (dict_set ''id'' (JStr pid) (snapshot_of w)) [F_session_id] =
      [(''session_id'', wr_slots w F_session_id)]"
    "present_fields (dict_set ''id'' (JStr pid) (snapshot_of w)) [F_cleanup] =
      (if F_cleanup \<in> wr_present w then [(''cleanup'', wr_slots w F_cleanup)] else [])"
    by (simp_all add: present_fields_eq wf)
  ultimately show ?thesis
    unfolding worker_snapshot_transition_patch_def id to_snapshot_wf [OF wf] res_bind_simps Let_def F R
      snapshot_single_fields_eq S snapshot_prompt_ids_eq [OF wf] make_snapshot_patch_def
    by (simp add: dict_get_Cons st snapshot_patch_sources_names replay_sources_nonempty patch_of_def dict_set_def)
qed

section \<open>Replaying a patch\<close>

lemma remove_removable_fields:
  "set fs \<subseteq> set REMOVABLE_WORKER_TRANSITION_FIELDS \<Longrightarrow>
     res_fold remove_named_field w (map field_name fs) = Inr (fold (\<lambda>f w'. drop_field w' f) fs w)"
  by (induction fs arbitrary: w) (auto simp: remove_named_field_def removable_fields_eq)

lemma slots_fold_drop:
  "wr_slots (fold (\<lambda>f w'. drop_field w' f) fs w) g = (if g \<in> set fs then JNull else wr_slots w g)"
  by (induction fs arbitrary: w) auto

lemma wf_fold_drop:
  "wf_worker w \<Longrightarrow> (\<And>f. f \<in> set fs \<Longrightarrow> \<not> is_required f) \<Longrightarrow> wf_worker (fold (\<lambda>f w'. drop_field w' f) fs w)"
  by (induction fs arbitrary: w) (auto intro: wf_drop_field)

lemma wf_fold_put:
  "wf_worker w \<Longrightarrow> (\<And>f. f \<in> set fs \<Longrightarrow> canonical_value f (g f) = Inr (g f)) \<Longrightarrow>
     wf_worker (fold (\<lambda>f w'. put_field w' f (g f)) fs w)"
  by (induction fs arbitrary: w) (auto intro: wf_put_field)

lemma slots_fold_put:
  "wr_slots (fold (\<lambda>f w'. put_field w' f (g f)) fs w) h = (if h \<in> set fs then g h else wr_slots w h)"
  by (simp add: fold_put_field)

lemma set_missing_session_eq:
  "set_missing_field w (''session_id'', v) =
     Inr (if py_truthy v \<and> \<not> py_truthy (wr_slots w F_session_id) then put_field w F_session_id v else w)"
proof -
  have "field_of_name ''session_id'' = Some F_session_id"
    using field_of_name_name [of F_session_id] by simp
  then show ?thesis
    using set_field_value_name [of w F_session_id v]
    by (simp add: set_missing_field_def get_named_attr_def set_canonical_field_def)
qed

lemma patch_fields_subset: "set (patch_fields v) \<subseteq> set WORKER_SNAPSHOT_REPLAY_FIELD_NAMES"
  by (auto simp: patch_fields_def)

text \<open>
  Replaying the patch of a well-formed worker never raises. Every replayed field takes the value
  of the snapshot, a removable field that the snapshot lacks is removed, and no other field than
  the id, the prompt ids and the session changes.
\<close>

lemma reduce_snapshot_patch:
  assumes wf: "wf_worker w" and v: "wf_worker v" and pid: "pid \<noteq> []" and tid: "wt_worker_id tr \<noteq> []"
  shows "\<exists>w'. reduce_snapshot_applied_transition w tr (patch_of v pid l) = Inr w' \<and> wf_worker w' \<and>
    (\<forall>f \<in> set (patch_fields v). wr_slots w' f = wr_slots v f) \<and>
    (\<forall>f. f \<notin> set (patch_fields v) \<union> set REMOVABLE_WORKER_TRANSITION_FIELDS \<union> {F_id, F_prompt_ids, F_session_id} \<longrightarrow>
       wr_slots w' f = wr_slots w f)"
proof -
  define w1 where "w1 = put_field (put_field w F_id (JStr (wt_worker_id tr))) F_id (JStr pid)"
  define w2 where "w2 = fold (\<lambda>f w'. put_field w' f (wr_slots v f)) (patch_fields v) w1"
  define rm where "rm = filter (\<lambda>f. f \<notin> wr_present v) REMOVABLE_WORKER_TRANSITION_FIELDS"
  define w3 where "w3 = fold (\<lambda>f w'. drop_field w' f) rm w2"
  obtain w4 where w4: "w4 = put_field w3 F_prompt_ids (JList (merge_values
      (if latest_prompt_ids_are_retry_marker w then [] else list_slot w F_prompt_ids)
      (transition_prompt_ids (list_slot v F_prompt_ids))))" by blast
  define w5 where "w5 = (if py_truthy (wr_slots v F_session_id) \<and> \<not> py_truthy (wr_slots w4 F_session_id)
      then put_field w4 F_session_id (wr_slots v F_session_id) else w4)"
  have rm: "\<not> is_required f" if "f \<in> set rm" for f
    using that by (simp add: rm_def) (auto simp: removable_fields_eq)
  have can: "canonical_value f (wr_slots v f) = Inr (wr_slots v f)" if "f \<in> set (patch_fields v)" for f
    using that v by (auto simp: patch_fields_def wf_worker_slot)
  have merge: "merge_fields (put_field w F_id (JStr (wt_worker_id tr)))
      ((''id'', JStr pid) # map (\<lambda>f. (field_name f, wr_slots v f)) (patch_fields v)) = Inr w2"
    using merge_fields_list [of "patch_fields v" "wr_slots v" w1] can pid
      set_field_value_name [of "put_field w F_id (JStr (wt_worker_id tr))" F_id "JStr pid"]
    by (simp add: merge_fields_def set_canonical_field_def w1_def w2_def)
  have "reduce_snapshot_applied_transition w tr (patch_of v pid l) = Inr w5"
    using wf tid
    by (simp add: reduce_snapshot_applied_transition_def patch_of_def set_canonical_field_def merge
        remove_removable_fields merge_optional_prompt_ids_def set_missing_session_eq w5_def w4 w3_def rm_def)
  moreover have "wf_worker w5"
  proof -
    have "wf_worker w1" unfolding w1_def using wf pid tid by (intro wf_put_field) auto
    then have "wf_worker w2" unfolding w2_def by (rule wf_fold_put) (rule can)
    then have "wf_worker w3" unfolding w3_def by (rule wf_fold_drop) (rule rm)
    then have "wf_worker w4" unfolding w4 by (rule wf_put_field) simp
    then show ?thesis by (auto simp: w5_def intro: wf_put_field)
  qed
  moreover have "wr_slots w5 f = wr_slots v f" if f: "f \<in> set (patch_fields v)" for f
  proof -
    have "f \<notin> set rm" using f by (auto simp: rm_def patch_fields_def removable_fields_eq)
    moreover have "f \<noteq> F_prompt_ids" "f \<noteq> F_session_id" using f patch_fields_subset [of v]
      by (auto simp: snapshot_replay_fields_eq)
    ultimately show ?thesis using f by (simp add: w5_def w4 w3_def w2_def slots_fold_drop slots_fold_put)
  qed
  moreover have "wr_slots w5 f = wr_slots w f"
    if f: "f \<notin> set (patch_fields v) \<union> set REMOVABLE_WORKER_TRANSITION_FIELDS \<union> {F_id, F_prompt_ids, F_session_id}" for f
  proof -
    have "f \<notin> set rm" using f by (auto simp: rm_def)
    with f show ?thesis by (simp add: w5_def w4 w3_def w2_def w1_def slots_fold_drop slots_fold_put)
  qed
  ultimately show ?thesis by blast
qed

end
