(* ===== verification/Lifecycle_Machine.thy ===== *)
theory Lifecycle_Machine
  imports Worker_Snapshot
begin

text \<open>
  The lifecycle of a worker as an abstract state machine, and the proof that the reducers refine
  it. A state of the machine is the lifecycle state together with whether the worker's abort was
  accepted; the worker records of \<open>worker_state.py\<close> map to it by \<open>machine_state\<close>.
\<close>

section \<open>Lifecycle states in the order of their names\<close>

instantiation lifecycle :: linorder
begin

definition less_eq_lifecycle :: "lifecycle \<Rightarrow> lifecycle \<Rightarrow> bool" where
  "less_eq_lifecycle a b \<longleftrightarrow> lifecycle_name a \<le> lifecycle_name b"

definition less_lifecycle :: "lifecycle \<Rightarrow> lifecycle \<Rightarrow> bool" where
  "less_lifecycle a b \<longleftrightarrow> lifecycle_name a < lifecycle_name b"

instance
  by standard (auto simp: less_eq_lifecycle_def less_lifecycle_def dest: antisym)

end

lemma map_lifecycle_name_insort:
  "map lifecycle_name (insort l ls) = insort (lifecycle_name l) (map lifecycle_name ls)"
  by (induction ls) (simp_all add: less_eq_lifecycle_def)

text \<open>\<open>sorted\<close> of the state names is the sorted list of the states, by name.\<close>

lemma sort_lifecycle_names: "sort (map lifecycle_name ls) = map lifecycle_name (sort ls)"
  by (induction ls) (simp_all add: map_lifecycle_name_insort)

section \<open>The machine\<close>

type_synonym mstate = "lifecycle \<times> bool"

definition absorbed :: "mstate \<Rightarrow> bool" where
  "absorbed s \<longleftrightarrow> snd s \<and> fst s \<in> {Timeout_Aborted, Aborted}"

definition schedulable :: "lifecycle set" where
  "schedulable = {Queued, Active_Wait, Active_Retry, Failed_Retry, Timeout_Retry, Timeout_Failed_Retry}"

inductive lifecycle_step :: "mstate \<Rightarrow> transition_name \<Rightarrow> mstate \<Rightarrow> bool" where
  provisioned: "l \<in> schedulable \<Longrightarrow> lifecycle_step (l, a) T_PROVISIONED (l, a)"
| active: "l \<in> schedulable \<union> {Blocked_Dependency, Blocked_Timeout} \<Longrightarrow>
    lifecycle_step (l, a) T_ACTIVE (Active_Wait, a)"
| attempt_started: "lifecycle_step (Active_Wait, a) T_ATTEMPT_STARTED (Active_Wait, a)"
| failed: "l \<in> schedulable \<Longrightarrow> t \<in> {Failed_Retry, Failed_Terminal} \<Longrightarrow>
    lifecycle_step (l, a) T_FAILED (t, a)"
| dependency_blocked: "l \<in> {Queued, Active_Wait, Active_Retry} \<Longrightarrow>
    lifecycle_step (l, a) T_DEPENDENCY_BLOCKED (Blocked_Dependency, a)"
| abort_accepted: "l \<in> schedulable \<union> {Blocked_Dependency, Blocked_Timeout, Timeout_Aborted, Aborted} \<Longrightarrow>
    lifecycle_step (l, a) T_ABORTED (Aborted, True)"
| abort_refused: "l \<in> schedulable \<union> {Blocked_Dependency, Blocked_Timeout, Timeout_Aborted, Aborted} \<Longrightarrow>
    \<not> absorbed (l, a) \<Longrightarrow> lifecycle_step (l, a) T_ABORTED (l, False)"
| retry_scheduled: "l \<in> {Active_Wait, Failed_Retry, Timeout_Retry, Timeout_Failed_Retry} \<Longrightarrow>
    lifecycle_step (l, a) T_RETRY_SCHEDULED (Active_Retry, a)"
| timed_out: "t \<in> {Blocked_Timeout, Timeout_Retry, Timeout_Terminal, Timeout_Failed_Retry,
      Timeout_Failed_Terminal, Timeout_Aborted} \<Longrightarrow>
    lifecycle_step (Active_Wait, a) T_TIMED_OUT (t, a)"
| result_applied: "t \<in> {Blocked_Dependency, Done_Collect, Failed_Terminal, Timeout_Terminal, Aborted} \<Longrightarrow>
    lifecycle_step (Active_Wait, a) T_RESULT_APPLIED (t, a)"
| stays_aborted: "absorbed s \<Longrightarrow> n \<noteq> T_CLEANUP_UPDATED \<Longrightarrow> lifecycle_step s n s"
| cleanup_updated: "lifecycle_step s T_CLEANUP_UPDATED s"
| snapshot_stale: "lifecycle_step s T_SNAPSHOT_APPLIED s"
| snapshot_applied: "\<not> absorbed (l, a) \<Longrightarrow>
    l \<in> set (worker_snapshot_replay_source_lifecycle_states (Some t)) \<Longrightarrow>
    lifecycle_step (l, a) T_SNAPSHOT_APPLIED (t, b)"
| snapshot_aborted: "absorbed s \<Longrightarrow> absorbed s' \<Longrightarrow> lifecycle_step s T_SNAPSHOT_APPLIED s'"

inductive_cases lifecycle_stepE: "lifecycle_step s n s'"

inductive_simps lifecycle_step_cleanup: "lifecycle_step s T_CLEANUP_UPDATED s'"
inductive_simps lifecycle_step_attempt: "lifecycle_step s T_ATTEMPT_STARTED s'"

inductive lifecycle_reach :: "mstate \<Rightarrow> mstate \<Rightarrow> bool" where
  reach_refl: "lifecycle_reach s s"
| reach_step: "lifecycle_reach s s' \<Longrightarrow> lifecycle_step s' n s'' \<Longrightarrow> lifecycle_reach s s''"

lemma absorbed_step: "lifecycle_step s n s' \<Longrightarrow> absorbed s \<Longrightarrow> absorbed s'"
  by (erule lifecycle_stepE) (auto simp: absorbed_def schedulable_def)

lemma absorbed_reach: "lifecycle_reach s s' \<Longrightarrow> absorbed s \<Longrightarrow> absorbed s'"
  by (induction rule: lifecycle_reach.induct) (auto dest: absorbed_step)

definition final_states :: "lifecycle set" where
  "final_states = {Done_Collect, Failed_Terminal, Timeout_Terminal, Timeout_Failed_Terminal}"

lemma final_step:
  "lifecycle_step s n s' \<Longrightarrow> fst s \<in> final_states \<Longrightarrow> n \<noteq> T_SNAPSHOT_APPLIED \<Longrightarrow> s' = s"
  by (erule lifecycle_stepE) (auto simp: absorbed_def schedulable_def final_states_def)

section \<open>The reducers refine the machine\<close>

definition machine_state :: "worker_record \<Rightarrow> mstate" where
  "machine_state w = (the (worker_lifecycle w), abort_is_accepted (wr_slots w F_abort))"

lemma public_aborted_iff: "fst (public_worker_state (Some l)) = Some ''aborted'' \<longleftrightarrow> l \<in> {Timeout_Aborted, Aborted}"
  by (cases l) simp_all

lemma accepted_abort_fields_iff:
  "accepted_abort_fields a (Some l) \<longleftrightarrow> absorbed (l, abort_is_accepted a)"
  by (simp add: accepted_abort_fields_def public_aborted_iff absorbed_def)

lemma accepted_abort_iff: "worker_lifecycle w = Some l \<Longrightarrow> accepted_abort w \<longleftrightarrow> absorbed (machine_state w)"
  by (simp add: accepted_abort_def accepted_abort_fields_iff machine_state_def)

lemma machine_state_finalized: "wf_worker w \<Longrightarrow> machine_state (finalized w fin) = machine_state w"
  using finalized_effect [of w fin] by (simp add: effect_def machine_state_def)

lemma passthrough_state:
  assumes "wf_worker w" and "payload_name p \<noteq> T_SNAPSHOT_APPLIED"
    and "apply_accepted_abort_passthrough w w p = Inr w'"
  shows "machine_state w' = machine_state w"
  using assms by (cases p) (auto simp: machine_state_def split: if_splits)

lemma payload_name_of:
  "require_transition_payload tr = Inr p \<Longrightarrow> payload_name p = wt_name tr"
  by (auto simp: require_transition_payload_def split: option.splits if_splits)

text \<open>One reduced, not absorbed transition, from a source its row allows.\<close>

lemma spec_reducer_step:
  assumes wf: "wf_worker w" and wid: "wt_worker_id tr \<noteq> []"
    and p: "require_transition_payload tr = Inr p" and ns: "wt_name tr \<noteq> T_SNAPSHOT_APPLIED"
    and target: "worker_transition_target_lifecycle_state tr = Inr target"
    and red: "spec_reducer w tr target p = Inr w'"
    and l: "worker_lifecycle w = Some l" "l \<in> set (ts_source_states (worker_transition_spec (wt_name tr)))"
    and na: "\<not> absorbed (machine_state w)"
  shows "lifecycle_step (machine_state w) (wt_name tr) (machine_state w')"
proof -
  have n: "payload_name p = wt_name tr" using p by (rule payload_name_of)
  note eff = spec_reducer_effect [OF wf wid p _ target red, unfolded n, OF ns]
  have w': "machine_state w' = (the (payload_lifecycle (Some l) target p),
      abort_is_accepted (payload_abort (wr_slots w F_abort) p))"
    using eff l(1) by (simp add: machine_state_def)
  have w: "machine_state w = (l, abort_is_accepted (wr_slots w F_abort))"
    using l(1) by (simp add: machine_state_def)
  have t: "t \<in> set (ts_target_states (worker_transition_spec (wt_name tr)))" if "target = Some t" for t
    using resolved_target_in_targets [of tr t] target ns that by simp
  note pr = payload_resolver [OF p, unfolded target]
  show ?thesis
  proof (cases p)
    case (P_TimedOut r s tat av man st)
    with pr obtain t where "target = Some t" by auto
    with t n [symmetric] P_TimedOut l(2) show ?thesis
      unfolding w w' by (auto simp: payload_lifecycle_def payload_abort_def intro!: lifecycle_step.timed_out)
  next
    case (P_ResultApplied res ids st)
    with pr obtain t where "target = Some t" by (cases "dict_index res ''status''") auto
    with t n [symmetric] P_ResultApplied l(2) show ?thesis
      unfolding w w' by (auto simp: payload_lifecycle_def payload_abort_def intro!: lifecycle_step.result_applied)
  next
    case (P_Failed c r re av st ids)
    with pr obtain tt where "target = Some tt" by auto
    with t n [symmetric] P_Failed l(2) show ?thesis
      unfolding w w' by (auto simp: payload_lifecycle_def payload_abort_def schedulable_def
          intro!: lifecycle_step.failed)
  next
    case (P_Aborted a)
    with pr have "target = Some Aborted" by simp
    with n [symmetric] P_Aborted l(2) na w show ?thesis
      unfolding w w' by (auto simp: payload_lifecycle_def payload_abort_def schedulable_def
          intro!: lifecycle_step.abort_accepted lifecycle_step.abort_refused)
  qed (use pr n [symmetric] l(2) ns in \<open>auto simp: w w' payload_lifecycle_def payload_abort_def schedulable_def
      intro!: lifecycle_step.provisioned lifecycle_step.active lifecycle_step.attempt_started
        lifecycle_step.dependency_blocked lifecycle_step.retry_scheduled lifecycle_step.cleanup_updated\<close>)
qed

lemma absorbed_reducer_step:
  assumes wf: "wf_worker w" and wid: "wt_worker_id tr \<noteq> []"
    and p: "require_transition_payload tr = Inr p" and ns: "wt_name tr \<noteq> T_SNAPSHOT_APPLIED"
    and target: "worker_transition_target_lifecycle_state tr = Inr target"
    and red: "spec_reducer w tr target p = Inr w0"
    and inv: "accepted_abort_terminal_invariant w w0 p = Inr w'"
    and ab: "absorbed (machine_state w)"
  shows "lifecycle_step (machine_state w) (wt_name tr) (machine_state w')"
proof -
  obtain l where l: "worker_lifecycle w = Some l" using wf by (rule wf_worker_lifecycle)
  have n: "payload_name p = wt_name tr" using p by (rule payload_name_of)
  note eff = spec_reducer_effect [OF wf wid p _ target red, unfolded n, OF ns]
  have acc: "accepted_abort w" using accepted_abort_iff [OF l] ab by simp
  show ?thesis
  proof (cases "accepted_abort_transition_keeps_reduced_worker p")
    case True
    with inv have w': "w' = w0" by (simp add: accepted_abort_terminal_invariant_def)
    show ?thesis
    proof (cases p)
      case (P_Aborted a)
      with payload_resolver [OF p] target have "target = Some Aborted" by simp
      with P_Aborted True eff w' have "machine_state w' = (Aborted, True)"
        by (simp add: machine_state_def payload_lifecycle_def payload_abort_def)
      moreover have "machine_state w = (l, True)" "l \<in> {Timeout_Aborted, Aborted}"
        using ab l by (auto simp: machine_state_def absorbed_def)
      ultimately show ?thesis
        using n P_Aborted lifecycle_step.abort_accepted [of l True] by (auto simp: schedulable_def)
    next
      case (P_CleanupUpdated c)
      with eff w' l have "machine_state w' = machine_state w"
        by (simp add: machine_state_def payload_lifecycle_def payload_abort_def)
      with n P_CleanupUpdated show ?thesis
        using lifecycle_step.cleanup_updated [of "machine_state w"] by (simp flip: n)
    qed (use True n ns in \<open>auto simp flip: n\<close>)
  next
    case False
    with inv acc wf have "apply_accepted_abort_passthrough w w p = Inr w'"
      by (simp add: accepted_abort_terminal_invariant_def)
    then have "machine_state w' = machine_state w" using passthrough_state [OF wf, of p w'] n ns by simp
    moreover have "wt_name tr \<noteq> T_CLEANUP_UPDATED" using False n by (cases p) auto
    ultimately show ?thesis using ab lifecycle_step.stays_aborted by simp
  qed
qed

lemma public_transition_step:
  assumes wf: "wf_worker w" and wid: "wt_worker_id tr \<noteq> []" and ns: "wt_name tr \<noteq> T_SNAPSHOT_APPLIED"
    and app: "apply_transition w tr = Inr w'"
  shows "lifecycle_step (machine_state w) (wt_name tr) (machine_state w')"
proof -
  obtain l where l: "worker_lifecycle w = Some l" using wf by (rule wf_worker_lifecycle)
  have "\<not> is_stale_snapshot_recovery tr" using ns by (simp add: is_stale_snapshot_recovery_def)
  with app obtain w1 where legal: "worker_transition_is_legal w tr = Inr True"
    and w1: "reduce_worker_transition_payload w tr = Inr w1"
    and w': "w' = finalized w1 (wt_attempt_finalization tr)"
    by (auto simp: apply_transition_eq [OF wf wid] res_bind_Inr_iff split: if_splits)
  have m: "machine_state w' = machine_state w1"
    unfolding w' by (rule machine_state_finalized) (rule wf_reduce_payload [OF wf wid w1])
  from w1 obtain p target w0 where p: "require_transition_payload tr = Inr p"
    and target: "worker_transition_target_lifecycle_state tr = Inr target"
    and red: "spec_reducer w tr target p = Inr w0"
    and inv: "accepted_abort_terminal_invariant w w0 p = Inr w1"
    by (auto simp: reduce_worker_transition_payload_def res_bind_Inr_iff)
  show ?thesis
  proof (cases "absorbed (machine_state w)")
    case True
    show ?thesis unfolding m by (rule absorbed_reducer_step [OF wf wid p ns target red inv True])
  next
    case False
    then have na: "\<not> accepted_abort w" using accepted_abort_iff [OF l] by simp
    with inv have "w1 = w0" by (simp add: accepted_abort_terminal_invariant_def)
    moreover have "l \<in> set (ts_source_states (worker_transition_spec (wt_name tr)))"
      using legal na l ns
      by (auto simp: worker_transition_is_legal_def accepted_abort_terminal_invariant_applies_def
          transition_source_lifecycle_states_def)
    ultimately show ?thesis
      using spec_reducer_step [OF wf wid p ns target red l] False m by simp
  qed
qed

section \<open>Snapshot replay refines the machine\<close>

lemma patch_field:
  assumes v: "wf_worker v" and f: "f \<in> set WORKER_SNAPSHOT_REPLAY_FIELD_NAMES" "f \<noteq> F_id"
  shows "dict_get (sp_fields (patch_of v pid l)) (field_name f) = wr_slots v f"
proof -
  have "f \<notin> set (patch_fields v) \<Longrightarrow> wr_slots v f = JNull"
    using f v by (simp add: patch_fields_def wf_worker_def)
  then show ?thesis
    using map_of_field_names [of "wr_slots v" "patch_fields v" f] f(2)
    by (simp add: patch_of_def dict_get_Cons) (simp add: dict_get_def)
qed

lemma patch_abort:
  assumes v: "wf_worker v"
  shows "dict_get (sp_fields (patch_of v pid l)) ''abort'' = wr_slots v F_abort"
    and "dict_get (sp_fields (patch_of v pid l)) ''lifecycle_state'' = wr_slots v F_lifecycle_state"
  using patch_field [OF v, of F_abort] patch_field [OF v, of F_lifecycle_state]
  by (simp_all add: snapshot_replay_fields_eq)

lemma merge_cleanup:
  "merge_fields w (sp_accepted_abort_fields (patch_of v pid l)) =
     Inr (if F_cleanup \<in> wr_present v then put_field w F_cleanup (wr_slots v F_cleanup) else w)"
  using set_field_value_name [of w F_cleanup]
  by (simp add: patch_of_def merge_fields_def set_canonical_field_def)

lemma snapshot_passthrough_state:
  assumes "apply_accepted_abort_passthrough w w (P_SnapshotApplied (patch_of v pid l)) = Inr w'"
  shows "machine_state w' = machine_state w"
proof -
  have "merge_optional_prompt_ids u w (sp_accepted_abort_prompt_ids (patch_of v pid l)) = Inr w'
      \<Longrightarrow> machine_state w' = machine_state u" for u
    by (auto simp: patch_of_def merge_optional_prompt_ids_def machine_state_def)
  with assms show ?thesis by (simp add: merge_cleanup) (simp add: machine_state_def)
qed

lemma snapshot_transition_step:
  assumes wf: "wf_worker w" and v: "wf_worker v" and lv: "worker_lifecycle v = Some lv"
    and pid: "pid \<noteq> []"
    and app: "apply_transition w (snapshot_applied (patch_of v pid lv)) = Inr w'"
  shows "lifecycle_step (machine_state w) T_SNAPSHOT_APPLIED (machine_state w')"
proof -
  let ?tr = "snapshot_applied (patch_of v pid lv)"
  let ?p = "P_SnapshotApplied (patch_of v pid lv)"
  have tr [simp]: "wt_name ?tr = T_SNAPSHOT_APPLIED" "wt_worker_id ?tr = pid"
    "wt_attempt_finalization ?tr = None" "require_transition_payload ?tr = Inr ?p"
    "wt_payload ?tr = Some ?p"
    by (simp_all add: snapshot_applied_def patch_of_def require_transition_payload_def)
  obtain l where l: "worker_lifecycle w = Some l" using wf by (rule wf_worker_lifecycle)
  have tid: "wt_worker_id ?tr \<noteq> []" using pid by simp
  obtain w0 where red: "reduce_snapshot_applied_transition w ?tr (patch_of v pid lv) = Inr w0"
    and wf0: "wf_worker w0" and same: "\<forall>f \<in> set (patch_fields v). wr_slots w0 f = wr_slots v f"
    and other: "\<forall>f. f \<notin> set (patch_fields v) \<union> set REMOVABLE_WORKER_TRANSITION_FIELDS
       \<union> {F_id, F_prompt_ids, F_session_id} \<longrightarrow> wr_slots w0 f = wr_slots w f"
    using reduce_snapshot_patch [OF wf v pid tid, of lv] by blast
  have l0: "worker_lifecycle w0 = Some lv"
    using same lifecycle_in_patch_fields [of v] lv by (simp add: worker_lifecycle_def)
  have red': "reduce_worker_transition_payload w ?tr = accepted_abort_terminal_invariant w w0 ?p"
    using red by (simp add: reduce_worker_transition_payload_def payload_resolver)
  obtain legal where lg: "worker_transition_is_legal w ?tr = Inr legal"
    and rest: "(if legal then res_bind (reduce_worker_transition_payload w ?tr)
        (\<lambda>w1. Inr (finalized w1 (wt_attempt_finalization ?tr)))
      else res_bind (illegal_transition_reason w ?tr) (\<lambda>reason.
        if is_stale_snapshot_recovery ?tr then Inr w else Inl (WorkerTransitionError reason))) = Inr w'"
    using app unfolding apply_transition_eq [OF wf tid] by (rule res_bind_InrE)
  have "\<not> legal \<Longrightarrow> w' = w"
    using rest by (cases "illegal_transition_reason w ?tr") (simp_all split: if_splits)
  moreover have "legal \<Longrightarrow> \<exists>w1. accepted_abort_terminal_invariant w w0 ?p = Inr w1 \<and> w' = w1"
    using rest unfolding red'
    by (cases "accepted_abort_terminal_invariant w w0 ?p")
      (simp_all add: finalized_def finalize_worker_attempt_def)
  ultimately consider "w' = w" | w1 where "worker_transition_is_legal w ?tr = Inr True"
    and "accepted_abort_terminal_invariant w w0 ?p = Inr w1" and "w' = w1"
    using lg by (cases legal) auto
  then show ?thesis
  proof cases
    case 1
    then show ?thesis using lifecycle_step.snapshot_stale by simp
  next
    case 2
    show ?thesis
    proof (cases "absorbed (machine_state w)")
      case ab: True
      then have acc: "accepted_abort w" using accepted_abort_iff [OF l] by simp
      show ?thesis
      proof (cases "accepted_abort_transition_keeps_reduced_worker ?p")
        case True
        then have abv: "absorbed (lv, abort_is_accepted (wr_slots v F_abort))"
          using patch_abort [OF v, of pid lv] lifecycle_slot [OF v lv] accepted_abort_fields_iff by simp
        moreover have "F_abort \<in> wr_present v"
        proof (rule ccontr)
          assume "F_abort \<notin> wr_present v"
          with v have "wr_slots v F_abort = JNull" by (simp add: wf_worker_def)
          with abv show False by (simp add: absorbed_def abort_is_accepted_def)
        qed
        then have "F_abort \<in> set (patch_fields v)"
          by (simp add: patch_fields_def snapshot_replay_fields_eq)
        ultimately have "absorbed (machine_state w0)" using same l0 by (simp add: machine_state_def)
        with True 2 ab show ?thesis
          using lifecycle_step.snapshot_aborted by (simp add: accepted_abort_terminal_invariant_def)
      next
        case False
        with 2 acc wf have "apply_accepted_abort_passthrough w w ?p = Inr w'"
          by (simp add: accepted_abort_terminal_invariant_def)
        then have "machine_state w' = machine_state w" by (rule snapshot_passthrough_state)
        then show ?thesis using lifecycle_step.snapshot_stale by simp
      qed
    next
      case na: False
      then have nacc: "\<not> accepted_abort w" using accepted_abort_iff [OF l] by simp
      with 2 have w': "w' = w0" by (simp add: accepted_abort_terminal_invariant_def)
      have "l \<in> set (worker_snapshot_replay_source_lifecycle_states (Some lv))"
        using 2(1) nacc l
        by (simp add: worker_transition_is_legal_def accepted_abort_terminal_invariant_applies_def
            transition_source_lifecycle_states_def) (simp add: patch_of_def)
      with na l l0 w' show ?thesis
        using lifecycle_step.snapshot_applied [of l] by (simp add: machine_state_def)
    qed
  qed
qed

text \<open>Both kinds of transition as one statement, and the consequence for whole histories.\<close>

definition system_transition :: "worker_transition \<Rightarrow> bool" where
  "system_transition tr \<longleftrightarrow> wt_worker_id tr \<noteq> [] \<and>
     (wt_name tr = T_SNAPSHOT_APPLIED \<longrightarrow>
        (\<exists>v pid lv. wf_worker v \<and> worker_lifecycle v = Some lv \<and> pid \<noteq> [] \<and>
           tr = snapshot_applied (patch_of v pid lv)))"

lemma system_transition_step:
  "wf_worker w \<Longrightarrow> system_transition tr \<Longrightarrow> apply_transition w tr = Inr w' \<Longrightarrow>
     lifecycle_step (machine_state w) (wt_name tr) (machine_state w')"
  using public_transition_step snapshot_transition_step
  by (cases "wt_name tr = T_SNAPSHOT_APPLIED") (auto simp: system_transition_def)

lemma system_history:
  assumes "res_fold apply_transition w trs = Inr w'" and "wf_worker w" and "\<forall>tr \<in> set trs. system_transition tr"
  shows "wf_worker w' \<and> lifecycle_reach (machine_state w) (machine_state w')"
  using assms(1)
proof (rule res_fold_invariant)
  show "wf_worker w \<and> lifecycle_reach (machine_state w) (machine_state w)"
    using assms(2) by (simp add: reach_refl)
next
  fix u tr u'
  assume u: "wf_worker u \<and> lifecycle_reach (machine_state w) (machine_state u)"
    and tr: "tr \<in> set trs" and app: "apply_transition u tr = Inr u'"
  have sys: "system_transition tr" using assms(3) tr by blast
  then have "wf_worker u'" using u app by (auto simp: system_transition_def intro: wf_apply_transition)
  moreover have "lifecycle_step (machine_state u) (wt_name tr) (machine_state u')"
    using u sys app system_transition_step by blast
  ultimately show "wf_worker u' \<and> lifecycle_reach (machine_state w) (machine_state u')"
    using u reach_step by blast
qed

end
