(* ===== verification/Dependency_Blockers.thy ===== *)
theory Dependency_Blockers
  imports Dependency_Order Lifecycle_Machine
begin

text \<open>
  The blockers of \<open>worker_dependencies.py\<close> are the least set that contains the seeds and is closed
  under "depends on a blocked worker"; ready workers have every dependency done; and when a worker
  waits that nothing blocks, some worker can make progress.
\<close>

section \<open>Propagation is a closure\<close>

inductive blocked_from :: "workers \<Rightarrow> dependency_graph \<Rightarrow> string set \<Rightarrow> string \<Rightarrow> bool"
  for workers graph S where
  seed: "i \<in> S \<Longrightarrow> blocked_from workers graph S i"
| depends: "i \<in> fst ` set workers \<Longrightarrow> blockable_id workers i \<Longrightarrow>
    JStr j \<in> set (graph_dependencies graph i) \<Longrightarrow> blocked_from workers graph S j \<Longrightarrow>
    blocked_from workers graph S i"

definition dict_dom :: "('k \<times> 'v) list \<Rightarrow> 'k set" where
  "dict_dom m = fst ` set m"

lemma dict_has_dom: "dict_has m i \<longleftrightarrow> i \<in> dict_dom m"
  by (simp add: dict_has_def dict_dom_def)

lemma dict_dom_Nil [simp]: "dict_dom [] = {}"
  by (simp add: dict_dom_def)

lemma dict_dom_Cons [simp]: "dict_dom (e # m) = insert (fst e) (dict_dom m)"
  by (simp add: dict_dom_def)

lemma dict_dom_append [simp]: "dict_dom (a @ b) = dict_dom a \<union> dict_dom b"
  by (auto simp: dict_dom_def)

lemma dict_dom_set [simp]: "dict_dom (dict_set k v m) = insert k (dict_dom m)"
  using dict_has_set [of k v m] by (auto simp flip: dict_has_dom)

lemma sorted_ids_set [simp]: "set (sorted_ids workers) = fst ` set workers"
  by (simp add: sorted_ids_def)

lemma case_JStr_iff: "(case d of JStr s \<Rightarrow> P s | _ \<Rightarrow> False) \<longleftrightarrow> (\<exists>s. d = JStr s \<and> P s)"
  by (cases d) auto

lemma propagated_blockers_iff:
  "propagated_blockers graph m i \<noteq> [] \<longleftrightarrow> (\<exists>j. JStr j \<in> set (graph_dependencies graph i) \<and> j \<in> dict_dom m)"
proof -
  have "propagated_blockers graph m i \<noteq> [] \<longleftrightarrow>
      (\<exists>d \<in> set (graph_dependencies graph i). case d of JStr s \<Rightarrow> dict_has m s | _ \<Rightarrow> False)"
    by (auto simp: propagated_blockers_def filter_empty_conv)
  also have "\<dots> \<longleftrightarrow> (\<exists>j. JStr j \<in> set (graph_dependencies graph i) \<and> j \<in> dict_dom m)"
    unfolding case_JStr_iff dict_has_dom by blast
  finally show ?thesis .
qed

lemma newly_blocked_dom:
  "dict_dom (newly_blocked workers graph m) =
     {i \<in> fst ` set workers. i \<notin> dict_dom m \<and> blockable_id workers i \<and>
        (\<exists>j. JStr j \<in> set (graph_dependencies graph i) \<and> j \<in> dict_dom m)}"
proof -
  have "dict_dom (newly_blocked workers graph m) = {i \<in> set (sorted_ids workers).
      \<not> dict_has m i \<and> blockable_id workers i \<and> propagated_blockers graph m i \<noteq> []}"
    by (simp add: dict_dom_def newly_blocked_def image_image)
  then show ?thesis by (simp add: dict_has_dom propagated_blockers_iff)
qed

lemma newly_blocked_Nil:
  "newly_blocked workers graph m = [] \<longleftrightarrow> dict_dom (newly_blocked workers graph m) = {}"
  by (simp add: dict_dom_def)

text \<open>A map between the seeds and their closure stays there, and a closed one is the closure.\<close>

definition between :: "workers \<Rightarrow> dependency_graph \<Rightarrow> blocker_map \<Rightarrow> blocker_map \<Rightarrow> bool" where
  "between workers graph seeds m \<longleftrightarrow>
     dict_dom seeds \<subseteq> dict_dom m \<and> dict_dom m \<subseteq> Collect (blocked_from workers graph (dict_dom seeds)) \<and>
     (\<forall>i \<in> dict_dom seeds. map_of m i = map_of seeds i)"

lemma between_refl: "between workers graph seeds seeds"
  by (auto simp: between_def intro: blocked_from.seed)

lemma between_step:
  assumes "between workers graph seeds m"
  shows "between workers graph seeds (m @ newly_blocked workers graph m)"
proof -
  have "dict_dom (newly_blocked workers graph m) \<subseteq> Collect (blocked_from workers graph (dict_dom seeds))"
    using assms by (auto simp: newly_blocked_dom between_def intro: blocked_from.depends)
  moreover have "map_of (m @ newly_blocked workers graph m) i = map_of m i" if "i \<in> dict_dom m" for i
    using that by (auto simp: map_of_append dict_dom_def map_add_def map_of_eq_None_iff split: option.split
        dest: map_of_SomeD)
  ultimately show ?thesis using assms by (auto simp: between_def)
qed

lemma between_closed:
  assumes "between workers graph seeds m" and "newly_blocked workers graph m = []"
  shows "dict_dom m = Collect (blocked_from workers graph (dict_dom seeds))"
proof -
  have "i \<in> dict_dom m" if "blocked_from workers graph (dict_dom seeds) i" for i
    using that
  proof induction
    case (seed i)
    with assms(1) show ?case by (auto simp: between_def)
  next
    case (depends i j)
    with assms(2) show ?case by (auto simp: newly_blocked_Nil newly_blocked_dom)
  qed
  with assms(1) show ?thesis by (auto simp: between_def)
qed

lemma propagate_between:
  "propagate_blocker_maps workers graph p = (invalid', dep') \<Longrightarrow>
     between workers graph seeds1 (fst p) \<Longrightarrow> between workers graph seeds2 (snd p) \<Longrightarrow>
     between workers graph seeds1 invalid' \<and> between workers graph seeds2 dep' \<and>
     newly_blocked workers graph invalid' = [] \<and> newly_blocked workers graph dep' = []"
proof (induction workers graph p rule: propagate_blocker_maps.induct)
  case (1 workers graph invalid dep)
  show ?case
  proof (cases "newly_blocked workers graph invalid = [] \<and> newly_blocked workers graph dep = []")
    case True
    with 1(2-) show ?thesis by simp
  next
    case False
    then have "propagate_blocker_maps workers graph
        (invalid @ newly_blocked workers graph invalid, dep @ newly_blocked workers graph dep) = (invalid', dep')"
      using 1(2) by (metis propagate_blocker_maps.simps)
    with False 1(3,4) show ?thesis by (intro 1(1)) (simp_all add: between_step)
  qed
qed

declare propagate_blocker_maps.simps [simp del]

lemma propagate_dom:
  assumes "propagate_blocker_maps workers graph (seeds1, seeds2) = (invalid', dep')"
  shows "dict_dom invalid' = Collect (blocked_from workers graph (dict_dom seeds1))"
    and "dict_dom dep' = Collect (blocked_from workers graph (dict_dom seeds2))"
  using propagate_between [OF assms, of seeds1 seeds2] between_closed by (auto simp: between_refl)

lemma blocked_from_union:
  "blocked_from workers graph (A \<union> B) i \<longleftrightarrow> blocked_from workers graph A i \<or> blocked_from workers graph B i"
proof
  assume "blocked_from workers graph (A \<union> B) i"
  then show "blocked_from workers graph A i \<or> blocked_from workers graph B i"
    by induction (auto intro: blocked_from.intros)
next
  have mono: "blocked_from workers graph X i \<Longrightarrow> X \<subseteq> Y \<Longrightarrow> blocked_from workers graph Y i" for X Y
    by (induction rule: blocked_from.induct) (auto intro: blocked_from.intros)
  assume "blocked_from workers graph A i \<or> blocked_from workers graph B i"
  then show "blocked_from workers graph (A \<union> B) i" using mono by blast
qed

section \<open>The seeds\<close>

lemma fold_conditional_dom:
  assumes "\<And>i m. Q i m \<longleftrightarrow> \<not> P i \<or> R \<and> i \<in> dict_dom m"
  shows "dict_dom (fold (\<lambda>i m. if Q i m then m else dict_set i (f i) m) xs m) = dict_dom m \<union> {i \<in> set xs. P i}"
  by (induction xs arbitrary: m) (auto simp: assms)

definition dependency_seed :: "workers \<Rightarrow> dependency_graph \<Rightarrow> string \<Rightarrow> bool" where
  "dependency_seed workers graph i \<longleftrightarrow> blockable_id workers i \<and>
     (\<exists>d \<in> set (graph_dependencies graph i). failed_dependency workers d)"

definition invalid_seed :: "workers \<Rightarrow> dependency_graph \<Rightarrow> string list list \<Rightarrow> string \<Rightarrow> bool" where
  "invalid_seed workers graph cycles i \<longleftrightarrow> blockable_id workers i \<and>
     ((\<exists>c \<in> set cycles. i \<in> set (butlast c)) \<or>
      (\<exists>d \<in> set (graph_dependencies graph i). non_runnable_dependency (get_worker workers d)))"

lemma blockable_key: "blockable_id workers i \<Longrightarrow> i \<in> fst ` set workers"
  by (auto simp: blockable_id_def dest!: map_of_SomeD split: option.splits intro: rev_image_eqI)

lemma dependency_seeds_dom:
  "dict_dom (dependency_blocker_seeds workers graph) = Collect (dependency_seed workers graph)"
proof -
  have "failed_dependency_blockers workers graph i = [] \<longleftrightarrow>
      \<not> (\<exists>d \<in> set (graph_dependencies graph i). failed_dependency workers d)" for i
    by (auto simp: failed_dependency_blockers_def filter_empty_conv)
  then have "dict_dom (dependency_blocker_seeds workers graph) =
      dict_dom ([] :: blocker_map) \<union> {i \<in> set (sorted_ids workers). dependency_seed workers graph i}"
    unfolding dependency_blocker_seeds_def
    by (intro fold_conditional_dom [where R = False]) (auto simp: dependency_seed_def)
  then show ?thesis using blockable_key by (auto simp: dict_dom_def dependency_seed_def)
qed

lemma add_cycle_dom:
  "dict_dom (fold (\<lambda>i m. if blockable_id workers i then add_blocker m i b else m) xs m) =
     dict_dom m \<union> {i \<in> set xs. blockable_id workers i}"
  by (induction xs arbitrary: m) (auto simp: add_blocker_def)

lemma cycle_blockers_dom:
  "dict_dom (cycle_blockers workers cycles) =
     {i. blockable_id workers i \<and> (\<exists>c \<in> set cycles. i \<in> set (butlast c))}"
proof -
  have "dict_dom (fold (\<lambda>cycle m. fold (\<lambda>i m'. if blockable_id workers i
         then add_blocker m' i (JStr (''dependency-cycle:'' @ join_with ''->'' cycle)) else m')
       (remdups (butlast cycle)) m) cycles m) =
     dict_dom m \<union> {i. blockable_id workers i \<and> (\<exists>c \<in> set cycles. i \<in> set (butlast c))}" for m
    by (induction cycles arbitrary: m) (auto simp: add_cycle_dom)
  then show ?thesis by (simp add: cycle_blockers_def dict_dom_def)
qed

lemma invalid_seeds_dom:
  "dict_dom (invalid_graph_blocker_seeds workers graph cycles) = Collect (invalid_seed workers graph cycles)"
proof -
  have nr: "not_runnable_blockers workers graph i = [] \<longleftrightarrow>
      \<not> (\<exists>d \<in> set (graph_dependencies graph i). non_runnable_dependency (get_worker workers d))" for i
    by (auto simp: not_runnable_blockers_def filter_empty_conv)
  have "dict_dom (invalid_graph_blocker_seeds workers graph cycles) =
      dict_dom (cycle_blockers workers cycles) \<union> {i \<in> set (sorted_ids workers). blockable_id workers i \<and>
        (\<exists>d \<in> set (graph_dependencies graph i). non_runnable_dependency (get_worker workers d))}"
    unfolding invalid_graph_blocker_seeds_def
    by (intro fold_conditional_dom [where R = True]) (auto simp: nr dict_has_dom)
  then show ?thesis using blockable_key by (auto simp: cycle_blockers_dom invalid_seed_def)
qed

section \<open>The analysis\<close>

lemma merge_blocker_maps_dom: "dict_dom (merge_blocker_maps a b) = dict_dom a \<union> dict_dom b"
proof -
  have "dict_dom (fold (\<lambda>(i, bs) m. dict_set i
      (merge_blockers (case map_of m i of None \<Rightarrow> [] | Some old \<Rightarrow> old) bs) m) xs m) = dict_dom m \<union> dict_dom xs"
    for xs m
    by (induction xs arbitrary: m) auto
  from this [of "a @ b" "[]"] show ?thesis by (simp only: merge_blocker_maps_def dict_dom_Nil dict_dom_append) simp
qed

definition search_of :: "workers \<Rightarrow> dfs_state" where
  "search_of workers = visit_all (worker_dependency_graph workers) [] (map JStr (sorted_ids workers)) dfs_start"

lemmas search_facts = dependency_search [OF refl, folded search_of_def]

definition blocker_seeds :: "workers \<Rightarrow> string set" where
  "blocker_seeds workers =
     {i. invalid_seed workers (worker_dependency_graph workers) (dfs_cycles (search_of workers)) i \<or>
         dependency_seed workers (worker_dependency_graph workers) i}"

lemma analysis_facts:
  assumes "analyze_worker_dependencies workers = Inr a"
  shows "da_order a = dfs_ordered (search_of workers)"
    and "dict_dom (da_blockers a) =
      Collect (blocked_from workers (worker_dependency_graph workers) (blocker_seeds workers))"
    and "da_ready a = ready_worker_ids workers (worker_dependency_graph workers) (da_blockers a)"
proof -
  let ?g = "worker_dependency_graph workers"
  let ?s = "search_of workers"
  obtain invalid dep where p: "propagate_blocker_maps workers ?g
      (invalid_graph_blocker_seeds workers ?g (dfs_cycles ?s), dependency_blocker_seeds workers ?g) = (invalid, dep)"
    by (metis surj_pair)
  have "a = \<lparr>da_order = dfs_ordered ?s, da_ready = ready_worker_ids workers ?g (merge_blocker_maps invalid dep),
      da_blockers = merge_blocker_maps invalid dep, da_invalid = invalid, da_dependency = dep\<rparr>"
    using assms p
    by (simp add: analyze_worker_dependencies_def dependency_order_and_cycles_def Let_def
        flip: search_of_def split: if_splits)
  moreover have "dict_dom (merge_blocker_maps invalid dep) =
      Collect (blocked_from workers ?g (blocker_seeds workers))"
    using propagate_dom [OF p]
    by (auto simp: merge_blocker_maps_dom blocker_seeds_def Collect_disj_eq blocked_from_union
        invalid_seeds_dom dependency_seeds_dom)
  ultimately show "da_order a = dfs_ordered ?s"
    and "dict_dom (da_blockers a) = Collect (blocked_from workers ?g (blocker_seeds workers))"
    and "da_ready a = ready_worker_ids workers ?g (da_blockers a)" by simp_all
qed

lemma ready_iff:
  assumes "analyze_worker_dependencies workers = Inr a"
  shows "i \<in> set (da_ready a) \<longleftrightarrow> i \<in> fst ` set workers \<and> executable_id workers i \<and>
    dependencies_done workers (worker_dependency_graph workers) i \<and>
    \<not> blocked_from workers (worker_dependency_graph workers) (blocker_seeds workers) i"
  using analysis_facts [OF assms] by (auto simp: ready_worker_ids_def dict_has_dom)

section \<open>Progress\<close>

text \<open>A blockable worker that is not blocked: its dependencies are done or again such workers.\<close>

definition waiting :: "workers \<Rightarrow> string \<Rightarrow> bool" where
  "waiting workers i \<longleftrightarrow> blockable_id workers i \<and>
     \<not> blocked_from workers (worker_dependency_graph workers) (blocker_seeds workers) i"

lemma blockable_iff:
  "map_of workers i = Some w \<Longrightarrow> worker_lifecycle w = Some l \<Longrightarrow>
     blockable_id workers i \<longleftrightarrow> has_prompt w \<and> l \<in> {Queued, Active_Wait, Active_Retry}"
  by (cases l) (auto simp: blockable_id_def can_block_for_dependency_def lifecycle_tables public_status_def
      is_dependency_blockable_status_def is_runnable_status_def is_terminal_status_def is_blocked_status_def
      terminal_statuses_eq)

lemma executable_iff:
  "map_of workers i = Some w \<Longrightarrow> worker_lifecycle w = Some l \<Longrightarrow>
     executable_id workers i \<longleftrightarrow> has_prompt w \<and>
       l \<in> {Queued, Active_Retry, Failed_Retry, Timeout_Retry, Timeout_Failed_Retry}"
  by (cases l) (auto simp: executable_id_def can_execute_def lifecycle_tables)

lemma waiting_dependency:
  assumes wf: "\<forall>(i, w) \<in> set workers. wf_worker w" and i: "waiting workers i"
    and d: "d \<in> set (graph_dependencies (worker_dependency_graph workers) i)"
  shows "\<exists>j y. d = JStr j \<and> map_of workers j = Some y \<and>
    (worker_status y = Some ''done'' \<or>
     waiting workers j \<and> edge (worker_dependency_graph workers) i j \<and> j \<notin> reported (search_of workers))"
proof -
  let ?g = "worker_dependency_graph workers"
  have seed: "\<not> dependency_seed workers ?g i"
    "\<not> invalid_seed workers ?g (dfs_cycles (search_of workers)) i"
    using i blocked_from.seed [of i "blocker_seeds workers" workers ?g] by (auto simp: waiting_def blocker_seeds_def)
  have b: "blockable_id workers i" using i by (simp add: waiting_def)
  have "\<not> failed_dependency workers d" using seed(1) b d by (auto simp: dependency_seed_def)
  then obtain j y where j: "d = JStr j" "map_of workers j = Some y"
    and ok: "\<not> is_failed_dependency_status (worker_status y)"
    by (cases d) (auto simp: failed_dependency_def get_worker_def split: option.splits)
  have wfy: "wf_worker y" using wf map_of_SomeD [OF j(2)] by blast
  then obtain l where l: "worker_lifecycle y = Some l" by (rule wf_worker_lifecycle)
  have states: "l \<in> {Queued, Active_Wait, Active_Retry, Done_Collect}"
    using ok l by (cases l) (auto simp: is_failed_dependency_status_def failed_dependency_statuses_eq worker_status_def)
  have "\<not> non_runnable_dependency (Some y)"
    using seed(2) b d j by (auto simp: invalid_seed_def get_worker_def)
  then have prompt: "l \<noteq> Done_Collect \<Longrightarrow> has_prompt y"
    using states l by (auto simp: non_runnable_dependency_def is_runnable_status_def is_terminal_status_def
        is_blocked_status_def terminal_statuses_eq worker_status_def)
  show ?thesis
  proof (cases "l = Done_Collect")
    case True
    with l j show ?thesis by (auto simp: worker_status_def)
  next
    case False
    then have bj: "blockable_id workers j" using blockable_iff [OF j(2) l] prompt states by auto
    have keys: "i \<in> fst ` set workers" "j \<in> fst ` set workers" using b bj blockable_key by auto
    have "waiting workers j"
      using i b bj keys d j(1) blocked_from.depends [of i workers j ?g] by (auto simp: waiting_def)
    moreover have "j \<notin> reported (search_of workers)"
    proof
      assume "j \<in> reported (search_of workers)"
      then have "j \<in> blocker_seeds workers" using bj by (auto simp: reported_def blocker_seeds_def invalid_seed_def)
      then show False using \<open>waiting workers j\<close> by (auto simp: waiting_def intro: blocked_from.seed)
    qed
    moreover have "edge ?g i j" using keys d j(1) by (simp add: edge_def)
    ultimately show ?thesis using j by blast
  qed
qed

lemma search_acyclic:
  "acyclic {(x, y). edge (worker_dependency_graph workers) x y \<and> y \<notin> reported (search_of workers)}"
  using search_facts [where workers = workers]
  by (intro topological_acyclic [of _ _ "dfs_ordered (search_of workers)"]) (auto simp: dfs_ok_def)

lemma edge_keys: "edge graph x y \<Longrightarrow> x \<in> fst ` set graph \<and> y \<in> fst ` set graph"
  by (simp add: edge_def)

lemma progress:
  assumes wf: "\<forall>(i, w) \<in> set workers. wf_worker w" and i: "waiting workers i"
  shows "\<exists>j. waiting workers j \<and> dependencies_done workers (worker_dependency_graph workers) j"
proof -
  let ?g = "worker_dependency_graph workers"
  let ?E = "{(x, y). edge ?g x y \<and> y \<notin> reported (search_of workers)}"
  have "?E \<subseteq> fst ` set ?g \<times> fst ` set ?g" using edge_keys by fast
  then have "finite ?E" by (rule finite_subset) simp
  then have "Wellfounded.wf (?E\<inverse>)" using search_acyclic by (rule finite_acyclic_wf_converse)
  then obtain j where j: "waiting workers j" and min: "\<And>k. (k, j) \<in> ?E\<inverse> \<Longrightarrow> \<not> waiting workers k"
    using i by (auto elim: wfE_min [where Q = "Collect (waiting workers)" and x = i])
  have "dependencies_done workers ?g j"
    unfolding dependencies_done_def list_all_iff
  proof
    fix d assume d: "d \<in> set (graph_dependencies ?g j)"
    from waiting_dependency [OF wf j d] min show
      "case get_worker workers d of None \<Rightarrow> False | Some w \<Rightarrow> worker_status w = Some ''done''"
      by (auto simp: get_worker_def)
  qed
  with j show ?thesis by blast
qed

lemma waiting_ready:
  assumes a: "analyze_worker_dependencies workers = Inr a" and wf: "\<forall>(i, w) \<in> set workers. wf_worker w"
    and i: "waiting workers i"
  obtains j w where "map_of workers j = Some w" and "waiting workers j"
    and "j \<in> set (da_ready a) \<or> worker_lifecycle w = Some Active_Wait"
proof -
  from progress [OF wf i] obtain j where j: "waiting workers j"
    and dn: "dependencies_done workers (worker_dependency_graph workers) j" by blast
  have b: "blockable_id workers j" using j by (simp add: waiting_def)
  then obtain w where w: "map_of workers j = Some w" by (auto simp: blockable_id_def split: option.splits)
  have "wf_worker w" using wf map_of_SomeD [OF w] by blast
  then obtain l where l: "worker_lifecycle w = Some l" by (rule wf_worker_lifecycle)
  have "l = Active_Wait \<or> executable_id workers j"
    using b blockable_iff [OF w l] executable_iff [OF w l] by auto
  then have "j \<in> set (da_ready a) \<or> worker_lifecycle w = Some Active_Wait"
    using j dn l b blockable_key by (auto simp: ready_iff [OF a] waiting_def)
  with that w j show thesis by blast
qed

end
