(* ===== verification/Run_Summary.thy ===== *)
theory Run_Summary
  imports Dependency_Blockers
begin

text \<open>
  A run and its summary (\<open>worker_state.py\<close>, \<open>cli_policy.py\<close>): the status of a run is derived from
  the statuses of its prompted workers, its output references are listed in dependency order, and
  the exit code of a command is derived from the status.
\<close>

section \<open>Runs\<close>

text \<open>
  A hydrated run: its worker map, and all its other fields. Workers of a hydrated run are
  \<open>WorkerRecord\<close>s, so a test whether a worker is one is a test whether the id is present.
\<close>

record run_record =
  rn_fields :: jdict
  rn_workers :: workers

definition set_run_field :: "string \<Rightarrow> json \<Rightarrow> run_record \<Rightarrow> run_record" where
  "set_run_field k v run = run\<lparr>rn_fields := dict_set k v (rn_fields run)\<rparr>"

section \<open>Status\<close>

definition prompted :: "worker_record \<Rightarrow> bool" where
  "prompted w \<longleftrightarrow> (case worker_prompt w of None \<Rightarrow> False | Some p \<Rightarrow> p \<noteq> [])"

definition run_status_from_workers :: "workers \<Rightarrow> bool \<Rightarrow> string option" where
  "run_status_from_workers workers include_unprompted =
     (let all = map snd workers;
          with_prompt = filter prompted all;
          chosen = (if include_unprompted \<and> with_prompt = [] then all else with_prompt)
      in aggregate_run_status (map worker_status chosen))"

definition has_partial_worker_success :: "run_record \<Rightarrow> bool" where
  "has_partial_worker_success run =
     (let statuses = map worker_status (filter prompted (map snd (rn_workers run))) in
      statuses \<noteq> [] \<and> Some ''done'' \<in> set statuses \<and>
      list_ex (\<lambda>s. s \<in> {Some ''failed'', Some ''blocked'', Some ''aborted'', Some ''timeout''}) statuses)"

section \<open>Output references\<close>

text \<open>\<open>text.split(":", 1)[1]\<close> of a text that contains a colon\<close>

definition after_colon :: "string \<Rightarrow> string" where
  "after_colon s = tl (dropWhile (\<lambda>c. c \<noteq> CHR '':'') s)"

definition output_ref_text :: "string \<Rightarrow> json \<Rightarrow> string" where
  "output_ref_text wid ref =
     wid @ '':'' @ (case ref of
       JStr s \<Rightarrow> if starts_with s ''assistant:'' then after_colon s else s
     | _ \<Rightarrow> py_str ref)"

definition worker_output_texts :: "workers \<Rightarrow> string \<Rightarrow> string list" where
  "worker_output_texts workers i =
     (case map_of workers i of
        None \<Rightarrow> []
      | Some w \<Rightarrow> if worker_status w \<noteq> Some ''done'' then []
                  else map (output_ref_text (py_str (worker_id w))) (list_slot w F_output_refs))"

definition workers_in_dependency_order :: "workers \<Rightarrow> string list result" where
  "workers_in_dependency_order workers =
     res_bind (analyze_worker_dependencies workers) (\<lambda>a. Inr (da_order a))"

definition worker_output_refs_in_dependency_order :: "workers \<Rightarrow> string list result" where
  "worker_output_refs_in_dependency_order workers =
     res_bind (workers_in_dependency_order workers) (\<lambda>order.
     Inr (concat (map (worker_output_texts workers) order)))"

definition refresh_run_summary :: "bool \<Rightarrow> run_record \<Rightarrow> run_record result" where
  "refresh_run_summary include_unprompted run =
     res_bind (worker_output_refs_in_dependency_order (rn_workers run)) (\<lambda>refs.
       let run1 = set_run_field ''output_refs'' (JList (map JStr refs)) run in
       Inr (case run_status_from_workers (rn_workers run) include_unprompted of
              None \<Rightarrow> run1
            | Some s \<Rightarrow> set_run_field ''status'' (JStr s) run1))"

section \<open>Exit codes\<close>

definition EX_USAGE :: int where "EX_USAGE = 64"

definition EX_DATAERR :: int where "EX_DATAERR = 65"

definition EX_NOINPUT :: int where "EX_NOINPUT = 66"

definition EX_UNAVAILABLE :: int where "EX_UNAVAILABLE = 69"

definition EX_UNSUPPORTED :: int where "EX_UNSUPPORTED = 70"

definition EX_TIMEOUT :: int where "EX_TIMEOUT = 124"

definition EX_PARTIAL :: int where "EX_PARTIAL = 1"

definition EX_BLOCKED :: int where "EX_BLOCKED = 75"

definition EX_ABORTED :: int where "EX_ABORTED = 130"

definition WORKER_EXIT_CODE_BY_STATUS :: "(string \<times> int) list" where
  "WORKER_EXIT_CODE_BY_STATUS = [(''blocked'', EX_BLOCKED), (''done'', 0), (''failed'', EX_UNAVAILABLE),
     (''timeout'', EX_TIMEOUT), (''aborted'', EX_ABORTED)]"

definition exit_code_for_status :: "json \<Rightarrow> bool \<Rightarrow> int" where
  "exit_code_for_status status partial_success =
     (let s = short_status status in
      if s = Some ''failed'' \<and> partial_success then EX_PARTIAL
      else case Option.bind s (map_of WORKER_EXIT_CODE_BY_STATUS) of
             None \<Rightarrow> EX_UNAVAILABLE | Some c \<Rightarrow> c)"

definition exit_code_for_run :: "run_record \<Rightarrow> int" where
  "exit_code_for_run run =
     exit_code_for_status (dict_get (rn_fields run) ''status'') (has_partial_worker_success run)"

section \<open>The aggregate status\<close>

lemma worker_status_word:
  "wf_worker w \<Longrightarrow> \<exists>s. worker_status w = Some (status_name s)"
proof -
  assume "wf_worker w"
  then obtain l where "worker_lifecycle w = Some l" by (rule wf_worker_lifecycle)
  then show ?thesis
    by (cases l) (simp_all add: worker_status_def exI [of _ St_Queued] exI [of _ St_Active] exI [of _ St_Blocked]
        exI [of _ St_Done] exI [of _ St_Failed] exI [of _ St_Timeout] exI [of _ St_Aborted])
qed

lemma max_by_mem: "max_by f b xs \<in> insert b (set xs)"
  by (induction xs arbitrary: b) (auto split: if_splits)

lemma max_by_ge: "f b \<le> f (max_by f b xs)"
proof (induction xs arbitrary: b)
  case (Cons y ys)
  from Cons.IH [of y] Cons.IH [of b] show ?case by (auto intro: order_trans [OF less_imp_le])
qed simp

lemma max_by_max: "x \<in> set xs \<Longrightarrow> f x \<le> f (max_by f b xs)"
proof (induction xs arbitrary: b)
  case (Cons y ys)
  have "f y \<le> f (if f y > f b then y else b)" by simp
  also have "\<dots> \<le> f (max_by f (if f y > f b then y else b) ys)" by (rule max_by_ge)
  finally show ?case using Cons by auto
qed simp

fun status_rank :: "wstatus \<Rightarrow> nat" where
  "status_rank St_Queued = 0"
| "status_rank St_Active = 1"
| "status_rank St_Blocked = 2"
| "status_rank St_Done = 3"
| "status_rank St_Timeout = 4"
| "status_rank St_Aborted = 5"
| "status_rank St_Failed = 6"

lemma status_rank_inj: "status_rank a = status_rank b \<longleftrightarrow> a = b"
  by (cases a; cases b) simp_all

lemma status_priority_name: "status_priority (Some (status_name s)) = status_rank s"
  by (cases s) (simp_all add: status_priority_def status_priorities_eq)

lemma status_name_done: "status_name s = ''done'' \<longleftrightarrow> s = St_Done"
  by (cases s) simp_all

lemma status_names_known: "dict_has status_priorities (status_name s)"
  by (cases s) (simp_all add: status_priorities_eq dict_has_def)

lemma max_by_map: "max_by f (g b) (map g xs) = g (max_by (f \<circ> g) b xs)"
  by (induction xs arbitrary: b) (simp_all add: if_distrib)

lemma aggregate_names:
  assumes "ss \<noteq> []"
  shows "\<exists>t. aggregate_run_status (map (Some \<circ> status_name) ss) = Some (status_name t) \<and>
    (if set ss = {St_Done} then t = St_Done
     else t \<in> set ss - {St_Done} \<and> (\<forall>u \<in> set ss - {St_Done}. status_rank u \<le> status_rank t))"
proof (cases "set ss = {St_Done}")
  case True
  then have "list_all (\<lambda>s. s = Some ''done'') (map (Some \<circ> status_name) ss)"
    by (auto simp: list_all_iff status_name_done)
  with True assms show ?thesis
    by (auto simp: aggregate_run_status_def Let_def comp_def status_name_done intro!: exI [of _ St_Done])
next
  case False
  let ?f = "filter (\<lambda>s. s \<noteq> St_Done) ss"
  have ne: "?f \<noteq> []" using False assms by (auto simp: filter_empty_conv) (metis list.set_intros(1) neq_Nil_conv)
  then obtain c cs where f: "?f = c # cs" by (cases ?f) auto
  let ?m = "max_by status_rank c cs"
  have filter: "filter (\<lambda>s. s \<noteq> Some ''done'') (map (Some \<circ> status_name) ss) = map (Some \<circ> status_name) (c # cs)"
    using f by (simp add: filter_map comp_def status_name_done)
  have rank: "status_priority \<circ> (Some \<circ> status_name) = status_rank"
    by (simp add: fun_eq_iff status_priority_name)
  have "max_by status_priority ((Some \<circ> status_name) c) (map (Some \<circ> status_name) cs) = Some (status_name ?m)"
    unfolding max_by_map rank by simp
  moreover have "\<not> list_all (\<lambda>s. s = Some ''done'') (map (Some \<circ> status_name) ss)"
    using ne by (auto simp: list_all_iff filter_empty_conv status_name_done)
  moreover have "map short_status_opt (map (Some \<circ> status_name) ss) = map (Some \<circ> status_name) ss"
    by (simp add: comp_def)
  ultimately have "aggregate_run_status (map (Some \<circ> status_name) ss) = Some (status_name ?m)"
    using assms filter
    by (auto simp: aggregate_run_status_def Let_def status_names_known simp del: map_map list.map_comp)
  moreover have "?m \<in> set ss - {St_Done}"
  proof -
    have "?m \<in> set ?f" using max_by_mem [of status_rank c cs] f by simp
    then show ?thesis by simp
  qed
  moreover have "status_rank u \<le> status_rank ?m" if "u \<in> set ss - {St_Done}" for u
  proof -
    have "u \<in> set (c # cs)" unfolding f [symmetric] using that by simp
    then show ?thesis using max_by_max [of u cs status_rank c] max_by_ge [of status_rank c cs] by auto
  qed
  ultimately show ?thesis using False by auto
qed

section \<open>The exit code of a summarised run\<close>

lemma statuses_names:
  assumes "\<forall>w \<in> set ws. wf_worker w"
  obtains ss where "map worker_status ws = map (Some \<circ> status_name) ss"
proof -
  have "\<exists>ss. map worker_status ws = map (Some \<circ> status_name) ss"
    using assms
  proof (induction ws)
    case (Cons w ws)
    obtain ss where "map worker_status ws = map (Some \<circ> status_name) ss"
      using Cons.IH Cons.prems by (meson list.set_intros(2))
    moreover obtain s where "worker_status w = Some (status_name s)"
      using worker_status_word [of w] Cons.prems by auto
    ultimately have "map worker_status (w # ws) = map (Some \<circ> status_name) (s # ss)" by simp
    then show ?case by (rule exI)
  qed simp
  then show thesis by (elim exE) (rule that)
qed

lemma exit_code_status_name:
  "exit_code_for_status (JStr (status_name s)) p =
     (case s of St_Done \<Rightarrow> 0 | St_Blocked \<Rightarrow> EX_BLOCKED | St_Timeout \<Rightarrow> EX_TIMEOUT | St_Aborted \<Rightarrow> EX_ABORTED
      | St_Failed \<Rightarrow> if p then EX_PARTIAL else EX_UNAVAILABLE | _ \<Rightarrow> EX_UNAVAILABLE)"
  by (cases s) (simp_all add: exit_code_for_status_def WORKER_EXIT_CODE_BY_STATUS_def)

lemmas exit_codes = EX_BLOCKED_def EX_TIMEOUT_def EX_ABORTED_def EX_PARTIAL_def EX_UNAVAILABLE_def

lemma set_run_field_simps [simp]:
  "rn_workers (set_run_field k v run) = rn_workers run"
  "dict_get (rn_fields (set_run_field k v run)) k' = (if k' = k then v else dict_get (rn_fields run) k')"
  by (simp_all add: set_run_field_def)

text \<open>The status of a refreshed run is the aggregate of its prompted workers.\<close>

lemma refresh_status:
  assumes wf: "\<forall>(i, w) \<in> set (rn_workers run). wf_worker w"
    and ne: "filter prompted (map snd (rn_workers run)) \<noteq> []"
    and r: "refresh_run_summary inc run = Inr run'"
  obtains ss t where "map worker_status (filter prompted (map snd (rn_workers run))) = map (Some \<circ> status_name) ss"
    and "ss \<noteq> []" and "rn_workers run' = rn_workers run"
    and "dict_get (rn_fields run') ''status'' = JStr (status_name t)"
    and "if set ss = {St_Done} then t = St_Done
      else t \<in> set ss - {St_Done} \<and> (\<forall>u \<in> set ss - {St_Done}. status_rank u \<le> status_rank t)"
proof -
  let ?ws = "filter prompted (map snd (rn_workers run))"
  have "\<forall>w \<in> set ?ws. wf_worker w" using wf by auto
  then obtain ss where ss: "map worker_status ?ws = map (Some \<circ> status_name) ss" by (rule statuses_names)
  have ne': "ss \<noteq> []" using ss ne by auto
  obtain t where t: "aggregate_run_status (map (Some \<circ> status_name) ss) = Some (status_name t)"
    and c: "if set ss = {St_Done} then t = St_Done
      else t \<in> set ss - {St_Done} \<and> (\<forall>u \<in> set ss - {St_Done}. status_rank u \<le> status_rank t)"
    using aggregate_names [OF ne'] by blast
  have "run_status_from_workers (rn_workers run) inc = Some (status_name t)"
    using ne t ss by (simp add: run_status_from_workers_def Let_def)
  with r have "rn_workers run' = rn_workers run" "dict_get (rn_fields run') ''status'' = JStr (status_name t)"
    by (auto simp: refresh_run_summary_def Let_def res_bind_Inr_iff)
  with that ss ne' c show thesis by blast
qed

lemma refreshed_exit_code:
  assumes wf: "\<forall>(i, w) \<in> set (rn_workers run). wf_worker w"
    and ne: "filter prompted (map snd (rn_workers run)) \<noteq> []"
    and r: "refresh_run_summary inc run = Inr run'"
  shows "exit_code_for_run run' = 0 \<longleftrightarrow>
    (\<forall>w \<in> set (filter prompted (map snd (rn_workers run))). worker_status w = Some ''done'')"
proof -
  obtain ss t where ss: "map worker_status (filter prompted (map snd (rn_workers run))) = map (Some \<circ> status_name) ss"
    and ne': "ss \<noteq> []" and st: "dict_get (rn_fields run') ''status'' = JStr (status_name t)"
    and c: "if set ss = {St_Done} then t = St_Done
      else t \<in> set ss - {St_Done} \<and> (\<forall>u \<in> set ss - {St_Done}. status_rank u \<le> status_rank t)"
    using refresh_status [OF wf ne r] by metis
  have "exit_code_for_run run' = 0 \<longleftrightarrow> t = St_Done"
    using st by (simp add: exit_code_for_run_def exit_code_status_name exit_codes split: wstatus.split)
  also have "\<dots> \<longleftrightarrow> set ss = {St_Done}" using c by (auto split: if_splits)
  also have "\<dots> \<longleftrightarrow> (\<forall>s \<in> set ss. s = St_Done)" using ne' by (cases ss) auto
  also have "\<dots> \<longleftrightarrow> (\<forall>x \<in> set (map (Some \<circ> status_name) ss). x = Some ''done'')"
    by (simp add: status_name_done)
  also have "\<dots> \<longleftrightarrow> (\<forall>w \<in> set (filter prompted (map snd (rn_workers run))). worker_status w = Some ''done'')"
    unfolding ss [symmetric] by (simp only: set_map ball_simps)
  finally show ?thesis .
qed

end
