(* ===== verification/Worker_Attempts.thy ===== *)
theory Worker_Attempts
  imports Lifecycle_Machine
begin

text \<open>
  The factories of \<open>WorkerTransition\<close> and the functions that choose a transition for a worker
  (\<open>mark_worker_active\<close> to \<open>apply_worker_result\<close> of \<open>worker_state.py\<close>), the policy that turns the
  outcome of one attempt into a transition (\<open>worker_attempt_policy.py\<close>), and the execution of one
  worker attempt (\<open>worker_attempt_execution.py\<close>, \<open>worker_execution.py\<close>). Clock readings and the
  outcome of the prompt are arguments.
\<close>

section \<open>Transition factories\<close>

definition make_transition :: "string \<Rightarrow> transition_payload \<Rightarrow> worker_transition" where
  "make_transition wid p =
     \<lparr>wt_worker_id = wid, wt_name = payload_name p, wt_payload = Some p, wt_attempt_finalization = None\<rparr>"

definition with_finalized_attempt :: "worker_transition \<Rightarrow> json \<Rightarrow> jdict \<Rightarrow> worker_transition" where
  "with_finalized_attempt tr attempt_id flds = tr\<lparr>wt_attempt_finalization := Some (attempt_id, flds)\<rparr>"

text \<open>The id of a hydrated worker is a string.\<close>

definition worker_id_str :: "worker_record \<Rightarrow> string" where
  "worker_id_str w = (case worker_id w of JStr s \<Rightarrow> s | _ \<Rightarrow> [])"

definition provisioned_transition :: "worker_record \<Rightarrow> worker_transition" where
  "provisioned_transition w =
     make_transition (worker_id_str w) (P_Provisioned (wr_slots w F_session_id) (wr_slots w F_agent) (wr_slots w F_model))"

definition active_transition :: "string \<Rightarrow> json option \<Rightarrow> bool \<Rightarrow> worker_transition" where
  "active_transition wid started clear_prompt_ids = make_transition wid (P_Active started clear_prompt_ids)"

definition attempt_started_transition :: "string \<Rightarrow> jdict \<Rightarrow> worker_transition" where
  "attempt_started_transition wid attempt = make_transition wid (P_AttemptStarted attempt)"

definition failed_transition ::
  "string \<Rightarrow> string \<Rightarrow> string \<Rightarrow> bool \<Rightarrow> bool \<Rightarrow> json option \<Rightarrow> json list \<Rightarrow> worker_transition" where
  "failed_transition wid category reason retryable available started ids =
     make_transition wid (P_Failed category reason retryable available started (transition_prompt_ids ids))"

definition dependency_blocked_transition :: "string \<Rightarrow> json list \<Rightarrow> worker_transition" where
  "dependency_blocked_transition wid blockers = make_transition wid (P_DependencyBlocked blockers)"

definition aborted_transition :: "string \<Rightarrow> json \<Rightarrow> worker_transition" where
  "aborted_transition wid abort = make_transition wid (P_Aborted abort)"

definition retry_scheduled_transition ::
  "string \<Rightarrow> string \<Rightarrow> string \<Rightarrow> int \<Rightarrow> json option \<Rightarrow> json list \<Rightarrow> worker_transition" where
  "retry_scheduled_transition wid category reason n started ids =
     make_transition wid (P_RetryScheduled category reason n started (transition_prompt_ids ids))"

definition timed_out_transition ::
  "string \<Rightarrow> string \<Rightarrow> string \<Rightarrow> json \<Rightarrow> bool \<Rightarrow> bool \<Rightarrow> json option \<Rightarrow> worker_transition" where
  "timed_out_transition wid reason status timed_out_at available manual started =
     make_transition wid (P_TimedOut reason status timed_out_at available manual started)"

definition result_applied_transition ::
  "string \<Rightarrow> jdict \<Rightarrow> json list \<Rightarrow> json option \<Rightarrow> worker_transition" where
  "result_applied_transition wid result ids started =
     make_transition wid (P_ResultApplied result (transition_prompt_ids ids) started)"

definition cleanup_updated_transition :: "worker_record \<Rightarrow> worker_transition" where
  "cleanup_updated_transition w = make_transition (worker_id_str w) (P_CleanupUpdated (wr_slots w F_cleanup))"

section \<open>Choosing a transition\<close>

text \<open>\<open>now\<close> is the reading of the clock, absent when the caller passes no clock.\<close>

definition mark_worker_active :: "worker_record \<Rightarrow> json option \<Rightarrow> worker_transition" where
  "mark_worker_active w now =
     active_transition (worker_id_str w)
       (case now of None \<Rightarrow> None
        | Some t \<Rightarrow> Some (if py_truthy (wr_slots w F_timeout_seconds) then t else JNull))
       (latest_prompt_ids_are_retry_marker w)"

definition mark_worker_failed ::
  "worker_record \<Rightarrow> string \<Rightarrow> string \<Rightarrow> bool \<Rightarrow> json list \<Rightarrow> worker_transition result" where
  "mark_worker_failed w category reason retryable ids =
     res_bind (retry_available w (JStr category)) (\<lambda>available.
     Inr (failed_transition (worker_id_str w) category reason retryable available
       (Some (wr_slots w F_timeout_started_at)) ids))"

definition mark_dependency_blocked :: "worker_record \<Rightarrow> json list \<Rightarrow> worker_transition" where
  "mark_dependency_blocked w blockers = dependency_blocked_transition (worker_id_str w) blockers"

definition mark_worker_aborted :: "worker_record \<Rightarrow> json \<Rightarrow> worker_transition" where
  "mark_worker_aborted w abort = aborted_transition (worker_id_str w) abort"

text \<open>\<open>None\<close> is the \<open>False\<close> that the function returns when the budget is used up.\<close>

definition schedule_worker_retry ::
  "worker_record \<Rightarrow> string \<Rightarrow> string \<Rightarrow> json list \<Rightarrow> worker_transition option result" where
  "schedule_worker_retry w category reason ids =
     res_bind (retry_available w (JStr category)) (\<lambda>available.
     if \<not> available then Inr None
     else case wr_slots w F_retry_count of
            JInt n \<Rightarrow> Inr (Some (retry_scheduled_transition (worker_id_str w) category reason (n + 1)
                       (Some (wr_slots w F_timeout_started_at)) ids))
          | _ \<Rightarrow> Inl (TypeError ''retry_count is not a number''))"

definition worker_timeout_reason :: "worker_record \<Rightarrow> string" where
  "worker_timeout_reason w = ''worker timed out after '' @ py_str (wr_slots w F_timeout_seconds) @ ''s''"

definition mark_worker_timeout ::
  "worker_record \<Rightarrow> string \<Rightarrow> json \<Rightarrow> bool \<Rightarrow> worker_transition result" where
  "mark_worker_timeout w reason now manual =
     res_bind (retry_available w (JStr ''timeout'')) (\<lambda>available.
     case wr_slots w F_timeout_policy of
       JStr status \<Rightarrow> Inr (timed_out_transition (worker_id_str w) reason status now available manual
         (Some (wr_slots w F_timeout_started_at)))
     | _ \<Rightarrow> Inl (TypeError ''timeout_policy is not a status''))"

definition apply_worker_result :: "worker_record \<Rightarrow> jdict \<Rightarrow> json list \<Rightarrow> worker_transition" where
  "apply_worker_result w result ids =
     result_applied_transition (worker_id_str w) result ids (Some (wr_slots w F_timeout_started_at))"

section \<open>The outcome of an attempt\<close>

text \<open>
  The exceptions a prompt can raise, by the classes the policy tells apart. A
  \<open>BlockingExecutionTimeout\<close> carries the prompt id and the error of the abort it tried.
\<close>

datatype attempt_error =
    BlockingExecutionTimeout string "string option" string
  | WorkerExecutionTimeout "string option"
  | OpenCodeApiTimeoutError string
  | OpenCodeApiError string
  | BlockingProviderFailure string "string option"
  | OtherException string

text \<open>\<open>str(error)\<close> of a \<open>BlockingExecutionTimeout\<close>, whose constructor appends the abort error\<close>

definition blocking_timeout_text :: "string \<Rightarrow> string \<Rightarrow> string" where
  "blocking_timeout_text message abort_error =
     (if abort_error \<noteq> [] then message @ ''; session abort failed: '' @ abort_error else message)"

datatype attempt_outcome =
    AttemptCompleted jdict
  | AttemptFailed string string "string option"
      \<comment> \<open>failure_category, reason, prompt_id\<close>

fun classify_worker_attempt_exception :: "worker_record \<Rightarrow> attempt_error \<Rightarrow> attempt_outcome option" where
  "classify_worker_attempt_exception w (BlockingExecutionTimeout message pid abort_error) =
     (let has_timeout = wr_slots w F_timeout_seconds \<noteq> JNull;
          reason = (if has_timeout then worker_timeout_reason w else blocking_timeout_text message abort_error)
      in Some (AttemptFailed ''timeout''
           (if has_timeout \<and> abort_error \<noteq> [] then reason @ ''; session abort failed: '' @ abort_error else reason)
           pid))"
| "classify_worker_attempt_exception w (WorkerExecutionTimeout pid) =
     Some (AttemptFailed ''timeout'' (worker_timeout_reason w) pid)"
| "classify_worker_attempt_exception w (OpenCodeApiTimeoutError m) = Some (AttemptFailed ''timeout'' m None)"
| "classify_worker_attempt_exception w (OpenCodeApiError m) = Some (AttemptFailed ''api'' m None)"
| "classify_worker_attempt_exception w (BlockingProviderFailure m pid) = Some (AttemptFailed ''provider'' m pid)"
| "classify_worker_attempt_exception w (OtherException m) = None"

datatype transition_kind = COMPLETED | RETRY_SCHEDULED | TERMINAL_FAILURE

record attempt_transition =
  at_kind :: transition_kind
  at_error :: "string option"
  at_failure_category :: "string option"
  at_worker_transition :: worker_transition

definition result_message_id :: "jdict \<Rightarrow> string \<Rightarrow> json result" where
  "result_message_id result k = res_bind (dict_index result ''message_ids'') (\<lambda>ids.
     case ids of JObj d \<Rightarrow> Inr (dict_get d k) | _ \<Rightarrow> Inl (AttributeError ''message_ids has no attribute get''))"

definition apply_completed_attempt :: "worker_record \<Rightarrow> jdict \<Rightarrow> attempt_transition result" where
  "apply_completed_attempt w result = res_bind (result_message_id result ''user'') (\<lambda>prompt_id.
     Inr \<lparr>at_kind = COMPLETED, at_error = None, at_failure_category = None,
          at_worker_transition = apply_worker_result w result [prompt_id]\<rparr>)"

definition apply_timeout_attempt_failure :: "worker_record \<Rightarrow> string \<Rightarrow> json \<Rightarrow> attempt_transition result" where
  "apply_timeout_attempt_failure w reason now =
     res_bind (retry_available w (JStr ''timeout'')) (\<lambda>manual.
     res_bind (mark_worker_timeout w reason now manual) (\<lambda>tr.
     Inr \<lparr>at_kind = TERMINAL_FAILURE,
          at_error = Some (if manual then reason @
            ''; automatic timeout retry skipped because the timed-out request may still be running'' else reason),
          at_failure_category = Some ''timeout'', at_worker_transition = tr\<rparr>))"

definition apply_retryable_attempt_failure ::
  "worker_record \<Rightarrow> string \<Rightarrow> string \<Rightarrow> string \<Rightarrow> json list \<Rightarrow> attempt_transition result" where
  "apply_retryable_attempt_failure w category reason error_prefix ids =
     res_bind (schedule_worker_retry w category reason ids) (\<lambda>retry.
     case retry of
       Some tr \<Rightarrow> Inr \<lparr>at_kind = RETRY_SCHEDULED, at_error = None,
                       at_failure_category = Some category, at_worker_transition = tr\<rparr>
     | None \<Rightarrow> res_bind (mark_worker_failed w category reason True ids) (\<lambda>tr.
         Inr \<lparr>at_kind = TERMINAL_FAILURE, at_error = Some (error_prefix @ '': '' @ reason),
              at_failure_category = Some category, at_worker_transition = tr\<rparr>))"

definition prompt_id_json :: "string option \<Rightarrow> json" where
  "prompt_id_json p = (case p of None \<Rightarrow> JNull | Some s \<Rightarrow> JStr s)"

fun apply_worker_attempt_transition :: "worker_record \<Rightarrow> attempt_outcome \<Rightarrow> json \<Rightarrow> attempt_transition result" where
  "apply_worker_attempt_transition w (AttemptCompleted result) now = apply_completed_attempt w result"
| "apply_worker_attempt_transition w (AttemptFailed category reason pid) now =
     (if category = ''timeout'' then apply_timeout_attempt_failure w reason now
      else if category = ''api'' then apply_retryable_attempt_failure w ''api'' reason ''api failure'' []
      else if category = ''provider''
      then apply_retryable_attempt_failure w ''provider'' reason ''provider failure'' [prompt_id_json pid]
      else let r = (if reason = [] then ''worker attempt failed'' else reason) in
        res_bind (mark_worker_failed w ''unknown'' r True []) (\<lambda>tr.
        Inr \<lparr>at_kind = TERMINAL_FAILURE, at_error = Some r, at_failure_category = Some ''unknown'',
             at_worker_transition = tr\<rparr>))"

section \<open>Executing one attempt\<close>

text \<open>
  \<open>execute_single_worker_attempt\<close>: \<open>prompt\<close> is what the prompt executor returns or raises for
  the worker. An exception the policy does not classify is raised again.
\<close>

definition execute_single_worker_attempt ::
  "worker_record \<Rightarrow> attempt_error + jdict \<Rightarrow> string option \<Rightarrow> attempt_outcome result" where
  "execute_single_worker_attempt w prompt prompt_id =
     (case prompt of
        Inr result \<Rightarrow> Inr (AttemptCompleted result)
      | Inl err \<Rightarrow>
          (case classify_worker_attempt_exception w err of
             None \<Rightarrow> Inl (RuntimeError (case err of OtherException m \<Rightarrow> m | _ \<Rightarrow> []))
           | Some (AttemptFailed category reason pid) \<Rightarrow>
               Inr (AttemptFailed category reason (if pid = None then prompt_id else pid))
           | Some out \<Rightarrow> Inr out))"

fun attempt_status :: "transition_kind \<Rightarrow> string" where
  "attempt_status COMPLETED = ''completed''"
| "attempt_status RETRY_SCHEDULED = ''retry_scheduled''"
| "attempt_status TERMINAL_FAILURE = ''failed''"

definition optional_field :: "string \<Rightarrow> json \<Rightarrow> jdict \<Rightarrow> jdict" where
  "optional_field k v d = (if v = JNull then d else dict_set k v d)"

definition result_finalization_fields :: "jdict \<Rightarrow> jdict \<Rightarrow> jdict" where
  "result_finalization_fields result d =
     (let ids = (case dict_get result ''message_ids'' of JObj m \<Rightarrow> m | _ \<Rightarrow> [])
      in optional_field ''assistant_message_id'' (dict_get ids ''assistant'')
           (optional_field ''user_message_id'' (dict_get ids ''user'')
             (dict_set ''result_status'' (dict_get result ''status'') d)))"

definition option_json :: "string option \<Rightarrow> json" where
  "option_json v = (case v of None \<Rightarrow> JNull | Some s \<Rightarrow> JStr s)"

definition attempt_finalization_fields :: "attempt_transition \<Rightarrow> attempt_outcome \<Rightarrow> json \<Rightarrow> jdict" where
  "attempt_finalization_fields tr attempt finished_at =
     (let d0 = [(''status'', JStr (attempt_status (at_kind tr))), (''finished_at'', finished_at)];
          d1 = optional_field ''error'' (option_json (at_error tr)) d0;
          d2 = optional_field ''failure_category'' (option_json (at_failure_category tr)) d1
      in case attempt of
           AttemptCompleted result \<Rightarrow> result_finalization_fields result d2
         | AttemptFailed _ _ pid \<Rightarrow> optional_field ''user_message_id'' (option_json pid) d2)"

section \<open>The worker executor\<close>

text \<open>
  \<open>WorkerExecutionExecutor.execute\<close>. The persistence boundary is the parameter \<open>apply\<close> (it
  returns the run and the worker after a transition was applied); the provisioner's result and its
  best-effort finalization are the parameters \<open>provision\<close> and \<open>finalize\<close>.
\<close>

record execution_clock =
  clock_active :: json
  clock_started :: json
  clock_timed_out :: json
  clock_finished :: json

record 'run execution_outcome =
  eo_kind :: transition_kind
  eo_created_session_ids :: "json list"
  eo_error :: "string option"
  eo_failure_category :: "string option"
  eo_run :: 'run
  eo_worker :: worker_record

type_synonym 'run boundary = "'run \<Rightarrow> worker_record \<Rightarrow> worker_transition \<Rightarrow> ('run \<times> worker_record) result"

definition started_attempt ::
  "worker_record \<Rightarrow> json \<Rightarrow> json list \<Rightarrow> string option \<Rightarrow> jdict" where
  "started_attempt w started_at created prompt_id =
     optional_field ''user_message_id'' (option_json prompt_id) (new_attempt_record w started_at created)"

definition execute_worker ::
  "'run boundary \<Rightarrow> ('run \<Rightarrow> worker_record \<Rightarrow> ('run \<times> worker_record \<times> json) result) \<Rightarrow>
   ('run \<Rightarrow> worker_record \<Rightarrow> 'run \<times> worker_record) \<Rightarrow>
   (worker_record \<Rightarrow> attempt_error + jdict) \<Rightarrow> string option \<Rightarrow> execution_clock \<Rightarrow>
   'run \<Rightarrow> worker_record \<Rightarrow> 'run execution_outcome result" where
  "execute_worker apply provision finalize prompt prompt_id clock run w =
     res_bind (provision run w) (\<lambda>(run1, w1, created).
     res_bind (apply run1 w1 (provisioned_transition w1)) (\<lambda>(run2, w2).
     let (run3, w3) = finalize run2 w2;
         created_ids = (if created = JNull then [] else [created]) in
     res_bind (apply run3 w3 (mark_worker_active w3 (Some (clock_active clock)))) (\<lambda>(run4, w4).
     let attempt_record = started_attempt w4 (clock_started clock) created_ids prompt_id in
     res_bind (apply run4 w4 (attempt_started_transition (worker_id_str w4) attempt_record)) (\<lambda>(run5, w5).
     res_bind (execute_single_worker_attempt w5 (prompt w5) prompt_id) (\<lambda>attempt.
     res_bind (apply_worker_attempt_transition w5 attempt (clock_timed_out clock)) (\<lambda>tr.
     res_bind (apply run5 w5 (with_finalized_attempt (at_worker_transition tr)
         (dict_get attempt_record ''id'')
         (attempt_finalization_fields tr attempt (clock_finished clock)))) (\<lambda>(run6, w6).
     Inr \<lparr>eo_kind = at_kind tr, eo_created_session_ids = created_ids, eo_error = at_error tr,
          eo_failure_category = at_failure_category tr, eo_run = run6, eo_worker = w6\<rparr>)))))))"

text \<open>\<open>_apply_in_memory_worker_transition\<close>\<close>

definition apply_in_memory :: "'run boundary" where
  "apply_in_memory run w tr = res_bind (apply_transition w tr) (\<lambda>w'. Inr (run, w'))"

end
