(* ===== verification/Attempt_Facts.thy ===== *)
theory Attempt_Facts
  imports Worker_Attempts
begin

text \<open>
  Facts about attempts: the retry budget bounds the retries, the plan fields of a worker never
  change, attempts keep their numbering, and an executed attempt never leaves its worker active.
  The last one is proved for any persistence boundary that keeps the laws of the locale
  \<open>persistence_boundary\<close>.
\<close>

section \<open>Public transitions, field by field\<close>

lemma passthrough_effect:
  assumes "wf_worker w" and "payload_name p \<noteq> T_SNAPSHOT_APPLIED"
    and "apply_accepted_abort_passthrough w w p = Inr w'"
  shows "effect w {F_prompt_ids} (worker_lifecycle w) w'"
proof -
  have "merge_worker_prompt_ids w w (payload_prompt_ids p) False = Inr w'"
    using assms(2,3) by (cases p) (auto simp del: merge_worker_prompt_ids_eq)
  with assms(1) show ?thesis by (auto split: if_splits intro!: effect_rules)
qed

lemma public_reduce_slots:
  assumes wf: "wf_worker w" and wid: "wt_worker_id tr \<noteq> []" and ns: "wt_name tr \<noteq> T_SNAPSHOT_APPLIED"
    and red: "reduce_worker_transition_payload w tr = Inr w'"
  obtains p where "require_transition_payload tr = Inr p" and "payload_name p = wt_name tr"
    and "\<forall>g \<in> configuration_fields. wr_slots w' g = wr_slots w g"
    and "wr_slots w' F_retry_count = wr_slots w F_retry_count
      \<or> wr_slots w' F_retry_count = payload_retry_count (wr_slots w F_retry_count) p"
    and "wt_name tr \<noteq> T_ATTEMPT_STARTED \<Longrightarrow> wr_slots w' F_attempts = wr_slots w F_attempts"
proof -
  from red obtain p target w0 where p: "require_transition_payload tr = Inr p"
    and target: "worker_transition_target_lifecycle_state tr = Inr target"
    and w0: "spec_reducer w tr target p = Inr w0"
    and inv: "accepted_abort_terminal_invariant w w0 p = Inr w'"
    by (auto simp: reduce_worker_transition_payload_def res_bind_Inr_iff)
  have n: "payload_name p = wt_name tr" using p by (rule payload_name_of)
  note eff = spec_reducer_effect [OF wf wid p _ target w0, unfolded n, OF ns]
  have "w' = w0 \<or> effect w {F_prompt_ids} (worker_lifecycle w) w'"
    using inv wf passthrough_effect [OF wf, of p w'] n ns
    by (auto simp: accepted_abort_terminal_invariant_def split: if_splits)
  then have "(\<forall>g \<in> configuration_fields. wr_slots w' g = wr_slots w g) \<and>
      (wr_slots w' F_retry_count = wr_slots w F_retry_count
        \<or> wr_slots w' F_retry_count = payload_retry_count (wr_slots w F_retry_count) p) \<and>
      (wt_name tr \<noteq> T_ATTEMPT_STARTED \<longrightarrow> wr_slots w' F_attempts = wr_slots w F_attempts)"
    using eff by (auto simp: effect_def configuration_fields_def)
  with p n that show thesis by blast
qed

lemma public_apply_reduce:
  assumes wf: "wf_worker w" and wid: "wt_worker_id tr \<noteq> []" and ns: "wt_name tr \<noteq> T_SNAPSHOT_APPLIED"
    and app: "apply_transition w tr = Inr w'"
  obtains w1 where "reduce_worker_transition_payload w tr = Inr w1" and "wf_worker w1"
    and "w' = finalized w1 (wt_attempt_finalization tr)"
    and "effect w1 {F_attempts} (worker_lifecycle w1) w'"
proof -
  have "\<not> is_stale_snapshot_recovery tr" using ns by (simp add: is_stale_snapshot_recovery_def)
  with app obtain w1 where w1: "reduce_worker_transition_payload w tr = Inr w1"
    and w': "w' = finalized w1 (wt_attempt_finalization tr)"
    by (auto simp: apply_transition_eq [OF wf wid] res_bind_Inr_iff split: if_splits)
  have wf1: "wf_worker w1" by (rule wf_reduce_payload [OF wf wid w1])
  from that [OF w1 wf1 w'] finalized_effect [OF wf1] w' show thesis by simp
qed

lemma public_apply_configuration:
  assumes "wf_worker w" and "wt_worker_id tr \<noteq> []" and "wt_name tr \<noteq> T_SNAPSHOT_APPLIED"
    and "apply_transition w tr = Inr w'" and "g \<in> configuration_fields"
  shows "wr_slots w' g = wr_slots w g"
proof -
  obtain w1 where red: "reduce_worker_transition_payload w tr = Inr w1"
    and e: "effect w1 {F_attempts} (worker_lifecycle w1) w'"
    by (rule public_apply_reduce [OF assms(1-4)])
  obtain p where "\<forall>g \<in> configuration_fields. wr_slots w1 g = wr_slots w g"
    by (rule public_reduce_slots [OF assms(1-3) red])
  moreover have "wr_slots w' g = wr_slots w1 g"
    using e by (rule effect_slot) (use assms(5) in \<open>auto simp: configuration_fields_def\<close>)
  ultimately show ?thesis using assms(5) by simp
qed

section \<open>The retry budget\<close>

definition within_budget :: "worker_record \<Rightarrow> bool" where
  "within_budget w \<longleftrightarrow> (case (wr_slots w F_retry_count, wr_slots w F_retry_limit) of
     (JInt n, JInt m) \<Rightarrow> n \<le> max 0 m | _ \<Rightarrow> False)"

lemma retry_available_budget:
  assumes "retry_available w c = Inr True"
  obtains n m where "wr_slots w F_retry_count = JInt n" and "wr_slots w F_retry_limit = JInt m" and "n < m"
  using assms by (auto simp: retry_available_def Let_def split: if_splits json.splits)

text \<open>A transition that spends budget was chosen by \<open>schedule_worker_retry\<close> on the same worker.\<close>

definition spends_within :: "worker_record \<Rightarrow> worker_transition \<Rightarrow> bool" where
  "spends_within w tr \<longleftrightarrow> (wt_name tr = T_RETRY_SCHEDULED \<longrightarrow>
     (\<exists>category reason ids tr0 fin. schedule_worker_retry w category reason ids = Inr (Some tr0) \<and>
        tr = tr0\<lparr>wt_attempt_finalization := fin\<rparr>))"

lemma schedule_worker_retry_Some:
  assumes "schedule_worker_retry w category reason ids = Inr (Some tr)"
  obtains n m where "wr_slots w F_retry_count = JInt n" and "wr_slots w F_retry_limit = JInt m" and "n < m"
    and "tr = retry_scheduled_transition (worker_id_str w) category reason (n + 1)
      (Some (wr_slots w F_timeout_started_at)) ids"
proof -
  have a: "retry_available w (JStr category) = Inr True"
    using assms by (auto simp: schedule_worker_retry_def res_bind_Inr_iff split: if_splits)
  from a obtain n m where nm: "wr_slots w F_retry_count = JInt n" "wr_slots w F_retry_limit = JInt m" "n < m"
    by (rule retry_available_budget)
  with assms a that show thesis by (auto simp: schedule_worker_retry_def)
qed

lemma within_budget_step:
  assumes wf: "wf_worker w" and wid: "wt_worker_id tr \<noteq> []" and ns: "wt_name tr \<noteq> T_SNAPSHOT_APPLIED"
    and app: "apply_transition w tr = Inr w'" and b: "within_budget w" and sp: "spends_within w tr"
  shows "within_budget w'"
proof -
  obtain w1 where red: "reduce_worker_transition_payload w tr = Inr w1"
    and e: "effect w1 {F_attempts} (worker_lifecycle w1) w'"
    by (rule public_apply_reduce [OF wf wid ns app])
  obtain p where p: "require_transition_payload tr = Inr p" "payload_name p = wt_name tr"
    and cfg: "\<forall>g \<in> configuration_fields. wr_slots w1 g = wr_slots w g"
    and rc: "wr_slots w1 F_retry_count = wr_slots w F_retry_count
      \<or> wr_slots w1 F_retry_count = payload_retry_count (wr_slots w F_retry_count) p"
    by (rule public_reduce_slots [OF wf wid ns red])
  have limit: "wr_slots w' F_retry_limit = wr_slots w F_retry_limit"
    and count: "wr_slots w' F_retry_count = wr_slots w1 F_retry_count"
    using e cfg by (simp_all add: effect_def configuration_fields_def)
  show ?thesis
  proof (cases "wt_name tr = T_RETRY_SCHEDULED")
    case True
    with sp obtain c r ids tr0 fin where s: "schedule_worker_retry w c r ids = Inr (Some tr0)"
      and tr: "tr = tr0\<lparr>wt_attempt_finalization := fin\<rparr>" by (auto simp: spends_within_def)
    from s obtain n m where nm: "wr_slots w F_retry_count = JInt n" "wr_slots w F_retry_limit = JInt m" "n < m"
      and tr0: "tr0 = retry_scheduled_transition (worker_id_str w) c r (n + 1)
        (Some (wr_slots w F_timeout_started_at)) ids"
      by (rule schedule_worker_retry_Some)
    have "p = P_RetryScheduled c r (n + 1) (Some (wr_slots w F_timeout_started_at)) (transition_prompt_ids ids)"
      using p(1) tr tr0
      by (simp add: require_transition_payload_def retry_scheduled_transition_def make_transition_def)
    with rc nm limit count b show ?thesis
      by (auto simp: within_budget_def payload_retry_count_def)
  next
    case False
    with p(2) have "payload_retry_count (wr_slots w F_retry_count) p = wr_slots w F_retry_count"
      by (cases p) (auto simp: payload_retry_count_def)
    with rc limit count b show ?thesis by (simp add: within_budget_def)
  qed
qed

text \<open>Histories of one worker in which every retry is one that the budget allowed.\<close>

inductive worker_history :: "worker_record \<Rightarrow> worker_record \<Rightarrow> bool" where
  history_refl: "worker_history w w"
| history_step: "worker_history w u \<Longrightarrow> wt_worker_id tr \<noteq> [] \<Longrightarrow> wt_name tr \<noteq> T_SNAPSHOT_APPLIED \<Longrightarrow>
    spends_within u tr \<Longrightarrow> apply_transition u tr = Inr u' \<Longrightarrow> worker_history w u'"

lemma worker_history_budget:
  "worker_history w w' \<Longrightarrow> wf_worker w \<Longrightarrow> within_budget w \<Longrightarrow> wf_worker w' \<and> within_budget w'"
proof (induction rule: worker_history.induct)
  case (history_step w u tr u')
  then show ?case using wf_apply_transition within_budget_step by blast
qed simp

lemma worker_history_configuration:
  "worker_history w w' \<Longrightarrow> wf_worker w \<Longrightarrow> g \<in> configuration_fields \<Longrightarrow>
     wf_worker w' \<and> wr_slots w' g = wr_slots w g"
proof (induction rule: worker_history.induct)
  case (history_step w u tr u')
  then show ?case using wf_apply_transition public_apply_configuration by metis
qed simp

section \<open>The policy\<close>

lemma make_transition_simps [simp]:
  "wt_name (make_transition i p) = payload_name p"
  "wt_worker_id (make_transition i p) = i"
  "wt_payload (make_transition i p) = Some p"
  "wt_attempt_finalization (make_transition i p) = None"
  "require_transition_payload (make_transition i p) = Inr p"
  by (simp_all add: make_transition_def require_transition_payload_def)

lemmas factories = provisioned_transition_def active_transition_def attempt_started_transition_def
  failed_transition_def dependency_blocked_transition_def aborted_transition_def
  retry_scheduled_transition_def timed_out_transition_def result_applied_transition_def
  cleanup_updated_transition_def mark_worker_active_def apply_worker_result_def

lemma with_finalized_attempt_simps [simp]:
  "wt_name (with_finalized_attempt tr i d) = wt_name tr"
  "wt_worker_id (with_finalized_attempt tr i d) = wt_worker_id tr"
  "wt_attempt_finalization (with_finalized_attempt tr i d) = Some (i, d)"
  by (simp_all add: with_finalized_attempt_def)

lemma retry_available_total:
  assumes wf: "wf_worker w" and h: "list_all hashable (list_slot w F_retryable_failures)" and s: "hashable c"
    and l: "hashable (wr_slots w F_failure_category)" "hashable (wr_slots w F_last_failure_category)"
  obtains b where "retry_available w c = Inr b"
proof -
  obtain n where n: "wr_slots w F_retry_count = JInt n" using wf_worker_int [OF wf, of F_retry_count] by auto
  obtain m where m: "wr_slots w F_retry_limit = JInt m" using wf_worker_int [OF wf, of F_retry_limit] by auto
  have "\<exists>b. retry_available w c = Inr b"
    using h s l by (auto simp: retry_available_def Let_def n m list_slot_def split: json.splits)
  with that show thesis by blast
qed

text \<open>Every transition the policy chooses ends the attempt, and its retries are within the budget.\<close>

definition attempt_ending :: "transition_name set" where
  "attempt_ending = {T_RESULT_APPLIED, T_TIMED_OUT, T_FAILED, T_RETRY_SCHEDULED}"

lemma mark_worker_failed_name:
  "mark_worker_failed w c r b ids = Inr tr \<Longrightarrow> wt_name tr = T_FAILED \<and> wt_worker_id tr = worker_id_str w"
  by (auto simp: mark_worker_failed_def res_bind_Inr_iff factories)

lemma mark_worker_timeout_name:
  "mark_worker_timeout w r now b = Inr tr \<Longrightarrow> wt_name tr = T_TIMED_OUT \<and> wt_worker_id tr = worker_id_str w"
  by (cases "wr_slots w F_timeout_policy") (auto simp: mark_worker_timeout_def res_bind_Inr_iff factories)

lemma schedule_worker_retry_name:
  "schedule_worker_retry w c r ids = Inr (Some tr) \<Longrightarrow>
     wt_name tr = T_RETRY_SCHEDULED \<and> wt_worker_id tr = worker_id_str w"
  by (erule schedule_worker_retry_Some) (simp add: factories)

lemma retryable_attempt_transition:
  assumes "apply_retryable_attempt_failure w c r pre ids = Inr att"
  shows "wt_name (at_worker_transition att) \<in> {T_FAILED, T_RETRY_SCHEDULED}
    \<and> wt_worker_id (at_worker_transition att) = worker_id_str w
    \<and> (at_kind att = RETRY_SCHEDULED \<longleftrightarrow> wt_name (at_worker_transition att) = T_RETRY_SCHEDULED)
    \<and> at_kind att \<noteq> COMPLETED
    \<and> (wt_name (at_worker_transition att) = T_RETRY_SCHEDULED \<longrightarrow>
         schedule_worker_retry w c r ids = Inr (Some (at_worker_transition att)))"
proof -
  from assms obtain retry where r: "schedule_worker_retry w c r ids = Inr retry"
    by (cases "schedule_worker_retry w c r ids") (simp_all add: apply_retryable_attempt_failure_def)
  show ?thesis
  proof (cases retry)
    case (Some tr)
    with assms r have "att = \<lparr>at_kind = RETRY_SCHEDULED, at_error = None, at_failure_category = Some c,
        at_worker_transition = tr\<rparr>" by (simp add: apply_retryable_attempt_failure_def)
    with r Some show ?thesis using schedule_worker_retry_name by simp
  next
    case None
    with assms r obtain tr where "mark_worker_failed w c r True ids = Inr tr"
      and "att = \<lparr>at_kind = TERMINAL_FAILURE, at_error = Some (pre @ '': '' @ r),
        at_failure_category = Some c, at_worker_transition = tr\<rparr>"
      by (cases "mark_worker_failed w c r True ids") (simp_all add: apply_retryable_attempt_failure_def)
    then show ?thesis using mark_worker_failed_name by fastforce
  qed
qed

lemma attempt_transition_name:
  assumes "apply_worker_attempt_transition w out now = Inr att"
  shows "wt_name (at_worker_transition att) \<in> attempt_ending"
    and "wt_worker_id (at_worker_transition att) = worker_id_str w"
    and "spends_within w (with_finalized_attempt (at_worker_transition att) i d)"
proof -
  have "wt_name (at_worker_transition att) \<in> attempt_ending
    \<and> wt_worker_id (at_worker_transition att) = worker_id_str w
    \<and> (wt_name (at_worker_transition att) = T_RETRY_SCHEDULED \<longrightarrow>
         (\<exists>c r ids. schedule_worker_retry w c r ids = Inr (Some (at_worker_transition att))))"
  proof (cases out)
    case (AttemptCompleted result)
    with assms show ?thesis
      by (auto simp: apply_completed_attempt_def res_bind_Inr_iff factories attempt_ending_def)
  next
    case (AttemptFailed c r pid)
    consider "c = ''timeout''" | "c = ''api''" | "c = ''provider''"
      | "c \<notin> {''timeout'', ''api'', ''provider''}" by blast
    then show ?thesis
    proof cases
      case 1
      with assms AttemptFailed show ?thesis
        by (auto simp: apply_timeout_attempt_failure_def res_bind_Inr_iff attempt_ending_def
            dest!: mark_worker_timeout_name)
    next
      case 2
      with assms AttemptFailed retryable_attempt_transition [of w "''api''" r "''api failure''" "[]" att]
      show ?thesis by (auto simp: attempt_ending_def)
    next
      case 3
      with assms AttemptFailed
        retryable_attempt_transition [of w "''provider''" r "''provider failure''" "[prompt_id_json pid]" att]
      show ?thesis by (auto simp: attempt_ending_def)
    next
      case 4
      with assms AttemptFailed show ?thesis
        by (auto simp: Let_def res_bind_Inr_iff attempt_ending_def dest!: mark_worker_failed_name)
    qed
  qed
  note facts = this
  from facts show "wt_name (at_worker_transition att) \<in> attempt_ending"
    and "wt_worker_id (at_worker_transition att) = worker_id_str w" by blast+
  from facts show "spends_within w (with_finalized_attempt (at_worker_transition att) i d)"
    unfolding spends_within_def by (simp add: with_finalized_attempt_def) blast
qed

section \<open>The boundary an execution runs against\<close>

text \<open>
  What the executor relies on: applying a transition returns a worker that the transition really
  produced, from some well-formed worker (the one passed in, or the latest stored one).
\<close>

locale persistence_boundary =
  fixes apply_tr :: "'run \<Rightarrow> worker_record \<Rightarrow> worker_transition \<Rightarrow> ('run \<times> worker_record) result"
    and run_ok :: "'run \<Rightarrow> bool"
  assumes apply_tr_run: "run_ok run \<Longrightarrow> wf_worker w \<Longrightarrow> wt_worker_id tr = worker_id_str w \<Longrightarrow>
      wt_name tr \<noteq> T_SNAPSHOT_APPLIED \<Longrightarrow> apply_tr run w tr = Inr (run', w') \<Longrightarrow> run_ok run'"
    and apply_tr_worker: "run_ok run \<Longrightarrow> wf_worker w \<Longrightarrow> wt_worker_id tr = worker_id_str w \<Longrightarrow>
      wt_name tr \<noteq> T_SNAPSHOT_APPLIED \<Longrightarrow> apply_tr run w tr = Inr (run', w') \<Longrightarrow>
      \<exists>u. wf_worker u \<and> apply_transition u tr = Inr w'"

lemma worker_id_str_nonempty: "wf_worker w \<Longrightarrow> worker_id_str w \<noteq> []"
  by (erule wf_worker_id) (simp add: worker_id_str_def)

lemma ending_step: "lifecycle_step s n s' \<Longrightarrow> n \<in> attempt_ending \<Longrightarrow> fst s' \<noteq> Active_Wait"
  by (erule lifecycle_stepE) (auto simp: attempt_ending_def absorbed_def)

lemma prod_result: "\<exists>a b. (x :: 'a \<times> 'b) = (a, b)"
  by (rule surj_pair)

text \<open>The steps of an execution that returns.\<close>

lemma execute_worker_steps:
  assumes ex: "execute_worker apply_tr provision finalize prompt prompt_id clock run w = Inr out"
  obtains run1 w1 c run2 w2 run3 w3 run4 w4 attempt_rec run5 w5 attempt tr where
    "provision run w = Inr (run1, w1, c)" and "apply_tr run1 w1 (provisioned_transition w1) = Inr (run2, w2)"
    and "finalize run2 w2 = (run3, w3)"
    and "apply_tr run3 w3 (mark_worker_active w3 (Some (clock_active clock))) = Inr (run4, w4)"
    and "apply_tr run4 w4 (attempt_started_transition (worker_id_str w4) attempt_rec) = Inr (run5, w5)"
    and "apply_worker_attempt_transition w5 attempt (clock_timed_out clock) = Inr tr"
    and "apply_tr run5 w5 (with_finalized_attempt (at_worker_transition tr) (dict_get attempt_rec ''id'')
      (attempt_finalization_fields tr attempt (clock_finished clock))) = Inr (eo_run out, eo_worker out)"
proof -
  obtain run1 w1 c where 1: "provision run w = Inr (run1, w1, c)"
    using ex by (cases "provision run w") (auto simp: execute_worker_def)
  obtain run2 w2 where 2: "apply_tr run1 w1 (provisioned_transition w1) = Inr (run2, w2)"
    using ex by (cases "apply_tr run1 w1 (provisioned_transition w1)") (auto simp: execute_worker_def 1)
  obtain run3 w3 where 3: "finalize run2 w2 = (run3, w3)" by (cases "finalize run2 w2")
  let ?active = "mark_worker_active w3 (Some (clock_active clock))"
  obtain run4 w4 where 4: "apply_tr run3 w3 ?active = Inr (run4, w4)"
    using ex by (cases "apply_tr run3 w3 ?active") (auto simp: execute_worker_def 1 2 3)
  let ?rec = "started_attempt w4 (clock_started clock) (if c = JNull then [] else [c]) prompt_id"
  let ?start = "attempt_started_transition (worker_id_str w4) ?rec"
  obtain run5 w5 where 5: "apply_tr run4 w4 ?start = Inr (run5, w5)"
    using ex by (cases "apply_tr run4 w4 ?start") (auto simp: execute_worker_def 1 2 3 4 Let_def)
  obtain attempt tr where 6: "execute_single_worker_attempt w5 (prompt w5) prompt_id = Inr attempt"
    "apply_worker_attempt_transition w5 attempt (clock_timed_out clock) = Inr tr"
    using ex by (auto simp: execute_worker_def 1 2 3 4 5 Let_def res_bind_Inr_iff)
  have "apply_tr run5 w5 (with_finalized_attempt (at_worker_transition tr) (dict_get ?rec ''id'')
      (attempt_finalization_fields tr attempt (clock_finished clock))) = Inr (eo_run out, eo_worker out)"
    using ex by (auto simp: execute_worker_def 1 2 3 4 5 6 Let_def res_bind_Inr_iff)
  then show ?thesis by (rule that [OF 1 2 3 4 5 6(2)])
qed

context persistence_boundary
begin

lemma boundary_step:
  assumes "run_ok run" and "wf_worker w" and "wt_worker_id tr = worker_id_str w"
    and "wt_name tr \<noteq> T_SNAPSHOT_APPLIED" and "apply_tr run w tr = Inr (run', w')"
  shows "run_ok run' \<and> wf_worker w'"
proof -
  have "wt_worker_id tr \<noteq> []" using assms(2,3) by (simp add: worker_id_str_nonempty)
  with apply_tr_worker [OF assms] have "wf_worker w'" by (auto intro: wf_apply_transition)
  with apply_tr_run [OF assms] show ?thesis ..
qed

lemma boundary_ending:
  assumes "run_ok run" and "wf_worker w" and "wt_worker_id tr = worker_id_str w"
    and "wt_name tr \<in> attempt_ending" and "apply_tr run w tr = Inr (run', w')"
  shows "run_ok run' \<and> wf_worker w' \<and> worker_lifecycle w' \<noteq> Some Active_Wait"
proof -
  have ns: "wt_name tr \<noteq> T_SNAPSHOT_APPLIED" using assms(4) by (auto simp: attempt_ending_def)
  obtain u where u: "wf_worker u" "apply_transition u tr = Inr w'"
    using apply_tr_worker [OF assms(1-3) ns assms(5)] by blast
  have "wt_worker_id tr \<noteq> []" using assms(2,3) by (simp add: worker_id_str_nonempty)
  from public_transition_step [OF u(1) this ns u(2)] assms(4)
  have "fst (machine_state w') \<noteq> Active_Wait" by (rule ending_step)
  with boundary_step [OF assms(1-3) ns assms(5)] show ?thesis by (auto simp: machine_state_def)
qed

text \<open>The last transition that the executor applies ends the attempt.\<close>

lemma execute_worker_last:
  assumes run: "run_ok run" and w: "wf_worker w"
    and prov: "\<And>run1 w1 c. provision run w = Inr (run1, w1, c) \<Longrightarrow> run_ok run1 \<and> wf_worker w1"
    and fin: "\<And>run2 w2 run3 w3. run_ok run2 \<Longrightarrow> wf_worker w2 \<Longrightarrow> finalize run2 w2 = (run3, w3) \<Longrightarrow>
      run_ok run3 \<and> wf_worker w3"
    and ex: "execute_worker apply_tr provision finalize prompt prompt_id clock run w = Inr out"
  obtains run5 w5 tr where "run_ok run5" and "wf_worker w5" and "wt_worker_id tr = worker_id_str w5"
    and "wt_name tr \<in> attempt_ending" and "apply_tr run5 w5 tr = Inr (eo_run out, eo_worker out)"
proof -
  obtain run1 w1 c run2 w2 run3 w3 run4 w4 attempt_rec run5 w5 attempt tr where
    1: "provision run w = Inr (run1, w1, c)" and 2: "apply_tr run1 w1 (provisioned_transition w1) = Inr (run2, w2)"
    and 3: "finalize run2 w2 = (run3, w3)"
    and 4: "apply_tr run3 w3 (mark_worker_active w3 (Some (clock_active clock))) = Inr (run4, w4)"
    and 5: "apply_tr run4 w4 (attempt_started_transition (worker_id_str w4) attempt_rec) = Inr (run5, w5)"
    and 6: "apply_worker_attempt_transition w5 attempt (clock_timed_out clock) = Inr tr"
    and 7: "apply_tr run5 w5 (with_finalized_attempt (at_worker_transition tr) (dict_get attempt_rec ''id'')
      (attempt_finalization_fields tr attempt (clock_finished clock))) = Inr (eo_run out, eo_worker out)"
    using ex by (rule execute_worker_steps)
  have "run_ok run1 \<and> wf_worker w1" using prov 1 by blast
  then have "run_ok run2 \<and> wf_worker w2"
    using boundary_step [OF _ _ _ _ 2] by (simp add: factories)
  then have "run_ok run3 \<and> wf_worker w3" using fin 3 by blast
  then have "run_ok run4 \<and> wf_worker w4"
    using boundary_step [OF _ _ _ _ 4] by (simp add: factories)
  then have "run_ok run5 \<and> wf_worker w5"
    using boundary_step [OF _ _ _ _ 5] by (simp add: factories)
  then show ?thesis using that [OF _ _ _ _ 7] attempt_transition_name [OF 6] by simp
qed

lemma execute_worker_ends:
  assumes run: "run_ok run" and w: "wf_worker w"
    and prov: "\<And>run1 w1 c. provision run w = Inr (run1, w1, c) \<Longrightarrow> run_ok run1 \<and> wf_worker w1"
    and fin: "\<And>run2 w2 run3 w3. run_ok run2 \<Longrightarrow> wf_worker w2 \<Longrightarrow> finalize run2 w2 = (run3, w3) \<Longrightarrow>
      run_ok run3 \<and> wf_worker w3"
    and ex: "execute_worker apply_tr provision finalize prompt prompt_id clock run w = Inr out"
  shows "run_ok (eo_run out) \<and> wf_worker (eo_worker out) \<and> worker_lifecycle (eo_worker out) \<noteq> Some Active_Wait"
  by (rule execute_worker_last, rule run, rule w, erule prov, erule (2) fin, rule ex, erule (4) boundary_ending)

end

interpretation in_memory: persistence_boundary "apply_in_memory" "\<lambda>_. True"
  by unfold_locales (auto simp: apply_in_memory_def res_bind_Inr_iff)

end
