(* ===== verification/Attempt_Numbering.thy ===== *)
theory Attempt_Numbering
  imports Attempt_Facts
begin

text \<open>
  The attempts of a worker are numbered \<open>attempt-1\<close>, \<open>attempt-2\<close>, ... in order: a new attempt gets
  an id no other attempt has, so it is appended, and finalizing an attempt changes that one entry.
\<close>

definition attempt_id :: "nat \<Rightarrow> json" where
  "attempt_id k = JStr (''attempt-'' @ nat_text k)"

definition numbered :: "json list \<Rightarrow> bool" where
  "numbered attempts \<longleftrightarrow> (\<forall>i < length attempts. \<exists>d. attempts ! i = JObj d \<and> dict_get d ''id'' = attempt_id (i + 1))"

lemma attempt_id_eq [simp]: "attempt_id j = attempt_id k \<longleftrightarrow> j = k"
  by (simp add: attempt_id_def nat_text_inj)

lemma py_eq_attempt_id [simp]: "py_eq v (attempt_id k) \<longleftrightarrow> v = attempt_id k"
  by (simp add: attempt_id_def py_eq_JStr_right)

lemma numbered_has_id:
  "numbered as \<Longrightarrow> i < length as \<Longrightarrow> attempt_has_id (attempt_id k) (as ! i) \<longleftrightarrow> k = i + 1"
  by (auto simp: numbered_def attempt_has_id_def)

lemma numbered_fresh: "numbered as \<Longrightarrow> length as < k \<Longrightarrow> \<not> list_ex (attempt_has_id (attempt_id k)) as"
  by (auto simp: list_ex_length numbered_has_id)

lemma numbered_snoc:
  "numbered as \<Longrightarrow> dict_get d ''id'' = attempt_id (length as + 1) \<Longrightarrow> numbered (as @ [JObj d])"
  by (auto simp: numbered_def nth_append less_Suc_eq)

lemma dict_get_update_other:
  "\<not> dict_has e k \<Longrightarrow> dict_get (dict_update d e) k = dict_get d k"
  by (induction e arbitrary: d) (auto simp: dict_update_def dict_has_def)

lemma numbered_finalize:
  assumes "numbered as" and "\<not> dict_has flds ''id''"
  shows "numbered (map (finalize_one aid flds) as)"
  unfolding numbered_def
proof (intro allI impI)
  fix i assume i: "i < length (map (finalize_one aid flds) as)"
  with assms(1) obtain d where "as ! i = JObj d" and "dict_get d ''id'' = attempt_id (i + 1)"
    by (auto simp: numbered_def)
  with i assms(2) show "\<exists>d. map (finalize_one aid flds) as ! i = JObj d \<and> dict_get d ''id'' = attempt_id (i + 1)"
    by (auto simp: finalize_one_def dict_get_update_other)
qed

lemma new_attempt_id:
  "dict_get (new_attempt_record w started created) ''id'' = attempt_id (length (worker_attempts w) + 1)"
  by (simp add: new_attempt_record_def dict_get_def attempt_id_def)

lemma started_attempt_id:
  "dict_get (started_attempt w started created pid) ''id'' = attempt_id (length (worker_attempts w) + 1)"
  using new_attempt_id [of w started created] by (simp add: started_attempt_def optional_field_def)

lemma append_started_attempt:
  assumes "numbered (worker_attempts w)"
  shows "append_attempt w (started_attempt w started created pid) =
    Inr (put_field w F_attempts (JList (worker_attempts w @ [JObj (started_attempt w started created pid)])))"
proof -
  have "started_attempt w started created pid \<noteq> []"
    by (auto simp: started_attempt_def new_attempt_record_def optional_field_def dict_set_def)
  then show ?thesis
    using numbered_fresh [OF assms, of "length (worker_attempts w) + 1"]
    by (simp add: append_attempt_def started_attempt_id set_canonical_field_def)
qed

text \<open>Finalizing the attempt numbered \<open>k\<close> changes only that entry.\<close>

lemma finalize_numbered:
  assumes num: "numbered (worker_attempts w)" and k: "0 < k" "k \<le> length (worker_attempts w)"
  shows "finalize_attempt w (attempt_id k) flds =
    Inr (put_field w F_attempts (JList ((worker_attempts w)[k - 1 :=
      finalize_one (attempt_id k) flds (worker_attempts w ! (k - 1))])))"
proof -
  let ?as = "worker_attempts w"
  obtain j where j: "k = Suc j" "j < length ?as" using k by (cases k) auto
  have "map (finalize_one (attempt_id k) flds) ?as = ?as[k - 1 := finalize_one (attempt_id k) flds (?as ! (k - 1))]"
    by (rule nth_equalityI) (use j in \<open>auto simp: nth_list_update finalize_one_def numbered_has_id [OF num]\<close>)
  moreover have "list_ex (attempt_has_id (attempt_id k)) ?as"
    unfolding list_ex_length using k numbered_has_id [OF num, of "k - 1" k] by (intro exI [of _ "k - 1"]) auto
  moreover have "py_truthy (attempt_id k)" by (simp add: attempt_id_def)
  ultimately show ?thesis by (simp add: finalize_attempt_def set_canonical_field_def)
qed

text \<open>The finalization fields of the executor never contain an id.\<close>

lemma finalization_no_id: "\<not> dict_has (attempt_finalization_fields tr attempt t) ''id''"
  by (cases attempt)
    (simp_all add: attempt_finalization_fields_def result_finalization_fields_def optional_field_def
      Let_def dict_has_def [of "[_, _]"])

text \<open>An attempt that is started and finalized.\<close>

lemma worker_attempts_put [simp]: "worker_attempts (put_field w F_attempts (JList xs)) = xs"
  by (simp add: worker_attempts_def)

lemma started_and_finalized:
  assumes num: "numbered (worker_attempts w)" and id: "\<not> dict_has flds ''id''"
  shows "\<exists>w1 w2. append_attempt w (started_attempt w started created pid) = Inr w1 \<and>
    finalize_attempt w1 (attempt_id (length (worker_attempts w) + 1)) flds = Inr w2 \<and>
    numbered (worker_attempts w2) \<and> length (worker_attempts w2) = length (worker_attempts w) + 1 \<and>
    take (length (worker_attempts w)) (worker_attempts w2) = worker_attempts w"
proof -
  let ?n = "length (worker_attempts w)" and ?a = "JObj (started_attempt w started created pid)"
  let ?as = "worker_attempts w @ [?a]"
  define w1 where "w1 = put_field w F_attempts (JList ?as)"
  have num1: "numbered (worker_attempts w1)"
    using numbered_snoc [OF num started_attempt_id] by (simp add: w1_def)
  have "finalize_attempt w1 (attempt_id (?n + 1)) flds = Inr (put_field w1 F_attempts (JList (?as[?n :=
      finalize_one (attempt_id (?n + 1)) flds ?a])))"
    using finalize_numbered [OF num1, of "?n + 1" flds] by (simp add: w1_def)
  moreover have "append_attempt w (started_attempt w started created pid) = Inr w1"
    using append_started_attempt [OF num] by (simp add: w1_def)
  moreover have "numbered (?as[?n := finalize_one (attempt_id (?n + 1)) flds ?a])"
    using numbered_finalize [OF num id, of "attempt_id (?n + 1)"] num id started_attempt_id [of w started created pid]
    by (simp add: finalize_one_def attempt_has_id_def dict_get_update_other numbered_snoc)
  ultimately show ?thesis by simp
qed

end
