(* ===== verification/Transition_Totality.thy ===== *)
theory Transition_Totality
  imports Attempt_Facts
begin

text \<open>
  When a transition succeeds: a transition other than a result succeeds exactly when it is legal,
  and an illegal one raises \<open>WorkerTransitionError\<close>; a result also needs the keys the reducer reads.
\<close>

section \<open>The reducers are total\<close>

lemma payload_target_total:
  assumes "require_transition_payload tr = Inr p" and "payload_name p \<noteq> T_RESULT_APPLIED"
  shows "\<exists>t. worker_transition_target_lifecycle_state tr = Inr t"
  using payload_resolver [OF assms(1)] assms(2) by (cases p) auto

lemma spec_reducer_total:
  assumes wf: "wf_worker w" and wid: "wt_worker_id tr \<noteq> []" and p: "require_transition_payload tr = Inr p"
    and ns: "payload_name p \<notin> {T_RESULT_APPLIED, T_SNAPSHOT_APPLIED}"
    and target: "worker_transition_target_lifecycle_state tr = Inr target"
  shows "\<exists>w'. spec_reducer w tr target p = Inr w'"
proof (cases p)
  case (P_Provisioned s a m)
  then show ?thesis using reduce_provisioned_effect [OF wf wid, of s a m]
    by (auto simp del: reduce_provisioned_transition.simps)
next
  case (P_Active s b)
  with payload_resolver [OF p] target show ?thesis
    using reduce_active_effect [OF wf wid, of Active_Wait s b] by auto
next
  case (P_AttemptStarted a)
  then show ?thesis using reduce_attempt_started_effect [OF wf, of a] by auto
next
  case (P_Failed c r re av st ids)
  with payload_resolver [OF p] target obtain t where "target = Some t" by auto
  with P_Failed show ?thesis using reduce_failed_effect [OF wf wid, of t c r re st ids] by auto
next
  case (P_DependencyBlocked bs)
  with payload_resolver [OF p] target show ?thesis
    using reduce_dependency_blocked_effect [OF wf wid, of Blocked_Dependency bs] by auto
next
  case (P_Aborted a)
  with payload_resolver [OF p] target show ?thesis
    using reduce_aborted_effect [OF wf wid, of Aborted a] by auto
next
  case (P_RetryScheduled c r n st ids)
  with payload_resolver [OF p] target show ?thesis
    using reduce_retry_scheduled_effect [OF wf wid, of Active_Retry c r n st ids] by auto
next
  case (P_TimedOut r s tat av man st)
  with payload_resolver [OF p] target obtain t where "target = Some t" by auto
  with P_TimedOut show ?thesis using reduce_timed_out_effect [OF wf wid, of t r s tat man st] by auto
next
  case (P_CleanupUpdated c)
  then show ?thesis using reduce_cleanup_effect [OF wf wid, of c] by auto
qed (use ns in auto)

lemma reduce_payload_total:
  assumes wf: "wf_worker w" and wid: "wt_worker_id tr \<noteq> []" and p: "require_transition_payload tr = Inr p"
    and ns: "payload_name p \<notin> {T_RESULT_APPLIED, T_SNAPSHOT_APPLIED}"
  shows "\<exists>w'. reduce_worker_transition_payload w tr = Inr w'"
proof -
  from payload_target_total [OF p] ns obtain target
    where t: "worker_transition_target_lifecycle_state tr = Inr target" by auto
  from spec_reducer_total [OF wf wid p ns t] obtain w0 where w0: "spec_reducer w tr target p = Inr w0" ..
  have "\<exists>w'. apply_accepted_abort_passthrough w w p = Inr w'" using ns by (cases p) auto
  then have "\<exists>w'. accepted_abort_terminal_invariant w w0 p = Inr w'"
    using wf by (simp add: accepted_abort_terminal_invariant_def)
  with w0 show ?thesis by (simp add: reduce_worker_transition_payload_def p t)
qed

lemma legal_total:
  "wt_name tr \<noteq> T_SNAPSHOT_APPLIED \<Longrightarrow> \<exists>b. worker_transition_is_legal w tr = Inr b"
  by (auto simp: worker_transition_is_legal_def transition_source_lifecycle_states_def)

lemma legal_apply:
  assumes "wf_worker w" and "wt_worker_id tr \<noteq> []" and "require_transition_payload tr = Inr p"
    and "payload_name p \<notin> {T_RESULT_APPLIED, T_SNAPSHOT_APPLIED}"
    and "worker_transition_is_legal w tr = Inr True"
  shows "\<exists>w'. apply_transition w tr = Inr w'"
  using reduce_payload_total [OF assms(1-4)] assms(5) by (auto simp: apply_transition_eq [OF assms(1,2)])

lemma reason_total:
  assumes "require_transition_payload tr = Inr p" and "payload_name p \<noteq> T_RESULT_APPLIED"
  shows "\<exists>r. illegal_transition_reason w tr = Inr r"
proof -
  obtain t where "worker_transition_target_lifecycle_state tr = Inr t"
    using payload_target_total [OF assms] ..
  then have "\<exists>t'. transition_target_for_reason tr = Inr t'" by (simp add: transition_target_for_reason_def)
  then show ?thesis by (auto simp: illegal_transition_reason_def Let_def)
qed

lemma illegal_apply:
  assumes "wf_worker w" and "wt_worker_id tr \<noteq> []" and "require_transition_payload tr = Inr p"
    and "payload_name p \<notin> {T_RESULT_APPLIED, T_SNAPSHOT_APPLIED}"
    and "worker_transition_is_legal w tr = Inr False"
  shows "\<exists>r. apply_transition w tr = Inl (WorkerTransitionError r)"
proof -
  obtain r where "illegal_transition_reason w tr = Inr r" using reason_total [OF assms(3)] assms(4) by auto
  moreover have "\<not> is_stale_snapshot_recovery tr"
    using payload_name_of [OF assms(3)] assms(4) by (auto simp: is_stale_snapshot_recovery_def)
  ultimately show ?thesis using assms(5) by (simp add: apply_transition_eq [OF assms(1,2)])
qed

text \<open>A result needs a status, and for a finished worker the ids of its messages.\<close>

definition result_complete :: "jdict \<Rightarrow> bool" where
  "result_complete result \<longleftrightarrow>
     (\<exists>s. map_of result ''status'' = Some s \<and>
        (short_status s = Some ''done'' \<longrightarrow> (\<exists>d. map_of result ''message_ids'' = Some (JObj d))))"

lemma reduce_result_total:
  assumes "wf_worker w" and "wt_worker_id tr \<noteq> []" and "result_complete result"
  shows "\<exists>w'. reduce_result_applied_transition w tr (Some t) result ids st = Inr w'"
  using assms
  by (auto simp: reduce_result_applied_transition_def removable_fields_eq set_canonical_field_def
      result_complete_def dict_index_def result_assistant_id_def)

section \<open>Replaying a snapshot\<close>

lemma snapshot_replayed:
  assumes wf: "wf_worker w" and v: "wf_worker v" and lv: "worker_lifecycle v = Some lv"
    and l: "worker_lifecycle w = Some l"
    and src: "l \<in> set (worker_snapshot_replay_source_lifecycle_states (Some lv))" and na: "\<not> accepted_abort w"
  shows "\<exists>tr w'. worker_snapshot_transition v None = Inr tr \<and> apply_transition w tr = Inr w' \<and> wf_worker w' \<and>
    worker_lifecycle w' = Some lv \<and> (\<forall>f \<in> set (patch_fields v). wr_slots w' f = wr_slots v f)"
proof -
  obtain pid where pid: "worker_id v = JStr pid" "pid \<noteq> []" using wf_worker_id [OF v] by blast
  let ?tr = "snapshot_applied (patch_of v pid lv)"
  have tr: "worker_snapshot_transition v None = Inr ?tr"
    using snapshot_patch_eq [OF v _ _ pid(2) lv] pid(1) by (simp add: worker_snapshot_transition_def)
  have p: "require_transition_payload ?tr = Inr (P_SnapshotApplied (patch_of v pid lv))"
    by (simp add: snapshot_applied_def require_transition_payload_def)
  have tid: "wt_worker_id ?tr \<noteq> []" using pid(2) by (simp add: snapshot_applied_def patch_of_def)
  obtain w0 where red: "reduce_snapshot_applied_transition w ?tr (patch_of v pid lv) = Inr w0" and wf0: "wf_worker w0"
    and same: "\<forall>f \<in> set (patch_fields v). wr_slots w0 f = wr_slots v f"
    using reduce_snapshot_patch [OF wf v pid(2) tid, of lv] by blast
  have "worker_lifecycle w0 = Some lv"
    using same lifecycle_in_patch_fields [of v] lv by (simp add: worker_lifecycle_def)
  moreover have "worker_transition_is_legal w ?tr = Inr True"
    using src l na by (simp add: worker_transition_is_legal_def accepted_abort_terminal_invariant_applies_def
        transition_source_lifecycle_states_def p) (simp add: snapshot_applied_def patch_of_def)
  moreover have "reduce_worker_transition_payload w ?tr = Inr w0"
    using red na by (simp add: reduce_worker_transition_payload_def payload_resolver [OF p] p
        accepted_abort_terminal_invariant_def)
  moreover have "finalized w0 (wt_attempt_finalization ?tr) = w0"
    by (simp add: finalized_def finalize_worker_attempt_def snapshot_applied_def)
  ultimately have "apply_transition w ?tr = Inr w0" by (simp add: apply_transition_eq [OF wf tid])
  with tr wf0 same \<open>worker_lifecycle w0 = Some lv\<close> show ?thesis by blast
qed

text \<open>Legality by the lifecycle state; a worker in a final state accepts none of the lifecycle transitions.\<close>

lemma legal_source:
  assumes "wf_worker w" and "worker_lifecycle w = Some l" and "wt_name tr \<noteq> T_SNAPSHOT_APPLIED"
  shows "worker_transition_is_legal w tr =
    Inr (accepted_abort w \<and> ts_public_lifecycle_transition (worker_transition_spec (wt_name tr)) \<or>
         l \<in> set (ts_source_states (worker_transition_spec (wt_name tr))))"
  using assms by (auto simp: worker_transition_is_legal_def accepted_abort_terminal_invariant_applies_def
      transition_source_lifecycle_states_def)

lemma final_illegal:
  assumes "wf_worker w" and "worker_lifecycle w = Some l" and "l \<in> final_states"
    and "wt_name tr \<notin> {T_CLEANUP_UPDATED, T_SNAPSHOT_APPLIED}"
  shows "worker_transition_is_legal w tr = Inr False"
  using assms by (cases "wt_name tr")
    (auto simp: legal_source accepted_abort_iff absorbed_def machine_state_def final_states_def)

end
