(* ===== verification/Executor_Totality.thy ===== *)
theory Executor_Totality
  imports Transition_Totality
begin

text \<open>
  The executor returns: from a schedulable worker, with a provisioner that keeps it schedulable and
  a prompt whose outcome the policy classifies, \<open>execute_worker\<close> over the in-memory boundary runs
  through every transition and returns an outcome.
\<close>

section \<open>One transition\<close>

definition retry_configured :: "worker_record \<Rightarrow> bool" where
  "retry_configured w \<longleftrightarrow> wf_worker w \<and> list_all hashable (list_slot w F_retryable_failures)"

lemma retry_available_category:
  assumes "retry_configured w"
  obtains b where "retry_available w (JStr c) = Inr b"
proof -
  have wf: "wf_worker w" using assms by (simp add: retry_configured_def)
  obtain n where n: "wr_slots w F_retry_count = JInt n" using wf_worker_int [OF wf, of F_retry_count] by auto
  obtain m where m: "wr_slots w F_retry_limit = JInt m" using wf_worker_int [OF wf, of F_retry_limit] by auto
  have "\<exists>b. retry_available w (JStr c) = Inr b"
    using assms by (auto simp: retry_configured_def retry_available_def Let_def n m list_slot_def split: json.splits)
  with that show thesis by blast
qed

lemma public_configured:
  assumes "retry_configured w" and "wt_worker_id tr \<noteq> []" and "wt_name tr \<noteq> T_SNAPSHOT_APPLIED"
    and "apply_transition w tr = Inr w'"
  shows "retry_configured w'"
proof -
  have "wr_slots w' F_retryable_failures = wr_slots w F_retryable_failures"
    using assms by (intro public_apply_configuration) (auto simp: retry_configured_def configuration_fields_def)
  then show ?thesis
    using assms wf_apply_transition [OF _ assms(2,4)] by (simp add: retry_configured_def list_slot_def)
qed

lemma source_legal:
  assumes "worker_lifecycle w = Some l" and "l \<in> set (ts_source_states (worker_transition_spec (wt_name tr)))"
    and "wt_name tr \<noteq> T_SNAPSHOT_APPLIED"
  shows "worker_transition_is_legal w tr = Inr True"
  using assms by (simp add: worker_transition_is_legal_def transition_source_lifecycle_states_def)

lemma scheduled_step:
  assumes w: "retry_configured w" and l: "worker_lifecycle w = Some l"
    and src: "l \<in> set (ts_source_states (worker_transition_spec (payload_name p)))"
    and p: "payload_name p \<notin> {T_RESULT_APPLIED, T_SNAPSHOT_APPLIED}"
    and tr: "tr = make_transition (worker_id_str w) p"
  obtains w' where "apply_transition w tr = Inr w'" and "retry_configured w'"
    and "lifecycle_step (machine_state w) (payload_name p) (machine_state w')"
proof -
  have wf: "wf_worker w" using w by (simp add: retry_configured_def)
  have wid: "wt_worker_id tr \<noteq> []" using tr wf by (simp add: worker_id_str_nonempty)
  have "worker_transition_is_legal w tr = Inr True"
    using source_legal [OF l] src p tr by auto
  then obtain w' where w': "apply_transition w tr = Inr w'"
    using legal_apply [OF wf wid, of p] p tr by auto
  have ns: "wt_name tr \<noteq> T_SNAPSHOT_APPLIED" using p tr by simp
  show thesis
    using that [OF w' public_configured [OF w wid ns w']] public_transition_step [OF wf wid ns w'] tr by simp
qed

lemma machine_lifecycle:
  "wf_worker w \<Longrightarrow> worker_lifecycle w = Some (fst (machine_state w))"
  by (erule wf_worker_lifecycle) (simp add: machine_state_def)

lemma provisioned_target:
  "lifecycle_step s T_PROVISIONED s' \<Longrightarrow> fst s \<in> schedulable \<Longrightarrow> fst s' = fst s"
  by (erule lifecycle_stepE) auto

lemma active_target:
  "lifecycle_step s T_ACTIVE s' \<Longrightarrow> fst s \<in> schedulable \<Longrightarrow> fst s' = Active_Wait"
  by (erule lifecycle_stepE) (auto simp: absorbed_def schedulable_def)

lemma attempt_target:
  "lifecycle_step s T_ATTEMPT_STARTED s' \<Longrightarrow> fst s' = fst s"
  by (erule lifecycle_stepE) auto

section \<open>The end of the attempt\<close>

definition result_answered :: "jdict \<Rightarrow> bool" where
  "result_answered result \<longleftrightarrow> map_of result ''status'' \<noteq> None \<and> (\<exists>d. map_of result ''message_ids'' = Some (JObj d))"

definition prompt_answered :: "worker_record \<Rightarrow> attempt_error + jdict \<Rightarrow> bool" where
  "prompt_answered w answer =
     (case answer of Inl err \<Rightarrow> classify_worker_attempt_exception w err \<noteq> None | Inr r \<Rightarrow> result_answered r)"

definition outcome_answered :: "attempt_outcome \<Rightarrow> bool" where
  "outcome_answered out = (case out of AttemptCompleted r \<Rightarrow> result_answered r | _ \<Rightarrow> True)"

lemma single_attempt_returns:
  assumes "prompt_answered w answer"
  obtains out where "execute_single_worker_attempt w answer pid = Inr out" and "outcome_answered out"
proof (cases answer)
  case (Inr r)
  with assms that show thesis
    by (simp add: prompt_answered_def execute_single_worker_attempt_def outcome_answered_def)
next
  case (Inl err)
  with assms obtain out where out: "classify_worker_attempt_exception w err = Some out"
    by (auto simp: prompt_answered_def)
  then obtain c r p where "out = AttemptFailed c r p"
    by (cases err) (auto simp: Let_def)
  with that Inl out show thesis
    by (simp add: execute_single_worker_attempt_def outcome_answered_def)
qed

definition attempt_end :: "worker_record \<Rightarrow> worker_transition \<Rightarrow> bool" where
  "attempt_end w tr \<longleftrightarrow>
     (\<exists>p. payload_name p \<in> {T_TIMED_OUT, T_FAILED, T_RETRY_SCHEDULED} \<and> tr = make_transition (worker_id_str w) p) \<or>
     (\<exists>r ids st. result_answered r \<and> tr = result_applied_transition (worker_id_str w) r ids st)"

lemma attempt_end_payload [simp]:
  "attempt_end w (timed_out_transition (worker_id_str w) r s t a m st)"
  "attempt_end w (failed_transition (worker_id_str w) c r re a st ids)"
  "attempt_end w (retry_scheduled_transition (worker_id_str w) c r n st ids)"
  unfolding attempt_end_def factories by (rule disjI1, rule exI, rule conjI [OF _ refl], simp)+

lemma timeout_returns:
  assumes "retry_configured w"
  shows "\<exists>att. apply_timeout_attempt_failure w r now = Inr att \<and> attempt_end w (at_worker_transition att)"
proof -
  obtain s where "wr_slots w F_timeout_policy = JStr s"
    using assms wf_worker_policy [of w] by (auto simp: retry_configured_def)
  moreover obtain b where "retry_available w (JStr ''timeout'') = Inr b"
    using assms by (rule retry_available_category)
  ultimately show ?thesis by (simp add: apply_timeout_attempt_failure_def mark_worker_timeout_def)
qed

lemma failed_returns:
  assumes "retry_configured w"
  obtains tr where "mark_worker_failed w c r b ids = Inr tr" and "attempt_end w tr"
proof -
  obtain a where "retry_available w (JStr c) = Inr a" using assms by (rule retry_available_category)
  with that show thesis by (simp add: mark_worker_failed_def)
qed

lemma retryable_returns:
  assumes "retry_configured w"
  shows "\<exists>att. apply_retryable_attempt_failure w c r pre ids = Inr att \<and> attempt_end w (at_worker_transition att)"
proof -
  obtain n where n: "wr_slots w F_retry_count = JInt n"
    using assms wf_worker_int [of w F_retry_count] by (auto simp: retry_configured_def)
  obtain a where "retry_available w (JStr c) = Inr a" using assms by (rule retry_available_category)
  moreover obtain tr where "mark_worker_failed w c r True ids = Inr tr" and "attempt_end w tr"
    using assms by (rule failed_returns)
  ultimately show ?thesis
    by (cases a) (simp_all add: n apply_retryable_attempt_failure_def schedule_worker_retry_def)
qed

lemma policy_returns:
  assumes w: "retry_configured w" and out: "outcome_answered out"
  shows "\<exists>att. apply_worker_attempt_transition w out now = Inr att \<and> attempt_end w (at_worker_transition att)"
proof (cases out)
  case (AttemptCompleted r)
  with out obtain d where "map_of r ''message_ids'' = Some (JObj d)" and "result_answered r"
    by (auto simp: outcome_answered_def result_answered_def)
  with AttemptCompleted show ?thesis
    by (auto simp: apply_completed_attempt_def result_message_id_def dict_index_def apply_worker_result_def
        attempt_end_def)
next
  case (AttemptFailed c r pid)
  obtain tr where "mark_worker_failed w ''unknown'' (if r = [] then ''worker attempt failed'' else r) True [] = Inr tr"
    and "attempt_end w tr" using w by (rule failed_returns)
  with AttemptFailed show ?thesis
    using timeout_returns [OF w] retryable_returns [OF w] by (simp add: Let_def)
qed

lemma require_finalized [simp]:
  "require_transition_payload (with_finalized_attempt (make_transition i p) k d) = Inr p"
  by (simp add: require_transition_payload_def with_finalized_attempt_def make_transition_def)

lemma result_applies:
  assumes wf: "wf_worker w" and l: "worker_lifecycle w = Some Active_Wait" and r: "result_answered r"
    and tr: "tr = with_finalized_attempt (make_transition (worker_id_str w) (P_ResultApplied r ids st)) i d"
  shows "\<exists>w'. apply_transition w tr = Inr w'"
proof -
  have wid: "wt_worker_id tr \<noteq> []" using tr wf by (simp add: worker_id_str_nonempty)
  have legal: "worker_transition_is_legal w tr = Inr True" using tr by (intro source_legal [OF l]) simp_all
  have p: "require_transition_payload tr = Inr (P_ResultApplied r ids st)" using tr by simp
  obtain s where s: "map_of r ''status'' = Some s" using r by (auto simp: result_answered_def)
  then obtain t where t: "worker_transition_target_lifecycle_state tr = Inr (Some t)"
    using payload_resolver [OF p] by (simp add: dict_index_def)
  have "result_complete r" using r by (auto simp: result_answered_def result_complete_def)
  then obtain w0 where "reduce_result_applied_transition w tr (Some t) r ids st = Inr w0"
    using reduce_result_total [OF wf wid] by blast
  moreover have "\<not> accepted_abort w" using accepted_abort_iff [OF l] l by (simp add: machine_state_def absorbed_def)
  ultimately have "reduce_worker_transition_payload w tr = Inr w0"
    by (simp add: reduce_worker_transition_payload_def p t accepted_abort_terminal_invariant_def)
  with legal show ?thesis by (simp add: apply_transition_eq [OF wf wid])
qed

lemma attempt_end_applies:
  assumes wf: "wf_worker w" and l: "worker_lifecycle w = Some Active_Wait" and e: "attempt_end w tr"
  shows "\<exists>w'. apply_transition w (with_finalized_attempt tr i d) = Inr w'"
  using e unfolding attempt_end_def
proof (elim disjE exE conjE)
  fix p assume p: "payload_name p \<in> {T_TIMED_OUT, T_FAILED, T_RETRY_SCHEDULED}"
    and tr: "tr = make_transition (worker_id_str w) p"
  show ?thesis
    using p wf by (intro legal_apply [where p = p] source_legal [OF l]) (auto simp: tr worker_id_str_nonempty)
next
  fix r ids st assume "result_answered r" and tr: "tr = result_applied_transition (worker_id_str w) r ids st"
  then show ?thesis using result_applies [OF wf l] by (simp add: factories)
qed

section \<open>The executor\<close>

definition schedulable_worker :: "worker_record \<Rightarrow> bool" where
  "schedulable_worker w \<longleftrightarrow> retry_configured w \<and> fst (machine_state w) \<in> schedulable"

lemma schedulable_sources:
  "schedulable \<subseteq> set (ts_source_states (worker_transition_spec T_PROVISIONED))"
  "schedulable \<subseteq> set (ts_source_states (worker_transition_spec T_ACTIVE))"
  by (auto simp: schedulable_def)

lemma attempt_started_returns:
  assumes w: "schedulable_worker w"
  obtains w2 where "apply_transition w (provisioned_transition w) = Inr w2" and "schedulable_worker w2"
proof -
  have wf: "wf_worker w" and rc: "retry_configured w" using w by (auto simp: schedulable_worker_def retry_configured_def)
  obtain w2 where "apply_transition w (provisioned_transition w) = Inr w2" "retry_configured w2"
    and step: "lifecycle_step (machine_state w) T_PROVISIONED (machine_state w2)"
    using scheduled_step [OF rc machine_lifecycle [OF wf] _ _ provisioned_transition_def] w schedulable_sources
    by (auto simp: schedulable_worker_def)
  with that provisioned_target [OF step] w show thesis by (simp add: schedulable_worker_def)
qed

lemma activation_returns:
  assumes w: "schedulable_worker w"
  obtains w2 where "apply_transition w (mark_worker_active w t) = Inr w2" and "retry_configured w2"
    and "worker_lifecycle w2 = Some Active_Wait"
proof -
  have wf: "wf_worker w" and rc: "retry_configured w" using w by (auto simp: schedulable_worker_def retry_configured_def)
  obtain p where tr: "mark_worker_active w t = make_transition (worker_id_str w) p" and p: "payload_name p = T_ACTIVE"
    by (simp add: factories)
  obtain w2 where "apply_transition w (mark_worker_active w t) = Inr w2" and rc2: "retry_configured w2"
    and step: "lifecycle_step (machine_state w) T_ACTIVE (machine_state w2)"
    using scheduled_step [OF rc machine_lifecycle [OF wf] _ _ tr] w schedulable_sources p
    by (auto simp: schedulable_worker_def)
  moreover have "fst (machine_state w2) = Active_Wait"
    using active_target [OF step] w by (simp add: schedulable_worker_def)
  ultimately show thesis using that machine_lifecycle [of w2] by (simp add: retry_configured_def)
qed

lemma attempt_record_returns:
  assumes rc: "retry_configured w" and l: "worker_lifecycle w = Some Active_Wait"
  obtains w2 where "apply_transition w (attempt_started_transition (worker_id_str w) a) = Inr w2"
    and "retry_configured w2" and "worker_lifecycle w2 = Some Active_Wait"
proof -
  obtain w2 where "apply_transition w (attempt_started_transition (worker_id_str w) a) = Inr w2"
    and rc2: "retry_configured w2"
    and step: "lifecycle_step (machine_state w) T_ATTEMPT_STARTED (machine_state w2)"
    using scheduled_step [OF rc l _ _ attempt_started_transition_def] by auto
  moreover have "fst (machine_state w2) = Active_Wait"
    using attempt_target [OF step] l by (simp add: machine_state_def)
  ultimately show thesis using that machine_lifecycle [of w2] by (simp add: retry_configured_def)
qed

lemma execute_worker_returns:
  assumes prov: "provision run w = Inr (run1, w1, c)" "schedulable_worker w1"
    and fin: "\<And>run2 w2. schedulable_worker w2 \<Longrightarrow> schedulable_worker (snd (finalize run2 w2))"
    and ans: "\<And>w. prompt_answered w (prompt w)"
  shows "\<exists>out. execute_worker apply_in_memory provision finalize prompt prompt_id clock run w = Inr out"
proof -
  obtain w2 where 2: "apply_transition w1 (provisioned_transition w1) = Inr w2" and s2: "schedulable_worker w2"
    using prov(2) by (rule attempt_started_returns)
  obtain run3 w3 where 3: "finalize run1 w2 = (run3, w3)" by (cases "finalize run1 w2")
  with fin [OF s2, of run1] have s3: "schedulable_worker w3" by simp
  obtain w4 where 4: "apply_transition w3 (mark_worker_active w3 (Some (clock_active clock))) = Inr w4"
    and s4: "retry_configured w4" "worker_lifecycle w4 = Some Active_Wait"
    using s3 by (rule activation_returns)
  let ?rec = "started_attempt w4 (clock_started clock) (if c = JNull then [] else [c]) prompt_id"
  obtain w5 where 5: "apply_transition w4 (attempt_started_transition (worker_id_str w4) ?rec) = Inr w5"
    and s5: "retry_configured w5" "worker_lifecycle w5 = Some Active_Wait"
    using s4 by (rule attempt_record_returns)
  obtain attempt where 6: "execute_single_worker_attempt w5 (prompt w5) prompt_id = Inr attempt"
    and a: "outcome_answered attempt" using ans by (rule single_attempt_returns)
  obtain tr where 7: "apply_worker_attempt_transition w5 attempt (clock_timed_out clock) = Inr tr"
    and e: "attempt_end w5 (at_worker_transition tr)" using policy_returns [OF s5(1) a] by blast
  obtain w6 where 8: "apply_transition w5 (with_finalized_attempt (at_worker_transition tr) (dict_get ?rec ''id'')
      (attempt_finalization_fields tr attempt (clock_finished clock))) = Inr w6"
    using attempt_end_applies [OF _ s5(2) e] s5(1) by (auto simp: retry_configured_def)
  show ?thesis
    by (simp add: execute_worker_def apply_in_memory_def prov 2 3 4 5 6 7 8 Let_def)
qed

section \<open>A timeout with a budget left\<close>

lemma timed_out_applied:
  assumes wf: "wf_worker w" and l: "worker_lifecycle w = Some Active_Wait" and pr: "has_prompt w"
    and wid: "wt_worker_id tr \<noteq> []" and pay: "require_transition_payload tr = Inr p"
    and p: "p = P_TimedOut reason ''timeout'' now True manual started"
  shows "\<exists>w'. apply_transition w tr = Inr w' \<and> worker_lifecycle w' = Some Timeout_Retry \<and> can_execute w' \<and>
    wr_slots w' F_retry_count = wr_slots w F_retry_count"
proof -
  have ns: "payload_name p \<notin> {T_RESULT_APPLIED, T_SNAPSHOT_APPLIED}" by (simp add: p)
  have name: "wt_name tr = T_TIMED_OUT" using payload_name_of [OF pay] by (simp add: p)
  have "worker_transition_is_legal w tr = Inr True" by (rule source_legal [OF l]) (simp_all add: name)
  then obtain w' where w': "apply_transition w tr = Inr w'" using legal_apply [OF wf wid pay ns] by blast
  have target: "worker_transition_target_lifecycle_state tr = Inr (Some Timeout_Retry)"
    using payload_resolver [OF pay] worker_timeout_lifecycle_state_eq [of "Some ''timeout''" True] parse_status_name [of St_Timeout]
    by (simp add: p)
  have na: "\<not> accepted_abort w" using accepted_abort_iff [OF l] l by (simp add: machine_state_def absorbed_def)
  obtain w1 where red: "reduce_worker_transition_payload w tr = Inr w1"
    and fin: "effect w1 {F_attempts} (worker_lifecycle w1) w'"
    using public_apply_reduce [OF wf wid _ w'] by (auto simp: name)
  then have "spec_reducer w tr (Some Timeout_Retry) p = Inr w1"
    using na by (auto simp: reduce_worker_transition_payload_def pay target res_bind_Inr_iff
        accepted_abort_terminal_invariant_def)
  from spec_reducer_effect [OF wf wid pay _ target this]
  have "worker_lifecycle w1 = Some Timeout_Retry" "wr_slots w1 F_retry_count = wr_slots w F_retry_count"
    "wr_slots w1 F_prompt = wr_slots w F_prompt"
    by (simp_all add: p payload_lifecycle_def payload_retry_count_def configuration_fields_def)
  with fin have "worker_lifecycle w' = Some Timeout_Retry" "wr_slots w' F_retry_count = wr_slots w F_retry_count"
    "wr_slots w' F_prompt = wr_slots w F_prompt" by (simp_all add: effect_def)
  moreover from this have "can_execute w'"
    using pr lifecycle_metadata_Some [of Timeout_Retry]
    by (auto simp: can_execute_def has_prompt_def worker_prompt_def lifecycle_metadata_def lifecycle_tables)
  ultimately show ?thesis using w' by blast
qed

lemma timed_out_again:
  assumes wf: "wf_worker w" and l: "worker_lifecycle w = Some Active_Wait" and pr: "has_prompt w"
    and pol: "wr_slots w F_timeout_policy = JStr ''timeout''"
    and av: "retry_available w (JStr ''timeout'') = Inr True"
  shows "\<exists>tr w'. mark_worker_timeout w reason now manual = Inr tr \<and> apply_transition w tr = Inr w' \<and>
    worker_lifecycle w' = Some Timeout_Retry \<and> can_execute w' \<and>
    wr_slots w' F_retry_count = wr_slots w F_retry_count"
proof -
  define p where "p = P_TimedOut reason ''timeout'' now True manual (Some (wr_slots w F_timeout_started_at))"
  define tr where "tr = make_transition (worker_id_str w) p"
  have "mark_worker_timeout w reason now manual = Inr tr"
    using pol av by (simp add: mark_worker_timeout_def tr_def p_def timed_out_transition_def)
  with timed_out_applied [OF wf l pr, of tr] show ?thesis using wf by (simp add: tr_def p_def worker_id_str_nonempty)
qed

end
