(* ===== verification/Worker_Storage.thy ===== *)
theory Worker_Storage
  imports Transition_Totality
begin

text \<open>
  \<open>worker_storage_adapter.py\<close>: persisted worker snapshots are migrated (identity, lifecycle state
  from the legacy public fields, coerced numbers, lists, timeouts) and hydrated into worker
  records, and worker records are written back with the unknown fields of the stored snapshot.
  \<open>float(text)\<close> is the parameter \<open>parse_float\<close> (\<open>None\<close> is its \<open>ValueError\<close>).
\<close>

section \<open>Python's \<open>int\<close>\<close>

definition int_space :: "char \<Rightarrow> bool" where
  "int_space c = (let n = char_code c in 9 \<le> n \<and> n \<le> 13 \<or> n = 32 \<or> n = 133 \<or> n = 160)"

definition is_digit :: "char \<Rightarrow> bool" where
  "is_digit c = (let n = char_code c in 48 \<le> n \<and> n \<le> 57)"

definition digit_value :: "char \<Rightarrow> int" where
  "digit_value c = int (char_code c) - 48"

text \<open>Digits, with single underscores between them.\<close>

fun digit_groups :: "string \<Rightarrow> bool" where
  "digit_groups [] = False"
| "digit_groups [c] = is_digit c"
| "digit_groups (c # d # cs) = (is_digit c \<and> (if d = CHR ''_'' then digit_groups cs else digit_groups (d # cs)))"

definition digits_value :: "string \<Rightarrow> int" where
  "digits_value s = fold (\<lambda>c n. 10 * n + digit_value c) (filter is_digit s) 0"

definition int_strip :: "string \<Rightarrow> string" where
  "int_strip s = rev (dropWhile int_space (rev (dropWhile int_space s)))"

text \<open>At most 4300 digits are converted.\<close>

definition int_of_text :: "string \<Rightarrow> int option" where
  "int_of_text text =
     (let s = int_strip text;
          (sign, body) = (case s of
             c # cs \<Rightarrow> if c = CHR ''-'' then (- 1, cs) else if c = CHR ''+'' then (1, cs) else (1, s)
           | [] \<Rightarrow> (1, []))
      in if digit_groups body \<and> length (filter is_digit body) \<le> 4300
         then Some (sign * digits_value body) else None)"

definition truncated :: "rat \<Rightarrow> int" where
  "truncated r = (if r < 0 then \<lceil>r\<rceil> else \<lfloor>r\<rfloor>)"

fun py_int :: "json \<Rightarrow> int result" where
  "py_int (JBool b) = Inr (if b then 1 else 0)"
| "py_int (JInt i) = Inr i"
| "py_int (JFloat (FinFloat r _)) = Inr (truncated r)"
| "py_int (JFloat (NonFinite t)) =
     (if t = ''nan'' then Inl (ValueError ''cannot convert float NaN to integer'')
      else Inl (OverflowError ''cannot convert float infinity to integer''))"
| "py_int (JStr s) = (case int_of_text s of None \<Rightarrow> Inl (ValueError ''invalid literal for int()'') | Some i \<Rightarrow> Inr i)"
| "py_int _ = Inl (TypeError ''int() argument must be a string or a number'')"

text \<open>\<open>int(value or fallback)\<close>, with the fallback for a \<open>TypeError\<close> or \<open>ValueError\<close>\<close>

definition int_or :: "int \<Rightarrow> json \<Rightarrow> int result" where
  "int_or fallback v = py_int (if py_truthy v then v else JInt fallback)"

definition caught_int :: "int \<Rightarrow> json \<Rightarrow> int result" where
  "caught_int fallback v =
     (case int_or fallback v of
        Inl (TypeError _) \<Rightarrow> Inr fallback
      | Inl (ValueError _) \<Rightarrow> Inr fallback
      | r \<Rightarrow> r)"

definition coerced_schema_version :: "json \<Rightarrow> int result" where
  "coerced_schema_version v = caught_int 1 v"

definition coerced_storage_int :: "json \<Rightarrow> int result" where
  "coerced_storage_int v = caught_int 0 v"

section \<open>The lifecycle state of a legacy record\<close>

definition legacy_worker_list_field :: "jdict \<Rightarrow> string \<Rightarrow> json list" where
  "legacy_worker_list_field flds k = (case dict_get flds k of JList xs \<Rightarrow> xs | _ \<Rightarrow> [])"

text \<open>A conversion that fails with \<open>OverflowError\<close> is not caught.\<close>

definition legacy_worker_retry_available :: "jdict \<Rightarrow> json \<Rightarrow> bool result" where
  "legacy_worker_retry_available flds category =
     (if dict_get flds ''failure_retryable'' = JBool False then Inr False
      else
        let retryable = legacy_worker_list_field flds ''retryable_failures'' in
        if retryable = [] then Inr False
        else
          let cat = (if category \<noteq> JNull then category
                     else if py_truthy (dict_get flds ''failure_category'') then dict_get flds ''failure_category''
                     else dict_get flds ''last_failure_category'') in
          if py_truthy cat \<and> \<not> py_in cat retryable \<and> \<not> py_in (JStr ''all'') retryable then Inr False
          else case res_bind (int_or 0 (dict_get flds ''retry_count'')) (\<lambda>n.
                 res_bind (int_or 0 (dict_get flds ''retry_limit'')) (\<lambda>m. Inr (n < m))) of
                 Inl (TypeError _) \<Rightarrow> Inr False
               | Inl (ValueError _) \<Rightarrow> Inr False
               | r \<Rightarrow> r)"

text \<open>\<open>word in set(value or [])\<close>: a string is the set of its characters, a dict the set of its keys.\<close>

fun in_set_of :: "string \<Rightarrow> json \<Rightarrow> bool result" where
  "in_set_of s (JList xs) = (if list_all hashable xs then Inr (JStr s \<in> set xs) else Inl (TypeError ''unhashable type''))"
| "in_set_of s (JStr t) = Inr (length s = 1 \<and> hd s \<in> set t)"
| "in_set_of s (JObj d) = Inr (dict_has d s)"
| "in_set_of s v = (if py_truthy v then Inl (TypeError ''object is not iterable'') else Inr False)"

definition legacy_worker_timeout_origin :: "jdict \<Rightarrow> string option \<Rightarrow> bool result" where
  "legacy_worker_timeout_origin worker status =
     (if status = Some ''timeout'' then Inr True
      else if status \<in> {Some ''aborted'', Some ''failed''}
      then Inr (dict_get worker ''failure_category'' = JStr ''timeout'')
      else if \<not> is_blocked_status status then Inr False
      else if dict_get worker ''failure_category'' = JStr ''timeout'' then Inr True
      else in_set_of ''timeout'' (dict_get worker ''blockers''))"

text \<open>An action that is neither falsy nor a string is no member of the enumeration.\<close>

definition legacy_public_state :: "string option \<Rightarrow> json \<Rightarrow> lifecycle option" where
  "legacy_public_state status action =
     (case action of
        JStr a \<Rightarrow> worker_lifecycle_state_for_public_state status (Some a) False
      | v \<Rightarrow> if py_truthy v then None else worker_lifecycle_state_for_public_state status None False)"

definition lifecycle_state_from_legacy_public_worker_state :: "jdict \<Rightarrow> lifecycle result" where
  "lifecycle_state_from_legacy_public_worker_state worker =
     (let status = short_status (dict_get worker ''status'') in
      res_bind (legacy_worker_timeout_origin worker status) (\<lambda>origin.
        if origin
        then res_bind (legacy_worker_retry_available worker (JStr ''timeout'')) (\<lambda>available.
             Inr (worker_timeout_lifecycle_state status available))
        else if status = Some ''failed''
        then res_bind (legacy_worker_retry_available worker JNull) (\<lambda>available.
             Inr (worker_failed_lifecycle_state True available))
        else Inr (case legacy_public_state status (dict_get worker ''next_eligible_action'') of
               Some l \<Rightarrow> l
             | None \<Rightarrow> (case worker_lifecycle_state_for_status_alias status of
                   Some l \<Rightarrow> l | None \<Rightarrow> Queued))))"

section \<open>Migration\<close>

text \<open>\<open>worker_id\<close> is a string; the empty string stands for \<open>None\<close> too, both are falsy.\<close>

definition repair_persisted_worker_identity :: "jdict \<Rightarrow> string \<Rightarrow> jdict" where
  "repair_persisted_worker_identity flds wid =
     (if wid \<noteq> [] then dict_set ''id'' (JStr wid) flds
      else if dict_has flds ''id'' \<and> \<not> py_truthy (dict_get flds ''id'') then dict_pop ''id'' flds
      else if dict_has flds ''id'' \<and> \<not> is_str (dict_get flds ''id'')
      then dict_set ''id'' (JStr (py_str (dict_get flds ''id''))) flds
      else flds)"

definition repair_persisted_worker_lifecycle :: "jdict \<Rightarrow> jdict result" where
  "repair_persisted_worker_lifecycle flds =
     (let state = dict_get flds ''lifecycle_state'' in
      if \<not> hashable state then Inl (TypeError ''unhashable type'')
      else if (case state of JStr s \<Rightarrow> lifecycle_of_name s \<noteq> None | _ \<Rightarrow> False) then Inr flds
      else res_bind (lifecycle_state_from_legacy_public_worker_state flds) (\<lambda>l.
           Inr (dict_set ''lifecycle_state'' (JStr (lifecycle_name l)) flds)))"

definition remove_legacy_public_worker_state :: "jdict \<Rightarrow> jdict" where
  "remove_legacy_public_worker_state flds = fold dict_pop PUBLIC_WORKER_STATE_FIELD_NAMES flds"

text \<open>\<open>if name in fields: fields[name] = coerce(fields[name])\<close> for each name\<close>

definition coerce_field :: "(json \<Rightarrow> json result) \<Rightarrow> jdict \<Rightarrow> wfield \<Rightarrow> jdict result" where
  "coerce_field coerce flds f =
     (if dict_has flds (field_name f)
      then res_bind (coerce (dict_get flds (field_name f))) (\<lambda>v. Inr (dict_set (field_name f) v flds))
      else Inr flds)"

definition coerce_persisted_worker_retry_budget :: "jdict \<Rightarrow> jdict result" where
  "coerce_persisted_worker_retry_budget flds =
     res_fold (coerce_field (\<lambda>v. res_bind (coerced_storage_int v) (\<lambda>i. Inr (JInt i)))) flds
       WORKER_STORAGE_INT_FIELD_NAMES"

definition coerce_persisted_worker_lists :: "jdict \<Rightarrow> jdict result" where
  "coerce_persisted_worker_lists flds =
     res_fold (coerce_field (\<lambda>v. Inr (if is_list v then v else JList []))) flds WORKER_STORAGE_LIST_FIELD_NAMES"

definition caught_none :: "json result \<Rightarrow> json result" where
  "caught_none r = (case r of Inl (TypeError _) \<Rightarrow> Inr JNull | Inl (ValueError _) \<Rightarrow> Inr JNull | _ \<Rightarrow> r)"

text \<open>
  \<open>_coerce_storage_timeout_seconds\<close>; \<open>float\<close> of a list or a dict raises \<open>TypeError\<close>, which is caught.
\<close>

definition coerce_storage_timeout_seconds ::
  "(string \<Rightarrow> pyfloat option) \<Rightarrow> worker_field_spec \<Rightarrow> json \<Rightarrow> json result" where
  "coerce_storage_timeout_seconds parse_float s v =
     (case v of
        JNull \<Rightarrow> Inr JNull
      | JBool _ \<Rightarrow> Inr JNull
      | JInt i \<Rightarrow> caught_none (canonical_timeout_seconds s v)
      | JFloat x \<Rightarrow> caught_none (canonical_timeout_seconds s v)
      | JStr t \<Rightarrow> (case parse_float t of
            None \<Rightarrow> Inr JNull
          | Some x \<Rightarrow> caught_none (canonical_timeout_seconds s (JFloat x)))
      | JList _ \<Rightarrow> Inr JNull
      | JObj _ \<Rightarrow> Inr JNull)"

definition storage_value :: "(string \<Rightarrow> pyfloat option) \<Rightarrow> wfield \<Rightarrow> json \<Rightarrow> json result" where
  "storage_value parse_float f v =
     (case fs_validator (field_spec f) of
        V_timeout_seconds \<Rightarrow> coerce_storage_timeout_seconds parse_float (field_spec f) v
      | _ \<Rightarrow> canonical_value f v)"

definition coerce_persisted_worker_timeout_seconds :: "(string \<Rightarrow> pyfloat option) \<Rightarrow> jdict \<Rightarrow> jdict result" where
  "coerce_persisted_worker_timeout_seconds parse_float flds =
     res_fold (\<lambda>d f. coerce_field (storage_value parse_float f) d f) flds WORKER_STORAGE_TIMEOUT_SECONDS_FIELD_NAMES"

definition storage_timeout_policy :: "json \<Rightarrow> json" where
  "storage_timeout_policy v =
     (case short_status v of
        None \<Rightarrow> JStr ''timeout''
      | Some s \<Rightarrow> JStr (if s \<in> set WORKER_FIELD_TIMEOUT_POLICY_STATUSES then s else ''timeout''))"

definition coerce_persisted_worker_timeout_policy :: "jdict \<Rightarrow> jdict result" where
  "coerce_persisted_worker_timeout_policy flds =
     res_fold (coerce_field (\<lambda>v. Inr (storage_timeout_policy v))) flds WORKER_STORAGE_TIMEOUT_POLICY_FIELD_NAMES"

definition migrate_v1_persisted_worker_snapshot ::
  "(string \<Rightarrow> pyfloat option) \<Rightarrow> jdict \<Rightarrow> string \<Rightarrow> jdict result" where
  "migrate_v1_persisted_worker_snapshot parse_float flds wid =
     res_bind (repair_persisted_worker_lifecycle (repair_persisted_worker_identity flds wid)) (\<lambda>d1.
     res_bind (coerce_persisted_worker_retry_budget (remove_legacy_public_worker_state d1)) (\<lambda>d2.
     res_bind (coerce_persisted_worker_lists d2) (\<lambda>d3.
     res_bind (coerce_persisted_worker_timeout_seconds parse_float d3) (\<lambda>d4.
     coerce_persisted_worker_timeout_policy d4))))"

text \<open>A persisted worker that is no mapping raises; both branches of the version test are the same.\<close>

definition migrated_persisted_worker_snapshot ::
  "(string \<Rightarrow> pyfloat option) \<Rightarrow> json \<Rightarrow> string \<Rightarrow> json \<Rightarrow> jdict result" where
  "migrated_persisted_worker_snapshot parse_float worker wid version =
     (case worker of
        JObj flds \<Rightarrow> res_bind (coerced_schema_version version) (\<lambda>_.
          migrate_v1_persisted_worker_snapshot parse_float flds wid)
      | _ \<Rightarrow> Inl (TypeError ''persisted worker snapshot must be a mapping''))"

definition runtime_fields :: "jdict \<Rightarrow> jdict" where
  "runtime_fields flds = filter (\<lambda>kv. field_of_name (fst kv) \<noteq> None) flds"

definition unknown_fields :: "jdict \<Rightarrow> jdict" where
  "unknown_fields flds = filter (\<lambda>kv. field_of_name (fst kv) = None) flds"

definition to_storage_fields :: "jdict \<Rightarrow> jdict \<Rightarrow> jdict" where
  "to_storage_fields flds runtime = dict_update runtime (unknown_fields flds)"

definition migrate_persisted_worker_snapshot ::
  "(string \<Rightarrow> pyfloat option) \<Rightarrow> json \<Rightarrow> string \<Rightarrow> json \<Rightarrow> jdict result" where
  "migrate_persisted_worker_snapshot parse_float worker wid version =
     res_bind (migrated_persisted_worker_snapshot parse_float worker wid version) (\<lambda>flds.
     Inr (to_storage_fields flds (runtime_fields flds)))"

section \<open>Hydration and storage\<close>

definition canonical_runtime_snapshot :: "jdict \<Rightarrow> string \<Rightarrow> jdict result" where
  "canonical_runtime_snapshot flds wid =
     (let runtime = runtime_fields flds;
          resolved = (if py_truthy (dict_get runtime ''id'') then dict_get runtime ''id'' else JStr wid)
      in if \<not> py_truthy resolved then Inl (ValueError ''worker snapshot requires id'')
         else Inr (dict_update (worker_default_snapshot_fields (JStr (py_str resolved))) runtime))"

definition hydrate_worker_record ::
  "(string \<Rightarrow> pyfloat option) \<Rightarrow> json \<Rightarrow> string \<Rightarrow> json \<Rightarrow> worker_record result" where
  "hydrate_worker_record parse_float worker wid version =
     res_bind (migrated_persisted_worker_snapshot parse_float worker wid version) (\<lambda>flds.
     res_bind (canonical_runtime_snapshot flds wid) (\<lambda>snapshot.
     res_bind (worker_init (dict_get snapshot ''id'') snapshot) to_worker))"

definition worker_record_snapshot_fields :: "worker_record \<Rightarrow> string \<Rightarrow> jdict result" where
  "worker_record_snapshot_fields w wid =
     res_bind (to_snapshot w) (\<lambda>snapshot.
     Inr (if wid \<noteq> [] then dict_set ''id'' (JStr wid) snapshot else snapshot))"

text \<open>
  \<open>normalize_worker_snapshot_for_storage\<close> for a \<open>WorkerRecord\<close>, and for a raw snapshot; \<open>persisted\<close>
  is the stored snapshot of the worker (\<open>None\<close> when there is none).
\<close>

definition normalize_worker_record_for_storage ::
  "(string \<Rightarrow> pyfloat option) \<Rightarrow> worker_record \<Rightarrow> string \<Rightarrow> json \<Rightarrow> json option \<Rightarrow> jdict result" where
  "normalize_worker_record_for_storage parse_float w wid version persisted =
     res_bind (worker_record_snapshot_fields w wid) (\<lambda>runtime.
     case persisted of
       None \<Rightarrow> Inr runtime
     | Some p \<Rightarrow> res_bind (migrated_persisted_worker_snapshot parse_float p wid version) (\<lambda>stored.
         Inr (dict_update runtime (unknown_fields stored))))"

definition normalize_raw_worker_for_storage ::
  "(string \<Rightarrow> pyfloat option) \<Rightarrow> json \<Rightarrow> string \<Rightarrow> json \<Rightarrow> json option \<Rightarrow> jdict result" where
  "normalize_raw_worker_for_storage parse_float worker wid version persisted =
     res_bind (migrated_persisted_worker_snapshot parse_float worker wid version) (\<lambda>snapshot.
     res_bind (canonical_runtime_snapshot snapshot wid) (\<lambda>runtime.
     case persisted of
       None \<Rightarrow> Inr (to_storage_fields snapshot runtime)
     | Some p \<Rightarrow> res_bind (migrated_persisted_worker_snapshot parse_float p wid version) (\<lambda>stored.
         Inr (dict_update runtime (unknown_fields stored)))))"

end
