(* ===== verification/Storage_Facts.thy ===== *)
theory Storage_Facts
  imports Worker_Storage
begin

text \<open>
  Migration produces canonical values, so a worker that migrates hydrates into a well-formed worker
  with exactly the migrated fields; hydrating what was stored gives the worker back; unknown
  stored fields survive a write.
\<close>

section \<open>Dictionaries of worker fields\<close>

lemma dict_set_fields:
  "distinct xs \<Longrightarrow> dict_set (field_name y) v (map (\<lambda>f. (field_name f, g f)) xs) =
     map (\<lambda>f. (field_name f, if f = y then v else g f)) (xs @ (if y \<in> set xs then [] else [y]))"
  by (induction xs) (auto simp: dict_set_def)

lemma dict_update_fields:
  "distinct ys \<Longrightarrow> distinct xs \<Longrightarrow> dict_update (map (\<lambda>f. (field_name f, g f)) xs) (map (\<lambda>f. (field_name f, h f)) ys) =
     map (\<lambda>f. (field_name f, if f \<in> set ys then h f else g f)) (xs @ filter (\<lambda>f. f \<notin> set xs) ys)"
proof (induction ys arbitrary: xs g)
  case (Cons y ys)
  show ?case
    using Cons.prems by (auto simp: dict_set_fields Cons.IH simp del: map_append intro!: arg_cong [where f = "map _"] map_cong filter_cong)
qed simp

definition known_fields :: "jdict \<Rightarrow> wfield list" where
  "known_fields d = map (\<lambda>kv. the (field_of_name (fst kv))) (runtime_fields d)"

lemma runtime_fields_eq:
  assumes "wf_dict d"
  shows "runtime_fields d = map (\<lambda>f. (field_name f, dict_get d (field_name f))) (known_fields d)"
proof -
  have *: "(field_name (the (field_of_name k)), dict_get d (field_name (the (field_of_name k)))) = (k, v)"
    if "(k, v) \<in> set (runtime_fields d)" for k v
  proof -
    from that obtain f where "field_of_name k = Some f" and kv: "(k, v) \<in> set d"
      by (auto simp: runtime_fields_def)
    moreover from kv assms have "map_of d k = Some v" by (simp add: wf_dict_def)
    ultimately show ?thesis by (simp add: dict_get_def field_of_nameD)
  qed
  show ?thesis
    unfolding known_fields_def map_map by (rule map_idI [symmetric]) (metis * comp_apply prod.collapse)
qed

lemma known_fields_set: "wf_dict d \<Longrightarrow> f \<in> set (known_fields d) \<longleftrightarrow> dict_has d (field_name f)"
  by (force simp: known_fields_def runtime_fields_def dict_has_def dest: field_of_nameD)

lemma distinct_known_fields: "wf_dict d \<Longrightarrow> distinct (known_fields d)"
proof -
  assume "wf_dict d"
  then have "distinct (map fst (runtime_fields d))"
    by (simp add: runtime_fields_def wf_dict_def distinct_map_filter)
  moreover have "map fst (runtime_fields d) = map field_name (known_fields d)"
    by (auto simp: known_fields_def runtime_fields_def dest: field_of_nameD)
  ultimately show ?thesis by (metis distinct_map)
qed

section \<open>Coerced fields are canonical\<close>

lemma coerce_field_cases:
  assumes "coerce_field c d f = Inr d'"
  obtains "map_of d (field_name f) = None" and "d' = d"
  | v where "c (dict_get d (field_name f)) = Inr v" and "field_name f \<in> set (map fst d)"
    and "d' = dict_set (field_name f) v d"
proof (cases "map_of d (field_name f)")
  case None
  then have "\<not> dict_has d (field_name f)" by (simp add: dict_has_iff_map_of)
  with assms have "Inr d = (Inr d' :: jdict result)" unfolding coerce_field_def by (simp only: if_False)
  with None that(1) show thesis by blast
next
  case (Some u)
  then have h: "dict_has d (field_name f)" by (simp add: dict_has_iff_map_of)
  with assms have "res_bind (c (dict_get d (field_name f))) (\<lambda>v. Inr (dict_set (field_name f) v d)) = Inr d'"
    unfolding coerce_field_def by (simp only: if_True)
  then obtain v where "c (dict_get d (field_name f)) = Inr v" and "Inr (dict_set (field_name f) v d) = (Inr d' :: jdict result)"
    by (rule res_bind_InrE)
  with h that(2) show thesis unfolding dict_has_def by blast
qed

lemma coerce_field_facts:
  assumes "coerce_field c d f = Inr d'"
  shows "k \<noteq> field_name f \<Longrightarrow> map_of d' k = map_of d k"
    and "map_of d' (field_name f) = Some v' \<Longrightarrow> \<exists>v. c v = Inr v'"
    and "wf_dict d \<Longrightarrow> wf_dict d'"
    and "set (map fst d') = set (map fst d)"
  by (rule coerce_field_cases [OF assms]; auto simp del: set_map)+

lemma coerce_fields_facts:
  assumes "res_fold (\<lambda>d f. coerce_field (c f) d f) d fs = Inr d'"
  shows "(\<forall>k. k \<notin> field_name ` set fs \<longrightarrow> map_of d' k = map_of d k) \<and>
    (\<forall>f \<in> set fs. \<forall>v'. map_of d' (field_name f) = Some v' \<longrightarrow> (\<exists>v. c f v = Inr v')) \<and>
    (wf_dict d \<longrightarrow> wf_dict d') \<and> set (map fst d') = set (map fst d)"
  using assms
proof (induction fs arbitrary: d)
  case (Cons f fs)
  then obtain d1 where d1: "coerce_field (c f) d f = Inr d1" and d': "res_fold (\<lambda>d f. coerce_field (c f) d f) d1 fs = Inr d'"
    by (auto simp: res_bind_Inr_iff)
  note 1 = coerce_field_facts [OF d1] and IH = Cons.IH [OF d']
  have "\<exists>v. c f v = Inr v'" if "map_of d' (field_name f) = Some v'" for v'
  proof (cases "f \<in> set fs")
    case False
    then have "field_name f \<notin> field_name ` set fs" by auto
    with IH that have "map_of d1 (field_name f) = Some v'" by simp
    then show ?thesis by (rule 1(2))
  qed (use IH that in blast)
  with IH 1 show ?case by auto
qed simp

lemma storage_field_names:
  "WORKER_STORAGE_INT_FIELD_NAMES = [F_retry_count, F_retry_limit]"
  "WORKER_STORAGE_TIMEOUT_SECONDS_FIELD_NAMES = [F_timeout_seconds]"
  "WORKER_STORAGE_TIMEOUT_POLICY_FIELD_NAMES = [F_timeout_policy]"
  "set WORKER_STORAGE_LIST_FIELD_NAMES =
     {F_dependencies, F_prompt_ids, F_retryable_failures, F_blockers, F_output_refs, F_attempts}"
  by (auto simp: WORKER_STORAGE_INT_FIELD_NAMES_def WORKER_STORAGE_TIMEOUT_SECONDS_FIELD_NAMES_def
      WORKER_STORAGE_TIMEOUT_POLICY_FIELD_NAMES_def WORKER_STORAGE_LIST_FIELD_NAMES_def field_table)

lemma caught_timeout_canonical:
  "caught_none (canonical_timeout_seconds s v) = Inr v' \<Longrightarrow> canonical_timeout_seconds s v' = Inr v'"
proof (cases "canonical_timeout_seconds s v")
  case (Inr x)
  assume "caught_none (canonical_timeout_seconds s v) = Inr v'"
  with Inr canonical_timeout_idem [OF Inr] show ?thesis by (simp add: caught_none_def)
qed (auto simp: caught_none_def split: py_error.splits)

lemma timeout_value_canonical:
  assumes "storage_value parse_float F_timeout_seconds v = Inr v'"
  shows "canonical_value F_timeout_seconds v' = Inr v'"
proof -
  have "v' = JNull \<or> (\<exists>x. caught_none (canonical_timeout_seconds (field_spec F_timeout_seconds) x) = Inr v')"
    using assms by (auto simp: storage_value_def coerce_storage_timeout_seconds_def
        simp del: canonical_timeout_seconds.simps split: json.splits option.splits)
  then have "canonical_timeout_seconds (field_spec F_timeout_seconds) v' = Inr v'"
    using caught_timeout_canonical by auto
  then show ?thesis by (simp add: canonical_value_def spec_canonical_value_def)
qed

lemma timeout_policy_canonical: "canonical_value F_timeout_policy (storage_timeout_policy v) = Inr (storage_timeout_policy v)"
  by (auto simp: canonical_policy_iff storage_timeout_policy_def WORKER_FIELD_TIMEOUT_POLICY_STATUSES_def
      split: option.splits)

section \<open>Migration\<close>

definition coerced_fields :: "wfield set" where
  "coerced_fields = set (WORKER_STORAGE_INT_FIELD_NAMES @ WORKER_STORAGE_LIST_FIELD_NAMES @
     WORKER_STORAGE_TIMEOUT_SECONDS_FIELD_NAMES @ WORKER_STORAGE_TIMEOUT_POLICY_FIELD_NAMES)"

lemma coerced_fields_eq:
  "coerced_fields = {F_retry_count, F_retry_limit, F_dependencies, F_prompt_ids, F_retryable_failures,
     F_blockers, F_output_refs, F_attempts, F_timeout_seconds, F_timeout_policy}"
  by (auto simp: coerced_fields_def storage_field_names)

lemma field_name_not_public [simp]: "field_name f \<notin> set PUBLIC_WORKER_STATE_FIELD_NAMES"
  by (cases f) (simp_all add: PUBLIC_WORKER_STATE_FIELD_NAMES_def)

lemma remove_public_map_of:
  "map_of (remove_legacy_public_worker_state d) k =
     (if k \<in> set PUBLIC_WORKER_STATE_FIELD_NAMES then None else map_of d k)"
  by (auto simp: remove_legacy_public_worker_state_def PUBLIC_WORKER_STATE_FIELD_NAMES_def)

lemma wf_remove_public: "wf_dict d \<Longrightarrow> wf_dict (remove_legacy_public_worker_state d)"
  by (simp add: remove_legacy_public_worker_state_def PUBLIC_WORKER_STATE_FIELD_NAMES_def)

text \<open>A coercion makes its fields canonical and keeps the others as they are.\<close>

definition canonical_on :: "wfield set \<Rightarrow> jdict \<Rightarrow> bool" where
  "canonical_on S d \<longleftrightarrow> (\<forall>f \<in> S. \<forall>v. map_of d (field_name f) = Some v \<longrightarrow> canonical_value f v = Inr v)"

definition same_outside :: "wfield set \<Rightarrow> jdict \<Rightarrow> jdict \<Rightarrow> bool" where
  "same_outside S d d' \<longleftrightarrow> (\<forall>k. k \<notin> field_name ` S \<longrightarrow> map_of d' k = map_of d k) \<and> (wf_dict d \<longrightarrow> wf_dict d')"

lemma same_outside_trans: "same_outside S d d' \<Longrightarrow> same_outside T d' d'' \<Longrightarrow> same_outside (S \<union> T) d d''"
  by (simp add: same_outside_def image_Un)

lemma coerce_stage:
  assumes "res_fold (\<lambda>d f. coerce_field (c f) d f) d fs = Inr d'"
    and "\<And>f v v'. f \<in> set fs \<Longrightarrow> c f v = Inr v' \<Longrightarrow> canonical_value f v' = Inr v'"
  shows "same_outside (set fs) d d'" and "canonical_on S d \<Longrightarrow> canonical_on (S \<union> set fs) d'"
proof -
  note facts = coerce_fields_facts [OF assms(1)]
  then show "same_outside (set fs) d d'" by (simp add: same_outside_def)
  assume S: "canonical_on S d"
  have "canonical_value f v = Inr v" if f: "f \<in> S \<union> set fs" and v: "map_of d' (field_name f) = Some v" for f v
  proof (cases "f \<in> set fs")
    case True
    with facts v assms(2) show ?thesis by blast
  next
    case False
    then have "field_name f \<notin> field_name ` set fs" by auto
    with facts v have "map_of d (field_name f) = Some v" by simp
    with S f False show ?thesis by (simp add: canonical_on_def)
  qed
  then show "canonical_on (S \<union> set fs) d'" by (simp add: canonical_on_def)
qed

lemma coercions_facts:
  assumes 1: "coerce_persisted_worker_retry_budget d1 = Inr d2" and 2: "coerce_persisted_worker_lists d2 = Inr d3"
    and 3: "coerce_persisted_worker_timeout_seconds pf d3 = Inr d4"
    and 4: "coerce_persisted_worker_timeout_policy d4 = Inr d5"
  shows "same_outside coerced_fields d1 d5" and "canonical_on coerced_fields d5"
proof -
  note s1 = coerce_stage [OF 1 [unfolded coerce_persisted_worker_retry_budget_def]]
  note s2 = coerce_stage [OF 2 [unfolded coerce_persisted_worker_lists_def]]
  note s3 = coerce_stage [OF 3 [unfolded coerce_persisted_worker_timeout_seconds_def]]
  note s4 = coerce_stage [OF 4 [unfolded coerce_persisted_worker_timeout_policy_def]]
  have c1: "canonical_value f v' = Inr v'"
    if "f \<in> set WORKER_STORAGE_INT_FIELD_NAMES" "res_bind (coerced_storage_int v) (\<lambda>i. Inr (JInt i)) = Inr v'" for f v v'
    using that by (auto simp: storage_field_names res_bind_Inr_iff)
  have c2: "canonical_value f v' = Inr v'"
    if "f \<in> set WORKER_STORAGE_LIST_FIELD_NAMES" "Inr (if is_list v then v else JList []) = (Inr v' :: json result)" for f v v'
    using that by (cases v) (auto simp: storage_field_names)
  have c3: "canonical_value f v' = Inr v'"
    if "f \<in> set WORKER_STORAGE_TIMEOUT_SECONDS_FIELD_NAMES" "storage_value pf f v = Inr v'" for f v v'
    using that by (auto simp: storage_field_names intro: timeout_value_canonical)
  have c4: "canonical_value f v' = Inr v'"
    if "f \<in> set WORKER_STORAGE_TIMEOUT_POLICY_FIELD_NAMES" "Inr (storage_timeout_policy v) = (Inr v' :: json result)" for f v v'
    using that by (auto simp: storage_field_names timeout_policy_canonical)
  have sets: "set WORKER_STORAGE_INT_FIELD_NAMES \<union> set WORKER_STORAGE_LIST_FIELD_NAMES
      \<union> set WORKER_STORAGE_TIMEOUT_SECONDS_FIELD_NAMES \<union> set WORKER_STORAGE_TIMEOUT_POLICY_FIELD_NAMES = coerced_fields"
    by (simp add: coerced_fields_def Un_assoc)
  show "same_outside coerced_fields d1 d5"
    using same_outside_trans [OF same_outside_trans [OF same_outside_trans [OF s1(1) [OF c1] s2(1) [OF c2]] s3(1) [OF c3]] s4(1) [OF c4]]
    by (simp add: sets)
  have "canonical_on {} d1" by (simp add: canonical_on_def)
  from s4(2) [OF c4 s3(2) [OF c3 s2(2) [OF c2 s1(2) [OF c1 this]]]] show "canonical_on coerced_fields d5"
    by (simp add: sets)
qed

lemma lifecycle_repaired:
  assumes "repair_persisted_worker_lifecycle d = Inr d'"
  shows "\<exists>l. map_of d' ''lifecycle_state'' = Some (JStr (lifecycle_name l))" and "same_outside {F_lifecycle_state} d d'"
proof -
  have name: "field_name F_lifecycle_state = ''lifecycle_state''" by simp
  consider "d' = d" and "\<exists>s l. dict_get d ''lifecycle_state'' = JStr s \<and> lifecycle_of_name s = Some l"
    | l where "d' = dict_set ''lifecycle_state'' (JStr (lifecycle_name l)) d"
    using assms by (auto simp: repair_persisted_worker_lifecycle_def Let_def res_bind_Inr_iff
        split: if_splits json.splits option.splits)
  then have "(\<exists>l. map_of d' ''lifecycle_state'' = Some (JStr (lifecycle_name l))) \<and> same_outside {F_lifecycle_state} d d'"
  proof cases
    case 1
    then show ?thesis
      by (auto simp: dict_get_def same_outside_def dest!: lifecycle_of_nameD split: option.splits)
  qed (simp add: same_outside_def)
  then show "\<exists>l. map_of d' ''lifecycle_state'' = Some (JStr (lifecycle_name l))"
    and "same_outside {F_lifecycle_state} d d'" by blast+
qed

definition migrated :: "jdict \<Rightarrow> string \<Rightarrow> jdict \<Rightarrow> bool" where
  "migrated d wid d' \<longleftrightarrow>
     (\<forall>k. k \<notin> set PUBLIC_WORKER_STATE_FIELD_NAMES \<union> field_name ` (coerced_fields \<union> {F_id, F_lifecycle_state}) \<longrightarrow>
        map_of d' k = map_of d k) \<and>
     (\<forall>k \<in> set PUBLIC_WORKER_STATE_FIELD_NAMES. map_of d' k = None) \<and>
     (wf_dict d \<longrightarrow> wf_dict d') \<and> map_of d' ''id'' = Some (JStr wid) \<and>
     (\<exists>l. map_of d' ''lifecycle_state'' = Some (JStr (lifecycle_name l))) \<and> canonical_on UNIV d'"

lemma migrate_facts:
  assumes wid: "wid \<noteq> []" and m: "migrate_v1_persisted_worker_snapshot pf d wid = Inr d'"
  shows "migrated d wid d'"
proof -
  let ?d0 = "dict_set ''id'' (JStr wid) d"
  have d0: "repair_persisted_worker_identity d wid = ?d0"
    using wid by (simp add: repair_persisted_worker_identity_def)
  obtain d1 d2 d3 d4 where 1: "repair_persisted_worker_lifecycle ?d0 = Inr d1"
    and c: "coerce_persisted_worker_retry_budget (remove_legacy_public_worker_state d1) = Inr d2"
      "coerce_persisted_worker_lists d2 = Inr d3" "coerce_persisted_worker_timeout_seconds pf d3 = Inr d4"
      "coerce_persisted_worker_timeout_policy d4 = Inr d'"
    using m unfolding migrate_v1_persisted_worker_snapshot_def d0 by (auto elim!: res_bind_InrE)
  note life = lifecycle_repaired [OF 1] and co = coercions_facts [OF c]
  have id: "''id'' \<notin> field_name ` coerced_fields" "''id'' \<noteq> ''lifecycle_state''"
    "''lifecycle_state'' \<notin> field_name ` coerced_fields" by (auto simp: coerced_fields_eq)
  have names: "''id'' \<notin> set PUBLIC_WORKER_STATE_FIELD_NAMES" "''lifecycle_state'' \<notin> set PUBLIC_WORKER_STATE_FIELD_NAMES"
    by (simp_all add: PUBLIC_WORKER_STATE_FIELD_NAMES_def)
  have same: "map_of d' k = (if k \<in> set PUBLIC_WORKER_STATE_FIELD_NAMES then None else map_of d1 k)"
    if "k \<notin> field_name ` coerced_fields" for k
    using co(1) that by (simp add: same_outside_def remove_public_map_of)
  have d1: "map_of d1 k = map_of ?d0 k" if "k \<noteq> ''lifecycle_state''" for k
    using life(2) that by (simp add: same_outside_def)
  have pub: "\<forall>k \<in> set PUBLIC_WORKER_STATE_FIELD_NAMES. map_of d' k = None"
    using same by (metis field_name_not_public imageE)
  have rest: "\<forall>k. k \<notin> set PUBLIC_WORKER_STATE_FIELD_NAMES \<union> field_name ` (coerced_fields \<union> {F_id, F_lifecycle_state}) \<longrightarrow>
      map_of d' k = map_of d k"
    using same d1 by (auto simp: image_Un)
  have i: "map_of d' ''id'' = Some (JStr wid)" using same [OF id(1)] d1 [OF id(2)] names by simp
  have l: "\<exists>l. map_of d' ''lifecycle_state'' = Some (JStr (lifecycle_name l))"
    using same [OF id(3)] life(1) names by simp
  have "canonical_value f v = Inr v" if v: "map_of d' (field_name f) = Some v" for f v
  proof -
    consider "f \<in> coerced_fields" | "f = F_id" | "f = F_lifecycle_state" | "f \<notin> coerced_fields \<union> {F_id, F_lifecycle_state}" by blast
    then show ?thesis
    proof cases
      case 1
      with co(2) v show ?thesis by (simp add: canonical_on_def)
    next
      case 3
      with v l show ?thesis by (auto simp: canonical_lifecycle_iff)
    qed (use v i wid in \<open>auto simp: coerced_fields_eq\<close>)
  qed
  moreover have "wf_dict d \<longrightarrow> wf_dict d'"
    using co(1) life(2) wf_remove_public [of d1] by (simp add: same_outside_def)
  ultimately show ?thesis unfolding migrated_def canonical_on_def using rest pub i l by blast
qed

section \<open>Hydration\<close>

text \<open>The worker of a dictionary of canonical fields.\<close>

definition worker_of_fields :: "jdict \<Rightarrow> json \<Rightarrow> worker_record" where
  "worker_of_fields d wid =
     \<lparr>wr_slots = (\<lambda>f. case map_of d (field_name f) of Some v \<Rightarrow> v
        | None \<Rightarrow> if is_required f then default_value (field_spec f) wid else JNull),
      wr_present = {f. \<not> is_required f \<and> dict_has d (field_name f)}\<rparr>"

lemma default_fields_map:
  "worker_default_snapshot_fields wid =
     map (\<lambda>f. (field_name f, default_value (field_spec f) wid)) WORKER_REQUIRED_FIELD_NAMES"
  by (rule default_fields_eq)

lemma distinct_required: "distinct WORKER_REQUIRED_FIELD_NAMES"
  by (simp add: required_field_names_eq)

lemma worker_of_fields_wf:
  assumes can: "canonical_on UNIV d" and wid: "wid \<noteq> []"
  shows "wf_worker (worker_of_fields d (JStr wid))"
  using can canonical_default [OF _ refl wid]
  by (auto simp: wf_worker_def worker_of_fields_def canonical_on_def dict_has_iff_map_of split: option.splits)

lemma init_canonical_fields:
  assumes wf: "wf_dict d" and can: "canonical_on UNIV d" and wid: "wid \<noteq> []"
  shows "merge_fields (reset_fields (JStr wid)) (dict_update (worker_default_snapshot_fields (JStr wid)) (runtime_fields d)) =
    Inr (worker_of_fields d (JStr wid))"
proof -
  let ?g = "\<lambda>f. if f \<in> set (known_fields d) then dict_get d (field_name f) else default_value (field_spec f) (JStr wid)"
  let ?fs = "WORKER_REQUIRED_FIELD_NAMES @ filter (\<lambda>f. f \<notin> set WORKER_REQUIRED_FIELD_NAMES) (known_fields d)"
  have "dict_update (worker_default_snapshot_fields (JStr wid)) (runtime_fields d) = map (\<lambda>f. (field_name f, ?g f)) ?fs"
    unfolding default_fields_map runtime_fields_eq [OF wf]
    by (rule dict_update_fields [OF distinct_known_fields [OF wf] distinct_required])
  moreover have "merge_fields (reset_fields (JStr wid)) (map (\<lambda>f. (field_name f, ?g f)) ?fs) =
      Inr (fold (\<lambda>f w'. put_field w' f (?g f)) ?fs (reset_fields (JStr wid)))"
  proof (rule merge_fields_list)
    fix f assume f: "f \<in> set ?fs"
    show "canonical_value f (?g f) = Inr (?g f)"
    proof (cases "f \<in> set (known_fields d)")
      case True
      then obtain v where "map_of d (field_name f) = Some v"
        using known_fields_set [OF wf] by (auto simp: dict_has_iff_map_of)
      with can True show ?thesis by (simp add: canonical_on_def dict_get_def)
    next
      case False
      with f have "is_required f" by (simp add: is_required_iff)
      with False canonical_default [OF _ refl wid] show ?thesis by simp
    qed
  qed
  moreover have "fold (\<lambda>f w'. put_field w' f (?g f)) ?fs (reset_fields (JStr wid)) = worker_of_fields d (JStr wid)"
    unfolding fold_put_field
    by (rule worker_record.equality)
      (auto simp: worker_of_fields_def reset_fields_def fun_eq_iff known_fields_set [OF wf] is_required_iff
        dict_has_iff_map_of dict_get_def split: option.splits)
  ultimately show ?thesis by simp
qed

text \<open>Whatever migrates hydrates, to the worker of exactly the migrated fields.\<close>

lemma hydrate_eq:
  assumes wid: "wid \<noteq> []" and wf: "wf_dict d" and v: "coerced_schema_version version = Inr n"
  shows "hydrate_worker_record pf (JObj d) wid version =
    res_bind (migrate_v1_persisted_worker_snapshot pf d wid) (\<lambda>d'. Inr (worker_of_fields d' (JStr wid)))"
proof (cases "migrate_v1_persisted_worker_snapshot pf d wid")
  case (Inl e)
  then show ?thesis by (simp add: hydrate_worker_record_def migrated_persisted_worker_snapshot_def v)
next
  case (Inr d')
  note m = migrate_facts [OF wid Inr]
  have wf': "wf_dict d'" and id: "map_of d' ''id'' = Some (JStr wid)" and can: "canonical_on UNIV d'"
    using m wf by (simp_all add: migrated_def)
  have rid: "dict_get (runtime_fields d') ''id'' = JStr wid"
  proof -
    have "field_of_name ''id'' = Some F_id" using field_of_name_name [of F_id] by simp
    with id wf' show ?thesis
      by (auto simp: dict_get_def runtime_fields_def map_of_eq_Some_iff wf_dict_def distinct_map_filter
          split: option.splits dest!: map_of_SomeD simp: map_of_eq_None_iff image_iff)
  qed
  let ?snap = "dict_update (worker_default_snapshot_fields (JStr wid)) (runtime_fields d')"
  have snap: "canonical_runtime_snapshot d' wid = Inr ?snap"
    using wid rid by (simp add: canonical_runtime_snapshot_def)
  have "wf_dict (runtime_fields d')" using wf' by (simp add: runtime_fields_def wf_dict_def distinct_map_filter)
  then have sid: "dict_get ?snap ''id'' = JStr wid"
    using rid by (auto simp: dict_get_def map_of_dict_update split: option.splits)
  let ?w = "worker_of_fields d' (JStr wid)"
  have "worker_id ?w = JStr wid" using id by (simp add: worker_id_def worker_of_fields_def)
  then have "worker_init (JStr wid) ?snap = Inr ?w"
    using init_canonical_fields [OF wf' can wid] wid by (simp add: worker_init_def)
  then show ?thesis
    using worker_of_fields_wf [OF can wid]
    by (simp add: hydrate_worker_record_def migrated_persisted_worker_snapshot_def v Inr snap sid)
qed

lemma hydrate_wf:
  assumes wid: "wid \<noteq> []" and wf: "wf_dict d" and h: "hydrate_worker_record pf (JObj d) wid version = Inr w"
  shows "wf_worker w" and "worker_id w = JStr wid"
proof -
  obtain n where n: "coerced_schema_version version = Inr n"
    using h by (auto simp: hydrate_worker_record_def migrated_persisted_worker_snapshot_def elim!: res_bind_InrE)
  with h obtain d' where m: "migrate_v1_persisted_worker_snapshot pf d wid = Inr d'"
    and w: "w = worker_of_fields d' (JStr wid)"
    by (auto simp: hydrate_eq [OF wid wf n] elim!: res_bind_InrE)
  have "canonical_on UNIV d'" "map_of d' ''id'' = Some (JStr wid)"
    using migrate_facts [OF wid m] by (simp_all add: migrated_def)
  then show "wf_worker w" and "worker_id w = JStr wid"
    using w worker_of_fields_wf [OF _ wid] by (simp, simp add: worker_id_def worker_of_fields_def)
qed

section \<open>What is stored reads back\<close>

lemma coerce_fields_id:
  "(\<And>f v. f \<in> set fs \<Longrightarrow> map_of d (field_name f) = Some v \<Longrightarrow> c f v = Inr v) \<Longrightarrow>
     res_fold (\<lambda>d f. coerce_field (c f) d f) d fs = Inr d"
proof (induction fs)
  case (Cons f fs)
  have "coerce_field (c f) d f = Inr d"
    using Cons.prems [of f] by (cases "map_of d (field_name f)")
      (simp_all add: coerce_field_def dict_has_iff_map_of dict_get_def dict_set_same)
  with Cons show ?case by simp
qed simp

lemma stored_timeout_policy:
  "s \<in> set WORKER_FIELD_TIMEOUT_POLICY_STATUSES \<Longrightarrow> storage_timeout_policy (JStr s) = JStr s"
  using short_status_status_name [of St_Timeout] short_status_status_name [of St_Blocked]
    short_status_status_name [of St_Failed] short_status_status_name [of St_Aborted]
  by (auto simp: storage_timeout_policy_def WORKER_FIELD_TIMEOUT_POLICY_STATUSES_def)

lemma stored_timeout_seconds:
  assumes "canonical_value F_timeout_seconds v = Inr v"
  shows "storage_value pf F_timeout_seconds v = Inr v"
proof -
  have c: "canonical_timeout_seconds (field_spec F_timeout_seconds) v = Inr v"
    using assms by (simp add: canonical_value_def spec_canonical_value_def)
  then show ?thesis
    by (cases v) (simp_all add: storage_value_def coerce_storage_timeout_seconds_def caught_none_def)
qed

lemma stored_int: "coerced_storage_int (JInt i) = Inr i"
  by (simp add: coerced_storage_int_def caught_int_def int_or_def)

text \<open>Canonical fields with a lifecycle state and the id migrate to themselves, less the public words.\<close>

lemma migrate_canonical:
  assumes can: "canonical_on UNIV d" and wid: "wid \<noteq> []" and id: "map_of d ''id'' = Some (JStr wid)"
    and l: "map_of d ''lifecycle_state'' = Some (JStr (lifecycle_name l))"
  shows "migrate_v1_persisted_worker_snapshot pf d wid = Inr (remove_legacy_public_worker_state d)"
proof -
  let ?d = "remove_legacy_public_worker_state d"
  have "repair_persisted_worker_identity d wid = d"
    using wid id by (simp add: repair_persisted_worker_identity_def dict_set_same)
  moreover have "repair_persisted_worker_lifecycle d = Inr d"
    using l by (simp add: repair_persisted_worker_lifecycle_def dict_get_def)
  moreover have can': "canonical_value f v = Inr v" if "map_of ?d (field_name f) = Some v" for f v
    using can that by (simp add: remove_public_map_of canonical_on_def)
  have "coerce_persisted_worker_retry_budget ?d = Inr ?d"
    unfolding coerce_persisted_worker_retry_budget_def
    by (rule coerce_fields_id) (drule can', auto simp: storage_field_names canonical_int_iff stored_int)
  moreover have "coerce_persisted_worker_lists ?d = Inr ?d"
    unfolding coerce_persisted_worker_lists_def
    by (rule coerce_fields_id) (drule can', auto simp: storage_field_names canonical_list_iff)
  moreover have "coerce_persisted_worker_timeout_seconds pf ?d = Inr ?d"
    unfolding coerce_persisted_worker_timeout_seconds_def
    by (rule coerce_fields_id) (drule can', auto simp: storage_field_names stored_timeout_seconds)
  moreover have "coerce_persisted_worker_timeout_policy ?d = Inr ?d"
    unfolding coerce_persisted_worker_timeout_policy_def
    by (rule coerce_fields_id) (drule can', auto simp: storage_field_names canonical_policy_iff stored_timeout_policy)
  ultimately show ?thesis by (simp add: migrate_v1_persisted_worker_snapshot_def)
qed

lemma hydrate_snapshot:
  assumes w: "wf_worker w" and wid: "worker_id w = JStr wid" "wid \<noteq> []" and wf: "wf_dict d"
    and v: "coerced_schema_version version = Inr n"
    and same: "\<And>f. map_of d (field_name f) = map_of (snapshot_of w) (field_name f)"
  shows "hydrate_worker_record pf (JObj d) wid version = Inr w"
proof -
  have slot: "map_of d (field_name f) = (if is_required f \<or> f \<in> wr_present w then Some (wr_slots w f) else None)" for f
    using same map_of_snapshot_of [OF w] by simp
  obtain l where "worker_lifecycle w = Some l" using w by (rule wf_worker_lifecycle)
  then have l: "map_of d ''lifecycle_state'' = Some (JStr (lifecycle_name l))"
    using slot [of F_lifecycle_state] lifecycle_slot [OF w] by simp
  have id: "map_of d ''id'' = Some (JStr wid)" using slot [of F_id] wid by (simp add: worker_id_def)
  have can: "canonical_on UNIV d"
    using slot w by (auto simp: canonical_on_def wf_worker_def split: if_splits)
  have "worker_of_fields (remove_legacy_public_worker_state d) (JStr wid) = w"
    using w by (intro worker_record.equality)
      (auto simp: worker_of_fields_def remove_public_map_of slot fun_eq_iff wf_worker_def dict_has_iff_map_of)
  then show ?thesis
    by (simp add: hydrate_eq [OF wid(2) wf v] migrate_canonical [OF can wid(2) id l])
qed

lemma unknown_map_of:
  "wf_dict d \<Longrightarrow> map_of (unknown_fields d) k = (if field_of_name k = None then map_of d k else None)"
  by (induction d) (auto simp: unknown_fields_def wf_dict_def map_of_eq_None_iff image_iff)

lemma wf_unknown: "wf_dict d \<Longrightarrow> wf_dict (unknown_fields d)"
  by (simp add: unknown_fields_def wf_dict_def distinct_map_filter)

lemma stored_worker:
  assumes w: "wf_worker w" and wid: "worker_id w = JStr wid" "wid \<noteq> []"
    and v: "coerced_schema_version version = Inr n" and p: "wf_dict p"
    and st: "normalize_worker_record_for_storage pf w wid version (Some (JObj p)) = Inr d"
  shows "hydrate_worker_record pf (JObj d) wid version = Inr w"
    and "field_of_name k = None \<Longrightarrow> k \<notin> set PUBLIC_WORKER_STATE_FIELD_NAMES \<Longrightarrow> map_of d k = map_of p k"
proof -
  have snap: "dict_set ''id'' (JStr wid) (snapshot_of w) = snapshot_of w"
    using map_of_snapshot_of [OF w, of F_id] wid by (intro dict_set_same) (simp add: worker_id_def)
  have "worker_record_snapshot_fields w wid = Inr (snapshot_of w)"
    by (simp add: worker_record_snapshot_fields_def to_snapshot_wf [OF w] snap)
  moreover have "migrated_persisted_worker_snapshot pf (JObj p) wid version = migrate_v1_persisted_worker_snapshot pf p wid"
    by (simp add: migrated_persisted_worker_snapshot_def v)
  ultimately have "res_bind (migrate_v1_persisted_worker_snapshot pf p wid)
      (\<lambda>p'. Inr (dict_update (snapshot_of w) (unknown_fields p'))) = Inr d"
    using st unfolding normalize_worker_record_for_storage_def by simp
  then obtain p' where p': "migrate_v1_persisted_worker_snapshot pf p wid = Inr p'"
    and d': "Inr (dict_update (snapshot_of w) (unknown_fields p')) = (Inr d :: jdict result)"
    by (rule res_bind_InrE)
  from d' have d: "d = dict_update (snapshot_of w) (unknown_fields p')" by simp
  note m = migrate_facts [OF wid(2) p']
  have wf': "wf_dict p'" using m p by (simp add: migrated_def)
  have dk: "map_of d k = (case map_of (unknown_fields p') k of None \<Rightarrow> map_of (snapshot_of w) k | Some v \<Rightarrow> Some v)" for k
    by (simp add: d map_of_dict_update wf_unknown [OF wf'] map_add_def)
  have "wf_dict d" by (simp add: d wf_dict_snapshot_of)
  moreover have "map_of d (field_name f) = map_of (snapshot_of w) (field_name f)" for f
    by (simp add: dk unknown_map_of [OF wf'])
  ultimately show "hydrate_worker_record pf (JObj d) wid version = Inr w"
    by (rule hydrate_snapshot [OF w wid _ v])
  assume k: "field_of_name k = None" "k \<notin> set PUBLIC_WORKER_STATE_FIELD_NAMES"
  from k(1) have "k \<notin> field_name ` A" for A by auto
  with m k(2) have "map_of p' k = map_of p k" unfolding migrated_def by blast
  moreover have "map_of (snapshot_of w) k = None"
    using k by (auto simp: snapshot_of_def map_of_eq_None_iff)
  ultimately show "map_of d k = map_of p k"
    using k by (simp add: dk unknown_map_of [OF wf'] split: option.split)
qed

end
