(* ===== verification/Samples.thy ===== *)
theory Samples
  imports Run_Summary Attempt_Numbering Executor_Totality Storage_Facts
begin

text \<open>
  Concrete workers, transitions and runs on which the properties are evaluated, and the few facts
  that place them in the reach of the properties' hypotheses.
\<close>

section \<open>Workers\<close>

definition sample_worker :: worker_record where
  "sample_worker = reset_fields (JStr ''w1'')"

text \<open>A worker whose abort was accepted.\<close>

definition sample_abort :: json where
  "sample_abort = JObj [(''accepted'', JBool True)]"

definition sample_aborted :: worker_record where
  "sample_aborted = put_field (put_field sample_worker F_abort sample_abort) F_lifecycle_state (JStr ''aborted'')"

text \<open>A worker in a given lifecycle state, with a prompt.\<close>

definition worker_in :: "string \<Rightarrow> lifecycle \<Rightarrow> json list \<Rightarrow> worker_record" where
  "worker_in i l deps =
     put_field (put_field (put_field (reset_fields (JStr i)) F_prompt (JStr ''work''))
       F_lifecycle_state (JStr (lifecycle_name l))) F_dependencies (JList deps)"

lemma wf_sample_worker [simp]: "wf_worker sample_worker"
  by (simp add: sample_worker_def wf_reset_fields)

lemma wf_sample_aborted [simp]: "wf_worker sample_aborted"
  unfolding sample_aborted_def
  by (intro wf_put_field wf_sample_worker)
    (simp_all add: canonical_lifecycle_iff lifecycle_states_names sample_abort_def
      image_iff exI [of _ Aborted] flip: lifecycle_name.simps)

lemma wf_worker_in [simp]: "i \<noteq> [] \<Longrightarrow> wf_worker (worker_in i l deps)"
  unfolding worker_in_def
  by (intro wf_put_field wf_reset_fields) (simp_all add: canonical_lifecycle_iff)

lemma worker_in_slots [simp]:
  "worker_lifecycle (worker_in i l deps) = Some l"
  "wr_slots (worker_in i l deps) F_dependencies = JList deps"
  "wr_slots (worker_in i l deps) F_prompt = JStr ''work''"
  "wr_slots (worker_in i l deps) F_id = JStr i"
  by (simp_all add: worker_in_def reset_fields_def default_value_eq)

lemma lifecycle_words [simp]:
  "lifecycle_of_name ''queued'' = Some Queued" "json_lifecycle (JStr ''aborted'') = Some Aborted"
  using json_lifecycle_name [of Aborted] by (simp_all add: lifecycle_of_name_iff)

lemma sample_worker_slots [simp]:
  "worker_lifecycle sample_worker = Some Queued"
  "worker_id sample_worker = JStr ''w1''"
  "worker_attempts sample_worker = []"
  "wr_slots sample_worker F_retry_count = JInt 0"
  "wr_slots sample_worker F_retry_limit = JInt 0"
  "wr_slots sample_worker F_prompt_ids = JList []"
  by (simp_all add: sample_worker_def reset_fields_def worker_lifecycle_def worker_id_def default_value_eq
      worker_attempts_def)

lemma sample_aborted_state [simp]:
  "worker_lifecycle sample_aborted = Some Aborted"
  "accepted_abort sample_aborted"
  by (simp_all add: sample_aborted_def accepted_abort_def accepted_abort_fields_def sample_abort_def
      abort_is_accepted_def)

section \<open>Legality at the samples\<close>

lemma sample_activation: "\<exists>w'. apply_transition sample_worker (active_transition ''w1'' None False) = Inr w'"
  by (rule legal_apply [where p = "P_Active None False"]) (simp_all add: active_transition_def legal_source [of _ Queued])

lemma aborted_activation: "\<exists>w'. apply_transition sample_aborted (active_transition ''w1'' None False) = Inr w'"
  by (rule legal_apply [where p = "P_Active None False"]) (simp_all add: active_transition_def legal_source [of _ Aborted])

lemma sample_history:
  "\<exists>w'. worker_history sample_worker w' \<and> worker_lifecycle w' = Some Active_Wait"
proof -
  let ?tr = "active_transition ''w1'' None False"
  obtain w' where w': "apply_transition sample_worker ?tr = Inr w'" using sample_activation by blast
  have "worker_history sample_worker w'"
    by (rule history_step [OF history_refl _ _ _ w']) (simp_all add: active_transition_def spends_within_def)
  moreover have "lifecycle_step (machine_state sample_worker) T_ACTIVE (machine_state w')"
    using public_transition_step [OF _ _ _ w'] by (simp add: active_transition_def)
  then have "fst (machine_state w') = Active_Wait"
    by (rule active_target) (simp add: machine_state_def schedulable_def)
  moreover have "wf_worker w'" using wf_apply_transition [OF _ _ w'] by (simp add: active_transition_def)
  ultimately show ?thesis using machine_lifecycle [of w'] by auto
qed

section \<open>An execution\<close>

definition sample_provision :: "unit \<Rightarrow> worker_record \<Rightarrow> (unit \<times> worker_record \<times> json) result" where
  "sample_provision run w = Inr (run, w, JNull)"

definition sample_outage :: "worker_record \<Rightarrow> attempt_error + jdict" where
  "sample_outage w = Inl (OpenCodeApiError ''connection refused'')"

definition sample_clock :: execution_clock where
  "sample_clock = \<lparr>clock_active = JStr ''t0'', clock_started = JStr ''t0'', clock_timed_out = JStr ''t1'',
     clock_finished = JStr ''t1''\<rparr>"

lemma sample_schedulable: "schedulable_worker sample_worker"
  by (simp add: schedulable_worker_def retry_configured_def machine_state_def schedulable_def list_slot_def)
    (simp add: sample_worker_def reset_fields_def default_value_eq)

lemma sample_execution:
  "\<exists>out. execute_worker apply_in_memory sample_provision Pair sample_outage None sample_clock () sample_worker = Inr out"
  by (rule execute_worker_returns [of _ _ _ "()" sample_worker JNull])
    (simp_all add: sample_provision_def sample_outage_def prompt_answered_def sample_schedulable)

section \<open>Replays\<close>

lemma reset_fields_state:
  "worker_lifecycle (reset_fields (JStr s)) = Some Queued" "worker_id (reset_fields (JStr s)) = JStr s"
  by (simp_all add: reset_fields_def worker_lifecycle_def worker_id_def default_value_eq)

lemma done_replay_source: "Active_Wait \<in> set (worker_snapshot_replay_source_lifecycle_states (Some Done_Collect))"
  by code_simp

lemma worker_in_not_aborted: "\<not> accepted_abort (worker_in i l deps)"
  by (simp add: worker_in_def accepted_abort_def accepted_abort_fields_def abort_is_accepted_def reset_fields_def)

section \<open>Runs\<close>

text \<open>Three workers: the first is done, the second depends on it, the third on both.\<close>

definition sample_workers :: workers where
  "sample_workers = [(''w1'', worker_in ''w1'' Done_Collect []), (''w2'', worker_in ''w2'' Queued [JStr ''w1'']),
     (''w3'', worker_in ''w3'' Queued [JStr ''w1'', JStr ''w2''])]"

definition single_worker :: workers where
  "single_worker = [(''w1'', worker_in ''w1'' Queued [])]"

lemma sample_graph:
  "worker_dependency_graph sample_workers =
     [(''w1'', []), (''w2'', [JStr ''w1'']), (''w3'', [JStr ''w1'', JStr ''w2''])]"
  by (simp add: worker_dependency_graph_def worker_dependencies_def sample_workers_def)

lemma sample_keys: "map fst sample_workers = [''w1'', ''w2'', ''w3'']"
  by (simp add: sample_workers_def)

lemma sample_order:
  "dependency_order_and_cycles sample_workers (worker_dependency_graph sample_workers) =
     ([''w1'', ''w2'', ''w3''], [])"
  unfolding sample_graph by (simp add: dependency_order_and_cycles_def sample_workers_def sorted_ids_def dfs_start_def Let_def
      graph_dependencies_def)

lemma analysis_returns:
  "list_all (\<lambda>(i, ds). list_all hashable ds) (worker_dependency_graph workers) \<Longrightarrow>
     \<exists>a. analyze_worker_dependencies workers = Inr a"
  by (auto simp: analyze_worker_dependencies_def Let_def list_ex_iff list_all_iff split: prod.split)

lemma sample_analysis: "\<exists>a. analyze_worker_dependencies sample_workers = Inr a"
  by (rule analysis_returns) (simp add: sample_graph)

lemma single_graph: "worker_dependency_graph single_worker = [(''w1'', [])]"
  by (simp add: worker_dependency_graph_def worker_dependencies_def single_worker_def)

lemma single_analysis: "\<exists>a. analyze_worker_dependencies single_worker = Inr a"
  by (rule analysis_returns) (simp add: single_graph)

lemma single_waiting: "waiting single_worker ''w1''"
proof -
  have "dfs_cycles (search_of single_worker) = []"
    by (simp add: search_of_def single_graph) (simp add: single_worker_def sorted_ids_def dfs_start_def Let_def graph_dependencies_def)
  then have "blocker_seeds single_worker = {}"
    by (auto simp: blocker_seeds_def invalid_seed_def dependency_seed_def single_graph graph_dependencies_def
        split: if_splits)
  moreover have "\<not> blocked_from single_worker g {} i" for g i
    by (rule notI) (induction rule: blocked_from.induct; simp)
  ultimately show ?thesis
    using blockable_iff [of single_worker "''w1''"] by (simp add: waiting_def single_worker_def has_prompt_def worker_prompt_def)
qed

lemma search_cycles:
  "snd (dependency_order_and_cycles workers (worker_dependency_graph workers)) = dfs_cycles (search_of workers)"
  by (simp add: dependency_order_and_cycles_def search_of_def Let_def)

text \<open>Two workers that depend on each other.\<close>

definition cyclic_workers :: workers where
  "cyclic_workers = [(''w1'', worker_in ''w1'' Queued [JStr ''w2'']), (''w2'', worker_in ''w2'' Queued [JStr ''w1''])]"

lemma cyclic_graph: "worker_dependency_graph cyclic_workers = [(''w1'', [JStr ''w2'']), (''w2'', [JStr ''w1''])]"
  by (simp add: worker_dependency_graph_def worker_dependencies_def cyclic_workers_def)

lemma cyclic_order:
  "dependency_order_and_cycles cyclic_workers (worker_dependency_graph cyclic_workers) =
     ([''w2'', ''w1''], [[''w1'', ''w2'', ''w1'']])"
  unfolding cyclic_graph
  by (simp add: dependency_order_and_cycles_def cyclic_workers_def sorted_ids_def dfs_start_def Let_def
      graph_dependencies_def cycle_of_def)

section \<open>A run that is not done\<close>

definition sample_run :: run_record where
  "sample_run = \<lparr>rn_fields = [(''id'', JStr ''r1'')], rn_workers = single_worker\<rparr>"

lemma sample_run_wf: "\<forall>(i, w) \<in> set (rn_workers sample_run). wf_worker w"
  by (simp add: sample_run_def single_worker_def)

lemma sample_prompted: "prompted (worker_in i l deps)"
  by (simp add: prompted_def worker_prompt_def)

lemma sample_run_prompted: "filter prompted (map snd (rn_workers sample_run)) \<noteq> []"
  by (simp add: sample_run_def single_worker_def sample_prompted)

lemma sample_run_queued:
  "\<not> (\<forall>w \<in> set (filter prompted (map snd (rn_workers sample_run))). worker_status w = Some ''done'')"
  by (simp add: sample_run_def single_worker_def sample_prompted worker_status_def)

lemma sample_refresh: "\<exists>run'. refresh_run_summary False sample_run = Inr run'"
  using single_analysis
  by (auto simp: refresh_run_summary_def worker_output_refs_in_dependency_order_def
      workers_in_dependency_order_def sample_run_def Let_def)

section \<open>A worker with a retry budget\<close>

definition sample_retryable :: worker_record where
  "sample_retryable = put_field (put_field (worker_in ''w1'' Active_Wait []) F_retry_limit (JInt 1))
     F_retryable_failures (JList [JStr ''timeout''])"

lemma sample_retryable_facts:
  "wf_worker sample_retryable" "worker_lifecycle sample_retryable = Some Active_Wait" "has_prompt sample_retryable"
  "wr_slots sample_retryable F_timeout_policy = JStr ''timeout''"
  "retry_available sample_retryable (JStr ''timeout'') = Inr True"
proof -
  show "wf_worker sample_retryable"
    unfolding sample_retryable_def by (intro wf_put_field wf_worker_in) simp_all
  show "worker_lifecycle sample_retryable = Some Active_Wait" by (simp add: sample_retryable_def)
qed (simp_all add: sample_retryable_def has_prompt_def worker_prompt_def retry_available_def worker_in_def
    reset_fields_def default_value_eq py_in_JStr)

end
