(* ===== verification/Run_Resources.thy ===== *)
theory Run_Resources
  imports Ocs_Prelude
begin

text \<open>
  \<open>run_resource_schema.py\<close>: the manifest of resources a run owns is validated field by field.
  A path is a POSIX path: absolute when it starts with a slash, and a file-system root when it has no
  component besides dots.
\<close>

section \<open>Field names\<close>

definition RESOURCE_LIST_FIELDS :: "string list" where
  "RESOURCE_LIST_FIELDS = [''worktrees'', ''logs'', ''project_copies'']"

definition WORKTREE_FIELDS :: "string list" where
  "WORKTREE_FIELDS = [''path'', ''git_dir'', ''linked_git_dir'', ''linked_git_dir_device'', ''linked_git_dir_inode'',
     ''branch'', ''branch_reflog'', ''branch_reflog_device'', ''branch_reflog_inode'', ''registered_branch_tip'',
     ''worker_id'']"

definition LOG_FIELDS :: "string list" where
  "LOG_FIELDS = [''path'', ''parent_realpath'', ''device'', ''inode'', ''resource_type'', ''parent_device'',
     ''parent_inode'', ''worker_id'']"

definition PROJECT_COPY_FIELDS :: "string list" where
  "PROJECT_COPY_FIELDS = [''project_id'', ''directory_prefix'', ''resolved_directory_prefix'',
     ''directory_prefix_parent_realpath'', ''directory_prefix_parent_device'', ''directory_prefix_parent_inode'',
     ''worker_id'']"

definition LOG_RESOURCE_TYPES :: "string list" where
  "LOG_RESOURCE_TYPES = [''file'', ''symlink'']"

section \<open>Checks\<close>

text \<open>A sequence of checks stops at the first that raises.\<close>

definition checks :: "unit result list \<Rightarrow> unit result" where
  "checks rs = res_fold (\<lambda>_ r. r) () rs"

definition schema_error :: "string \<Rightarrow> string \<Rightarrow> py_error" where
  "schema_error label text = RunResourceSchemaError (label @ text)"

definition require_exact_fields :: "jdict \<Rightarrow> string list \<Rightarrow> string \<Rightarrow> unit result" where
  "require_exact_fields record expected label =
     (let missing = sort (filter (\<lambda>k. \<not> dict_has record k) expected);
          unexpected = sort (filter (\<lambda>k. k \<notin> set expected) (dict_keys record))
      in if missing \<noteq> [] then Inl (schema_error label ('' is missing fields: '' @ join_with '', '' missing))
         else if unexpected \<noteq> []
         then Inl (schema_error label ('' has unexpected fields: '' @ join_with '', '' unexpected))
         else Inr ())"

definition require_text :: "jdict \<Rightarrow> string \<Rightarrow> string \<Rightarrow> string result" where
  "require_text record k label =
     (case dict_get record k of
        JStr s \<Rightarrow> if py_strip s \<noteq> [] then Inr s
                 else Inl (schema_error label (''.'' @ k @ '' must be a non-empty string''))
      | _ \<Rightarrow> Inl (schema_error label (''.'' @ k @ '' must be a non-empty string'')))"

definition check_text :: "jdict \<Rightarrow> string \<Rightarrow> string \<Rightarrow> unit result" where
  "check_text record k label = res_bind (require_text record k label) (\<lambda>_. Inr ())"

fun split_on :: "char \<Rightarrow> string \<Rightarrow> string list" where
  "split_on c [] = [[]]"
| "split_on c (d # s) = (if d = c then [] # split_on c s
     else (case split_on c s of [] \<Rightarrow> [[d]] | p # ps \<Rightarrow> (d # p) # ps))"

lemma split_on_pieces: "\<forall>s \<in> set (split_on c t). c \<notin> set s"
  by (induction t) (auto split: list.split)

lemma split_on_plain: "c \<notin> set s \<Longrightarrow> split_on c s = [s]"
  by (induction s) auto

lemma split_on_append: "c \<notin> set s \<Longrightarrow> split_on c (s @ c # t) = s # split_on c t"
  by (induction s) auto

lemma split_on_join: "\<forall>s \<in> set parts. c \<notin> set s \<Longrightarrow> parts \<noteq> [] \<Longrightarrow> split_on c (join_with [c] parts) = parts"
proof (induction parts)
  case (Cons p parts)
  then show ?case by (cases parts) (simp_all add: split_on_append split_on_plain)
qed simp

definition path_parts :: "string \<Rightarrow> string list" where
  "path_parts p = filter (\<lambda>s. s \<noteq> [] \<and> s \<noteq> ''.'') (split_on (CHR ''/'') p)"

definition is_absolute :: "string \<Rightarrow> bool" where
  "is_absolute p = starts_with p ''/''"

definition require_path :: "jdict \<Rightarrow> string \<Rightarrow> string \<Rightarrow> bool \<Rightarrow> unit result" where
  "require_path record k label allow_root =
     res_bind (require_text record k label) (\<lambda>p.
       if \<not> is_absolute p then Inl (schema_error label (''.'' @ k @ '' must be an absolute path''))
       else if \<not> allow_root \<and> path_parts p = []
       then Inl (schema_error label (''.'' @ k @ '' cannot be a filesystem root''))
       else Inr ())"

definition require_identity :: "jdict \<Rightarrow> string \<Rightarrow> string \<Rightarrow> unit result" where
  "require_identity record k label =
     (case dict_get record k of
        JInt i \<Rightarrow> if i < 0 then Inl (schema_error label (''.'' @ k @ '' must be a non-negative integer'')) else Inr ()
      | _ \<Rightarrow> Inl (schema_error label (''.'' @ k @ '' must be a non-negative integer'')))"

section \<open>Records\<close>

definition validate_worktree :: "jdict \<Rightarrow> string \<Rightarrow> unit result" where
  "validate_worktree r label = checks
     [require_exact_fields r WORKTREE_FIELDS label,
      require_path r ''path'' label False,
      require_path r ''git_dir'' label False,
      require_path r ''linked_git_dir'' label False,
      require_identity r ''linked_git_dir_device'' label,
      require_identity r ''linked_git_dir_inode'' label,
      check_text r ''branch'' label,
      require_path r ''branch_reflog'' label False,
      require_identity r ''branch_reflog_device'' label,
      require_identity r ''branch_reflog_inode'' label,
      check_text r ''registered_branch_tip'' label,
      check_text r ''worker_id'' label]"

definition require_resource_type :: "jdict \<Rightarrow> string \<Rightarrow> unit result" where
  "require_resource_type r label =
     res_bind (require_text r ''resource_type'' label) (\<lambda>t.
       if t \<in> set LOG_RESOURCE_TYPES then Inr ()
       else Inl (schema_error label (''.resource_type must be one of: '' @ join_with '', '' (sort LOG_RESOURCE_TYPES))))"

definition validate_log :: "jdict \<Rightarrow> string \<Rightarrow> unit result" where
  "validate_log r label = checks
     [require_exact_fields r LOG_FIELDS label,
      require_path r ''path'' label False,
      require_path r ''parent_realpath'' label True,
      require_identity r ''device'' label,
      require_identity r ''inode'' label,
      require_identity r ''parent_device'' label,
      require_identity r ''parent_inode'' label,
      require_resource_type r label,
      check_text r ''worker_id'' label]"

definition validate_project_copy :: "jdict \<Rightarrow> string \<Rightarrow> unit result" where
  "validate_project_copy r label = checks
     [require_exact_fields r PROJECT_COPY_FIELDS label,
      check_text r ''project_id'' label,
      require_path r ''directory_prefix'' label False,
      require_path r ''resolved_directory_prefix'' label False,
      require_path r ''directory_prefix_parent_realpath'' label True,
      require_identity r ''directory_prefix_parent_device'' label,
      require_identity r ''directory_prefix_parent_inode'' label,
      check_text r ''worker_id'' label]"

definition normalize_record :: "string \<Rightarrow> json \<Rightarrow> nat \<Rightarrow> json result" where
  "normalize_record kind record index =
     (let label = ''resources.'' @ kind @ ''['' @ nat_text index @ '']'' in
      case record of
        JObj r \<Rightarrow> res_bind (if kind = ''worktrees'' then validate_worktree r label
                            else if kind = ''logs'' then validate_log r label
                            else validate_project_copy r label) (\<lambda>_. Inr record)
      | _ \<Rightarrow> Inl (schema_error label '' must be an object''))"

section \<open>Manifests\<close>

definition empty_resources :: jdict where
  "empty_resources = map (\<lambda>k. (k, JList [])) RESOURCE_LIST_FIELDS"

definition normalize_resource_list :: "jdict \<Rightarrow> string \<Rightarrow> (string \<times> json) result" where
  "normalize_resource_list value k =
     (case dict_get value k of
        JList records \<Rightarrow> res_bind (res_map (\<lambda>(i, r). normalize_record k r i) (enumerate 0 records)) (\<lambda>rs.
          Inr (k, JList rs))
      | _ \<Rightarrow> Inl (schema_error (''resources.'' @ k) '' must be an array''))"

definition normalize_run_resources :: "json \<Rightarrow> bool \<Rightarrow> jdict result" where
  "normalize_run_resources value allow_missing =
     (if value = JNull \<and> allow_missing then Inr empty_resources
      else case value of
        JObj d \<Rightarrow>
          (let missing = sort (filter (\<lambda>k. \<not> dict_has d k) RESOURCE_LIST_FIELDS);
               unexpected = sort (filter (\<lambda>k. k \<notin> set RESOURCE_LIST_FIELDS) (dict_keys d))
           in if missing \<noteq> [] then Inl (schema_error ''resources'' ('' is missing fields: '' @ join_with '', '' missing))
              else if unexpected \<noteq> []
              then Inl (schema_error ''resources'' ('' has unexpected fields: '' @ join_with '', '' unexpected))
              else res_map (normalize_resource_list d) RESOURCE_LIST_FIELDS)
      | _ \<Rightarrow> Inl (schema_error ''resources'' '' must be an object''))"

definition validate_run_resource_manifest :: "json \<Rightarrow> jdict result" where
  "validate_run_resource_manifest value = normalize_run_resources value False"

definition ensure_run_resources :: "jdict \<Rightarrow> jdict result" where
  "ensure_run_resources run =
     res_bind (if dict_has run ''resources'' then validate_run_resource_manifest (dict_get run ''resources'')
               else Inr empty_resources) (\<lambda>resources.
     Inr (dict_set ''resources'' (JObj resources) run))"

section \<open>What is valid\<close>

definition text_ok :: "jdict \<Rightarrow> string \<Rightarrow> bool" where
  "text_ok r k \<longleftrightarrow> (case dict_get r k of JStr s \<Rightarrow> py_strip s \<noteq> [] | _ \<Rightarrow> False)"

definition path_ok :: "bool \<Rightarrow> jdict \<Rightarrow> string \<Rightarrow> bool" where
  "path_ok allow_root r k \<longleftrightarrow>
     (case dict_get r k of
        JStr s \<Rightarrow> py_strip s \<noteq> [] \<and> is_absolute s \<and> (allow_root \<or> path_parts s \<noteq> [])
      | _ \<Rightarrow> False)"

definition identity_ok :: "jdict \<Rightarrow> string \<Rightarrow> bool" where
  "identity_ok r k \<longleftrightarrow> (case dict_get r k of JInt i \<Rightarrow> 0 \<le> i | _ \<Rightarrow> False)"

definition exact_fields :: "jdict \<Rightarrow> string list \<Rightarrow> bool" where
  "exact_fields r ks \<longleftrightarrow> set (dict_keys r) = set ks"

definition worktree_ok :: "jdict \<Rightarrow> bool" where
  "worktree_ok r \<longleftrightarrow> exact_fields r WORKTREE_FIELDS \<and>
     list_all (path_ok False r) [''path'', ''git_dir'', ''linked_git_dir'', ''branch_reflog''] \<and>
     list_all (identity_ok r) [''linked_git_dir_device'', ''linked_git_dir_inode'', ''branch_reflog_device'',
       ''branch_reflog_inode''] \<and>
     list_all (text_ok r) [''branch'', ''registered_branch_tip'', ''worker_id'']"

definition log_ok :: "jdict \<Rightarrow> bool" where
  "log_ok r \<longleftrightarrow> exact_fields r LOG_FIELDS \<and> path_ok False r ''path'' \<and> path_ok True r ''parent_realpath'' \<and>
     list_all (identity_ok r) [''device'', ''inode'', ''parent_device'', ''parent_inode''] \<and>
     dict_get r ''resource_type'' \<in> {JStr ''file'', JStr ''symlink''} \<and> text_ok r ''worker_id''"

definition project_copy_ok :: "jdict \<Rightarrow> bool" where
  "project_copy_ok r \<longleftrightarrow> exact_fields r PROJECT_COPY_FIELDS \<and>
     list_all (path_ok False r) [''directory_prefix'', ''resolved_directory_prefix''] \<and>
     path_ok True r ''directory_prefix_parent_realpath'' \<and>
     list_all (identity_ok r) [''directory_prefix_parent_device'', ''directory_prefix_parent_inode''] \<and>
     list_all (text_ok r) [''project_id'', ''worker_id'']"

definition records_ok :: "(jdict \<Rightarrow> bool) \<Rightarrow> json \<Rightarrow> bool" where
  "records_ok P v \<longleftrightarrow> (case v of
     JList rs \<Rightarrow> list_all (\<lambda>r. case r of JObj d \<Rightarrow> P d | _ \<Rightarrow> False) rs | _ \<Rightarrow> False)"

definition manifest_ok :: "jdict \<Rightarrow> bool" where
  "manifest_ok d \<longleftrightarrow> exact_fields d RESOURCE_LIST_FIELDS \<and> records_ok worktree_ok (dict_get d ''worktrees'') \<and>
     records_ok log_ok (dict_get d ''logs'') \<and> records_ok project_copy_ok (dict_get d ''project_copies'')"

lemma checks_Inr: "checks rs = Inr u \<longleftrightarrow> (\<forall>r \<in> set rs. r = Inr ())"
  by (induction rs) (auto simp: checks_def res_bind_Inr_iff)

lemma sort_Nil_iff: "sort (xs :: string list) = [] \<longleftrightarrow> xs = []"
  by (metis set_empty set_sort)

lemma no_field_differences:
  "sort (filter (\<lambda>k. \<not> dict_has r k) ks) = [] \<and> sort (filter (\<lambda>k. k \<notin> set ks) (dict_keys r)) = [] \<longleftrightarrow>
     exact_fields r ks"
  unfolding sort_Nil_iff filter_empty_conv exact_fields_def dict_has_def dict_keys_def by blast

lemma guarded_Inr:
  "(if a \<noteq> [] then Inl x else if b \<noteq> [] then Inl y else r) = Inr u \<longleftrightarrow> (a = [] \<and> b = []) \<and> r = Inr u"
  by (cases a; cases b) simp_all

lemma require_exact_fields_Inr: "require_exact_fields r ks label = Inr u \<longleftrightarrow> exact_fields r ks"
  unfolding require_exact_fields_def Let_def guarded_Inr no_field_differences by simp

lemma require_text_Inr: "require_text r k label = Inr s \<longleftrightarrow> dict_get r k = JStr s \<and> text_ok r k"
  by (auto simp: require_text_def text_ok_def split: json.splits)

lemma check_text_Inr: "check_text r k label = Inr u \<longleftrightarrow> text_ok r k"
  by (auto simp: check_text_def res_bind_Inr_iff require_text_Inr text_ok_def split: json.splits)

lemma require_path_Inr: "require_path r k label allow = Inr u \<longleftrightarrow> path_ok allow r k"
  by (auto simp: require_path_def res_bind_Inr_iff require_text_Inr text_ok_def path_ok_def split: json.splits)

lemma require_identity_Inr: "require_identity r k label = Inr u \<longleftrightarrow> identity_ok r k"
  by (auto simp: require_identity_def identity_ok_def split: json.splits)

lemma require_resource_type_Inr:
  "require_resource_type r label = Inr u \<longleftrightarrow> dict_get r ''resource_type'' \<in> {JStr ''file'', JStr ''symlink''}"
proof (cases "dict_get r ''resource_type''")
  case (JStr s)
  have "py_strip ''file'' \<noteq> []" "py_strip ''symlink'' \<noteq> []" by code_simp+
  then have "py_strip s = [] \<Longrightarrow> s \<noteq> ''file'' \<and> s \<noteq> ''symlink''" by blast
  then show ?thesis
    unfolding require_resource_type_def require_text_def JStr LOG_RESOURCE_TYPES_def
    by (cases "py_strip s = []") (simp_all split: if_split)
qed (simp_all add: require_resource_type_def require_text_def)

lemmas check_rules = checks_Inr require_exact_fields_Inr check_text_Inr require_path_Inr require_identity_Inr
  require_resource_type_Inr

lemma validate_worktree_Inr: "validate_worktree r label = Inr u \<longleftrightarrow> worktree_ok r"
  by (auto simp: validate_worktree_def worktree_ok_def check_rules)

lemma validate_log_Inr: "validate_log r label = Inr u \<longleftrightarrow> log_ok r"
  by (auto simp: validate_log_def log_ok_def check_rules)

lemma validate_project_copy_Inr: "validate_project_copy r label = Inr u \<longleftrightarrow> project_copy_ok r"
  by (auto simp: validate_project_copy_def project_copy_ok_def check_rules)

definition record_ok :: "string \<Rightarrow> jdict \<Rightarrow> bool" where
  "record_ok kind = (if kind = ''worktrees'' then worktree_ok else if kind = ''logs'' then log_ok else project_copy_ok)"

lemma normalize_record_Inr:
  "normalize_record kind v i = Inr v' \<longleftrightarrow> v' = v \<and> (case v of JObj r \<Rightarrow> record_ok kind r | _ \<Rightarrow> False)"
  by (auto simp: normalize_record_def Let_def record_ok_def res_bind_Inr_iff validate_worktree_Inr
      validate_log_Inr validate_project_copy_Inr split: json.splits)

lemma res_map_same:
  assumes "\<And>x y. x \<in> set xs \<Longrightarrow> f x = Inr y \<longleftrightarrow> y = g x \<and> P x"
  shows "res_map f xs = Inr ys \<longleftrightarrow> ys = map g xs \<and> (\<forall>x \<in> set xs. P x)"
  using assms by (induction xs arbitrary: ys) (auto simp: res_bind_Inr_iff)

lemma normalize_resource_list_Inr:
  "normalize_resource_list d k = Inr kv \<longleftrightarrow> kv = (k, dict_get d k) \<and> records_ok (record_ok k) (dict_get d k)"
proof (cases "dict_get d k")
  case (JList rs)
  have "res_map (\<lambda>(i, r). normalize_record k r i) (enumerate 0 rs) = Inr ys \<longleftrightarrow>
      ys = map snd (enumerate 0 rs) \<and> (\<forall>x \<in> set (enumerate 0 rs). case snd x of JObj r \<Rightarrow> record_ok k r | _ \<Rightarrow> False)" for ys
    by (rule res_map_same) (auto simp: normalize_record_Inr split_def)
  moreover have "(\<forall>x \<in> set (enumerate 0 rs). Q (snd x)) \<longleftrightarrow> list_all Q rs" for Q
    by (metis (no_types) list_all_iff list.set_map map_snd_enumerate ball_imageD imageI list.pred_map comp_apply)
  ultimately show ?thesis
    using JList by (auto simp: normalize_resource_list_def res_bind_Inr_iff records_ok_def)
qed (auto simp: normalize_resource_list_def records_ok_def)

text \<open>A manifest is accepted exactly when it is valid, and its lists come out as they are.\<close>

lemma validate_manifest_Inr:
  "validate_run_resource_manifest v = Inr d' \<longleftrightarrow>
     (\<exists>d. v = JObj d \<and> manifest_ok d \<and> d' = map (\<lambda>k. (k, dict_get d k)) RESOURCE_LIST_FIELDS)"
proof (cases v)
  case (JObj d)
  have "res_map (normalize_resource_list d) RESOURCE_LIST_FIELDS = Inr d' \<longleftrightarrow>
      d' = map (\<lambda>k. (k, dict_get d k)) RESOURCE_LIST_FIELDS \<and>
      (\<forall>k \<in> set RESOURCE_LIST_FIELDS. records_ok (record_ok k) (dict_get d k))"
    by (rule res_map_same) (simp add: normalize_resource_list_Inr)
  moreover have "validate_run_resource_manifest v = Inr d' \<longleftrightarrow>
      exact_fields d RESOURCE_LIST_FIELDS \<and> res_map (normalize_resource_list d) RESOURCE_LIST_FIELDS = Inr d'"
    unfolding validate_run_resource_manifest_def normalize_run_resources_def Let_def JObj
    by (simp only: json.simps simp_thms if_False guarded_Inr no_field_differences)
  moreover have "(\<forall>k \<in> set RESOURCE_LIST_FIELDS. records_ok (record_ok k) (dict_get d k)) \<longleftrightarrow>
      records_ok worktree_ok (dict_get d ''worktrees'') \<and> records_ok log_ok (dict_get d ''logs'') \<and>
      records_ok project_copy_ok (dict_get d ''project_copies'')"
    by (simp add: RESOURCE_LIST_FIELDS_def record_ok_def)
  ultimately show ?thesis using JObj unfolding manifest_ok_def by auto
qed (auto simp: validate_run_resource_manifest_def normalize_run_resources_def)

lemma validate_manifest_idem:
  assumes "validate_run_resource_manifest v = Inr d"
  shows "validate_run_resource_manifest (JObj d) = Inr d"
proof -
  obtain e where e: "manifest_ok e" and d: "d = map (\<lambda>k. (k, dict_get e k)) RESOURCE_LIST_FIELDS"
    using assms unfolding validate_manifest_Inr by blast
  have same: "dict_get d k = dict_get e k" if "k \<in> set RESOURCE_LIST_FIELDS" for k
    using that by (auto simp: d RESOURCE_LIST_FIELDS_def)
  have "exact_fields d RESOURCE_LIST_FIELDS" by (simp add: d exact_fields_def dict_keys_def)
  then have "manifest_ok d" using e same by (simp add: manifest_ok_def RESOURCE_LIST_FIELDS_def)
  moreover have "d = map (\<lambda>k. (k, dict_get d k)) RESOURCE_LIST_FIELDS" using same d by (simp cong: map_cong)
  ultimately show ?thesis unfolding validate_manifest_Inr by blast
qed

end
