(* ===== verification/Run_Record.thy ===== *)
theory Run_Record
  imports Run_Summary Storage_Facts Run_Resources
begin

text \<open>
  \<open>run_record.py\<close>: new run records, the normalisation of a stored record into a run with hydrated
  workers and back, and the operations on its workers. The current directory (\<open>Path.cwd()\<close>) is the
  parameter \<open>cwd\<close>, \<open>float(text)\<close> the parameter \<open>pf\<close>. A hydrated run keeps its workers in
  \<open>rn_workers\<close> and every other field in \<open>rn_fields\<close>.
\<close>

section \<open>Records\<close>

definition SCHEMA_VERSION :: json where
  "SCHEMA_VERSION = JInt 1"

definition DEFAULT_RUN_STATUS :: string where
  "DEFAULT_RUN_STATUS = ''queued''"

definition DEFAULT_SERVER_URL :: string where
  "DEFAULT_SERVER_URL = ''http://127.0.0.1:4096''"

definition data_error :: "string \<Rightarrow> py_error" where
  "data_error msg = RunRecordError msg ''data''"

text \<open>\<open>directory\<close> is the resolved path.\<close>

definition new_run_record :: "string \<Rightarrow> string \<Rightarrow> json \<Rightarrow> json \<Rightarrow> jdict" where
  "new_run_record name directory server_url now =
     [(''schema_version'', SCHEMA_VERSION), (''name'', JStr name), (''run_id'', JStr name),
      (''directory'', JStr directory), (''server_url'', server_url), (''status'', JStr DEFAULT_RUN_STATUS),
      (''retry_count'', JInt 0), (''timeout_seconds'', JNull), (''blockers'', JList []), (''output_refs'', JList []),
      (''workers'', JObj []), (''created_at'', now), (''updated_at'', now)]"

section \<open>Normalised fields\<close>

definition set_default :: "string \<Rightarrow> json \<Rightarrow> jdict \<Rightarrow> jdict" where
  "set_default k v d = (if dict_has d k then d else dict_set k v d)"

definition set_if_falsy :: "string \<Rightarrow> json \<Rightarrow> jdict \<Rightarrow> jdict" where
  "set_if_falsy k v d = (if py_truthy (dict_get d k) then d else dict_set k v d)"

definition short_status_json :: "json \<Rightarrow> json" where
  "short_status_json v = (case short_status v of None \<Rightarrow> JNull | Some s \<Rightarrow> JStr s)"

definition normalize_base_fields :: "string \<Rightarrow> string \<Rightarrow> jdict \<Rightarrow> jdict" where
  "normalize_base_fields cwd fallback run =
     (let d1 = set_if_falsy ''name'' (JStr fallback) (set_default ''schema_version'' SCHEMA_VERSION run);
          d2 = set_if_falsy ''run_id'' (dict_get d1 ''name'') d1;
          d3 = set_if_falsy ''server_url'' (JStr DEFAULT_SERVER_URL) (set_default ''directory'' (JStr cwd) d2);
          d4 = set_default ''status'' (JStr DEFAULT_RUN_STATUS) d3;
          d5 = dict_set ''status'' (short_status_json (dict_get d4 ''status'')) d4
      in set_default ''output_refs'' (JList []) (set_default ''blockers'' (JList [])
           (set_default ''timeout_seconds'' JNull (set_default ''retry_count'' (JInt 0) d5))))"

definition normalize_resources :: "string \<Rightarrow> jdict \<Rightarrow> jdict result" where
  "normalize_resources fallback d =
     (if \<not> dict_has d ''resources'' then Inr d
      else case validate_run_resource_manifest (dict_get d ''resources'') of
        Inr r \<Rightarrow> Inr (dict_set ''resources'' (JObj r) d)
      | Inl (RunResourceSchemaError msg) \<Rightarrow>
          Inl (data_error (''run record for '' @ quoted fallback @ '' is corrupted: '' @ msg))
      | Inl e \<Rightarrow> Inl e)"

definition normalize_cleanup :: "jdict \<Rightarrow> jdict" where
  "normalize_cleanup d =
     (if dict_has d ''resource_cleanup'' \<and> \<not> is_dict (dict_get d ''resource_cleanup'')
      then dict_set ''resource_cleanup'' (JObj []) d else d)"

definition normalize_run_fields :: "string \<Rightarrow> string \<Rightarrow> jdict \<Rightarrow> jdict result" where
  "normalize_run_fields cwd fallback run =
     res_bind (normalize_resources fallback (normalize_base_fields cwd fallback run)) (\<lambda>d.
     Inr (set_default ''updated_at'' JNull (set_default ''created_at'' JNull (normalize_cleanup d))))"

definition worker_snapshot_schema_version :: "jdict \<Rightarrow> json" where
  "worker_snapshot_schema_version run =
     (case map_of run ''schema_version'' of None \<Rightarrow> SCHEMA_VERSION | Some v \<Rightarrow> v)"

definition run_worker_snapshots :: "string \<Rightarrow> jdict \<Rightarrow> jdict result" where
  "run_worker_snapshots fallback run =
     (case dict_get run ''workers'' of
        JNull \<Rightarrow> Inr []
      | JObj ws \<Rightarrow> Inr ws
      | _ \<Rightarrow> Inl (data_error (''run record for '' @ quoted fallback @ '' is corrupted: workers must be an object'')))"

definition worker_snapshots :: "jdict \<Rightarrow> jdict" where
  "worker_snapshots run = (case dict_get run ''workers'' of JObj ws \<Rightarrow> ws | _ \<Rightarrow> [])"

section \<open>Normalisation\<close>

text \<open>\<open>normalize_run\<close> of a stored record, and of a run whose workers are worker records.\<close>

definition hydrate_workers :: "(string \<Rightarrow> pyfloat option) \<Rightarrow> json \<Rightarrow> jdict \<Rightarrow> workers result" where
  "hydrate_workers pf version =
     res_map (\<lambda>(i, v). res_bind (hydrate_worker_record pf v i version) (\<lambda>w. Inr (i, w)))"

definition normalize_run :: "(string \<Rightarrow> pyfloat option) \<Rightarrow> string \<Rightarrow> string \<Rightarrow> jdict \<Rightarrow> run_record result" where
  "normalize_run pf cwd fallback run =
     res_bind (normalize_run_fields cwd fallback run) (\<lambda>d.
     res_bind (run_worker_snapshots fallback d) (\<lambda>ws.
     res_bind (hydrate_workers pf (worker_snapshot_schema_version d) ws) (\<lambda>workers.
     Inr \<lparr>rn_fields = dict_pop ''workers'' d, rn_workers = workers\<rparr>)))"

definition normalize_hydrated_run :: "string \<Rightarrow> string \<Rightarrow> run_record \<Rightarrow> run_record result" where
  "normalize_hydrated_run cwd fallback run =
     res_bind (normalize_run_fields cwd fallback (rn_fields run)) (\<lambda>d.
     res_bind (res_map (\<lambda>(i, w). res_bind (to_worker w) (\<lambda>w'. Inr (i, w'))) (rn_workers run)) (\<lambda>workers.
     Inr \<lparr>rn_fields = d, rn_workers = workers\<rparr>))"

text \<open>A stored worker of \<open>null\<close> counts as absent.\<close>

definition persisted_worker :: "jdict \<Rightarrow> string \<Rightarrow> json option" where
  "persisted_worker stored i = (case map_of stored i of None \<Rightarrow> None | Some v \<Rightarrow> if v = JNull then None else Some v)"

definition normalize_run_for_storage ::
  "(string \<Rightarrow> pyfloat option) \<Rightarrow> string \<Rightarrow> string \<Rightarrow> jdict option \<Rightarrow> run_record \<Rightarrow> jdict result" where
  "normalize_run_for_storage pf cwd fallback persisted run =
     (let stored = (case persisted of None \<Rightarrow> [] | Some p \<Rightarrow> worker_snapshots p) in
      res_bind (normalize_run_fields cwd fallback (rn_fields run)) (\<lambda>d.
      res_bind (res_map (\<lambda>(i, w).
          res_bind (normalize_worker_record_for_storage pf w i (worker_snapshot_schema_version d) (persisted_worker stored i))
            (\<lambda>s. Inr (i, JObj s))) (rn_workers run)) (\<lambda>workers.
      Inr (dict_set ''workers'' (JObj workers) d))))"

section \<open>Workers of a run\<close>

definition run_worker :: "run_record \<Rightarrow> string \<Rightarrow> worker_record option" where
  "run_worker run i = map_of (rn_workers run) i"

definition set_run_worker :: "run_record \<Rightarrow> string \<Rightarrow> worker_record \<Rightarrow> run_record" where
  "set_run_worker run i w = run\<lparr>rn_workers := dict_set i w (rn_workers run)\<rparr>"

definition set_run_status :: "string \<Rightarrow> run_record \<Rightarrow> run_record" where
  "set_run_status status = set_run_field ''status'' (JStr status)"

definition set_run_updated_at :: "json \<Rightarrow> run_record \<Rightarrow> run_record" where
  "set_run_updated_at now = set_run_field ''updated_at'' now"

definition set_run_directory :: "string \<Rightarrow> run_record \<Rightarrow> run_record" where
  "set_run_directory directory = set_run_field ''directory'' (JStr directory)"

definition set_run_server_url :: "json \<Rightarrow> run_record \<Rightarrow> run_record" where
  "set_run_server_url url = set_run_field ''server_url'' url"

definition existing_or_default :: "run_record \<Rightarrow> string \<Rightarrow> worker_record result" where
  "existing_or_default run i =
     (case run_worker run i of
        None \<Rightarrow> default_worker_record (JStr i)
      | Some w \<Rightarrow> res_bind (worker_record_for_mutation (Some w) (JStr i)) to_worker)"

text \<open>The role and the id are assigned as they are.\<close>

definition ensure_run_worker :: "run_record \<Rightarrow> string \<Rightarrow> json \<Rightarrow> (run_record \<times> worker_record) result" where
  "ensure_run_worker run i role =
     res_bind (existing_or_default run i) (\<lambda>w.
       let w1 = (if py_truthy (wr_slots w F_role) then w else put_field w F_role role);
           w2 = put_field w1 F_id (JStr i)
       in Inr (set_run_worker run i w2, w2))"

definition upsert_error :: "string \<Rightarrow> string \<Rightarrow> py_error" where
  "upsert_error i text = data_error (''worker '' @ quoted i @ '' '' @ text)"

definition check_upsert_changes :: "string \<Rightarrow> jdict \<Rightarrow> unit result" where
  "check_upsert_changes i changes =
     (let state = dict_get changes ''lifecycle_state'' in
      if dict_get changes ''status'' \<noteq> JNull
      then Inl (upsert_error i ''updates must use lifecycle_state, not status'')
      else if dict_get changes ''next_eligible_action'' \<noteq> JNull
      then Inl (upsert_error i ''updates must use lifecycle_state, not next_eligible_action'')
      else if state = JNull then Inr ()
      else if \<not> hashable state then Inl (TypeError ''unhashable type'')
      else if (case state of JStr s \<Rightarrow> lifecycle_of_name s \<noteq> None | _ \<Rightarrow> False) then Inr ()
      else Inl (upsert_error i (''has invalid lifecycle_state: '' @ py_str state)))"

definition upsert_worker_record :: "string \<Rightarrow> jdict \<Rightarrow> json \<Rightarrow> run_record \<Rightarrow> run_record result" where
  "upsert_worker_record i changes now run =
     (if run_worker run i = None \<and> \<not> py_truthy (dict_get changes ''role'')
      then Inl (upsert_error i ''does not exist; --role is required to create it'')
      else res_bind (existing_or_default run i) (\<lambda>w.
           res_bind (check_upsert_changes i changes) (\<lambda>_.
           res_bind (update_canonical_fields_from_mapping w changes True WORKER_RUN_UPSERT_FIELD_NAMES) (\<lambda>w1.
           res_bind (to_worker w1) (\<lambda>w2.
           Inr (set_run_updated_at now (set_run_worker run i w2)))))))"

definition run_record_for_output :: "run_record \<Rightarrow> jdict result" where
  "run_record_for_output run =
     res_bind (res_map (\<lambda>(i, w). res_bind (to_output_dict w) (\<lambda>d. Inr (i, JObj d))) (rn_workers run)) (\<lambda>workers.
     Inr (dict_set ''workers'' (JObj workers) (rn_fields run)))"

end
