(* ===== verification/Run_Store.thy ===== *)
theory Run_Store
  imports Run_Record
begin

text \<open>
  \<open>run_store.py\<close>: one JSON file per run, read and replaced under a lock. A store is the text of its
  root directory and the files by run name; a file holds the JSON value that was written, or a text
  that does not parse (with the parser's message). The order in which \<open>json.dump\<close> sorts the keys of
  a file is not part of the model. An operation under the lock is one step: it returns the new store,
  or raises and leaves the store as it was.
\<close>

section \<open>Files\<close>

datatype stored_file = StoredValue json | StoredText string

record run_store =
  rs_root :: string
  rs_files :: "(string \<times> stored_file) list"

definition store_error :: "string \<Rightarrow> string \<Rightarrow> py_error" where
  "store_error msg kind = RunStoreError msg kind"

text \<open>A \<open>RunRecordError\<close> is raised again as a \<open>RunStoreError\<close>.\<close>

definition as_store_error :: "'a result \<Rightarrow> 'a result" where
  "as_store_error r = (case r of Inl (RunRecordError msg kind) \<Rightarrow> Inl (RunStoreError msg kind) | _ \<Rightarrow> r)"

definition valid_run_name :: "string \<Rightarrow> bool" where
  "valid_run_name name \<longleftrightarrow> name \<noteq> [] \<and> name \<notin> {''.'', ''..''} \<and> CHR ''/'' \<notin> set name \<and> CHR 0x5C \<notin> set name"

definition run_path :: "string \<Rightarrow> string result" where
  "run_path name = (if valid_run_name name then Inr name
     else Inl (store_error (''invalid run name '' @ quoted name) ''data''))"

text \<open>The name field of a record to be written may be any value.\<close>

definition run_path_of_field :: "json \<Rightarrow> string result" where
  "run_path_of_field v =
     (case v of
        JStr name \<Rightarrow> run_path name
      | _ \<Rightarrow> if py_truthy v then Inl (TypeError ''argument is not iterable'')
             else Inl (store_error (''invalid run name '' @ quoted (py_str v)) ''data''))"

definition run_file_text :: "run_store \<Rightarrow> string \<Rightarrow> string" where
  "run_file_text s name = rs_root s @ ''/'' @ name @ ''.json''"

definition missing_error :: "run_store \<Rightarrow> string \<Rightarrow> py_error" where
  "missing_error s name = store_error (''run '' @ quoted name @ '' not found in '' @ rs_root s) ''missing''"

definition read_run_data :: "run_store \<Rightarrow> string \<Rightarrow> jdict result" where
  "read_run_data s name =
     res_bind (run_path name) (\<lambda>path.
     case map_of (rs_files s) path of
       None \<Rightarrow> Inl (missing_error s name)
     | Some (StoredText e) \<Rightarrow> Inl (store_error (''run record for '' @ quoted name @ '' is corrupted: invalid JSON in '' @
         run_file_text s path @ '': '' @ e) ''data'')
     | Some (StoredValue (JObj d)) \<Rightarrow> Inr d
     | Some (StoredValue _) \<Rightarrow> Inl (store_error (''run record for '' @ quoted name @
         '' is corrupted: expected JSON object in '' @ run_file_text s path) ''data''))"

section \<open>Operations\<close>

definition normalize_for_store :: "(string \<Rightarrow> pyfloat option) \<Rightarrow> string \<Rightarrow> string \<Rightarrow> jdict \<Rightarrow> run_record result" where
  "normalize_for_store pf cwd name run = as_store_error (normalize_run pf cwd name run)"

definition normalize_hydrated_for_store :: "string \<Rightarrow> string \<Rightarrow> run_record \<Rightarrow> run_record result" where
  "normalize_hydrated_for_store cwd name run = as_store_error (normalize_hydrated_run cwd name run)"

definition write_run ::
  "(string \<Rightarrow> pyfloat option) \<Rightarrow> string \<Rightarrow> jdict option \<Rightarrow> run_record \<Rightarrow> run_store \<Rightarrow> run_store result" where
  "write_run pf cwd persisted run s =
     res_bind (as_store_error (normalize_run_for_storage pf cwd (py_str (dict_get (rn_fields run) ''name'')) persisted run))
       (\<lambda>stored.
     res_bind (run_path_of_field (dict_get stored ''name'')) (\<lambda>path.
     Inr (s\<lparr>rs_files := dict_set path (StoredValue (JObj stored)) (rs_files s)\<rparr>)))"

definition load_run :: "(string \<Rightarrow> pyfloat option) \<Rightarrow> string \<Rightarrow> string \<Rightarrow> run_store \<Rightarrow> run_record result" where
  "load_run pf cwd name s = res_bind (read_run_data s name) (normalize_for_store pf cwd name)"

definition create_run ::
  "(string \<Rightarrow> pyfloat option) \<Rightarrow> string \<Rightarrow> string \<Rightarrow> string \<Rightarrow> json \<Rightarrow> json \<Rightarrow> run_store \<Rightarrow> (run_record \<times> run_store) result" where
  "create_run pf cwd name directory server_url now s =
     res_bind (normalize_for_store pf cwd name (new_run_record name directory server_url now)) (\<lambda>run.
     res_bind (run_path name) (\<lambda>path.
     if map_of (rs_files s) path \<noteq> None
     then Inl (store_error (''run '' @ quoted name @ '' already exists in '' @ rs_root s) ''exists'')
     else res_bind (write_run pf cwd None run s) (\<lambda>s'. Inr (run, s'))))"

definition cleanup_in_progress :: "run_record \<Rightarrow> bool" where
  "cleanup_in_progress run =
     (case dict_get (rn_fields run) ''resource_cleanup'' of
        JObj c \<Rightarrow> dict_get c ''status'' = JStr ''in_progress'' | _ \<Rightarrow> False)"

definition fence_error :: "string \<Rightarrow> py_error" where
  "fence_error name = store_error (''run '' @ quoted name @
     '' has cleanup in progress; mutation is temporarily fenced'') ''conflict''"

definition update_run ::
  "(string \<Rightarrow> pyfloat option) \<Rightarrow> string \<Rightarrow> string \<Rightarrow> (run_record \<Rightarrow> run_record result) \<Rightarrow> bool \<Rightarrow>
   run_store \<Rightarrow> (run_record \<times> run_store) result" where
  "update_run pf cwd name mutator allow_cleanup s =
     res_bind (read_run_data s name) (\<lambda>persisted.
     res_bind (normalize_for_store pf cwd name persisted) (\<lambda>run.
     if \<not> allow_cleanup \<and> cleanup_in_progress run then Inl (fence_error name)
     else res_bind (mutator run) (\<lambda>run1.
          res_bind (normalize_hydrated_for_store cwd name run1) (\<lambda>run2.
          res_bind (write_run pf cwd (Some persisted) run2 s) (\<lambda>s'. Inr (run2, s'))))))"

definition upsert_worker ::
  "(string \<Rightarrow> pyfloat option) \<Rightarrow> string \<Rightarrow> string \<Rightarrow> string \<Rightarrow> jdict \<Rightarrow> json \<Rightarrow> run_store \<Rightarrow> (run_record \<times> run_store) result" where
  "upsert_worker pf cwd name i changes now s =
     update_run pf cwd name (\<lambda>run. as_store_error (upsert_worker_record i changes now run)) False s"

text \<open>\<open>==\<close> of runs: worker records compare by their snapshots.\<close>

definition worker_eq :: "worker_record \<Rightarrow> worker_record \<Rightarrow> bool result" where
  "worker_eq w v = res_bind (to_snapshot w) (\<lambda>a. res_bind (to_snapshot v) (\<lambda>b. Inr (py_eq (JObj a) (JObj b))))"

definition workers_eq :: "workers \<Rightarrow> workers \<Rightarrow> bool result" where
  "workers_eq ws vs =
     (if length ws \<noteq> length vs then Inr False
      else res_fold (\<lambda>eq (i, w). if \<not> eq then Inr False
        else case map_of vs i of None \<Rightarrow> Inr False | Some v \<Rightarrow> worker_eq w v) True ws)"

definition runs_equal :: "run_record \<Rightarrow> run_record \<Rightarrow> bool result" where
  "runs_equal a b =
     (if py_eq (JObj (rn_fields a)) (JObj (rn_fields b)) then workers_eq (rn_workers a) (rn_workers b) else Inr False)"

definition stale_delete_error :: py_error where
  "stale_delete_error = store_error ''run record changed before deletion; refusing to delete the updated record'' ''conflict''"

text \<open>An \<open>OSError\<close> of \<open>unlink\<close> other than a missing file is not part of the model.\<close>

definition delete_run ::
  "(string \<Rightarrow> pyfloat option) \<Rightarrow> string \<Rightarrow> string \<Rightarrow> run_record option \<Rightarrow> run_store \<Rightarrow> run_store result" where
  "delete_run pf cwd name expected s =
     res_bind (run_path name) (\<lambda>path.
     res_bind (case expected of
         None \<Rightarrow> Inr True
       | Some e \<Rightarrow> res_bind (load_run pf cwd name s) (\<lambda>current. runs_equal current e)) (\<lambda>same.
     if \<not> same then Inl stale_delete_error
     else if map_of (rs_files s) path = None then Inl (missing_error s name)
     else Inr (s\<lparr>rs_files := dict_pop path (rs_files s)\<rparr>)))"

section \<open>Cleanup audit\<close>

text \<open>
  \<open>run_cleanup_audit.py\<close>: the cleanup record of a run is written only while the run is the one the
  plan was made for.
\<close>

definition stale_plan_error :: py_error where
  "stale_plan_error = store_error ''run record changed during cleanup; refusing to use the stale cleanup plan'' ''conflict''"

definition set_cleanup :: "jdict \<Rightarrow> run_record \<Rightarrow> run_record" where
  "set_cleanup record = set_run_field ''resource_cleanup'' (JObj record)"

definition update_if_unchanged ::
  "(string \<Rightarrow> pyfloat option) \<Rightarrow> string \<Rightarrow> string \<Rightarrow> run_record \<Rightarrow> jdict \<Rightarrow> run_store \<Rightarrow> (run_record \<times> run_store) result" where
  "update_if_unchanged pf cwd name expected record s =
     update_run pf cwd name (\<lambda>latest. res_bind (runs_equal latest expected) (\<lambda>same.
       if same then Inr (set_cleanup record latest) else Inl stale_plan_error)) True s"

definition begin_cleanup_audit ::
  "(string \<Rightarrow> pyfloat option) \<Rightarrow> string \<Rightarrow> string \<Rightarrow> run_record \<Rightarrow> jdict \<Rightarrow> run_store \<Rightarrow> (run_record \<times> run_store) result" where
  "begin_cleanup_audit pf cwd name expected record s =
     update_if_unchanged pf cwd name expected (dict_set ''status'' (JStr ''in_progress'') record) s"

definition any_completed :: "jdict \<Rightarrow> bool result" where
  "any_completed record = (case map_of record ''completed'' of
     None \<Rightarrow> Inl (KeyError ''completed'')
   | Some (JObj c) \<Rightarrow> Inr (list_ex (\<lambda>kv. py_truthy (snd kv)) c)
   | Some _ \<Rightarrow> Inl (AttributeError ''values''))"

definition append_error :: "jdict \<Rightarrow> json \<Rightarrow> jdict result" where
  "append_error record entry = (case map_of record ''errors'' of
     None \<Rightarrow> Inl (KeyError ''errors'')
   | Some (JList es) \<Rightarrow> Inr (dict_set ''errors'' (JList (es @ [entry])) record)
   | Some _ \<Rightarrow> Inl (AttributeError ''append''))"

definition record_store_error :: "jdict \<Rightarrow> string \<Rightarrow> jdict result" where
  "record_store_error record msg =
     res_bind (append_error record (JObj [(''category'', JStr ''run_store''), (''error'', JStr msg)])) (\<lambda>r1.
     res_bind (any_completed r1) (\<lambda>done.
     Inr (dict_set ''status'' (JStr (if done then ''partial'' else ''failed'')) r1)))"

definition store_failed_audit ::
  "(string \<Rightarrow> pyfloat option) \<Rightarrow> string \<Rightarrow> string \<Rightarrow> jdict \<Rightarrow> run_store \<Rightarrow> (run_record \<times> run_store) result" where
  "store_failed_audit pf cwd name record s =
     update_run pf cwd name (\<lambda>latest. Inr (set_cleanup record latest)) True s"

text \<open>The result is the updated run and store with the cleanup record the caller then holds.\<close>

definition finish_cleanup_audit ::
  "(string \<Rightarrow> pyfloat option) \<Rightarrow> string \<Rightarrow> string \<Rightarrow> run_record \<Rightarrow> jdict \<Rightarrow> run_store \<Rightarrow>
   (run_record \<times> run_store \<times> jdict) result" where
  "finish_cleanup_audit pf cwd name expected record s =
     (case update_if_unchanged pf cwd name expected record s of
        Inr (run, s') \<Rightarrow> Inr (run, s', record)
      | Inl (RunStoreError msg kind) \<Rightarrow>
          if kind \<noteq> ''conflict'' then Inl (RunStoreError msg kind)
          else res_bind (record_store_error record msg) (\<lambda>failed.
               res_bind (store_failed_audit pf cwd name failed s) (\<lambda>(run, s'). Inr (run, s', failed)))
      | Inl e \<Rightarrow> Inl e)"

definition delete_audited_run ::
  "(string \<Rightarrow> pyfloat option) \<Rightarrow> string \<Rightarrow> string \<Rightarrow> run_record \<Rightarrow> jdict \<Rightarrow> run_store \<Rightarrow>
   (bool \<times> run_store \<times> jdict) result" where
  "delete_audited_run pf cwd name expected record s =
     (case delete_run pf cwd name (Some expected) s of
        Inr s' \<Rightarrow> Inr (True, s', dict_set ''run_store_deleted'' (JBool True) record)
      | Inl (RunStoreError msg kind) \<Rightarrow>
          res_bind (record_store_error record msg) (\<lambda>failed.
          if kind = ''missing'' then Inr (False, s, failed)
          else res_bind (store_failed_audit pf cwd name failed s) (\<lambda>(run, s'). Inr (False, s', failed)))
      | Inl e \<Rightarrow> Inl e)"

end
