(* ===== verification/Store_Facts.thy ===== *)
theory Store_Facts
  imports Run_Store
begin

text \<open>
  What the run store keeps: normalising a record is idempotent, a run that was written is read back as
  it was, and every operation keeps the records of the store well formed.
\<close>

section \<open>Normalised fields\<close>

definition normal_fields :: "jdict \<Rightarrow> bool" where
  "normal_fields d \<longleftrightarrow>
     list_all (dict_has d) [''schema_version'', ''directory'', ''status'', ''retry_count'', ''timeout_seconds'',
       ''blockers'', ''output_refs'', ''created_at'', ''updated_at''] \<and>
     list_all (\<lambda>k. py_truthy (dict_get d k)) [''name'', ''run_id'', ''server_url''] \<and>
     short_status_json (dict_get d ''status'') = dict_get d ''status'' \<and>
     (dict_has d ''resources'' \<longrightarrow> (\<exists>r. dict_get d ''resources'' = JObj r \<and> validate_run_resource_manifest (JObj r) = Inr r)) \<and>
     (dict_has d ''resource_cleanup'' \<longrightarrow> is_dict (dict_get d ''resource_cleanup''))"

lemma truthy_has: "py_truthy (dict_get d k) \<Longrightarrow> dict_has d k"
  by (auto simp: dict_get_def dict_has_iff_map_of split: option.splits)

lemma dict_has_set_default [simp]: "dict_has (set_default k v d) k' \<longleftrightarrow> k' = k \<or> dict_has d k'"
  by (auto simp: set_default_def)

lemma dict_get_set_default [simp]:
  "dict_get (set_default k v d) k' = (if k' = k \<and> \<not> dict_has d k then v else dict_get d k')"
  by (auto simp: set_default_def)

lemma dict_has_set_if_falsy [simp]: "dict_has (set_if_falsy k v d) k' \<longleftrightarrow> k' = k \<or> dict_has d k'"
  by (auto simp: set_if_falsy_def truthy_has)

lemma dict_get_set_if_falsy [simp]:
  "dict_get (set_if_falsy k v d) k' = (if k' = k \<and> \<not> py_truthy (dict_get d k) then v else dict_get d k')"
  by (auto simp: set_if_falsy_def)

lemma wf_set_default [simp, wf_intros]: "wf_dict d \<Longrightarrow> wf_dict (set_default k v d)"
  by (simp add: set_default_def)

lemma wf_set_if_falsy [simp, wf_intros]: "wf_dict d \<Longrightarrow> wf_dict (set_if_falsy k v d)"
  by (simp add: set_if_falsy_def)

lemma set_default_id: "dict_has d k \<Longrightarrow> set_default k v d = d"
  by (simp add: set_default_def)

lemma set_if_falsy_id: "py_truthy (dict_get d k) \<Longrightarrow> set_if_falsy k v d = d"
  by (simp add: set_if_falsy_def)

lemma dict_set_get: "dict_has d k \<Longrightarrow> dict_set k (dict_get d k) d = d"
  by (rule dict_set_same) (auto simp: dict_has_iff_map_of dict_get_def)

lemma default_server_url_nonempty [simp]: "DEFAULT_SERVER_URL \<noteq> []"
  by (simp add: DEFAULT_SERVER_URL_def)

lemma short_status_json_idem: "short_status_json (short_status_json v) = short_status_json v"
  by (cases "short_status v") (auto simp: short_status_json_def short_status_def split: json.splits)

lemma base_fields_normal:
  assumes "fallback \<noteq> []" and b: "b = normalize_base_fields cwd fallback run"
  shows "list_all (dict_has b) [''schema_version'', ''directory'', ''status'', ''retry_count'', ''timeout_seconds'',
       ''blockers'', ''output_refs'']"
    and "list_all (\<lambda>k. py_truthy (dict_get b k)) [''name'', ''run_id'', ''server_url'']"
    and "short_status_json (dict_get b ''status'') = dict_get b ''status''"
  using assms(1) by (auto simp: b normalize_base_fields_def Let_def short_status_json_idem)

definition base_field_names :: "string set" where
  "base_field_names = {''schema_version'', ''name'', ''run_id'', ''directory'', ''server_url'', ''status'', ''retry_count'',
     ''timeout_seconds'', ''blockers'', ''output_refs''}"

definition run_field_names :: "string set" where
  "run_field_names = base_field_names \<union> {''resources'', ''resource_cleanup'', ''created_at'', ''updated_at''}"

lemma base_fields_frame:
  "k \<notin> base_field_names \<Longrightarrow> dict_get (normalize_base_fields cwd fallback run) k = dict_get run k \<and>
     (dict_has (normalize_base_fields cwd fallback run) k \<longleftrightarrow> dict_has run k)"
  "wf_dict run \<Longrightarrow> wf_dict (normalize_base_fields cwd fallback run)"
  by (simp_all add: base_field_names_def normalize_base_fields_def Let_def)

lemma normalize_resources_facts:
  assumes "normalize_resources fallback b = Inr d"
  shows "k \<noteq> ''resources'' \<Longrightarrow> dict_get d k = dict_get b k" and "dict_has d k \<longleftrightarrow> dict_has b k"
    and "dict_has d ''resources'' \<Longrightarrow> \<exists>r. dict_get d ''resources'' = JObj r \<and> validate_run_resource_manifest (JObj r) = Inr r"
    and "wf_dict b \<Longrightarrow> wf_dict d"
  using assms
  by (auto simp: normalize_resources_def validate_manifest_idem split: if_splits sum.splits py_error.splits)

lemma cleanup_normal [simp]:
  "k \<noteq> ''resource_cleanup'' \<Longrightarrow> dict_get (normalize_cleanup d) k = dict_get d k"
  "dict_has (normalize_cleanup d) k \<longleftrightarrow> dict_has d k"
  "dict_has d ''resource_cleanup'' \<Longrightarrow> is_dict (dict_get (normalize_cleanup d) ''resource_cleanup'')"
  "wf_dict d \<Longrightarrow> wf_dict (normalize_cleanup d)"
  by (auto simp: normalize_cleanup_def)

lemma normalize_run_fieldsE:
  assumes "normalize_run_fields cwd fallback run = Inr d"
  obtains r where "normalize_resources fallback (normalize_base_fields cwd fallback run) = Inr r"
    and "d = set_default ''updated_at'' JNull (set_default ''created_at'' JNull (normalize_cleanup r))"
  using assms by (auto simp: normalize_run_fields_def res_bind_Inr_iff)

lemma normalize_run_fields_normal:
  assumes "normalize_run_fields cwd fallback run = Inr d" and "fallback \<noteq> []"
  shows "normal_fields d"
proof -
  let ?b = "normalize_base_fields cwd fallback run"
  obtain r where r: "normalize_resources fallback ?b = Inr r"
    and d: "d = set_default ''updated_at'' JNull (set_default ''created_at'' JNull (normalize_cleanup r))"
    using assms(1) by (rule normalize_run_fieldsE)
  note base = base_fields_normal [OF assms(2) refl, of cwd run]
  note res = normalize_resources_facts [OF r]
  show ?thesis using base res(3) by (simp add: normal_fields_def d res(1,2))
qed

lemma normalize_run_fields_frame:
  assumes "normalize_run_fields cwd fallback run = Inr d"
  shows "k \<notin> run_field_names \<Longrightarrow> dict_get d k = dict_get run k \<and> (dict_has d k \<longleftrightarrow> dict_has run k)"
    and "wf_dict run \<Longrightarrow> wf_dict d"
proof -
  let ?b = "normalize_base_fields cwd fallback run"
  obtain r where r: "normalize_resources fallback ?b = Inr r"
    and d: "d = set_default ''updated_at'' JNull (set_default ''created_at'' JNull (normalize_cleanup r))"
    using assms by (rule normalize_run_fieldsE)
  note res = normalize_resources_facts [OF r]
  show "k \<notin> run_field_names \<Longrightarrow> dict_get d k = dict_get run k \<and> (dict_has d k \<longleftrightarrow> dict_has run k)"
    using base_fields_frame(1) [of k cwd fallback run] by (simp add: run_field_names_def d res(1,2))
  show "wf_dict run \<Longrightarrow> wf_dict d" using res(4) base_fields_frame(2) by (simp add: d)
qed

lemma normal_fields_fixed:
  assumes n: "normal_fields d"
  shows "normalize_run_fields cwd fallback d = Inr d"
proof -
  have "normalize_base_fields cwd fallback d = d"
    using n by (simp add: normalize_base_fields_def normal_fields_def set_default_id set_if_falsy_id dict_set_get)
  moreover have "normalize_resources fallback d = Inr d"
    using n by (auto simp: normalize_resources_def normal_fields_def dict_set_same dict_has_iff_map_of dict_get_def
        split: option.splits)
  moreover have "normalize_cleanup d = d"
    using n by (auto simp: normalize_cleanup_def normal_fields_def)
  ultimately show ?thesis
    using n by (simp add: normalize_run_fields_def normal_fields_def set_default_id)
qed

section \<open>Well-formed runs and stores\<close>

definition workers_ok :: "workers \<Rightarrow> bool" where
  "workers_ok ws \<longleftrightarrow> wf_dict ws \<and> (\<forall>(i, w) \<in> set ws. i \<noteq> [] \<and> wf_worker w \<and> worker_id w = JStr i)"

definition wf_run :: "run_record \<Rightarrow> bool" where
  "wf_run run \<longleftrightarrow> wf_dict (rn_fields run) \<and> \<not> dict_has (rn_fields run) ''workers'' \<and> workers_ok (rn_workers run)"

fun snapshot_ok :: "json \<Rightarrow> bool" where
  "snapshot_ok (JObj p) = wf_dict p"
| "snapshot_ok _ = True"

definition stored_run_ok :: "jdict \<Rightarrow> bool" where
  "stored_run_ok d \<longleftrightarrow> wf_dict d \<and> wf_dict (worker_snapshots d) \<and>
     (\<forall>(i, v) \<in> set (worker_snapshots d). i \<noteq> [] \<and> snapshot_ok v)"

fun file_ok :: "stored_file \<Rightarrow> bool" where
  "file_ok (StoredValue (JObj d)) = stored_run_ok d"
| "file_ok _ = True"

definition store_ok :: "run_store \<Rightarrow> bool" where
  "store_ok s \<longleftrightarrow> wf_dict (rs_files s) \<and> (\<forall>f \<in> snd ` set (rs_files s). file_ok f)"

lemma run_worker_ok:
  "wf_run run \<Longrightarrow> run_worker run i = Some w \<Longrightarrow> i \<noteq> [] \<and> wf_worker w \<and> worker_id w = JStr i"
  by (auto simp: wf_run_def workers_ok_def run_worker_def dest!: map_of_SomeD)

lemma in_dict_set: "kv \<in> set (dict_set k v d) \<Longrightarrow> kv = (k, v) \<or> kv \<in> set d"
  by (induction d) (auto simp: dict_set_def split: if_splits)

lemma dict_pop_set_new: "\<not> dict_has d k \<Longrightarrow> dict_pop k (dict_set k v d) = d"
  by (induction d) (auto simp: dict_pop_def dict_set_def dict_has_def filter_id_conv)

lemma workers_ok_set:
  "workers_ok ws \<Longrightarrow> i \<noteq> [] \<Longrightarrow> wf_worker w \<Longrightarrow> worker_id w = JStr i \<Longrightarrow> workers_ok (dict_set i w ws)"
  by (auto simp: workers_ok_def dest!: in_dict_set)

lemma wf_set_run_worker [wf_intros]:
  "wf_run run \<Longrightarrow> i \<noteq> [] \<Longrightarrow> wf_worker w \<Longrightarrow> worker_id w = JStr i \<Longrightarrow> wf_run (set_run_worker run i w)"
  by (simp add: wf_run_def set_run_worker_def workers_ok_set)

lemma wf_set_run_field [wf_intros]: "wf_run run \<Longrightarrow> k \<noteq> ''workers'' \<Longrightarrow> wf_run (set_run_field k v run)"
  by (simp add: wf_run_def set_run_field_def)

lemma res_map_pairs:
  assumes "res_map (\<lambda>(i, x). res_bind (f i x) (\<lambda>y. Inr (i, g y))) xs = Inr ys"
  shows "map fst ys = map fst xs"
    and "(i, z) \<in> set ys \<Longrightarrow> \<exists>x y. (i, x) \<in> set xs \<and> f i x = Inr y \<and> z = g y"
proof -
  have pairs: "list_all2 (\<lambda>(i, x) (j, z). j = i \<and> (\<exists>y. f i x = Inr y \<and> z = g y)) xs ys"
    by (rule list_all2_mono [OF res_map_InrD [OF assms]]) (auto simp: res_bind_Inr_iff)
  then show "map fst ys = map fst xs" by (induction rule: list_all2_induct) auto
  show "(i, z) \<in> set ys \<Longrightarrow> \<exists>x y. (i, x) \<in> set xs \<and> f i x = Inr y \<and> z = g y"
    using pairs by (induction rule: list_all2_induct) auto
qed

lemma hydrate_object: "hydrate_worker_record pf v i version = Inr w \<Longrightarrow> \<exists>p. v = JObj p"
  by (cases v) (simp_all add: hydrate_worker_record_def migrated_persisted_worker_snapshot_def)

lemma hydrate_workers_ok:
  assumes h: "hydrate_workers pf version ws = Inr workers" and wf: "wf_dict ws"
    and ok: "\<forall>(i, v) \<in> set ws. i \<noteq> [] \<and> snapshot_ok v"
  shows "workers_ok workers"
proof -
  note pairs = res_map_pairs [of "\<lambda>i v. hydrate_worker_record pf v i version" "\<lambda>w. w", OF h [unfolded hydrate_workers_def]]
  have "i \<noteq> [] \<and> wf_worker w \<and> worker_id w = JStr i" if iw: "(i, w) \<in> set workers" for i w
  proof -
    obtain v where v: "(i, v) \<in> set ws" "hydrate_worker_record pf v i version = Inr w" using pairs(2) [OF iw] by blast
    obtain p where p: "v = JObj p" using hydrate_object [OF v(2)] ..
    have "i \<noteq> []" "wf_dict p" using ok v(1) p by auto
    then show ?thesis using hydrate_wf [of i p pf version w] v(2) p by blast
  qed
  then show ?thesis using wf pairs(1) by (auto simp: workers_ok_def wf_dict_def)
qed

lemma normalize_run_ok:
  assumes n: "normalize_run pf cwd fallback d = Inr run" and ok: "stored_run_ok d" and "fallback \<noteq> []"
  shows "wf_run run" and "normal_fields (rn_fields run)"
proof -
  obtain e ws workers where e: "normalize_run_fields cwd fallback d = Inr e"
    and ws: "run_worker_snapshots fallback e = Inr ws"
    and h: "hydrate_workers pf (worker_snapshot_schema_version e) ws = Inr workers"
    and run: "run = \<lparr>rn_fields = dict_pop ''workers'' e, rn_workers = workers\<rparr>"
    using n unfolding normalize_run_def by (auto simp: res_bind_Inr_iff)
  have "dict_get e ''workers'' = dict_get d ''workers''"
    using normalize_run_fields_frame(1) [OF e, of "''workers''"] by (simp add: run_field_names_def base_field_names_def)
  then have "ws = worker_snapshots d"
    using ws by (auto simp: run_worker_snapshots_def worker_snapshots_def split: json.splits)
  then have "workers_ok workers" using hydrate_workers_ok [OF h] ok by (simp add: stored_run_ok_def)
  moreover have "wf_dict e" using normalize_run_fields_frame(2) [OF e] ok by (simp add: stored_run_ok_def)
  ultimately show "wf_run run" by (simp add: wf_run_def run)
  show "normal_fields (rn_fields run)"
    using normalize_run_fields_normal [OF e assms(3)] by (simp add: run normal_fields_def)
qed

lemma to_workers_ok:
  assumes "workers_ok ws"
  shows "res_map (\<lambda>(i, w). res_bind (to_worker w) (\<lambda>w'. Inr (i, w'))) ws = Inr ws"
proof -
  have "res_map (\<lambda>(i, w). res_bind (to_worker w) (\<lambda>w'. Inr (i, w'))) ws = Inr (map (\<lambda>x. x) ws)"
    using assms by (intro res_map_Inr) (auto simp: workers_ok_def)
  then show ?thesis by simp
qed

lemma normalize_hydrated_ok:
  assumes n: "normalize_hydrated_run cwd fallback run = Inr run'" and ok: "wf_run run"
  shows "wf_run run'" and "rn_workers run' = rn_workers run"
    and "normalize_run_fields cwd fallback (rn_fields run) = Inr (rn_fields run')"
proof -
  have "workers_ok (rn_workers run)" using ok by (simp add: wf_run_def)
  then obtain d where d: "normalize_run_fields cwd fallback (rn_fields run) = Inr d"
    and run': "run' = \<lparr>rn_fields = d, rn_workers = rn_workers run\<rparr>"
    using n unfolding normalize_hydrated_run_def by (auto simp: res_bind_Inr_iff to_workers_ok)
  show "rn_workers run' = rn_workers run" "normalize_run_fields cwd fallback (rn_fields run) = Inr (rn_fields run')"
    using d by (simp_all add: run')
  show "wf_run run'"
    using ok normalize_run_fields_frame(1) [OF d, of "''workers''"] normalize_run_fields_frame(2) [OF d]
    by (simp add: wf_run_def run' run_field_names_def base_field_names_def)
qed

section \<open>Writing and reading back\<close>

lemma stored_worker_any:
  assumes w: "wf_worker w" and wid: "worker_id w = JStr wid" "wid \<noteq> []"
    and p: "\<And>v. persisted = Some v \<Longrightarrow> snapshot_ok v"
    and st: "normalize_worker_record_for_storage pf w wid version persisted = Inr d"
  shows "wf_dict d" and "coerced_schema_version version = Inr n \<Longrightarrow> hydrate_worker_record pf (JObj d) wid version = Inr w"
proof -
  have snap: "worker_record_snapshot_fields w wid = Inr (snapshot_of w)"
    using map_of_snapshot_of [OF w, of F_id] wid
    by (simp add: worker_record_snapshot_fields_def to_snapshot_wf [OF w] worker_id_def dict_set_same)
  show "wf_dict d"
    using st by (auto simp: normalize_worker_record_for_storage_def snap res_bind_Inr_iff wf_dict_snapshot_of
        split: option.splits)
  show "hydrate_worker_record pf (JObj d) wid version = Inr w" if v: "coerced_schema_version version = Inr n"
  proof (cases persisted)
    case None
    then have "d = snapshot_of w" using st by (simp add: normalize_worker_record_for_storage_def snap)
    then show ?thesis by (simp add: hydrate_snapshot [OF w wid wf_dict_snapshot_of v])
  next
    case (Some x)
    then obtain q where q: "x = JObj q"
      using st by (cases x) (auto simp: normalize_worker_record_for_storage_def snap migrated_persisted_worker_snapshot_def)
    show ?thesis
      by (rule stored_worker(1) [OF w wid v _ st [unfolded Some q]]) (use p [OF Some] q in simp)
  qed
qed

definition stored_as :: "(string \<Rightarrow> pyfloat option) \<Rightarrow> json \<Rightarrow> string \<times> worker_record \<Rightarrow> string \<times> json \<Rightarrow> bool" where
  "stored_as pf version = (\<lambda>(i, w) (j, v). j = i \<and> (\<exists>d. v = JObj d \<and> wf_dict d \<and>
     ((\<exists>n. coerced_schema_version version = Inr n) \<longrightarrow> hydrate_worker_record pf v i version = Inr w)))"

lemma hydrate_stored:
  assumes "list_all2 (stored_as pf version) ws vs" and "coerced_schema_version version = Inr n"
  shows "hydrate_workers pf version vs = Inr ws"
  using assms(1) by (induction rule: list_all2_induct) (auto simp: hydrate_workers_def stored_as_def assms(2))

lemma persisted_worker_ok:
  "stored_run_ok d \<Longrightarrow> persisted_worker (worker_snapshots d) i = Some v \<Longrightarrow> snapshot_ok v"
  by (auto simp: persisted_worker_def stored_run_ok_def split: option.splits if_splits dest!: map_of_SomeD)

lemma normalize_for_storage_ok:
  assumes n: "normalize_run_for_storage pf cwd fallback persisted run = Inr stored"
    and ok: "wf_run run" "normal_fields (rn_fields run)" and p: "\<And>d. persisted = Some d \<Longrightarrow> stored_run_ok d"
  shows "\<exists>vs. stored = dict_set ''workers'' (JObj vs) (rn_fields run) \<and>
    list_all2 (stored_as pf (dict_get (rn_fields run) ''schema_version'')) (rn_workers run) vs"
proof -
  let ?version = "dict_get (rn_fields run) ''schema_version''"
  define old where "old = (case persisted of None \<Rightarrow> [] | Some p \<Rightarrow> worker_snapshots p)"
  have old: "persisted_worker old i = Some v \<Longrightarrow> snapshot_ok v" for i v
    using p persisted_worker_ok by (cases persisted) (auto simp: old_def persisted_worker_def)
  have version: "worker_snapshot_schema_version (rn_fields run) = ?version"
    using ok(2) by (auto simp: normal_fields_def worker_snapshot_schema_version_def dict_get_def dict_has_iff_map_of)
  obtain vs where vs: "res_map (\<lambda>(i, w). res_bind (normalize_worker_record_for_storage pf w i ?version (persisted_worker old i))
      (\<lambda>s. Inr (i, JObj s))) (rn_workers run) = Inr vs" and stored: "stored = dict_set ''workers'' (JObj vs) (rn_fields run)"
    using n unfolding normalize_run_for_storage_def Let_def normal_fields_fixed [OF ok(2)] old_def [symmetric]
    by (auto simp: version res_bind_Inr_iff)
  have "list_all2 (stored_as pf ?version) (rn_workers run) vs"
  proof (rule list.rel_mono_strong [OF res_map_InrD [OF vs]])
    fix x y
    assume x: "x \<in> set (rn_workers run)"
      and y: "(case x of (i, w) \<Rightarrow> res_bind (normalize_worker_record_for_storage pf w i ?version (persisted_worker old i))
        (\<lambda>s. Inr (i, JObj s))) = Inr y"
    obtain i w where iw: "x = (i, w)" by (cases x)
    obtain d where d: "normalize_worker_record_for_storage pf w i ?version (persisted_worker old i) = Inr d"
      and yd: "y = (i, JObj d)"
      using y by (auto simp: iw res_bind_Inr_iff)
    have w: "i \<noteq> []" "wf_worker w" "worker_id w = JStr i"
      using ok(1) x by (auto simp: wf_run_def workers_ok_def iw)
    show "stored_as pf ?version x y"
      using stored_worker_any [OF w(2,3,1) old d] by (auto simp: stored_as_def iw yd)
  qed
  with stored show ?thesis by blast
qed

lemma stored_run:
  assumes vs: "list_all2 (stored_as pf (dict_get (rn_fields run) ''schema_version'')) (rn_workers run) vs"
    and ok: "wf_run run" "normal_fields (rn_fields run)"
  shows "stored_run_ok (dict_set ''workers'' (JObj vs) (rn_fields run))"
    and "coerced_schema_version (dict_get (rn_fields run) ''schema_version'') = Inr n \<Longrightarrow>
      normalize_run pf cwd fallback (dict_set ''workers'' (JObj vs) (rn_fields run)) = Inr run"
proof -
  let ?d = "dict_set ''workers'' (JObj vs) (rn_fields run)"
  have keys: "map fst vs = map fst (rn_workers run)"
    using vs by (induction rule: list_all2_induct) (auto simp: stored_as_def)
  have "snapshot_ok v \<and> i \<in> set (map fst (rn_workers run))" if "(i, v) \<in> set vs" for i v
    using vs that by (induction rule: list_all2_induct) (auto simp: stored_as_def)
  moreover have "\<forall>i \<in> set (map fst (rn_workers run)). i \<noteq> []" using ok(1) by (auto simp: wf_run_def workers_ok_def)
  ultimately have "\<forall>(i, v) \<in> set vs. i \<noteq> [] \<and> snapshot_ok v" by blast
  moreover have "wf_dict vs" using ok(1) keys by (auto simp: wf_run_def workers_ok_def wf_dict_def)
  ultimately show "stored_run_ok ?d"
    using ok(1) by (simp add: stored_run_ok_def worker_snapshots_def wf_run_def)
  assume n: "coerced_schema_version (dict_get (rn_fields run) ''schema_version'') = Inr n"
  have normal: "normal_fields ?d" using ok(2) by (simp add: normal_fields_def)
  have version: "worker_snapshot_schema_version ?d = dict_get (rn_fields run) ''schema_version''"
    using ok(2) by (auto simp: normal_fields_def worker_snapshot_schema_version_def dict_get_def dict_has_iff_map_of)
  have "dict_pop ''workers'' ?d = rn_fields run"
    using ok(1) by (simp add: wf_run_def dict_pop_set_new)
  then show "normalize_run pf cwd fallback ?d = Inr run"
    by (simp add: normalize_run_def normal_fields_fixed [OF normal] run_worker_snapshots_def version hydrate_stored [OF vs n])
qed

section \<open>Operations of the store\<close>

lemma as_store_error_Inr [simp]: "as_store_error r = Inr x \<longleftrightarrow> r = Inr x"
  by (auto simp: as_store_error_def split: sum.splits py_error.splits)

lemma run_path_Inr: "run_path name = Inr path \<longleftrightarrow> valid_run_name name \<and> path = name"
  by (auto simp: run_path_def)

lemma run_path_of_field_Inr: "run_path_of_field v = Inr path \<longleftrightarrow> v = JStr path \<and> valid_run_name path"
  by (auto simp: run_path_of_field_def run_path_Inr split: json.splits)

lemma read_run_data_Inr:
  "read_run_data s name = Inr d \<longleftrightarrow> valid_run_name name \<and> map_of (rs_files s) name = Some (StoredValue (JObj d))"
  by (auto simp: read_run_data_def res_bind_Inr_iff run_path_Inr split: option.splits stored_file.splits json.splits)

lemma valid_run_name_nonempty: "valid_run_name name \<Longrightarrow> name \<noteq> []"
  by (simp add: valid_run_name_def)

lemma store_ok_file: "store_ok s \<Longrightarrow> map_of (rs_files s) n = Some f \<Longrightarrow> file_ok f"
  by (force simp: store_ok_def dest: map_of_SomeD)

lemma read_run_data_ok: "store_ok s \<Longrightarrow> read_run_data s name = Inr d \<Longrightarrow> stored_run_ok d \<and> name \<noteq> []"
  by (auto simp: read_run_data_Inr valid_run_name_nonempty dest: store_ok_file)

lemma store_ok_set: "store_ok s \<Longrightarrow> file_ok f \<Longrightarrow> store_ok (s\<lparr>rs_files := dict_set n f (rs_files s)\<rparr>)"
  by (auto simp: store_ok_def dest!: in_dict_set)

lemma store_ok_pop: "store_ok s \<Longrightarrow> store_ok (s\<lparr>rs_files := dict_pop n (rs_files s)\<rparr>)"
  by (auto simp: store_ok_def dict_pop_def wf_dict_def distinct_map_filter)

definition run_named :: "string \<Rightarrow> run_record \<Rightarrow> bool" where
  "run_named name run \<longleftrightarrow> dict_get (rn_fields run) ''name'' = JStr name"

text \<open>The schema version of the run can be read.\<close>

definition readable :: "run_record \<Rightarrow> bool" where
  "readable run \<longleftrightarrow> (\<exists>n. coerced_schema_version (dict_get (rn_fields run) ''schema_version'') = Inr n)"

definition good_run :: "string \<Rightarrow> run_record \<Rightarrow> bool" where
  "good_run name run \<longleftrightarrow> wf_run run \<and> run_named name run \<and> readable run"

definition same_files_but :: "string \<Rightarrow> run_store \<Rightarrow> run_store \<Rightarrow> bool" where
  "same_files_but name s s' \<longleftrightarrow> rs_root s' = rs_root s \<and>
     (\<forall>other. other \<noteq> name \<longrightarrow> map_of (rs_files s') other = map_of (rs_files s) other)"

lemma write_run_ok:
  assumes w: "write_run pf cwd persisted run s = Inr s'" and s: "store_ok s"
    and ok: "wf_run run" "normal_fields (rn_fields run)" and p: "\<And>d. persisted = Some d \<Longrightarrow> stored_run_ok d"
  shows "\<exists>name. dict_get (rn_fields run) ''name'' = JStr name \<and> store_ok s' \<and> same_files_but name s s' \<and>
    (readable run \<longrightarrow> load_run pf cwd' name s' = Inr run)"
proof -
  let ?version = "dict_get (rn_fields run) ''schema_version''"
  obtain stored path where st: "normalize_run_for_storage pf cwd (py_str (dict_get (rn_fields run) ''name'')) persisted run = Inr stored"
    and path: "run_path_of_field (dict_get stored ''name'') = Inr path"
    and s': "s' = s\<lparr>rs_files := dict_set path (StoredValue (JObj stored)) (rs_files s)\<rparr>"
    using w by (auto simp: write_run_def res_bind_Inr_iff)
  obtain vs where stored: "stored = dict_set ''workers'' (JObj vs) (rn_fields run)"
    and vs: "list_all2 (stored_as pf ?version) (rn_workers run) vs"
    using normalize_for_storage_ok [OF st ok p] by blast
  note run = stored_run [OF vs ok, folded stored]
  have name: "dict_get (rn_fields run) ''name'' = JStr path" "valid_run_name path"
    using path by (simp_all add: stored run_path_of_field_Inr)
  show ?thesis
  proof (intro exI [of _ path] conjI impI)
    show "dict_get (rn_fields run) ''name'' = JStr path" by (rule name(1))
    show "store_ok s'" unfolding s' by (rule store_ok_set [OF s]) (simp add: run(1))
    show "same_files_but path s s'" by (simp add: s' same_files_but_def)
    assume "readable run"
    then show "load_run pf cwd' path s' = Inr run"
      using name(2) run(2)
      by (auto simp: readable_def load_run_def normalize_for_store_def res_bind_Inr_iff read_run_data_Inr s')
  qed
qed

lemma load_run_ok:
  assumes "store_ok s" and "load_run pf cwd name s = Inr run"
  shows "wf_run run" and "normal_fields (rn_fields run)"
proof -
  obtain d where d: "read_run_data s name = Inr d" "normalize_run pf cwd name d = Inr run"
    using assms(2) by (auto simp: load_run_def normalize_for_store_def res_bind_Inr_iff)
  have ok: "stored_run_ok d" "name \<noteq> []" using read_run_data_ok [OF assms(1) d(1)] by auto
  show "wf_run run" "normal_fields (rn_fields run)" using normalize_run_ok [OF d(2) ok] by auto
qed

lemma normalize_run_fields_kept:
  assumes "normalize_run_fields cwd fallback run = Inr d"
  shows "py_truthy (dict_get run ''name'') \<Longrightarrow> dict_get d ''name'' = dict_get run ''name''"
    and "\<not> py_truthy (dict_get run ''name'') \<Longrightarrow> dict_get d ''name'' = JStr fallback"
    and "dict_get d ''schema_version'' = (if dict_has run ''schema_version'' then dict_get run ''schema_version'' else SCHEMA_VERSION)"
proof -
  let ?b = "normalize_base_fields cwd fallback run"
  obtain r where r: "normalize_resources fallback ?b = Inr r"
    and d: "d = set_default ''updated_at'' JNull (set_default ''created_at'' JNull (normalize_cleanup r))"
    using assms by (rule normalize_run_fieldsE)
  note get = normalize_resources_facts(1) [OF r]
  show "py_truthy (dict_get run ''name'') \<Longrightarrow> dict_get d ''name'' = dict_get run ''name''"
    "\<not> py_truthy (dict_get run ''name'') \<Longrightarrow> dict_get d ''name'' = JStr fallback"
    "dict_get d ''schema_version'' = (if dict_has run ''schema_version'' then dict_get run ''schema_version'' else SCHEMA_VERSION)"
    by (simp_all add: d get normalize_base_fields_def Let_def)
qed

text \<open>
  Every file holds a run of its own name (or of no name, which reads as the file's), with a schema
  version that can be read.
\<close>

definition well_filed :: "run_store \<Rightarrow> bool" where
  "well_filed s \<longleftrightarrow> (\<forall>name d. map_of (rs_files s) name = Some (StoredValue (JObj d)) \<longrightarrow>
     (py_truthy (dict_get d ''name'') \<longrightarrow> dict_get d ''name'' = JStr name) \<and>
     (\<exists>n. coerced_schema_version (worker_snapshot_schema_version d) = Inr n))"

definition sound_store :: "run_store \<Rightarrow> bool" where
  "sound_store s \<longleftrightarrow> store_ok s \<and> well_filed s"

lemma snapshot_schema_version:
  "worker_snapshot_schema_version d = (if dict_has d ''schema_version'' then dict_get d ''schema_version'' else SCHEMA_VERSION)"
  by (auto simp: worker_snapshot_schema_version_def dict_get_def dict_has_iff_map_of)

lemma load_run_good:
  assumes s: "sound_store s" and "load_run pf cwd name s = Inr run"
  shows "good_run name run" and "normal_fields (rn_fields run)"
proof -
  have ok: "store_ok s" "well_filed s" using s by (simp_all add: sound_store_def)
  obtain d where d: "map_of (rs_files s) name = Some (StoredValue (JObj d))" "normalize_run pf cwd name d = Inr run"
    using assms(2) by (auto simp: load_run_def normalize_for_store_def res_bind_Inr_iff read_run_data_Inr)
  obtain e where e: "normalize_run_fields cwd name d = Inr e" "rn_fields run = dict_pop ''workers'' e"
    using d(2) by (auto simp: normalize_run_def res_bind_Inr_iff)
  note kept = normalize_run_fields_kept [OF e(1)]
  have "run_named name run"
    using kept(1,2) ok(2) d(1) by (cases "py_truthy (dict_get d ''name'')") (auto simp: run_named_def e(2) well_filed_def)
  moreover have "readable run"
    using kept(3) ok(2) d(1) by (auto simp: readable_def e(2) well_filed_def snapshot_schema_version)
  ultimately show "good_run name run" using load_run_ok(1) [OF ok(1) assms(2)] by (simp add: good_run_def)
  show "normal_fields (rn_fields run)" by (rule load_run_ok(2) [OF ok(1) assms(2)])
qed

lemma same_files_load:
  assumes "same_files_but name s s'" and "other \<noteq> name"
  shows "load_run pf cwd other s' = load_run pf cwd other s"
proof -
  have "rs_root s' = rs_root s" "map_of (rs_files s') other = map_of (rs_files s) other"
    using assms by (simp_all add: same_files_but_def)
  then have "read_run_data s' other = read_run_data s other"
    unfolding read_run_data_def missing_error_def run_file_text_def
    by (cases "valid_run_name other") (simp_all only: run_path_def res_bind_simps if_True if_False)
  then show ?thesis by (simp add: load_run_def)
qed

text \<open>A mutator keeps the run's well-formedness, its name and that its version can be read.\<close>

definition keeps_run :: "string \<Rightarrow> (run_record \<Rightarrow> run_record result) \<Rightarrow> bool" where
  "keeps_run name m \<longleftrightarrow> (\<forall>r r'. good_run name r \<longrightarrow> m r = Inr r' \<longrightarrow> good_run name r')"

lemma write_run_good:
  assumes w: "write_run pf cwd persisted run s = Inr s'" and s: "sound_store s"
    and ok: "good_run name run" "normal_fields (rn_fields run)" and p: "\<And>d. persisted = Some d \<Longrightarrow> stored_run_ok d"
  shows "sound_store s'" and "same_files_but name s s'" and "load_run pf cwd' name s' = Inr run"
proof -
  have st: "store_ok s" "well_filed s" using s by (simp_all add: sound_store_def)
  have run: "wf_run run" "run_named name run" "readable run" using ok(1) by (simp_all add: good_run_def)
  obtain stored path where sto: "normalize_run_for_storage pf cwd (py_str (dict_get (rn_fields run) ''name'')) persisted run = Inr stored"
    and path: "run_path_of_field (dict_get stored ''name'') = Inr path"
    and s': "s' = s\<lparr>rs_files := dict_set path (StoredValue (JObj stored)) (rs_files s)\<rparr>"
    using w by (auto simp: write_run_def res_bind_Inr_iff)
  obtain vs where stored: "stored = dict_set ''workers'' (JObj vs) (rn_fields run)"
    using normalize_for_storage_ok [OF sto run(1) ok(2) p] by blast
  have "path = name" using path run(2) by (simp add: stored run_path_of_field_Inr run_named_def)
  moreover have "dict_has (rn_fields run) ''schema_version''" using ok(2) by (simp add: normal_fields_def)
  ultimately have filed: "well_filed s'"
    using st(2) run(2,3) by (auto simp: s' stored well_filed_def run_named_def readable_def snapshot_schema_version)
  obtain name' where name': "dict_get (rn_fields run) ''name'' = JStr name'" and store: "store_ok s'" "same_files_but name' s s'"
    "readable run \<longrightarrow> load_run pf cwd' name' s' = Inr run"
    using write_run_ok [OF w st(1) run(1) ok(2) p, of cwd'] by blast
  have "name' = name" using name' run(2) by (simp add: run_named_def)
  with store filed run(3) show "sound_store s'" "same_files_but name s s'" "load_run pf cwd' name s' = Inr run"
    by (simp_all add: sound_store_def)
qed

lemma update_run_sound:
  assumes u: "update_run pf cwd name m allow s = Inr (run', s')" and s: "sound_store s" and m: "keeps_run name m"
  obtains run run1 where "load_run pf cwd name s = Inr run" and "good_run name run"
    and "allow \<or> \<not> cleanup_in_progress run" and "m run = Inr run1"
    and "normalize_run_fields cwd name (rn_fields run1) = Inr (rn_fields run')" and "rn_workers run' = rn_workers run1"
    and "good_run name run'" and "sound_store s'" and "same_files_but name s s'"
    and "load_run pf cwd' name s' = Inr run'"
proof -
  obtain d run run1 where d: "read_run_data s name = Inr d" and run: "normalize_for_store pf cwd name d = Inr run"
    and fence: "allow \<or> \<not> cleanup_in_progress run" and run1: "m run = Inr run1"
    and run': "normalize_hydrated_for_store cwd name run1 = Inr run'"
    and w: "write_run pf cwd (Some d) run' s = Inr s'"
    using u by (auto simp: update_run_def res_bind_Inr_iff split: if_splits)
  have load: "load_run pf cwd name s = Inr run" by (simp add: load_run_def d run)
  note good = load_run_good(1) [OF s load]
  have good1: "good_run name run1" using m good run1 unfolding keeps_run_def by blast
  have stored: "stored_run_ok d" and name: "name \<noteq> []"
    using read_run_data_ok [OF _ d] s by (auto simp: sound_store_def)
  have hyd: "normalize_hydrated_run cwd name run1 = Inr run'" using run' by (simp add: normalize_hydrated_for_store_def)
  have "wf_run run1" using good1 by (simp add: good_run_def)
  note ok' = normalize_hydrated_ok [OF hyd this]
  note kept = normalize_run_fields_kept [OF ok'(3)]
  have "run_named name run'" using kept(1) good1 name by (simp add: good_run_def run_named_def)
  moreover have "readable run'"
    using kept(3) good1
    by (auto simp: good_run_def readable_def SCHEMA_VERSION_def coerced_schema_version_def caught_int_def int_or_def)
  ultimately have good': "good_run name run'" using ok'(1) by (simp add: good_run_def)
  have p: "stored_run_ok d'" if "Some d = Some d'" for d' using stored that by simp
  note wr = write_run_good [OF w s good' normalize_run_fields_normal [OF ok'(3) name] p]
  show ?thesis by (rule that [OF load good fence run1 ok'(3,2) good' wr])
qed

lemma create_run_sound:
  assumes c: "create_run pf cwd name directory url now s = Inr (run, s')" and s: "sound_store s"
  shows "map_of (rs_files s) name = None" and "good_run name run" and "rn_workers run = []"
    and "sound_store s'" and "same_files_but name s s'" and "load_run pf cwd' name s' = Inr run"
proof -
  let ?new = "new_run_record name directory url now"
  have n: "normalize_run pf cwd name ?new = Inr run" and name: "valid_run_name name"
    and free: "map_of (rs_files s) name = None" and w: "write_run pf cwd None run s = Inr s'"
    using c by (auto simp: create_run_def normalize_for_store_def res_bind_Inr_iff run_path_Inr split: if_splits)
  have new: "stored_run_ok ?new"
    by (simp add: stored_run_ok_def new_run_record_def wf_dict_def worker_snapshots_def)
  note ne = valid_run_name_nonempty [OF name]
  note ok = normalize_run_ok [OF n new ne]
  obtain e where e: "normalize_run_fields cwd name ?new = Inr e" and run: "rn_fields run = dict_pop ''workers'' e"
    using n by (auto simp: normalize_run_def res_bind_Inr_iff)
  note kept = normalize_run_fields_kept [OF e]
  have named: "run_named name run"
    using kept(1) ne by (simp add: run_named_def run new_run_record_def)
  have "dict_get e ''schema_version'' = SCHEMA_VERSION" using kept(3) by (simp add: new_run_record_def dict_has_def)
  then have "readable run"
    by (simp add: readable_def run SCHEMA_VERSION_def coerced_schema_version_def caught_int_def int_or_def)
  with named ok(1) show good: "good_run name run" by (simp add: good_run_def)
  show "map_of (rs_files s) name = None" by (rule free)
  have none: "stored_run_ok d'" if "None = Some d'" for d' using that by simp
  show "sound_store s'" "same_files_but name s s'" "load_run pf cwd' name s' = Inr run"
    by (rule write_run_good [OF w s good ok(2) none]; assumption)+
  have "dict_get e ''workers'' = JObj []"
    using normalize_run_fields_frame(1) [OF e, of "''workers''"]
    by (simp add: new_run_record_def run_field_names_def base_field_names_def)
  then show "rn_workers run = []"
    using n e by (auto simp: normalize_run_def res_bind_Inr_iff run_worker_snapshots_def hydrate_workers_def)
qed

lemma delete_run_sound:
  assumes d: "delete_run pf cwd name expected s = Inr s'" and s: "sound_store s"
  shows "sound_store s'" and "same_files_but name s s'" and "map_of (rs_files s') name = None"
    and "map_of (rs_files s) name \<noteq> None"
    and "expected = Some e \<Longrightarrow> \<exists>current. load_run pf cwd name s = Inr current \<and> runs_equal current e = Inr True"
proof -
  have s': "s' = s\<lparr>rs_files := dict_pop name (rs_files s)\<rparr>" and there: "map_of (rs_files s) name \<noteq> None"
    and same: "(case expected of None \<Rightarrow> Inr True
       | Some e \<Rightarrow> res_bind (load_run pf cwd name s) (\<lambda>current. runs_equal current e)) = Inr True"
    using d by (auto simp: delete_run_def res_bind_Inr_iff run_path_Inr split: if_splits)
  show "sound_store s'" using s by (simp add: sound_store_def s' store_ok_pop well_filed_def)
  show "same_files_but name s s'" "map_of (rs_files s') name = None" "map_of (rs_files s) name \<noteq> None"
    using there by (simp_all add: s' same_files_but_def)
  show "expected = Some e \<Longrightarrow> \<exists>current. load_run pf cwd name s = Inr current \<and> runs_equal current e = Inr True"
    using same by (auto simp: res_bind_Inr_iff)
qed

section \<open>The contract of the store\<close>

text \<open>
  What a client of the store relies on: a run that is loaded is well formed and has its file's name; an
  update applies the mutator to the loaded run, the returned run is the one that is loaded next, and
  no other run changes.
\<close>

locale run_storage =
  fixes ok :: "'s \<Rightarrow> bool"
    and load :: "string \<Rightarrow> 's \<Rightarrow> run_record result"
    and update :: "string \<Rightarrow> (run_record \<Rightarrow> run_record result) \<Rightarrow> 's \<Rightarrow> (run_record \<times> 's) result"
  assumes load_good: "ok s \<Longrightarrow> load n s = Inr r \<Longrightarrow> good_run n r"
    and update_ok: "ok s \<Longrightarrow> keeps_run n m \<Longrightarrow> update n m s = Inr (r', s') \<Longrightarrow> ok s'"
    and update_applies: "ok s \<Longrightarrow> keeps_run n m \<Longrightarrow> update n m s = Inr (r', s') \<Longrightarrow>
      \<exists>r r1. load n s = Inr r \<and> m r = Inr r1 \<and> rn_workers r' = rn_workers r1 \<and>
        (\<forall>k. k \<notin> run_field_names \<longrightarrow> dict_get (rn_fields r') k = dict_get (rn_fields r1) k)"
    and update_load: "ok s \<Longrightarrow> keeps_run n m \<Longrightarrow> update n m s = Inr (r', s') \<Longrightarrow> load n s' = Inr r'"
    and update_others: "ok s \<Longrightarrow> keeps_run n m \<Longrightarrow> update n m s = Inr (r', s') \<Longrightarrow> n' \<noteq> n \<Longrightarrow> load n' s' = load n' s"

context run_storage
begin

lemma update_good: "ok s \<Longrightarrow> keeps_run n m \<Longrightarrow> update n m s = Inr (r', s') \<Longrightarrow> good_run n r'"
  by (rule load_good [OF update_ok update_load])

lemma updates_ok:
  assumes "res_fold (\<lambda>(r, s) (n, m). update n m s) (r0, s0) ops = Inr (r, s)" and "ok s0"
    and "\<forall>(n, m) \<in> set ops. keeps_run n m"
  shows "ok s" and "n \<notin> fst ` set ops \<Longrightarrow> load n s = load n s0"
proof -
  have "ok s \<and> (n \<notin> fst ` set ops \<longrightarrow> load n s = load n s0)"
    using assms
  proof (induction ops arbitrary: r0 s0)
    case (Cons op ops)
    obtain i m where op: "op = (i, m)" by (cases op)
    obtain r1 s1 where u: "update i m s0 = Inr (r1, s1)"
      and rest: "res_fold (\<lambda>(r, s) (n, m). update n m s) (r1, s1) ops = Inr (r, s)"
      using Cons.prems(1) by (auto simp: op res_bind_Inr_iff)
    have k: "keeps_run i m" using Cons.prems(3) by (simp add: op)
    have "ok s1" by (rule update_ok [OF Cons.prems(2) k u])
    from Cons.IH [OF rest this] Cons.prems(3) update_others [OF Cons.prems(2) k u]
    show ?case by (auto simp: op)
  qed simp
  then show "ok s" "n \<notin> fst ` set ops \<Longrightarrow> load n s = load n s0" by blast+
qed

end

interpretation file_store: run_storage sound_store "load_run pf cwd" "\<lambda>name m. update_run pf cwd name m allow"
proof
  fix s s' :: run_store and n n' :: string and r' :: run_record and m
  assume s: "sound_store s" and m: "keeps_run n m" and u: "update_run pf cwd n m allow s = Inr (r', s')"
  show "sound_store s'" "load_run pf cwd n s' = Inr r'"
    by (rule update_run_sound [OF u s m]; blast)+
  show "\<exists>r r1. load_run pf cwd n s = Inr r \<and> m r = Inr r1 \<and> rn_workers r' = rn_workers r1 \<and>
      (\<forall>k. k \<notin> run_field_names \<longrightarrow> dict_get (rn_fields r') k = dict_get (rn_fields r1) k)"
    by (rule update_run_sound [OF u s m]) (blast dest: normalize_run_fields_frame(1))
  show "load_run pf cwd n' s' = load_run pf cwd n' s" if "n' \<noteq> n"
    by (rule update_run_sound [OF u s m]) (rule same_files_load [OF _ that])
qed (rule load_run_good(1))

end
