(* ===== verification/Worker_Identity.thy ===== *)
theory Worker_Identity
  imports Transition_Totality
begin

text \<open>
  A transition addressed to a worker keeps the worker's id: the reducers write the id they are addressed
  to, and no other field named \<open>id\<close>.
\<close>

definition has_id :: "string \<Rightarrow> worker_record \<Rightarrow> bool" where
  "has_id i w \<longleftrightarrow> wr_slots w F_id = JStr i"

named_theorems id_intros

lemma has_id_put [id_intros]: "has_id i w \<Longrightarrow> (f = F_id \<Longrightarrow> v = JStr i) \<Longrightarrow> has_id i (put_field w f v)"
  by (auto simp: has_id_def)

lemma has_id_drop [id_intros]: "has_id i w \<Longrightarrow> f \<noteq> F_id \<Longrightarrow> has_id i (drop_field w f)"
  by (simp add: has_id_def)

lemma has_id_put_id [id_intros]: "has_id i (put_field w F_id (JStr i))"
  by (simp add: has_id_def)

lemma has_id_effect: "effect w S l w' \<Longrightarrow> F_id \<notin> S \<Longrightarrow> has_id i w \<Longrightarrow> has_id i w'"
  by (simp add: has_id_def effect_def)

lemma has_id_if [id_intros]: "has_id i a \<Longrightarrow> has_id i b \<Longrightarrow> has_id i (if c then a else b)"
  by simp

lemma has_id_option [id_intros]:
  "has_id i w \<Longrightarrow> has_id i (case v of None \<Rightarrow> w | Some x \<Rightarrow> put_field w F_timeout_started_at x)"
  by (auto simp: has_id_def split: option.split)

lemmas reducer_defs = reduce_active_transition_def reduce_failed_transition_def reduce_dependency_blocked_transition_def
  reduce_aborted_transition_def reduce_retry_scheduled_transition_def reduce_timed_out_transition_def
  reduce_result_applied_transition_def reduce_cleanup_updated_transition_def

lemma spec_reducer_id:
  assumes wf: "wf_worker w" and i: "wt_worker_id tr = i" "i \<noteq> []" "has_id i w"
    and ns: "payload_name p \<noteq> T_SNAPSHOT_APPLIED"
    and p: "require_transition_payload tr = Inr p"
    and target: "worker_transition_target_lifecycle_state tr = Inr target"
    and red: "spec_reducer w tr target p = Inr w'"
  shows "has_id i w'"
proof (cases p)
  case (P_AttemptStarted a)
  with red obtain u where "reduce_attempt_started_transition w a = Inr u" "w' = u" by simp
  with reduce_attempt_started_effect [OF wf, of a] i(3) show ?thesis by (auto intro: has_id_effect)
next
  case (P_SnapshotApplied patch)
  with ns show ?thesis by simp
qed (use assms payload_resolver [OF p] in
  \<open>auto simp: reducer_defs removable_fields_eq set_canonical_field_def res_bind_Inr_iff
      split: if_splits intro!: id_intros\<close>)

lemma passthrough_id:
  assumes "apply_accepted_abort_passthrough w latest p = Inr w'" and "has_id i w" and "payload_name p \<noteq> T_SNAPSHOT_APPLIED"
  shows "has_id i w'"
  using assms by (cases p) (auto split: if_splits intro!: id_intros)

lemma reduce_payload_id:
  assumes wf: "wf_worker w" and i: "wt_worker_id tr = i" "i \<noteq> []" "has_id i w"
    and ns: "wt_name tr \<noteq> T_SNAPSHOT_APPLIED" and r: "reduce_worker_transition_payload w tr = Inr w'"
  shows "has_id i w'"
proof -
  from r obtain p target w1 where p: "require_transition_payload tr = Inr p"
    and t: "worker_transition_target_lifecycle_state tr = Inr target"
    and w1: "spec_reducer w tr target p = Inr w1"
    and w': "accepted_abort_terminal_invariant w w1 p = Inr w'"
    by (auto simp: reduce_worker_transition_payload_def res_bind_Inr_iff)
  have pn: "payload_name p \<noteq> T_SNAPSHOT_APPLIED" using payload_name_of [OF p] ns by simp
  have "has_id i w1" by (rule spec_reducer_id [OF wf i pn p t w1])
  with w' wf i(3) pn show ?thesis
    by (auto simp: accepted_abort_terminal_invariant_def split: if_splits elim: passthrough_id)
qed

lemma apply_transition_id:
  assumes wf: "wf_worker w" and i: "wt_worker_id tr = i" "i \<noteq> []" "has_id i w"
    and ns: "wt_name tr \<noteq> T_SNAPSHOT_APPLIED" and a: "apply_transition w tr = Inr w'"
  shows "has_id i w'"
proof -
  have wid: "wt_worker_id tr \<noteq> []" using i by simp
  have "has_id i (finalized w1 fin)" if "reduce_worker_transition_payload w tr = Inr w1" for w1 fin
    using has_id_effect [OF finalized_effect [OF wf_reduce_payload [OF wf wid that]] _ reduce_payload_id [OF wf i ns that]]
    by simp
  with a i(3) show ?thesis by (auto simp: apply_transition_eq [OF wf wid] res_bind_Inr_iff split: if_splits)
qed

end
