(* ===== verification/Run_Persistence.thy ===== *)
theory Run_Persistence
  imports Store_Facts Worker_Identity
begin

text \<open>
  \<open>run_persistence.py\<close> and \<open>multi_worker_orchestration_persistence.py\<close>: changes of a run are written
  through the store's \<open>update_run\<close>, which is the parameter \<open>update\<close> (without permission to update
  during a cleanup). The clock is the parameter \<open>now\<close>, read in the state of the store; the
  function that refreshes the summary of a run is the parameter \<open>refresh\<close>.
\<close>

section \<open>Operations\<close>

type_synonym 's updater = "string \<Rightarrow> (run_record \<Rightarrow> run_record result) \<Rightarrow> 's \<Rightarrow> (run_record \<times> 's) result"

text \<open>\<open>run["name"]\<close>, which the store first turns into the path of the lock.\<close>

definition run_name :: "run_record \<Rightarrow> string result" where
  "run_name run = (case map_of (rn_fields run) ''name'' of None \<Rightarrow> Inl (KeyError ''name'') | Some v \<Rightarrow> run_path_of_field v)"

definition stamped :: "json \<Rightarrow> (run_record \<Rightarrow> run_record result) \<Rightarrow> run_record \<Rightarrow> run_record result" where
  "stamped now mutator run = res_bind (mutator run) (\<lambda>r. Inr (set_run_updated_at now r))"

definition persist_run_mutation ::
  "'s updater \<Rightarrow> ('s \<Rightarrow> json) \<Rightarrow> (run_record \<Rightarrow> run_record result) \<Rightarrow> run_record \<Rightarrow> 's \<Rightarrow> (run_record \<times> 's) result" where
  "persist_run_mutation update now mutator run s =
     res_bind (run_name run) (\<lambda>name. update name (stamped (now s) mutator) s)"

definition apply_transitions :: "worker_transition list \<Rightarrow> run_record \<Rightarrow> run_record result" where
  "apply_transitions trs run =
     res_bind (res_fold apply_worker_transition (rn_workers run) trs) (\<lambda>ws. Inr (run\<lparr>rn_workers := ws\<rparr>))"

definition persisted_workers :: "run_record \<Rightarrow> worker_transition list \<Rightarrow> worker_record list" where
  "persisted_workers run trs = List.map_filter (\<lambda>tr. run_worker run (wt_worker_id tr)) trs"

definition persist_worker_transitions ::
  "'s updater \<Rightarrow> (run_record \<Rightarrow> run_record result) \<Rightarrow> ('s \<Rightarrow> json) \<Rightarrow> worker_transition list \<Rightarrow>
   run_record \<Rightarrow> 's \<Rightarrow> (run_record \<times> worker_record list \<times> 's) result" where
  "persist_worker_transitions update refresh now trs run s =
     res_bind (run_name run) (\<lambda>name.
     res_bind (update name (stamped (now s) (\<lambda>latest. res_bind (apply_transitions trs latest) refresh)) s) (\<lambda>(persisted, s').
     Inr (persisted, persisted_workers persisted trs, s')))"

text \<open>A worker without an id has no update; the id of a record is a string.\<close>

definition snapshot_update_transition :: "worker_record option \<Rightarrow> worker_transition option result" where
  "snapshot_update_transition w =
     (case w of
        None \<Rightarrow> Inr None
      | Some w \<Rightarrow> (case worker_id w of
          JStr (c # i) \<Rightarrow> res_bind (worker_snapshot_transition w (Some (c # i))) (\<lambda>tr. Inr (Some tr))
        | _ \<Rightarrow> Inr None))"

definition persist_worker_snapshot_updates ::
  "'s updater \<Rightarrow> (run_record \<Rightarrow> run_record result) \<Rightarrow> ('s \<Rightarrow> json) \<Rightarrow> worker_record option list \<Rightarrow>
   run_record \<Rightarrow> 's \<Rightarrow> (run_record \<times> worker_record list \<times> 's) result" where
  "persist_worker_snapshot_updates update refresh now ws run s =
     res_bind (res_map snapshot_update_transition ws) (\<lambda>trs.
     persist_worker_transitions update refresh now (List.map_filter (\<lambda>tr. tr) trs) run s)"

definition persist_worker_snapshot_update ::
  "'s updater \<Rightarrow> (run_record \<Rightarrow> run_record result) \<Rightarrow> ('s \<Rightarrow> json) \<Rightarrow> worker_record option \<Rightarrow>
   run_record \<Rightarrow> 's \<Rightarrow> (run_record \<times> worker_record list \<times> 's) result" where
  "persist_worker_snapshot_update update refresh now w run s = persist_worker_snapshot_updates update refresh now [w] run s"

definition persist_run_summary ::
  "'s updater \<Rightarrow> (run_record \<Rightarrow> run_record result) \<Rightarrow> ('s \<Rightarrow> json) \<Rightarrow> run_record \<Rightarrow> 's \<Rightarrow> (run_record \<times> 's) result" where
  "persist_run_summary update refresh now run s =
     res_bind (run_name run) (\<lambda>name. update name (stamped (now s) refresh) s)"

text \<open>\<open>DependencyOrderedSerialRunPersistence\<close>\<close>

definition persist_transitions ::
  "'s updater \<Rightarrow> (run_record \<Rightarrow> run_record result) \<Rightarrow> ('s \<Rightarrow> json) \<Rightarrow> worker_transition list \<Rightarrow>
   run_record \<Rightarrow> 's \<Rightarrow> (run_record \<times> 's) result" where
  "persist_transitions update refresh now trs run s =
     res_bind (persist_worker_transitions update refresh now trs run s) (\<lambda>(r, ws, s'). Inr (r, s'))"

definition persist_worker_transition ::
  "'s updater \<Rightarrow> (run_record \<Rightarrow> run_record result) \<Rightarrow> ('s \<Rightarrow> json) \<Rightarrow> worker_transition \<Rightarrow>
   run_record \<Rightarrow> 's \<Rightarrow> (run_record \<times> worker_record list \<times> 's) result" where
  "persist_worker_transition update refresh now tr run s = persist_worker_transitions update refresh now [tr] run s"

text \<open>The run of the executor is the run together with the store.\<close>

definition persist_worker_execution_transition ::
  "'s updater \<Rightarrow> (run_record \<Rightarrow> run_record result) \<Rightarrow> ('s \<Rightarrow> json) \<Rightarrow> (run_record \<times> 's) boundary" where
  "persist_worker_execution_transition update refresh now run worker tr =
     res_bind (persist_worker_transition update refresh now tr (fst run) (snd run)) (\<lambda>(r, ws, s').
     let persisted = (case ws of w # _ \<Rightarrow> Some w | [] \<Rightarrow> run_worker r (wt_worker_id tr))
     in Inr ((r, s'), case persisted of Some w \<Rightarrow> w | None \<Rightarrow> worker))"

section \<open>Mutators keep the run\<close>

lemma keeps_runI: "(\<And>r r'. good_run n r \<Longrightarrow> m r = Inr r' \<Longrightarrow> good_run n r') \<Longrightarrow> keeps_run n m"
  by (simp add: keeps_run_def)

lemma keeps_runD: "keeps_run n m \<Longrightarrow> good_run n r \<Longrightarrow> m r = Inr r' \<Longrightarrow> good_run n r'"
  by (simp add: keeps_run_def)

lemma good_set_run_field:
  assumes "good_run n run" and k: "k \<notin> {''workers'', ''name'', ''schema_version''}"
  shows "good_run n (set_run_field k v run)"
proof -
  have "wf_run (set_run_field k v run)" using assms by (auto simp: good_run_def intro: wf_set_run_field)
  moreover have "dict_get (rn_fields (set_run_field k v run)) x = dict_get (rn_fields run) x"
    if "x \<in> {''name'', ''schema_version''}" for x
    using k that by (auto simp: set_run_field_def)
  ultimately show ?thesis using assms(1) by (simp add: good_run_def run_named_def readable_def)
qed

lemma good_run_workers: "good_run n run \<Longrightarrow> workers_ok ws \<Longrightarrow> good_run n (run\<lparr>rn_workers := ws\<rparr>)"
  by (simp add: good_run_def wf_run_def run_named_def readable_def)

lemma keeps_stamped: "keeps_run n m \<Longrightarrow> keeps_run n (stamped now m)"
  unfolding stamped_def set_run_updated_at_def
  by (rule keeps_runI) (auto simp: res_bind_Inr_iff intro!: good_set_run_field dest: keeps_runD)

lemma keeps_comp: "keeps_run n f \<Longrightarrow> keeps_run n g \<Longrightarrow> keeps_run n (\<lambda>r. res_bind (f r) g)"
  by (rule keeps_runI) (auto simp: res_bind_Inr_iff dest: keeps_runD)

lemma keeps_refresh: "keeps_run n (refresh_run_summary b)"
  by (rule keeps_runI)
    (auto simp: refresh_run_summary_def res_bind_Inr_iff Let_def split: option.splits intro!: good_set_run_field)

lemma refresh_workers: "refresh_run_summary b r = Inr r' \<Longrightarrow> rn_workers r' = rn_workers r"
  by (auto simp: refresh_run_summary_def res_bind_Inr_iff Let_def set_run_field_def split: option.splits)

text \<open>A transition other than a snapshot, addressed to some worker.\<close>

definition addressed :: "worker_transition \<Rightarrow> bool" where
  "addressed tr \<longleftrightarrow> wt_worker_id tr \<noteq> [] \<and> wt_name tr \<noteq> T_SNAPSHOT_APPLIED"

text \<open>The worker that a transition finds: the run's, or a new one.\<close>

definition transition_source :: "workers \<Rightarrow> worker_transition \<Rightarrow> worker_record" where
  "transition_source ws tr =
     (case map_of ws (wt_worker_id tr) of Some w \<Rightarrow> w | None \<Rightarrow> reset_fields (JStr (wt_worker_id tr)))"

lemma apply_worker_transition_eq:
  assumes "addressed tr"
  shows "apply_worker_transition ws tr =
    res_bind (apply_transition (transition_source ws tr) tr) (\<lambda>w. Inr (dict_set (wt_worker_id tr) w ws))"
  using assms
  by (simp add: apply_worker_transition_def transition_source_def worker_record_for_mutation_def addressed_def
      default_worker_record_eq split: option.split)

lemma transition_source_ok:
  assumes "workers_ok ws" and "addressed tr"
  shows "wf_worker (transition_source ws tr)" and "has_id (wt_worker_id tr) (transition_source ws tr)"
  using assms wf_reset_fields [of "wt_worker_id tr"]
  by (auto simp: transition_source_def workers_ok_def addressed_def has_id_def worker_id_def
      split: option.split dest!: map_of_SomeD) (simp add: reset_fields_def default_value_eq)

lemma apply_worker_transition_ok:
  assumes ws: "workers_ok ws" and tr: "addressed tr" and a: "apply_worker_transition ws tr = Inr ws'"
  shows "workers_ok ws'"
proof -
  let ?u = "transition_source ws tr"
  have i: "wt_worker_id tr \<noteq> []" and ns: "wt_name tr \<noteq> T_SNAPSHOT_APPLIED" using tr by (simp_all add: addressed_def)
  obtain w where w: "apply_transition ?u tr = Inr w" and ws': "ws' = dict_set (wt_worker_id tr) w ws"
    using a by (auto simp: apply_worker_transition_eq [OF tr] res_bind_Inr_iff)
  note u = transition_source_ok [OF ws tr]
  have "wf_worker w" by (rule wf_apply_transition [OF u(1) i w])
  moreover have "has_id (wt_worker_id tr) w" by (rule apply_transition_id [OF u(1) refl i u(2) ns w])
  ultimately show ?thesis unfolding ws' by (intro workers_ok_set [OF ws i]) (simp_all add: has_id_def worker_id_def)
qed

lemma apply_transitions_keeps:
  assumes "\<forall>tr \<in> set trs. addressed tr"
  shows "keeps_run n (apply_transitions trs)"
proof (rule keeps_runI)
  fix r r' assume g: "good_run n r" and a: "apply_transitions trs r = Inr r'"
  then obtain ws where ws: "res_fold apply_worker_transition (rn_workers r) trs = Inr ws" and r': "r' = r\<lparr>rn_workers := ws\<rparr>"
    by (auto simp: apply_transitions_def res_bind_Inr_iff)
  have "workers_ok ws"
    by (rule res_fold_invariant [where P = workers_ok, OF ws])
      (use g assms apply_worker_transition_ok in \<open>auto simp: good_run_def wf_run_def\<close>)
  then show "good_run n r'" unfolding r' by (rule good_run_workers [OF g])
qed

end
