(* ===== verification/Effects.thy ===== *)
theory Effects
  imports Ocs_Prelude
begin

text \<open>
  Actions: what a call does to the state of the world (the store and whatever else the caller's clock
  and client read) even when it raises. A \<open>result\<close> of the earlier theories is an action that
  leaves the state alone; an update of the store that raises leaves it alone as well.
\<close>

type_synonym ('s, 'a) action = "'s \<Rightarrow> 'a result \<times> 's"

definition act_return :: "'a \<Rightarrow> ('s, 'a) action" where
  "act_return x s = (Inr x, s)"

definition act_raise :: "py_error \<Rightarrow> ('s, 'a) action" where
  "act_raise e s = (Inl e, s)"

definition act_result :: "'a result \<Rightarrow> ('s, 'a) action" where
  "act_result r s = (r, s)"

definition act_update :: "('s \<Rightarrow> ('a \<times> 's) result) \<Rightarrow> ('s, 'a) action" where
  "act_update u s = (case u s of Inl e \<Rightarrow> (Inl e, s) | Inr (x, s') \<Rightarrow> (Inr x, s'))"

definition act_read :: "('s \<Rightarrow> 'a) \<Rightarrow> ('s, 'a) action" where
  "act_read f s = (Inr (f s), s)"

definition act_bind :: "('s, 'a) action \<Rightarrow> ('a \<Rightarrow> ('s, 'b) action) \<Rightarrow> ('s, 'b) action" where
  "act_bind m f s = (case m s of (Inl e, s') \<Rightarrow> (Inl e, s') | (Inr x, s') \<Rightarrow> f x s')"

text \<open>\<open>try ... except\<close>: the handler sees the state the body left.\<close>

definition act_catch :: "('s, 'a) action \<Rightarrow> (py_error \<Rightarrow> ('s, 'a) action) \<Rightarrow> ('s, 'a) action" where
  "act_catch m h s = (case m s of (Inl e, s') \<Rightarrow> h e s' | (Inr x, s') \<Rightarrow> (Inr x, s'))"

lemma act_simps [simp]:
  "act_return x s = (Inr x, s)" "act_raise e s = (Inl e, s)" "act_result r s = (r, s)" "act_read f s = (Inr (f s), s)"
  by (simp_all add: act_return_def act_raise_def act_result_def act_read_def)

lemma act_bind_assoc: "act_bind (act_bind m f) g = act_bind m (\<lambda>x. act_bind (f x) g)"
  by (rule ext) (simp add: act_bind_def split: prod.split sum.split)

lemma act_bind_Inr_iff:
  "act_bind m f s = (Inr y, s') \<longleftrightarrow> (\<exists>x s1. m s = (Inr x, s1) \<and> f x s1 = (Inr y, s'))"
  by (auto simp: act_bind_def split: prod.splits sum.splits)

lemma act_update_Inr_iff: "act_update u s = (Inr x, s') \<longleftrightarrow> u s = Inr (x, s')"
  by (auto simp: act_update_def split: sum.splits)

text \<open>
  \<open>triple P m Q E\<close>: from a state of \<open>P\<close> the action returns with \<open>Q\<close> of its value and state, or raises in a
  state of \<open>E\<close>.
\<close>

definition triple :: "('s \<Rightarrow> bool) \<Rightarrow> ('s, 'a) action \<Rightarrow> ('a \<Rightarrow> 's \<Rightarrow> bool) \<Rightarrow> ('s \<Rightarrow> bool) \<Rightarrow> bool" where
  "triple P m Q E \<longleftrightarrow> (\<forall>s e s'. P s \<longrightarrow> m s = (Inl e, s') \<longrightarrow> E s') \<and> (\<forall>s x s'. P s \<longrightarrow> m s = (Inr x, s') \<longrightarrow> Q x s')"

lemma tripleI:
  "(\<And>s e s'. P s \<Longrightarrow> m s = (Inl e, s') \<Longrightarrow> E s') \<Longrightarrow> (\<And>s x s'. P s \<Longrightarrow> m s = (Inr x, s') \<Longrightarrow> Q x s') \<Longrightarrow> triple P m Q E"
  by (simp add: triple_def)

lemma triple_raises: "triple P m Q E \<Longrightarrow> P s \<Longrightarrow> m s = (Inl e, s') \<Longrightarrow> E s'"
  by (auto simp: triple_def)

lemma triple_returns: "triple P m Q E \<Longrightarrow> P s \<Longrightarrow> m s = (Inr x, s') \<Longrightarrow> Q x s'"
  by (auto simp: triple_def)

lemma act_bindE:
  assumes "act_bind m f s = (r, s')"
  obtains e where "m s = (Inl e, s')" and "r = Inl e" | x s1 where "m s = (Inr x, s1)" and "f x s1 = (r, s')"
  using assms by (auto simp: act_bind_def split: prod.splits sum.splits)

lemma act_catchE:
  assumes "act_catch m h s = (r, s')"
  obtains x where "m s = (Inr x, s')" and "r = Inr x" | e s1 where "m s = (Inl e, s1)" and "h e s1 = (r, s')"
  using assms by (auto simp: act_catch_def split: prod.splits sum.splits)

lemma triple_bind:
  assumes "triple P m R E" and "\<And>x. triple (R x) (f x) Q E"
  shows "triple P (act_bind m f) Q E"
  by (rule tripleI; elim act_bindE)
    (auto dest: triple_raises [OF assms(1)] triple_returns [OF assms(1)] triple_raises [OF assms(2)] triple_returns [OF assms(2)])

lemma triple_catch:
  assumes "triple P m Q E'" and "\<And>e. triple E' (h e) Q E"
  shows "triple P (act_catch m h) Q E"
  by (rule tripleI; elim act_catchE)
    (auto dest: triple_raises [OF assms(1)] triple_returns [OF assms(1)] triple_raises [OF assms(2)] triple_returns [OF assms(2)])

lemma triple_weaken:
  "triple P m Q E \<Longrightarrow> (\<And>s. P' s \<Longrightarrow> P s) \<Longrightarrow> (\<And>x s. Q x s \<Longrightarrow> Q' x s) \<Longrightarrow> (\<And>s. E s \<Longrightarrow> E' s) \<Longrightarrow> triple P' m Q' E'"
  by (simp add: triple_def) blast

text \<open>A condition that does not depend on the state.\<close>

lemma triple_given: "(c \<Longrightarrow> triple P m Q E) \<Longrightarrow> triple (\<lambda>s. P s \<and> c) m Q E"
  by (auto simp: triple_def)

lemma triple_return: "(\<And>s. P s \<Longrightarrow> Q x s) \<Longrightarrow> triple P (act_return x) Q E"
  by (simp add: triple_def)

lemma triple_raise: "(\<And>s. P s \<Longrightarrow> E s) \<Longrightarrow> triple P (act_raise e) Q E"
  by (simp add: triple_def)

lemma triple_result: "(\<And>s x. P s \<Longrightarrow> r = Inr x \<Longrightarrow> Q x s) \<Longrightarrow> (\<And>s. P s \<Longrightarrow> E s) \<Longrightarrow> triple P (act_result r) Q E"
  by (simp add: triple_def)

lemma triple_read: "(\<And>s. P s \<Longrightarrow> Q (f s) s) \<Longrightarrow> triple P (act_read f) Q E"
  by (simp add: triple_def)

lemma triple_update:
  "(\<And>s x s'. P s \<Longrightarrow> u s = Inr (x, s') \<Longrightarrow> Q x s') \<Longrightarrow> (\<And>s. P s \<Longrightarrow> E s) \<Longrightarrow> triple P (act_update u) Q E"
  by (rule tripleI) (auto simp: act_update_def split: sum.splits)

section \<open>The name and the text of an exception\<close>

fun error_type_name :: "py_error \<Rightarrow> string" where
  "error_type_name (TypeError _) = ''TypeError''"
| "error_type_name (ValueError _) = ''ValueError''"
| "error_type_name (KeyError _) = ''KeyError''"
| "error_type_name (AttributeError _) = ''AttributeError''"
| "error_type_name (RuntimeError _) = ''RuntimeError''"
| "error_type_name (OverflowError _) = ''OverflowError''"
| "error_type_name (RunResourceSchemaError _) = ''RunResourceSchemaError''"
| "error_type_name (WorkerTransitionError _) = ''WorkerTransitionError''"
| "error_type_name (RunRecordError _ _) = ''RunRecordError''"
| "error_type_name (RunStoreError _ _) = ''RunStoreError''"
| "error_type_name (OSError _) = ''OSError''"
| "error_type_name (RemoteError t _) = t"

fun error_text :: "py_error \<Rightarrow> string" where
  "error_text (TypeError m) = m"
| "error_text (ValueError m) = m"
| "error_text (KeyError m) = repr_str m"
| "error_text (AttributeError m) = m"
| "error_text (RuntimeError m) = m"
| "error_text (OverflowError m) = m"
| "error_text (RunResourceSchemaError m) = m"
| "error_text (WorkerTransitionError m) = m"
| "error_text (RunRecordError m _) = m"
| "error_text (RunStoreError m _) = m"
| "error_text (OSError m) = m"
| "error_text (RemoteError _ m) = m"

end
