(* ===== verification/Remote_Journal.thy ===== *)
theory Remote_Journal
  imports Run_Persistence Effects
begin

text \<open>
  \<open>remote_journal.py\<close>: an outbox in the run record. Before a remote call its intent is persisted; the
  call's success, its application to the run or its failure are persisted after it, so an interrupted
  mutation leaves a pending entry to recover from.
\<close>

section \<open>Vocabulary\<close>

definition OUTBOX_STATE_INTENT :: string where
  "OUTBOX_STATE_INTENT = ''intent''"

definition OUTBOX_STATE_REMOTE_SUCCEEDED :: string where
  "OUTBOX_STATE_REMOTE_SUCCEEDED = ''remote_succeeded''"

definition OUTBOX_STATE_APPLIED :: string where
  "OUTBOX_STATE_APPLIED = ''applied''"

definition OUTBOX_STATE_UNCERTAIN :: string where
  "OUTBOX_STATE_UNCERTAIN = ''uncertain''"

definition PENDING_OUTBOX_STATES :: "string list" where
  "PENDING_OUTBOX_STATES = [OUTBOX_STATE_INTENT, OUTBOX_STATE_REMOTE_SUCCEEDED, OUTBOX_STATE_APPLIED, OUTBOX_STATE_UNCERTAIN]"

definition LEGACY_STATUS_OUTBOX_STATES :: "(string \<times> string) list" where
  "LEGACY_STATUS_OUTBOX_STATES = [(''intent'', OUTBOX_STATE_INTENT), (''remote_succeeded'', OUTBOX_STATE_REMOTE_SUCCEEDED),
     (''created'', OUTBOX_STATE_APPLIED), (''applied'', OUTBOX_STATE_APPLIED), (''uncertain'', OUTBOX_STATE_UNCERTAIN)]"

definition RECORD_IDENTITY_FIELDS :: "string list" where
  "RECORD_IDENTITY_FIELDS = [''id'', ''kind'']"

definition RESERVED_RECORD_FIELDS :: "string list" where
  "RESERVED_RECORD_FIELDS = RECORD_IDENTITY_FIELDS @ [''outbox_state'']"

definition MISSING_INTENT_IGNORE :: string where
  "MISSING_INTENT_IGNORE = ''ignore''"

definition MISSING_INTENT_RECORD_APPLIED :: string where
  "MISSING_INTENT_RECORD_APPLIED = ''record_applied''"

definition MISSING_INTENT_POLICIES :: "string list" where
  "MISSING_INTENT_POLICIES = [MISSING_INTENT_IGNORE, MISSING_INTENT_RECORD_APPLIED]"

definition RESULT_FINALIZE :: string where
  "RESULT_FINALIZE = ''finalize''"

definition RESULT_KEEP_PENDING :: string where
  "RESULT_KEEP_PENDING = ''keep_pending''"

definition RESULT_RECORD_APPLIED :: string where
  "RESULT_RECORD_APPLIED = ''record_applied''"

definition REMOTE_MUTATION_RESULT_ACTIONS :: "string list" where
  "REMOTE_MUTATION_RESULT_ACTIONS = [RESULT_FINALIZE, RESULT_KEEP_PENDING, RESULT_RECORD_APPLIED]"

section \<open>Checks\<close>

definition require_one_of :: "string list \<Rightarrow> string \<Rightarrow> string \<Rightarrow> unit result" where
  "require_one_of allowed what v =
     (if v \<in> set allowed then Inr ()
      else Inl (ValueError (''remote mutation '' @ what @ '' must be one of '' @ join_with '', '' (sort allowed))))"

definition require_known_outbox_state :: "string \<Rightarrow> unit result" where
  "require_known_outbox_state = require_one_of PENDING_OUTBOX_STATES ''outbox state''"

definition require_known_missing_intent_policy :: "string \<Rightarrow> unit result" where
  "require_known_missing_intent_policy = require_one_of MISSING_INTENT_POLICIES ''missing intent policy''"

definition require_known_result_action :: "string \<Rightarrow> unit result" where
  "require_known_result_action = require_one_of REMOTE_MUTATION_RESULT_ACTIONS ''result action''"

definition require_non_empty_string :: "string \<Rightarrow> string \<Rightarrow> unit result" where
  "require_non_empty_string v what =
     (if v = [] then Inl (TypeError (''remote mutation '' @ what @ '' must be a non-empty string'')) else Inr ())"

section \<open>Records, operations and results\<close>

text \<open>The constructors check what \<open>__post_init__\<close> checks; the identity of a record is text.\<close>

record journal_record =
  jr_id :: string
  jr_kind :: string
  jr_fields :: jdict

definition make_journal_record :: "string \<Rightarrow> string \<Rightarrow> jdict \<Rightarrow> journal_record result" where
  "make_journal_record i kind flds =
     res_bind (require_non_empty_string i ''record id'') (\<lambda>_.
     res_bind (require_non_empty_string kind ''record kind'') (\<lambda>_.
     let reserved = filter (\<lambda>k. dict_has flds k) RESERVED_RECORD_FIELDS in
     if reserved \<noteq> []
     then Inl (ValueError (''remote journal record fields must not include '' @ join_with '', '' (sort reserved)))
     else Inr \<lparr>jr_id = i, jr_kind = kind, jr_fields = flds\<rparr>))"

definition to_journal_entry :: "journal_record \<Rightarrow> jdict" where
  "to_journal_entry r = dict_update [(''id'', JStr (jr_id r)), (''kind'', JStr (jr_kind r))] (jr_fields r)"

record mutation_operation =
  mo_kind :: string
  mo_discard_cleanup_operation :: string
  mo_finalize_cleanup_operation :: string
  mo_call_remote_operation :: string

definition make_mutation_operation :: "string \<Rightarrow> string \<Rightarrow> string \<Rightarrow> string \<Rightarrow> mutation_operation result" where
  "make_mutation_operation kind discard fin call =
     res_bind (require_non_empty_string kind ''kind'') (\<lambda>_.
     res_bind (require_non_empty_string discard ''discard_cleanup_operation'') (\<lambda>_.
     res_bind (require_non_empty_string fin ''finalize_cleanup_operation'') (\<lambda>_.
     res_bind (require_non_empty_string call ''call_remote_operation'') (\<lambda>_.
     Inr \<lparr>mo_kind = kind, mo_discard_cleanup_operation = discard, mo_finalize_cleanup_operation = fin,
          mo_call_remote_operation = call\<rparr>))))"

type_synonym run_update = "run_record \<Rightarrow> run_record result"

record mutation_result =
  mr_outbox_action :: string
  mr_applied_record :: "journal_record option"
  mr_run_update :: "run_update option"
  mr_missing_intent_policy :: string

definition make_mutation_result ::
  "string \<Rightarrow> journal_record option \<Rightarrow> run_update option \<Rightarrow> string \<Rightarrow> mutation_result result" where
  "make_mutation_result action applied upd policy =
     res_bind (require_known_result_action action) (\<lambda>_.
     res_bind (require_known_missing_intent_policy policy) (\<lambda>_.
     let made = \<lparr>mr_outbox_action = action, mr_applied_record = applied, mr_run_update = upd,
                 mr_missing_intent_policy = policy\<rparr> in
     if action = RESULT_RECORD_APPLIED
     then (if applied = None then Inl (TypeError ''remote mutation applied_record must be a RemoteJournalRecord'') else Inr made)
     else if applied \<noteq> None
     then Inl (ValueError ''remote mutation applied records require record_applied outbox action'')
     else if policy \<noteq> MISSING_INTENT_IGNORE
     then Inl (ValueError ''remote mutation missing intent policy requires record_applied outbox action'')
     else if action = RESULT_KEEP_PENDING \<and> upd \<noteq> None
     then Inl (ValueError ''remote mutation run updates require finalization or an applied record'')
     else Inr made))"

definition result_finalize :: "run_update option \<Rightarrow> mutation_result result" where
  "result_finalize upd = make_mutation_result RESULT_FINALIZE None upd MISSING_INTENT_IGNORE"

definition result_keep_pending :: "mutation_result result" where
  "result_keep_pending = make_mutation_result RESULT_KEEP_PENDING None None MISSING_INTENT_IGNORE"

definition result_record_applied :: "journal_record \<Rightarrow> run_update option \<Rightarrow> string \<Rightarrow> mutation_result result" where
  "result_record_applied r upd policy = make_mutation_result RESULT_RECORD_APPLIED (Some r) upd policy"

section \<open>The journal of a run\<close>

definition with_outbox_state :: "jdict \<Rightarrow> string \<Rightarrow> jdict result" where
  "with_outbox_state entry state =
     res_bind (require_known_outbox_state state) (\<lambda>_. Inr (dict_set ''outbox_state'' (JStr state) entry))"

definition journal_update :: "jdict \<Rightarrow> jdict" where
  "journal_update entry = filter (\<lambda>kv. fst kv \<notin> set RECORD_IDENTITY_FIELDS) entry"

text \<open>The journal of a run is a list of entries; any other value counts as none.\<close>

definition journal_of :: "string \<Rightarrow> run_record \<Rightarrow> json list option" where
  "journal_of field run = (case dict_get (rn_fields run) field of JList es \<Rightarrow> Some es | _ \<Rightarrow> None)"

definition set_journal :: "string \<Rightarrow> json list \<Rightarrow> run_record \<Rightarrow> run_record" where
  "set_journal field es = set_run_field field (JList es)"

definition pop_journal :: "string \<Rightarrow> run_record \<Rightarrow> run_record" where
  "pop_journal field run = run\<lparr>rn_fields := dict_pop field (rn_fields run)\<rparr>"

definition entry_has_id :: "string \<Rightarrow> json \<Rightarrow> bool" where
  "entry_has_id i e = (case e of JObj d \<Rightarrow> dict_get d ''id'' = JStr i | _ \<Rightarrow> False)"

text \<open>The loops that change the first entry with an id, and stop there.\<close>

fun change_first :: "(json \<Rightarrow> bool) \<Rightarrow> (jdict \<Rightarrow> jdict) \<Rightarrow> json list \<Rightarrow> json list" where
  "change_first P f [] = []"
| "change_first P f (e # es) =
     (if P e then (case e of JObj d \<Rightarrow> JObj (f d) # es | _ \<Rightarrow> e # es) else e # change_first P f es)"

definition journal_record_intent :: "string \<Rightarrow> journal_record \<Rightarrow> run_record \<Rightarrow> run_record result" where
  "journal_record_intent field r run =
     res_bind (with_outbox_state (to_journal_entry r) OUTBOX_STATE_INTENT) (\<lambda>e.
     Inr (set_journal field ((case journal_of field run of None \<Rightarrow> [] | Some es \<Rightarrow> es) @ [JObj e]) run))"

text \<open>\<open>mark_applied\<close> and \<open>mark_remote_succeeded\<close> differ in the state they record.\<close>

definition journal_mark ::
  "string \<Rightarrow> string \<Rightarrow> string \<Rightarrow> journal_record \<Rightarrow> string \<Rightarrow> run_record \<Rightarrow> run_record result" where
  "journal_mark state field entry_id r policy run =
     res_bind (require_known_missing_intent_policy policy) (\<lambda>_.
     let es = (case journal_of field run of None \<Rightarrow> [] | Some es \<Rightarrow> es) in
     res_bind (with_outbox_state (to_journal_entry r) state) (\<lambda>e.
     if dict_get e ''id'' \<noteq> JStr entry_id
     then Inl (ValueError (''remote journal record id must be '' @ repr_str entry_id))
     else if list_ex (entry_has_id entry_id) es
     then Inr (set_journal field (change_first (entry_has_id entry_id) (\<lambda>d. dict_update d (journal_update e)) es) run)
     else Inr (set_journal field (if policy = MISSING_INTENT_RECORD_APPLIED then es @ [JObj e] else es) run)))"

definition journal_mark_applied :: "string \<Rightarrow> string \<Rightarrow> journal_record \<Rightarrow> string \<Rightarrow> run_record \<Rightarrow> run_record result" where
  "journal_mark_applied = journal_mark OUTBOX_STATE_APPLIED"

definition journal_mark_remote_succeeded ::
  "string \<Rightarrow> string \<Rightarrow> journal_record \<Rightarrow> string \<Rightarrow> run_record \<Rightarrow> run_record result" where
  "journal_mark_remote_succeeded = journal_mark OUTBOX_STATE_REMOTE_SUCCEEDED"

definition journal_finalize :: "string \<Rightarrow> string \<Rightarrow> run_record \<Rightarrow> run_record" where
  "journal_finalize field entry_id run =
     (case journal_of field run of
        None \<Rightarrow> pop_journal field run
      | Some es \<Rightarrow> (let remaining = filter (\<lambda>e. \<not> entry_has_id entry_id e) es in
          if remaining \<noteq> [] then set_journal field remaining run else pop_journal field run))"

definition change_entry :: "(jdict \<Rightarrow> jdict) \<Rightarrow> string \<Rightarrow> string \<Rightarrow> run_record \<Rightarrow> run_record" where
  "change_entry f field entry_id run =
     (case journal_of field run of
        None \<Rightarrow> run
      | Some es \<Rightarrow> set_journal field (change_first (entry_has_id entry_id) f es) run)"

definition journal_mark_cleanup_failure :: "string \<Rightarrow> string \<Rightarrow> jdict \<Rightarrow> run_record \<Rightarrow> run_record" where
  "journal_mark_cleanup_failure field entry_id failure =
     change_entry (dict_set ''cleanup_failure'' (JObj failure)) field entry_id"

definition uncertain_entry :: "jdict \<Rightarrow> jdict \<Rightarrow> jdict" where
  "uncertain_entry uncertainty d =
     dict_set ''uncertain_failure'' (JObj uncertainty)
       (dict_set ''status'' (JStr ''uncertain'') (dict_set ''outbox_state'' (JStr OUTBOX_STATE_UNCERTAIN) d))"

definition journal_mark_uncertain :: "string \<Rightarrow> string \<Rightarrow> jdict \<Rightarrow> run_record \<Rightarrow> run_record" where
  "journal_mark_uncertain field entry_id uncertainty = change_entry (uncertain_entry uncertainty) field entry_id"

section \<open>Pending entries\<close>

definition normalize_outbox_states :: "string list option \<Rightarrow> string list result" where
  "normalize_outbox_states states =
     (case states of
        None \<Rightarrow> Inr PENDING_OUTBOX_STATES
      | Some ss \<Rightarrow> res_bind (res_fold (\<lambda>_. require_known_outbox_state) () ss) (\<lambda>_. Inr ss))"

definition entry_outbox_state :: "jdict \<Rightarrow> string option" where
  "entry_outbox_state e =
     (case dict_get e ''outbox_state'' of
        JNull \<Rightarrow> (case dict_get e ''status'' of
            JStr s \<Rightarrow> Some (case map_of LEGACY_STATUS_OUTBOX_STATES s of None \<Rightarrow> OUTBOX_STATE_INTENT | Some t \<Rightarrow> t)
          | _ \<Rightarrow> Some OUTBOX_STATE_INTENT)
      | JStr s \<Rightarrow> if s \<in> set PENDING_OUTBOX_STATES then Some s else None
      | _ \<Rightarrow> None)"

definition entry_matches :: "string option \<Rightarrow> string list \<Rightarrow> json \<Rightarrow> bool" where
  "entry_matches kind states e =
     (case e of
        JObj d \<Rightarrow> (case kind of None \<Rightarrow> True | Some k \<Rightarrow> dict_get d ''kind'' = JStr k) \<and>
                  (case entry_outbox_state d of None \<Rightarrow> False | Some s \<Rightarrow> s \<in> set states)
      | _ \<Rightarrow> False)"

definition pending_entries :: "string \<Rightarrow> string option \<Rightarrow> string list option \<Rightarrow> run_record \<Rightarrow> json list result" where
  "pending_entries field kind states run =
     (case journal_of field run of
        None \<Rightarrow> Inr []
      | Some es \<Rightarrow> res_bind (normalize_outbox_states states) (\<lambda>ss. Inr (filter (entry_matches kind ss) es)))"

definition applied_entries :: "string \<Rightarrow> string option \<Rightarrow> run_record \<Rightarrow> json list result" where
  "applied_entries field kind run = pending_entries field kind (Some [OUTBOX_STATE_APPLIED]) run"

definition matches_required_fields :: "jdict \<Rightarrow> jdict \<Rightarrow> bool" where
  "matches_required_fields required d = list_all (\<lambda>(k, v). py_eq (dict_get d k) v) required"

type_synonym values_by_owner = "(string \<times> json list) list"

definition owner_values :: "string list \<Rightarrow> string list \<Rightarrow> jdict \<Rightarrow> json list \<Rightarrow> json list" where
  "owner_values list_fields value_fields d vs =
     fold (\<lambda>f acc. append_unique_string acc (dict_get d f)) value_fields
       (fold (\<lambda>f acc. fold (\<lambda>v a. append_unique_string a v) (string_list (dict_get d f)) acc) list_fields vs)"

definition add_owner_values ::
  "string \<Rightarrow> string list \<Rightarrow> string list \<Rightarrow> jdict \<Rightarrow> json \<Rightarrow> values_by_owner \<Rightarrow> values_by_owner" where
  "add_owner_values owner_field value_fields list_fields required e acc =
     (case e of
        JObj d \<Rightarrow>
          if \<not> matches_required_fields required d then acc
          else (case dict_get d owner_field of
              JStr (c # cs) \<Rightarrow>
                dict_set (c # cs) (owner_values list_fields value_fields d
                  (case map_of acc (c # cs) of None \<Rightarrow> [] | Some vs \<Rightarrow> vs)) acc
            | _ \<Rightarrow> acc)
      | _ \<Rightarrow> acc)"

definition values_by_owner ::
  "string \<Rightarrow> string \<Rightarrow> string \<Rightarrow> string list \<Rightarrow> string list \<Rightarrow> jdict \<Rightarrow> string list option \<Rightarrow> run_record \<Rightarrow>
   values_by_owner result" where
  "values_by_owner field kind owner_field value_fields list_fields required states run =
     res_bind (pending_entries field (Some kind) states run) (\<lambda>es.
     Inr (filter (\<lambda>kv. snd kv \<noteq> []) (fold (add_owner_values owner_field value_fields list_fields required) es [])))"

section \<open>The persisted journal\<close>

text \<open>
  Every change goes through \<open>persist_run_mutation\<close> of the store (\<open>update\<close>); a change that raises leaves
  the store as it was. \<open>load\<close> is what the store holds, which is the run a mutator is applied to.
\<close>

type_synonym 's loader = "string \<Rightarrow> 's \<Rightarrow> run_record result"

definition persist_mutation :: "'s updater \<Rightarrow> ('s \<Rightarrow> json) \<Rightarrow> run_update \<Rightarrow> run_record \<Rightarrow> ('s, run_record) action" where
  "persist_mutation update now m run = act_update (persist_run_mutation update now m run)"

definition validate_record_identity :: "string \<Rightarrow> mutation_operation \<Rightarrow> journal_record \<Rightarrow> journal_record result" where
  "validate_record_identity entry_id op r =
     (if jr_id r \<noteq> entry_id then Inl (ValueError (''remote journal record id must be '' @ repr_str entry_id))
      else if jr_kind r \<noteq> mo_kind op
      then Inl (ValueError (''remote journal record kind must be '' @ repr_str (mo_kind op)))
      else Inr r)"

text \<open>
  The intent is built from the latest run inside the mutator, and handed out through the closure; the
  mutator's run is the one the store holds.
\<close>

definition intent_mutator :: "string \<Rightarrow> (run_record \<Rightarrow> journal_record result) \<Rightarrow> run_update" where
  "intent_mutator field factory latest = res_bind (factory latest) (\<lambda>r. journal_record_intent field r latest)"

definition recorded_intent ::
  "'s loader \<Rightarrow> (run_record \<Rightarrow> journal_record result) \<Rightarrow> run_record \<Rightarrow> 's \<Rightarrow> journal_record result" where
  "recorded_intent load factory run s = res_bind (run_name run) (\<lambda>name. res_bind (load name s) factory)"

definition record_intent_from ::
  "'s loader \<Rightarrow> 's updater \<Rightarrow> ('s \<Rightarrow> json) \<Rightarrow> string \<Rightarrow> ('s \<Rightarrow> run_record \<Rightarrow> journal_record result) \<Rightarrow>
   run_record \<Rightarrow> ('s, run_record \<times> journal_record) action" where
  "record_intent_from load update now field factory run s =
     act_bind (persist_mutation update now (intent_mutator field (factory s)) run)
       (\<lambda>run'. act_bind (act_result (recorded_intent load (factory s) run s)) (\<lambda>intent. act_return (run', intent))) s"

definition with_run_update :: "run_update option \<Rightarrow> run_update \<Rightarrow> run_update" where
  "with_run_update upd m latest = res_bind (case upd of None \<Rightarrow> Inr latest | Some u \<Rightarrow> u latest) m"

definition persisted_mark_applied ::
  "'s updater \<Rightarrow> ('s \<Rightarrow> json) \<Rightarrow> string \<Rightarrow> string \<Rightarrow> journal_record \<Rightarrow> run_update option \<Rightarrow> string \<Rightarrow>
   run_record \<Rightarrow> ('s, run_record) action" where
  "persisted_mark_applied update now field entry_id r upd policy run =
     persist_mutation update now (with_run_update upd (journal_mark_applied field entry_id r policy)) run"

definition persisted_mark_remote_succeeded ::
  "'s updater \<Rightarrow> ('s \<Rightarrow> json) \<Rightarrow> string \<Rightarrow> string \<Rightarrow> journal_record \<Rightarrow> string \<Rightarrow> run_record \<Rightarrow> ('s, run_record) action" where
  "persisted_mark_remote_succeeded update now field entry_id r policy run =
     persist_mutation update now (journal_mark_remote_succeeded field entry_id r policy) run"

definition persisted_finalize ::
  "'s updater \<Rightarrow> ('s \<Rightarrow> json) \<Rightarrow> string \<Rightarrow> string \<Rightarrow> run_update option \<Rightarrow> run_record \<Rightarrow> ('s, run_record) action" where
  "persisted_finalize update now field entry_id upd run =
     persist_mutation update now (with_run_update upd (\<lambda>latest. Inr (journal_finalize field entry_id latest))) run"

text \<open>Best-effort operations swallow the persistence errors, and only those.\<close>

fun persistence_error :: "py_error \<Rightarrow> bool" where
  "persistence_error (RunStoreError _ _) = True"
| "persistence_error (OSError _) = True"
| "persistence_error _ = False"

definition best_effort :: "('s, 'a) action \<Rightarrow> (py_error \<Rightarrow> ('s, 'a) action) \<Rightarrow> ('s, 'a) action" where
  "best_effort m h = act_catch m (\<lambda>e. if persistence_error e then h e else act_raise e)"

definition failure_record :: "string \<Rightarrow> py_error \<Rightarrow> json \<Rightarrow> jdict" where
  "failure_record op e t = [(''operation'', JStr op), (''error_type'', JStr (error_type_name e)),
     (''message'', JStr (error_text e)), (''recorded_at'', t)]"

definition mark_uncertain_best_effort ::
  "'s updater \<Rightarrow> ('s \<Rightarrow> json) \<Rightarrow> string \<Rightarrow> string \<Rightarrow> string \<Rightarrow> py_error \<Rightarrow> run_record \<Rightarrow> ('s, run_record) action" where
  "mark_uncertain_best_effort update now field entry_id op e run =
     act_bind (act_read now) (\<lambda>t.
     best_effort (persist_mutation update now
       (\<lambda>latest. Inr (journal_mark_uncertain field entry_id (failure_record op e t) latest)) run)
       (\<lambda>_. act_return run))"

definition record_cleanup_failure_best_effort ::
  "'s updater \<Rightarrow> ('s \<Rightarrow> json) \<Rightarrow> string \<Rightarrow> string \<Rightarrow> string \<Rightarrow> py_error \<Rightarrow> run_record \<Rightarrow> ('s, run_record) action" where
  "record_cleanup_failure_best_effort update now field entry_id op e run =
     act_bind (act_read now) (\<lambda>t.
     best_effort (persist_mutation update now
       (\<lambda>latest. Inr (journal_mark_cleanup_failure field entry_id (failure_record op e t) latest)) run)
       (\<lambda>_. act_return run))"

definition finalize_best_effort ::
  "'s updater \<Rightarrow> ('s \<Rightarrow> json) \<Rightarrow> string \<Rightarrow> string \<Rightarrow> string \<Rightarrow> run_record \<Rightarrow> ('s, run_record) action" where
  "finalize_best_effort update now field entry_id op run =
     best_effort (persisted_finalize update now field entry_id None run)
       (\<lambda>e. record_cleanup_failure_best_effort update now field entry_id op e run)"

section \<open>Transactions\<close>

definition transaction_record_intent ::
  "'s updater \<Rightarrow> ('s \<Rightarrow> json) \<Rightarrow> string \<Rightarrow> string \<Rightarrow> mutation_operation \<Rightarrow> journal_record \<Rightarrow> run_record \<Rightarrow> ('s, run_record) action" where
  "transaction_record_intent update now field entry_id op r run =
     act_bind (act_result (validate_record_identity entry_id op r)) (\<lambda>r.
     persist_mutation update now (journal_record_intent field r) run)"

definition transaction_mark_applied ::
  "'s updater \<Rightarrow> ('s \<Rightarrow> json) \<Rightarrow> string \<Rightarrow> string \<Rightarrow> mutation_operation \<Rightarrow> journal_record \<Rightarrow> run_update option \<Rightarrow>
   string \<Rightarrow> run_record \<Rightarrow> ('s, run_record) action" where
  "transaction_mark_applied update now field entry_id op r upd policy run =
     act_bind (act_result (validate_record_identity entry_id op r)) (\<lambda>r.
     persisted_mark_applied update now field entry_id r upd policy run)"

definition transaction_mark_remote_succeeded ::
  "'s updater \<Rightarrow> ('s \<Rightarrow> json) \<Rightarrow> string \<Rightarrow> string \<Rightarrow> mutation_operation \<Rightarrow> journal_record \<Rightarrow> string \<Rightarrow>
   run_record \<Rightarrow> ('s, run_record) action" where
  "transaction_mark_remote_succeeded update now field entry_id op r policy run =
     act_bind (act_result (validate_record_identity entry_id op r)) (\<lambda>r.
     persisted_mark_remote_succeeded update now field entry_id r policy run)"

definition transaction_apply_result ::
  "'s updater \<Rightarrow> ('s \<Rightarrow> json) \<Rightarrow> string \<Rightarrow> string \<Rightarrow> mutation_operation \<Rightarrow> mutation_result \<Rightarrow> run_record \<Rightarrow>
   ('s, run_record) action" where
  "transaction_apply_result update now field entry_id op result run =
     (if mr_outbox_action result = RESULT_RECORD_APPLIED
      then (case mr_applied_record result of
          None \<Rightarrow> act_raise (TypeError ''remote journal records must be RemoteJournalRecord instances'')
        | Some r \<Rightarrow> transaction_mark_applied update now field entry_id op r (mr_run_update result)
            (mr_missing_intent_policy result) run)
      else if mr_outbox_action result = RESULT_KEEP_PENDING then act_return run
      else persisted_finalize update now field entry_id (mr_run_update result) run)"

definition discard_intent_best_effort ::
  "'s updater \<Rightarrow> ('s \<Rightarrow> json) \<Rightarrow> string \<Rightarrow> string \<Rightarrow> mutation_operation \<Rightarrow> run_record \<Rightarrow> ('s, run_record) action" where
  "discard_intent_best_effort update now field entry_id op run =
     finalize_best_effort update now field entry_id (mo_discard_cleanup_operation op) run"

definition transaction_finalize_best_effort ::
  "'s updater \<Rightarrow> ('s \<Rightarrow> json) \<Rightarrow> string \<Rightarrow> string \<Rightarrow> mutation_operation \<Rightarrow> run_record \<Rightarrow> ('s, run_record) action" where
  "transaction_finalize_best_effort update now field entry_id op run =
     finalize_best_effort update now field entry_id (mo_finalize_cleanup_operation op) run"

section \<open>The runner\<close>

text \<open>
  \<open>RemoteMutationRunner.execute\<close>. The remote call is an action on the world; the record of its success
  and the handler of its result are given by the caller (\<open>None\<close> for the defaults), as functions of the
  state, in which they may read the clock. The handler is also given the record of the success, which
  the closures of the caller share with it.
\<close>

record ('s, 'r) remote_mutation =
  rm_intent :: "'s \<Rightarrow> run_record \<Rightarrow> journal_record result"
  rm_call :: "run_record \<Rightarrow> journal_record \<Rightarrow> ('s, 'r) action"
  rm_succeeded :: "('s \<Rightarrow> 'r \<Rightarrow> journal_record \<Rightarrow> journal_record result) option"
  rm_succeeded_policy :: string
  rm_apply :: "('s \<Rightarrow> 'r \<Rightarrow> journal_record \<Rightarrow> journal_record \<Rightarrow> mutation_result option result) option"

definition call_remote_recorded ::
  "'s updater \<Rightarrow> ('s \<Rightarrow> json) \<Rightarrow> string \<Rightarrow> string \<Rightarrow> mutation_operation \<Rightarrow> ('s, 'r) remote_mutation \<Rightarrow>
   run_record \<Rightarrow> journal_record \<Rightarrow> ('s, 'r) action" where
  "call_remote_recorded update now field entry_id op m run intent =
     act_catch (rm_call m run intent) (\<lambda>e.
     act_bind (mark_uncertain_best_effort update now field entry_id (mo_call_remote_operation op) e run) (\<lambda>_.
     act_raise e))"

definition succeeded_record ::
  "'s updater \<Rightarrow> ('s \<Rightarrow> json) \<Rightarrow> string \<Rightarrow> string \<Rightarrow> mutation_operation \<Rightarrow> ('s, 'r) remote_mutation \<Rightarrow>
   run_record \<Rightarrow> journal_record \<Rightarrow> 'r \<Rightarrow> ('s, journal_record) action" where
  "succeeded_record update now field entry_id op m run intent r =
     (case rm_succeeded m of
        None \<Rightarrow> act_return intent
      | Some f \<Rightarrow>
          act_catch (\<lambda>s. act_result (res_bind (f s r intent) (validate_record_identity entry_id op)) s) (\<lambda>e.
          act_bind (transaction_mark_remote_succeeded update now field entry_id op intent MISSING_INTENT_IGNORE run) (\<lambda>_.
          act_raise e)))"

definition handled_result ::
  "('s, 'r) remote_mutation \<Rightarrow> journal_record \<Rightarrow> journal_record \<Rightarrow> 'r \<Rightarrow> ('s, mutation_result) action" where
  "handled_result m intent succeeded r s =
     (case rm_apply m of
        None \<Rightarrow> act_result (result_finalize None) s
      | Some f \<Rightarrow> act_result (res_bind (f s r intent succeeded) (\<lambda>res.
          case res of None \<Rightarrow> result_finalize None | Some x \<Rightarrow> Inr x)) s)"

definition record_eq :: "journal_record \<Rightarrow> journal_record \<Rightarrow> bool" where
  "record_eq a b \<longleftrightarrow> jr_id a = jr_id b \<and> jr_kind a = jr_kind b \<and> py_eq (JObj (jr_fields a)) (JObj (jr_fields b))"

definition mark_result_record ::
  "'s updater \<Rightarrow> ('s \<Rightarrow> json) \<Rightarrow> string \<Rightarrow> string \<Rightarrow> mutation_operation \<Rightarrow> journal_record \<Rightarrow> mutation_result \<Rightarrow>
   run_record \<Rightarrow> ('s, run_record) action" where
  "mark_result_record update now field entry_id op succeeded result run =
     (case mr_applied_record result of
        Some r \<Rightarrow> if mr_outbox_action result = RESULT_RECORD_APPLIED \<and> \<not> record_eq r succeeded
          then transaction_mark_remote_succeeded update now field entry_id op r (mr_missing_intent_policy result) run
          else act_return run
      | None \<Rightarrow> act_return run)"

definition run_remote_mutation ::
  "'s loader \<Rightarrow> 's updater \<Rightarrow> ('s \<Rightarrow> json) \<Rightarrow> string \<Rightarrow> string \<Rightarrow> mutation_operation \<Rightarrow> ('s, 'r) remote_mutation \<Rightarrow>
   run_record \<Rightarrow> ('s, run_record \<times> 'r \<times> journal_record) action" where
  "run_remote_mutation load update now field entry_id op m run =
     act_bind (record_intent_from load update now field
       (\<lambda>s latest. res_bind (rm_intent m s latest) (validate_record_identity entry_id op)) run) (\<lambda>(run1, intent).
     act_bind (call_remote_recorded update now field entry_id op m run1 intent) (\<lambda>r.
     act_bind (succeeded_record update now field entry_id op m run1 intent r) (\<lambda>succeeded.
     act_bind (transaction_mark_remote_succeeded update now field entry_id op succeeded (rm_succeeded_policy m) run1) (\<lambda>run2.
     act_bind (handled_result m intent succeeded r) (\<lambda>result.
     act_bind (mark_result_record update now field entry_id op succeeded result run2) (\<lambda>run3.
     act_bind (transaction_apply_result update now field entry_id op result run3) (\<lambda>run4.
     act_return (run4, r, intent))))))))"

end
