(* ===== verification/Persistence_Facts.thy ===== *)
theory Persistence_Facts
  imports Run_Persistence
begin

text \<open>
  Persisting through a store: the run that is returned is the stored one, and the store's persistence is
  a persistence boundary of the executor.
\<close>

text \<open>A store with a function that refreshes summaries: it keeps the run and its workers.\<close>

locale run_persistence = run_storage ok load update
  for ok :: "'s \<Rightarrow> bool" and load and update +
  fixes refresh :: "run_record \<Rightarrow> run_record result" and now :: "'s \<Rightarrow> json"
  assumes refresh_keeps: "keeps_run n refresh"
    and refresh_same_workers: "refresh r = Inr r' \<Longrightarrow> rn_workers r' = rn_workers r"

context run_persistence
begin

lemma transitions_keep:
  "\<forall>tr \<in> set trs. addressed tr \<Longrightarrow> keeps_run n (stamped t (\<lambda>latest. res_bind (apply_transitions trs latest) refresh))"
  by (intro keeps_stamped keeps_comp apply_transitions_keeps refresh_keeps)

lemma persist_worker_transitions_ok:
  assumes p: "persist_worker_transitions update refresh now trs run s = Inr (r', ws, s')"
    and s: "ok s" and trs: "\<forall>tr \<in> set trs. addressed tr" and named: "run_name run = Inr n"
  shows "ok s'" and "load n s' = Inr r'" and "good_run n r'" and "ws = persisted_workers r' trs"
    and "\<exists>r. load n s = Inr r \<and> good_run n r \<and> res_fold apply_worker_transition (rn_workers r) trs = Inr (rn_workers r')"
    and "n' \<noteq> n \<Longrightarrow> load n' s' = load n' s"
proof -
  let ?m = "stamped (now s) (\<lambda>latest. res_bind (apply_transitions trs latest) refresh)"
  have u: "update n ?m s = Inr (r', s')" and ws: "ws = persisted_workers r' trs"
    using p named by (auto simp: persist_worker_transitions_def res_bind_Inr_iff)
  note k = transitions_keep [OF trs]
  show "ok s'" "load n s' = Inr r'" "good_run n r'"
    using update_ok [OF s k u] update_load [OF s k u] update_good [OF s k u] by blast+
  show "ws = persisted_workers r' trs" by (rule ws)
  show "n' \<noteq> n \<Longrightarrow> load n' s' = load n' s" by (rule update_others [OF s k u])
  obtain r r1 where r: "load n s = Inr r" "?m r = Inr r1" "rn_workers r' = rn_workers r1"
    using update_applies [OF s k u] by blast
  have "res_fold apply_worker_transition (rn_workers r) trs = Inr (rn_workers r')"
    using r(2,3)
    by (auto simp: stamped_def apply_transitions_def res_bind_Inr_iff set_run_updated_at_def set_run_field_def
        dest!: refresh_same_workers)
  then show "\<exists>r. load n s = Inr r \<and> good_run n r \<and> res_fold apply_worker_transition (rn_workers r) trs = Inr (rn_workers r')"
    using r(1) load_good [OF s r(1)] by blast
qed

text \<open>A persisted transition of the executor: the stored worker is the one that is returned.\<close>

lemma persist_execution_ok:
  assumes p: "persist_worker_execution_transition update refresh now (run, s) w tr = Inr ((r', s'), w')"
    and s: "ok s" and tr: "addressed tr" and named: "run_name run = Inr n"
  shows "ok s'" and "load n s' = Inr r'" and "good_run n r'" and "run_worker r' (wt_worker_id tr) = Some w'"
    and "\<exists>r. load n s = Inr r \<and> good_run n r \<and> apply_transition (transition_source (rn_workers r) tr) tr = Inr w'"
    and "n' \<noteq> n \<Longrightarrow> load n' s' = load n' s"
proof -
  obtain ws where ps: "persist_worker_transitions update refresh now [tr] run s = Inr (r', ws, s')"
    and w': "w' = (case (case ws of w # _ \<Rightarrow> Some w | [] \<Rightarrow> run_worker r' (wt_worker_id tr)) of Some w \<Rightarrow> w | None \<Rightarrow> w)"
    using p by (auto simp: persist_worker_execution_transition_def persist_worker_transition_def res_bind_Inr_iff Let_def)
  have trs: "\<forall>t \<in> set [tr]. addressed t" using tr by simp
  note facts = persist_worker_transitions_ok [OF ps s trs named]
  show "ok s'" "load n s' = Inr r'" "good_run n r'" "n' \<noteq> n \<Longrightarrow> load n' s' = load n' s" using facts(1-3,6) by blast+
  obtain r where r: "load n s = Inr r" "good_run n r" "apply_worker_transition (rn_workers r) tr = Inr (rn_workers r')"
    using facts(5) by (auto simp: res_bind_Inr_iff)
  obtain u where u: "apply_transition (transition_source (rn_workers r) tr) tr = Inr u"
    and ws': "rn_workers r' = dict_set (wt_worker_id tr) u (rn_workers r)"
    using r(3) by (auto simp: apply_worker_transition_eq [OF tr] res_bind_Inr_iff)
  have "run_worker r' (wt_worker_id tr) = Some u" by (simp add: run_worker_def ws')
  moreover from this have "w' = u" using w' facts(4) by (simp add: persisted_workers_def List.map_filter_def)
  ultimately show "run_worker r' (wt_worker_id tr) = Some w'"
    "\<exists>r. load n s = Inr r \<and> good_run n r \<and> apply_transition (transition_source (rn_workers r) tr) tr = Inr w'"
    using u r by auto
qed

end

lemma good_run_name: "good_run n run \<Longrightarrow> run_name run = Inr n' \<Longrightarrow> n' = n"
  by (auto simp: good_run_def run_named_def run_name_def run_path_of_field_Inr dict_get_def split: option.splits)

text \<open>The executor's run is a run of the store.\<close>

definition held_run :: "('s \<Rightarrow> bool) \<Rightarrow> run_record \<times> 's \<Rightarrow> bool" where
  "held_run ok rs \<longleftrightarrow> ok (snd rs) \<and> (\<exists>n. good_run n (fst rs))"

sublocale run_persistence \<subseteq> boundary: persistence_boundary
  "persist_worker_execution_transition update refresh now" "held_run ok"
proof
  fix run run' :: "run_record \<times> 's" and w w' :: worker_record and tr
  assume h: "held_run ok run" and w: "wf_worker w" and id: "wt_worker_id tr = worker_id_str w"
    and ns: "wt_name tr \<noteq> T_SNAPSHOT_APPLIED"
    and p: "persist_worker_execution_transition update refresh now run w tr = Inr (run', w')"
  have tr: "addressed tr" using ns by (simp add: addressed_def id worker_id_str_nonempty [OF w])
  obtain r s where run: "run = (r, s)" by (cases run)
  obtain r' s' where run': "run' = (r', s')" by (cases run')
  obtain n where n: "run_name r = Inr n"
    using p by (auto simp: run persist_worker_execution_transition_def persist_worker_transition_def
        persist_worker_transitions_def res_bind_Inr_iff)
  have s: "ok s" using h by (simp add: held_run_def run)
  note facts = persist_execution_ok [OF p [unfolded run run'] s tr n]
  show "held_run ok run'" using facts(1,3) by (auto simp: held_run_def run')
  obtain r0 where r0: "good_run n r0" "apply_transition (transition_source (rn_workers r0) tr) tr = Inr w'"
    using facts(5) by blast
  have "workers_ok (rn_workers r0)" using r0(1) by (simp add: good_run_def wf_run_def)
  from transition_source_ok(1) [OF this tr] r0(2)
  show "\<exists>u. wf_worker u \<and> apply_transition u tr = Inr w'" by blast
qed

interpretation stored: run_persistence sound_store "load_run pf cwd" "\<lambda>name m. update_run pf cwd name m allow"
  "refresh_run_summary include_unprompted" now
  for pf cwd allow include_unprompted now
  by unfold_locales (rule keeps_refresh, erule refresh_workers)

context run_persistence
begin

text \<open>What an execution over the store leaves in the store.\<close>

lemma stored_execution_ends:
  assumes run: "held_run ok run" and w: "wf_worker w"
    and prov: "\<And>run1 w1 c. provision run w = Inr (run1, w1, c) \<Longrightarrow> held_run ok run1 \<and> wf_worker w1"
    and fin: "\<And>run2 w2 run3 w3. held_run ok run2 \<Longrightarrow> wf_worker w2 \<Longrightarrow> finalize run2 w2 = (run3, w3) \<Longrightarrow>
      held_run ok run3 \<and> wf_worker w3"
    and ex: "execute_worker (persist_worker_execution_transition update refresh now) provision finalize prompt prompt_id
      clock run w = Inr out"
  shows "\<exists>n i. load n (snd (eo_run out)) = Inr (fst (eo_run out)) \<and> run_worker (fst (eo_run out)) i = Some (eo_worker out)"
    and "worker_lifecycle (eo_worker out) \<noteq> Some Active_Wait" and "held_run ok (eo_run out)"
proof -
  have "held_run ok (eo_run out) \<and> wf_worker (eo_worker out) \<and> worker_lifecycle (eo_worker out) \<noteq> Some Active_Wait"
    by (rule boundary.execute_worker_ends, rule run, rule w, erule prov, erule (2) fin, rule ex)
  then show "worker_lifecycle (eo_worker out) \<noteq> Some Active_Wait" "held_run ok (eo_run out)" by blast+
  show "\<exists>n i. load n (snd (eo_run out)) = Inr (fst (eo_run out)) \<and> run_worker (fst (eo_run out)) i = Some (eo_worker out)"
  proof (rule boundary.execute_worker_last, rule run, rule w, erule prov, erule (2) fin, rule ex)
    fix run5 w5 tr
    assume h: "held_run ok run5" and w5: "wf_worker w5" and id: "wt_worker_id tr = worker_id_str w5"
      and e: "wt_name tr \<in> attempt_ending"
      and p: "persist_worker_execution_transition update refresh now run5 w5 tr = Inr (eo_run out, eo_worker out)"
    have tr: "addressed tr" using e by (auto simp: addressed_def id worker_id_str_nonempty [OF w5] attempt_ending_def)
    obtain r s where run5: "run5 = (r, s)" by (cases run5)
    obtain r' s' where out: "eo_run out = (r', s')" by (cases "eo_run out")
    obtain n where n: "run_name r = Inr n"
      using p by (auto simp: run5 persist_worker_execution_transition_def persist_worker_transition_def
          persist_worker_transitions_def res_bind_Inr_iff)
    have s: "ok s" using h by (simp add: held_run_def run5)
    note facts = persist_execution_ok [OF p [unfolded run5 out] s tr n]
    show ?thesis using facts(2,4) by (auto simp: out)
  qed
qed

end

end
