(* ===== verification/Journal_Facts.thy ===== *)
theory Journal_Facts
  imports Remote_Journal Persistence_Facts
begin

text \<open>
  The outbox: what each journal operation does to the entries of a run, and that an interrupted remote
  mutation leaves its entry in the store.
\<close>

section \<open>Entries\<close>

definition journal_entries :: "string \<Rightarrow> run_record \<Rightarrow> json list" where
  "journal_entries field run = (case journal_of field run of None \<Rightarrow> [] | Some es \<Rightarrow> es)"

definition has_entry :: "string \<Rightarrow> string \<Rightarrow> run_record \<Rightarrow> bool" where
  "has_entry field i run \<longleftrightarrow> list_ex (entry_has_id i) (journal_entries field run)"

definition others :: "string \<Rightarrow> string \<Rightarrow> run_record \<Rightarrow> json list" where
  "others field i run = filter (\<lambda>e. \<not> entry_has_id i e) (journal_entries field run)"

lemma journal_of_set [simp]: "journal_of field (set_journal field es run) = Some es"
  by (simp add: journal_of_def set_journal_def set_run_field_def)

lemma journal_of_pop [simp]: "journal_of field (pop_journal field run) = None"
  by (simp add: journal_of_def pop_journal_def)

lemma known_states: "require_known_outbox_state OUTBOX_STATE_INTENT = Inr ()"
  "require_known_outbox_state OUTBOX_STATE_REMOTE_SUCCEEDED = Inr ()" "require_known_outbox_state OUTBOX_STATE_APPLIED = Inr ()"
  by (simp_all add: require_known_outbox_state_def require_one_of_def PENDING_OUTBOX_STATES_def)

lemma entry_id: "map_of (jr_fields r) ''id'' = None \<Longrightarrow> wf_dict (jr_fields r) \<Longrightarrow> dict_get (to_journal_entry r) ''id'' = JStr (jr_id r)"
  by (simp add: to_journal_entry_def map_of_dict_update dict_get_def map_add_def)

text \<open>A record built by the constructor.\<close>

definition made_record :: "journal_record \<Rightarrow> bool" where
  "made_record r \<longleftrightarrow> make_journal_record (jr_id r) (jr_kind r) (jr_fields r) = Inr r \<and> wf_dict (jr_fields r)"

lemma made_record_fields:
  assumes "made_record r"
  shows "jr_id r \<noteq> []" and "jr_kind r \<noteq> []" and "k \<in> set RESERVED_RECORD_FIELDS \<Longrightarrow> map_of (jr_fields r) k = None"
    and "wf_dict (jr_fields r)"
  using assms
  by (auto simp: made_record_def make_journal_record_def res_bind_Inr_iff require_non_empty_string_def Let_def
      filter_empty_conv dict_has_iff_map_of split: if_splits)

lemma entry_fields:
  assumes "made_record r"
  shows "dict_get (to_journal_entry r) ''id'' = JStr (jr_id r)" and "dict_get (to_journal_entry r) ''kind'' = JStr (jr_kind r)"
    and "wf_dict (to_journal_entry r)"
proof -
  have "map_of (jr_fields r) ''id'' = None" "map_of (jr_fields r) ''kind'' = None" "wf_dict (jr_fields r)"
    using made_record_fields(3,4) [OF assms] by (simp_all add: RESERVED_RECORD_FIELDS_def RECORD_IDENTITY_FIELDS_def)
  then show "dict_get (to_journal_entry r) ''id'' = JStr (jr_id r)" "dict_get (to_journal_entry r) ''kind'' = JStr (jr_kind r)"
    by (simp_all add: to_journal_entry_def map_of_dict_update dict_get_def map_add_def)
  show "wf_dict (to_journal_entry r)"
    unfolding to_journal_entry_def by (rule wf_dict_update) (simp add: wf_dict_def)
qed

lemma with_state: "require_known_outbox_state state = Inr () \<Longrightarrow> with_outbox_state e state = Inr (dict_set ''outbox_state'' (JStr state) e)"
  by (simp add: with_outbox_state_def)

lemma change_first_id:
  assumes "\<And>d. dict_get (f d) ''id'' = dict_get d ''id''"
  shows "map (entry_has_id i) (change_first P f es) = map (entry_has_id i) es"
  by (induction es) (auto simp: entry_has_id_def assms split: json.split)

lemma change_first_others:
  assumes "\<And>d. dict_get (f d) ''id'' = dict_get d ''id''"
  shows "filter (\<lambda>e. \<not> entry_has_id i e) (change_first (entry_has_id i) f es) = filter (\<lambda>e. \<not> entry_has_id i e) es"
  by (induction es) (auto simp: entry_has_id_def assms split: json.splits)

lemma change_first_has:
  assumes "\<And>d. dict_get (f d) ''id'' = dict_get d ''id''"
  shows "list_ex (entry_has_id i) (change_first (entry_has_id j) f es) = list_ex (entry_has_id i) es"
proof -
  have "list_ex (\<lambda>x. x) (map (entry_has_id i) (change_first (entry_has_id j) f es)) = list_ex (\<lambda>x. x) (map (entry_has_id i) es)"
    by (simp only: change_first_id [of f, OF assms])
  then show ?thesis by (simp add: list.pred_map list_ex_iff)
qed

lemma dict_update_id: "dict_get (dict_update d (journal_update e)) ''id'' = dict_get d ''id''"
proof -
  have "''id'' \<notin> fst ` set (journal_update e)" by (auto simp: journal_update_def RECORD_IDENTITY_FIELDS_def)
  moreover have "k \<notin> fst ` set u \<Longrightarrow> dict_get (dict_update d u) k = dict_get d k" for u k
    by (induction u arbitrary: d) auto
  ultimately show ?thesis by blast
qed

lemma uncertain_id: "dict_get (uncertain_entry u d) ''id'' = dict_get d ''id''"
  by (simp add: uncertain_entry_def)

section \<open>What each operation does\<close>

lemma record_intent_facts:
  assumes "journal_record_intent field r run = Inr run'" and r: "made_record r"
  shows "has_entry field (jr_id r) run'" and "others field (jr_id r) run' = others field (jr_id r) run"
    and "rn_workers run' = rn_workers run"
proof -
  define e where "e = dict_set ''outbox_state'' (JStr OUTBOX_STATE_INTENT) (to_journal_entry r)"
  have run': "run' = set_journal field (journal_entries field run @ [JObj e]) run"
    using assms(1) by (simp add: journal_record_intent_def with_state [OF known_states(1)] e_def journal_entries_def)
  have "entry_has_id (jr_id r) (JObj e)" using entry_fields(1) [OF r] by (simp add: e_def entry_has_id_def)
  then show "has_entry field (jr_id r) run'" "others field (jr_id r) run' = others field (jr_id r) run"
    by (simp_all add: has_entry_def others_def journal_entries_def run')
  show "rn_workers run' = rn_workers run" by (simp add: run' set_journal_def set_run_field_def)
qed

lemma journal_mark_facts:
  assumes "journal_mark state field i r policy run = Inr run'" and "require_known_outbox_state state = Inr ()"
  shows "has_entry field i run \<Longrightarrow> has_entry field i run'" and "others field i run' = others field i run"
    and "rn_workers run' = rn_workers run"
proof -
  define e where "e = dict_set ''outbox_state'' (JStr state) (to_journal_entry r)"
  let ?es = "journal_entries field run"
  let ?f = "\<lambda>d. dict_update d (journal_update e)"
  have eid: "dict_get e ''id'' = JStr i"
    and run': "run' = set_journal field (if list_ex (entry_has_id i) ?es then change_first (entry_has_id i) ?f ?es
      else if policy = MISSING_INTENT_RECORD_APPLIED then ?es @ [JObj e] else ?es) run"
    using assms
    by (auto simp: journal_mark_def Let_def with_state e_def journal_entries_def res_bind_Inr_iff split: if_splits)
  note chg = change_first_has [of ?f, OF dict_update_id] change_first_others [of ?f, OF dict_update_id]
  have "entry_has_id i (JObj e)" using eid by (simp add: entry_has_id_def)
  then show "has_entry field i run \<Longrightarrow> has_entry field i run'" "others field i run' = others field i run"
    using chg by (simp_all add: has_entry_def others_def journal_entries_def run')
  show "rn_workers run' = rn_workers run" by (simp add: run' set_journal_def set_run_field_def)
qed

lemma change_entry_facts:
  assumes "\<And>d. dict_get (f d) ''id'' = dict_get d ''id''"
  shows "has_entry field i (change_entry f field i run) \<longleftrightarrow> has_entry field i run"
    and "others field i (change_entry f field i run) = others field i run"
    and "rn_workers (change_entry f field i run) = rn_workers run"
  using change_first_has [of f, OF assms] change_first_others [of f, OF assms]
  by (auto simp: change_entry_def has_entry_def others_def journal_entries_def set_journal_def [unfolded set_run_field_def]
      journal_of_def split: option.split json.split)

lemma change_entry_any:
  assumes "\<And>d. dict_get (f d) ''id'' = dict_get d ''id''"
  shows "has_entry field i (change_entry f field j run) \<longleftrightarrow> has_entry field i run"
  using change_first_has [of f, OF assms]
  by (auto simp: change_entry_def has_entry_def journal_entries_def split: option.split)

lemma journal_finalize_facts:
  "\<not> has_entry field i (journal_finalize field i run)" "others field i (journal_finalize field i run) = others field i run"
  "rn_workers (journal_finalize field i run) = rn_workers run"
  by (auto simp: journal_finalize_def has_entry_def others_def journal_entries_def Let_def list_ex_iff filter_empty_conv
      set_journal_def [unfolded set_run_field_def] pop_journal_def journal_of_def split: option.splits json.splits)

section \<open>The outbox over a store\<close>

locale remote_outbox = run_storage ok load update
  for ok :: "'s \<Rightarrow> bool" and load and update +
  fixes field :: string and now :: "'s \<Rightarrow> json"
  assumes own_field: "field \<notin> insert ''workers'' run_field_names"

context remote_outbox
begin

text \<open>The store holds an entry with the id, under the name of the run.\<close>

definition stored_entry :: "string \<Rightarrow> string \<Rightarrow> 's \<Rightarrow> bool" where
  "stored_entry n i s \<longleftrightarrow> ok s \<and> (\<exists>r. load n s = Inr r \<and> has_entry field i r)"

lemma field_names: "field \<noteq> ''workers''" "field \<noteq> ''name''" "field \<noteq> ''schema_version''" "field \<noteq> ''updated_at''"
  "field \<notin> run_field_names"
  using own_field by (auto simp: run_field_names_def base_field_names_def)

lemma keeps_set_journal: "good_run n r \<Longrightarrow> good_run n (set_journal field es r)"
  unfolding set_journal_def by (rule good_set_run_field) (simp_all add: field_names)

lemma keeps_pop_journal: "good_run n r \<Longrightarrow> good_run n (pop_journal field r)"
  using field_names by (auto simp: good_run_def wf_run_def run_named_def readable_def pop_journal_def)

lemma keeps_record_intent: "keeps_run n (journal_record_intent field r)"
  by (rule keeps_runI) (auto simp: journal_record_intent_def res_bind_Inr_iff keeps_set_journal)

lemma keeps_mark: "keeps_run n (journal_mark state field i r policy)"
  by (rule keeps_runI)
    (auto simp: journal_mark_def res_bind_Inr_iff Let_def keeps_set_journal split: if_splits)

lemma keeps_change_entry: "keeps_run n (\<lambda>r. Inr (change_entry f field i r))"
  by (rule keeps_runI) (auto simp: change_entry_def keeps_set_journal split: option.split)

lemma keeps_finalize: "keeps_run n (\<lambda>r. Inr (journal_finalize field i r))"
  by (rule keeps_runI)
    (auto simp: journal_finalize_def Let_def keeps_set_journal keeps_pop_journal split: option.split)

lemma entries_of_update:
  "\<forall>k. k \<notin> run_field_names \<longrightarrow> dict_get (rn_fields r') k = dict_get (rn_fields r1) k \<Longrightarrow>
     journal_entries field r' = journal_entries field r1"
  using field_names(5) by (simp add: journal_entries_def journal_of_def)

lemma entries_stamped: "stamped t m r = Inr r1 \<Longrightarrow> \<exists>r0. m r = Inr r0 \<and> journal_entries field r1 = journal_entries field r0"
  using field_names(4)
  by (auto simp: stamped_def res_bind_Inr_iff set_run_updated_at_def set_run_field_def journal_entries_def journal_of_def)

lemma persist_mutation_returns:
  assumes u: "persist_mutation update now m run s = (Inr r', s')" and s: "ok s" and k: "\<And>n. keeps_run n m"
    and run: "good_run n run"
  obtains r r0 where "load n s = Inr r" and "m r = Inr r0" and "journal_entries field r' = journal_entries field r0"
    and "ok s'" and "load n s' = Inr r'" and "good_run n r'"
proof -
  obtain n' where n': "run_name run = Inr n'" and up: "update n' (stamped (now s) m) s = Inr (r', s')"
    using u by (auto simp: persist_mutation_def act_update_Inr_iff persist_run_mutation_def res_bind_Inr_iff)
  have n: "n' = n" by (rule good_run_name [OF run n'])
  note up = up [unfolded n] and k = keeps_stamped [OF k, of n "now s"]
  obtain r r1 where r: "load n s = Inr r" "stamped (now s) m r = Inr r1"
    and same: "\<forall>k. k \<notin> run_field_names \<longrightarrow> dict_get (rn_fields r') k = dict_get (rn_fields r1) k"
    using update_applies [OF s k up] by blast
  obtain r0 where r0: "m r = Inr r0" "journal_entries field r1 = journal_entries field r0"
    using entries_stamped [OF r(2)] by blast
  show ?thesis
    by (rule that [OF r(1) r0(1) _ update_ok [OF s k up] update_load [OF s k up] update_good [OF s k up]])
      (use entries_of_update [OF same] r0(2) in simp)
qed

text \<open>A mutation that keeps the entry keeps it in the store, also when it raises.\<close>

lemma persist_keeps_entry:
  assumes k: "\<And>n. keeps_run n m" and keeps: "\<And>r r0. has_entry field i r \<Longrightarrow> m r = Inr r0 \<Longrightarrow> has_entry field i r0"
    and run: "good_run n run"
  shows "triple (stored_entry n i) (persist_mutation update now m run)
    (\<lambda>r s. stored_entry n i s \<and> good_run n r) (stored_entry n i)"
  unfolding persist_mutation_def
proof (rule triple_update)
  fix s r' s'
  assume s: "stored_entry n i s" and u: "persist_run_mutation update now m run s = Inr (r', s')"
  have u': "persist_mutation update now m run s = (Inr r', s')"
    using u by (simp add: persist_mutation_def act_update_def)
  obtain r where r: "ok s" "load n s = Inr r" "has_entry field i r" using s by (auto simp: stored_entry_def)
  obtain r2 r0 where r0: "load n s = Inr r2" "m r2 = Inr r0" "journal_entries field r' = journal_entries field r0"
    and s': "ok s'" "load n s' = Inr r'" "good_run n r'"
    by (rule persist_mutation_returns [OF u' r(1) k run])
  have "has_entry field i r0" using keeps r0(1,2) r(2,3) by simp
  then show "stored_entry n i s' \<and> good_run n r'" using r0(3) s' by (simp add: stored_entry_def has_entry_def)
qed simp

lemma triple_best_effort:
  "triple P m Q P \<Longrightarrow> (\<And>e. triple P (h e) Q P) \<Longrightarrow> triple P (best_effort m h) Q P"
  unfolding best_effort_def by (rule triple_catch, assumption) (auto intro: triple_raise)

lemma mark_uncertain_keeps:
  assumes "good_run n run"
  shows "triple (stored_entry n i) (mark_uncertain_best_effort update now field j op e run)
    (\<lambda>_. stored_entry n i) (stored_entry n i)"
proof -
  have "triple (stored_entry n i)
      (persist_mutation update now (\<lambda>latest. Inr (journal_mark_uncertain field j (failure_record op e t) latest)) run)
      (\<lambda>_. stored_entry n i) (stored_entry n i)" for t
    unfolding journal_mark_uncertain_def
    by (rule triple_weaken [OF persist_keeps_entry [OF keeps_change_entry _ assms]])
      (auto simp: change_entry_any uncertain_id)
  then show ?thesis
    unfolding mark_uncertain_best_effort_def
    by (intro triple_bind [OF triple_read [where Q = "\<lambda>_. stored_entry n i"]] triple_best_effort triple_return) auto
qed

lemma mark_succeeded_keeps:
  assumes "good_run n run"
  shows "triple (stored_entry n i) (transaction_mark_remote_succeeded update now field i op r policy run)
    (\<lambda>r s. stored_entry n i s \<and> good_run n r) (stored_entry n i)"
proof -
  have "triple (stored_entry n i) (persisted_mark_remote_succeeded update now field i r' policy run)
    (\<lambda>r s. stored_entry n i s \<and> good_run n r) (stored_entry n i)" for r'
    unfolding persisted_mark_remote_succeeded_def journal_mark_remote_succeeded_def
    by (rule persist_keeps_entry [OF keeps_mark _ assms]) (rule journal_mark_facts(1) [OF _ known_states(2)])
  then show ?thesis
    unfolding transaction_mark_remote_succeeded_def
    by (intro triple_bind [OF triple_result [where Q = "\<lambda>_. stored_entry n i"]])
qed

lemma call_keeps:
  assumes run: "good_run n run"
    and call: "triple (stored_entry n i) (rm_call m run intent) (\<lambda>_. stored_entry n i) (stored_entry n i)"
  shows "triple (stored_entry n i) (call_remote_recorded update now field i op m run intent)
    (\<lambda>_. stored_entry n i) (stored_entry n i)"
  unfolding call_remote_recorded_def
  by (intro triple_catch [OF call] triple_bind [OF mark_uncertain_keeps [OF run]] triple_raise)

lemma succeeded_keeps:
  assumes run: "good_run n run"
  shows "triple (stored_entry n i) (succeeded_record update now field i op m run intent r)
    (\<lambda>_. stored_entry n i) (stored_entry n i)"
proof (cases "rm_succeeded m")
  case (Some f)
  have "triple (stored_entry n i) (\<lambda>s. act_result (g s) s) (\<lambda>_. stored_entry n i) (stored_entry n i)" for g :: "'s \<Rightarrow> journal_record result"
    by (rule tripleI) auto
  moreover have "triple (stored_entry n i)
      (act_bind (transaction_mark_remote_succeeded update now field i op intent MISSING_INTENT_IGNORE run) (\<lambda>_. act_raise e))
      (\<lambda>_. stored_entry n i) (stored_entry n i)" for e
    by (rule triple_bind [OF mark_succeeded_keeps [OF run]]) (auto intro: triple_raise)
  ultimately show ?thesis unfolding succeeded_record_def Some option.case by (rule triple_catch)
qed (simp add: succeeded_record_def triple_return)

lemma mark_result_keeps:
  assumes run: "good_run n run"
  shows "triple (stored_entry n i) (mark_result_record update now field i op succeeded result run)
    (\<lambda>r s. stored_entry n i s \<and> good_run n r) (stored_entry n i)"
  unfolding mark_result_record_def
  using mark_succeeded_keeps [OF run] run by (auto split: option.split intro: triple_return)

text \<open>Applying the result either finishes, or raises and leaves the entry.\<close>

lemma apply_result_keeps:
  "triple (stored_entry n i) (transaction_apply_result update now field i op result run) (\<lambda>_ _. True) (stored_entry n i)"
  unfolding transaction_apply_result_def transaction_mark_applied_def persisted_mark_applied_def persisted_finalize_def
    persist_mutation_def
  by (auto intro!: triple_return triple_raise triple_update triple_bind [OF triple_result [where Q = "\<lambda>_. stored_entry n i"]]
      split: option.split)

lemma record_intent_stores:
  assumes s: "ok s" and run: "good_run n run"
    and made: "\<And>latest r. factory s latest = Inr r \<Longrightarrow> made_record r \<and> jr_id r = i"
  shows "triple (\<lambda>s'. s' = s) (record_intent_from load update now field factory run)
    (\<lambda>x s'. stored_entry n i s' \<and> good_run n (fst x) \<and> load n s' = Inr (fst x)) (\<lambda>s'. s' = s)"
proof (rule tripleI)
  let ?m = "intent_mutator field (factory s)"
  have k: "keeps_run n' ?m" for n'
    by (rule keeps_runI) (auto simp: intent_mutator_def res_bind_Inr_iff intro: keeps_runD [OF keeps_record_intent])
  fix s0 s1 x
  assume s0: "s0 = s" and r: "record_intent_from load update now field factory run s0 = (Inr x, s1)"
  obtain run1 where p: "persist_mutation update now ?m run s = (Inr run1, s1)" and x: "fst x = run1"
    using r by (auto simp: s0 record_intent_from_def elim!: act_bindE)
  obtain l l0 where l: "load n s = Inr l" "?m l = Inr l0" "journal_entries field run1 = journal_entries field l0"
    and s1: "ok s1" "load n s1 = Inr run1" "good_run n run1"
    by (rule persist_mutation_returns [OF p s k run])
  obtain rec0 where rec0: "factory s l = Inr rec0" "journal_record_intent field rec0 l = Inr l0"
    using l(2) by (auto simp: intent_mutator_def res_bind_Inr_iff)
  have "has_entry field i l0" using record_intent_facts(1) [OF rec0(2)] made [OF rec0(1)] by blast
  then show "stored_entry n i s1 \<and> good_run n (fst x) \<and> load n s1 = Inr (fst x)"
    using s1 l(3) by (simp add: stored_entry_def x has_entry_def)
next
  let ?m = "intent_mutator field (factory s)"
  fix s0 s1 e
  assume s0: "s0 = s" and r: "record_intent_from load update now field factory run s0 = (Inl e, s1)"
  show "s1 = s"
  proof (cases "persist_mutation update now ?m run s")
    case (Pair res s2)
    then show ?thesis
    proof (cases res)
      case (Inl e')
      then show ?thesis using r Pair
        by (auto simp: s0 record_intent_from_def act_bind_def persist_mutation_def act_update_def split: sum.splits)
    next
      case (Inr run1)
      have k: "keeps_run n' ?m" for n'
        by (rule keeps_runI) (auto simp: intent_mutator_def res_bind_Inr_iff intro: keeps_runD [OF keeps_record_intent])
      obtain l l0 where l: "load n s = Inr l" "?m l = Inr l0"
        using persist_mutation_returns [OF Pair [unfolded Inr] s k run] by metis
      obtain rec0 where "factory s l = Inr rec0" using l(2) by (auto simp: intent_mutator_def res_bind_Inr_iff)
      moreover obtain n' where "run_name run = Inr n'"
        using Pair Inr by (auto simp: persist_mutation_def act_update_Inr_iff persist_run_mutation_def res_bind_Inr_iff)
      moreover from this have "n' = n" by (rule good_run_name [OF run])
      ultimately have "recorded_intent load (factory s) run s = Inr rec0" using l(1) by (simp add: recorded_intent_def)
      then show ?thesis using r Pair Inr by (simp add: s0 record_intent_from_def act_bind_def)
    qed
  qed
qed

text \<open>The intents of a mutation carry its id.\<close>

definition intents_made :: "string \<Rightarrow> ('s, 'r) remote_mutation \<Rightarrow> bool" where
  "intents_made i m \<longleftrightarrow> (\<forall>s latest r. rm_intent m s latest = Inr r \<longrightarrow> made_record r)"

lemma validated_intent:
  assumes "intents_made i m" and "res_bind (rm_intent m s latest) (validate_record_identity i op) = Inr r"
  shows "made_record r \<and> jr_id r = i"
  using assms by (auto simp: intents_made_def res_bind_Inr_iff validate_record_identity_def split: if_splits)

text \<open>
  An interrupted mutation: when the runner raises, either nothing was persisted and no call made, or the
  store still holds the entry. The remote call itself must not touch it.
\<close>

lemma handled_same: "triple P (handled_result m intent succeeded r) (\<lambda>_. P) P"
  by (rule tripleI) (auto simp: handled_result_def split: option.splits)

text \<open>The steps of the runner after the intent was recorded.\<close>

definition after_intent ::
  "string \<Rightarrow> mutation_operation \<Rightarrow> ('s, 'r) remote_mutation \<Rightarrow> run_record \<Rightarrow> journal_record \<Rightarrow>
   ('s, run_record \<times> 'r \<times> journal_record) action" where
  "after_intent i op m run1 intent =
     act_bind (call_remote_recorded update now field i op m run1 intent) (\<lambda>r.
     act_bind (succeeded_record update now field i op m run1 intent r) (\<lambda>succeeded.
     act_bind (transaction_mark_remote_succeeded update now field i op succeeded (rm_succeeded_policy m) run1) (\<lambda>run2.
     act_bind (handled_result m intent succeeded r) (\<lambda>result.
     act_bind (mark_result_record update now field i op succeeded result run2) (\<lambda>run3.
     act_bind (transaction_apply_result update now field i op result run3) (\<lambda>run4.
     act_return (run4, r, intent)))))))"

lemma run_remote_mutation_eq:
  "run_remote_mutation load update now field i op m run =
     act_bind (record_intent_from load update now field
       (\<lambda>s latest. res_bind (rm_intent m s latest) (validate_record_identity i op)) run) (\<lambda>(run1, intent).
     after_intent i op m run1 intent)"
  unfolding run_remote_mutation_def after_intent_def by simp

lemma after_intent_keeps:
  assumes run: "good_run n run1"
    and call: "triple (stored_entry n i) (rm_call m run1 intent) (\<lambda>_. stored_entry n i) (stored_entry n i)"
  shows "triple (stored_entry n i) (after_intent i op m run1 intent) (\<lambda>_ _. True) (stored_entry n i)"
proof -
  have tail: "triple (stored_entry n i)
    (act_bind (handled_result m intent succeeded r) (\<lambda>result.
     act_bind (mark_result_record update now field i op succeeded result run2) (\<lambda>run3.
     act_bind (transaction_apply_result update now field i op result run3) (\<lambda>run4.
     act_return (run4, r, intent))))) (\<lambda>_ _. True) (stored_entry n i)"
    if "good_run n run2" for succeeded r run2
    by (rule triple_bind [OF handled_same], rule triple_bind [OF mark_result_keeps [OF that]], rule triple_given,
        rule triple_bind [OF apply_result_keeps], rule triple_return, rule TrueI)
  show ?thesis
    unfolding after_intent_def
    by (rule triple_bind [OF call_keeps [OF run call]], rule triple_bind [OF succeeded_keeps [OF run]],
        rule triple_bind [OF mark_succeeded_keeps [OF run]], rule triple_given, erule tail)
qed

lemma interrupted_mutation:
  assumes s: "ok s" and run: "good_run n run" and made: "intents_made i m"
    and call: "\<And>r intent. triple (stored_entry n i) (rm_call m r intent) (\<lambda>_. stored_entry n i) (stored_entry n i)"
    and e: "run_remote_mutation load update now field i op m run s = (Inl e, s')"
  shows "s' = s \<or> stored_entry n i s'"
proof -
  let ?factory = "\<lambda>s latest. res_bind (rm_intent m s latest) (validate_record_identity i op)"
  let ?E = "\<lambda>s'. s' = s \<or> stored_entry n i s'"
  have intent: "triple (\<lambda>s'. s' = s) (record_intent_from load update now field ?factory run)
    (\<lambda>x s'. stored_entry n i s' \<and> good_run n (fst x)) ?E"
    by (rule triple_weaken [OF record_intent_stores [OF s run validated_intent [OF made]]]) auto
  have rest: "triple (\<lambda>s'. stored_entry n i s' \<and> good_run n (fst x))
    (case x of (run1, intent) \<Rightarrow> after_intent i op m run1 intent) (\<lambda>_ _. True) ?E" for x
  proof (rule triple_given)
    assume good: "good_run n (fst x)"
    show "triple (stored_entry n i) (case x of (run1, intent) \<Rightarrow> after_intent i op m run1 intent) (\<lambda>_ _. True) ?E"
      unfolding split_def by (rule triple_weaken [OF after_intent_keeps [OF good call]]) auto
  qed
  have t: "triple (\<lambda>s'. s' = s) (run_remote_mutation load update now field i op m run) (\<lambda>_ _. True) ?E"
    unfolding run_remote_mutation_eq by (rule triple_bind [OF intent rest])
  show ?thesis by (rule triple_raises [OF t refl e])
qed

text \<open>The remote call is made only when its intent is in the store.\<close>

lemma call_after_intent:
  assumes s: "ok s" and run: "good_run n run" and made: "intents_made i m"
    and same: "\<And>r intent s1. load n s1 = Inr r \<Longrightarrow> stored_entry n i s1 \<Longrightarrow> rm_call m' r intent s1 = rm_call m r intent s1"
  shows "run_remote_mutation load update now field i op (m\<lparr>rm_call := rm_call m'\<rparr>) run s =
    run_remote_mutation load update now field i op m run s"
proof -
  let ?factory = "\<lambda>s latest. res_bind (rm_intent m s latest) (validate_record_identity i op)"
  let ?m = "m\<lparr>rm_call := rm_call m'\<rparr>"
  have same_tail: "succeeded_record update now field i op ?m = succeeded_record update now field i op m"
    "handled_result ?m = handled_result m"
    by (simp_all add: succeeded_record_def handled_result_def fun_eq_iff)
  have after: "after_intent i op ?m run1 intent s1 = after_intent i op m run1 intent s1"
    if "load n s1 = Inr run1" "stored_entry n i s1" for run1 intent s1
    using same [OF that, of intent]
    by (simp add: after_intent_def same_tail act_bind_def call_remote_recorded_def act_catch_def)
  note stored = record_intent_stores [OF s run validated_intent [OF made]]
  show ?thesis
  proof (cases "record_intent_from load update now field ?factory run s")
    case (Pair res s1)
    show ?thesis
    proof (cases res)
      case (Inr x)
      have "stored_entry n i s1 \<and> good_run n (fst x) \<and> load n s1 = Inr (fst x)"
        by (rule triple_returns [OF stored refl Pair [unfolded Inr]])
      then show ?thesis using Pair Inr after [of s1 "fst x" "snd x"]
        by (simp add: run_remote_mutation_eq act_bind_def split_def)
    qed (use Pair in \<open>simp add: run_remote_mutation_eq act_bind_def\<close>)
  qed
qed

text \<open>Finalizing removes the entry, and no other.\<close>

lemma finalize_removes:
  assumes f: "persisted_finalize update now field i None run s = (Inr r', s')" and s: "ok s" and run: "good_run n run"
  shows "load n s' = Inr r'" and "\<not> has_entry field i r'"
    and "\<exists>r. load n s = Inr r \<and> others field i r' = others field i r"
proof -
  let ?m = "with_run_update None (\<lambda>latest. Inr (journal_finalize field i latest))"
  have k: "keeps_run n' ?m" for n' by (rule keeps_runI) (auto simp: with_run_update_def intro: keeps_runD [OF keeps_finalize])
  obtain r r0 where r: "load n s = Inr r" "?m r = Inr r0" "journal_entries field r' = journal_entries field r0"
    and s': "ok s'" "load n s' = Inr r'" "good_run n r'"
    by (rule persist_mutation_returns [OF f [unfolded persisted_finalize_def] s k run])
  have r0: "r0 = journal_finalize field i r" using r(2) by (simp add: with_run_update_def)
  show "load n s' = Inr r'" by (rule s'(2))
  show "\<not> has_entry field i r'" "\<exists>r. load n s = Inr r \<and> others field i r' = others field i r"
    using journal_finalize_facts(1,2) [of field i r] r by (auto simp: has_entry_def others_def r0)
qed

end

definition WORKER_SESSION_JOURNAL_FIELD :: string where
  "WORKER_SESSION_JOURNAL_FIELD = ''worker_session_journal''"

definition REMOTE_MUTATION_JOURNAL_FIELD :: string where
  "REMOTE_MUTATION_JOURNAL_FIELD = ''remote_mutation_journal''"

interpretation session_outbox: remote_outbox sound_store "load_run pf cwd" "\<lambda>name m. update_run pf cwd name m allow"
  WORKER_SESSION_JOURNAL_FIELD now
  for pf cwd allow now
  by unfold_locales (simp add: WORKER_SESSION_JOURNAL_FIELD_def run_field_names_def base_field_names_def)

interpretation command_outbox: remote_outbox sound_store "load_run pf cwd" "\<lambda>name m. update_run pf cwd name m allow"
  REMOTE_MUTATION_JOURNAL_FIELD now
  for pf cwd allow now
  by unfold_locales (simp add: REMOTE_MUTATION_JOURNAL_FIELD_def run_field_names_def base_field_names_def)

end
