(* ===== verification/Outbox_Workers.thy ===== *)
theory Outbox_Workers
  imports Journal_Facts
begin

text \<open>
  What a remote mutation does to the workers of its run: the journal's own writes leave them alone, only the
  run update of the result changes them, and the run that the runner returns is the stored one.
\<close>

text \<open>The run update of a result.\<close>

definition fits :: "(workers \<Rightarrow> bool) \<Rightarrow> string \<Rightarrow> run_update option \<Rightarrow> bool" where
  "fits W n upd \<longleftrightarrow> (\<forall>u. upd = Some u \<longrightarrow> (\<forall>n. keeps_run n u) \<and>
     (\<forall>r r0. good_run n r \<longrightarrow> W (rn_workers r) \<longrightarrow> u r = Inr r0 \<longrightarrow> W (rn_workers r0)))"

lemma finalize_updates: "result_finalize None = Inr r \<Longrightarrow> fits W n (mr_run_update r)"
  by (auto simp: result_finalize_def make_mutation_result_def res_bind_Inr_iff Let_def fits_def split: if_splits)

lemma triple_from: "(\<And>s. P s \<Longrightarrow> triple P m Q E) \<Longrightarrow> triple P m Q E"
  by (auto simp: triple_def)

context remote_outbox
begin

definition held :: "(workers \<Rightarrow> bool) \<Rightarrow> string \<Rightarrow> 's \<Rightarrow> bool" where
  "held W n s \<longleftrightarrow> ok s \<and> (\<exists>r. load n s = Inr r \<and> W (rn_workers r))"

definition in_store :: "(workers \<Rightarrow> bool) \<Rightarrow> string \<Rightarrow> run_record \<Rightarrow> 's \<Rightarrow> bool" where
  "in_store W n run s \<longleftrightarrow> ok s \<and> load n s = Inr run \<and> W (rn_workers run)"

lemma in_store_held: "in_store W n run s \<Longrightarrow> held W n s"
  by (auto simp: in_store_def held_def)

lemma in_store_good: "in_store W n run s \<Longrightarrow> good_run n run"
  by (auto simp: in_store_def intro: load_good)

lemma persist_in_store:
  assumes k: "\<And>n. keeps_run n m" and keeps: "\<And>r r0. good_run n r \<Longrightarrow> W (rn_workers r) \<Longrightarrow> m r = Inr r0 \<Longrightarrow> W (rn_workers r0)"
    and run: "good_run n run"
  shows "triple (held W n) (persist_mutation update now m run) (\<lambda>r. in_store W n r) (held W n)"
  unfolding persist_mutation_def
proof (rule triple_update)
  fix s r' s'
  assume s: "held W n s" and u: "persist_run_mutation update now m run s = Inr (r', s')"
  obtain r where r: "ok s" "load n s = Inr r" "W (rn_workers r)" using s by (auto simp: held_def)
  obtain n' where n': "run_name run = Inr n'" and up: "update n' (stamped (now s) m) s = Inr (r', s')"
    using u by (auto simp: persist_run_mutation_def res_bind_Inr_iff)
  have n: "n' = n" by (rule good_run_name [OF run n'])
  note up = up [unfolded n] and k = keeps_stamped [OF k, of n "now s"]
  obtain r1 where r1: "stamped (now s) m r = Inr r1" "rn_workers r' = rn_workers r1"
    using update_applies [OF r(1) k up] r(2) by auto
  have "W (rn_workers r')"
    using keeps [OF load_good [OF r(1,2)] r(3)] r1
    by (auto simp: stamped_def res_bind_Inr_iff set_run_updated_at_def set_run_field_def)
  then show "in_store W n r' s'"
    using update_ok [OF r(1) k up] update_load [OF r(1) k up] by (simp add: in_store_def)
qed simp

text \<open>An operation of the journal that raises a persistence error was given a stored run, which is then returned.\<close>

lemma best_effort_in_store:
  assumes "triple (held W n) m (\<lambda>r. in_store W n r) (held W n)"
    and "\<And>e. triple (in_store W n run) (h e) (\<lambda>r. in_store W n r) (held W n)"
    and same: "\<And>s e s'. m s = (Inl e, s') \<Longrightarrow> s' = s"
  shows "triple (in_store W n run) (best_effort m h) (\<lambda>r. in_store W n r) (held W n)"
proof (rule tripleI)
  fix s e s'
  assume s: "in_store W n run s" and r: "best_effort m h s = (Inl e, s')"
  obtain e1 where e1: "m s = (Inl e1, s)" "(if persistence_error e1 then h e1 else act_raise e1) s = (Inl e, s')"
    using r [unfolded best_effort_def] by (rule act_catchE) (use same in auto)
  then show "held W n s'"
    using triple_raises [OF assms(2) s, of e1] in_store_held [OF s] by (auto split: if_splits)
next
  fix s x s'
  assume s: "in_store W n run s" and r: "best_effort m h s = (Inr x, s')"
  from r [unfolded best_effort_def] show "in_store W n x s'"
  proof (rule act_catchE)
    fix e1 s1
    assume "m s = (Inl e1, s1)" and "(if persistence_error e1 then h e1 else act_raise e1) s1 = (Inr x, s')"
    with same [of s e1 s1] show ?thesis using triple_returns [OF assms(2) s, of e1] by (auto split: if_splits)
  qed (use triple_returns [OF assms(1) in_store_held [OF s]] in auto)
qed

lemma persist_raises_same: "persist_mutation update now m run s = (Inl e, s') \<Longrightarrow> s' = s"
  by (auto simp: persist_mutation_def act_update_def split: sum.splits)

lemma mark_uncertain_held:
  assumes "good_run n run"
  shows "triple (held W n) (mark_uncertain_best_effort update now field j op e run) (\<lambda>_. held W n) (held W n)"
proof -
  have "triple (held W n)
      (persist_mutation update now (\<lambda>latest. Inr (journal_mark_uncertain field j (failure_record op e t) latest)) run)
      (\<lambda>_. held W n) (held W n)" for t
    unfolding journal_mark_uncertain_def
    by (rule triple_weaken [OF persist_in_store [OF keeps_change_entry _ assms]])
      (auto simp: uncertain_id change_entry_facts(3) intro: in_store_held)
  then show ?thesis
    unfolding mark_uncertain_best_effort_def best_effort_def
    by (intro triple_bind [OF triple_read [where Q = "\<lambda>_. held W n"]] triple_catch) (auto intro: triple_return triple_raise)
qed

lemma mark_succeeded_in_store:
  assumes "good_run n run"
  shows "triple (held W n) (transaction_mark_remote_succeeded update now field i op r policy run)
    (\<lambda>r. in_store W n r) (held W n)"
proof -
  have "triple (held W n) (persisted_mark_remote_succeeded update now field i r' policy run)
    (\<lambda>r. in_store W n r) (held W n)" for r'
    unfolding persisted_mark_remote_succeeded_def journal_mark_remote_succeeded_def
    by (rule persist_in_store [OF keeps_mark _ assms]) (simp add: journal_mark_facts(3) [OF _ known_states(2)])
  then show ?thesis
    unfolding transaction_mark_remote_succeeded_def
    by (intro triple_bind [OF triple_result [where Q = "\<lambda>_. held W n"]])
qed

lemma record_intent_in_store:
  assumes run: "good_run n run"
    and made: "\<And>s latest r. factory s latest = Inr r \<Longrightarrow> made_record r \<and> J r"
  shows "triple (held W n) (record_intent_from load update now field factory run)
    (\<lambda>x s. in_store W n (fst x) s \<and> J (snd x)) (held W n)"
proof (rule tripleI)
  have t: "triple (held W n) (persist_mutation update now (intent_mutator field (factory s)) run) (\<lambda>r. in_store W n r) (held W n)" for s
  proof (rule persist_in_store [OF _ _ run])
    show "keeps_run n' (intent_mutator field (factory s))" for n'
      by (rule keeps_runI) (auto simp: intent_mutator_def res_bind_Inr_iff intro: keeps_runD [OF keeps_record_intent])
    show "W (rn_workers r) \<Longrightarrow> intent_mutator field (factory s) r = Inr r0 \<Longrightarrow> W (rn_workers r0)" for r r0
      using made record_intent_facts(3) by (auto simp: intent_mutator_def res_bind_Inr_iff)
  qed
  show "held W n s'" if "held W n s" and "record_intent_from load update now field factory run s = (Inl e, s')" for s e s'
    using that triple_raises [OF t that(1)] triple_returns [OF t that(1)]
    by (auto simp: record_intent_from_def elim!: act_bindE) (blast intro: in_store_held)
  show "in_store W n (fst x) s' \<and> J (snd x)"
    if "held W n s" and "record_intent_from load update now field factory run s = (Inr x, s')" for s x s'
    using that triple_returns [OF t that(1)] made
    by (auto simp: record_intent_from_def recorded_intent_def res_bind_Inr_iff elim!: act_bindE)
qed

lemma call_held:
  assumes "good_run n run" and "triple (held W n) (rm_call m run intent) (\<lambda>_. held W n) (held W n)"
  shows "triple (held W n) (call_remote_recorded update now field i op m run intent) (\<lambda>_. held W n) (held W n)"
  unfolding call_remote_recorded_def
  by (intro triple_catch [OF assms(2)] triple_bind [OF mark_uncertain_held [OF assms(1)]] triple_raise)

lemma succeeded_held:
  assumes run: "good_run n run"
  shows "triple (held W n) (succeeded_record update now field i op m run intent r) (\<lambda>_. held W n) (held W n)"
proof (cases "rm_succeeded m")
  case (Some f)
  have "triple (held W n) (\<lambda>s. act_result (g s) s) (\<lambda>_. held W n) (held W n)" for g :: "'s \<Rightarrow> journal_record result"
    by (rule tripleI) auto
  moreover have "triple (held W n)
      (act_bind (transaction_mark_remote_succeeded update now field i op intent MISSING_INTENT_IGNORE run) (\<lambda>_. act_raise e))
      (\<lambda>_. held W n) (held W n)" for e
    by (rule triple_bind [OF mark_succeeded_in_store [OF run]]) (auto intro: triple_raise in_store_held)
  ultimately show ?thesis unfolding succeeded_record_def Some option.case by (rule triple_catch)
qed (simp add: succeeded_record_def triple_return)

lemma mark_result_in_store:
  "triple (in_store W n run) (mark_result_record update now field i op succeeded result run) (\<lambda>r. in_store W n r) (held W n)"
  unfolding mark_result_record_def
  by (rule tripleI) (auto split: option.splits if_splits
      dest: triple_returns [OF mark_succeeded_in_store [OF in_store_good] in_store_held]
        triple_raises [OF mark_succeeded_in_store [OF in_store_good] in_store_held])

lemma updated_in_store:
  assumes upd: "fits W n upd" and m: "\<And>n. keeps_run n m" "\<And>r r0. m r = Inr r0 \<Longrightarrow> rn_workers r0 = rn_workers r"
    and run: "good_run n run"
  shows "triple (held W n) (persist_mutation update now (with_run_update upd m) run) (\<lambda>r. in_store W n r) (held W n)"
proof (rule persist_in_store [OF _ _ run])
  show "keeps_run n' (with_run_update upd m)" for n'
    using upd by (intro keeps_runI)
      (auto simp: with_run_update_def res_bind_Inr_iff fits_def split: option.splits intro: keeps_runD [OF m(1)] dest: keeps_runD)
  show "W (rn_workers r0)" if "good_run n r" "W (rn_workers r)" "with_run_update upd m r = Inr r0" for r r0
    using that upd m(2) by (auto simp: with_run_update_def res_bind_Inr_iff fits_def split: option.splits)
qed

lemma apply_result_in_store:
  assumes upd: "fits W n (mr_run_update result)"
  shows "triple (in_store W n run) (transaction_apply_result update now field i op result run) (\<lambda>r. in_store W n r) (held W n)"
proof (rule tripleI)
  have applied: "triple (held W n) (transaction_mark_applied update now field i op r (mr_run_update result) p run)
      (\<lambda>r. in_store W n r) (held W n)" if "good_run n run" for r p
    unfolding transaction_mark_applied_def persisted_mark_applied_def journal_mark_applied_def
    by (intro triple_bind [OF triple_result [where Q = "\<lambda>_. held W n"]] updated_in_store [OF upd keeps_mark _ that])
      (auto simp: journal_mark_facts(3) [OF _ known_states(3)])
  have finalized: "triple (held W n) (persisted_finalize update now field i (mr_run_update result) run)
      (\<lambda>r. in_store W n r) (held W n)" if "good_run n run"
    unfolding persisted_finalize_def
    by (rule updated_in_store [OF upd keeps_finalize _ that]) (auto simp: journal_finalize_facts(3))
  note good = in_store_good and h = in_store_held
  show "held W n s'" if s: "in_store W n run s" and r: "transaction_apply_result update now field i op result run s = (Inl e, s')" for s e s'
    using r triple_raises [OF applied [OF good [OF s]] h [OF s]] triple_raises [OF finalized [OF good [OF s]] h [OF s]] h [OF s]
    by (auto simp: transaction_apply_result_def split: if_splits option.splits)
  show "in_store W n x s'" if s: "in_store W n run s" and r: "transaction_apply_result update now field i op result run s = (Inr x, s')" for s x s'
    using r s triple_returns [OF applied [OF good [OF s]] h [OF s]] triple_returns [OF finalized [OF good [OF s]] h [OF s]]
    by (auto simp: transaction_apply_result_def split: if_splits option.splits)
qed

text \<open>The whole mutation; \<open>J\<close> is what its intents satisfy.\<close>

lemma remote_mutation_in_store:
  assumes run: "good_run n run" and made: "\<And>s latest r. rm_intent m s latest = Inr r \<Longrightarrow> made_record r \<and> J r"
    and call: "\<And>r intent. J intent \<Longrightarrow> triple (held W n) (rm_call m r intent) (\<lambda>_. held W n) (held W n)"
    and upd: "\<And>f s r intent succeeded result. rm_apply m = Some f \<Longrightarrow> f s r intent succeeded = Inr (Some result) \<Longrightarrow>
      J intent \<Longrightarrow> fits W n (mr_run_update result)"
  shows "triple (held W n) (run_remote_mutation load update now field i op m run) (\<lambda>x. in_store W n (fst x)) (held W n)"
proof -
  have handled: "triple (in_store W n run2) (handled_result m intent succeeded r)
      (\<lambda>result s. in_store W n run2 s \<and> fits W n (mr_run_update result)) (held W n)" if "J intent" for run2 intent succeeded r
    using that by (intro tripleI) (auto simp: handled_result_def res_bind_Inr_iff in_store_held dest: finalize_updates upd
      split: option.splits)
  have last: "triple (\<lambda>s. in_store W n run2 s \<and> fits W n (mr_run_update result))
      (act_bind (mark_result_record update now field i op succeeded result run2) (\<lambda>run3.
       act_bind (transaction_apply_result update now field i op result run3) (\<lambda>run4.
       act_return (run4, r, intent)))) (\<lambda>x. in_store W n (fst x)) (held W n)" for run2 result succeeded r intent
    by (rule triple_given, rule triple_bind [OF mark_result_in_store], rule triple_bind [OF apply_result_in_store], assumption,
        rule triple_return) simp
  have after: "triple (held W n) (after_intent i op m run1 intent) (\<lambda>x. in_store W n (fst x)) (held W n)"
    if run1: "good_run n run1" and J: "J intent" for run1 intent
    unfolding after_intent_def
    by (rule triple_bind [OF call_held [OF run1 call [OF J]]], rule triple_bind [OF succeeded_held [OF run1]],
        rule triple_bind [OF mark_succeeded_in_store [OF run1]], rule triple_bind [OF handled [OF J] last])
  have intent: "triple (held W n) (record_intent_from load update now field
      (\<lambda>s latest. res_bind (rm_intent m s latest) (validate_record_identity i op)) run)
      (\<lambda>x s. in_store W n (fst x) s \<and> J (snd x)) (held W n)"
    by (rule record_intent_in_store [OF run])
      (use made in \<open>auto simp: res_bind_Inr_iff validate_record_identity_def split: if_splits\<close>)
  have rest: "triple (\<lambda>s. in_store W n (fst x) s \<and> J (snd x)) (after_intent i op m (fst x) (snd x))
      (\<lambda>x. in_store W n (fst x)) (held W n)" for x
    by (rule tripleI) (auto dest: triple_returns [OF after] triple_raises [OF after] in_store_good in_store_held)
  show ?thesis unfolding run_remote_mutation_eq split_def by (rule triple_bind [OF intent rest])
qed

lemma finalize_in_store:
  "triple (in_store W n run) (finalize_best_effort update now field i op run) (\<lambda>r. in_store W n r) (held W n)"
proof (rule triple_from)
  fix s assume "in_store W n run s"
  then have run: "good_run n run" by (rule in_store_good)
  have fin: "triple (held W n) (persisted_finalize update now field i None run) (\<lambda>r. in_store W n r) (held W n)"
    unfolding persisted_finalize_def
    by (rule updated_in_store [OF _ keeps_finalize _ run]) (auto simp: fits_def journal_finalize_facts(3))
  have mark: "triple (held W n)
      (persist_mutation update now (\<lambda>latest. Inr (journal_mark_cleanup_failure field i (failure_record op e t) latest)) run)
      (\<lambda>r. in_store W n r) (held W n)" for e t
    unfolding journal_mark_cleanup_failure_def
    by (rule persist_in_store [OF keeps_change_entry _ run]) (auto simp: change_entry_facts(3))
  have "triple (in_store W n run) (record_cleanup_failure_best_effort update now field i op e run)
      (\<lambda>r. in_store W n r) (held W n)" for e
    unfolding record_cleanup_failure_best_effort_def
    by (rule triple_bind [OF triple_read [where Q = "\<lambda>_. in_store W n run"]], assumption, rule best_effort_in_store [OF mark])
      (auto intro: triple_return persist_raises_same)
  then show "triple (in_store W n run) (finalize_best_effort update now field i op run) (\<lambda>r. in_store W n r) (held W n)"
    unfolding finalize_best_effort_def
    by (intro best_effort_in_store [OF fin]) (auto simp: persisted_finalize_def intro: persist_raises_same)
qed

end

end
