(* ===== verification/Session_Provisioning.thy ===== *)
theory Session_Provisioning
  imports Journal_Facts
begin

text \<open>
  \<open>worker_session_provisioning.py\<close>: a worker gets a session of the server, created through the outbox of
  its run when it has none. The client is the parameter \<open>create\<close>: the action that asks the server for
  a session of a directory, an agent and a model with the given metadata and yields its id, or raises.
  Ids of journal entries are drawn by the caller.
\<close>

section \<open>Sessions\<close>

definition WORKER_SESSION_CREATE_KIND :: string where
  "WORKER_SESSION_CREATE_KIND = ''worker_session_create''"

definition WORKER_SESSION_CREATE_OPERATION :: mutation_operation where
  "WORKER_SESSION_CREATE_OPERATION =
     \<lparr>mo_kind = WORKER_SESSION_CREATE_KIND, mo_discard_cleanup_operation = ''discard_worker_session_create'',
      mo_finalize_cleanup_operation = ''finalize_worker_session_create'',
      mo_call_remote_operation = ''call_worker_session_create''\<rparr>"

record session_outcome =
  so_session_id :: json
  so_created_session_id :: json

type_synonym 's session_client = "json \<Rightarrow> json \<Rightarrow> json \<Rightarrow> jdict option \<Rightarrow> ('s, json) action"

definition run_directory :: "run_record \<Rightarrow> json result" where
  "run_directory run = (case map_of (rn_fields run) ''directory'' of None \<Rightarrow> Inl (KeyError ''directory'') | Some d \<Rightarrow> Inr d)"

definition first_truthy :: "json \<Rightarrow> json \<Rightarrow> json" where
  "first_truthy a b = (if py_truthy a then a else b)"

text \<open>The session is written to the worker, which is the value returned with the outcome.\<close>

definition ensure_worker_session ::
  "'s session_client \<Rightarrow> run_record \<Rightarrow> worker_record \<Rightarrow> json \<Rightarrow> json \<Rightarrow> json \<Rightarrow> jdict option \<Rightarrow> bool \<Rightarrow>
   ('s, worker_record \<times> session_outcome) action" where
  "ensure_worker_session create run w session_id agent model metadata falsey_missing =
     (let sid = first_truthy session_id (wr_slots w F_session_id);
          missing = (if falsey_missing then \<not> py_truthy sid else sid = JNull) in
      act_bind (if missing then act_bind (act_result (run_directory run)) (\<lambda>d. create d agent model metadata)
                else act_return JNull) (\<lambda>created.
      let final = (if missing then created else sid) in
      act_bind (act_result (set_session w final agent model)) (\<lambda>w'.
      act_return (w', \<lparr>so_session_id = final, so_created_session_id = created\<rparr>))))"

definition provision_worker_session ::
  "'s session_client \<Rightarrow> run_record \<Rightarrow> worker_record \<Rightarrow> json \<Rightarrow> json \<Rightarrow> json \<Rightarrow> bool \<Rightarrow> jdict option \<Rightarrow>
   ('s, worker_record \<times> session_outcome) action" where
  "provision_worker_session create run w session_id agent model create_session metadata =
     (if create_session then ensure_worker_session create run w session_id agent model metadata True
      else act_bind (act_result (set_session w (first_truthy session_id (wr_slots w F_session_id)) agent model)) (\<lambda>w'.
           act_return (w', \<lparr>so_session_id = wr_slots w' F_session_id, so_created_session_id = JNull\<rparr>)))"

definition will_create_worker_session :: "worker_record \<Rightarrow> json \<Rightarrow> bool \<Rightarrow> bool" where
  "will_create_worker_session w session_id create_session \<longleftrightarrow>
     create_session \<and> \<not> py_truthy (first_truthy session_id (wr_slots w F_session_id))"

section \<open>Intents and results\<close>

definition set_if_not_none :: "string \<Rightarrow> json \<Rightarrow> jdict \<Rightarrow> jdict" where
  "set_if_not_none k v d = (if v = JNull then d else dict_set k v d)"

definition worker_session_creation_intent ::
  "string \<Rightarrow> run_record \<Rightarrow> worker_record \<Rightarrow> json \<Rightarrow> json \<Rightarrow> bool \<Rightarrow> json \<Rightarrow> journal_record result" where
  "worker_session_creation_intent i run w agent model cleanup_requested t =
     make_journal_record i WORKER_SESSION_CREATE_KIND
       (set_if_not_none ''model'' model (set_if_not_none ''agent'' agent
         [(''worker_id'', worker_id w), (''directory'', dict_get (rn_fields run) ''directory''),
          (''cleanup_requested'', JBool cleanup_requested), (''intent_recorded_at'', t)]))"

text \<open>The id of a worker in a record is text.\<close>

definition intent_worker_id :: "journal_record \<Rightarrow> string result" where
  "intent_worker_id r = (case map_of (jr_fields r) ''worker_id'' of
     None \<Rightarrow> Inl (KeyError ''worker_id'')
   | Some (JStr i) \<Rightarrow> Inr i
   | Some _ \<Rightarrow> Inl (TypeError ''worker id is not a string''))"

definition intent_cleanup_requested :: "journal_record \<Rightarrow> bool" where
  "intent_cleanup_requested r \<longleftrightarrow> dict_get (jr_fields r) ''cleanup_requested'' = JBool True"

definition worker_session_creation_metadata :: "run_record \<Rightarrow> journal_record \<Rightarrow> jdict result" where
  "worker_session_creation_metadata run intent =
     res_bind (intent_worker_id intent) (\<lambda>i.
     let d = [(''ocs.remote_mutation_kind'', JStr WORKER_SESSION_CREATE_KIND), (''ocs.remote_mutation_id'', JStr (jr_id intent)),
              (''ocs.worker_id'', JStr i),
              (''ocs.cleanup_requested'', JStr (if intent_cleanup_requested intent then ''true'' else ''false''))]
     in Inr (case dict_get (rn_fields run) ''name'' of
               JStr (c # cs) \<Rightarrow> dict_set ''ocs.run_name'' (JStr (c # cs)) d | _ \<Rightarrow> d))"

definition ensure_latest_worker :: "run_record \<Rightarrow> string \<Rightarrow> (run_record \<times> worker_record) result" where
  "ensure_latest_worker run i =
     (case run_worker run i of
        Some w \<Rightarrow> Inr (run, w)
      | None \<Rightarrow> res_bind (default_worker_record (JStr i)) (\<lambda>w. Inr (set_run_worker run i w, w)))"

definition apply_created_worker_session ::
  "string \<Rightarrow> json \<Rightarrow> bool \<Rightarrow> json \<Rightarrow> json \<Rightarrow> run_record \<Rightarrow> run_record result" where
  "apply_created_worker_session i session_id cleanup_requested agent model run =
     res_bind (ensure_latest_worker run i) (\<lambda>(run1, w).
     res_bind (set_session w session_id agent model) (\<lambda>w1.
     Inr (set_run_worker run1 i (if cleanup_requested then remember_session_for_cleanup w1 session_id else w1))))"

definition created_session_record :: "journal_record \<Rightarrow> json \<Rightarrow> json \<Rightarrow> journal_record result" where
  "created_session_record intent session_id created_at =
     res_bind (intent_worker_id intent) (\<lambda>i.
     make_journal_record (jr_id intent) WORKER_SESSION_CREATE_KIND
       [(''worker_id'', JStr i), (''cleanup_requested'', JBool (intent_cleanup_requested intent)),
        (''session_id'', session_id), (''created_session_ids'', JList [session_id]), (''created_at'', created_at)])"

text \<open>The record is the one of \<open>created_session_record\<close>.\<close>

definition created_session_result :: "journal_record \<Rightarrow> json \<Rightarrow> journal_record \<Rightarrow> json \<Rightarrow> json \<Rightarrow> mutation_result result" where
  "created_session_result intent session_id created agent model =
     res_bind (intent_worker_id intent) (\<lambda>i.
     result_record_applied created
       (Some (apply_created_worker_session i session_id (intent_cleanup_requested intent) agent model))
       MISSING_INTENT_RECORD_APPLIED)"

section \<open>Creation through the outbox\<close>

text \<open>
  \<open>WorkerSessionProvisioner.provision\<close> builds the remote mutation of \<open>run_creation\<close>: its intent, the call
  that provisions the session, and what its success records and applies.
\<close>

definition call_session_creation ::
  "'s session_client \<Rightarrow> json \<Rightarrow> json \<Rightarrow> json \<Rightarrow> bool \<Rightarrow> run_record \<Rightarrow> journal_record \<Rightarrow> ('s, session_outcome) action" where
  "call_session_creation create session_id agent model create_session run intent =
     act_bind (act_result (res_bind (intent_worker_id intent) (ensure_latest_worker run))) (\<lambda>(run1, w).
     act_bind (act_result (worker_session_creation_metadata run1 intent)) (\<lambda>metadata.
     act_bind (provision_worker_session create run1 w session_id agent model create_session (Some metadata)) (\<lambda>(w1, outcome).
     act_return outcome)))"

definition succeeded_session_record ::
  "('s \<Rightarrow> json) \<Rightarrow> 's \<Rightarrow> session_outcome \<Rightarrow> journal_record \<Rightarrow> journal_record result" where
  "succeeded_session_record now s outcome intent =
     (if so_created_session_id outcome = JNull then Inr intent
      else created_session_record intent (so_created_session_id outcome) (now s))"

definition apply_created_session ::
  "json \<Rightarrow> json \<Rightarrow> session_outcome \<Rightarrow> journal_record \<Rightarrow> journal_record \<Rightarrow> mutation_result option result" where
  "apply_created_session agent model outcome intent succeeded =
     (if so_created_session_id outcome = JNull then res_bind result_keep_pending (\<lambda>r. Inr (Some r))
      else res_bind (created_session_result intent (so_created_session_id outcome) succeeded agent model) (\<lambda>r. Inr (Some r)))"

definition session_creation ::
  "'s session_client \<Rightarrow> ('s \<Rightarrow> json) \<Rightarrow> string \<Rightarrow> worker_record \<Rightarrow> json \<Rightarrow> json \<Rightarrow> json \<Rightarrow> bool \<Rightarrow> bool \<Rightarrow>
   ('s, session_outcome) remote_mutation" where
  "session_creation create now i w session_id agent model create_session cleanup_requested =
     \<lparr>rm_intent = (\<lambda>s latest. worker_session_creation_intent i latest w agent model cleanup_requested (now s)),
      rm_call = call_session_creation create session_id agent model create_session,
      rm_succeeded = Some (succeeded_session_record now),
      rm_succeeded_policy = MISSING_INTENT_RECORD_APPLIED,
      rm_apply = Some (\<lambda>_. apply_created_session agent model)\<rparr>"

definition latest_worker :: "run_record \<Rightarrow> worker_record \<Rightarrow> worker_record result" where
  "latest_worker run w =
     (case worker_id w of
        JStr (c # cs) \<Rightarrow> res_bind (ensure_latest_worker run (c # cs)) (\<lambda>(_, w'). Inr w')
      | _ \<Rightarrow> Inr w)"

record provisioning =
  pv_run :: run_record
  pv_worker :: worker_record
  pv_outcome :: session_outcome
  pv_intent :: "journal_record option"

definition provision_session ::
  "'s loader \<Rightarrow> 's updater \<Rightarrow> ('s \<Rightarrow> json) \<Rightarrow> 's session_client \<Rightarrow> string \<Rightarrow> run_record \<Rightarrow> worker_record \<Rightarrow>
   json \<Rightarrow> json \<Rightarrow> json \<Rightarrow> bool \<Rightarrow> bool \<Rightarrow> ('s, provisioning) action" where
  "provision_session load update now create i run w session_id agent model create_session cleanup_requested =
     (if will_create_worker_session w session_id create_session
      then act_bind (run_remote_mutation load update now WORKER_SESSION_JOURNAL_FIELD i WORKER_SESSION_CREATE_OPERATION
             (session_creation create now i w session_id agent model create_session cleanup_requested) run)
             (\<lambda>(run', outcome, intent).
           act_bind (act_result (latest_worker run' w)) (\<lambda>w'.
           act_return \<lparr>pv_run = run', pv_worker = w', pv_outcome = outcome, pv_intent = Some intent\<rparr>))
      else act_bind (provision_worker_session create run w session_id agent model create_session None) (\<lambda>(w', outcome).
           act_return \<lparr>pv_run = run, pv_worker = w', pv_outcome = outcome, pv_intent = None\<rparr>))"

section \<open>The journal of session creations\<close>

text \<open>The remaining operations of \<open>WorkerSessionCreationJournal\<close>, each with the latest state of its worker.\<close>

definition with_latest_worker ::
  "('s, run_record) action \<Rightarrow> worker_record \<Rightarrow> ('s, run_record \<times> worker_record) action" where
  "with_latest_worker m w =
     act_bind m (\<lambda>run. act_bind (act_result (latest_worker run w)) (\<lambda>w'. act_return (run, w')))"

definition record_session_intent ::
  "'s updater \<Rightarrow> ('s \<Rightarrow> json) \<Rightarrow> string \<Rightarrow> run_record \<Rightarrow> worker_record \<Rightarrow> json \<Rightarrow> json \<Rightarrow> bool \<Rightarrow>
   ('s, (run_record \<times> worker_record) \<times> journal_record) action" where
  "record_session_intent update now i run w agent model cleanup_requested =
     act_bind (act_read now) (\<lambda>t.
     act_bind (act_result (worker_session_creation_intent i run w agent model cleanup_requested t)) (\<lambda>intent.
     act_bind (with_latest_worker (transaction_record_intent update now WORKER_SESSION_JOURNAL_FIELD (jr_id intent)
         WORKER_SESSION_CREATE_OPERATION intent run) w) (\<lambda>rw.
     act_return (rw, intent))))"

definition record_session_created ::
  "'s updater \<Rightarrow> ('s \<Rightarrow> json) \<Rightarrow> run_record \<Rightarrow> worker_record \<Rightarrow> journal_record \<Rightarrow> json \<Rightarrow> json \<Rightarrow> json \<Rightarrow>
   ('s, run_record \<times> worker_record) action" where
  "record_session_created update now run w intent session_id agent model =
     act_bind (act_read now) (\<lambda>t.
     act_bind (act_result (created_session_record intent session_id t)) (\<lambda>created.
     act_bind (act_result (intent_worker_id intent)) (\<lambda>i.
     with_latest_worker (transaction_mark_applied update now WORKER_SESSION_JOURNAL_FIELD (jr_id intent)
       WORKER_SESSION_CREATE_OPERATION created
       (Some (apply_created_worker_session i session_id (intent_cleanup_requested intent) agent model))
       MISSING_INTENT_RECORD_APPLIED run) w)))"

definition discard_session_intent_best_effort ::
  "'s updater \<Rightarrow> ('s \<Rightarrow> json) \<Rightarrow> run_record \<Rightarrow> worker_record \<Rightarrow> journal_record \<Rightarrow> ('s, run_record \<times> worker_record) action" where
  "discard_session_intent_best_effort update now run w intent =
     with_latest_worker (discard_intent_best_effort update now WORKER_SESSION_JOURNAL_FIELD (jr_id intent)
       WORKER_SESSION_CREATE_OPERATION run) w"

definition finalize_session_best_effort ::
  "'s updater \<Rightarrow> ('s \<Rightarrow> json) \<Rightarrow> run_record \<Rightarrow> worker_record \<Rightarrow> journal_record \<Rightarrow> ('s, run_record \<times> worker_record) action" where
  "finalize_session_best_effort update now run w intent =
     with_latest_worker (transaction_finalize_best_effort update now WORKER_SESSION_JOURNAL_FIELD (jr_id intent)
       WORKER_SESSION_CREATE_OPERATION run) w"

definition finalize_provisioning_best_effort ::
  "'s updater \<Rightarrow> ('s \<Rightarrow> json) \<Rightarrow> journal_record option \<Rightarrow> run_record \<Rightarrow> worker_record \<Rightarrow>
   ('s, run_record \<times> worker_record) action" where
  "finalize_provisioning_best_effort update now intent run w =
     (case intent of
        None \<Rightarrow> act_return (run, w)
      | Some r \<Rightarrow> finalize_session_best_effort update now run w r)"

section \<open>Recovery\<close>

definition creation_of_entry :: "json \<Rightarrow> (string \<times> bool \<times> json list) option" where
  "creation_of_entry e =
     (case e of
        JObj d \<Rightarrow>
          if dict_get d ''kind'' \<noteq> JStr WORKER_SESSION_CREATE_KIND then None
          else (case dict_get d ''worker_id'' of
              JStr (c # cs) \<Rightarrow> Some (c # cs, dict_get d ''cleanup_requested'' = JBool True,
                append_unique_string
                  (fold (\<lambda>v acc. append_unique_string acc v) (string_list (dict_get d ''created_session_ids'')) [])
                  (dict_get d ''session_id''))
            | _ \<Rightarrow> None)
      | _ \<Rightarrow> None)"

definition add_sessions :: "string \<Rightarrow> json list \<Rightarrow> values_by_owner \<Rightarrow> values_by_owner" where
  "add_sessions i ids acc =
     dict_set i (fold (\<lambda>v a. append_unique_string a v) ids (case map_of acc i of None \<Rightarrow> [] | Some vs \<Rightarrow> vs)) acc"

definition add_creation :: "json \<Rightarrow> values_by_owner \<Rightarrow> values_by_owner" where
  "add_creation e acc =
     (case creation_of_entry e of
        Some (i, True, ids) \<Rightarrow> add_sessions i ids acc
      | _ \<Rightarrow> acc)"

definition recoverable_worker_session_creations_by_worker :: "run_record \<Rightarrow> values_by_owner result" where
  "recoverable_worker_session_creations_by_worker run =
     res_bind (pending_entries WORKER_SESSION_JOURNAL_FIELD (Some WORKER_SESSION_CREATE_KIND)
       (Some [OUTBOX_STATE_REMOTE_SUCCEEDED, OUTBOX_STATE_APPLIED]) run) (\<lambda>es.
     Inr (filter (\<lambda>kv. snd kv \<noteq> []) (fold add_creation es [])))"

end
