(* ===== verification/Session_Cleanup.thy ===== *)
theory Session_Cleanup
  imports Session_Provisioning
begin

text \<open>
  \<open>disposable_session_lifecycle.py\<close>, \<open>worker_cleanup_recovery.py\<close> and the cleanup of
  \<open>run_start_core.py\<close>: sessions that were created for workers are deleted, the deletion is verified, and the
  cleanup record of the worker says what is left. The client's two calls are parameters: an action that
  answers, or fails with an API failure.
\<close>

section \<open>Deleting sessions\<close>

record api_failure =
  af_message :: string
  af_status :: "int option"

record 's cleanup_client =
  cc_delete_session :: "json \<Rightarrow> ('s, api_failure option) action"
  cc_get_session :: "json \<Rightarrow> ('s, api_failure option) action"

definition still_readable :: "json \<Rightarrow> api_failure" where
  "still_readable session_id =
     \<lparr>af_message = ''delete verification failed; session '' @ py_str session_id @ '' is still readable'', af_status = None\<rparr>"

definition verify_deleted :: "'s cleanup_client \<Rightarrow> json \<Rightarrow> ('s, api_failure option) action" where
  "verify_deleted client session_id =
     act_bind (cc_get_session client session_id) (\<lambda>answer.
     act_return (case answer of
         None \<Rightarrow> Some (still_readable session_id)
       | Some e \<Rightarrow> if af_status e = Some 404 then None else Some e))"

definition delete_and_verify :: "'s cleanup_client \<Rightarrow> json \<Rightarrow> ('s, api_failure option) action" where
  "delete_and_verify client session_id =
     act_bind (cc_delete_session client session_id) (\<lambda>answer.
     case answer of
       Some e \<Rightarrow> if af_status e \<noteq> Some 404 then act_return (Some e) else verify_deleted client session_id
     | None \<Rightarrow> verify_deleted client session_id)"

text \<open>The list of verified sessions is the list of deleted ones.\<close>

record cleanup_outcome =
  co_deleted :: "json list"
  co_errors :: "(json \<times> string) list"
  co_first_error :: "api_failure option"

definition co_status :: "cleanup_outcome \<Rightarrow> string" where
  "co_status out = (if co_errors out = [] then ''done'' else ''failed'')"

definition add_cleanup :: "json \<Rightarrow> api_failure option \<Rightarrow> cleanup_outcome \<Rightarrow> cleanup_outcome" where
  "add_cleanup session_id failure out =
     (case failure of
        None \<Rightarrow> out\<lparr>co_deleted := co_deleted out @ [session_id]\<rparr>
      | Some e \<Rightarrow> out\<lparr>co_errors := co_errors out @ [(session_id, af_message e)],
          co_first_error := (if co_first_error out = None then Some e else co_first_error out)\<rparr>)"

fun cleanup_from :: "'s cleanup_client \<Rightarrow> json list \<Rightarrow> cleanup_outcome \<Rightarrow> ('s, cleanup_outcome) action" where
  "cleanup_from client [] out = act_return out"
| "cleanup_from client (i # is) out =
     act_bind (delete_and_verify client i) (\<lambda>failure. cleanup_from client is (add_cleanup i failure out))"

definition cleanup_disposable_sessions :: "'s cleanup_client \<Rightarrow> json list \<Rightarrow> ('s, cleanup_outcome) action" where
  "cleanup_disposable_sessions client ids = cleanup_from client ids \<lparr>co_deleted = [], co_errors = [], co_first_error = None\<rparr>"

section \<open>The cleanup record of a worker\<close>

definition set_or_pop :: "string \<Rightarrow> bool \<Rightarrow> json \<Rightarrow> jdict \<Rightarrow> jdict" where
  "set_or_pop k b v d = (if b then dict_set k v d else dict_pop k d)"

definition cleaned_fields :: "json list \<Rightarrow> cleanup_outcome \<Rightarrow> jdict \<Rightarrow> jdict" where
  "cleaned_fields attempted out cleanup =
     (let verified = co_deleted out; errors = co_errors out;
          pending = filter (\<lambda>i. \<not> py_in i verified) attempted;
          c1 = dict_set ''deleted'' (JBool (verified \<noteq> [] \<and> errors = [])) cleanup;
          c2 = (case errors of [] \<Rightarrow> dict_pop ''error'' c1 | (_, e) # _ \<Rightarrow> dict_set ''error'' (JStr e) c1);
          c3 = set_or_pop ''sessions'' (pending \<noteq> []) (JList pending) c2
      in set_or_pop ''verified'' (verified \<noteq> [] \<and> (length verified > 1 \<or> errors \<noteq> [])) (JList verified) c3)"

definition with_cleanup :: "worker_record \<Rightarrow> jdict \<Rightarrow> worker_record" where
  "with_cleanup w d = (ensure_cleanup w)\<lparr>wr_slots := (wr_slots (ensure_cleanup w))(F_cleanup := JObj d)\<rparr>"

text \<open>The worker, with the error of its first session that was not deleted.\<close>

definition cleanup_created_worker_sessions ::
  "'s cleanup_client \<Rightarrow> worker_record \<Rightarrow> json list \<Rightarrow> ('s, worker_record \<times> api_failure option) action" where
  "cleanup_created_worker_sessions client w ids =
     act_bind (cleanup_disposable_sessions client ids) (\<lambda>out.
     act_return (with_cleanup w (cleaned_fields ids out (cleanup_dict (ensure_cleanup w))),
       if co_errors out = [] then None else co_first_error out))"

section \<open>Sessions to clean up\<close>

definition cleanup_pending_ids :: "worker_record \<Rightarrow> json list" where
  "cleanup_pending_ids w =
     (case wr_slots w F_cleanup of
        JObj c \<Rightarrow> if py_truthy (dict_get c ''deleted'') then [] else string_list (dict_get c ''sessions'')
      | _ \<Rightarrow> [])"

definition add_owner_ids :: "string \<times> json list \<Rightarrow> values_by_owner \<Rightarrow> values_by_owner" where
  "add_owner_ids entry acc = fold (\<lambda>v a. add_sessions (fst entry) [v] a) (snd entry) acc"

definition recoverable_created_worker_sessions_by_worker :: "run_record \<Rightarrow> values_by_owner result" where
  "recoverable_created_worker_sessions_by_worker run =
     (let own = fold (\<lambda>(i, w). add_owner_ids (i, cleanup_pending_ids w)) (rn_workers run) [] in
      res_bind (recoverable_worker_session_creations_by_worker run) (\<lambda>created.
      Inr (filter (\<lambda>kv. snd kv \<noteq> []) (fold add_owner_ids created own))))"

definition append_missing :: "json list \<Rightarrow> json list \<Rightarrow> json list" where
  "append_missing vs new = fold (\<lambda>v a. if py_in v a then a else a @ [v]) new vs"

definition owner_ids :: "values_by_owner \<Rightarrow> string \<Rightarrow> json list" where
  "owner_ids m i = (case map_of m i of None \<Rightarrow> [] | Some vs \<Rightarrow> vs)"

definition merge_owner_ids :: "string \<times> json list \<Rightarrow> values_by_owner \<Rightarrow> values_by_owner" where
  "merge_owner_ids entry m = dict_set (fst entry) (append_missing (owner_ids m (fst entry)) (snd entry)) m"

definition recoverable_cleanup_sessions :: "values_by_owner \<Rightarrow> run_record \<Rightarrow> values_by_owner result" where
  "recoverable_cleanup_sessions created run =
     res_bind (recoverable_created_worker_sessions_by_worker run) (\<lambda>recoverable.
     Inr (filter (\<lambda>kv. snd kv \<noteq> []) (fold merge_owner_ids recoverable created)))"

text \<open>\<open>remember_created_worker_sessions\<close>: the map of created sessions; the worker gets a cleanup record.\<close>

definition remember_created_worker_sessions :: "worker_record \<Rightarrow> json list \<Rightarrow> values_by_owner \<Rightarrow> worker_record \<times> values_by_owner" where
  "remember_created_worker_sessions w ids created =
     (if ids = [] then (w, created) else (ensure_cleanup w, merge_owner_ids (worker_id_str w, ids) created))"

section \<open>The cleanup of a run\<close>

text \<open>
  \<open>CreatedWorkerCleanupPlanner\<close> and \<open>CreatedWorkerCleanupExecutor\<close>: a plan is a list of workers with their
  sessions; each step deletes its sessions and persists the worker's cleanup record.
\<close>

type_synonym cleanup_plan = values_by_owner

definition plan_cleanup :: "values_by_owner \<Rightarrow> run_record \<Rightarrow> cleanup_plan result" where
  "plan_cleanup created run = recoverable_cleanup_sessions created run"

type_synonym 's transition_persister = "worker_transition \<Rightarrow> run_record \<Rightarrow> 's \<Rightarrow> (run_record \<times> worker_record list \<times> 's) result"

definition cleanup_step ::
  "'s transition_persister \<Rightarrow> 's cleanup_client \<Rightarrow> string \<times> json list \<Rightarrow> run_record \<Rightarrow>
   ('s, run_record \<times> api_failure option) action" where
  "cleanup_step persist client step run =
     (case run_worker run (fst step) of
        None \<Rightarrow> act_return (run, None)
      | Some w0 \<Rightarrow>
          act_bind (act_result (res_bind (worker_record_for_mutation (Some w0) (JStr (fst step))) to_worker)) (\<lambda>w.
          act_bind (cleanup_created_worker_sessions client w (snd step)) (\<lambda>(w', failure).
          act_bind (act_update (\<lambda>s. res_bind (persist (cleanup_updated_transition w') (set_run_worker run (fst step) w') s)
            (\<lambda>(run', _, s'). Inr (run', s')))) (\<lambda>run'.
          act_return (run', failure)))))"

fun cleanup_steps ::
  "'s transition_persister \<Rightarrow> 's cleanup_client \<Rightarrow> cleanup_plan \<Rightarrow> run_record \<Rightarrow> api_failure option \<Rightarrow>
   ('s, run_record \<times> api_failure option) action" where
  "cleanup_steps persist client [] run first = act_return (run, first)"
| "cleanup_steps persist client (step # steps) run first =
     act_bind (cleanup_step persist client step run) (\<lambda>(run', failure).
     cleanup_steps persist client steps run' (if first = None then failure else first))"

record cleanup_result =
  cr_run :: run_record
  cr_exit_code :: int
  cr_error :: "string option"

definition cleanup_created_workers ::
  "'s transition_persister \<Rightarrow> (run_record \<Rightarrow> run_record result) \<Rightarrow> 's cleanup_client \<Rightarrow> cleanup_plan \<Rightarrow> run_record \<Rightarrow>
   ('s, cleanup_result) action" where
  "cleanup_created_workers persist refresh client plan run =
     act_bind (cleanup_steps persist client plan run None) (\<lambda>(run', first).
     case first of
       None \<Rightarrow> act_return \<lparr>cr_run = run', cr_exit_code = 0, cr_error = None\<rparr>
     | Some e \<Rightarrow> act_bind (act_result (refresh run')) (\<lambda>run''.
         act_return \<lparr>cr_run = run'', cr_exit_code = EX_UNAVAILABLE,
           cr_error = Some (''api failure: disposable session cleanup failed: '' @ af_message e)\<rparr>))"

end
