(* ===== verification/Attempt_Recovery.thy ===== *)
theory Attempt_Recovery
  imports Run_Persistence
begin

text \<open>
  \<open>worker_active_attempt_recovery.py\<close>: an active worker whose attempt outlived its timeout is timed out.
  An instant is a number of microseconds of UTC; \<open>datetime.fromisoformat\<close> (read as UTC where it has no
  zone) is the parameter \<open>of_iso\<close>.
\<close>

section \<open>Instants\<close>

definition ends_with :: "string \<Rightarrow> char \<Rightarrow> bool" where
  "ends_with s c \<longleftrightarrow> s \<noteq> [] \<and> last s = c"

definition parse_instant :: "(string \<Rightarrow> int option) \<Rightarrow> json \<Rightarrow> int option" where
  "parse_instant of_iso v =
     (case v of
        JStr s \<Rightarrow>
          (let t = py_strip s in
           if t = [] then None
           else of_iso (if ends_with t (CHR ''Z'') then butlast t @ ''+00:00'' else t))
      | _ \<Rightarrow> None)"

text \<open>\<open>timedelta(seconds=...)\<close> rounds to microseconds, ties to even.\<close>

definition round_half_even :: "rat \<Rightarrow> int" where
  "round_half_even x =
     (let f = \<lfloor>x\<rfloor>; d = x - of_int f in
      if d < 1 / 2 then f else if d > 1 / 2 then f + 1 else if even f then f else f + 1)"

definition MAX_TIMEDELTA :: int where
  "MAX_TIMEDELTA = 86399999999999999999"

definition MAX_INSTANT :: int where
  "MAX_INSTANT = 253402300799999999"

definition seconds_delta :: "json \<Rightarrow> int result" where
  "seconds_delta v =
     (case v of
        JInt i \<Rightarrow> Inr (i * 1000000)
      | JFloat (FinFloat r _) \<Rightarrow> Inr (round_half_even (r * 1000000))
      | _ \<Rightarrow> Inl (TypeError ''unsupported type for timedelta seconds component''))"

definition add_seconds :: "int \<Rightarrow> json \<Rightarrow> int result" where
  "add_seconds instant v =
     res_bind (seconds_delta v) (\<lambda>d.
     if d > MAX_TIMEDELTA then Inl (OverflowError ''days out of range'')
     else if instant + d > MAX_INSTANT then Inl (OverflowError ''date value out of range'')
     else Inr (instant + d))"

section \<open>Expired attempts\<close>

definition recoverable_attempt :: "json \<Rightarrow> bool" where
  "recoverable_attempt a =
     (case a of
        JObj d \<Rightarrow> py_truthy (dict_get d ''id'') \<and> dict_get d ''status'' = JStr ''active'' \<and>
                  \<not> py_truthy (dict_get d ''finished_at'')
      | _ \<Rightarrow> False)"

definition attempt_fields :: "json \<Rightarrow> jdict" where
  "attempt_fields a = (case a of JObj d \<Rightarrow> d | _ \<Rightarrow> [])"

definition recoverable_active_attempt :: "worker_record \<Rightarrow> jdict option" where
  "recoverable_active_attempt w =
     (if worker_lifecycle w \<noteq> Some Active_Wait then None
      else map_option attempt_fields (find recoverable_attempt (rev (worker_attempts w))))"

definition timeout_seconds :: "worker_record \<Rightarrow> json result" where
  "timeout_seconds w =
     (if wr_slots w F_timeout_seconds = JNull then Inr JNull
      else canonical_value F_timeout_seconds (wr_slots w F_timeout_seconds))"

definition attempt_start :: "(string \<Rightarrow> int option) \<Rightarrow> worker_record \<Rightarrow> jdict \<Rightarrow> int option" where
  "attempt_start of_iso w attempt =
     (case parse_instant of_iso (wr_slots w F_timeout_started_at) of
        Some t \<Rightarrow> Some t
      | None \<Rightarrow> parse_instant of_iso (dict_get attempt ''started_at''))"

definition active_attempt_lease_expired ::
  "(string \<Rightarrow> int option) \<Rightarrow> worker_record \<Rightarrow> jdict \<Rightarrow> int option \<Rightarrow> bool result" where
  "active_attempt_lease_expired of_iso w attempt now =
     res_bind (timeout_seconds w) (\<lambda>timeout.
     case now of
       None \<Rightarrow> Inr False
     | Some t \<Rightarrow>
         if timeout = JNull then Inr False
         else (case attempt_start of_iso w attempt of
             None \<Rightarrow> Inr True
           | Some start \<Rightarrow> res_bind (add_seconds start timeout) (\<lambda>expiry. Inr (expiry \<le> t))))"

section \<open>Recovery\<close>

record attempt_recovery =
  ar_worker_id :: string
  ar_attempt_id :: json
  ar_error :: "string option"
  ar_transition :: worker_transition

definition attempt_recovery_fields :: "attempt_transition \<Rightarrow> json \<Rightarrow> jdict" where
  "attempt_recovery_fields tr finished_at =
     optional_field ''failure_category'' (option_json (at_failure_category tr))
       (optional_field ''error'' (option_json (at_error tr))
         [(''status'', JStr ''failed''), (''finished_at'', finished_at)])"

definition timeout_outcome :: "worker_record \<Rightarrow> attempt_outcome" where
  "timeout_outcome w = AttemptFailed ''timeout'' (worker_timeout_reason w) None"

definition timeout_active_attempt :: "worker_record \<Rightarrow> jdict \<Rightarrow> json \<Rightarrow> attempt_recovery result" where
  "timeout_active_attempt w attempt now_value =
     res_bind (apply_worker_attempt_transition w (timeout_outcome w) now_value) (\<lambda>tr.
     Inr \<lparr>ar_worker_id = worker_id_str w, ar_attempt_id = dict_get attempt ''id'', ar_error = at_error tr,
          ar_transition = with_finalized_attempt (at_worker_transition tr) (dict_get attempt ''id'')
            (attempt_recovery_fields tr now_value)\<rparr>)"

definition recover_worker ::
  "(string \<Rightarrow> int option) \<Rightarrow> json \<Rightarrow> worker_record \<Rightarrow> attempt_recovery list result" where
  "recover_worker of_iso now_value w =
     (case recoverable_active_attempt w of
        None \<Rightarrow> Inr []
      | Some attempt \<Rightarrow>
          res_bind (active_attempt_lease_expired of_iso w attempt (parse_instant of_iso now_value)) (\<lambda>expired.
          if \<not> expired then Inr []
          else res_bind (timeout_active_attempt w attempt now_value) (\<lambda>r. Inr [r])))"

definition sorted_workers :: "workers \<Rightarrow> workers" where
  "sorted_workers ws = map (\<lambda>i. (i, the (map_of ws i))) (sort (map fst ws))"

definition recover_expired_active_attempts ::
  "(string \<Rightarrow> int option) \<Rightarrow> json \<Rightarrow> workers \<Rightarrow> attempt_recovery list result" where
  "recover_expired_active_attempts of_iso now_value ws =
     res_bind (res_map (\<lambda>(i, w). recover_worker of_iso now_value w) (sorted_workers ws)) (\<lambda>rs. Inr (concat rs))"

section \<open>What is recovered\<close>

lemma timeout_outcome_classified:
  "classify_worker_attempt_exception w (WorkerExecutionTimeout None) = Some (timeout_outcome w)"
  by (simp add: timeout_outcome_def)

lemma recoverable_is_active: "recoverable_active_attempt w = Some d \<Longrightarrow> worker_lifecycle w = Some Active_Wait"
  by (auto simp: recoverable_active_attempt_def split: if_splits)

lemma recovery_transition:
  assumes "timeout_active_attempt w d t = Inr r"
  shows "wt_name (ar_transition r) = T_TIMED_OUT" and "wt_worker_id (ar_transition r) = worker_id_str w"
    and "ar_worker_id r = worker_id_str w" and "ar_error r \<noteq> None"
  using assms
  by (cases "wr_slots w F_timeout_policy";
      auto simp: timeout_active_attempt_def timeout_outcome_def apply_timeout_attempt_failure_def mark_worker_timeout_def
      with_finalized_attempt_def timed_out_transition_def make_transition_def res_bind_Inr_iff)+

lemma recover_worker_iff:
  "(\<exists>rs. recover_worker of_iso t w = Inr rs \<and> r \<in> set rs) \<longleftrightarrow>
   (\<exists>d. recoverable_active_attempt w = Some d \<and> timeout_active_attempt w d t = Inr r \<and>
     active_attempt_lease_expired of_iso w d (parse_instant of_iso t) = Inr True)"
  by (cases "recoverable_active_attempt w") (auto simp: recover_worker_def res_bind_def split: sum.splits if_splits)

lemma sorted_workers_set: "(i, w) \<in> set (sorted_workers ws) \<longleftrightarrow> map_of ws i = Some w"
proof -
  have "i \<in> fst ` set ws \<longleftrightarrow> map_of ws i \<noteq> None" by (simp add: map_of_eq_None_iff)
  then show ?thesis by (auto simp: sorted_workers_def image_iff)
qed

lemma concat_res_map:
  "res_map f xs = Inr yss \<Longrightarrow> r \<in> set (concat yss) \<longleftrightarrow> (\<exists>x\<in>set xs. \<exists>ys. f x = Inr ys \<and> r \<in> set ys)"
  by (induction xs arbitrary: yss) (auto simp: res_bind_Inr_iff)

text \<open>Exactly the active workers whose lease expired are recovered, each by a timeout of its open attempt.\<close>

lemma recovered_workers:
  assumes "recover_expired_active_attempts of_iso t ws = Inr rs"
  shows "r \<in> set rs \<longleftrightarrow> (\<exists>i w d. map_of ws i = Some w \<and> recoverable_active_attempt w = Some d \<and>
    active_attempt_lease_expired of_iso w d (parse_instant of_iso t) = Inr True \<and> timeout_active_attempt w d t = Inr r)"
proof -
  obtain rss where rss: "res_map (\<lambda>(i, w). recover_worker of_iso t w) (sorted_workers ws) = Inr rss" and rs: "rs = concat rss"
    using assms by (auto simp: recover_expired_active_attempts_def res_bind_Inr_iff)
  have "r \<in> set rs \<longleftrightarrow> (\<exists>x\<in>set (sorted_workers ws). \<exists>y. recover_worker of_iso t (snd x) = Inr y \<and> r \<in> set y)"
    using concat_res_map [OF rss, of r] unfolding rs split_def .
  also have "\<dots> \<longleftrightarrow> (\<exists>i w y. map_of ws i = Some w \<and> recover_worker of_iso t w = Inr y \<and> r \<in> set y)"
    by (simp add: Bex_def split_paired_Ex sorted_workers_set)
  also have "\<dots> \<longleftrightarrow> (\<exists>i w d. map_of ws i = Some w \<and> recoverable_active_attempt w = Some d \<and>
    active_attempt_lease_expired of_iso w d (parse_instant of_iso t) = Inr True \<and> timeout_active_attempt w d t = Inr r)"
    unfolding ex_simps recover_worker_iff by blast
  finally show ?thesis .
qed

end
