(* ===== verification/Orchestration.thy ===== *)
theory Orchestration
  imports Session_Cleanup Attempt_Recovery
begin

text \<open>
  \<open>multi_worker_orchestration*.py\<close>, \<open>multi_worker_execution_outcome.py\<close>, \<open>run_start_policy.py\<close>: a run is
  started by recovering expired attempts, planning, executing one ready worker after the other, and
  cleaning up. The store (\<open>update\<close>, \<open>load\<close>), the clock, the capability probe, the worker executor and the
  clients are parameters. The loop over the workers may run forever: it is a partial function, and
  None is a start that does not return.
\<close>

section \<open>Policies, steps and outcomes\<close>

definition EXECUTION_POLICY_FAIL_FAST :: string where
  "EXECUTION_POLICY_FAIL_FAST = ''fail_fast''"

definition EXECUTION_POLICY_CONTINUE :: string where
  "EXECUTION_POLICY_CONTINUE = ''continue''"

definition EXECUTION_POLICIES :: "string list" where
  "EXECUTION_POLICIES = [EXECUTION_POLICY_FAIL_FAST, EXECUTION_POLICY_CONTINUE]"

definition normalize_execution_policy :: "string option \<Rightarrow> string result" where
  "normalize_execution_policy policy =
     (let given = (case policy of Some (c # cs) \<Rightarrow> c # cs | _ \<Rightarrow> EXECUTION_POLICY_FAIL_FAST);
          normalized = map (\<lambda>c. if c = CHR ''-'' then CHR ''_'' else c) given
      in if normalized \<in> set EXECUTION_POLICIES then Inr normalized
         else Inl (store_error (''unsupported execution policy '' @ quoted given) ''data''))"

record serial_step =
  ss_worker_id :: "string option"
  ss_blocked_transitions :: "worker_transition list"

record start_outcome =
  so_run :: run_record
  so_exit_code :: int
  so_error :: "string option"

datatype execution_end =
    ExecutionCompleted "string option"
  | ExecutionUnsupported string
  | ExecutionApiFailure string
  | ExecutionFailFast string

text \<open>\<open>a or b\<close> of two optional texts\<close>

definition text_or :: "string option \<Rightarrow> string option \<Rightarrow> string option" where
  "text_or a b = (case a of Some (c # cs) \<Rightarrow> a | _ \<Rightarrow> b)"

fun finish_outcome :: "execution_end \<Rightarrow> run_record \<Rightarrow> string option \<Rightarrow> start_outcome" where
  "finish_outcome (ExecutionCompleted first_error) run recovery_error =
     \<lparr>so_run = run, so_exit_code = exit_code_for_run run, so_error = text_or recovery_error first_error\<rparr>"
| "finish_outcome (ExecutionUnsupported e) run recovery_error =
     \<lparr>so_run = run, so_exit_code = EX_UNSUPPORTED, so_error = Some e\<rparr>"
| "finish_outcome (ExecutionApiFailure e) run recovery_error =
     \<lparr>so_run = run, so_exit_code = EX_UNAVAILABLE, so_error = Some e\<rparr>"
| "finish_outcome (ExecutionFailFast e) run recovery_error =
     \<lparr>so_run = run, so_exit_code = exit_code_for_run run, so_error = Some e\<rparr>"

definition skipped_outcome :: "run_record \<Rightarrow> serial_step \<Rightarrow> string option \<Rightarrow> string \<Rightarrow> start_outcome option" where
  "skipped_outcome run step recovery_error policy =
     (if (recovery_error \<noteq> None \<and> policy = EXECUTION_POLICY_FAIL_FAST) \<or> ss_worker_id step = None
      then Some \<lparr>so_run = run, so_exit_code = exit_code_for_run run, so_error = recovery_error\<rparr>
      else None)"

section \<open>Planning\<close>

definition refresh_orchestration_run_summary :: "run_record \<Rightarrow> run_record result" where
  "refresh_orchestration_run_summary = refresh_run_summary True"

definition blocked_transitions :: "workers \<Rightarrow> blocker_map \<Rightarrow> worker_transition list" where
  "blocked_transitions ws blockers =
     map (\<lambda>i. dependency_blocked_transition (worker_id_str (the (map_of ws i))) (the (map_of blockers i)))
       (filter (\<lambda>i. map_of ws i \<noteq> None) (sort (remdups (map fst blockers))))"

definition plan_dependency_ordered_serial_step :: "workers \<Rightarrow> serial_step result" where
  "plan_dependency_ordered_serial_step ws =
     res_bind (analyze_worker_dependencies ws) (\<lambda>a.
     Inr \<lparr>ss_worker_id = (case da_ready a of [] \<Rightarrow> None | i # _ \<Rightarrow> Some i),
          ss_blocked_transitions = blocked_transitions ws (da_blockers a)\<rparr>)"

definition pending_prompted_worker_ids :: "workers \<Rightarrow> string list" where
  "pending_prompted_worker_ids ws =
     filter (\<lambda>i. case map_of ws i of None \<Rightarrow> False | Some w \<Rightarrow> can_execute w) (sort (map fst ws))"

definition pending_prompted_workers :: "workers \<Rightarrow> worker_record list" where
  "pending_prompted_workers ws = map (\<lambda>i. the (map_of ws i)) (pending_prompted_worker_ids ws)"

definition mark_run_active :: "run_record \<Rightarrow> run_record result" where
  "mark_run_active run = Inr (set_run_status ''active'' run)"

text \<open>The status of the run in hand is not persisted; the transitions are.\<close>

definition mark_orchestration_start_failed :: "worker_record list \<Rightarrow> string \<Rightarrow> worker_transition list result" where
  "mark_orchestration_start_failed ws error = res_map (\<lambda>w. mark_worker_failed w ''api'' error False []) ws"

section \<open>Recovery and planning phases\<close>

definition persist_all :: "'s updater \<Rightarrow> ('s \<Rightarrow> json) \<Rightarrow> worker_transition list \<Rightarrow> run_record \<Rightarrow> ('s, run_record) action" where
  "persist_all update now trs run = act_update (persist_transitions update refresh_orchestration_run_summary now trs run)"

definition recover_run ::
  "'s updater \<Rightarrow> ('s \<Rightarrow> json) \<Rightarrow> (string \<Rightarrow> int option) \<Rightarrow> run_record \<Rightarrow> ('s, run_record \<times> string option) action" where
  "recover_run update now of_iso run =
     act_bind (act_read now) (\<lambda>t.
     act_bind (act_result (recover_expired_active_attempts of_iso t (rn_workers run))) (\<lambda>recoveries.
     if recoveries = [] then act_return (run, None)
     else act_bind (persist_all update now (map ar_transition recoveries) run) (\<lambda>run'.
          act_return (run', Option.bind (find (\<lambda>r. ar_error r \<noteq> None) recoveries) ar_error))))"

definition plan_run :: "'s updater \<Rightarrow> ('s \<Rightarrow> json) \<Rightarrow> run_record \<Rightarrow> ('s, run_record \<times> serial_step) action" where
  "plan_run update now run =
     act_bind (act_result (plan_dependency_ordered_serial_step (rn_workers run))) (\<lambda>step.
     act_bind (if ss_blocked_transitions step \<noteq> [] then persist_all update now (ss_blocked_transitions step) run
               else act_update (persist_run_summary update refresh_orchestration_run_summary now run)) (\<lambda>run'.
     act_return (run', step)))"

section \<open>Executing the workers\<close>

text \<open>
  The map of created sessions is updated in place, so it survives an exception: it is part of the state of
  the loop (None when no cleanup was requested).
\<close>

type_synonym created_map = "values_by_owner option"

definition act_lift :: "('s, 'a) action \<Rightarrow> ('s \<times> 'd, 'a) action" where
  "act_lift m sd = (case m (fst sd) of (r, s') \<Rightarrow> (r, (s', snd sd)))"

record worker_outcome =
  wo_created_session_ids :: "json list"
  wo_error :: "string option"
  wo_run :: run_record

text \<open>
  The executor of a worker is given the client, the run, the worker, its prompt, the capabilities, and whether
  a cleanup is requested; the agent and the model are the worker's.
\<close>

type_synonym ('s, 'c, 'k) worker_executor =
  "'c \<Rightarrow> run_record \<Rightarrow> worker_record \<Rightarrow> string option \<Rightarrow> 'k \<Rightarrow> bool \<Rightarrow> ('s, worker_outcome) action"

definition remember_in_run :: "string \<Rightarrow> worker_record \<Rightarrow> worker_outcome \<Rightarrow> created_map \<Rightarrow> run_record \<times> created_map" where
  "remember_in_run i w out created =
     (case created of
        None \<Rightarrow> (wo_run out, None)
      | Some m \<Rightarrow>
          (case run_worker (wo_run out) i of
             Some current \<Rightarrow>
               (case remember_created_worker_sessions current (wo_created_session_ids out) m of
                  (current', m') \<Rightarrow> (set_run_worker (wo_run out) i current', Some m'))
           | None \<Rightarrow> (wo_run out, Some (snd (remember_created_worker_sessions w (wo_created_session_ids out) m)))))"

definition execute_selected_worker ::
  "('s, 'c, 'k) worker_executor \<Rightarrow> 'c \<Rightarrow> 'k \<Rightarrow> string \<Rightarrow> run_record \<Rightarrow>
   ('s \<times> created_map, run_record \<times> worker_outcome option) action" where
  "execute_selected_worker exec client capabilities i run sd =
     (case map_of (rn_workers run) i of
        None \<Rightarrow> (Inr (run, None), sd)
      | Some w \<Rightarrow>
          (case act_lift (exec client run w (worker_prompt w) capabilities (snd sd \<noteq> None)) sd of
             (Inl e, sd') \<Rightarrow> (Inl e, sd')
           | (Inr out, sd') \<Rightarrow>
               (case remember_in_run (worker_id_str w) w out (snd sd') of
                  (run', created') \<Rightarrow> (Inr (run', Some out), (fst sd', created')))))"

text \<open>One iteration: the selected worker, and the replan that is persisted before anything else.\<close>

definition serial_iteration ::
  "'s updater \<Rightarrow> ('s \<Rightarrow> json) \<Rightarrow> ('s, 'c, 'k) worker_executor \<Rightarrow> 'c \<Rightarrow> 'k \<Rightarrow> string \<Rightarrow> run_record \<Rightarrow>
   ('s \<times> created_map, run_record \<times> string option \<times> serial_step) action" where
  "serial_iteration update now exec client capabilities i run =
     act_bind (execute_selected_worker exec client capabilities i run) (\<lambda>(run1, out).
     act_bind (act_lift (plan_run update now run1)) (\<lambda>(run2, step).
     act_return (run2, Option.bind out wo_error, step)))"

text \<open>The first error and the error that stopped the loop.\<close>

record loop_end =
  le_run :: run_record
  le_first_error :: "string option"
  le_fail_fast :: "string option"

partial_function (option) execute_serial_workers ::
  "'s updater \<Rightarrow> ('s \<Rightarrow> json) \<Rightarrow> ('s, 'c, 'k) worker_executor \<Rightarrow> 'c \<Rightarrow> 'k \<Rightarrow> string \<Rightarrow> string option \<Rightarrow>
   string option \<Rightarrow> run_record \<Rightarrow> 's \<times> created_map \<Rightarrow> (loop_end result \<times> 's \<times> created_map) option" where
  "execute_serial_workers update now exec client capabilities policy first_error selected run sd =
     (case selected of
        None \<Rightarrow> Some (Inr \<lparr>le_run = run, le_first_error = first_error, le_fail_fast = None\<rparr>, sd)
      | Some i \<Rightarrow>
          (case serial_iteration update now exec client capabilities i run sd of
             (Inl e, sd') \<Rightarrow> Some (Inl e, sd')
           | (Inr (run', error, step), sd') \<Rightarrow>
               if error \<noteq> None \<and> policy = EXECUTION_POLICY_FAIL_FAST
               then Some (Inr \<lparr>le_run = run', le_first_error = (if first_error = None then error else first_error),
                 le_fail_fast = error\<rparr>, sd')
               else execute_serial_workers update now exec client capabilities policy
                 (if first_error = None then error else first_error) (ss_worker_id step) run' sd'))"

section \<open>The execution phase\<close>

record ('c, 'k) probe_outcome =
  po_client :: 'c
  po_capabilities :: 'k
  po_start_error :: "string option"

type_synonym ('s, 'c, 'k) capability_probe = "run_record \<Rightarrow> ('s, ('c, 'k) probe_outcome) action"

record 'c execution_result =
  er_run :: run_record
  er_client :: "'c option"
  er_created :: created_map
  er_end :: execution_end

text \<open>\<open>OpenCodeApiError\<close> and its subclass\<close>

fun api_error :: "py_error \<Rightarrow> bool" where
  "api_error (RemoteError t _) = (t \<in> {''OpenCodeApiError'', ''OpenCodeApiTimeoutError''})"
| "api_error _ = False"

definition mark_prompted_workers_failed ::
  "'s updater \<Rightarrow> ('s \<Rightarrow> json) \<Rightarrow> string \<Rightarrow> run_record \<Rightarrow> ('s, run_record) action" where
  "mark_prompted_workers_failed update now error run =
     act_bind (act_result (mark_orchestration_start_failed (pending_prompted_workers (rn_workers run)) error)) (\<lambda>trs.
     persist_all update now trs run)"

definition api_failure_result ::
  "'s updater \<Rightarrow> ('s \<Rightarrow> json) \<Rightarrow> run_record \<Rightarrow> 'c option \<Rightarrow> py_error \<Rightarrow> ('s \<times> created_map, 'c execution_result) action" where
  "api_failure_result update now run client e sd =
     (if \<not> api_error e then (Inl e, sd)
      else act_bind (act_lift (mark_prompted_workers_failed update now (error_text e) run)) (\<lambda>run' sd'.
        (Inr \<lparr>er_run = run', er_client = client, er_created = snd sd',
           er_end = ExecutionApiFailure (''api failure: '' @ error_text e)\<rparr>, sd')) sd)"

definition unsupported_result ::
  "'s updater \<Rightarrow> ('s \<Rightarrow> json) \<Rightarrow> run_record \<Rightarrow> string \<Rightarrow> ('s \<times> created_map, 'c execution_result) action" where
  "unsupported_result update now run error =
     act_catch
       (act_bind (act_lift (mark_prompted_workers_failed update now error run)) (\<lambda>run' sd.
          (Inr \<lparr>er_run = run', er_client = None, er_created = snd sd, er_end = ExecutionUnsupported error\<rparr>, sd)))
       (api_failure_result update now run None)"

definition loop_result :: "'c \<Rightarrow> created_map \<Rightarrow> loop_end \<Rightarrow> 'c execution_result" where
  "loop_result client created le =
     \<lparr>er_run = le_run le, er_client = Some client, er_created = created,
      er_end = (case le_fail_fast le of Some e \<Rightarrow> ExecutionFailFast e | None \<Rightarrow> ExecutionCompleted (le_first_error le))\<rparr>"

text \<open>An API error that leaves the loop is handled with the run from before the loop.\<close>

definition execute_run ::
  "'s updater \<Rightarrow> ('s \<Rightarrow> json) \<Rightarrow> ('s, 'c, 'k) capability_probe \<Rightarrow> ('s, 'c, 'k) worker_executor \<Rightarrow> string \<Rightarrow> bool \<Rightarrow>
   serial_step \<Rightarrow> run_record \<Rightarrow> 's \<Rightarrow> ('c execution_result result \<times> 's \<times> created_map) option" where
  "execute_run update now probe exec policy cleanup_requested step run s =
     (let created = (if cleanup_requested then Some [] else None) in
      case act_lift (probe run) (s, created) of
        (Inl e, sd) \<Rightarrow> Some (api_failure_result update now run None e sd)
      | (Inr po, sd) \<Rightarrow>
          (case po_start_error po of
             Some error \<Rightarrow> Some (unsupported_result update now run error sd)
           | None \<Rightarrow>
               (case act_lift (act_update (persist_run_mutation update now mark_run_active run)) sd of
                  (Inl e, sd1) \<Rightarrow> Some (api_failure_result update now run (Some (po_client po)) e sd1)
                | (Inr run1, sd1) \<Rightarrow>
                    (case execute_serial_workers update now exec (po_client po) (po_capabilities po) policy None
                        (ss_worker_id step) run1 sd1 of
                       None \<Rightarrow> None
                     | Some (Inl e, sd2) \<Rightarrow> Some (api_failure_result update now run1 (Some (po_client po)) e sd2)
                     | Some (Inr le, sd2) \<Rightarrow> Some (Inr (loop_result (po_client po) (snd sd2) le), sd2)))))"

section \<open>The cleanup phase and the flow\<close>

definition persist_cleanup :: "'s updater \<Rightarrow> ('s \<Rightarrow> json) \<Rightarrow> 's transition_persister" where
  "persist_cleanup update now = persist_worker_transition update refresh_orchestration_run_summary now"

definition cleanup_phase ::
  "'s updater \<Rightarrow> ('s \<Rightarrow> json) \<Rightarrow> ('c \<Rightarrow> 's cleanup_client) \<Rightarrow> 'c option \<Rightarrow> created_map \<Rightarrow> run_record \<Rightarrow>
   ('s, run_record \<times> start_outcome option) action" where
  "cleanup_phase update now sessions client created run =
     (case (created, client) of
        (Some m, Some c) \<Rightarrow>
          act_bind (act_result (plan_cleanup m run)) (\<lambda>plan.
          if plan = [] then act_return (run, None)
          else act_bind (cleanup_created_workers (persist_cleanup update now) refresh_orchestration_run_summary (sessions c) plan run) (\<lambda>r.
            act_return (cr_run r, case cr_error r of
                None \<Rightarrow> None
              | Some e \<Rightarrow> Some \<lparr>so_run = cr_run r, so_exit_code = cr_exit_code r, so_error = Some e\<rparr>)))
      | _ \<Rightarrow> act_return (run, None))"

definition finish_start ::
  "'s updater \<Rightarrow> ('s \<Rightarrow> json) \<Rightarrow> ('c \<Rightarrow> 's cleanup_client) \<Rightarrow> string option \<Rightarrow> 'c execution_result \<Rightarrow> ('s, start_outcome) action" where
  "finish_start update now sessions recovery_error er =
     act_bind (cleanup_phase update now sessions (er_client er) (er_created er) (er_run er)) (\<lambda>(run, outcome).
     act_return (case outcome of Some out \<Rightarrow> out | None \<Rightarrow> finish_outcome (er_end er) run recovery_error))"

definition start_flow ::
  "'s updater \<Rightarrow> ('s \<Rightarrow> json) \<Rightarrow> (string \<Rightarrow> int option) \<Rightarrow> ('s, 'c, 'k) capability_probe \<Rightarrow> ('s, 'c, 'k) worker_executor \<Rightarrow>
   ('c \<Rightarrow> 's cleanup_client) \<Rightarrow> string \<Rightarrow> bool \<Rightarrow> run_record \<Rightarrow> 's \<Rightarrow> (start_outcome result \<times> 's) option" where
  "start_flow update now of_iso probe exec sessions policy cleanup_requested run s =
     (case recover_run update now of_iso run s of
        (Inl e, s1) \<Rightarrow> Some (Inl e, s1)
      | (Inr (run1, recovery_error), s1) \<Rightarrow>
          (case plan_run update now run1 s1 of
             (Inl e, s2) \<Rightarrow> Some (Inl e, s2)
           | (Inr (run2, step), s2) \<Rightarrow>
               (case skipped_outcome run2 step recovery_error policy of
                  Some out \<Rightarrow> Some (Inr out, s2)
                | None \<Rightarrow>
                    (case execute_run update now probe exec policy cleanup_requested step run2 s2 of
                       None \<Rightarrow> None
                     | Some (Inl e, sd) \<Rightarrow> Some (Inl e, fst sd)
                     | Some (Inr er, sd) \<Rightarrow> Some (finish_start update now sessions recovery_error er (fst sd))))))"

section \<open>Starting a run\<close>

record start_request =
  sq_name :: string
  sq_worker_id :: string
  sq_role :: json
  sq_directory :: "string option"
  sq_server_url :: "string option"
  sq_session_id :: json
  sq_agent :: json
  sq_model :: json
  sq_execution_policy :: "string option"
  sq_cleanup :: bool

definition apply_start_session :: "start_request \<Rightarrow> run_record \<Rightarrow> run_record result" where
  "apply_start_session q run =
     (if sq_session_id q = JNull \<and> sq_agent q = JNull \<and> sq_model q = JNull then Inr run
      else res_bind (ensure_run_worker run (sq_worker_id q) (sq_role q)) (\<lambda>(run1, w).
           res_bind (set_session w (if sq_session_id q \<noteq> JNull then sq_session_id q else wr_slots w F_session_id)
             (sq_agent q) (sq_model q)) (\<lambda>w'.
           Inr (set_run_worker run1 (sq_worker_id q) w'))))"

definition apply_dependency_ordered_start_request :: "start_request \<Rightarrow> run_record \<Rightarrow> run_record result" where
  "apply_dependency_ordered_start_request q run =
     (let run1 = (case sq_directory q of None \<Rightarrow> run | Some d \<Rightarrow> set_run_directory d run);
          run2 = (case sq_server_url q of None \<Rightarrow> run1 | Some u \<Rightarrow> set_run_server_url (JStr u) run1)
      in apply_start_session q run2)"

definition no_prompts_error :: "string \<Rightarrow> py_error" where
  "no_prompts_error name = store_error (''run '' @ quoted name @
     '' has no worker prompts; pass --prompt or add workers with --prompt'') ''data''"

definition start_run ::
  "'s loader \<Rightarrow> 's updater \<Rightarrow> ('s \<Rightarrow> json) \<Rightarrow> (string \<Rightarrow> int option) \<Rightarrow> ('s, 'c, 'k) capability_probe \<Rightarrow>
   ('s, 'c, 'k) worker_executor \<Rightarrow> ('c \<Rightarrow> 's cleanup_client) \<Rightarrow> start_request \<Rightarrow> 's \<Rightarrow> (start_outcome result \<times> 's) option" where
  "start_run load update now of_iso probe exec sessions q s =
     (case load (sq_name q) s of
        Inl e \<Rightarrow> Some (Inl e, s)
      | Inr run \<Rightarrow>
          (case normalize_execution_policy (sq_execution_policy q) of
             Inl e \<Rightarrow> Some (Inl e, s)
           | Inr policy \<Rightarrow>
               (case act_update (persist_run_mutation update now (apply_dependency_ordered_start_request q) run) s of
                  (Inl e, s1) \<Rightarrow> Some (Inl e, s1)
                | (Inr run1, s1) \<Rightarrow>
                    if list_ex has_prompt (map snd (rn_workers run1))
                    then start_flow update now of_iso probe exec sessions policy (sq_cleanup q) run1 s1
                    else Some (Inl (no_prompts_error (sq_name q)), s1))))"

end
