(* ===== verification/Stored_Executor.thy ===== *)
theory Stored_Executor
  imports Orchestration
begin

text \<open>
  \<open>worker_execution.py\<close> over the store: the executor that the orchestration uses. The session is provisioned
  through the outbox of the run, every transition is persisted before the next step, and what was persisted
  stays when a later step raises. The prompt executor and the session client are parameters; the id of the
  outbox entry is drawn by the caller.
\<close>

section \<open>The persistence boundary\<close>

definition apply_stored ::
  "'s updater \<Rightarrow> ('s \<Rightarrow> json) \<Rightarrow> run_record \<Rightarrow> worker_record \<Rightarrow> worker_transition \<Rightarrow> ('s, run_record \<times> worker_record) action" where
  "apply_stored update now run w tr =
     act_update (\<lambda>s. res_bind (persist_worker_execution_transition update refresh_orchestration_run_summary now (run, s) w tr)
       (\<lambda>((run', s'), w'). Inr ((run', w'), s')))"

definition provision_stored ::
  "'s loader \<Rightarrow> 's updater \<Rightarrow> ('s \<Rightarrow> json) \<Rightarrow> 's session_client \<Rightarrow> string \<Rightarrow> bool \<Rightarrow> run_record \<Rightarrow> worker_record \<Rightarrow>
   ('s, (run_record \<times> worker_record) \<times> json) action" where
  "provision_stored load update now create i cleanup_requested run w =
     act_bind (provision_session load update now create i run w JNull (wr_slots w F_agent) (wr_slots w F_model) True cleanup_requested)
       (\<lambda>pv.
     act_bind (apply_stored update now (pv_run pv) (pv_worker pv) (provisioned_transition (pv_worker pv))) (\<lambda>(run1, w1).
     act_bind (finalize_provisioning_best_effort update now (pv_intent pv) run1 w1) (\<lambda>rw.
     act_return (rw, so_created_session_id (pv_outcome pv)))))"

section \<open>The executor\<close>

definition begin_attempt ::
  "'s updater \<Rightarrow> ('s \<Rightarrow> json) \<Rightarrow> string option \<Rightarrow> json list \<Rightarrow> run_record \<Rightarrow> worker_record \<Rightarrow>
   ('s, (run_record \<times> worker_record) \<times> jdict) action" where
  "begin_attempt update now prompt_id created run w =
     act_bind (act_read now) (\<lambda>t.
     act_bind (apply_stored update now run w (mark_worker_active w (Some t))) (\<lambda>(run1, w1).
     act_bind (act_read now) (\<lambda>started_at.
     let attempt_record = started_attempt w1 started_at created prompt_id in
     act_bind (apply_stored update now run1 w1 (attempt_started_transition (worker_id_str w1) attempt_record)) (\<lambda>rw.
     act_return (rw, attempt_record)))))"

definition end_attempt ::
  "'s updater \<Rightarrow> ('s \<Rightarrow> json) \<Rightarrow> jdict \<Rightarrow> attempt_outcome \<Rightarrow> run_record \<Rightarrow> worker_record \<Rightarrow>
   ('s, attempt_transition \<times> run_record) action" where
  "end_attempt update now attempt_record attempt run w =
     act_bind (act_read now) (\<lambda>t.
     act_bind (act_result (apply_worker_attempt_transition w attempt t)) (\<lambda>tr.
     act_bind (act_read now) (\<lambda>finished_at.
     act_bind (apply_stored update now run w (with_finalized_attempt (at_worker_transition tr)
         (dict_get attempt_record ''id'') (attempt_finalization_fields tr attempt finished_at))) (\<lambda>(run', w').
     act_return (tr, run')))))"

text \<open>The client, the prompt and the capabilities reach the prompt executor only.\<close>

type_synonym ('s, 'c, 'k) prompt_executor =
  "'c \<Rightarrow> worker_record \<Rightarrow> string option \<Rightarrow> 'k \<Rightarrow> string option \<Rightarrow> ('s, attempt_error + jdict) action"

definition execute_stored_worker ::
  "'s loader \<Rightarrow> 's updater \<Rightarrow> ('s \<Rightarrow> json) \<Rightarrow> ('c \<Rightarrow> 's session_client) \<Rightarrow> ('s \<Rightarrow> string) \<Rightarrow>
   ('s, 'c, 'k) prompt_executor \<Rightarrow> ('k \<Rightarrow> string option) \<Rightarrow> ('s, 'c, 'k) worker_executor" where
  "execute_stored_worker load update now create new_id prompt_executor prepare_prompt_id client run w prompt capabilities cleanup_requested =
     act_bind (act_read new_id) (\<lambda>i.
     act_bind (provision_stored load update now (create client) i cleanup_requested run w) (\<lambda>((run1, w1), created).
     let created_ids = (if created = JNull then [] else [created]);
         prompt_id = prepare_prompt_id capabilities in
     act_bind (begin_attempt update now prompt_id created_ids run1 w1) (\<lambda>((run2, w2), attempt_record).
     act_bind (prompt_executor client w2 prompt capabilities prompt_id) (\<lambda>answer.
     act_bind (act_result (execute_single_worker_attempt w2 answer prompt_id)) (\<lambda>attempt.
     act_bind (end_attempt update now attempt_record attempt run2 w2) (\<lambda>(tr, run3).
     act_return \<lparr>wo_created_session_ids = created_ids, wo_error = at_error tr, wo_run = run3\<rparr>))))))"

end
