(* ===== verification/Attempt_Progress.thy ===== *)
theory Attempt_Progress
  imports Executor_Totality
begin

text \<open>
  How many attempts a worker may still get: none when it cannot execute, otherwise one more than the retries
  left in its budget. An attempt that ends without an error uses one up.
\<close>

definition retries_left :: "worker_record \<Rightarrow> nat" where
  "retries_left w = (case (wr_slots w F_retry_count, wr_slots w F_retry_limit) of
     (JInt n, JInt m) \<Rightarrow> nat (m - n) | _ \<Rightarrow> 0)"

definition attempts_left :: "worker_record \<Rightarrow> nat" where
  "attempts_left w = (if can_execute w then Suc (retries_left w) else 0)"

section \<open>Executable states\<close>

definition not_executable :: "lifecycle set" where
  "not_executable = {Active_Wait, Blocked_Dependency, Blocked_Timeout, Done_Collect, Failed_Terminal, Timeout_Terminal,
     Timeout_Failed_Terminal, Timeout_Aborted, Aborted}"

lemma can_execute_state: "can_execute w \<Longrightarrow> worker_lifecycle w = Some l \<Longrightarrow> l \<notin> not_executable"
  by (cases l) (simp_all add: can_execute_def lifecycle_tables not_executable_def)

lemma attempts_left_state: "wf_worker w \<Longrightarrow> fst (machine_state w) \<in> not_executable \<Longrightarrow> attempts_left w = 0"
  using can_execute_state [OF _ machine_lifecycle] by (auto simp: attempts_left_def)

lemma absorbed_not_executable: "absorbed s \<Longrightarrow> fst s \<in> not_executable"
  by (auto simp: absorbed_def not_executable_def)

lemma settled_step:
  "lifecycle_step s n s' \<Longrightarrow> n \<in> {T_RESULT_APPLIED, T_DEPENDENCY_BLOCKED} \<Longrightarrow> fst s' \<in> not_executable"
  by (erule lifecycle_stepE) (auto simp: not_executable_def absorbed_def)

section \<open>Steps\<close>

lemma public_retry_count:
  assumes wf: "wf_worker w" and wid: "wt_worker_id tr \<noteq> []" and ns: "wt_name tr \<noteq> T_SNAPSHOT_APPLIED"
    and app: "apply_transition w tr = Inr w'"
  shows "wr_slots w' F_retry_limit = wr_slots w F_retry_limit"
    and "wr_slots w' F_retry_count = wr_slots w F_retry_count \<or>
      (\<exists>c r m t ids. require_transition_payload tr = Inr (P_RetryScheduled c r m t ids) \<and> wr_slots w' F_retry_count = JInt m)"
proof -
  obtain w1 where red: "reduce_worker_transition_payload w tr = Inr w1"
    and e: "effect w1 {F_attempts} (worker_lifecycle w1) w'"
    by (rule public_apply_reduce [OF wf wid ns app])
  obtain p where p: "require_transition_payload tr = Inr p" "payload_name p = wt_name tr"
    and rc: "wr_slots w1 F_retry_count = wr_slots w F_retry_count
      \<or> wr_slots w1 F_retry_count = payload_retry_count (wr_slots w F_retry_count) p"
    by (rule public_reduce_slots [OF wf wid ns red])
  show "wr_slots w' F_retry_limit = wr_slots w F_retry_limit"
    by (rule public_apply_configuration [OF wf wid ns app]) (simp add: configuration_fields_def)
  have "wr_slots w' F_retry_count = wr_slots w1 F_retry_count" using e by (simp add: effect_def)
  then show "wr_slots w' F_retry_count = wr_slots w F_retry_count \<or>
      (\<exists>c r m t ids. require_transition_payload tr = Inr (P_RetryScheduled c r m t ids) \<and> wr_slots w' F_retry_count = JInt m)"
    using rc p(1) by (cases p) (auto simp: payload_retry_count_def)
qed

lemma retries_left_step:
  assumes "wf_worker w" and "wt_worker_id tr \<noteq> []" and "wt_name tr \<notin> {T_SNAPSHOT_APPLIED, T_RETRY_SCHEDULED}"
    and "apply_transition w tr = Inr w'"
  shows "retries_left w' = retries_left w"
proof -
  have ns: "wt_name tr \<noteq> T_SNAPSHOT_APPLIED" using assms(3) by simp
  have "\<not> (\<exists>c r m t ids. require_transition_payload tr = Inr (P_RetryScheduled c r m t ids))"
    using assms(3) payload_name_of by fastforce
  with public_retry_count [OF assms(1,2) ns assms(4)] show ?thesis by (auto simp: retries_left_def)
qed

lemma retry_step:
  assumes wf: "wf_worker w" and wid: "wt_worker_id tr \<noteq> []" and p: "require_transition_payload tr = Inr (P_RetryScheduled c r (n + 1) t ids)"
    and n: "wr_slots w F_retry_count = JInt n" "wr_slots w F_retry_limit = JInt m" "n < m"
    and app: "apply_transition w tr = Inr w'"
  shows "attempts_left w' \<le> retries_left w"
proof (cases "accepted_abort w")
  case True
  have wf': "wf_worker w'" by (rule wf_apply_transition [OF wf wid app])
  have name: "wt_name tr = T_RETRY_SCHEDULED" using payload_name_of [OF p] by simp
  have "absorbed (machine_state w)" using True accepted_abort_iff [OF machine_lifecycle [OF wf]] by simp
  moreover have "lifecycle_step (machine_state w) (wt_name tr) (machine_state w')"
    by (rule public_transition_step [OF wf wid _ app]) (simp add: name)
  ultimately have "absorbed (machine_state w')" by (rule absorbed_step [rotated])
  then show ?thesis using attempts_left_state [OF wf'] absorbed_not_executable by simp
next
  case False
  have name: "wt_name tr = T_RETRY_SCHEDULED" using payload_name_of [OF p] by simp
  obtain w1 where red: "reduce_worker_transition_payload w tr = Inr w1"
    and e: "effect w1 {F_attempts} (worker_lifecycle w1) w'"
    by (rule public_apply_reduce [OF wf wid _ app]) (simp add: name)
  obtain target where target: "worker_transition_target_lifecycle_state tr = Inr target"
    and w1: "spec_reducer w tr target (P_RetryScheduled c r (n + 1) t ids) = Inr w1"
    using red False by (auto simp: reduce_worker_transition_payload_def p res_bind_Inr_iff accepted_abort_terminal_invariant_def)
  have "wr_slots w1 F_retry_count = JInt (n + 1)" "wr_slots w1 F_retry_limit = JInt m"
    using spec_reducer_effect [OF wf wid p _ target w1] n(2) by (simp_all add: payload_retry_count_def configuration_fields_def)
  with e have "wr_slots w' F_retry_count = JInt (n + 1)" "wr_slots w' F_retry_limit = JInt m" by (simp_all add: effect_def)
  then show ?thesis using n by (simp add: attempts_left_def retries_left_def) arith
qed

section \<open>The end of an attempt\<close>

text \<open>An attempt without an error was completed or is retried.\<close>

lemma attempt_without_error:
  assumes "apply_worker_attempt_transition w attempt t = Inr tr" and "at_error tr = None"
  shows "wt_name (at_worker_transition tr) = T_RESULT_APPLIED \<or>
    (\<exists>c r ids. schedule_worker_retry w c r ids = Inr (Some (at_worker_transition tr)))"
proof (cases attempt)
  case (AttemptCompleted r)
  with assms show ?thesis
    by (auto simp: apply_completed_attempt_def res_bind_Inr_iff factories split: option.splits)
next
  case (AttemptFailed c r pid)
  with assms show ?thesis
    by (auto simp: apply_timeout_attempt_failure_def apply_retryable_attempt_failure_def res_bind_Inr_iff Let_def
        split: if_splits option.splits)
qed

lemma attempt_progress:
  assumes wf: "wf_worker w" and tr: "apply_worker_attempt_transition w attempt t = Inr tr" and e: "at_error tr = None"
    and app: "apply_transition w (with_finalized_attempt (at_worker_transition tr) i d) = Inr w'"
  shows "attempts_left w' \<le> retries_left w"
proof -
  let ?tr = "with_finalized_attempt (at_worker_transition tr) i d"
  have id: "wt_worker_id (at_worker_transition tr) = worker_id_str w" "wt_name (at_worker_transition tr) \<in> attempt_ending"
    using attempt_transition_name [OF tr] by simp_all
  have wid: "wt_worker_id ?tr \<noteq> []" using id(1) worker_id_str_nonempty [OF wf] by simp
  have wf': "wf_worker w'" by (rule wf_apply_transition [OF wf wid app])
  have ns: "wt_name ?tr \<noteq> T_SNAPSHOT_APPLIED" using id(2) by (auto simp: attempt_ending_def)
  from attempt_without_error [OF tr e] show ?thesis
  proof
    assume "wt_name (at_worker_transition tr) = T_RESULT_APPLIED"
    then have "fst (machine_state w') \<in> not_executable"
      by (intro settled_step [OF public_transition_step [OF wf wid ns app]]) simp
    then show ?thesis using attempts_left_state [OF wf'] by simp
  next
    assume "\<exists>c r ids. schedule_worker_retry w c r ids = Inr (Some (at_worker_transition tr))"
    then obtain c r ids n m where n: "wr_slots w F_retry_count = JInt n" "wr_slots w F_retry_limit = JInt m" "n < m"
      and s: "at_worker_transition tr = retry_scheduled_transition (worker_id_str w) c r (n + 1)
        (Some (wr_slots w F_timeout_started_at)) ids"
      using schedule_worker_retry_Some by metis
    have "require_transition_payload ?tr =
        Inr (P_RetryScheduled c r (n + 1) (Some (wr_slots w F_timeout_started_at)) (transition_prompt_ids ids))"
      by (simp add: s factories)
    from retry_step [OF wf wid this n app] show ?thesis .
  qed
qed

text \<open>A dependency block takes a worker out of the schedule.\<close>

lemma blocked_attempts:
  assumes wf: "wf_worker w" and tr: "wt_name tr = T_DEPENDENCY_BLOCKED" "wt_worker_id tr \<noteq> []"
    and app: "apply_transition w tr = Inr w'"
  shows "attempts_left w' = 0"
proof (rule attempts_left_state [OF wf_apply_transition [OF wf tr(2) app]])
  show "fst (machine_state w') \<in> not_executable"
    by (rule settled_step [OF public_transition_step [OF wf tr(2) _ app]]) (simp_all add: tr)
qed

end
