(* ===== verification/Provisioning_Facts.thy ===== *)
theory Provisioning_Facts
  imports Outbox_Workers Stored_Executor Attempt_Progress
begin

text \<open>
  Provisioning a session for a worker changes the session of that worker and nothing else that matters to
  the schedule: the other workers, and the worker's retries, stay as they are.
\<close>

section \<open>What a step may change\<close>

definition spares :: "string \<Rightarrow> workers \<Rightarrow> workers \<Rightarrow> bool" where
  "spares i ws ws' \<longleftrightarrow> (\<forall>j. j \<noteq> i \<longrightarrow> map_of ws' j = map_of ws j) \<and>
     (\<forall>w. map_of ws i = Some w \<longrightarrow> (\<exists>w'. map_of ws' i = Some w' \<and> retries_left w' = retries_left w))"

lemma spares_refl: "spares i ws ws"
  by (simp add: spares_def)

lemma spares_trans: "spares i ws ws' \<Longrightarrow> spares i ws' ws'' \<Longrightarrow> spares i ws ws''"
  unfolding spares_def by metis

lemma spares_set:
  assumes "\<And>w. map_of ws i = Some w \<Longrightarrow> retries_left w' = retries_left w"
  shows "spares i ws (dict_set i w' ws)"
  using assms by (simp add: spares_def)

section \<open>Sessions of a worker\<close>

lemma set_session_slots:
  assumes "set_session w sid agent model = Inr w'" and "g \<notin> {F_session_id, F_agent, F_model}"
  shows "wr_slots w' g = wr_slots w g"
  using assms by (auto simp: set_session_def res_bind_Inr_iff set_canonical_field_Inr split: if_splits)

lemma remember_slots: "g \<noteq> F_cleanup \<Longrightarrow> wr_slots (remember_session_for_cleanup w sid) g = wr_slots w g"
  by (simp add: remember_session_for_cleanup_def ensure_cleanup_def Let_def)

lemma session_retries:
  assumes "set_session w sid agent model = Inr w'"
  shows "retries_left w' = retries_left w" and "retries_left (remember_session_for_cleanup w' sid) = retries_left w"
  by (simp_all add: retries_left_def remember_slots set_session_slots [OF assms])

lemma latest_worker_facts:
  assumes "ensure_latest_worker run i = Inr (run', w)" and run: "good_run n run" and i: "i \<noteq> []"
  shows "wf_worker w" and "worker_id w = JStr i" and "good_run n run'" and "map_of (rn_workers run') i = Some w"
    and "j \<noteq> i \<Longrightarrow> map_of (rn_workers run') j = map_of (rn_workers run) j"
    and "map_of (rn_workers run) i = Some u \<Longrightarrow> w = u"
proof -
  have ok: "workers_ok (rn_workers run)" using run by (simp add: good_run_def wf_run_def)
  consider "run_worker run i = Some w" and "run' = run"
    | "run_worker run i = None" and "w = reset_fields (JStr i)" and "run' = set_run_worker run i w"
    using assms(1) i by (auto simp: ensure_latest_worker_def res_bind_Inr_iff default_worker_record_eq split: option.splits)
  then have "wf_worker w \<and> worker_id w = JStr i \<and> good_run n run' \<and> map_of (rn_workers run') i = Some w \<and>
    (j \<noteq> i \<longrightarrow> map_of (rn_workers run') j = map_of (rn_workers run) j) \<and> (map_of (rn_workers run) i = Some u \<longrightarrow> w = u)"
  proof cases
    case 1
    then show ?thesis using run_worker_ok [of run i w] run by (auto simp: good_run_def run_worker_def)
  next
    case 2
    have w: "wf_worker w" "worker_id w = JStr i"
      using wf_reset_fields [OF i] by (simp_all add: 2(2) reset_fields_def worker_id_def default_value_eq)
    have "good_run n run'"
      using good_run_workers [OF run workers_ok_set [OF ok i w]] by (simp add: 2(3) set_run_worker_def)
    with 2 w show ?thesis by (simp add: set_run_worker_def run_worker_def)
  qed
  then show "wf_worker w" "worker_id w = JStr i" "good_run n run'" "map_of (rn_workers run') i = Some w"
    "j \<noteq> i \<Longrightarrow> map_of (rn_workers run') j = map_of (rn_workers run) j" "map_of (rn_workers run) i = Some u \<Longrightarrow> w = u"
    by blast+
qed

lemma created_session_spares:
  assumes a: "apply_created_worker_session i sid cleanup agent model run = Inr run'" and run: "good_run n run" and i: "i \<noteq> []"
  shows "good_run n run'" and "spares i (rn_workers run) (rn_workers run')"
proof -
  obtain run1 w w1 where l: "ensure_latest_worker run i = Inr (run1, w)" and w1: "set_session w sid agent model = Inr w1"
    and run': "run' = set_run_worker run1 i (if cleanup then remember_session_for_cleanup w1 sid else w1)"
    using a by (auto simp: apply_created_worker_session_def res_bind_Inr_iff)
  note f = latest_worker_facts [OF l run i]
  let ?w = "if cleanup then remember_session_for_cleanup w1 sid else w1"
  have "wf_worker ?w" using wf_set_session [OF f(1) w1] wf_remember_session_for_cleanup by simp
  moreover have "worker_id ?w = JStr i" using f(2) by (simp add: worker_id_def remember_slots set_session_slots [OF w1])
  moreover have "workers_ok (rn_workers run1)" using f(3) by (simp add: good_run_def wf_run_def)
  ultimately show "good_run n run'"
    using good_run_workers [OF f(3) workers_ok_set [OF _ i]] by (simp add: run' set_run_worker_def)
  show "spares i (rn_workers run) (rn_workers run')"
    using f(4-6) session_retries [OF w1] by (auto simp: spares_def run' set_run_worker_def)
qed

section \<open>Intents\<close>

lemma intent_made:
  assumes "worker_session_creation_intent j run w agent model cleanup t = Inr r" and "worker_id w = JStr i"
  shows "made_record r" and "intent_worker_id r = Inr i"
proof -
  note f = assms(1) [unfolded worker_session_creation_intent_def]
  have r: "jr_id r = j" "jr_kind r = WORKER_SESSION_CREATE_KIND" "jr_fields r = set_if_not_none ''model'' model
      (set_if_not_none ''agent'' agent [(''worker_id'', worker_id w), (''directory'', dict_get (rn_fields run) ''directory''),
        (''cleanup_requested'', JBool cleanup), (''intent_recorded_at'', t)])"
    using f by (auto simp: make_journal_record_def res_bind_Inr_iff Let_def split: if_splits)
  have "wf_dict (jr_fields r)"
    unfolding r by (simp add: set_if_not_none_def wf_dict_def wf_dict_set [unfolded wf_dict_def])
  then show "made_record r" using f by (simp add: made_record_def r)
  show "intent_worker_id r = Inr i" by (simp add: intent_worker_id_def r set_if_not_none_def assms(2))
qed

end
