(* ===== verification/Execution_Facts.thy ===== *)
theory Execution_Facts
  imports Provisioning_Facts
begin

text \<open>
  An execution over the store: it changes the executed worker only, and when it returns without an error the
  worker has used up an attempt. The contract of the clients is that they leave the store alone.
\<close>

lemma act_bind_InrE:
  assumes "act_bind m f s = (Inr y, s')"
  obtains x s1 where "m s = (Inr x, s1)" and "f x s1 = (Inr y, s')"
  using assms by (auto simp: act_bind_Inr_iff)

text \<open>What an execution that returns has done: the executed worker waits no more.\<close>

definition executed :: "string \<Rightarrow> workers \<Rightarrow> workers \<Rightarrow> string option \<Rightarrow> bool" where
  "executed i ws ws' error \<longleftrightarrow> (\<forall>j. j \<noteq> i \<longrightarrow> map_of ws' j = map_of ws j) \<and>
     (\<exists>w w'. map_of ws i = Some w \<and> map_of ws' i = Some w' \<and> worker_lifecycle w' \<noteq> Some Active_Wait \<and>
        (error = None \<longrightarrow> attempts_left w' \<le> retries_left w))"

section \<open>The contract\<close>

locale stored_execution = run_persistence ok load update refresh_orchestration_run_summary now
  for ok :: "'s \<Rightarrow> bool" and load and update and now +
  fixes create :: "'c \<Rightarrow> 's session_client" and prompt_executor :: "('s, 'c, 'k) prompt_executor"
  assumes create_quiet: "ok s \<Longrightarrow> create c d a m md s = (r, s') \<Longrightarrow> ok s' \<and> load n s' = load n s"
    and prompt_quiet: "ok s \<Longrightarrow> prompt_executor c w p k pid s = (x, s') \<Longrightarrow> ok s' \<and> load n s' = load n s"

sublocale stored_execution \<subseteq> session: remote_outbox ok load update WORKER_SESSION_JOURNAL_FIELD now
  by unfold_locales (simp add: WORKER_SESSION_JOURNAL_FIELD_def run_field_names_def base_field_names_def)

context stored_execution
begin

lemma quiet_held:
  assumes "\<And>s r s'. ok s \<Longrightarrow> m s = (r, s') \<Longrightarrow> ok s' \<and> load n s' = load n s"
  shows "triple (session.held W n) m (\<lambda>_. session.held W n) (session.held W n)"
  by (rule tripleI) (auto simp: session.held_def dest: assms)

section \<open>Provisioning\<close>

lemma created_outcome_updates:
  assumes r: "apply_created_session agent model outcome intent succeeded = Inr (Some result)"
    and i: "intent_worker_id intent = Inr i" "i \<noteq> []"
  shows "fits (spares i ws) n (mr_run_update result)"
proof (cases "so_created_session_id outcome = JNull")
  case True
  then have "mr_run_update result = None"
    using r by (auto simp: apply_created_session_def res_bind_Inr_iff result_keep_pending_def make_mutation_result_def Let_def
        split: if_splits)
  then show ?thesis by (simp add: fits_def)
next
  case False
  then have u: "mr_run_update result =
      Some (apply_created_worker_session i (so_created_session_id outcome) (intent_cleanup_requested intent) agent model)"
    using r i by (auto simp: apply_created_session_def created_session_result_def result_record_applied_def res_bind_Inr_iff
        make_mutation_result_def Let_def split: if_splits)
  have keeps: "keeps_run n' (the (mr_run_update result))" for n'
    unfolding u option.sel by (rule keeps_runI) (rule created_session_spares(1) [OF _ _ i(2)])
  have "spares i ws (rn_workers r0)"
    if "good_run n r" "spares i ws (rn_workers r)" "the (mr_run_update result) r = Inr r0" for r r0
    using that created_session_spares(2) [OF _ that(1) i(2)] unfolding u option.sel by (blast intro: spares_trans)
  with keeps show ?thesis by (simp add: fits_def u)
qed

lemma provision_call_quiet:
  "triple (session.held W n) (call_session_creation (create c) sid agent model cs run intent)
    (\<lambda>_. session.held W n) (session.held W n)"
proof (rule quiet_held)
  fix s r s'
  assume s: "ok s" and e: "call_session_creation (create c) sid agent model cs run intent s = (r, s')"
  have q: "ok s1 \<and> load n s1 = load n s" if "provision_worker_session (create c) run1 w sid agent model cs md s = (x, s1)" for run1 w md x s1
    using that s create_quiet
    by (auto simp: provision_worker_session_def ensure_worker_session_def act_bind_def Let_def
        split: if_splits sum.splits prod.splits)
  show "ok s' \<and> load n s' = load n s"
    using e s q by (auto simp: call_session_creation_def split_def elim!: act_bindE)
qed

lemma creation_in_store:
  assumes run: "good_run n run" and i: "worker_id w = JStr i" "i \<noteq> []"
  shows "triple (session.held (spares i ws) n)
    (run_remote_mutation load update now WORKER_SESSION_JOURNAL_FIELD j WORKER_SESSION_CREATE_OPERATION
      (session_creation (create c) now j w sid agent model cs cleanup) run)
    (\<lambda>x. session.in_store (spares i ws) n (fst x)) (session.held (spares i ws) n)"
proof (rule session.remote_mutation_in_store [OF run, where J = "\<lambda>r. intent_worker_id r = Inr i"])
  show "made_record r \<and> intent_worker_id r = Inr i"
    if "rm_intent (session_creation (create c) now j w sid agent model cs cleanup) s latest = Inr r" for s latest r
    using that intent_made [OF _ i(1)] by (auto simp: session_creation_def)
  show "triple (session.held (spares i ws) n) (rm_call (session_creation (create c) now j w sid agent model cs cleanup) r intent)
      (\<lambda>_. session.held (spares i ws) n) (session.held (spares i ws) n)" for r intent
    by (simp add: session_creation_def provision_call_quiet)
  show "fits (spares i ws) n (mr_run_update result)"
    if "rm_apply (session_creation (create c) now j w sid agent model cs cleanup) = Some f"
      and "f s r intent succeeded = Inr (Some result)" and "intent_worker_id intent = Inr i" for f s r intent succeeded result
    using that created_outcome_updates [OF _ that(3) i(2)] by (auto simp: session_creation_def)
qed

lemma latest_worker_in_store:
  assumes s: "session.in_store (spares i ws) n run s" and i: "worker_id w = JStr i" "i \<noteq> []" and here: "map_of ws i \<noteq> None"
    and l: "latest_worker run w = Inr w'"
  shows "map_of (rn_workers run) i = Some w'" and "wf_worker w'" and "worker_id w' = JStr i"
proof -
  obtain c cs where c: "i = c # cs" using i(2) by (cases i) auto
  obtain u where u: "map_of (rn_workers run) i = Some u" using s here by (auto simp: session.in_store_def spares_def)
  obtain run' where l': "ensure_latest_worker run i = Inr (run', w')"
    using l by (auto simp: latest_worker_def i(1) c res_bind_Inr_iff)
  note f = latest_worker_facts [OF l' session.in_store_good [OF s] i(2)]
  show "map_of (rn_workers run) i = Some w'" "wf_worker w'" "worker_id w' = JStr i" using f(1,2,6) u by blast+
qed

lemma provision_in_store:
  assumes run: "good_run n run" and w: "wf_worker w" "worker_id w = JStr i" "i \<noteq> []" and here: "map_of ws i \<noteq> None"
  shows "triple (session.held (spares i ws) n)
    (provision_session load update now (create c) j run w sid agent model True cleanup)
    (\<lambda>pv s. session.held (spares i ws) n s \<and> good_run n (pv_run pv) \<and> wf_worker (pv_worker pv) \<and> worker_id (pv_worker pv) = JStr i)
    (\<lambda>_. True)"
proof (cases "will_create_worker_session w sid True")
  case True
  have last: "triple (session.in_store (spares i ws) n (fst x))
      (act_bind (act_result (latest_worker (fst x) w)) (\<lambda>w'.
        act_return \<lparr>pv_run = fst x, pv_worker = w', pv_outcome = fst (snd x), pv_intent = Some (snd (snd x))\<rparr>))
      (\<lambda>pv s. session.held (spares i ws) n s \<and> good_run n (pv_run pv) \<and> wf_worker (pv_worker pv) \<and> worker_id (pv_worker pv) = JStr i)
      (\<lambda>_. True)" for x :: "run_record \<times> session_outcome \<times> journal_record"
  proof (rule triple_bind [OF triple_result])
    show "session.in_store (spares i ws) n (fst x) s \<and> latest_worker (fst x) w = Inr w'"
      if "session.in_store (spares i ws) n (fst x) s" and "latest_worker (fst x) w = Inr w'" for s w'
      using that by simp
  qed (auto intro!: triple_return simp: session.in_store_held session.in_store_good latest_worker_in_store(2,3) [OF _ w(2,3) here])
  show ?thesis
    unfolding provision_session_def split_def if_P [OF True]
    by (rule triple_bind [OF triple_weaken [OF creation_in_store [OF run w(2,3)]] last]) auto
next
  case False
  then have sid: "py_truthy (first_truthy sid (wr_slots w F_session_id))" by (simp add: will_create_worker_session_def)
  have "worker_id w' = JStr i \<and> wf_worker w'" if "set_session w x agent model = Inr w'" for x w'
    using that w wf_set_session [OF w(1) that] by (simp add: worker_id_def set_session_slots [OF that])
  then show ?thesis
    using sid run unfolding provision_session_def if_not_P [OF False]
    by (intro tripleI) (auto simp: provision_worker_session_def ensure_worker_session_def Let_def elim!: act_bindE)
qed

section \<open>Transitions\<close>

text \<open>The run and the worker in hand are the stored ones, and no other worker has changed.\<close>

definition at_hand :: "workers \<Rightarrow> string \<Rightarrow> string \<Rightarrow> run_record \<times> worker_record \<Rightarrow> 's \<Rightarrow> bool" where
  "at_hand ws n i rw s \<longleftrightarrow> session.in_store (spares i ws) n (fst rw) s \<and> map_of (rn_workers (fst rw)) i = Some (snd rw)"

lemma at_hand_facts:
  assumes "at_hand ws n i rw s"
  shows "good_run n (fst rw)" and "wf_worker (snd rw)" and "worker_id (snd rw) = JStr i" and "worker_id_str (snd rw) = i"
    and "i \<noteq> []" and "session.held (spares i ws) n s"
proof -
  have s: "session.in_store (spares i ws) n (fst rw) s" and w: "map_of (rn_workers (fst rw)) i = Some (snd rw)"
    using assms by (simp_all add: at_hand_def)
  show g: "good_run n (fst rw)" by (rule session.in_store_good [OF s])
  show "session.held (spares i ws) n s" by (rule session.in_store_held [OF s])
  have "i \<noteq> [] \<and> wf_worker (snd rw) \<and> worker_id (snd rw) = JStr i"
    by (rule run_worker_ok [of "fst rw"]) (use g w in \<open>simp_all add: good_run_def run_worker_def\<close>)
  then show "wf_worker (snd rw)" "worker_id (snd rw) = JStr i" "worker_id_str (snd rw) = i" "i \<noteq> []"
    by (simp_all add: worker_id_str_def)
qed

lemma apply_stored_facts:
  assumes a: "apply_stored update now run w tr s = (Inr rw, s')" and s: "session.held (spares i ws) n s"
    and run: "good_run n run" and tr: "addressed tr" "wt_worker_id tr = i"
  shows "ok s'" and "load n s' = Inr (fst rw)" and "map_of (rn_workers (fst rw)) i = Some (snd rw)"
    and "\<exists>r. load n s = Inr r \<and> workers_ok (rn_workers r) \<and> spares i ws (rn_workers r) \<and>
      apply_transition (transition_source (rn_workers r) tr) tr = Inr (snd rw) \<and>
      rn_workers (fst rw) = dict_set i (snd rw) (rn_workers r)"
proof -
  obtain r' w' where rw: "rw = (r', w')" by (cases rw)
  have p: "persist_worker_execution_transition update refresh_orchestration_run_summary now (run, s) w tr = Inr ((r', s'), w')"
    using a by (auto simp: apply_stored_def act_update_Inr_iff res_bind_Inr_iff rw)
  have okay: "ok s" using s by (simp add: session.held_def)
  obtain n' where n': "run_name run = Inr n'"
    using p by (auto simp: persist_worker_execution_transition_def persist_worker_transition_def
        persist_worker_transitions_def res_bind_Inr_iff)
  have n: "n' = n" by (rule good_run_name [OF run n'])
  note f = persist_execution_ok [OF p okay tr(1) n' [unfolded n]]
  show "ok s'" "load n s' = Inr (fst rw)" "map_of (rn_workers (fst rw)) i = Some (snd rw)"
    using f(1,2,4) by (simp_all add: rw run_worker_def tr(2))
  obtain ws' where ps: "persist_worker_transitions update refresh_orchestration_run_summary now [tr] run s = Inr (r', ws', s')"
    using p by (auto simp: persist_worker_execution_transition_def persist_worker_transition_def res_bind_Inr_iff Let_def)
  have trs: "\<forall>t \<in> set [tr]. addressed t" using tr(1) by simp
  obtain r where r: "load n s = Inr r" "good_run n r" "apply_worker_transition (rn_workers r) tr = Inr (rn_workers r')"
    using persist_worker_transitions_ok(5) [OF ps okay trs n' [unfolded n]] by (auto simp: res_bind_Inr_iff)
  obtain u where u: "apply_transition (transition_source (rn_workers r) tr) tr = Inr u"
    and ws: "rn_workers r' = dict_set i u (rn_workers r)"
    using r(3) by (auto simp: apply_worker_transition_eq [OF tr(1)] res_bind_Inr_iff tr(2))
  have "u = w'" using f(4) by (simp add: run_worker_def ws tr(2))
  then have "apply_transition (transition_source (rn_workers r) tr) tr = Inr w' \<and> rn_workers r' = dict_set i w' (rn_workers r)"
    using u ws by simp
  moreover have "workers_ok (rn_workers r)" using r(2) by (simp add: good_run_def wf_run_def)
  moreover have "spares i ws (rn_workers r)" using s r(1) by (auto simp: session.held_def)
  ultimately show "\<exists>r. load n s = Inr r \<and> workers_ok (rn_workers r) \<and> spares i ws (rn_workers r) \<and>
      apply_transition (transition_source (rn_workers r) tr) tr = Inr (snd rw) \<and>
      rn_workers (fst rw) = dict_set i (snd rw) (rn_workers r)"
    using r(1) by (auto simp: rw)
qed

lemma apply_stored_at_hand:
  assumes run: "good_run n run" and tr: "addressed tr" "wt_worker_id tr = i" "wt_name tr \<noteq> T_RETRY_SCHEDULED"
    and here: "map_of ws i \<noteq> None"
  shows "triple (session.held (spares i ws) n) (apply_stored update now run w tr) (at_hand ws n i) (\<lambda>_. True)"
proof (rule tripleI)
  fix s rw s'
  assume s: "session.held (spares i ws) n s" and a: "apply_stored update now run w tr s = (Inr rw, s')"
  note f = apply_stored_facts [OF a s run tr(1,2)]
  obtain r :: run_record where r: "workers_ok (rn_workers r)" "spares i ws (rn_workers r)"
    "apply_transition (transition_source (rn_workers r) tr) tr = Inr (snd rw)" "rn_workers (fst rw) = dict_set i (snd rw) (rn_workers r)"
    using f(4) by blast
  obtain u where u: "map_of (rn_workers r) i = Some u" using r(2) here by (auto simp: spares_def)
  have src: "transition_source (rn_workers r) tr = u" by (simp add: transition_source_def tr(2) u)
  have wf: "wf_worker u" using transition_source_ok(1) [OF r(1) tr(1)] by (simp add: src)
  have "retries_left (snd rw) = retries_left u"
    by (rule retries_left_step [OF wf _ _ r(3) [unfolded src]]) (use tr in \<open>auto simp: addressed_def\<close>)
  then have "spares i ws (rn_workers (fst rw))"
    unfolding r(4) using u by (intro spares_trans [OF r(2) spares_set]) simp
  with f(1-3) show "at_hand ws n i rw s'" by (simp add: at_hand_def session.in_store_def)
qed simp

section \<open>The execution\<close>

lemma finalized_at_hand:
  assumes here: "map_of ws i \<noteq> None"
  shows "triple (at_hand ws n i rw) (finalize_provisioning_best_effort update now intent (fst rw) (snd rw))
    (at_hand ws n i) (\<lambda>_. True)"
proof (cases intent)
  case (Some r)
  show ?thesis
    unfolding finalize_provisioning_best_effort_def Some option.case finalize_session_best_effort_def with_latest_worker_def
      transaction_finalize_best_effort_def
  proof (rule tripleI)
    fix s x s'
    assume s: "at_hand ws n i rw s" and e: "act_bind (finalize_best_effort update now WORKER_SESSION_JOURNAL_FIELD (jr_id r)
        (mo_finalize_cleanup_operation WORKER_SESSION_CREATE_OPERATION) (fst rw))
      (\<lambda>run. act_bind (act_result (latest_worker run (snd rw))) (\<lambda>w'. act_return (run, w'))) s = (Inr x, s')"
    note f = at_hand_facts [OF s]
    have "session.in_store (spares i ws) n (fst rw) s" using s by (simp add: at_hand_def)
    then have "session.in_store (spares i ws) n (fst x) s'" and "latest_worker (fst x) (snd rw) = Inr (snd x)"
      using e triple_returns [OF session.finalize_in_store] by (auto elim!: act_bindE)
    then show "at_hand ws n i x s'"
      using latest_worker_in_store(1) [OF _ f(3,5) here] by (simp add: at_hand_def)
  qed simp
qed (simp add: finalize_provisioning_best_effort_def triple_return)

lemma provision_stored_at_hand:
  assumes run: "good_run n run" and w: "wf_worker w" "worker_id w = JStr i" "i \<noteq> []" and here: "map_of ws i \<noteq> None"
  shows "triple (session.held (spares i ws) n) (provision_stored load update now (create c) j cleanup run w)
    (\<lambda>x. at_hand ws n i (fst x)) (\<lambda>_. True)"
proof -
  have applied: "triple (\<lambda>s. session.held (spares i ws) n s \<and> good_run n (pv_run pv) \<and> wf_worker (pv_worker pv) \<and> worker_id (pv_worker pv) = JStr i)
      (apply_stored update now (pv_run pv) (pv_worker pv) (provisioned_transition (pv_worker pv))) (at_hand ws n i) (\<lambda>_. True)" for pv
    by (rule triple_given, elim conjE, rule apply_stored_at_hand [OF _ _ _ _ here])
      (simp_all add: addressed_def factories worker_id_str_def w(3))
  show ?thesis
    unfolding provision_stored_def split_def
    by (rule triple_bind [OF provision_in_store [OF run w here]], rule triple_bind [OF applied],
        rule triple_bind [OF finalized_at_hand [OF here]], rule triple_return) simp
qed

lemma begin_attempt_at_hand:
  assumes here: "map_of ws i \<noteq> None"
  shows "triple (at_hand ws n i rw) (begin_attempt update now pid created (fst rw) (snd rw))
    (\<lambda>x. at_hand ws n i (fst x)) (\<lambda>_. True)"
proof -
  have step: "triple (at_hand ws n i rw) (apply_stored update now (fst rw) (snd rw) (make_transition (worker_id_str (snd rw)) p))
      (at_hand ws n i) (\<lambda>_. True)" if p: "payload_name p \<notin> {T_SNAPSHOT_APPLIED, T_RETRY_SCHEDULED}" for rw p
  proof (rule triple_from)
    fix s assume s: "at_hand ws n i rw s"
    note f = at_hand_facts [OF s]
    have "triple (session.held (spares i ws) n) (apply_stored update now (fst rw) (snd rw) (make_transition (worker_id_str (snd rw)) p))
        (at_hand ws n i) (\<lambda>_. True)"
      by (rule apply_stored_at_hand [OF f(1) _ _ _ here]) (use p f(4,5) in \<open>auto simp: addressed_def\<close>)
    then show "triple (at_hand ws n i rw) (apply_stored update now (fst rw) (snd rw) (make_transition (worker_id_str (snd rw)) p))
        (at_hand ws n i) (\<lambda>_. True)" by (rule triple_weaken) (auto intro: at_hand_facts(6))
  qed
  have active: "\<exists>p. mark_worker_active w t = make_transition (worker_id_str w) p \<and> payload_name p = T_ACTIVE" for w t
    unfolding mark_worker_active_def active_transition_def by (rule exI, rule conjI [OF refl]) simp
  have "triple (at_hand ws n i rw) (apply_stored update now (fst rw) (snd rw) (mark_worker_active (snd rw) t))
      (at_hand ws n i) (\<lambda>_. True)" for rw t
    using active [of "snd rw" t] step [of _ rw] by auto
  moreover have "triple (at_hand ws n i rw) (apply_stored update now (fst rw) (snd rw) (attempt_started_transition (worker_id_str (snd rw)) a))
      (at_hand ws n i) (\<lambda>_. True)" for rw a
    using step [of "P_AttemptStarted a" rw] by (simp add: factories)
  ultimately show ?thesis
    unfolding begin_attempt_def split_def Let_def
    by (intro triple_bind [OF triple_read [where Q = "\<lambda>_. at_hand ws n i rw"]] triple_bind [where R = "at_hand ws n i"]
        triple_return triple_bind [OF triple_read [where Q = "\<lambda>_. at_hand ws n i x" for x]]) auto
qed

lemma end_attempt_executed:
  assumes e: "end_attempt update now attempt_record attempt (fst rw) (snd rw) s = (Inr (tr, run'), s')"
    and s: "at_hand ws n i rw s" and here: "map_of ws i \<noteq> None"
  shows "ok s'" and "load n s' = Inr run'" and "executed i ws (rn_workers run') (at_error tr)"
proof -
  note h = at_hand_facts [OF s]
  obtain t d x where tr: "apply_worker_attempt_transition (snd rw) attempt t = Inr tr"
    and a: "apply_stored update now (fst rw) (snd rw) (with_finalized_attempt (at_worker_transition tr)
      (dict_get attempt_record ''id'') d) s = (Inr x, s')" and x: "run' = fst x"
    using e by (auto simp: end_attempt_def elim!: act_bindE)
  let ?tr = "with_finalized_attempt (at_worker_transition tr) (dict_get attempt_record ''id'') d"
  have name: "wt_worker_id ?tr = i" "wt_name ?tr \<in> attempt_ending" using attempt_transition_name [OF tr] h(4) by simp_all
  have ns: "wt_name ?tr \<noteq> T_SNAPSHOT_APPLIED" using name(2) by (auto simp: attempt_ending_def)
  have adr: "addressed ?tr" using name(1) ns h(5) by (simp add: addressed_def)
  note f = apply_stored_facts [OF a h(6,1) adr name(1)]
  show "ok s'" "load n s' = Inr run'" using f(1,2) by (simp_all add: x)
  obtain r :: run_record where r: "load n s = Inr r" "apply_transition (transition_source (rn_workers r) ?tr) ?tr = Inr (snd x)"
    "rn_workers (fst x) = dict_set i (snd x) (rn_workers r)"
    using f(4) by blast
  have r': "r = fst rw" "spares i ws (rn_workers r)" "map_of (rn_workers r) i = Some (snd rw)"
    using s r(1) by (simp_all add: at_hand_def session.in_store_def)
  have app: "apply_transition (snd rw) ?tr = Inr (snd x)"
    using r(2) r'(3) by (simp add: transition_source_def name(1) del: with_finalized_attempt_simps)
  obtain w where w: "map_of ws i = Some w" "retries_left (snd rw) = retries_left w"
    using here r'(2,3) by (auto simp: spares_def)
  have wid: "wt_worker_id ?tr \<noteq> []" using name(1) h(5) by simp
  have "fst (machine_state (snd x)) \<noteq> Active_Wait"
    by (rule ending_step [OF public_transition_step [OF h(2) wid ns app] name(2)])
  moreover have "wf_worker (snd x)" by (rule wf_apply_transition [OF h(2) wid app])
  moreover have "at_error tr = None \<longrightarrow> attempts_left (snd x) \<le> retries_left w"
    using attempt_progress [OF h(2) tr _ app] w(2) by simp
  ultimately have "worker_lifecycle (snd x) \<noteq> Some Active_Wait" "at_error tr = None \<longrightarrow> attempts_left (snd x) \<le> retries_left w"
    using machine_lifecycle [of "snd x"] by auto
  then show "executed i ws (rn_workers run') (at_error tr)"
    using r'(2) w(1) unfolding executed_def x r(3) by (auto simp: spares_def)
qed

lemma execution_executed:
  assumes s: "ok s" "load n s = Inr run" and w: "map_of (rn_workers run) i = Some w"
    and e: "execute_stored_worker load update now create new_id prompt_executor prep c run w p k cleanup s = (Inr out, s')"
  shows "ok s'" and "load n s' = Inr (wo_run out)" and "executed i (rn_workers run) (rn_workers (wo_run out)) (wo_error out)"
proof -
  let ?ws = "rn_workers run"
  have here: "map_of ?ws i \<noteq> None" using w by simp
  have h: "at_hand ?ws n i (run, w) s" using s w by (simp add: at_hand_def session.in_store_def spares_refl)
  note f = at_hand_facts [OF h, simplified]
  let ?ids = "\<lambda>created. if created = JNull then [] else [created]"
  let ?finish = "\<lambda>created x. act_bind (prompt_executor c (snd (fst x)) p k (prep k)) (\<lambda>answer.
    act_bind (act_result (execute_single_worker_attempt (snd (fst x)) answer (prep k))) (\<lambda>attempt.
    act_bind (end_attempt update now (snd x) attempt (fst (fst x)) (snd (fst x))) (\<lambda>y.
    act_return \<lparr>wo_created_session_ids = ?ids created, wo_error = at_error (fst y), wo_run = snd y\<rparr>)))"
  have e1: "act_bind (provision_stored load update now (create c) (new_id s) cleanup run w) (\<lambda>x.
      act_bind (begin_attempt update now (prep k) (?ids (snd x)) (fst (fst x)) (snd (fst x))) (?finish (snd x))) s = (Inr out, s')"
    using e by (simp add: execute_stored_worker_def act_bind_def [of "act_read new_id"] split_def Let_def)
  obtain x1 s1 where 1: "provision_stored load update now (create c) (new_id s) cleanup run w s = (Inr x1, s1)"
    and e2: "act_bind (begin_attempt update now (prep k) (?ids (snd x1)) (fst (fst x1)) (snd (fst x1))) (?finish (snd x1)) s1 = (Inr out, s')"
    by (rule act_bind_InrE [OF e1])
  have h1: "at_hand ?ws n i (fst x1) s1"
    using triple_returns [OF provision_stored_at_hand [OF f(1-3,5) here] f(6) 1] by simp
  obtain x2 s2 where 2: "begin_attempt update now (prep k) (?ids (snd x1)) (fst (fst x1)) (snd (fst x1)) s1 = (Inr x2, s2)"
    and e3: "?finish (snd x1) x2 s2 = (Inr out, s')"
    by (rule act_bind_InrE [OF e2])
  have h2: "at_hand ?ws n i (fst x2) s2" using triple_returns [OF begin_attempt_at_hand [OF here] h1 2] by simp
  obtain answer s3 attempt tr run3 where 3: "prompt_executor c (snd (fst x2)) p k (prep k) s2 = (Inr answer, s3)"
    and 4: "end_attempt update now (snd x2) attempt (fst (fst x2)) (snd (fst x2)) s3 = (Inr (tr, run3), s')"
    and out: "out = \<lparr>wo_created_session_ids = ?ids (snd x1), wo_error = at_error tr, wo_run = run3\<rparr>"
    using e3 by (auto elim!: act_bind_InrE)
  have "ok s2" using h2 by (simp add: at_hand_def session.in_store_def)
  from prompt_quiet [OF this 3] h2 have h3: "at_hand ?ws n i (fst x2) s3" by (simp add: at_hand_def session.in_store_def)
  show "ok s'" "load n s' = Inr (wo_run out)" "executed i ?ws (rn_workers (wo_run out)) (wo_error out)"
    using end_attempt_executed [OF 4 h3 here] by (simp_all add: out)
qed

end

end
