(* ===== verification/Orchestration_Facts.thy ===== *)
theory Orchestration_Facts
  imports Execution_Facts
begin

text \<open>
  The loop over the workers: every plan is persisted, only executable workers are selected, and under the
  fail-fast policy the loop returns, whatever the clients answer.
\<close>

section \<open>A measure of the work left\<close>

definition total_attempts :: "workers \<Rightarrow> nat" where
  "total_attempts ws = (\<Sum>i\<in>dom (map_of ws). attempts_left (the (map_of ws i)))"

text \<open>No worker appears or disappears, and none gets more attempts.\<close>

definition wears :: "workers \<Rightarrow> workers \<Rightarrow> bool" where
  "wears ws ws' \<longleftrightarrow> dom (map_of ws') = dom (map_of ws) \<and>
     (\<forall>i \<in> dom (map_of ws). attempts_left (the (map_of ws' i)) \<le> attempts_left (the (map_of ws i)))"

lemma wears_refl: "wears ws ws"
  by (simp add: wears_def)

lemma wears_trans: "wears ws ws' \<Longrightarrow> wears ws' ws'' \<Longrightarrow> wears ws ws''"
  unfolding wears_def by (metis le_trans)

lemma wears_total: "wears ws ws' \<Longrightarrow> total_attempts ws' \<le> total_attempts ws"
  unfolding wears_def total_attempts_def by (metis sum_mono)

lemma executed_total:
  assumes e: "executed i ws ws' None" and w: "map_of ws i = Some w" "can_execute w"
  shows "total_attempts ws' < total_attempts ws"
proof -
  obtain w' where w': "map_of ws' i = Some w'" "attempts_left w' \<le> retries_left w" and others: "\<forall>j. j \<noteq> i \<longrightarrow> map_of ws' j = map_of ws j"
    using e w by (auto simp: executed_def)
  have dom: "dom (map_of ws') = dom (map_of ws)"
    using w(1) w'(1) others by (auto simp: dom_def)
  have less: "attempts_left w' < attempts_left w" using w'(2) w(2) by (simp add: attempts_left_def)
  show ?thesis
    unfolding total_attempts_def dom
  proof (rule sum_strict_mono_ex1)
    show "\<forall>j\<in>dom (map_of ws). attempts_left (the (map_of ws' j)) \<le> attempts_left (the (map_of ws j))"
    proof
      fix j show "attempts_left (the (map_of ws' j)) \<le> attempts_left (the (map_of ws j))"
        using others w' w(1) less by (cases "j = i") simp_all
    qed
    show "\<exists>j\<in>dom (map_of ws). attempts_left (the (map_of ws' j)) < attempts_left (the (map_of ws j))"
      using w(1) w'(1) less by (intro bexI [of _ i]) auto
  qed (rule finite_dom_map_of)
qed

section \<open>Plans\<close>

text \<open>Workers that the planner cannot tell apart.\<close>

definition alike :: "workers \<Rightarrow> workers \<Rightarrow> bool" where
  "alike ws ws' \<longleftrightarrow> dom (map_of ws') = dom (map_of ws) \<and>
     (\<forall>i w w'. map_of ws i = Some w \<longrightarrow> map_of ws' i = Some w' \<longrightarrow> worker_id w' = worker_id w \<and> can_execute w' = can_execute w)"

lemma alike_refl: "alike ws ws"
  by (simp add: alike_def)

lemma alike_cleanup:
  assumes "map_of ws i = Some w"
  shows "alike (dict_set i (ensure_cleanup w) ws) ws"
  using assms
  by (auto simp: alike_def dom_def ensure_cleanup_def worker_id_def can_execute_def has_prompt_def worker_prompt_def
      worker_lifecycle_def split: if_splits)

lemma planned_step:
  assumes "plan_dependency_ordered_serial_step ws = Inr step"
  obtains a where "analyze_worker_dependencies ws = Inr a" and "ss_blocked_transitions step = blocked_transitions ws (da_blockers a)"
    and "ss_worker_id step = (case da_ready a of [] \<Rightarrow> None | i # _ \<Rightarrow> Some i)"
    and "da_ready a = ready_worker_ids ws (worker_dependency_graph ws) (da_blockers a)"
proof -
  obtain a where "analyze_worker_dependencies ws = Inr a" and "step = \<lparr>ss_worker_id = (case da_ready a of [] \<Rightarrow> None | i # _ \<Rightarrow> Some i),
      ss_blocked_transitions = blocked_transitions ws (da_blockers a)\<rparr>"
    using assms by (auto simp: plan_dependency_ordered_serial_step_def res_bind_Inr_iff)
  moreover from this have "da_ready a = ready_worker_ids ws (worker_dependency_graph ws) (da_blockers a)"
    by (auto simp: analyze_worker_dependencies_def Let_def split: prod.splits if_splits)
  ultimately show ?thesis using that by simp
qed

lemma ready_facts:
  assumes "i \<in> set (ready_worker_ids ws graph blockers)"
  shows "\<exists>w. map_of ws i = Some w \<and> can_execute w" and "map_of blockers i = None"
  using assms by (auto simp: ready_worker_ids_def executable_id_def dict_has_iff_map_of split: option.splits)

definition blocks :: "workers \<Rightarrow> blocker_map \<Rightarrow> worker_transition \<Rightarrow> bool" where
  "blocks ws blockers tr \<longleftrightarrow> wt_name tr = T_DEPENDENCY_BLOCKED \<and> addressed tr \<and>
     wt_worker_id tr \<in> dom (map_of ws) \<and> map_of blockers (wt_worker_id tr) \<noteq> None"

lemma blocked_transition_blocks:
  assumes tr: "tr \<in> set (blocked_transitions ws blockers)" and a: "alike ws vs" and vs: "workers_ok vs"
  shows "blocks vs blockers tr"
proof -
  obtain i w where i: "map_of ws i = Some w" "i \<in> set (map fst blockers)"
    and tr': "tr = dependency_blocked_transition (worker_id_str w) (the (map_of blockers i))"
  proof -
    obtain j where "j \<in> set (filter (\<lambda>i. map_of ws i \<noteq> None) (sort (remdups (map fst blockers))))"
      and j: "tr = dependency_blocked_transition (worker_id_str (the (map_of ws j))) (the (map_of blockers j))"
      using tr unfolding blocked_transitions_def set_map by (rule imageE)
    then have "j \<in> set (map fst blockers)" "map_of ws j \<noteq> None"
      unfolding set_filter set_sort set_remdups by simp_all
    then show thesis using that j by (metis option.exhaust_sel)
  qed
  have "i \<in> dom (map_of vs)" using a i(1) unfolding alike_def by (metis domI)
  then obtain v where v: "map_of vs i = Some v" "worker_id v = worker_id w" using a i(1) unfolding alike_def by blast
  have "worker_id v = JStr i \<and> i \<noteq> []" using vs v(1) by (auto simp: workers_ok_def dest: map_of_SomeD)
  then have "worker_id_str w = i" "i \<noteq> []" using v(2) by (simp_all add: worker_id_str_def)
  moreover have "map_of blockers i \<noteq> None" using i(2) by (simp add: map_of_eq_None_iff)
  ultimately show ?thesis using v(1) by (auto simp: blocks_def tr' addressed_def factories)
qed

lemma apply_blocks:
  assumes a: "apply_worker_transition ws tr = Inr ws'" and b: "blocks ws blockers tr" and ws: "workers_ok ws"
  shows "wears ws ws'" and "j \<noteq> wt_worker_id tr \<Longrightarrow> map_of ws' j = map_of ws j" and "workers_ok ws'"
proof -
  have adr: "addressed tr" and name: "wt_name tr = T_DEPENDENCY_BLOCKED" using b by (simp_all add: blocks_def)
  obtain w where w: "map_of ws (wt_worker_id tr) = Some w" using b by (auto simp: blocks_def)
  obtain u where u: "apply_transition w tr = Inr u" and ws': "ws' = dict_set (wt_worker_id tr) u ws"
    using a by (auto simp: apply_worker_transition_eq [OF adr] res_bind_Inr_iff transition_source_def w)
  have "wf_worker w" using ws w by (auto simp: workers_ok_def dest: map_of_SomeD)
  moreover have "wt_worker_id tr \<noteq> []" using adr by (simp add: addressed_def)
  ultimately have "attempts_left u = 0" by (intro blocked_attempts [OF _ name _ u])
  then show "wears ws ws'" using w by (auto simp: wears_def ws')
  show "j \<noteq> wt_worker_id tr \<Longrightarrow> map_of ws' j = map_of ws j" by (simp add: ws')
  show "workers_ok ws'" by (rule apply_worker_transition_ok [OF ws adr a])
qed

lemma blocks_fold:
  assumes "res_fold apply_worker_transition ws trs = Inr ws'" and "\<forall>tr \<in> set trs. blocks ws blockers tr" and "workers_ok ws"
  shows "wears ws ws' \<and> (\<forall>j. map_of blockers j = None \<longrightarrow> map_of ws' j = map_of ws j)"
  using assms
proof (induction trs arbitrary: ws)
  case (Cons tr trs)
  obtain ws1 where 1: "apply_worker_transition ws tr = Inr ws1" and rest: "res_fold apply_worker_transition ws1 trs = Inr ws'"
    using Cons.prems(1) by (auto simp: res_bind_Inr_iff)
  have b: "blocks ws blockers tr" using Cons.prems(2) by simp
  note f = apply_blocks [OF 1 b Cons.prems(3)]
  have "\<forall>tr \<in> set trs. blocks ws1 blockers tr" using Cons.prems(2) f(1) by (simp add: blocks_def wears_def)
  note ih = Cons.IH [OF rest this f(3)]
  have "map_of ws' j = map_of ws j" if "map_of blockers j = None" for j
  proof -
    have "j \<noteq> wt_worker_id tr" using b that by (auto simp: blocks_def)
    then show ?thesis using f(2) ih that by simp
  qed
  then show ?case using ih f(1) wears_trans by blast
qed (simp add: wears_refl)

context run_persistence
begin

lemma run_name_fields: "run_name run = Inr n' \<Longrightarrow> rn_fields run = rn_fields r \<Longrightarrow> good_run n r \<Longrightarrow> n' = n"
  by (rule good_run_name [of n r]) (simp_all add: run_name_def)

lemma persist_summary_facts:
  assumes p: "persist_run_summary update refresh now run s = Inr (run', s')" and s: "ok s" "load n s = Inr r"
    and same: "rn_fields run = rn_fields r"
  shows "ok s'" and "load n s' = Inr run'" and "rn_workers run' = rn_workers r"
proof -
  obtain n' where n': "run_name run = Inr n'" and u: "update n' (stamped (now s) refresh) s = Inr (run', s')"
    using p by (auto simp: persist_run_summary_def res_bind_Inr_iff)
  have n: "n' = n" by (rule run_name_fields [OF n' same load_good [OF s]])
  note k = keeps_stamped [OF refresh_keeps, of n "now s"] and u = u [unfolded n]
  show "ok s'" "load n s' = Inr run'" by (rule update_ok [OF s(1) k u], rule update_load [OF s(1) k u])
  obtain r1 where "stamped (now s) refresh r = Inr r1" "rn_workers run' = rn_workers r1"
    using update_applies [OF s(1) k u] s(2) by auto
  then show "rn_workers run' = rn_workers r"
    by (auto simp: stamped_def res_bind_Inr_iff set_run_updated_at_def set_run_field_def dest: refresh_same_workers)
qed

end

section \<open>The planning phase\<close>

locale orchestration_store = run_persistence ok load update refresh_orchestration_run_summary now
  for ok :: "'s \<Rightarrow> bool" and load and update and now

context orchestration_store
begin

lemma plan_run_facts:
  assumes p: "plan_run update now run s = (Inr (run', step), s')" and s: "ok s" "load n s = Inr r"
    and same: "rn_fields run = rn_fields r" and alike: "alike (rn_workers run) (rn_workers r)"
  shows "ok s'" and "load n s' = Inr run'" and "wears (rn_workers r) (rn_workers run')"
    and "ss_worker_id step = Some i \<Longrightarrow> \<exists>w. map_of (rn_workers run') i = Some w \<and> can_execute w"
proof -
  have pl: "plan_dependency_ordered_serial_step (rn_workers run) = Inr step"
    and e: "(if ss_blocked_transitions step \<noteq> [] then persist_all update now (ss_blocked_transitions step) run
      else act_update (persist_run_summary update refresh_orchestration_run_summary now run)) s = (Inr run', s')"
    using p by (auto simp: plan_run_def act_bind_Inr_iff)
  obtain a where "analyze_worker_dependencies (rn_workers run) = Inr a"
    and b: "ss_blocked_transitions step = blocked_transitions (rn_workers run) (da_blockers a)"
    and sel: "ss_worker_id step = (case da_ready a of [] \<Rightarrow> None | i # _ \<Rightarrow> Some i)"
    and ready: "da_ready a = ready_worker_ids (rn_workers run) (worker_dependency_graph (rn_workers run)) (da_blockers a)"
    by (rule planned_step [OF pl])
  have good: "good_run n r" by (rule load_good [OF s])
  then have ws: "workers_ok (rn_workers r)" by (simp add: good_run_def wf_run_def)
  have all: "\<forall>tr \<in> set (ss_blocked_transitions step). blocks (rn_workers r) (da_blockers a) tr"
    using blocked_transition_blocks [OF _ alike ws] by (simp add: b)
  have main: "ok s' \<and> load n s' = Inr run' \<and> wears (rn_workers r) (rn_workers run') \<and>
    (\<forall>j. map_of (da_blockers a) j = None \<longrightarrow> map_of (rn_workers run') j = map_of (rn_workers r) j)"
  proof (cases "ss_blocked_transitions step = []")
    case True
    then have "persist_run_summary update refresh_orchestration_run_summary now run s = Inr (run', s')"
      using e by (simp add: act_update_Inr_iff)
    from persist_summary_facts [OF this s same] show ?thesis by (simp add: wears_refl)
  next
    case False
    then obtain vs where ps: "persist_worker_transitions update refresh_orchestration_run_summary now
        (ss_blocked_transitions step) run s = Inr (run', vs, s')"
      using e by (auto simp: persist_all_def act_update_Inr_iff persist_transitions_def res_bind_Inr_iff)
    then obtain n' where n': "run_name run = Inr n'" by (auto simp: persist_worker_transitions_def res_bind_Inr_iff)
    have n: "n' = n" by (rule run_name_fields [OF n' same good])
    have adr: "\<forall>tr \<in> set (ss_blocked_transitions step). addressed tr" using all by (simp add: blocks_def)
    note f = persist_worker_transitions_ok [OF ps s(1) adr n' [unfolded n]]
    have "res_fold apply_worker_transition (rn_workers r) (ss_blocked_transitions step) = Inr (rn_workers run')"
      using f(5) s(2) by auto
    from blocks_fold [OF this all ws] f(1,2) show ?thesis by simp
  qed
  then show "ok s'" "load n s' = Inr run'" "wears (rn_workers r) (rn_workers run')" by blast+
  assume "ss_worker_id step = Some i"
  then have i: "i \<in> set (ready_worker_ids (rn_workers run) (worker_dependency_graph (rn_workers run)) (da_blockers a))"
    using sel ready by (auto split: list.splits)
  obtain w where w: "map_of (rn_workers run) i = Some w" "can_execute w" using ready_facts(1) [OF i] by blast
  have "i \<in> dom (map_of (rn_workers r))" using alike w(1) unfolding alike_def by (metis domI)
  then obtain v where v: "map_of (rn_workers r) i = Some v" by blast
  have "can_execute v" using alike w v by (auto simp: alike_def)
  moreover have "map_of (rn_workers run') i = Some v" using main ready_facts(2) [OF i] v by simp
  ultimately show "\<exists>w. map_of (rn_workers run') i = Some w \<and> can_execute w" by blast
qed

end

section \<open>The loop\<close>

text \<open>The contract of the worker executor.\<close>

locale serial_orchestration = orchestration_store ok load update now
  for ok :: "'s \<Rightarrow> bool" and load and update and now +
  fixes exec :: "('s, 'c, 'k) worker_executor"
  assumes executes: "ok s \<Longrightarrow> load n s = Inr run \<Longrightarrow> map_of (rn_workers run) i = Some w \<Longrightarrow>
    exec c run w p k b s = (Inr out, s') \<Longrightarrow>
    ok s' \<and> load n s' = Inr (wo_run out) \<and> executed i (rn_workers run) (rn_workers (wo_run out)) (wo_error out)"

context serial_orchestration
begin

lemma remembered_alike:
  assumes "remember_in_run i w out created = (run', created')"
  shows "rn_fields run' = rn_fields (wo_run out)" and "alike (rn_workers run') (rn_workers (wo_run out))"
  using assms alike_cleanup alike_refl
  by (auto simp: remember_in_run_def remember_created_worker_sessions_def run_worker_def set_run_worker_def
      dict_set_same split: option.splits prod.splits if_splits)

text \<open>One iteration on an executable worker: the store holds the run that is returned.\<close>

lemma iteration_facts:
  assumes e: "serial_iteration update now exec c k i run sd = (Inr (run', error, step), sd')"
    and s: "ok (fst sd)" "load n (fst sd) = Inr run" and w: "map_of (rn_workers run) i = Some w"
  shows "ok (fst sd')" and "load n (fst sd') = Inr run'"
    and "ss_worker_id step = Some j \<Longrightarrow> \<exists>w. map_of (rn_workers run') j = Some w \<and> can_execute w"
    and "\<exists>ws. executed i (rn_workers run) ws error \<and> wears ws (rn_workers run')"
proof -
  obtain run1 out0 sd1 where 1: "execute_selected_worker exec c k i run sd = (Inr (run1, out0), sd1)"
    and 2: "act_lift (plan_run update now run1) sd1 = (Inr (run', step), sd')" and err: "error = Option.bind out0 wo_error"
    using e by (auto simp: serial_iteration_def act_bind_Inr_iff)
  obtain out s1 where x: "exec c run w (worker_prompt w) k (snd sd \<noteq> None) (fst sd) = (Inr out, s1)"
    and rem: "remember_in_run (worker_id_str w) w out (snd sd) = (run1, snd sd1)" and sd1: "fst sd1 = s1" and out0: "out0 = Some out"
    using 1 by (auto simp: execute_selected_worker_def w act_lift_def split: prod.splits sum.splits)
  note ex = executes [OF s w x]
  have pl: "plan_run update now run1 s1 = (Inr (run', step), fst sd')"
    using 2 by (auto simp: act_lift_def sd1 split: prod.splits)
  note r = remembered_alike [OF rem]
  have s1: "ok s1" "load n s1 = Inr (wo_run out)" using ex by simp_all
  note f = plan_run_facts [OF pl s1 r]
  show "ok (fst sd')" "load n (fst sd') = Inr run'"
    "ss_worker_id step = Some j \<Longrightarrow> \<exists>w. map_of (rn_workers run') j = Some w \<and> can_execute w"
    using f(1,2,4) by blast+
  show "\<exists>ws. executed i (rn_workers run) ws error \<and> wears ws (rn_workers run')"
    using ex f(3) by (intro exI [of _ "rn_workers (wo_run out)"]) (simp add: err out0)
qed

lemma loop_continues:
  assumes "serial_iteration update now exec c k i run sd = (Inr (run', None, step), sd')"
  shows "execute_serial_workers update now exec c k policy first_error (Some i) run sd =
    execute_serial_workers update now exec c k policy first_error (ss_worker_id step) run' sd'"
  by (subst execute_serial_workers.simps) (simp add: assms)

text \<open>Under the fail-fast policy the loop returns.\<close>

lemma fail_fast_returns:
  assumes "ok (fst sd)" and "load n (fst sd) = Inr run"
    and "\<And>i. selected = Some i \<Longrightarrow> \<exists>w. map_of (rn_workers run) i = Some w \<and> can_execute w"
  shows "\<exists>x. execute_serial_workers update now exec c k EXECUTION_POLICY_FAIL_FAST first_error selected run sd = Some x"
  using assms
proof (induction "total_attempts (rn_workers run)" arbitrary: run sd selected first_error rule: less_induct)
  case less
  show ?case
  proof (cases selected)
    case (Some i)
    obtain w where w: "map_of (rn_workers run) i = Some w" "can_execute w" using less.prems(3) [OF Some] by blast
    obtain x sd' where it: "serial_iteration update now exec c k i run sd = (x, sd')" by (rule prod.exhaust)
    show ?thesis
    proof (cases x)
      case (Inr y)
      obtain run' error step where y: "y = (run', error, step)" by (cases y)
      note it = it [unfolded Inr y]
      note f = iteration_facts [OF it less.prems(1,2) w(1)]
      show ?thesis
      proof (cases error)
        case None
        obtain ws where ws: "executed i (rn_workers run) ws None" "wears ws (rn_workers run')" using f(4) None by blast
        have "total_attempts (rn_workers run') < total_attempts (rn_workers run)"
          using executed_total [OF ws(1) w] wears_total [OF ws(2)] by simp
        note hyps = less.hyps [OF this f(1,2), of "ss_worker_id step" first_error]
        have "\<exists>x. execute_serial_workers update now exec c k EXECUTION_POLICY_FAIL_FAST first_error
            (ss_worker_id step) run' sd' = Some x"
          by (rule hyps) (rule f(3))
        then show ?thesis unfolding Some loop_continues [OF it [unfolded None]] .
      next
        case (Some e)
        show ?thesis unfolding \<open>selected = Some i\<close> by (subst execute_serial_workers.simps) (simp add: it Some)
      qed
    next
      case (Inl e)
      show ?thesis unfolding Some by (subst execute_serial_workers.simps) (simp add: it Inl)
    qed
  next
    case None
    show ?thesis unfolding None by (subst execute_serial_workers.simps) simp
  qed
qed

end

section \<open>The model's own executor and store\<close>

sublocale stored_execution \<subseteq> orchestrated: serial_orchestration ok load update now
  "execute_stored_worker load update now create new_id prompt_executor prepare_prompt_id"
  for new_id prepare_prompt_id
  by unfold_locales (auto dest: execution_executed)

text \<open>
  The clients of the file store: the server answers as it likes, and its answers may depend on everything it
  is told, but not on the run files.
\<close>

definition remote_sessions ::
  "('c \<Rightarrow> json \<Rightarrow> json \<Rightarrow> json \<Rightarrow> jdict option \<Rightarrow> json result) \<Rightarrow> 'c \<Rightarrow> 's session_client" where
  "remote_sessions answers client directory agent model metadata s = (answers client directory agent model metadata, s)"

definition remote_prompts ::
  "('c \<Rightarrow> worker_record \<Rightarrow> string option \<Rightarrow> 'k \<Rightarrow> string option \<Rightarrow> (attempt_error + jdict) result) \<Rightarrow> ('s, 'c, 'k) prompt_executor" where
  "remote_prompts replies client w prompt capabilities prompt_id s = (replies client w prompt capabilities prompt_id, s)"

lemma refresh_orchestration_laws:
  "keeps_run n refresh_orchestration_run_summary"
  "refresh_orchestration_run_summary run = Inr run' \<Longrightarrow> rn_workers run' = rn_workers run"
  unfolding refresh_orchestration_run_summary_def by (rule keeps_refresh, erule refresh_workers)

interpretation stored_orchestration: orchestration_store sound_store "load_run pf cwd"
  "\<lambda>name m. update_run pf cwd name m allow" now
  for pf cwd allow now
  by unfold_locales (rule refresh_orchestration_laws, erule refresh_orchestration_laws)

interpretation remote_execution: stored_execution sound_store "load_run pf cwd"
  "\<lambda>name m. update_run pf cwd name m allow" now "remote_sessions answers" "remote_prompts replies"
  for pf cwd allow now answers replies
  by unfold_locales (simp_all add: remote_sessions_def remote_prompts_def)

end
