(* ===== verification/Store_Totality.thy ===== *)
theory Store_Totality
  imports Persistence_Facts
begin

text \<open>
  When the operations of the store return: creating a run under a free name, writing a well-formed run over a
  record that was read, and updating a run that is not fenced. What is written is the run that is returned.
\<close>

section \<open>Writing\<close>

lemma coerced_version_SCHEMA: "\<exists>n. coerced_schema_version SCHEMA_VERSION = Inr n"
  by (simp add: SCHEMA_VERSION_def coerced_schema_version_def caught_int_def int_or_def)

definition migratable :: "(string \<Rightarrow> pyfloat option) \<Rightarrow> json \<Rightarrow> string \<Rightarrow> json option \<Rightarrow> bool" where
  "migratable pf version i old \<longleftrightarrow> (case old of None \<Rightarrow> True | Some v \<Rightarrow> \<exists>d. migrated_persisted_worker_snapshot pf v i version = Inr d)"

lemma storage_returns:
  assumes w: "wf_worker w" and wid: "worker_id w = JStr i" and m: "migratable pf version i old"
  shows "\<exists>d. normalize_worker_record_for_storage pf w i version old = Inr d"
proof -
  have "worker_record_snapshot_fields w i = Inr (snapshot_of w)"
    using map_of_snapshot_of [OF w, of F_id] wid
    by (auto simp: worker_record_snapshot_fields_def to_snapshot_wf [OF w] worker_id_def dict_set_same)
  with m show ?thesis by (cases old) (auto simp: normalize_worker_record_for_storage_def migratable_def)
qed

lemma res_map_returns: "\<forall>x \<in> set xs. \<exists>y. f x = Inr y \<Longrightarrow> \<exists>ys. res_map f xs = Inr ys"
  by (induction xs) auto

lemma write_run_returns:
  assumes run: "good_run name run" "normal_fields (rn_fields run)" and name: "valid_run_name name"
    and p: "\<And>p i. persisted = Some p \<Longrightarrow>
      migratable pf (dict_get (rn_fields run) ''schema_version'') i (persisted_worker (worker_snapshots p) i)"
  shows "\<exists>s'. write_run pf cwd persisted run s = Inr s'"
proof -
  let ?version = "dict_get (rn_fields run) ''schema_version''"
  define old where "old = (case persisted of None \<Rightarrow> [] | Some p \<Rightarrow> worker_snapshots p)"
  have version: "worker_snapshot_schema_version (rn_fields run) = ?version"
    using run(2) by (auto simp: normal_fields_def worker_snapshot_schema_version_def dict_get_def dict_has_iff_map_of)
  have old: "migratable pf ?version i (persisted_worker old i)" for i
    using p by (cases persisted) (simp_all add: old_def persisted_worker_def migratable_def)
  have each: "\<exists>y. (case x of (i, w) \<Rightarrow> res_bind (normalize_worker_record_for_storage pf w i ?version (persisted_worker old i))
      (\<lambda>s. Inr (i, JObj s))) = Inr y" if x: "x \<in> set (rn_workers run)" for x
  proof -
    obtain i w where iw: "x = (i, w)" by (cases x)
    have "wf_worker w" "worker_id w = JStr i"
      using run(1) x by (auto simp: good_run_def wf_run_def workers_ok_def iw)
    from storage_returns [OF this old [of i]] show ?thesis by (auto simp: iw)
  qed
  have "\<exists>vs. res_map (\<lambda>(i, w). res_bind (normalize_worker_record_for_storage pf w i ?version (persisted_worker old i))
      (\<lambda>s. Inr (i, JObj s))) (rn_workers run) = Inr vs"
    by (rule res_map_returns) (use each in blast)
  then obtain vs where vs: "res_map (\<lambda>(i, w). res_bind (normalize_worker_record_for_storage pf w i ?version (persisted_worker old i))
      (\<lambda>s. Inr (i, JObj s))) (rn_workers run) = Inr vs" ..
  have "normalize_run_for_storage pf cwd f persisted run = Inr (dict_set ''workers'' (JObj vs) (rn_fields run))" for f
    unfolding normalize_run_for_storage_def Let_def normal_fields_fixed [OF run(2)] old_def [symmetric]
    by (simp add: version vs)
  moreover have "run_path_of_field (dict_get (rn_fields run) ''name'') = Inr name"
    using run(1) name by (simp add: good_run_def run_named_def run_path_of_field_Inr)
  ultimately show ?thesis by (simp add: write_run_def as_store_error_def)
qed

section \<open>Creating\<close>

definition created_fields :: "string \<Rightarrow> string \<Rightarrow> json \<Rightarrow> json \<Rightarrow> jdict" where
  "created_fields name directory server_url now =
     [(''schema_version'', SCHEMA_VERSION), (''name'', JStr name), (''run_id'', JStr name),
      (''directory'', JStr directory), (''server_url'', server_url), (''status'', JStr DEFAULT_RUN_STATUS),
      (''retry_count'', JInt 0), (''timeout_seconds'', JNull), (''blockers'', JList []), (''output_refs'', JList []),
      (''created_at'', now), (''updated_at'', now)]"

lemma default_status_short: "short_status_json (JStr DEFAULT_RUN_STATUS) = JStr DEFAULT_RUN_STATUS"
  by code_simp

lemma created_normal:
  assumes "name \<noteq> []" and "py_truthy url"
  shows "normal_fields (created_fields name directory url now)" and "normal_fields (new_run_record name directory url now)"
  using assms default_status_short
  by (simp_all add: normal_fields_def created_fields_def new_run_record_def dict_has_def)

lemma normalize_new_run:
  assumes "name \<noteq> []" and "py_truthy url"
  shows "normalize_run pf cwd name (new_run_record name directory url now) =
    Inr \<lparr>rn_fields = created_fields name directory url now, rn_workers = []\<rparr>"
  unfolding normalize_run_def normal_fields_fixed [OF created_normal(2) [OF assms]]
  by (simp add: new_run_record_def run_worker_snapshots_def hydrate_workers_def created_fields_def dict_pop_def)

lemma created_good:
  assumes "name \<noteq> []" and "py_truthy url"
  shows "good_run name \<lparr>rn_fields = created_fields name directory url now, rn_workers = []\<rparr>"
  using coerced_version_SCHEMA
  by (simp add: good_run_def wf_run_def run_named_def readable_def workers_ok_def created_fields_def wf_dict_def dict_has_def)

lemma create_run_returns:
  assumes name: "valid_run_name name" and free: "map_of (rs_files s) name = None" and url: "py_truthy url"
  shows "\<exists>s'. create_run pf cwd name directory url now s =
    Inr (\<lparr>rn_fields = created_fields name directory url now, rn_workers = []\<rparr>, s')"
proof -
  have ne: "name \<noteq> []" using name by (simp add: valid_run_name_def)
  let ?run = "\<lparr>rn_fields = created_fields name directory url now, rn_workers = []\<rparr>"
  have "\<exists>s'. write_run pf cwd None ?run s = Inr s'"
    by (rule write_run_returns [OF created_good [OF ne url] _ name]) (simp_all add: created_normal [OF ne url])
  then show ?thesis
    using name free by (auto simp: create_run_def normalize_for_store_def normalize_new_run [OF ne url] as_store_error_def run_path_def)
qed

section \<open>Updating\<close>

text \<open>A mutator that leaves the resources of the run alone.\<close>

definition same_resources :: "run_record \<Rightarrow> run_record \<Rightarrow> bool" where
  "same_resources r r' \<longleftrightarrow> map_of (rn_fields r') ''resources'' = map_of (rn_fields r) ''resources''"

lemma default_other:
  "k \<noteq> k' \<Longrightarrow> map_of (set_default k v d) k' = map_of d k'" "k \<noteq> k' \<Longrightarrow> map_of (set_if_falsy k v d) k' = map_of d k'"
  by (simp_all add: set_default_def set_if_falsy_def)

lemma base_fields_resources:
  "map_of (normalize_base_fields cwd fallback d) ''resources'' = map_of d ''resources''"
  by (simp add: normalize_base_fields_def Let_def default_other)

lemma normalize_fields_returns:
  assumes n: "normal_fields (rn_fields r)" and same: "same_resources r r1"
  shows "\<exists>d. normalize_run_fields cwd fallback (rn_fields r1) = Inr d"
proof -
  let ?b = "normalize_base_fields cwd fallback (rn_fields r1)"
  have "map_of ?b ''resources'' = map_of (rn_fields r) ''resources''"
    using same by (simp add: same_resources_def base_fields_resources)
  then have "dict_has ?b ''resources'' = dict_has (rn_fields r) ''resources''"
    "dict_get ?b ''resources'' = dict_get (rn_fields r) ''resources''"
    by (simp_all add: dict_has_iff_map_of dict_get_def)
  then have "\<exists>e. normalize_resources fallback ?b = Inr e"
    using n by (auto simp: normalize_resources_def normal_fields_def)
  then show ?thesis by (auto simp: normalize_run_fields_def)
qed

lemma res_map_each: "res_map f xs = Inr ys \<Longrightarrow> x \<in> set xs \<Longrightarrow> \<exists>y. f x = Inr y"
  by (induction xs arbitrary: ys) (auto simp: res_bind_Inr_iff)

lemma hydrated_migratable:
  assumes "hydrate_workers pf version ws = Inr workers" and "coerced_schema_version version' = Inr n"
  shows "migratable pf version' i (persisted_worker ws i)"
proof (cases "persisted_worker ws i")
  case (Some v)
  then have "(i, v) \<in> set ws" by (auto simp: persisted_worker_def split: option.splits if_splits dest: map_of_SomeD)
  then obtain w where "hydrate_worker_record pf v i version = Inr w"
    using res_map_each [OF assms(1) [unfolded hydrate_workers_def], of "(i, v)"] by (auto simp: res_bind_Inr_iff)
  then show ?thesis
    using assms(2) by (auto simp: hydrate_worker_record_def migrated_persisted_worker_snapshot_def res_bind_Inr_iff
        migratable_def Some split: json.splits)
qed (simp add: migratable_def)

lemma update_run_returns:
  assumes s: "sound_store s" and load: "load_run pf cwd name s = Inr r" and fence: "allow \<or> \<not> cleanup_in_progress r"
    and m: "keeps_run name m" "m r = Inr r1" and same: "same_resources r r1"
  shows "\<exists>r' s'. update_run pf cwd name m allow s = Inr (r', s')"
proof -
  obtain d where d: "read_run_data s name = Inr d" and n: "normalize_run pf cwd name d = Inr r"
    using load by (auto simp: load_run_def normalize_for_store_def res_bind_Inr_iff)
  have name: "valid_run_name name" using d by (simp add: read_run_data_Inr)
  have good: "good_run name r" "normal_fields (rn_fields r)" using load_run_good [OF s load] by auto
  have good1: "good_run name r1" using m good(1) unfolding keeps_run_def by blast
  obtain e where e: "normalize_run_fields cwd name (rn_fields r1) = Inr e"
    using normalize_fields_returns [OF good(2) same] by blast
  let ?r' = "\<lparr>rn_fields = e, rn_workers = rn_workers r1\<rparr>"
  have hyd: "normalize_hydrated_run cwd name r1 = Inr ?r'"
    using good1 by (simp add: normalize_hydrated_run_def e to_workers_ok good_run_def wf_run_def)
  have ne: "name \<noteq> []" using name by (simp add: valid_run_name_def)
  have "wf_run r1" using good1 by (simp add: good_run_def)
  note ok' = normalize_hydrated_ok [OF hyd this]
  note kept = normalize_run_fields_kept [OF e]
  have "run_named name ?r'" using kept(1) good1 ne by (simp add: good_run_def run_named_def)
  moreover have "readable ?r'"
    using kept(3) good1 coerced_version_SCHEMA by (auto simp: good_run_def readable_def)
  ultimately have good': "good_run name ?r'" using ok'(1) by (simp add: good_run_def)
  obtain v where v: "coerced_schema_version (dict_get e ''schema_version'') = Inr v"
    using good' by (auto simp: good_run_def readable_def)
  obtain d' ws where ws: "run_worker_snapshots name d' = Inr ws" "normalize_run_fields cwd name d = Inr d'"
      "hydrate_workers pf (worker_snapshot_schema_version d') ws = Inr (rn_workers r)"
    using n by (auto simp: normalize_run_def res_bind_Inr_iff)
  have "dict_get d' ''workers'' = dict_get d ''workers''"
    using normalize_run_fields_frame(1) [OF ws(2), of "''workers''"] by (simp add: run_field_names_def base_field_names_def)
  then have "worker_snapshots d = ws"
    using ws(1) by (auto simp: run_worker_snapshots_def worker_snapshots_def split: json.splits)
  then have "\<exists>s'. write_run pf cwd (Some d) ?r' s = Inr s'"
    by (intro write_run_returns [OF good' _ name])
      (use hydrated_migratable [OF ws(3) v] normalize_run_fields_normal [OF e ne] in auto)
  then show ?thesis
    using load fence m(2)
    by (auto simp: update_run_def d n normalize_for_store_def normalize_hydrated_for_store_def hyd as_store_error_def)
qed

section \<open>Names\<close>

text \<open>A file whose record has another run's name: the update reads the one file and writes the other.\<close>

lemma misnamed_update:
  assumes u: "update_run pf cwd n m allow s = Inr (run', s')" and d: "read_run_data s n = Inr d"
    and k: "dict_get d ''name'' = JStr k" "k \<noteq> []"
    and m: "\<And>r r1. m r = Inr r1 \<Longrightarrow> dict_get (rn_fields r1) ''name'' = dict_get (rn_fields r) ''name''"
  obtains stored where "rs_files s' = dict_set k (StoredValue (JObj stored)) (rs_files s)"
proof -
  obtain run run1 where run: "normalize_run pf cwd n d = Inr run" and run1: "m run = Inr run1"
    and run': "normalize_hydrated_run cwd n run1 = Inr run'" and w: "write_run pf cwd (Some d) run' s = Inr s'"
    using u d by (auto simp: update_run_def res_bind_Inr_iff normalize_for_store_def normalize_hydrated_for_store_def
        split: if_splits)
  obtain e where e: "normalize_run_fields cwd n d = Inr e" "rn_fields run = dict_pop ''workers'' e"
    using run by (auto simp: normalize_run_def res_bind_Inr_iff)
  have "dict_get (rn_fields run) ''name'' = JStr k" using normalize_run_fields_kept(1) [OF e(1)] k by (simp add: e(2))
  then have n1: "dict_get (rn_fields run1) ''name'' = JStr k" using m [OF run1] by simp
  have "normalize_run_fields cwd n (rn_fields run1) = Inr (rn_fields run')"
    using run' by (auto simp: normalize_hydrated_run_def res_bind_Inr_iff)
  from normalize_run_fields_kept(1) [OF this] n1 k have n2: "dict_get (rn_fields run') ''name'' = JStr k" by simp
  obtain stored f path where st: "normalize_run_for_storage pf cwd f (Some d) run' = Inr stored"
    and path: "run_path_of_field (dict_get stored ''name'') = Inr path"
    and s': "s' = s\<lparr>rs_files := dict_set path (StoredValue (JObj stored)) (rs_files s)\<rparr>"
    using w by (auto simp: write_run_def res_bind_Inr_iff)
  obtain g ws where g: "normalize_run_fields cwd f (rn_fields run') = Inr g" "stored = dict_set ''workers'' (JObj ws) g"
    using st by (auto simp: normalize_run_for_storage_def Let_def res_bind_Inr_iff)
  have "dict_get stored ''name'' = JStr k" using normalize_run_fields_kept(1) [OF g(1)] n2 k by (simp add: g(2))
  then have "path = k" using path by (simp add: run_path_of_field_Inr)
  with that s' show thesis by simp
qed

lemma existing_run:
  assumes name: "valid_run_name name" and url: "py_truthy url" and there: "map_of (rs_files s) name \<noteq> None"
  shows "create_run pf cwd name directory url now s =
    Inl (store_error (''run '' @ quoted name @ '' already exists in '' @ rs_root s) ''exists'')"
proof -
  have ne: "name \<noteq> []" using name by (simp add: valid_run_name_def)
  show ?thesis
    using name there
    by (auto simp: create_run_def normalize_for_store_def normalize_new_run [OF ne url] as_store_error_def run_path_def)
qed

end
