(* ===== verification/Start_Facts.thy ===== *)
theory Start_Facts
  imports Orchestration_Facts Store_Totality
begin

text \<open>
  The start of a run, from the request to the outcome: each phase hands the stored run to the next one, so
  that a start under the fail-fast policy returns.
\<close>

section \<open>The request\<close>

lemma ensure_run_worker_good:
  assumes run: "good_run n run" and i: "i \<noteq> []" and e: "ensure_run_worker run i role = Inr (run', w)"
  shows "good_run n run'" and "wf_worker w" and "worker_id w = JStr i"
proof -
  have rw: "wf_run run" using run by (simp add: good_run_def)
  obtain v where v: "existing_or_default run i = Inr v"
    and w: "w = put_field (if py_truthy (wr_slots v F_role) then v else put_field v F_role role) F_id (JStr i)"
    and run': "run' = set_run_worker run i w"
    using e by (auto simp: ensure_run_worker_def res_bind_Inr_iff Let_def)
  have "wf_worker v"
  proof (cases "run_worker run i")
    case None
    then show ?thesis using v i wf_reset_fields [of i] by (simp add: existing_or_default_def default_worker_record_eq)
  next
    case (Some u)
    then have "wf_worker u" using run_worker_ok [OF rw] by blast
    then show ?thesis using v Some by (simp add: existing_or_default_def worker_record_for_mutation_def to_worker_wf)
  qed
  then show wf: "wf_worker w" unfolding w using i by (auto intro!: wf_put_field)
  show id: "worker_id w = JStr i" by (simp add: w worker_id_def)
  show "good_run n run'"
    using run wf_set_run_worker [OF rw i wf id]
    by (simp add: run' good_run_def run_named_def readable_def set_run_worker_def)
qed

lemma set_session_id:
  assumes "set_session w sid agent model = Inr w'"
  shows "worker_id w' = worker_id w"
  using assms by (auto simp: set_session_def res_bind_Inr_iff set_canonical_field_Inr worker_id_def split: if_splits)

lemma keeps_request:
  assumes i: "sq_worker_id q \<noteq> []"
  shows "keeps_run n (apply_dependency_ordered_start_request q)"
proof (rule keeps_runI)
  fix r r' assume r: "good_run n r" and a: "apply_dependency_ordered_start_request q r = Inr r'"
  define r1 where "r1 = (case sq_directory q of None \<Rightarrow> r | Some d \<Rightarrow> set_run_directory d r)"
  define r2 where "r2 = (case sq_server_url q of None \<Rightarrow> r1 | Some u \<Rightarrow> set_run_server_url (JStr u) r1)"
  have "good_run n r1" using r by (simp add: r1_def set_run_directory_def good_set_run_field split: option.split)
  then have r2: "good_run n r2" by (simp add: r2_def set_run_server_url_def good_set_run_field split: option.split)
  have s: "apply_start_session q r2 = Inr r'"
    using a unfolding apply_dependency_ordered_start_request_def Let_def r1_def [symmetric] r2_def [symmetric] .
  show "good_run n r'"
  proof (cases "sq_session_id q = JNull \<and> sq_agent q = JNull \<and> sq_model q = JNull")
    case False
    then obtain r3 w w' where e: "ensure_run_worker r2 (sq_worker_id q) (sq_role q) = Inr (r3, w)"
      and w': "set_session w (if sq_session_id q \<noteq> JNull then sq_session_id q else wr_slots w F_session_id)
        (sq_agent q) (sq_model q) = Inr w'"
      and r': "r' = set_run_worker r3 (sq_worker_id q) w'"
      using s by (auto simp: apply_start_session_def res_bind_Inr_iff)
    note g = ensure_run_worker_good [OF r2 i e]
    have "wf_run r3" using g(1) by (simp add: good_run_def)
    from wf_set_run_worker [OF this i wf_set_session [OF g(2) w']] show ?thesis
      using g(1,3) set_session_id [OF w']
      by (simp add: r' good_run_def run_named_def readable_def set_run_worker_def)
  qed (use s r2 in \<open>simp add: apply_start_session_def\<close>)
qed

section \<open>The phases\<close>

lemma recoveries_addressed:
  assumes "recover_expired_active_attempts of_iso t ws = Inr rs" and "workers_ok ws"
  shows "\<forall>tr \<in> set (map ar_transition rs). addressed tr"
proof (intro ballI)
  fix tr assume "tr \<in> set (map ar_transition rs)"
  then obtain r where r: "r \<in> set rs" and tr: "tr = ar_transition r" by auto
  obtain i w d where w: "map_of ws i = Some w" "timeout_active_attempt w d t = Inr r"
    using r recovered_workers [OF assms(1)] by blast
  have "wf_worker w" using assms(2) w(1) by (auto simp: workers_ok_def dest: map_of_SomeD)
  then show "addressed tr" using recovery_transition [OF w(2)] worker_id_str_nonempty by (simp add: addressed_def tr)
qed

context orchestration_store
begin

lemma recover_run_facts:
  assumes r: "recover_run update now of_iso run s = (Inr (run', e), s')" and s: "ok s" "load n s = Inr run"
  shows "ok s'" and "load n s' = Inr run'"
proof -
  obtain rs where rs: "recover_expired_active_attempts of_iso (now s) (rn_workers run) = Inr rs"
    and rest: "(if rs = [] then act_return (run, None)
      else act_bind (persist_all update now (map ar_transition rs) run) (\<lambda>run'.
        act_return (run', Option.bind (find (\<lambda>r. ar_error r \<noteq> None) rs) ar_error))) s = (Inr (run', e), s')"
    using r by (auto simp: recover_run_def act_bind_Inr_iff)
  have good: "good_run n run" by (rule load_good [OF s])
  have "ok s' \<and> load n s' = Inr run'"
  proof (cases "rs = []")
    case False
    then obtain vs where p: "persist_worker_transitions update refresh_orchestration_run_summary now
        (map ar_transition rs) run s = Inr (run', vs, s')"
      using rest by (auto simp: act_bind_Inr_iff persist_all_def act_update_Inr_iff persist_transitions_def res_bind_Inr_iff)
    then obtain n' where n': "run_name run = Inr n'" by (auto simp: persist_worker_transitions_def res_bind_Inr_iff)
    have n: "n' = n" by (rule good_run_name [OF good n'])
    have adr: "\<forall>tr \<in> set (map ar_transition rs). addressed tr"
      by (rule recoveries_addressed [OF rs]) (use good in \<open>simp add: good_run_def wf_run_def\<close>)
    show ?thesis using persist_worker_transitions_ok(1,2) [OF p s(1) adr n' [unfolded n]] by blast
  qed (use rest s in simp)
  then show "ok s'" "load n s' = Inr run'" by blast+
qed

lemma persist_run_mutation_facts:
  assumes p: "persist_run_mutation update now m run s = Inr (run', s')" and s: "ok s" "load n s = Inr run"
    and m: "\<And>n. keeps_run n m"
  shows "ok s'" and "load n s' = Inr run'" and "\<exists>r1. m run = Inr r1 \<and> rn_workers run' = rn_workers r1"
proof -
  obtain n' where n': "run_name run = Inr n'" and up: "update n' (stamped (now s) m) s = Inr (run', s')"
    using p by (auto simp: persist_run_mutation_def res_bind_Inr_iff)
  have n: "n' = n" by (rule good_run_name [OF load_good [OF s] n'])
  note up = up [unfolded n] and k = keeps_stamped [OF m, of n "now s"]
  show "ok s'" "load n s' = Inr run'" by (rule update_ok [OF s(1) k up], rule update_load [OF s(1) k up])
  obtain r r1 where "load n s = Inr r" "stamped (now s) m r = Inr r1" "rn_workers run' = rn_workers r1"
    using update_applies [OF s(1) k up] by blast
  then show "\<exists>r1. m run = Inr r1 \<and> rn_workers run' = rn_workers r1"
    using s(2) by (auto simp: stamped_def res_bind_Inr_iff set_run_updated_at_def set_run_field_def)
qed

end

lemma keeps_mark_run_active: "keeps_run n mark_run_active"
  by (rule keeps_runI) (auto simp: mark_run_active_def set_run_status_def intro: good_set_run_field)

section \<open>The flow\<close>

text \<open>The service: the executor's contract, and a capability probe that leaves the store alone.\<close>

locale start_service = serial_orchestration ok load update now exec
  for ok :: "'s \<Rightarrow> bool" and load and update and now and exec :: "('s, 'c, 'k) worker_executor" +
  fixes probe :: "('s, 'c, 'k) capability_probe"
  assumes probe_quiet: "ok s \<Longrightarrow> probe run s = (x, s') \<Longrightarrow> ok s' \<and> load n s' = load n s"

context start_service
begin

lemma execute_run_returns:
  assumes s: "ok s" "load n s = Inr run"
    and sel: "\<And>i. ss_worker_id step = Some i \<Longrightarrow> \<exists>w. map_of (rn_workers run) i = Some w \<and> can_execute w"
  shows "execute_run update now probe exec EXECUTION_POLICY_FAIL_FAST cleanup step run s \<noteq> None"
proof -
  let ?created = "(if cleanup then Some [] else None) :: created_map"
  obtain x s1 where x: "probe run s = (x, s1)" by fastforce
  have s1: "ok s1" "load n s1 = Inr run" using probe_quiet [OF s(1) x] s(2) by simp_all
  have probe: "act_lift (probe run) (s, ?created) = (x, (s1, ?created))" by (simp add: act_lift_def x)
  show ?thesis
  proof (cases "\<exists>po. x = Inr po \<and> po_start_error po = None")
    case True
    then obtain po where po: "x = Inr po" "po_start_error po = None" by blast
    show ?thesis
    proof (cases "persist_run_mutation update now mark_run_active run s1")
      case (Inr y)
      obtain run1 s2 where y: "y = (run1, s2)" by (cases y)
      note f = persist_run_mutation_facts [OF Inr [unfolded y] s1 keeps_mark_run_active]
      have ws: "rn_workers run1 = rn_workers run"
        using f(3) by (auto simp: mark_run_active_def set_run_status_def set_run_field_def)
      have "\<exists>x. execute_serial_workers update now exec (po_client po) (po_capabilities po) EXECUTION_POLICY_FAIL_FAST None
          (ss_worker_id step) run1 (s2, ?created) = Some x"
        by (rule fail_fast_returns) (use f(1,2) sel ws in auto)
      then obtain res sd2 where loop: "execute_serial_workers update now exec (po_client po) (po_capabilities po)
          EXECUTION_POLICY_FAIL_FAST None (ss_worker_id step) run1 (s2, ?created) = Some (res, sd2)" by fastforce
      have mark: "act_lift (act_update (persist_run_mutation update now mark_run_active run)) (s1, ?created) =
          (Inr run1, (s2, ?created))" by (simp add: act_lift_def act_update_def Inr y)
      show ?thesis
        unfolding execute_run_def Let_def probe [unfolded po(1)]
        by (simp add: po(2) mark loop split: sum.split) (metis prod_cases3)
    next
      case (Inl e)
      have "act_lift (act_update (persist_run_mutation update now mark_run_active run)) (s1, ?created) =
          (Inl e, (s1, ?created))" by (simp add: act_lift_def act_update_def Inl)
      then show ?thesis unfolding execute_run_def Let_def probe [unfolded po(1)] by (simp add: po(2))
    qed
  next
    case False
    then show ?thesis
      unfolding execute_run_def Let_def probe
      by (auto split: sum.split option.split) (metis prod_cases3)+
  qed
qed

lemma start_flow_returns:
  assumes s: "ok s" "load n s = Inr run"
  shows "start_flow update now of_iso probe exec sessions EXECUTION_POLICY_FAIL_FAST cleanup run s \<noteq> None"
proof -
  obtain x s1 where x: "recover_run update now of_iso run s = (x, s1)" by fastforce
  show ?thesis
  proof (cases x)
    case (Inr y)
    obtain run1 e where y: "y = (run1, e)" by (cases y)
    note f = recover_run_facts [OF x [unfolded Inr y] s]
    obtain z s2 where z: "plan_run update now run1 s1 = (z, s2)" by fastforce
    show ?thesis
    proof (cases z)
      fix u assume zu: "z = Inr u"
      obtain run2 step where u: "u = (run2, step)" by (cases u)
      note g = plan_run_facts [OF z [unfolded zu u] f refl alike_refl]
      have "execute_run update now probe exec EXECUTION_POLICY_FAIL_FAST cleanup step run2 s2 \<noteq> None"
        by (rule execute_run_returns [OF g(1,2)]) (rule g(4))
      then show ?thesis by (auto simp: start_flow_def x Inr y z zu u split: option.splits prod.splits sum.splits)
    qed (simp add: start_flow_def x Inr y z)
  qed (simp add: start_flow_def x)
qed

lemma start_run_returns:
  assumes s: "ok s" and q: "sq_worker_id q \<noteq> []"
    and policy: "normalize_execution_policy (sq_execution_policy q) = Inr EXECUTION_POLICY_FAIL_FAST"
  shows "start_run load update now of_iso probe exec sessions q s \<noteq> None"
proof (cases "load (sq_name q) s")
  case (Inr run)
  show ?thesis
  proof (cases "persist_run_mutation update now (apply_dependency_ordered_start_request q) run s")
    case p: (Inr y)
    obtain run1 s1 where y: "y = (run1, s1)" by (cases y)
    note f = persist_run_mutation_facts [OF p [unfolded y] s Inr keeps_request [OF q]]
    show ?thesis
      using start_flow_returns [OF f(1,2)] by (simp add: start_run_def Inr policy act_update_def p y)
  qed (simp add: start_run_def Inr policy act_update_def)
qed (simp add: start_run_def)

end

section \<open>The service over the file store\<close>

text \<open>The probe of a server: what it finds does not depend on the run files.\<close>

definition remote_probe :: "(run_record \<Rightarrow> ('c, 'k) probe_outcome result) \<Rightarrow> ('s, 'c, 'k) capability_probe" where
  "remote_probe finds run s = (finds run, s)"

interpretation remote_service: start_service sound_store "load_run pf cwd"
  "\<lambda>name m. update_run pf cwd name m allow" now
  "execute_stored_worker (load_run pf cwd) (\<lambda>name m. update_run pf cwd name m allow) now
     (remote_sessions answers) new_id (remote_prompts replies) prepare_prompt_id"
  "remote_probe finds"
  for pf cwd allow now answers new_id replies prepare_prompt_id finds
  by unfold_locales (simp_all add: remote_probe_def)

section \<open>An API failure after a worker has finished\<close>

text \<open>Transitions to failed are refused by a finished worker, and with it the whole update.\<close>

definition fails :: "worker_transition \<Rightarrow> bool" where
  "fails tr \<longleftrightarrow> addressed tr \<and> (\<exists>p. require_transition_payload tr = Inr p \<and> payload_name p = T_FAILED)"

lemma fails_outcome:
  assumes tr: "fails tr" and ws: "workers_ok ws"
  shows "(\<exists>u. apply_worker_transition ws tr = Inr (dict_set (wt_worker_id tr) u ws)) \<or>
    (\<exists>msg. apply_worker_transition ws tr = Inl (WorkerTransitionError msg))"
proof -
  obtain p where p: "addressed tr" "require_transition_payload tr = Inr p" "payload_name p = T_FAILED"
    using tr by (auto simp: fails_def)
  have wid: "wt_worker_id tr \<noteq> []" and ns: "wt_name tr \<noteq> T_SNAPSHOT_APPLIED" using p(1) by (simp_all add: addressed_def)
  note u = transition_source_ok(1) [OF ws p(1)]
  obtain b where b: "worker_transition_is_legal (transition_source ws tr) tr = Inr b" using legal_total [OF ns] by blast
  show ?thesis
    unfolding apply_worker_transition_eq [OF p(1)]
    using legal_apply [OF u wid p(2)] illegal_apply [OF u wid p(2)] b p(3) by (cases b) auto
qed

lemma finished_worker_refuses:
  assumes tr: "fails tr" "wt_worker_id tr = i" and v: "map_of ws i = Some v" "worker_lifecycle v = Some l" "l \<in> final_states"
    and ws: "workers_ok ws"
  shows "\<exists>msg. apply_worker_transition ws tr = Inl (WorkerTransitionError msg)"
proof -
  obtain p where p: "addressed tr" "require_transition_payload tr = Inr p" "payload_name p = T_FAILED"
    using tr by (auto simp: fails_def)
  have wf: "wf_worker v" using ws v(1) by (auto simp: workers_ok_def dest: map_of_SomeD)
  have "wt_name tr = T_FAILED" using p(2,3) payload_name_of by fastforce
  then have "worker_transition_is_legal v tr = Inr False" by (intro final_illegal [OF wf v(2,3)]) simp
  moreover have "wt_worker_id tr \<noteq> []" using p(1) by (simp add: addressed_def)
  ultimately have "\<exists>msg. apply_transition v tr = Inl (WorkerTransitionError msg)"
    by (intro illegal_apply [OF wf _ p(2)]) (simp_all add: p(3))
  then show ?thesis by (auto simp: apply_worker_transition_eq [OF p(1)] transition_source_def tr(2) v(1))
qed

lemma refused_batch:
  assumes "\<forall>tr \<in> set trs. fails tr" and "workers_ok ws" and "map_of ws i = Some v"
    and v: "worker_lifecycle v = Some l" "l \<in> final_states" and "tr \<in> set trs" and tr: "wt_worker_id tr = i"
  shows "\<exists>msg. res_fold apply_worker_transition ws trs = Inl (WorkerTransitionError msg)"
  using assms(1-3,6)
proof (induction trs arbitrary: ws)
  case (Cons t ts)
  have t: "fails t" using Cons.prems(1) by simp
  show ?case
  proof (cases "wt_worker_id t = i")
    case True
    with finished_worker_refuses [OF t True Cons.prems(3) v Cons.prems(2)] show ?thesis by auto
  next
    case False
    then have "tr \<in> set ts" using Cons.prems(4) tr by auto
    have IH: "\<exists>msg. res_fold apply_worker_transition ws' ts = Inl (WorkerTransitionError msg)"
      if "apply_worker_transition ws t = Inr ws'" "ws' = dict_set (wt_worker_id t) u ws" for ws' u
    proof (rule Cons.IH)
      show "workers_ok ws'" using t by (intro apply_worker_transition_ok [OF Cons.prems(2) _ that(1)]) (simp add: fails_def)
      show "map_of ws' i = Some v" using False Cons.prems(3) by (simp add: that(2))
    qed (use Cons.prems(1) \<open>tr \<in> set ts\<close> in auto)
    from fails_outcome [OF t Cons.prems(2)] IH show ?thesis by auto
  qed
qed simp

lemma res_map_set: "res_map f xs = Inr ys \<Longrightarrow> y \<in> set ys \<longleftrightarrow> (\<exists>x \<in> set xs. f x = Inr y)"
  by (induction xs arbitrary: ys) (auto simp: res_bind_Inr_iff)

lemma pending_transition:
  assumes run: "good_run n run" and conf: "\<forall>(j, u) \<in> set (rn_workers run). retry_configured u"
    and w: "map_of (rn_workers run) i = Some w" "can_execute w"
  obtains trs tr where "mark_orchestration_start_failed (pending_prompted_workers (rn_workers run)) text = Inr trs"
    and "\<forall>tr \<in> set trs. fails tr" and "tr \<in> set trs" and "wt_worker_id tr = i"
proof -
  let ?f = "\<lambda>w. mark_worker_failed w ''api'' text False []"
  let ?ws = "pending_prompted_workers (rn_workers run)"
  have ok: "workers_ok (rn_workers run)" using run by (simp add: good_run_def wf_run_def)
  have pend: "\<exists>j. map_of (rn_workers run) j = Some u" if "u \<in> set ?ws" for u
    using that by (auto simp: pending_prompted_workers_def pending_prompted_worker_ids_def split: option.splits)
  have each: "\<exists>tr. ?f u = Inr tr \<and> fails tr \<and> wt_worker_id tr = worker_id_str u" if u: "u \<in> set ?ws" for u
  proof -
    obtain j where j: "(j, u) \<in> set (rn_workers run)" using pend [OF u] map_of_SomeD by fast
    then have wf: "wf_worker u" and "retry_configured u" using ok conf by (auto simp: workers_ok_def)
    obtain b where "retry_available u (JStr ''api'') = Inr b" by (rule retry_available_category [OF \<open>retry_configured u\<close>])
    then show ?thesis
      by (simp add: mark_worker_failed_def fails_def addressed_def factories make_transition_def worker_id_str_nonempty [OF wf]
          require_transition_payload_def)
  qed
  obtain trs where trs: "mark_orchestration_start_failed ?ws text = Inr trs"
    unfolding mark_orchestration_start_failed_def using each res_map_returns [of ?ws ?f] by blast
  note made = res_map_set [OF trs [unfolded mark_orchestration_start_failed_def]]
  have "i \<in> set (map fst (rn_workers run))" using w(1) by (auto dest: map_of_SomeD intro: image_eqI [of _ _ "(i, w)"])
  then have "w \<in> set ?ws"
    using w by (auto simp: pending_prompted_workers_def pending_prompted_worker_ids_def intro!: image_eqI [of _ _ i])
  then obtain tr where tr: "tr \<in> set trs" "wt_worker_id tr = worker_id_str w" using each made by metis
  have "worker_id w = JStr i" using ok w(1) by (auto simp: workers_ok_def dest: map_of_SomeD)
  then have "wt_worker_id tr = i" using tr(2) by (simp add: worker_id_str_def)
  moreover have "\<forall>tr \<in> set trs. fails tr" using each made by (metis Inr_inject)
  ultimately show thesis using that [OF trs] tr(1) by blast
qed

text \<open>
  The run in hand is from before the loop: its pending workers are marked as failed. One of them has finished
  since, so the update raises, and no worker is marked.
\<close>

lemma stale_api_failure:
  assumes s: "sound_store s" and load: "load_run pf cwd n s = Inr r" and fence: "\<not> cleanup_in_progress r"
    and run: "good_run n run" and conf: "\<forall>(j, u) \<in> set (rn_workers run). retry_configured u"
    and w: "map_of (rn_workers run) i = Some w" "can_execute w"
    and v: "map_of (rn_workers r) i = Some v" "worker_lifecycle v = Some l" "l \<in> final_states"
    and e: "api_error e"
  shows "\<exists>msg. api_failure_result (\<lambda>name m. update_run pf cwd name m False) now run client e (s, created) =
    (Inl (WorkerTransitionError msg), (s, created))"
proof -
  obtain trs tr where trs: "mark_orchestration_start_failed (pending_prompted_workers (rn_workers run)) (error_text e) = Inr trs"
    and f: "\<forall>tr \<in> set trs. fails tr" and tr: "tr \<in> set trs" "wt_worker_id tr = i"
    by (rule pending_transition [OF run conf w])
  have "workers_ok (rn_workers r)" using load_run_good(1) [OF s load] by (simp add: good_run_def wf_run_def)
  from refused_batch [OF f this v tr] obtain msg
    where refused: "res_fold apply_worker_transition (rn_workers r) trs = Inl (WorkerTransitionError msg)" by blast
  obtain d where d: "read_run_data s n = Inr d" "normalize_for_store pf cwd n d = Inr r"
    using load by (auto simp: load_run_def res_bind_Inr_iff)
  then have "valid_run_name n" by (simp add: read_run_data_Inr)
  then have "run_name run = Inr n"
    using run by (auto simp: run_name_def good_run_def run_named_def dict_get_def run_path_of_field_def run_path_def split: option.splits)
  then have "persist_all (\<lambda>name m. update_run pf cwd name m False) now trs run s = (Inl (WorkerTransitionError msg), s)"
    by (simp add: persist_all_def act_update_def persist_transitions_def persist_worker_transitions_def update_run_def d fence
        stamped_def apply_transitions_def refused)
  then show ?thesis
    by (simp add: api_failure_result_def e mark_prompted_workers_failed_def trs act_bind_def act_lift_def)
qed

end
