(* ===== verification/Store_Execution.thy ===== *)
theory Store_Execution
  imports Start_Facts
begin

text \<open>
  An execution over the store returns: every transition of the executor is accepted by the store, as long as
  the run is not fenced by a cleanup. With it, what a server that always times out does to a start.
\<close>

section \<open>What an attempt leaves alone\<close>

text \<open>The session of the worker stays, and its last failure is not declared final.\<close>

definition session_kept :: "worker_record \<Rightarrow> worker_record \<Rightarrow> bool" where
  "session_kept w w' \<longleftrightarrow> wr_slots w' F_session_id = wr_slots w F_session_id \<and>
     (wr_slots w' F_failure_retryable = wr_slots w F_failure_retryable \<or> wr_slots w' F_failure_retryable = JNull)"

lemma session_kept_trans: "session_kept w w' \<Longrightarrow> session_kept w' w'' \<Longrightarrow> session_kept w w''"
  by (auto simp: session_kept_def)

fun keeps_session :: "worker_record \<Rightarrow> transition_payload \<Rightarrow> bool" where
  "keeps_session w (P_Provisioned sid agent model) \<longleftrightarrow> sid = wr_slots w F_session_id"
| "keeps_session w (P_Active started clear) \<longleftrightarrow> True"
| "keeps_session w (P_AttemptStarted attempt) \<longleftrightarrow> True"
| "keeps_session w (P_TimedOut reason status t available manual started) \<longleftrightarrow> True"
| "keeps_session w _ \<longleftrightarrow> False"

lemma effect_session:
  "effect w S l w' \<Longrightarrow> F_session_id \<notin> S \<Longrightarrow> F_failure_retryable \<notin> S \<Longrightarrow> session_kept w w'"
  by (simp add: effect_def session_kept_def)

lemma active_session:
  assumes "wf_worker w" and "wt_worker_id tr \<noteq> []" and "reduce_active_transition w tr (Some t) st cl = Inr w'"
  shows "session_kept w w'"
  using assms
  by (simp add: reduce_active_transition_def removable_fields_eq set_canonical_field_def)
    (auto simp: session_kept_def set_canonical_field_def split: if_splits option.splits)

lemma timed_out_session:
  assumes "wf_worker w" and "wt_worker_id tr \<noteq> []"
    and "reduce_timed_out_transition w tr (Some t) r status tat man st = Inr w'"
  shows "session_kept w w'"
  using assms
  by (simp add: reduce_timed_out_transition_def set_canonical_field_def)
    (auto simp: session_kept_def set_canonical_field_def split: if_splits option.splits)

lemma provisioned_session:
  assumes "wf_worker w" and "wt_worker_id tr \<noteq> []"
    and "reduce_provisioned_transition w tr (wr_slots w F_session_id) agent model = Inr w'"
  shows "session_kept w w'"
  using assms
  by (simp add: set_canonical_field_def)
    (auto simp: session_kept_def set_canonical_field_def split: if_splits option.splits)

lemma apply_keeps_session:
  assumes wf: "wf_worker w" and wid: "wt_worker_id tr \<noteq> []" and p: "require_transition_payload tr = Inr p" "keeps_session w p"
    and na: "\<not> accepted_abort w" and app: "apply_transition w tr = Inr w'"
  shows "session_kept w w'"
proof -
  have ns: "wt_name tr \<noteq> T_SNAPSHOT_APPLIED" using p payload_name_of [OF p(1)] by (cases p) auto
  obtain w1 where red: "reduce_worker_transition_payload w tr = Inr w1"
    and fin: "effect w1 {F_attempts} (worker_lifecycle w1) w'"
    by (rule public_apply_reduce [OF wf wid ns app])
  obtain target where target: "worker_transition_target_lifecycle_state tr = Inr target"
    and sr: "spec_reducer w tr target p = Inr w1"
    using red na by (auto simp: reduce_worker_transition_payload_def p(1) res_bind_Inr_iff accepted_abort_terminal_invariant_def)
  have "session_kept w w1"
  proof (cases p)
    case (P_Active st cl)
    then have "target = Some Active_Wait" using target payload_resolver [OF p(1)] by simp
    then show ?thesis using sr P_Active active_session [OF wf wid] by simp
  next
    case (P_TimedOut r status t a m st)
    then obtain l where "target = Some l" using target payload_resolver [OF p(1)] by (auto simp: res_bind_Inr_iff)
    then show ?thesis using sr P_TimedOut timed_out_session [OF wf wid] by simp
  next
    case (P_AttemptStarted a)
    obtain w2 where "reduce_attempt_started_transition w a = Inr w2"
      and "effect w {F_attempts, F_prompt_ids} (worker_lifecycle w) w2"
      using reduce_attempt_started_effect [OF wf, of a] by blast
    then show ?thesis using sr P_AttemptStarted by (auto intro: effect_session)
  qed (use sr p(2) provisioned_session [OF wf wid] in auto)
  moreover have "session_kept w1 w'" by (rule effect_session [OF fin]) simp_all
  ultimately show ?thesis by (rule session_kept_trans)
qed

section \<open>A worker that may be retried for ever\<close>

text \<open>It has a prompt, a session and a retry budget for timeouts, which no timeout uses up.\<close>

definition tireless :: "worker_record \<Rightarrow> bool" where
  "tireless w \<longleftrightarrow> retry_configured w \<and> has_prompt w \<and> wr_slots w F_timeout_policy = JStr ''timeout'' \<and>
     retry_available w (JStr ''timeout'') = Inr True \<and> py_truthy (wr_slots w F_session_id) \<and>
     wr_slots w F_dependencies = JList []"

lemma retry_available_same:
  assumes "wr_slots w' F_failure_retryable \<noteq> JBool False" and "wr_slots w F_failure_retryable \<noteq> JBool False"
    and "wr_slots w' F_retryable_failures = wr_slots w F_retryable_failures" "wr_slots w' F_retry_limit = wr_slots w F_retry_limit"
    and "wr_slots w' F_retry_count = wr_slots w F_retry_count" and "c \<noteq> JNull"
  shows "retry_available w' c = retry_available w c"
  using assms by (simp only: retry_available_def if_False if_True not_False_eq_True)

lemma tireless_step:
  assumes t: "tireless w" and wid: "wt_worker_id tr \<noteq> []" and p: "require_transition_payload tr = Inr p" "keeps_session w p"
    and na: "\<not> accepted_abort w" and app: "apply_transition w tr = Inr w'"
  shows "tireless w'"
proof -
  have wf: "wf_worker w" and rc: "retry_configured w" using t by (simp_all add: tireless_def retry_configured_def)
  have ns: "wt_name tr \<noteq> T_SNAPSHOT_APPLIED" using p payload_name_of [OF p(1)] by (cases p) auto
  have conf: "wr_slots w' g = wr_slots w g"
    if "g \<in> {F_prompt, F_timeout_policy, F_dependencies, F_retryable_failures, F_retry_limit}" for g
    using public_apply_configuration [OF wf wid ns app, of g] that by (auto simp: configuration_fields_def)
  have count: "wr_slots w' F_retry_count = wr_slots w F_retry_count"
    using public_retry_count(2) [OF wf wid ns app] p by auto
  have kept: "session_kept w w'" by (rule apply_keeps_session [OF wf wid p na app])
  have "wr_slots w F_failure_retryable \<noteq> JBool False" using t by (auto simp: tireless_def retry_available_def)
  moreover from this have "wr_slots w' F_failure_retryable \<noteq> JBool False" using kept by (auto simp: session_kept_def)
  ultimately have "retry_available w' (JStr ''timeout'') = retry_available w (JStr ''timeout'')"
    by (intro retry_available_same) (simp_all add: conf count)
  then show ?thesis
    using t kept conf public_configured [OF rc wid ns app]
    by (simp add: tireless_def session_kept_def has_prompt_def worker_prompt_def)
qed

section \<open>A run of one worker\<close>

lemma one_worker_analysis:
  assumes "wr_slots w F_dependencies = JList []"
  shows "\<exists>a. analyze_worker_dependencies [(i, w)] = Inr a \<and> da_blockers a = [] \<and>
    da_ready a = (if can_execute w then [i] else [])"
proof -
  let ?ws = "[(i, w)]"
  have g: "worker_dependency_graph ?ws = [(i, [])]"
    using assms by (simp add: worker_dependency_graph_def worker_dependencies_def)
  have c: "snd (dependency_order_and_cycles ?ws [(i, [])]) = []"
    by (simp add: dependency_order_and_cycles_def sorted_ids_def dfs_start_def Let_def graph_dependencies_def)
  have d: "graph_dependencies [(i, [])] i = []" by (simp add: graph_dependencies_def)
  have "invalid_graph_blocker_seeds ?ws [(i, [])] [] = []" and "dependency_blocker_seeds ?ws [(i, [])] = []"
    by (simp_all add: invalid_graph_blocker_seeds_def dependency_blocker_seeds_def sorted_ids_def cycle_blockers_def
        not_runnable_blockers_def failed_dependency_blockers_def d)
  moreover have "newly_blocked ?ws [(i, [])] [] = []"
    by (simp add: newly_blocked_def sorted_ids_def propagated_blockers_def d)
  ultimately have "propagate_blocker_maps ?ws [(i, [])]
      (invalid_graph_blocker_seeds ?ws [(i, [])] [], dependency_blocker_seeds ?ws [(i, [])]) = ([], [])"
    by (simp add: propagate_blocker_maps.simps [of _ _ "[]" "[]"])
  then show ?thesis
    using c by (auto simp: analyze_worker_dependencies_def Let_def g merge_blocker_maps_def ready_worker_ids_def sorted_ids_def
        executable_id_def dependencies_done_def d dict_has_def split: prod.split)
qed

lemma one_worker_refresh:
  assumes "rn_workers run = [(i, w)]" and "wr_slots w F_dependencies = JList []"
  obtains run' where "refresh_orchestration_run_summary run = Inr run'" and "rn_workers run' = rn_workers run"
    and "\<And>k. k \<notin> {''output_refs'', ''status''} \<Longrightarrow> map_of (rn_fields run') k = map_of (rn_fields run) k"
proof -
  obtain a where a: "analyze_worker_dependencies [(i, w)] = Inr a" using one_worker_analysis [OF assms(2)] by blast
  have "\<exists>run'. refresh_orchestration_run_summary run = Inr run' \<and> rn_workers run' = rn_workers run \<and>
      (\<forall>k. k \<notin> {''output_refs'', ''status''} \<longrightarrow> map_of (rn_fields run') k = map_of (rn_fields run) k)"
    using a by (auto simp: refresh_orchestration_run_summary_def refresh_run_summary_def worker_output_refs_in_dependency_order_def
        workers_in_dependency_order_def assms(1) Let_def set_run_field_def split: option.split)
  with that show thesis by blast
qed

text \<open>A prompt that always times out, however it is reported.\<close>

definition always_times_out ::
  "('c \<Rightarrow> worker_record \<Rightarrow> string option \<Rightarrow> 'k \<Rightarrow> string option \<Rightarrow> (attempt_error + jdict) result) \<Rightarrow> bool" where
  "always_times_out replies \<longleftrightarrow> (\<forall>c w prompt k pid. \<exists>err r q. replies c w prompt k pid = Inr (Inl err) \<and>
     classify_worker_attempt_exception w err = Some (AttemptFailed ''timeout'' r q))"

section \<open>A store whose updates return\<close>

text \<open>
  An update of a run without a cleanup in progress returns when its mutator returns and leaves the resources alone,
  and it starts no cleanup of its own.
\<close>

locale live_store = orchestration_store ok load update now
  for ok :: "'s \<Rightarrow> bool" and load and update and now +
  assumes named: "ok s \<Longrightarrow> load n s = Inr r \<Longrightarrow> valid_run_name n"
    and update_returns: "ok s \<Longrightarrow> load n s = Inr r \<Longrightarrow> \<not> cleanup_in_progress r \<Longrightarrow> keeps_run n m \<Longrightarrow>
      m r = Inr r1 \<Longrightarrow> same_resources r r1 \<Longrightarrow> \<not> cleanup_in_progress r1 \<Longrightarrow>
      \<exists>r' s'. update n m s = Inr (r', s') \<and> \<not> cleanup_in_progress r'"

context live_store
begin

definition alone :: "string \<Rightarrow> string \<Rightarrow> worker_record \<Rightarrow> run_record \<Rightarrow> 's \<Rightarrow> bool" where
  "alone n i w run s \<longleftrightarrow> ok s \<and> load n s = Inr run \<and> \<not> cleanup_in_progress run \<and> rn_workers run = [(i, w)] \<and>
     wr_slots w F_dependencies = JList []"

lemma alone_worker:
  assumes "alone n i w run s"
  shows "wf_worker w" and "worker_id_str w = i" and "i \<noteq> []" and "run_name run = Inr n"
proof -
  have good: "good_run n run" and name: "valid_run_name n"
    using assms load_good named by (auto simp: alone_def)
  then have "wf_worker w \<and> worker_id w = JStr i \<and> i \<noteq> []"
    using assms by (auto simp: alone_def good_run_def wf_run_def workers_ok_def)
  then show "wf_worker w" "worker_id_str w = i" "i \<noteq> []" by (simp_all add: worker_id_str_def)
  show "run_name run = Inr n"
    using good name by (auto simp: run_name_def good_run_def run_named_def dict_get_def run_path_of_field_def run_path_def
        split: option.splits)
qed

lemma update_alone:
  assumes a: "alone n i w run s" and k: "keeps_run n m" and m: "m run = Inr r1"
    and fields: "\<And>k. k \<in> {''resources'', ''resource_cleanup''} \<Longrightarrow> map_of (rn_fields r1) k = map_of (rn_fields run) k"
    and ws: "rn_workers r1 = [(i, u)]" "wr_slots u F_dependencies = JList []"
  obtains run' s' where "update n m s = Inr (run', s')" and "alone n i u run' s'"
proof -
  have s: "ok s" "load n s = Inr run" "\<not> cleanup_in_progress run" using a by (simp_all add: alone_def)
  have open1: "\<not> cleanup_in_progress r1"
    using s(3) fields [of "''resource_cleanup''"] by (simp add: cleanup_in_progress_def dict_get_def)
  have "same_resources run r1" using fields [of "''resources''"] by (simp add: same_resources_def)
  from update_returns [OF s k m this open1] obtain run' s' where u: "update n m s = Inr (run', s')"
    and o: "\<not> cleanup_in_progress run'" by blast
  obtain r r1' where "load n s = Inr r" "m r = Inr r1'" "rn_workers run' = rn_workers r1'"
    using update_applies [OF s(1) k u] by blast
  then have "rn_workers run' = [(i, u)]" using s(2) m ws(1) by simp
  then have "alone n i u run' s'"
    using update_ok [OF s(1) k u] update_load [OF s(1) k u] o ws(2) by (simp add: alone_def)
  with that u show thesis by blast
qed

lemma apply_alone:
  assumes a: "alone n i w run s" and tr: "addressed tr" "wt_worker_id tr = i"
    and app: "apply_transition w tr = Inr u"
  obtains run' s' where "apply_stored update now run v tr s = (Inr (run', u), s')" and "alone n i u run' s'"
proof -
  note w = alone_worker [OF a]
  have ws: "rn_workers run = [(i, w)]" and deps: "wr_slots w F_dependencies = JList []" using a by (simp_all add: alone_def)
  let ?m = "stamped (now s) (\<lambda>latest. res_bind (apply_transitions [tr] latest) refresh_orchestration_run_summary)"
  have ns: "wt_name tr \<noteq> T_SNAPSHOT_APPLIED" and wid: "wt_worker_id tr \<noteq> []" using tr(1) by (simp_all add: addressed_def)
  have deps': "wr_slots u F_dependencies = JList []"
    using public_apply_configuration [OF w(1) wid ns app, of F_dependencies] deps by (simp add: configuration_fields_def)
  have applied: "apply_transitions [tr] run = Inr (run\<lparr>rn_workers := [(i, u)]\<rparr>)"
    by (simp add: apply_transitions_def apply_worker_transition_eq [OF tr(1)] transition_source_def ws tr(2) app dict_set_def)
  obtain r0 where r0: "refresh_orchestration_run_summary (run\<lparr>rn_workers := [(i, u)]\<rparr>) = Inr r0"
    "rn_workers r0 = [(i, u)]"
    "\<And>k. k \<notin> {''output_refs'', ''status''} \<Longrightarrow> map_of (rn_fields r0) k = map_of (rn_fields run) k"
    by (rule one_worker_refresh [of "run\<lparr>rn_workers := [(i, u)]\<rparr>" i u]) (simp_all add: deps')
  have m: "?m run = Inr (set_run_updated_at (now s) r0)" by (simp add: stamped_def applied r0(1))
  have k: "keeps_run n ?m" by (rule transitions_keep) (simp add: tr(1))
  obtain run' s' where u: "update n ?m s = Inr (run', s')" and a': "alone n i u run' s'"
  proof (rule update_alone [OF a k m])
    show "map_of (rn_fields (set_run_updated_at (now s) r0)) k = map_of (rn_fields run) k"
      if "k \<in> {''resources'', ''resource_cleanup''}" for k
      using that r0(3) [of k] by (auto simp: set_run_updated_at_def set_run_field_def)
    show "rn_workers (set_run_updated_at (now s) r0) = [(i, u)]"
      by (simp add: set_run_updated_at_def set_run_field_def r0(2))
  qed (simp_all add: deps')
  have "rn_workers run' = [(i, u)]" using a' by (simp add: alone_def)
  then have "apply_stored update now run v tr s = (Inr (run', u), s')"
    by (simp add: apply_stored_def act_update_def persist_worker_execution_transition_def persist_worker_transition_def
        persist_worker_transitions_def w(4) u persisted_workers_def run_worker_def tr(2) List.map_filter_simps)
  with that a' show thesis by blast
qed

text \<open>An accepted transition of the attempt keeps the worker tireless.\<close>

lemma tireless_alone:
  assumes a: "alone n i w run s" and t: "tireless w" and l: "worker_lifecycle w = Some l" "\<not> absorbed (machine_state w)"
    and tr: "tr = make_transition i p" and p: "keeps_session w p"
    and app: "apply_transition w tr = Inr u"
  obtains run' s' where "apply_stored update now run v tr s = (Inr (run', u), s')" and "alone n i u run' s'" and "tireless u"
proof -
  note w = alone_worker [OF a]
  have pay: "require_transition_payload tr = Inr p" by (simp add: tr)
  have adr: "addressed tr" "wt_worker_id tr = i" using w(3) p by (cases p; simp add: tr addressed_def)+
  have "tireless u"
    by (rule tireless_step [OF t _ pay p _ app]) (use w(3) adr(2) l accepted_abort_iff [OF l(1)] in auto)
  with that apply_alone [OF a adr app] show thesis by metis
qed

lemma existing_session:
  assumes "py_truthy (wr_slots w F_session_id)"
  obtains pv where "provision_session load update now cr j run w JNull (wr_slots w F_agent) (wr_slots w F_model) True cl s = (Inr pv, s)"
    and "pv_run pv = run" and "pv_intent pv = None" and "so_created_session_id (pv_outcome pv) = JNull"
    and "provisioned_transition (pv_worker pv) = provisioned_transition w"
proof -
  have same: "set_canonical_field w f (wr_slots w f) = Inr w" if "f \<in> {F_session_id, F_agent, F_model}" for f
    using that by (auto simp: set_canonical_field_def put_field_def)
  have "set_session w (wr_slots w F_session_id) (wr_slots w F_agent) (wr_slots w F_model) = Inr w"
    by (simp add: set_session_def same)
  then show thesis
    using that assms
    by (simp add: provision_session_def will_create_worker_session_def first_truthy_def provision_worker_session_def
        ensure_worker_session_def act_bind_def)
qed

lemma begun_attempt:
  assumes a: "alone n i w run s" and t: "tireless w" and l: "fst (machine_state w) \<in> schedulable"
  obtains run' u rec0 s' where "begin_attempt update now pid created run w s = (Inr ((run', u), rec0), s')"
    and "alone n i u run' s'" and "tireless u" and "worker_lifecycle u = Some Active_Wait"
proof -
  note w = alone_worker [OF a]
  obtain lw where lw: "worker_lifecycle w = Some lw" using machine_lifecycle [OF w(1)] by auto
  have na: "\<not> absorbed (machine_state w)" using l by (auto simp: absorbed_def schedulable_def)
  have sched: "schedulable_worker w" using t l by (simp add: schedulable_worker_def tireless_def)
  obtain w1 where w1: "apply_transition w (mark_worker_active w (Some (now s))) = Inr w1" "retry_configured w1"
    "worker_lifecycle w1 = Some Active_Wait"
    using sched by (rule activation_returns)
  obtain p where p: "mark_worker_active w (Some (now s)) = make_transition i p" "keeps_session w p"
    by (simp add: factories w(2))
  obtain run1 s1 where 1: "apply_stored update now run w (mark_worker_active w (Some (now s))) s = (Inr (run1, w1), s1)"
    and a1: "alone n i w1 run1 s1" "tireless w1"
    by (rule tireless_alone [OF a t lw na p w1(1)])
  note v = alone_worker [OF a1(1)]
  let ?rec = "started_attempt w1 (now s1) created pid"
  obtain w2 where w2: "apply_transition w1 (attempt_started_transition i ?rec) = Inr w2"
    "worker_lifecycle w2 = Some Active_Wait"
    by (rule attempt_record_returns [OF w1(2,3), unfolded v(2)])
  have na1: "\<not> absorbed (machine_state w1)" using w1(3) by (simp add: machine_state_def absorbed_def)
  obtain run2 s2 where 2: "apply_stored update now run1 w1 (attempt_started_transition i ?rec) s1 = (Inr (run2, w2), s2)"
    and a2: "alone n i w2 run2 s2" "tireless w2"
    by (rule tireless_alone [OF a1 w1(3) na1 attempt_started_transition_def _ w2(1)]) simp
  have "begin_attempt update now pid created run w s = (Inr ((run2, w2), ?rec), s2)"
    unfolding begin_attempt_def by (simp add: act_bind_def 1 2 v(2) Let_def)
  then show thesis by (rule that) (simp_all add: a2 w2)
qed

lemma timed_out_execution:
  assumes a: "alone n i w run s" and t: "tireless w" and l: "fst (machine_state w) \<in> schedulable"
    and slow: "always_times_out replies"
  obtains out w' s' where "execute_stored_worker load update now create new_id (remote_prompts replies) prep c run w p k cl s = (Inr out, s')"
    and "alone n i w' (wo_run out) s'" and "tireless w'" and "worker_lifecycle w' = Some Timeout_Retry" and "can_execute w'"
    and "wo_created_session_ids out = []"
proof -
  note w = alone_worker [OF a]
  obtain lw where lw: "worker_lifecycle w = Some lw" "lw \<in> schedulable" using machine_lifecycle [OF w(1)] l by auto
  have na: "\<not> absorbed (machine_state w)" using l by (auto simp: absorbed_def schedulable_def)
  have sid: "py_truthy (wr_slots w F_session_id)" using t by (simp add: tireless_def)
  obtain pv where pv: "provision_session load update now (create c) (new_id s) run w JNull (wr_slots w F_agent) (wr_slots w F_model) True cl s = (Inr pv, s)"
    "pv_run pv = run" "pv_intent pv = None" "so_created_session_id (pv_outcome pv) = JNull"
    "provisioned_transition (pv_worker pv) = provisioned_transition w"
    by (rule existing_session [OF sid])
  have sched: "schedulable_worker w" using t l by (simp add: schedulable_worker_def tireless_def)
  obtain w1 where w1: "apply_transition w (provisioned_transition w) = Inr w1" "schedulable_worker w1"
    using sched by (rule attempt_started_returns)
  obtain run1 s1 where 1: "apply_stored update now run (pv_worker pv) (provisioned_transition w) s = (Inr (run1, w1), s1)"
    and a1: "alone n i w1 run1 s1" "tireless w1"
    by (rule tireless_alone [OF a t lw(1) na provisioned_transition_def [of w, unfolded w(2)] _ w1(1)]) simp
  have prov: "provision_stored load update now (create c) (new_id s) cl run w s = (Inr ((run1, w1), JNull), s1)"
    by (simp add: provision_stored_def act_bind_def pv 1 finalize_provisioning_best_effort_def)
  have l1: "fst (machine_state w1) \<in> schedulable" using w1(2) by (simp add: schedulable_worker_def)
  obtain run2 w2 rec0 s2 where 2: "begin_attempt update now (prep k) [] run1 w1 s1 = (Inr ((run2, w2), rec0), s2)"
    and a2: "alone n i w2 run2 s2" "tireless w2" and l2: "worker_lifecycle w2 = Some Active_Wait"
    by (rule begun_attempt [OF a1 l1])
  obtain err r q where ans: "replies c w2 p k (prep k) = Inr (Inl err)"
    and cls: "classify_worker_attempt_exception w2 err = Some (AttemptFailed ''timeout'' r q)"
    using slow unfolding always_times_out_def by metis
  define attempt where "attempt = AttemptFailed ''timeout'' r (if q = None then prep k else q)"
  have 3: "execute_single_worker_attempt w2 (Inl err) (prep k) = Inr attempt"
    by (simp add: execute_single_worker_attempt_def cls attempt_def)
  have t2: "wr_slots w2 F_timeout_policy = JStr ''timeout''" "retry_available w2 (JStr ''timeout'') = Inr True" "has_prompt w2"
    using a2(2) by (simp_all add: tireless_def)
  define tp where "tp = P_TimedOut r ''timeout'' (now s2) True True (Some (wr_slots w2 F_timeout_started_at))"
  obtain att where att: "apply_worker_attempt_transition w2 attempt (now s2) = Inr att" "at_worker_transition att = make_transition i tp"
    by (simp add: attempt_def apply_timeout_attempt_failure_def mark_worker_timeout_def t2 tp_def timed_out_transition_def alone_worker(2) [OF a2(1)])
  let ?tr = "with_finalized_attempt (make_transition i tp) (dict_get rec0 ''id'') (attempt_finalization_fields att attempt (now s2))"
  note v = alone_worker [OF a2(1)]
  have pay: "require_transition_payload ?tr = Inr tp" by simp
  obtain w3 where w3: "apply_transition w2 ?tr = Inr w3" "worker_lifecycle w3 = Some Timeout_Retry" "can_execute w3"
    using timed_out_applied [OF v(1) l2 t2(3) _ pay] v(3) by (auto simp: tp_def)
  have na2: "\<not> accepted_abort w2" using accepted_abort_iff [OF l2] l2 by (simp add: machine_state_def absorbed_def)
  have t3: "tireless w3" by (rule tireless_step [OF a2(2) _ pay _ na2 w3(1)]) (simp_all add: v(3) tp_def)
  obtain run3 s3 where 4: "apply_stored update now run2 w2 ?tr s2 = (Inr (run3, w3), s3)" and a3: "alone n i w3 run3 s3"
    by (rule apply_alone [OF a2(1) _ _ w3(1)]) (simp_all add: addressed_def v(3) tp_def)
  have 5: "end_attempt update now rec0 attempt run2 w2 s2 = (Inr (att, run3), s3)"
    unfolding end_attempt_def by (simp add: act_bind_def att 4)
  have "execute_stored_worker load update now create new_id (remote_prompts replies) prep c run w p k cl s =
      (Inr \<lparr>wo_created_session_ids = [], wo_error = at_error att, wo_run = run3\<rparr>, s3)"
    unfolding execute_stored_worker_def Let_def by (simp add: act_bind_def prov 2 remote_prompts_def ans 3 5)
  from that [OF this, of w3] show thesis by (simp add: a3 t3 w3)
qed

lemma planned_again:
  assumes a: "alone n i w run s" and x: "can_execute w"
  obtains run' s' step where "plan_run update now run s = (Inr (run', step), s')" and "alone n i w run' s'"
    and "ss_worker_id step = Some i"
proof -
  note w = alone_worker [OF a]
  have ws: "rn_workers run = [(i, w)]" and deps: "wr_slots w F_dependencies = JList []" using a by (simp_all add: alone_def)
  obtain an where an: "analyze_worker_dependencies [(i, w)] = Inr an" "da_blockers an = []" "da_ready an = [i]"
    using one_worker_analysis [OF deps] x by auto
  obtain r0 where r0: "refresh_orchestration_run_summary run = Inr r0" "rn_workers r0 = [(i, w)]"
    "\<And>k. k \<notin> {''output_refs'', ''status''} \<Longrightarrow> map_of (rn_fields r0) k = map_of (rn_fields run) k"
    using one_worker_refresh [OF ws deps] ws by metis
  let ?m = "stamped (now s) refresh_orchestration_run_summary"
  have m: "?m run = Inr (set_run_updated_at (now s) r0)" by (simp add: stamped_def r0(1))
  have k: "keeps_run n ?m" by (rule keeps_stamped [OF refresh_keeps])
  obtain run' s' where u: "update n ?m s = Inr (run', s')" and a': "alone n i w run' s'"
  proof (rule update_alone [OF a k m])
    show "map_of (rn_fields (set_run_updated_at (now s) r0)) k = map_of (rn_fields run) k"
      if "k \<in> {''resources'', ''resource_cleanup''}" for k
      using that r0(3) [of k] by (auto simp: set_run_updated_at_def set_run_field_def)
    show "rn_workers (set_run_updated_at (now s) r0) = [(i, w)]"
      by (simp add: set_run_updated_at_def set_run_field_def r0(2))
  qed (simp_all add: deps)
  have "plan_run update now run s = (Inr (run', \<lparr>ss_worker_id = Some i, ss_blocked_transitions = []\<rparr>), s')"
    by (simp add: plan_run_def act_bind_def plan_dependency_ordered_serial_step_def ws an blocked_transitions_def
        act_update_def persist_run_summary_def w(4) u)
  then show thesis by (rule that) (simp_all add: a')
qed

text \<open>Without fail-fast, the loop selects the worker again, for ever.\<close>

definition trapped :: "string \<Rightarrow> string \<Rightarrow> run_record \<Rightarrow> 's \<times> created_map \<Rightarrow> bool" where
  "trapped n i run sd \<longleftrightarrow> snd sd = None \<and> (\<exists>w. alone n i w run (fst sd) \<and> tireless w \<and>
     fst (machine_state w) \<in> schedulable)"

lemma trapped_step:
  assumes t: "trapped n i run sd" and slow: "always_times_out replies"
  obtains run' error step sd' where "serial_iteration update now
      (execute_stored_worker load update now create new_id (remote_prompts replies) prep) c k i run sd = (Inr (run', error, step), sd')"
    and "trapped n i run' sd'" and "ss_worker_id step = Some i"
proof -
  let ?exec = "execute_stored_worker load update now create new_id (remote_prompts replies) prep"
  obtain w where a: "alone n i w run (fst sd)" "tireless w" "fst (machine_state w) \<in> schedulable" and c: "snd sd = None"
    using t by (auto simp: trapped_def)
  have w: "map_of (rn_workers run) i = Some w" using a(1) by (simp add: alone_def)
  obtain out w' s1 where 1: "?exec c run w (worker_prompt w) k False (fst sd) = (Inr out, s1)"
    and b: "alone n i w' (wo_run out) s1" "tireless w'" "worker_lifecycle w' = Some Timeout_Retry" "can_execute w'"
    by (rule timed_out_execution [OF a slow])
  have 2: "execute_selected_worker ?exec c k i run sd = (Inr (wo_run out, Some out), (s1, None))"
    by (simp add: execute_selected_worker_def w act_lift_def c 1 remember_in_run_def)
  obtain run' s2 step where 3: "plan_run update now (wo_run out) s1 = (Inr (run', step), s2)"
    and d: "alone n i w' run' s2" and sel: "ss_worker_id step = Some i"
    by (rule planned_again [OF b(1,4)])
  have "fst (machine_state w') \<in> schedulable" using b(3) by (simp add: machine_state_def schedulable_def)
  then have "trapped n i run' (s2, None)" using d b(2) by (auto simp: trapped_def)
  moreover have "serial_iteration update now ?exec c k i run sd = (Inr (run', wo_error out, step), (s2, None))"
    by (simp add: serial_iteration_def act_bind_def 2 act_lift_def 3)
  ultimately show thesis using that sel by blast
qed

lemma continue_diverges:
  assumes slow: "always_times_out replies" and t: "trapped n i run sd"
  shows "execute_serial_workers update now (execute_stored_worker load update now create new_id (remote_prompts replies) prep)
    c k EXECUTION_POLICY_CONTINUE first_error (Some i) run sd = None"
proof -
  let ?exec = "execute_stored_worker load update now create new_id (remote_prompts replies) prep"
  let ?P = "\<lambda>u nw e cl ka pol fe sel run sd y. u = update \<and> nw = now \<and> e = ?exec \<and> cl = c \<and> ka = k \<and>
    pol = EXECUTION_POLICY_CONTINUE \<and> sel = Some i \<longrightarrow> \<not> trapped n i run sd"
  have "?P update now ?exec c k EXECUTION_POLICY_CONTINUE first_error (Some i) run sd y"
    if "execute_serial_workers update now ?exec c k EXECUTION_POLICY_CONTINUE first_error (Some i) run sd = Some y" for y
  proof (rule execute_serial_workers.raw_induct [where P = ?P, OF _ that], intro impI notI)
    fix loop u nw e cl ka pol fe sel run sd y
    assume IH: "\<And>u nw e cl ka pol fe sel run sd y. loop u nw e cl ka pol fe sel run sd = Some y \<Longrightarrow>
        ?P u nw e cl ka pol fe sel run sd y"
      and body: "(case sel of
          None \<Rightarrow> Some (Inr \<lparr>le_run = run, le_first_error = fe, le_fail_fast = None\<rparr>, sd)
        | Some i \<Rightarrow> (case serial_iteration u nw e cl ka i run sd of
            (Inl e, sd') \<Rightarrow> Some (Inl e, sd')
          | (Inr (run', error, step), sd') \<Rightarrow>
              if error \<noteq> None \<and> pol = EXECUTION_POLICY_FAIL_FAST
              then Some (Inr \<lparr>le_run = run', le_first_error = (if fe = None then error else fe), le_fail_fast = error\<rparr>, sd')
              else loop u nw e cl ka pol (if fe = None then error else fe) (ss_worker_id step) run' sd')) = Some y"
      and same: "u = update \<and> nw = now \<and> e = ?exec \<and> cl = c \<and> ka = k \<and> pol = EXECUTION_POLICY_CONTINUE \<and> sel = Some i"
      and t: "trapped n i run sd"
    obtain run' error step sd' where it: "serial_iteration update now ?exec c k i run sd = (Inr (run', error, step), sd')"
      and t': "trapped n i run' sd'" and sel: "ss_worker_id step = Some i"
      by (rule trapped_step [OF t slow])
    have "loop update now ?exec c k EXECUTION_POLICY_CONTINUE (if fe = None then error else fe) (Some i) run' sd' = Some y"
      using body same it sel by (simp add: EXECUTION_POLICY_CONTINUE_def EXECUTION_POLICY_FAIL_FAST_def)
    from IH [OF this] t' show False by simp
  qed
  with t show ?thesis by (cases "execute_serial_workers update now ?exec c k EXECUTION_POLICY_CONTINUE first_error (Some i) run sd") auto
qed

end

section \<open>The file store\<close>

lemma normalize_cleanup_progress:
  assumes "normalize_run_fields cwd fallback d = Inr e"
  shows "dict_get e ''resource_cleanup'' = dict_get d ''resource_cleanup'' \<or> dict_get e ''resource_cleanup'' = JObj []"
proof -
  let ?b = "normalize_base_fields cwd fallback d"
  obtain r where r: "normalize_resources fallback ?b = Inr r"
    and e: "e = set_default ''updated_at'' JNull (set_default ''created_at'' JNull (normalize_cleanup r))"
    using assms by (rule normalize_run_fieldsE)
  have "dict_get e ''resource_cleanup'' = dict_get (normalize_cleanup r) ''resource_cleanup''"
    by (simp add: e dict_get_set_default)
  moreover have "dict_get r ''resource_cleanup'' = dict_get d ''resource_cleanup''"
    using normalize_resources_facts(1) [OF r, of "''resource_cleanup''"] base_fields_frame(1) [of "''resource_cleanup''" cwd fallback d]
    by (simp add: base_field_names_def)
  ultimately show ?thesis by (auto simp: normalize_cleanup_def)
qed

interpretation live: live_store sound_store "load_run pf cwd" "\<lambda>name m. update_run pf cwd name m allow" now
  for pf cwd allow now
proof
  fix s :: run_store and n r m r1
  assume s: "sound_store s" and load: "load_run pf cwd n s = Inr r"
  then show "valid_run_name n" by (auto simp: load_run_def res_bind_Inr_iff read_run_data_Inr)
  assume o: "\<not> cleanup_in_progress r" and k: "keeps_run n m" and m: "m r = Inr r1" and same: "same_resources r r1"
    and o1: "\<not> cleanup_in_progress r1"
  obtain r' s' where u: "update_run pf cwd n m allow s = Inr (r', s')"
    using update_run_returns [OF s load _ k m same] o by blast
  have "\<not> cleanup_in_progress r'"
  proof (rule update_run_sound [OF u s k])
    fix run run1 assume "load_run pf cwd n s = Inr run" "m run = Inr run1"
      and nf: "normalize_run_fields cwd n (rn_fields run1) = Inr (rn_fields r')"
    then have "run1 = r1" using load m by simp
    with normalize_cleanup_progress [OF nf] o1 show ?thesis by (auto simp: cleanup_in_progress_def dict_get_def)
  qed
  with u show "\<exists>r' s'. update_run pf cwd n m allow s = Inr (r', s') \<and> \<not> cleanup_in_progress r'" by blast
qed

end
