(* ===== verification/Cleanup_Facts.thy ===== *)
theory Cleanup_Facts
  imports Session_Cleanup
begin

text \<open>
  Cleanup forgets no session: what the server has not confirmed as gone stays in the cleanup record of its
  worker, and whatever a record or the outbox still holds is in the next plan.
\<close>

section \<open>Verified deletions\<close>

text \<open>The server answered 404 to a read of the session.\<close>

definition confirmed_gone :: "'s cleanup_client \<Rightarrow> json \<Rightarrow> bool" where
  "confirmed_gone client i \<longleftrightarrow>
     (\<exists>s s' e. cc_get_session client i s = (Inr (Some e), s') \<and> af_status e = Some 404)"

lemma verify_deleted_confirms: "verify_deleted client i s = (Inr None, s') \<Longrightarrow> confirmed_gone client i"
  by (auto simp: verify_deleted_def act_bind_Inr_iff confirmed_gone_def split: option.splits if_splits)

lemma deletion_confirms: "delete_and_verify client i s = (Inr None, s') \<Longrightarrow> confirmed_gone client i"
  by (auto simp: delete_and_verify_def act_bind_Inr_iff split: option.splits if_splits dest: verify_deleted_confirms)

text \<open>An outcome accounts for every session that was tried, in order.\<close>

definition accounts :: "'s cleanup_client \<Rightarrow> json list \<Rightarrow> cleanup_outcome \<Rightarrow> bool" where
  "accounts client tried out \<longleftrightarrow> set tried = set (co_deleted out) \<union> fst ` set (co_errors out) \<and>
     (distinct tried \<longrightarrow> set (co_deleted out) \<inter> fst ` set (co_errors out) = {}) \<and>
     (\<forall>i \<in> set (co_deleted out). confirmed_gone client i) \<and> (co_errors out = [] \<longleftrightarrow> co_first_error out = None)"

lemma accounts_add:
  assumes "accounts client tried out" and "delete_and_verify client i s = (Inr failure, s')"
  shows "accounts client (tried @ [i]) (add_cleanup i failure out)"
proof (cases failure)
  case None
  then have "confirmed_gone client i" using assms(2) deletion_confirms by simp
  then show ?thesis using assms(1) None by (auto simp: accounts_def add_cleanup_def)
qed (use assms(1) in \<open>auto simp: accounts_def add_cleanup_def\<close>)

lemma cleanup_from_accounts:
  assumes "cleanup_from client ids out s = (Inr out', s')" and "accounts client tried out"
  shows "accounts client (tried @ ids) out'"
  using assms
proof (induction ids arbitrary: out s tried)
  case (Cons i ids)
  obtain failure s1 where d: "delete_and_verify client i s = (Inr failure, s1)"
    and rest: "cleanup_from client ids (add_cleanup i failure out) s1 = (Inr out', s')"
    using Cons.prems(1) by (auto simp: act_bind_Inr_iff)
  from Cons.IH [OF rest accounts_add [OF Cons.prems(2) d]] show ?case by simp
qed simp

lemma cleanup_accounts:
  assumes "cleanup_disposable_sessions client ids s = (Inr out, s')"
  shows "accounts client ids out"
proof -
  have "accounts client [] \<lparr>co_deleted = [], co_errors = [], co_first_error = None\<rparr>" by (simp add: accounts_def)
  from cleanup_from_accounts [OF _ this] assms show ?thesis unfolding cleanup_disposable_sessions_def by fastforce
qed

section \<open>The cleanup record\<close>

lemma cleaned_pending:
  assumes a: "accounts client (map JStr ids) out" and d: "distinct ids" "[] \<notin> set ids"
  shows "cleanup_pending_ids (with_cleanup w (cleaned_fields (map JStr ids) out c)) =
      filter (\<lambda>i. i \<notin> set (co_deleted out)) (map JStr ids)"
    and "dict_get (cleaned_fields (map JStr ids) out c) ''deleted'' = JBool (co_deleted out \<noteq> [] \<and> co_errors out = [])"
proof -
  let ?ids = "map JStr ids"
  let ?pending = "filter (\<lambda>i. \<not> py_in i (co_deleted out)) ?ids"
  let ?f = "cleaned_fields ?ids out c"
  have py: "?pending = filter (\<lambda>i. i \<notin> set (co_deleted out)) ?ids" by (rule filter_cong) auto
  have texts: "filter nonempty_str ?pending = ?pending"
    by (rule filter_True) (use d(2) in auto)
  have dist: "distinct ?ids" using d(1) by (simp add: distinct_map inj_on_def)
  show deleted: "dict_get ?f ''deleted'' = JBool (co_deleted out \<noteq> [] \<and> co_errors out = [])"
    by (simp add: cleaned_fields_def Let_def set_or_pop_def split: list.split)
  have sessions: "dict_get ?f ''sessions'' = (if ?pending = [] then JNull else JList ?pending)"
    by (simp add: cleaned_fields_def Let_def set_or_pop_def)
  have none: "?pending = []" if "co_errors out = []"
    unfolding py using a that by (auto simp: accounts_def filter_empty_conv)
  have "cleanup_pending_ids (with_cleanup w ?f) =
      (if py_truthy (dict_get ?f ''deleted'') then [] else string_list (dict_get ?f ''sessions''))"
    by (simp add: cleanup_pending_ids_def with_cleanup_def)
  also have "\<dots> = ?pending"
    using none texts by (auto simp: deleted sessions string_list_def py_in_def)
  finally show "cleanup_pending_ids (with_cleanup w ?f) = filter (\<lambda>i. i \<notin> set (co_deleted out)) ?ids" by (simp add: py)
qed

lemma created_sessions_cleanup:
  assumes c: "cleanup_created_worker_sessions client w (map JStr ids) s = (Inr (w', failure), s')"
    and d: "distinct ids" "[] \<notin> set ids"
  shows "set (cleanup_pending_ids w') \<subseteq> set (map JStr ids)"
    and "\<And>i. i \<in> set ids \<Longrightarrow> JStr i \<in> set (cleanup_pending_ids w') \<or> confirmed_gone client (JStr i)"
    and "failure = None \<longleftrightarrow> cleanup_pending_ids w' = []"
    and "dict_get (cleanup_dict w') ''deleted'' = JBool (ids \<noteq> [] \<and> cleanup_pending_ids w' = [])"
proof -
  obtain out where o: "cleanup_disposable_sessions client (map JStr ids) s = (Inr out, s')"
    and w': "w' = with_cleanup w (cleaned_fields (map JStr ids) out (cleanup_dict (ensure_cleanup w)))"
    and f: "failure = (if co_errors out = [] then None else co_first_error out)"
    using c by (auto simp: cleanup_created_worker_sessions_def act_bind_Inr_iff)
  note a = cleanup_accounts [OF o]
  note p = cleaned_pending(1) [OF a d, of w "cleanup_dict (ensure_cleanup w)", folded w']
    cleaned_pending(2) [OF a d, of "cleanup_dict (ensure_cleanup w)"]
  have dist: "distinct (map JStr ids)" using d(1) by (simp add: distinct_map inj_on_def)
  have empty: "cleanup_pending_ids w' = [] \<longleftrightarrow> co_errors out = []"
  proof
    assume "cleanup_pending_ids w' = []"
    then have "set (map JStr ids) \<subseteq> set (co_deleted out)" by (auto simp: p(1) filter_empty_conv)
    moreover have "fst ` set (co_errors out) \<subseteq> set (map JStr ids)"
      "set (co_deleted out) \<inter> fst ` set (co_errors out) = {}" using a dist by (auto simp: accounts_def)
    ultimately show "co_errors out = []" by (cases "co_errors out") auto
  next
    assume "co_errors out = []"
    then have "set (map JStr ids) = set (co_deleted out)" using a by (simp add: accounts_def)
    then show "cleanup_pending_ids w' = []" unfolding p(1) by (simp only: filter_empty_conv not_not) blast
  qed
  show "set (cleanup_pending_ids w') \<subseteq> set (map JStr ids)" by (auto simp: p(1))
  show "JStr i \<in> set (cleanup_pending_ids w') \<or> confirmed_gone client (JStr i)" if "i \<in> set ids" for i
    using a that by (auto simp: p(1) accounts_def)
  show "failure = None \<longleftrightarrow> cleanup_pending_ids w' = []" using a by (auto simp: f empty accounts_def)
  have "cleanup_dict w' = cleaned_fields (map JStr ids) out (cleanup_dict (ensure_cleanup w))"
    by (simp add: w' cleanup_dict_def with_cleanup_def)
  then show "dict_get (cleanup_dict w') ''deleted'' = JBool (ids \<noteq> [] \<and> cleanup_pending_ids w' = [])"
    using p(2) a by (auto simp: empty accounts_def)
qed

end
