(* ===== verification/Store_Samples.thy ===== *)
theory Store_Samples
  imports Samples Store_Execution Cleanup_Facts Attempt_Recovery
begin

text \<open>
  Concrete stores, requests and clients on which the properties of the store and of the orchestration are
  evaluated.
\<close>

section \<open>A store with one run of one worker\<close>

text \<open>No text is a float.\<close>

definition no_floats :: "string \<Rightarrow> pyfloat option" where
  "no_floats t = None"

definition empty_store :: run_store where
  "empty_store = \<lparr>rs_root = ''/runs'', rs_files = []\<rparr>"

definition store_clock :: "run_store \<Rightarrow> json" where
  "store_clock s = JStr ''t1''"

definition sample_record :: "worker_record \<Rightarrow> run_record" where
  "sample_record w = \<lparr>rn_fields = created_fields ''r1'' ''/w'' (JStr ''http://h'') (JStr ''t0''), rn_workers = [(''w1'', w)]\<rparr>"

lemma sound_empty: "sound_store empty_store"
  by (simp add: sound_store_def store_ok_def well_filed_def empty_store_def wf_dict_def)

lemma empty_free: "map_of (rs_files empty_store) name = None"
  by (simp add: empty_store_def)

lemma sample_name: "valid_run_name ''r1''" "''r1'' \<noteq> []" "py_truthy (JStr ''http://h'')"
  by (simp_all add: valid_run_name_def)

lemma sample_open: "\<not> cleanup_in_progress (sample_record w)"
  by (simp add: cleanup_in_progress_def sample_record_def created_fields_def)

lemma sample_good:
  assumes "wf_worker w" and "worker_id w = JStr ''w1''"
  shows "good_run ''r1'' (sample_record w)"
  using created_good [OF sample_name(2,3), of "''/w''" "JStr ''t0''"] assms
  by (simp add: good_run_def wf_run_def run_named_def readable_def sample_record_def workers_ok_def wf_dict_def)

lemma sample_stored:
  assumes w: "wf_worker w" "worker_id w = JStr ''w1''"
  obtains s where "sound_store s" and "load_run no_floats ''/w'' ''r1'' s = Inr (sample_record w)"
proof -
  let ?run = "\<lparr>rn_fields = created_fields ''r1'' ''/w'' (JStr ''http://h'') (JStr ''t0''), rn_workers = []\<rparr>"
  let ?m = "\<lambda>r. Inr (sample_record w) :: run_record result"
  obtain s1 where c: "create_run no_floats ''/w'' ''r1'' ''/w'' (JStr ''http://h'') (JStr ''t0'') empty_store = Inr (?run, s1)"
    using create_run_returns [OF sample_name(1) empty_free sample_name(3)] by blast
  note f = create_run_sound [OF c sound_empty]
  have keeps: "keeps_run ''r1'' ?m" by (rule keeps_runI) (use sample_good [OF w] in simp)
  have same: "same_resources ?run (sample_record w)" by (simp add: same_resources_def sample_record_def)
  have "\<not> cleanup_in_progress ?run" by (simp add: cleanup_in_progress_def created_fields_def)
  then obtain r' s' where u: "update_run no_floats ''/w'' ''r1'' ?m False s1 = Inr (r', s')"
    using update_run_returns [OF f(4) f(6) _ keeps refl same] by blast
  show thesis
  proof (rule update_run_sound [where cwd' = "''/w''", OF u f(4) keeps])
    fix run run1 assume "?m run = Inr run1" and n: "normalize_run_fields ''/w'' ''r1'' (rn_fields run1) = Inr (rn_fields r')"
      and ws: "rn_workers r' = rn_workers run1" and s': "sound_store s'" and l: "load_run no_floats ''/w'' ''r1'' s' = Inr r'"
    then have run1: "run1 = sample_record w" by simp
    have "rn_fields r' = rn_fields (sample_record w)"
      using n normal_fields_fixed [OF created_normal(1) [OF sample_name(2,3)]] by (simp add: run1 sample_record_def)
    then have "r' = sample_record w" using ws by (intro run_record.equality) (simp_all add: run1)
    then show thesis using that [OF s'] l by simp
  qed
qed

section \<open>Workers\<close>

text \<open>A worker with a session, a prompt and one retry of a timeout.\<close>

definition patient_worker :: worker_record where
  "patient_worker = put_field (put_field (put_field (worker_in ''w1'' Queued []) F_retry_limit (JInt 1))
     F_retryable_failures (JList [JStr ''timeout''])) F_session_id (JStr ''s1'')"

lemma patient_worker_facts:
  "wf_worker patient_worker" "worker_id patient_worker = JStr ''w1''" "tireless patient_worker"
  "worker_lifecycle patient_worker = Some Queued" "fst (machine_state patient_worker) \<in> schedulable"
proof -
  show wf: "wf_worker patient_worker"
    unfolding patient_worker_def by (intro wf_put_field wf_worker_in) simp_all
  show "worker_id patient_worker = JStr ''w1''" by (simp add: patient_worker_def worker_id_def)
  show l: "worker_lifecycle patient_worker = Some Queued" by (simp add: patient_worker_def)
  show "fst (machine_state patient_worker) \<in> schedulable" using l by (simp add: machine_state_def schedulable_def)
  show "tireless patient_worker"
    using wf by (simp add: tireless_def retry_configured_def list_slot_def patient_worker_def has_prompt_def worker_prompt_def
        retry_available_def worker_in_def reset_fields_def default_value_eq py_in_JStr)
qed

lemma worker_in_configured: "i \<noteq> [] \<Longrightarrow> retry_configured (worker_in i l deps)"
  unfolding retry_configured_def
  by (intro conjI wf_worker_in) (simp_all add: list_slot_def worker_in_def reset_fields_def default_value_eq)

section \<open>Clients\<close>

text \<open>A server that cannot be reached, and prompts that time out.\<close>

definition unreachable :: "unit \<Rightarrow> json \<Rightarrow> json \<Rightarrow> json \<Rightarrow> jdict option \<Rightarrow> json result" where
  "unreachable c directory agent model metadata = Inl (RemoteError ''OpenCodeApiError'' ''refused'')"

definition slow_prompts ::
  "unit \<Rightarrow> worker_record \<Rightarrow> string option \<Rightarrow> unit \<Rightarrow> string option \<Rightarrow> (attempt_error + jdict) result" where
  "slow_prompts c w prompt capabilities prompt_id = Inr (Inl (OpenCodeApiTimeoutError ''timed out''))"

lemma slow_prompts_time_out: "always_times_out slow_prompts"
  by (simp add: always_times_out_def slow_prompts_def)

definition all_found :: "run_record \<Rightarrow> (unit, unit) probe_outcome result" where
  "all_found run = Inr \<lparr>po_client = (), po_capabilities = (), po_start_error = None\<rparr>"

definition sample_request :: start_request where
  "sample_request = \<lparr>sq_name = ''r1'', sq_worker_id = ''w1'', sq_role = JNull, sq_directory = None, sq_server_url = None,
     sq_session_id = JNull, sq_agent = JNull, sq_model = JNull, sq_execution_policy = Some ''fail-fast'', sq_cleanup = False\<rparr>"

lemma sample_policy: "normalize_execution_policy (sq_execution_policy sample_request) = Inr EXECUTION_POLICY_FAIL_FAST"
  by (simp add: sample_request_def normalize_execution_policy_def EXECUTION_POLICIES_def EXECUTION_POLICY_FAIL_FAST_def)

text \<open>A server that answers every deletion, and reads of deleted sessions with 404.\<close>

definition deleting_client :: "run_store cleanup_client" where
  "deleting_client = \<lparr>cc_delete_session = \<lambda>i s. (Inr None, s),
     cc_get_session = \<lambda>i s. (Inr (Some \<lparr>af_message = ''not found'', af_status = Some 404\<rparr>), s)\<rparr>"

section \<open>A file whose record carries another name\<close>

definition misnamed_store :: run_store where
  "misnamed_store = \<lparr>rs_root = ''/runs'', rs_files =
     [(''r1'', StoredValue (JObj (new_run_record ''r2'' ''/w'' (JStr ''http://h'') (JStr ''t0''))))]\<rparr>"

lemma misnamed_facts:
  "read_run_data misnamed_store ''r1'' = Inr (new_run_record ''r2'' ''/w'' (JStr ''http://h'') (JStr ''t0''))"
  "dict_get (new_run_record ''r2'' ''/w'' (JStr ''http://h'') (JStr ''t0'')) ''name'' = JStr ''r2''"
  "map_of (rs_files misnamed_store) ''r2'' = None"
  using sample_name(1) by (simp_all add: read_run_data_def run_path_def misnamed_store_def new_run_record_def)

lemma misnamed_update_returns: "\<exists>run' s'. update_run no_floats ''/w'' ''r1'' Inr False misnamed_store = Inr (run', s')"
proof -
  let ?run = "\<lparr>rn_fields = created_fields ''r2'' ''/w'' (JStr ''http://h'') (JStr ''t0''), rn_workers = []\<rparr>"
  have r2: "''r2'' \<noteq> []" "valid_run_name ''r2''" by (simp_all add: valid_run_name_def)
  have normal: "normal_fields (created_fields ''r2'' ''/w'' (JStr ''http://h'') (JStr ''t0''))"
    by (rule created_normal(1) [OF r2(1) sample_name(3)])
  have "normalize_run no_floats ''/w'' ''r1'' (new_run_record ''r2'' ''/w'' (JStr ''http://h'') (JStr ''t0'')) = Inr ?run"
    unfolding normalize_run_def normal_fields_fixed [OF created_normal(2) [OF r2(1) sample_name(3)]]
    by (simp add: new_run_record_def run_worker_snapshots_def hydrate_workers_def created_fields_def dict_pop_def)
  moreover have "normalize_hydrated_run ''/w'' ''r1'' ?run = Inr ?run"
    using normal_fields_fixed [OF normal] by (simp add: normalize_hydrated_run_def)
  moreover have "\<exists>s'. write_run no_floats ''/w'' (Some (new_run_record ''r2'' ''/w'' (JStr ''http://h'') (JStr ''t0''))) ?run
      misnamed_store = Inr s'"
    by (rule write_run_returns [OF created_good [OF r2(1) sample_name(3)] _ r2(2)])
      (use normal in \<open>auto simp: migratable_def persisted_worker_def worker_snapshots_def new_run_record_def\<close>)
  ultimately show ?thesis
    using misnamed_facts(1) sample_open [of undefined]
    by (auto simp: update_run_def normalize_for_store_def normalize_hydrated_for_store_def as_store_error_def
        cleanup_in_progress_def created_fields_def)
qed

section \<open>An expired attempt\<close>

text \<open>A worker whose attempt started at \<open>t0\<close> with a timeout of a minute; \<open>t1\<close> is a hundred seconds later.\<close>

definition sample_iso :: "string \<Rightarrow> int option" where
  "sample_iso t = (if t = ''t0'' then Some 0 else if t = ''t1'' then Some 100000000 else None)"

definition expired_worker :: worker_record where
  "expired_worker = put_field (put_field (worker_in ''w1'' Active_Wait []) F_timeout_seconds (JInt 60))
     F_attempts (JList [JObj [(''id'', JStr ''a1''), (''status'', JStr ''active''), (''started_at'', JStr ''t0'')]])"

lemma expired_recovery:
  obtains r where "recover_expired_active_attempts sample_iso (JStr ''t1'')
    [(''w1'', expired_worker), (''w2'', sample_worker)] = Inr [r]"
proof -
  have open_attempt: "recoverable_active_attempt expired_worker =
      Some [(''id'', JStr ''a1''), (''status'', JStr ''active''), (''started_at'', JStr ''t0'')]"
    by (simp add: recoverable_active_attempt_def expired_worker_def worker_attempts_def recoverable_attempt_def
        attempt_fields_def)
  have instants: "parse_instant sample_iso (JStr ''t1'') = Some 100000000" "parse_instant sample_iso (JStr ''t0'') = Some 0"
    "parse_instant sample_iso JNull = None"
    by code_simp+
  have small: "\<not> float_overflow 60" unfolding float_overflow_def by simp
  have expired: "active_attempt_lease_expired sample_iso expired_worker
      [(''id'', JStr ''a1''), (''status'', JStr ''active''), (''started_at'', JStr ''t0'')] (Some 100000000) = Inr True"
    using small by (simp add: active_attempt_lease_expired_def timeout_seconds_def attempt_start_def instants expired_worker_def
        canonical_value_def spec_canonical_value_def worker_in_def reset_fields_def default_value_eq
        add_seconds_def seconds_delta_def MAX_TIMEDELTA_def MAX_INSTANT_def)
  obtain r where r: "timeout_active_attempt expired_worker
      [(''id'', JStr ''a1''), (''status'', JStr ''active''), (''started_at'', JStr ''t0'')] (JStr ''t1'') = Inr r"
    by (simp add: timeout_active_attempt_def timeout_outcome_def apply_timeout_attempt_failure_def mark_worker_timeout_def
        retry_available_def expired_worker_def worker_in_def reset_fields_def default_value_eq)
  have idle: "recoverable_active_attempt sample_worker = None" by (simp add: recoverable_active_attempt_def)
  have "sorted_workers [(''w1'', expired_worker), (''w2'', sample_worker)] = [(''w1'', expired_worker), (''w2'', sample_worker)]"
    by (simp add: sorted_workers_def)
  then show thesis using that [of r] open_attempt instants expired r idle
    by (simp add: recover_expired_active_attempts_def recover_worker_def)
qed
end
