(* ===== verification/Creation_Outbox.thy ===== *)
theory Creation_Outbox
  imports Start_Facts
begin

text \<open>
  The creation of a session as a mutation of the outbox: its intents carry the id of the entry, and the
  server's answer does not touch the run files.
\<close>

lemma remote_call_same:
  assumes "call_session_creation (remote_sessions answers c) sid agent model cs run intent s = (x, s')"
  shows "s' = s"
proof -
  have p: "s2 = s1" if "provision_worker_session (remote_sessions answers c) run1 w sid agent model cs md s1 = (y, s2)"
    for run1 w md y s1 s2
    using that
    by (auto simp: provision_worker_session_def ensure_worker_session_def remote_sessions_def act_bind_def Let_def
        split: if_splits sum.splits prod.splits)
  show ?thesis using assms by (auto simp: call_session_creation_def split_def elim!: act_bindE dest: p)
qed

lemma creation_made:
  assumes "worker_id w = JStr i"
    and "rm_intent (session_creation create now j w sid agent model cs cleanup) s latest = Inr r"
  shows "made_record r"
  using assms intent_made(1) by (auto simp: session_creation_def)

lemma creation_interrupted:
  assumes s: "sound_store s" and run: "good_run n run" and w: "worker_id w = JStr i"
    and e: "run_remote_mutation (load_run pf cwd) (\<lambda>name m. update_run pf cwd name m allow) now
      WORKER_SESSION_JOURNAL_FIELD j WORKER_SESSION_CREATE_OPERATION
      (session_creation (remote_sessions answers c) now j w sid agent model cs cleanup) run s = (Inl e, s')"
  shows "s' = s \<or> (\<exists>r. load_run pf cwd n s' = Inr r \<and> has_entry WORKER_SESSION_JOURNAL_FIELD j r)"
proof -
  let ?m = "session_creation (remote_sessions answers c) now j w sid agent model cs cleanup"
  have made: "session_outbox.intents_made j ?m"
    unfolding session_outbox.intents_made_def by (intro allI impI) (rule creation_made [OF w])
  have call: "triple P (rm_call ?m r intent) (\<lambda>_. P) P" for r intent P
    by (rule tripleI) (auto simp: session_creation_def dest: remote_call_same)
  from session_outbox.interrupted_mutation [OF s run made call e] show ?thesis
    by (auto simp: session_outbox.stored_entry_def)
qed

text \<open>A client that refuses to create a session unless its intent is in the store makes no difference.\<close>

definition only_recorded ::
  "(run_store \<Rightarrow> bool) \<Rightarrow> (run_record \<Rightarrow> journal_record \<Rightarrow> (run_store, 'r) action) \<Rightarrow>
   run_record \<Rightarrow> journal_record \<Rightarrow> (run_store, 'r) action" where
  "only_recorded recorded call run intent s =
     (if recorded s then call run intent s else (Inl (RuntimeError ''no intent''), s))"

lemma creation_recorded:
  fixes create :: "run_store session_client"
  assumes s: "sound_store s" and run: "good_run n run" and w: "worker_id w = JStr i"
    and m: "m = session_creation create now j w sid agent model cs cleanup"
    and recorded: "\<And>s1 r. sound_store s1 \<Longrightarrow> load_run pf cwd n s1 = Inr r \<Longrightarrow> has_entry WORKER_SESSION_JOURNAL_FIELD j r \<Longrightarrow> recorded s1"
  shows "run_remote_mutation (load_run pf cwd) (\<lambda>name m. update_run pf cwd name m allow) now
      WORKER_SESSION_JOURNAL_FIELD j WORKER_SESSION_CREATE_OPERATION (m\<lparr>rm_call := only_recorded recorded (rm_call m)\<rparr>) run s =
    run_remote_mutation (load_run pf cwd) (\<lambda>name m. update_run pf cwd name m allow) now
      WORKER_SESSION_JOURNAL_FIELD j WORKER_SESSION_CREATE_OPERATION m run s"
proof -
  have made: "session_outbox.intents_made j m"
    unfolding session_outbox.intents_made_def m by (intro allI impI) (rule creation_made [OF w])
  have "run_remote_mutation (load_run pf cwd) (\<lambda>name m. update_run pf cwd name m allow) now
      WORKER_SESSION_JOURNAL_FIELD j WORKER_SESSION_CREATE_OPERATION
      (m\<lparr>rm_call := rm_call (m\<lparr>rm_call := only_recorded recorded (rm_call m)\<rparr>)\<rparr>) run s =
    run_remote_mutation (load_run pf cwd) (\<lambda>name m. update_run pf cwd name m allow) now
      WORKER_SESSION_JOURNAL_FIELD j WORKER_SESSION_CREATE_OPERATION m run s"
    by (rule session_outbox.call_after_intent [OF s run made])
      (auto simp: only_recorded_def session_outbox.stored_entry_def dest: recorded)
  then show ?thesis by simp
qed

end
