(* ===== verification/Live_Outbox.thy ===== *)
theory Live_Outbox
  imports Store_Execution Creation_Outbox
begin

text \<open>
  The outbox over a store whose updates return: a remote mutation whose call succeeds is applied and its entry
  is gone; when the call raises, the error is raised again and the entry stays, marked as uncertain.
\<close>

section \<open>Entries that are uncertain\<close>

definition uncertain :: "string \<Rightarrow> string \<Rightarrow> run_record \<Rightarrow> bool" where
  "uncertain field i run \<longleftrightarrow> list_ex (\<lambda>e. entry_has_id i e \<and>
     (case e of JObj d \<Rightarrow> dict_get d ''outbox_state'' = JStr OUTBOX_STATE_UNCERTAIN | _ \<Rightarrow> False)) (journal_entries field run)"

lemma change_first_changes:
  assumes "list_ex (entry_has_id i) es" and "\<And>d. dict_get (f d) ''id'' = dict_get d ''id''" and "\<And>d. Q (f d)"
  shows "list_ex (\<lambda>e. entry_has_id i e \<and> (case e of JObj d \<Rightarrow> Q d | _ \<Rightarrow> False)) (change_first (entry_has_id i) f es)"
  using assms(1) by (induction es) (auto simp: entry_has_id_def assms(2,3) split: json.splits)

lemma marked_uncertain: "has_entry field i run \<Longrightarrow> uncertain field i (journal_mark_uncertain field i u run)"
  unfolding journal_mark_uncertain_def change_entry_def uncertain_def has_entry_def journal_entries_def
  by (cases "journal_of field run")
    (simp_all add: change_first_changes uncertain_id uncertain_entry_def)

lemma uncertain_entries: "journal_entries field r = journal_entries field r' \<Longrightarrow> uncertain field i r = uncertain field i r'"
  by (simp add: uncertain_def)

text \<open>An uncertain entry is found by the recovery.\<close>

lemma uncertain_pending:
  assumes "uncertain field i run"
  shows "\<exists>es e. pending_entries field None None run = Inr es \<and> e \<in> set es \<and> entry_has_id i e"
proof (cases "journal_of field run")
  case None
  then show ?thesis using assms by (simp add: uncertain_def journal_entries_def)
next
  case (Some es)
  obtain e where e: "e \<in> set es" "entry_has_id i e"
    and d: "case e of JObj d \<Rightarrow> dict_get d ''outbox_state'' = JStr OUTBOX_STATE_UNCERTAIN | _ \<Rightarrow> False"
    using assms by (auto simp: uncertain_def journal_entries_def Some list_ex_iff)
  from d obtain c where "e = JObj c" "dict_get c ''outbox_state'' = JStr OUTBOX_STATE_UNCERTAIN" by (cases e) auto
  then have "entry_matches None PENDING_OUTBOX_STATES e"
    by (simp add: entry_matches_def entry_outbox_state_def PENDING_OUTBOX_STATES_def)
  then show ?thesis using e by (auto simp: pending_entries_def normalize_outbox_states_def Some)
qed

section \<open>The fields that an update must leave alone\<close>

definition unfenced :: "run_record \<Rightarrow> run_record \<Rightarrow> bool" where
  "unfenced r r' \<longleftrightarrow> (\<forall>k \<in> {''resources'', ''resource_cleanup''}. map_of (rn_fields r') k = map_of (rn_fields r) k)"

lemma unfenced_refl [simp]: "unfenced r r"
  by (simp add: unfenced_def)

lemma unfenced_trans: "unfenced r r' \<Longrightarrow> unfenced r' r'' \<Longrightarrow> unfenced r r''"
  by (simp add: unfenced_def)

lemma unfenced_resources: "unfenced r r' \<Longrightarrow> same_resources r r'"
  by (simp add: unfenced_def same_resources_def)

lemma unfenced_cleanup: "unfenced r r' \<Longrightarrow> cleanup_in_progress r' = cleanup_in_progress r"
  by (simp add: unfenced_def cleanup_in_progress_def dict_get_def)

lemma unfenced_set: "k \<notin> {''resources'', ''resource_cleanup''} \<Longrightarrow> unfenced r (set_run_field k v r)"
  by (auto simp: unfenced_def set_run_field_def)

lemma unfenced_workers [simp]: "unfenced r (r\<lparr>rn_workers := ws\<rparr>)" "unfenced r (set_run_worker r i w)"
  by (simp_all add: unfenced_def set_run_worker_def)

section \<open>Mutations that return\<close>

locale live_outbox = live_store ok load update now + remote_outbox ok load update field now
  for ok :: "'s \<Rightarrow> bool" and load and update and now and field +
  assumes free_field: "field \<notin> {''resources'', ''resource_cleanup''}"

context live_outbox
begin

definition opened :: "string \<Rightarrow> run_record \<Rightarrow> 's \<Rightarrow> bool" where
  "opened n r s \<longleftrightarrow> ok s \<and> load n s = Inr r \<and> \<not> cleanup_in_progress r"

lemma opened_good: "opened n r s \<Longrightarrow> good_run n r"
  by (auto simp: opened_def intro: load_good)

lemma named_run:
  assumes "opened n r s" and "good_run n run"
  shows "run_name run = Inr n"
proof -
  have "valid_run_name n" using assms(1) named by (auto simp: opened_def)
  then show ?thesis
    using assms(2) by (auto simp: run_name_def good_run_def run_named_def dict_get_def run_path_of_field_def run_path_def
        split: option.splits)
qed

lemma persist_returns:
  assumes o: "opened n r s" and run: "good_run n run" and k: "\<And>n. keeps_run n m"
    and m: "m r = Inr r1" and f: "unfenced r r1"
  obtains r' s' where "persist_mutation update now m run s = (Inr r', s')" and "opened n r' s'"
    and "rn_workers r' = rn_workers r1" and "journal_entries field r' = journal_entries field r1"
proof -
  have s: "ok s" "load n s = Inr r" "\<not> cleanup_in_progress r" using o by (simp_all add: opened_def)
  let ?m = "stamped (now s) m"
  let ?r2 = "set_run_updated_at (now s) r1"
  have m2: "?m r = Inr ?r2" by (simp add: stamped_def m)
  have f2: "unfenced r ?r2"
    unfolding set_run_updated_at_def by (rule unfenced_trans [OF f unfenced_set]) simp
  note k2 = keeps_stamped [OF k, of n "now s"]
  obtain r' s' where u: "update n ?m s = Inr (r', s')" and c: "\<not> cleanup_in_progress r'"
    using update_returns [OF s k2 m2 unfenced_resources [OF f2]] unfenced_cleanup [OF f2] s(3) by blast
  have p: "persist_mutation update now m run s = (Inr r', s')"
    by (simp add: persist_mutation_def act_update_def persist_run_mutation_def named_run [OF o run] u)
  obtain r0 r2 where a: "load n s = Inr r0" "?m r0 = Inr r2" "rn_workers r' = rn_workers r2"
    "\<forall>k. k \<notin> run_field_names \<longrightarrow> dict_get (rn_fields r') k = dict_get (rn_fields r2) k"
    using update_applies [OF s(1) k2 u] by blast
  have r2: "r2 = ?r2" using a(1,2) s(2) m2 by simp
  have "journal_entries field r' = journal_entries field r1"
    using entries_of_update [OF a(4)] field_names(4)
    by (simp add: r2 set_run_updated_at_def set_run_field_def journal_entries_def journal_of_def)
  moreover have "rn_workers r' = rn_workers r1" using a(3) by (simp add: r2 set_run_updated_at_def set_run_field_def)
  moreover have "opened n r' s'"
    using update_ok [OF s(1) k2 u] update_load [OF s(1) k2 u] c by (simp add: opened_def)
  ultimately show thesis using that p by blast
qed

lemma unfenced_journal: "unfenced r (set_journal field es r)" "unfenced r (pop_journal field r)"
  using free_field by (auto simp: unfenced_def set_journal_def set_run_field_def pop_journal_def)

lemma unfenced_finalize: "unfenced r (journal_finalize field i r)"
  by (auto simp: journal_finalize_def Let_def unfenced_journal split: option.split)

lemma unfenced_change: "unfenced r (change_entry f field i r)"
  by (auto simp: change_entry_def unfenced_journal split: option.split)

text \<open>Recording an intent\<close>

lemma recording_returns:
  assumes o: "opened n r s" and run: "good_run n run" and f: "factory s r = Inr j" and j: "made_record j"
  obtains r1 s1 where "record_intent_from load update now field factory run s = (Inr (r1, j), s1)" and "opened n r1 s1"
    and "rn_workers r1 = rn_workers r" and "has_entry field (jr_id j) r1"
proof -
  let ?m = "intent_mutator field (factory s)"
  have k: "keeps_run n' ?m" for n'
    by (rule keeps_runI) (auto simp: intent_mutator_def res_bind_Inr_iff intro: keeps_runD [OF keeps_record_intent])
  obtain r0 where r0: "journal_record_intent field j r = Inr r0"
    by (simp add: journal_record_intent_def with_state [OF known_states(1)])
  have "\<exists>es. r0 = set_journal field es r"
    using r0 by (auto simp: journal_record_intent_def with_state [OF known_states(1)])
  then have u: "unfenced r r0" using unfenced_journal by auto
  have m: "?m r = Inr r0" by (simp add: intent_mutator_def f r0)
  obtain r1 s1 where p: "persist_mutation update now ?m run s = (Inr r1, s1)" and o1: "opened n r1 s1"
    and w: "rn_workers r1 = rn_workers r0" and e: "journal_entries field r1 = journal_entries field r0"
    by (rule persist_returns [OF o run k m u])
  have "recorded_intent load (factory s) run s = Inr j"
    using o f by (simp add: recorded_intent_def named_run [OF o run] opened_def)
  then have "record_intent_from load update now field factory run s = (Inr (r1, j), s1)"
    by (simp add: record_intent_from_def act_bind_def p)
  moreover have "rn_workers r1 = rn_workers r" "has_entry field (jr_id j) r1"
    using record_intent_facts(1,3) [OF r0 j] w e by (simp_all add: has_entry_def)
  ultimately show thesis using that o1 by blast
qed

lemma marking_returns:
  assumes o: "opened n r s" and run: "good_run n run" and made: "made_record j" and j: "validate_record_identity i op j = Inr j"
  obtains r1 s1 where "transaction_mark_remote_succeeded update now field i op j MISSING_INTENT_IGNORE run s = (Inr r1, s1)"
    and "opened n r1 s1" and "rn_workers r1 = rn_workers r"
proof -
  have id: "jr_id j = i" using j by (auto simp: validate_record_identity_def split: if_splits)
  let ?m = "journal_mark_remote_succeeded field i j MISSING_INTENT_IGNORE"
  have k: "keeps_run n' ?m" for n' unfolding journal_mark_remote_succeeded_def by (rule keeps_mark)
  have "\<exists>es. ?m r = Inr (set_journal field es r)"
    using entry_fields(1) [OF made] id
    by (simp add: journal_mark_remote_succeeded_def journal_mark_def require_known_missing_intent_policy_def
        require_one_of_def MISSING_INTENT_POLICIES_def MISSING_INTENT_IGNORE_def with_state [OF known_states(2)] Let_def) auto
  then obtain es where m: "?m r = Inr (set_journal field es r)" by blast
  obtain r1 s1 where "persist_mutation update now ?m run s = (Inr r1, s1)" "opened n r1 s1"
    "rn_workers r1 = rn_workers (set_journal field es r)"
    by (rule persist_returns [OF o run k m unfenced_journal(1)])
  then show thesis
    using that by (simp add: transaction_mark_remote_succeeded_def act_bind_def j persisted_mark_remote_succeeded_def
        set_journal_def set_run_field_def)
qed

lemma finalizing_returns:
  assumes o: "opened n r s" and run: "good_run n run" and k: "\<And>n. keeps_run n u" and u: "u r = Inr r0" and f: "unfenced r r0"
  obtains r1 s1 where "persisted_finalize update now field i (Some u) run s = (Inr r1, s1)" and "opened n r1 s1"
    and "rn_workers r1 = rn_workers r0" and "\<not> has_entry field i r1"
proof -
  let ?m = "with_run_update (Some u) (\<lambda>latest. Inr (journal_finalize field i latest))"
  have k': "keeps_run n' ?m" for n'
    by (rule keeps_runI)
      (auto simp: with_run_update_def res_bind_Inr_iff intro: keeps_runD [OF keeps_finalize] dest: keeps_runD [OF k])
  have m: "?m r = Inr (journal_finalize field i r0)" by (simp add: with_run_update_def u)
  obtain r1 s1 where "persist_mutation update now ?m run s = (Inr r1, s1)" "opened n r1 s1"
    "rn_workers r1 = rn_workers (journal_finalize field i r0)"
    "journal_entries field r1 = journal_entries field (journal_finalize field i r0)"
    by (rule persist_returns [OF o run k' m unfenced_trans [OF f unfenced_finalize]])
  then show thesis
    using that journal_finalize_facts(1,3) [of field i r0] by (simp add: persisted_finalize_def has_entry_def)
qed

text \<open>The whole mutation, when the server answers.\<close>

lemma mutation_returns:
  assumes o: "opened n r s" and run: "good_run n run"
    and intent: "rm_intent m s r = Inr j" and j: "made_record j" "jr_id j = i" "jr_kind j = mo_kind op"
    and call: "\<And>run1 s1. rm_call m run1 j s1 = (Inr x, s1)"
    and none: "rm_succeeded m = None" "rm_succeeded_policy m = MISSING_INTENT_IGNORE"
    and app: "rm_apply m = Some g" "\<And>s1. g s1 x j j = Inr (Some res)" "result_finalize (Some u) = Inr res"
    and k: "\<And>n. keeps_run n u"
    and u: "\<And>r1. good_run n r1 \<Longrightarrow> rn_workers r1 = rn_workers r \<Longrightarrow> \<exists>r0. u r1 = Inr r0 \<and> unfenced r1 r0 \<and> Q (rn_workers r0)"
  obtains r' s' where "run_remote_mutation load update now field i op m run s = (Inr (r', x, j), s')"
    and "opened n r' s'" and "Q (rn_workers r')" and "\<not> has_entry field i r'"
proof -
  let ?factory = "\<lambda>s latest. res_bind (rm_intent m s latest) (validate_record_identity i op)"
  have valid: "validate_record_identity i op j = Inr j" using j(2,3) by (simp add: validate_record_identity_def)
  obtain r1 s1 where 1: "record_intent_from load update now field ?factory run s = (Inr (r1, j), s1)" "opened n r1 s1"
    "rn_workers r1 = rn_workers r"
    by (rule recording_returns [where factory = ?factory, OF o run _ j(1)]) (simp_all add: intent valid)
  note g1 = opened_good [OF 1(2)]
  obtain r2 s2 where 2: "transaction_mark_remote_succeeded update now field i op j MISSING_INTENT_IGNORE r1 s1 = (Inr r2, s2)"
    "opened n r2 s2" "rn_workers r2 = rn_workers r1"
    by (rule marking_returns [OF 1(2) g1 j(1) valid])
  note g2 = opened_good [OF 2(2)]
  obtain r0 where r0: "u r2 = Inr r0" "unfenced r2 r0" "Q (rn_workers r0)" using u [OF g2] 1(3) 2(3) by auto
  obtain r' s' where 3: "persisted_finalize update now field i (Some u) r2 s2 = (Inr r', s')" "opened n r' s'"
    "rn_workers r' = rn_workers r0" "\<not> has_entry field i r'"
    by (rule finalizing_returns [OF 2(2) g2 k r0(1,2)])
  have res: "mr_applied_record res = None" "mr_outbox_action res = RESULT_FINALIZE" "mr_run_update res = Some u"
    using app(3) by (auto simp: result_finalize_def make_mutation_result_def res_bind_Inr_iff Let_def split: if_splits)
  have "after_intent i op m r1 j s1 = (Inr (r', x, j), s')"
    by (simp add: after_intent_def act_bind_def call_remote_recorded_def act_catch_def call succeeded_record_def none 2(1)
        handled_result_def app(1,2) mark_result_record_def res transaction_apply_result_def RESULT_FINALIZE_def
        RESULT_RECORD_APPLIED_def RESULT_KEEP_PENDING_def 3(1))
  then have "run_remote_mutation load update now field i op m run s = (Inr (r', x, j), s')"
    by (simp add: run_remote_mutation_eq act_bind_def 1(1))
  then show thesis using that 3(2,4) r0(3) by (simp add: 3(3))
qed

text \<open>The whole mutation, when the call raises.\<close>

lemma mutation_raises:
  assumes o: "opened n r s" and run: "good_run n run"
    and intent: "rm_intent m s r = Inr j" and j: "made_record j" "jr_id j = i" "jr_kind j = mo_kind op"
    and call: "\<And>run1 s1. rm_call m run1 j s1 = (Inl e, s1)"
  obtains r' s' where "run_remote_mutation load update now field i op m run s = (Inl e, s')"
    and "opened n r' s'" and "rn_workers r' = rn_workers r" and "uncertain field i r'"
proof -
  let ?factory = "\<lambda>s latest. res_bind (rm_intent m s latest) (validate_record_identity i op)"
  have valid: "validate_record_identity i op j = Inr j" using j(2,3) by (simp add: validate_record_identity_def)
  obtain r1 s1 where 1: "record_intent_from load update now field ?factory run s = (Inr (r1, j), s1)" "opened n r1 s1"
    "rn_workers r1 = rn_workers r" "has_entry field (jr_id j) r1"
    by (rule recording_returns [where factory = ?factory, OF o run _ j(1)]) (simp_all add: intent valid)
  let ?u = "failure_record (mo_call_remote_operation op) e (now s1)"
  let ?m = "\<lambda>latest. Inr (journal_mark_uncertain field i ?u latest)"
  have k: "keeps_run n' ?m" for n' unfolding journal_mark_uncertain_def by (rule keeps_change_entry)
  have f: "unfenced r1 (journal_mark_uncertain field i ?u r1)" by (simp add: journal_mark_uncertain_def unfenced_change)
  obtain r' s' where 2: "persist_mutation update now ?m r1 s1 = (Inr r', s')" "opened n r' s'"
    "rn_workers r' = rn_workers (journal_mark_uncertain field i ?u r1)"
    "journal_entries field r' = journal_entries field (journal_mark_uncertain field i ?u r1)"
    by (rule persist_returns [OF 1(2) opened_good [OF 1(2)] k refl f])
  have ws: "rn_workers r' = rn_workers r"
    using 2(3) 1(3) by (simp add: journal_mark_uncertain_def change_entry_facts(3) uncertain_id)
  have unc: "uncertain field i r'"
    using marked_uncertain [of field i r1 ?u] 1(4) uncertain_entries [OF 2(4)] j(2) by simp
  have "\<exists>x. mark_uncertain_best_effort update now field i (mo_call_remote_operation op) e r1 s1 = (Inr x, s')"
    by (simp add: mark_uncertain_best_effort_def best_effort_def act_bind_def act_catch_def 2(1))
  then obtain x where "mark_uncertain_best_effort update now field i (mo_call_remote_operation op) e r1 s1 = (Inr x, s')" by blast
  then have "after_intent i op m r1 j s1 = (Inl e, s')"
    by (simp add: after_intent_def act_bind_def call_remote_recorded_def act_catch_def call)
  then have "run_remote_mutation load update now field i op m run s = (Inl e, s')"
    by (simp add: run_remote_mutation_eq act_bind_def 1(1))
  then show thesis using that 2(2) ws unc by blast
qed

end

interpretation live_commands: live_outbox sound_store "load_run pf cwd" "\<lambda>name m. update_run pf cwd name m allow" now
  REMOTE_MUTATION_JOURNAL_FIELD
  for pf cwd allow now
  by unfold_locales (simp_all add: REMOTE_MUTATION_JOURNAL_FIELD_def)

end
