(* ===== verification/Schema_Helpers.thy ===== *)
theory Schema_Helpers
  imports Ocs_Prelude
begin

text \<open>
  \<open>schema_helpers.py\<close> and \<open>schema_route_contract.py\<close>: reading a payload of the server by the names that its
  versions use for a field, and the contracts that say which fields a route has. The string operations of
  Python that paths and statuses need come first.
\<close>

section \<open>Text\<close>

definition before_char :: "char \<Rightarrow> string \<Rightarrow> string" where
  "before_char c s = takeWhile (\<lambda>x. x \<noteq> c) s"

definition rstrip_char :: "char \<Rightarrow> string \<Rightarrow> string" where
  "rstrip_char c s = rev (dropWhile (\<lambda>x. x = c) (rev s))"

text \<open>\<open>str.replace\<close>: from the left, without overlaps.\<close>

fun replace_text :: "string \<Rightarrow> string \<Rightarrow> string \<Rightarrow> string" where
  "replace_text old new [] = []"
| "replace_text old new (c # cs) =
     (if old \<noteq> [] \<and> starts_with (c # cs) old then new @ replace_text old new (drop (length old - 1) cs)
      else c # replace_text old new cs)"

text \<open>\<open>str.upper\<close>; the two letters whose capital is not Latin-1 are kept.\<close>

definition upper_text :: "char \<Rightarrow> string" where
  "upper_text c = (let n = char_code c in
     if 97 \<le> n \<and> n \<le> 122 \<or> 224 \<le> n \<and> n \<le> 254 \<and> n \<noteq> 247 then [char_of (n - 32)]
     else if n = 223 then ''SS'' else [c])"

definition py_upper :: "string \<Rightarrow> string" where
  "py_upper s = concat (map upper_text s)"

text \<open>\<open>json.dumps(value, sort_keys=True)\<close>\<close>

definition json_char :: "char \<Rightarrow> string" where
  "json_char c = (let n = char_code c in
     if n = 34 \<or> n = 92 then [char_of (92::nat), c]
     else if n = 10 then [char_of (92::nat), CHR ''n'']
     else if n = 13 then [char_of (92::nat), CHR ''r'']
     else if n = 9 then [char_of (92::nat), CHR ''t'']
     else if n = 12 then [char_of (92::nat), CHR ''f'']
     else if n = 8 then [char_of (92::nat), CHR ''b'']
     else if 32 \<le> n \<and> n \<le> 126 then [c]
     else [char_of (92::nat)] @ ''u00'' @ [hex_digit (n div 16), hex_digit (n mod 16)])"

definition json_string :: "string \<Rightarrow> string" where
  "json_string s = [char_of (34::nat)] @ concat (map json_char s) @ [char_of (34::nat)]"

definition json_float :: "pyfloat \<Rightarrow> string" where
  "json_float x = (case x of
     FinFloat _ t \<Rightarrow> t
   | NonFinite t \<Rightarrow> if t = ''inf'' then ''Infinity'' else if t = ''-inf'' then ''-Infinity'' else ''NaN'')"

fun json_dumps :: "json \<Rightarrow> string" where
  "json_dumps JNull = ''null''"
| "json_dumps (JBool b) = (if b then ''true'' else ''false'')"
| "json_dumps (JInt i) = int_text i"
| "json_dumps (JFloat x) = json_float x"
| "json_dumps (JStr s) = json_string s"
| "json_dumps (JList xs) = ''['' @ join_with '', '' (map json_dumps xs) @ '']''"
| "json_dumps (JObj d) =
     ''{'' @ join_with '', '' (map (\<lambda>kt. json_string (fst kt) @ '': '' @ snd kt)
       (sort_key fst (map (\<lambda>kv. (fst kv, json_dumps (snd kv))) d))) @ ''}''"

section \<open>Aliases of field names\<close>

definition SESSION_ID_ALIASES :: "string list" where
  "SESSION_ID_ALIASES = [''sessionID'', ''sessionId'', ''session_id'']"

definition MESSAGE_ID_ALIASES :: "string list" where
  "MESSAGE_ID_ALIASES = [''messageID'', ''messageId'', ''message_id'']"

definition CAMEL_MESSAGE_ID_ALIASES :: "string list" where
  "CAMEL_MESSAGE_ID_ALIASES = [''messageID'', ''messageId'']"

definition PROMPT_ID_ALIASES :: "string list" where
  "PROMPT_ID_ALIASES = [''promptID'', ''promptId'']"

definition CALL_ID_ALIASES :: "string list" where
  "CALL_ID_ALIASES = [''callID'', ''callId'', ''call_id'']"

definition REQUEST_ID_ALIASES :: "string list" where
  "REQUEST_ID_ALIASES = [''requestID'', ''requestId'']"

definition DELIVERY_ALIASES :: "string list" where
  "DELIVERY_ALIASES = [''delivery'', ''deliveryMode'', ''mode'']"

definition STATUS_ALIASES :: "string list" where
  "STATUS_ALIASES = [''status'', ''state'', ''phase'']"

section \<open>Reading fields\<close>

definition collection_records :: "json \<Rightarrow> string list \<Rightarrow> json list" where
  "collection_records collection names =
     (case collection of
        JList xs \<Rightarrow> xs
      | JObj d \<Rightarrow> (case find (\<lambda>n. is_list (dict_get d n)) names of
            Some n \<Rightarrow> (case dict_get d n of JList xs \<Rightarrow> xs | _ \<Rightarrow> [])
          | None \<Rightarrow> [])
      | _ \<Rightarrow> [])"

definition first_present :: "json \<Rightarrow> string list \<Rightarrow> json" where
  "first_present mapping names =
     (case mapping of
        JObj d \<Rightarrow> (case find (\<lambda>n. dict_get d n \<noteq> JNull) names of Some n \<Rightarrow> dict_get d n | None \<Rightarrow> JNull)
      | _ \<Rightarrow> JNull)"

definition first_not_none :: "json list \<Rightarrow> json" where
  "first_not_none values = (case find (\<lambda>v. v \<noteq> JNull) values of Some v \<Rightarrow> v | None \<Rightarrow> JNull)"

definition child_value :: "json \<Rightarrow> string \<Rightarrow> string list \<Rightarrow> json" where
  "child_value record child_name names =
     first_present (case record of JObj d \<Rightarrow> dict_get d child_name | _ \<Rightarrow> JNull) names"

definition root_or_info_value :: "json \<Rightarrow> string list \<Rightarrow> json" where
  "root_or_info_value record names =
     (let v = first_present record names in
      if v \<noteq> JNull then v
      else first_present (case record of JObj d \<Rightarrow> dict_get d ''info'' | _ \<Rightarrow> JNull) names)"

text \<open>\<open>isinstance(value, int)\<close> holds of booleans.\<close>

fun int_number :: "json \<Rightarrow> int option" where
  "int_number (JInt i) = Some i"
| "int_number (JBool b) = Some (if b then 1 else 0)"
| "int_number _ = None"

definition normalized_tokens :: "json \<Rightarrow> json" where
  "normalized_tokens tokens =
     (case tokens of
        JObj d \<Rightarrow>
          (if dict_get d ''total'' = JNull
           then let numbers = List.map_filter (\<lambda>kv. int_number (snd kv)) d in
                JObj (if numbers \<noteq> [] then dict_set ''total'' (JInt (sum_list numbers)) d else d)
           else tokens)
      | _ \<Rightarrow> tokens)"

definition tokens_total :: "json \<Rightarrow> json" where
  "tokens_total tokens = (case normalized_tokens tokens of JObj d \<Rightarrow> dict_get d ''total'' | v \<Rightarrow> v)"

definition bool_value :: "json \<Rightarrow> bool option" where
  "bool_value v =
     (case v of
        JBool b \<Rightarrow> Some b
      | JStr s \<Rightarrow>
          (let l = py_lower s in
           if l \<in> {''true'', ''yes'', ''1'', ''accepted'', ''aborted'', ''ok'', ''success''} then Some True
           else if l \<in> {''false'', ''no'', ''0'', ''rejected'', ''failed'', ''error''} then Some False
           else None)
      | _ \<Rightarrow> None)"

definition mapping_value :: "json \<Rightarrow> string \<Rightarrow> json" where
  "mapping_value mapping name = (case mapping of
     JObj d \<Rightarrow> (if is_dict (dict_get d name) then dict_get d name else JNull) | _ \<Rightarrow> JNull)"

definition set_missing :: "string \<Rightarrow> json \<Rightarrow> jdict \<Rightarrow> jdict" where
  "set_missing name v d = (if v \<noteq> JNull \<and> dict_get d name = JNull then dict_set name v d else d)"

definition set_if_present :: "string \<Rightarrow> json \<Rightarrow> jdict \<Rightarrow> jdict" where
  "set_if_present key v d = (if v \<noteq> JNull then dict_set key v d else d)"

text \<open>\<open>None\<close> is the absent text.\<close>

definition string_value :: "json \<Rightarrow> string option" where
  "string_value v = (case v of JNull \<Rightarrow> None | JObj _ \<Rightarrow> None | JList _ \<Rightarrow> None | _ \<Rightarrow> Some (py_str v))"

definition opt_json :: "string option \<Rightarrow> json" where
  "opt_json v = (case v of None \<Rightarrow> JNull | Some s \<Rightarrow> JStr s)"

text \<open>\<open>d.setdefault(name, None)\<close>\<close>

definition default_null :: "string \<Rightarrow> jdict \<Rightarrow> jdict" where
  "default_null name d = (if dict_has d name then d else dict_set name JNull d)"

section \<open>Contracts of routes\<close>

record route_field =
  rf_name :: string
  rf_aliases :: "string list"
  rf_children :: "(string \<times> string list) list"
  rf_include_info :: bool

record route_contract =
  rc_route :: string
  rc_version :: string
  rc_fields :: "route_field list"
  rc_known_fields :: "string list"
  rc_minimum_field_sets :: "string list list"
  rc_route_paths :: "string list"
  rc_endpoint_names :: "string list"

definition field_read :: "route_field \<Rightarrow> json \<Rightarrow> json" where
  "field_read f record =
     (let v = (if rf_aliases f = [] then JNull
               else if rf_include_info f then root_or_info_value record (rf_aliases f)
               else first_present record (rf_aliases f)) in
      if v \<noteq> JNull then v
      else first_not_none (map (\<lambda>(child, aliases). child_value record child aliases) (rf_children f)))"

definition read_fields :: "route_contract \<Rightarrow> json \<Rightarrow> jdict" where
  "read_fields c record = map (\<lambda>f. (rf_name f, field_read f record)) (rc_fields c)"

text \<open>The known fields of a contract are among its fields, so \<open>fields[name]\<close> finds each.\<close>

definition has_known_shape :: "route_contract \<Rightarrow> jdict \<Rightarrow> bool" where
  "has_known_shape c flds = list_ex (\<lambda>n. dict_get flds n \<noteq> JNull) (rc_known_fields c)"

definition has_minimum_shape :: "route_contract \<Rightarrow> jdict \<Rightarrow> bool" where
  "has_minimum_shape c flds =
     (if rc_minimum_field_sets c = [] then has_known_shape c flds
      else list_ex (\<lambda>ns. list_all (\<lambda>n. dict_get flds n \<noteq> JNull) ns) (rc_minimum_field_sets c))"

definition make_field :: "string \<Rightarrow> string list \<Rightarrow> (string \<times> string list) list \<Rightarrow> bool \<Rightarrow> route_field" where
  "make_field name aliases children info =
     \<lparr>rf_name = name, rf_aliases = aliases, rf_children = children, rf_include_info = info\<rparr>"

definition route_path_key :: "json \<Rightarrow> string option" where
  "route_path_key path =
     (if path = JNull then None
      else Some (replace_text ''{requestId}'' ''{requestID}''
        (replace_text '':requestID'' ''{requestID}''
        (replace_text ''{id}'' ''{sessionID}''
        (replace_text '':id'' ''{sessionID}''
        (replace_text '':sessionID'' ''{sessionID}''
          (rstrip_char (CHR ''/'') (before_char (CHR ''?'') (py_str path)))))))))"

section \<open>What the readers find\<close>

lemma first_present_dict:
  "first_present (JObj d) names = v \<and> v \<noteq> JNull \<Longrightarrow> \<exists>n \<in> set names. dict_get d n = v"
  by (auto simp: first_present_def find_Some_iff split: option.splits)

lemma first_present_null: "first_present (JObj d) names = JNull \<longleftrightarrow> (\<forall>n \<in> set names. dict_get d n = JNull)"
  by (auto simp: first_present_def find_None_iff find_Some_iff split: option.splits)

lemma first_present_head [simp]: "dict_get d n \<noteq> JNull \<Longrightarrow> first_present (JObj d) (n # ns) = dict_get d n"
  by (simp add: first_present_def)

lemma dict_get_set_missing:
  "dict_get (set_missing k v d) k' = (if k' = k \<and> dict_get d k = JNull then v else dict_get d k')"
  by (auto simp: set_missing_def dict_get_def)

lemma set_missing_keeps: "dict_get d k' \<noteq> JNull \<Longrightarrow> dict_get (set_missing k v d) k' = dict_get d k'"
  by (auto simp: dict_get_set_missing)

lemma dict_get_default_null [simp]: "dict_get (default_null k d) k' = dict_get d k'"
  by (auto simp: default_null_def dict_get_def dict_has_iff_map_of)

lemma dict_has_default_null [simp]: "dict_has (default_null k d) k' \<longleftrightarrow> k' = k \<or> dict_has d k'"
  by (auto simp: default_null_def)

lemma dict_has_set_missing: "dict_has d k' \<Longrightarrow> dict_has (set_missing k v d) k'"
  by (simp add: set_missing_def)

lemma normalized_tokens_idem [simp]: "normalized_tokens (normalized_tokens v) = normalized_tokens v"
  by (auto simp: normalized_tokens_def Let_def dict_get_def split: json.splits)

text \<open>Filling in missing fields, one after the other\<close>

lemma dict_get_fill:
  assumes "distinct ks"
  shows "dict_get (fold (\<lambda>f. set_missing f (g f)) ks d) k =
    (if k \<in> set ks \<and> dict_get d k = JNull then g k else dict_get d k)"
  using assms by (induction ks arbitrary: d) (auto simp: dict_get_set_missing)

lemma fill_full: "\<forall>k \<in> set ks. g k \<noteq> JNull \<longrightarrow> dict_get d k \<noteq> JNull \<Longrightarrow> fold (\<lambda>f. set_missing f (g f)) ks d = d"
  by (induction ks) (auto simp: set_missing_def)

lemma dict_get_defaults [simp]: "dict_get (fold default_null ks d) k = dict_get d k"
  by (induction ks arbitrary: d) simp_all

lemma dict_has_defaults [simp]: "dict_has (fold default_null ks d) k \<longleftrightarrow> k \<in> set ks \<or> dict_has d k"
  by (induction ks arbitrary: d) auto

lemma defaults_full: "\<forall>k \<in> set ks. dict_has d k \<Longrightarrow> fold default_null ks d = d"
  by (induction ks) (auto simp: default_null_def)

text \<open>The keys that a field of a contract looks at\<close>

definition field_keys :: "route_field \<Rightarrow> string set" where
  "field_keys f = set (rf_aliases f) \<union> insert ''info'' (fst ` set (rf_children f))"

lemma first_present_cong:
  "(\<And>n. n \<in> set ns \<Longrightarrow> dict_get d n = dict_get e n) \<Longrightarrow> first_present (JObj d) ns = first_present (JObj e) ns"
  by (induction ns) (auto simp: first_present_def)

lemma field_read_cong:
  assumes "\<And>k. k \<in> field_keys f \<Longrightarrow> dict_get d k = dict_get e k"
  shows "field_read f (JObj d) = field_read f (JObj e)"
proof -
  have "first_present (JObj d) (rf_aliases f) = first_present (JObj e) (rf_aliases f)"
    by (rule first_present_cong) (simp add: assms field_keys_def)
  moreover have "dict_get d ''info'' = dict_get e ''info''" by (simp add: assms field_keys_def)
  moreover have "map (\<lambda>(child, aliases). child_value (JObj d) child aliases) (rf_children f) =
      map (\<lambda>(child, aliases). child_value (JObj e) child aliases) (rf_children f)"
  proof (rule map_cong [OF refl])
    fix x assume "x \<in> set (rf_children f)"
    then have "fst x \<in> field_keys f" by (simp add: field_keys_def)
    from assms [OF this] show "(case x of (child, aliases) \<Rightarrow> child_value (JObj d) child aliases) =
      (case x of (child, aliases) \<Rightarrow> child_value (JObj e) child aliases)"
      by (simp add: child_value_def split_def)
  qed
  ultimately show ?thesis by (simp only: field_read_def root_or_info_value_def json.case)
qed

lemma field_read_null: "field_read f (JObj d) = JNull \<Longrightarrow> n \<in> set (rf_aliases f) \<Longrightarrow> dict_get d n = JNull"
  by (auto simp: field_read_def root_or_info_value_def Let_def first_present_null split: if_splits)

lemma dict_get_read_fields:
  "distinct (map rf_name (rc_fields c)) \<Longrightarrow> f \<in> set (rc_fields c) \<Longrightarrow> dict_get (read_fields c r) (rf_name f) = field_read f r"
proof -
  assume d: "distinct (map rf_name (rc_fields c))" and f: "f \<in> set (rc_fields c)"
  have "map_of (read_fields c r) (rf_name f) = Some (field_read f r)"
    using d f by (intro map_of_is_SomeI) (force simp: read_fields_def comp_def)+
  then show ?thesis by (simp add: dict_get_def)
qed

end
