(* ===== verification/Session_Schema.thy ===== *)
theory Session_Schema
  imports Schema_Helpers
begin

text \<open>
  \<open>schema_session_adapter.py\<close>: the session records of the two generations of routes, under one set of names.
  An adapter is the contract of its route with the names under which a payload holds its records.
\<close>

section \<open>Contracts\<close>

definition SESSION_CANONICAL_FIELDS :: "string list" where
  "SESSION_CANONICAL_FIELDS = [''id'', ''directory'', ''title'', ''agent'', ''model'', ''tokens'', ''createdAt'', ''updatedAt'']"

definition SESSION_KNOWN_FIELDS :: "string list" where
  "SESSION_KNOWN_FIELDS = [''id'']"

definition API_SESSION_CONTRACT :: route_contract where
  "API_SESSION_CONTRACT =
     \<lparr>rc_route = ''session_collection'', rc_version = ''api-v1'',
      rc_fields =
        [make_field ''id'' [''id''] [] True,
         make_field ''directory'' [''directory'', ''cwd''] [(''location'', [''directory''])] True,
         make_field ''title'' [''title''] [] True,
         make_field ''agent'' [''agent''] [] True,
         make_field ''model'' [''model''] [] True,
         make_field ''tokens'' [''tokens'', ''tokenUsage'', ''usage''] [] True,
         make_field ''createdAt'' [''createdAt'', ''created''] [(''time'', [''created''])] True,
         make_field ''updatedAt'' [''updatedAt'', ''updated''] [(''time'', [''updated''])] True],
      rc_known_fields = SESSION_KNOWN_FIELDS, rc_minimum_field_sets = [[''id'']],
      rc_route_paths = [], rc_endpoint_names = []\<rparr>"

definition LEGACY_SESSION_CONTRACT :: route_contract where
  "LEGACY_SESSION_CONTRACT =
     \<lparr>rc_route = ''session_collection'', rc_version = ''legacy'',
      rc_fields =
        [make_field ''id'' (''id'' # SESSION_ID_ALIASES) [] True,
         make_field ''directory'' [''directory'', ''cwd''] [(''location'', [''directory''])] True,
         make_field ''title'' [''title'', ''name''] [] True,
         make_field ''agent'' [''agent'', ''agentID'', ''agentId'', ''agent_id''] [] True,
         make_field ''model'' [''model'', ''modelID'', ''modelId'', ''model_id''] [] True,
         make_field ''tokens'' [''tokens'', ''token'', ''tokenUsage'', ''token_usage'', ''usage''] [] True,
         make_field ''createdAt'' [''createdAt'', ''created_at'', ''created''] [(''time'', [''created''])] True,
         make_field ''updatedAt'' [''updatedAt'', ''updated_at'', ''updated''] [(''time'', [''updated''])] True],
      rc_known_fields = SESSION_KNOWN_FIELDS, rc_minimum_field_sets = [[''id'']],
      rc_route_paths = [], rc_endpoint_names = []\<rparr>"

definition UNKNOWN_SESSION_CONTRACT :: route_contract where
  "UNKNOWN_SESSION_CONTRACT =
     \<lparr>rc_route = ''session_collection'', rc_version = ''unknown'', rc_fields = [], rc_known_fields = [],
      rc_minimum_field_sets = [], rc_route_paths = [], rc_endpoint_names = []\<rparr>"

record session_adapter =
  sa_contract :: route_contract
  sa_collection_names :: "string list"
  sa_unknown :: bool

definition API_SESSION_ADAPTER :: session_adapter where
  "API_SESSION_ADAPTER =
     \<lparr>sa_contract = API_SESSION_CONTRACT, sa_collection_names = [''data'', ''sessions''], sa_unknown = False\<rparr>"

definition LEGACY_SESSION_ADAPTER :: session_adapter where
  "LEGACY_SESSION_ADAPTER =
     \<lparr>sa_contract = LEGACY_SESSION_CONTRACT, sa_collection_names = [''sessions'', ''children'', ''data''], sa_unknown = False\<rparr>"

definition UNKNOWN_SESSION_ADAPTER :: session_adapter where
  "UNKNOWN_SESSION_ADAPTER = \<lparr>sa_contract = UNKNOWN_SESSION_CONTRACT, sa_collection_names = [], sa_unknown = True\<rparr>"

definition session_route_key :: "json \<Rightarrow> json \<Rightarrow> string option" where
  "session_route_key route_path route_plan =
     (let path = (if route_path \<noteq> JNull then route_path
                  else case route_plan of JObj d \<Rightarrow> dict_get d ''session_collection'' | _ \<Rightarrow> JNull)
      in if path = JNull then None else Some (rstrip_char (CHR ''/'') (before_char (CHR ''?'') (py_str path))))"

definition session_adapter_for_route :: "json \<Rightarrow> json \<Rightarrow> session_adapter" where
  "session_adapter_for_route route_path route_plan =
     (case session_route_key route_path route_plan of
        None \<Rightarrow> LEGACY_SESSION_ADAPTER
      | Some k \<Rightarrow> if k = ''/api/session'' then API_SESSION_ADAPTER
                  else if k = ''/session'' then LEGACY_SESSION_ADAPTER else UNKNOWN_SESSION_ADAPTER)"

section \<open>Normalising\<close>

definition unknown_session_record :: "json \<Rightarrow> json" where
  "unknown_session_record raw =
     JObj (map (\<lambda>f. (f, JNull)) SESSION_CANONICAL_FIELDS @ [(''schema_status'', JStr ''unknown''), (''raw'', raw)])"

definition require_session_canonical_fields :: "jdict \<Rightarrow> jdict" where
  "require_session_canonical_fields d = fold default_null SESSION_CANONICAL_FIELDS d"

definition apply_session_fields :: "jdict \<Rightarrow> jdict \<Rightarrow> jdict" where
  "apply_session_fields flds d =
     require_session_canonical_fields
       (fold (\<lambda>f. set_missing f (if f = ''tokens'' then normalized_tokens (dict_get flds f) else dict_get flds f))
         SESSION_CANONICAL_FIELDS d)"

lemma size_dict_get: "dict_get d k \<noteq> JNull \<Longrightarrow> size (dict_get d k) < size (JObj d)"
proof -
  assume "dict_get d k \<noteq> JNull"
  then obtain v where v: "map_of d k = Some v" by (auto simp: dict_get_def split: option.splits)
  then have "size v < size (JObj d)" by (induction d) (auto split: if_splits)
  then show ?thesis using v by (simp add: dict_get_def)
qed

function normalize_session_record :: "session_adapter \<Rightarrow> json \<Rightarrow> json" where
  "normalize_session_record a record =
     (if sa_unknown a then unknown_session_record record
      else case record of
        JObj d \<Rightarrow>
          (if is_dict (dict_get d ''data'')
           then JObj (dict_set ''data'' (normalize_session_record a (dict_get d ''data'')) d)
           else let flds = read_fields (sa_contract a) record in
             if \<not> has_known_shape (sa_contract a) flds then unknown_session_record record
             else JObj (apply_session_fields flds (dict_set ''schema_status'' (JStr ''known'') d)))
      | _ \<Rightarrow> unknown_session_record record)"
  by pat_completeness auto

termination
  by (relation "measure (\<lambda>(a, r). size r)") (auto intro!: size_dict_get [simplified])

declare normalize_session_record.simps [simp del]

definition collection_key :: "session_adapter \<Rightarrow> jdict \<Rightarrow> string option" where
  "collection_key a d =
     find (\<lambda>n. is_list (dict_get d n) \<or> n = ''data'' \<and> is_dict (dict_get d n)) (sa_collection_names a)"

definition normalize_session_payload :: "session_adapter \<Rightarrow> json \<Rightarrow> json" where
  "normalize_session_payload a payload =
     (if sa_unknown a then unknown_session_record payload
      else case payload of
        JList xs \<Rightarrow> JList (map (normalize_session_record a) xs)
      | JObj d \<Rightarrow>
          (case collection_key a d of
             Some n \<Rightarrow> JObj (dict_set n (case dict_get d n of
                 JList xs \<Rightarrow> JList (map (normalize_session_record a) xs)
               | v \<Rightarrow> normalize_session_record a v) d)
           | None \<Rightarrow> normalize_session_record a payload)
      | _ \<Rightarrow> unknown_session_record payload)"

definition collection_sessions :: "json \<Rightarrow> json list" where
  "collection_sessions collection = collection_records collection [''sessions'', ''children'', ''data'']"

definition session_record :: "json \<Rightarrow> json" where
  "session_record session =
     (case session of
        JObj d \<Rightarrow> (if is_dict (dict_get d ''data'') then dict_get d ''data'' else session)
      | _ \<Rightarrow> JObj [])"

definition session_value :: "json \<Rightarrow> string list \<Rightarrow> json \<Rightarrow> json \<Rightarrow> json" where
  "session_value session names route_path route_plan =
     (case normalize_session_record (session_adapter_for_route route_path route_plan) (session_record session) of
        JObj d \<Rightarrow>
          (if dict_get d ''schema_status'' = JStr ''unknown'' then JNull
           else case find (\<lambda>f. list_ex (\<lambda>n. n \<in> set (rf_aliases f)) names) (rc_fields LEGACY_SESSION_CONTRACT) of
               Some f \<Rightarrow> dict_get d (rf_name f) | None \<Rightarrow> JNull)
      | _ \<Rightarrow> JNull)"

section \<open>A session is normalised once\<close>

definition session_fill :: "jdict \<Rightarrow> string \<Rightarrow> json" where
  "session_fill flds f = (if f = ''tokens'' then normalized_tokens (dict_get flds f) else dict_get flds f)"

lemma apply_session_fields_eq:
  "apply_session_fields flds d =
    fold default_null SESSION_CANONICAL_FIELDS (fold (\<lambda>f. set_missing f (session_fill flds f)) SESSION_CANONICAL_FIELDS d)"
  by (simp add: apply_session_fields_def require_session_canonical_fields_def session_fill_def)

lemma canonical_distinct: "distinct SESSION_CANONICAL_FIELDS" "''schema_status'' \<notin> set SESSION_CANONICAL_FIELDS"
  "''data'' \<notin> set SESSION_CANONICAL_FIELDS" "set SESSION_CANONICAL_FIELDS \<noteq> {}"
  by (simp_all add: SESSION_CANONICAL_FIELDS_def)

lemma normalized_tokens_null [simp]: "normalized_tokens v = JNull \<longleftrightarrow> v = JNull"
  by (auto simp: normalized_tokens_def Let_def split: json.splits if_splits)

lemma session_fill_null [simp]: "session_fill flds f = JNull \<longleftrightarrow> dict_get flds f = JNull"
  by (simp add: session_fill_def)

lemma get_session_fields:
  "dict_get (apply_session_fields flds d) k =
    (if k \<in> set SESSION_CANONICAL_FIELDS \<and> dict_get d k = JNull then session_fill flds k else dict_get d k)"
  unfolding apply_session_fields_eq dict_get_defaults by (rule dict_get_fill [OF canonical_distinct(1)])

text \<open>
  A contract reads a canonical field by its own name first, and looks for it under names that are canonical
  for no field.
\<close>

definition separate_contract :: "route_contract \<Rightarrow> bool" where
  "separate_contract c \<longleftrightarrow> map rf_name (rc_fields c) = SESSION_CANONICAL_FIELDS \<and>
     (\<forall>f \<in> set (rc_fields c). rf_name f \<in> set (rf_aliases f) \<and>
        (\<forall>k \<in> field_keys f. k \<noteq> rf_name f \<longrightarrow> k \<notin> insert ''schema_status'' (set SESSION_CANONICAL_FIELDS))) \<and>
     rc_known_fields c = [''id'']"

lemma contracts_separate: "separate_contract API_SESSION_CONTRACT" "separate_contract LEGACY_SESSION_CONTRACT"
  by (simp_all add: separate_contract_def API_SESSION_CONTRACT_def LEGACY_SESSION_CONTRACT_def make_field_def field_keys_def
      SESSION_CANONICAL_FIELDS_def SESSION_KNOWN_FIELDS_def SESSION_ID_ALIASES_def)

text \<open>Reading a record again, after its fields were filled in, finds nothing new.\<close>

lemma read_again:
  assumes c: "separate_contract c" and k: "k \<in> set SESSION_CANONICAL_FIELDS"
    and e: "e = apply_session_fields (read_fields c (JObj d)) (dict_set ''schema_status'' (JStr ''known'') d)"
    and null: "dict_get e k = JNull"
  shows "dict_get (read_fields c (JObj e)) k = JNull"
proof -
  have names: "map rf_name (rc_fields c) = SESSION_CANONICAL_FIELDS" using c by (simp add: separate_contract_def)
  then obtain f where f: "f \<in> set (rc_fields c)" "rf_name f = k" using k by (metis (no_types, lifting) ex_map_conv imageE set_map)
  have d: "distinct (map rf_name (rc_fields c))" using names canonical_distinct(1) by simp
  note read = dict_get_read_fields [OF d f(1), unfolded f(2)]
  have status: "k \<noteq> ''schema_status''" using k canonical_distinct(2) by auto
  have "session_fill (read_fields c (JObj d)) k = JNull \<and> dict_get d k = JNull"
    using null k status by (simp add: e get_session_fields split: if_splits)
  then have 1: "field_read f (JObj d) = JNull" and 2: "dict_get d k = JNull" by (simp_all add: read)
  have "dict_get d x = dict_get e x" if x: "x \<in> field_keys f" for x
  proof (cases "x = k")
    case False
    then have "x \<notin> insert ''schema_status'' (set SESSION_CANONICAL_FIELDS)"
      using c f x by (auto simp: separate_contract_def)
    then show ?thesis by (simp add: e get_session_fields)
  qed (use null 2 in simp)
  then have "field_read f (JObj e) = JNull" using field_read_cong [of f d e] 1 by simp
  then show ?thesis by (simp add: read)
qed

lemma session_normalised:
  assumes a: "a \<in> {API_SESSION_ADAPTER, LEGACY_SESSION_ADAPTER}" and plain: "\<not> is_dict (dict_get d ''data'')"
    and known: "has_known_shape (sa_contract a) (read_fields (sa_contract a) (JObj d))"
  obtains e where "normalize_session_record a (JObj d) = JObj e" and "normalize_session_record a (JObj e) = JObj e"
    and "dict_get e ''schema_status'' = JStr ''known''" and "\<forall>f \<in> set SESSION_CANONICAL_FIELDS. dict_has e f"
    and "\<forall>k. k \<noteq> ''schema_status'' \<longrightarrow> dict_get d k \<noteq> JNull \<longrightarrow> dict_get e k = dict_get d k"
proof -
  let ?c = "sa_contract a"
  have c: "separate_contract ?c" and u: "\<not> sa_unknown a"
    using a contracts_separate by (auto simp: API_SESSION_ADAPTER_def LEGACY_SESSION_ADAPTER_def)
  define d1 where "d1 = dict_set ''schema_status'' (JStr ''known'') d"
  define e where "e = apply_session_fields (read_fields ?c (JObj d)) d1"
  have n1: "normalize_session_record a (JObj d) = JObj e"
    using u plain known by (simp add: normalize_session_record.simps [of a "JObj d"] e_def d1_def)
  have get: "dict_get e k = (if k \<in> set SESSION_CANONICAL_FIELDS \<and> dict_get d1 k = JNull
      then session_fill (read_fields ?c (JObj d)) k else dict_get d1 k)" for k
    by (simp add: e_def get_session_fields)
  have status: "dict_get e ''schema_status'' = JStr ''known''"
    using canonical_distinct(2) by (simp add: get d1_def)
  have plain': "\<not> is_dict (dict_get e ''data'')"
    using plain canonical_distinct(3) by (simp add: get d1_def)
  have all: "\<forall>f \<in> set SESSION_CANONICAL_FIELDS. dict_has e f" by (simp add: e_def apply_session_fields_eq)
  have "dict_get (read_fields ?c (JObj e)) ''id'' \<noteq> JNull"
  proof -
    have id: "''id'' \<in> set SESSION_CANONICAL_FIELDS" by (simp add: SESSION_CANONICAL_FIELDS_def)
    have "dict_get (read_fields ?c (JObj d)) ''id'' \<noteq> JNull"
      using known c by (simp add: has_known_shape_def separate_contract_def)
    then have e_id: "dict_get e ''id'' \<noteq> JNull" using id by (simp add: get)
    have names: "map rf_name (rc_fields ?c) = SESSION_CANONICAL_FIELDS" using c by (simp add: separate_contract_def)
    then obtain f where f: "f \<in> set (rc_fields ?c)" "rf_name f = ''id''"
      using id by (metis (no_types, lifting) ex_map_conv imageE set_map)
    have "''id'' \<in> set (rf_aliases f)" using c f by (auto simp: separate_contract_def)
    then have "field_read f (JObj e) \<noteq> JNull" using field_read_null [of f e "''id''"] e_id by blast
    moreover have "distinct (map rf_name (rc_fields ?c))" using names canonical_distinct(1) by simp
    ultimately show ?thesis using dict_get_read_fields [of ?c f "JObj e"] f by simp
  qed
  then have known': "has_known_shape ?c (read_fields ?c (JObj e))"
    using c by (simp add: has_known_shape_def separate_contract_def)
  have "dict_set ''schema_status'' (JStr ''known'') e = e"
    using status by (intro dict_set_same) (auto simp: dict_get_def split: option.splits)
  moreover have "apply_session_fields (read_fields ?c (JObj e)) e = e"
    unfolding apply_session_fields_eq
  proof (subst fill_full)
    show "\<forall>k \<in> set SESSION_CANONICAL_FIELDS. session_fill (read_fields ?c (JObj e)) k \<noteq> JNull \<longrightarrow> dict_get e k \<noteq> JNull"
      using read_again [OF c _ e_def [unfolded d1_def]] by auto
  qed (rule defaults_full [OF all])
  ultimately have "normalize_session_record a (JObj e) = JObj e"
    using u plain' known' by (simp add: normalize_session_record.simps [of a "JObj e"])
  moreover have "dict_get e k = dict_get d k" if "k \<noteq> ''schema_status''" "dict_get d k \<noteq> JNull" for k
    using that by (simp add: get d1_def)
  ultimately show thesis using that [OF n1 _ status all] by blast
qed

end
