(* ===== verification/Message_Schema.thy ===== *)
theory Message_Schema
  imports Schema_Helpers Status
begin

text \<open>
  \<open>schema_message_codecs.py\<close> and \<open>schema_message_adapter.py\<close>: the messages of the blocking route and of the
  legacy routes under one set of names, with the failure that the provider reports and what is missing for
  the caller. An adapter is the contract of its route.
\<close>

section \<open>Contracts\<close>

definition MESSAGE_CANONICAL_FIELDS :: "string list" where
  "MESSAGE_CANONICAL_FIELDS = [''id'', ''role'', ''status'', ''raw_status'', ''cost'', ''tokens'', ''text'']"

definition MESSAGE_KNOWN_FIELDS :: "string list" where
  "MESSAGE_KNOWN_FIELDS = [''id'', ''role'', ''status'', ''text'', ''error'']"

definition MESSAGE_TEXT_FIELDS :: "string list" where
  "MESSAGE_TEXT_FIELDS = [''text'', ''content'']"

definition MESSAGE_ERROR_FIELDS :: "string list" where
  "MESSAGE_ERROR_FIELDS = [''error'', ''reason'', ''message'']"

definition SESSION_MESSAGE_ROUTE :: string where "SESSION_MESSAGE_ROUTE = ''session_message''"
definition LEGACY_MESSAGE_ROUTE :: string where "LEGACY_MESSAGE_ROUTE = ''legacy_run_reply''"
definition SESSION_MESSAGE_PATH :: string where "SESSION_MESSAGE_PATH = ''/session/{sessionID}/message''"
definition LEGACY_RUN_PATH :: string where "LEGACY_RUN_PATH = ''/session/{sessionID}/run''"
definition LEGACY_REPLY_PATH :: string where "LEGACY_REPLY_PATH = ''/session/{sessionID}/reply''"

definition SESSION_MESSAGE_CONTRACT :: route_contract where
  "SESSION_MESSAGE_CONTRACT =
     \<lparr>rc_route = SESSION_MESSAGE_ROUTE, rc_version = ''session-message'',
      rc_fields =
        [make_field ''id'' (''id'' # CAMEL_MESSAGE_ID_ALIASES) [] True,
         make_field ''role'' [''role''] [] True,
         make_field ''status'' [''status'', ''state''] [] True,
         make_field ''cost'' [''cost''] [] True,
         make_field ''tokens'' [''tokens'', ''tokenUsage'', ''usage''] [] True,
         make_field ''text'' MESSAGE_TEXT_FIELDS [] True,
         make_field ''error'' MESSAGE_ERROR_FIELDS [] True],
      rc_known_fields = MESSAGE_KNOWN_FIELDS,
      rc_minimum_field_sets = [[''error''], [''status''], [''id'', ''text'']],
      rc_route_paths = [SESSION_MESSAGE_PATH], rc_endpoint_names = [''blocking_message'']\<rparr>"

definition LEGACY_MESSAGE_CONTRACT :: route_contract where
  "LEGACY_MESSAGE_CONTRACT =
     \<lparr>rc_route = LEGACY_MESSAGE_ROUTE, rc_version = ''legacy-run-reply'',
      rc_fields =
        [make_field ''id'' (''id'' # MESSAGE_ID_ALIASES) [] True,
         make_field ''role'' [''role'', ''author'', ''speaker'', ''type'', ''kind''] [] True,
         make_field ''status'' [''status'', ''state'', ''phase''] [] True,
         make_field ''cost'' [''cost''] [] True,
         make_field ''tokens'' [''tokens'', ''token'', ''tokenUsage'', ''token_usage'', ''usage''] [] True,
         make_field ''text'' MESSAGE_TEXT_FIELDS [] True,
         make_field ''error'' MESSAGE_ERROR_FIELDS [] True],
      rc_known_fields = MESSAGE_KNOWN_FIELDS,
      rc_minimum_field_sets = [[''error''], [''status''], [''id'']],
      rc_route_paths = [LEGACY_RUN_PATH, LEGACY_REPLY_PATH], rc_endpoint_names = [''legacy_run'', ''legacy_reply'']\<rparr>"

definition UNKNOWN_MESSAGE_CONTRACT :: route_contract where
  "UNKNOWN_MESSAGE_CONTRACT =
     \<lparr>rc_route = ''unknown'', rc_version = ''unknown'', rc_fields = [], rc_known_fields = [],
      rc_minimum_field_sets = [], rc_route_paths = [], rc_endpoint_names = []\<rparr>"

definition contract_for_path :: "route_contract list \<Rightarrow> string option \<Rightarrow> route_contract option" where
  "contract_for_path cs key = find (\<lambda>c. list_ex (\<lambda>p. route_path_key (JStr p) = key) (rc_route_paths c)) cs"

definition MESSAGE_CODECS :: "route_contract list" where
  "MESSAGE_CODECS = [SESSION_MESSAGE_CONTRACT, LEGACY_MESSAGE_CONTRACT]"

definition message_codec_for_route :: "json \<Rightarrow> route_contract" where
  "message_codec_for_route route =
     (if route = JNull then LEGACY_MESSAGE_CONTRACT
      else case find (\<lambda>c. JStr (rc_route c) = route) MESSAGE_CODECS of
          Some c \<Rightarrow> c
        | None \<Rightarrow> (case contract_for_path MESSAGE_CODECS (route_path_key route) of
            Some c \<Rightarrow> c | None \<Rightarrow> UNKNOWN_MESSAGE_CONTRACT))"

definition message_codec_for_endpoint :: "string \<Rightarrow> json \<Rightarrow> route_contract" where
  "message_codec_for_endpoint endpoint route_path =
     (case contract_for_path MESSAGE_CODECS (route_path_key route_path) of
        Some c \<Rightarrow> c
      | None \<Rightarrow> (case find (\<lambda>c. endpoint \<in> set (rc_endpoint_names c)) MESSAGE_CODECS of
          Some c \<Rightarrow> c | None \<Rightarrow> UNKNOWN_MESSAGE_CONTRACT))"

section \<open>Texts and failures\<close>

text \<open>\<open>data\<close> is unwrapped once; what is no dict counts as empty.\<close>

definition message_record :: "json \<Rightarrow> jdict" where
  "message_record message =
     (case message of
        JObj d \<Rightarrow> (case dict_get d ''data'' of JObj e \<Rightarrow> e | _ \<Rightarrow> d)
      | _ \<Rightarrow> [])"

text \<open>\<open>str.join\<close> raises on an item that is not text.\<close>

definition part_text :: "json \<Rightarrow> string result" where
  "part_text part =
     (case part of
        JObj d \<Rightarrow>
          (if dict_get d ''type'' = JStr ''text''
           then (case map_of d ''text'' of
               None \<Rightarrow> Inr [] | Some (JStr s) \<Rightarrow> Inr s
             | Some _ \<Rightarrow> Inl (TypeError ''sequence item: expected str instance''))
           else Inr [])
      | _ \<Rightarrow> Inr [])"

definition message_text_from_fields :: "jdict \<Rightarrow> jdict \<Rightarrow> json result" where
  "message_text_from_fields message flds =
     (if dict_get flds ''text'' \<noteq> JNull then Inr (dict_get flds ''text'')
      else case dict_get message ''parts'' of
          JList parts \<Rightarrow> res_bind (res_map part_text parts) (\<lambda>ts. Inr (JStr (concat ts)))
        | _ \<Rightarrow> Inr (JStr []))"

definition truthy_or :: "json \<Rightarrow> json \<Rightarrow> json" where
  "truthy_or a b = (if py_truthy a then a else b)"

definition message_raw_status :: "jdict \<Rightarrow> json \<Rightarrow> json" where
  "message_raw_status message alternative =
     truthy_or (dict_get message ''raw_status'') (truthy_or (dict_get message ''status'') alternative)"

definition provider_error :: "jdict \<Rightarrow> json" where
  "provider_error e = truthy_or (dict_get e ''message'') (JStr (json_dumps (JObj e)))"

text \<open>\<open>JNull\<close> is no failure.\<close>

definition message_provider_failure :: "jdict \<Rightarrow> json" where
  "message_provider_failure record =
     (let status = py_lower (py_str (message_raw_status record (JStr [])));
          error = dict_get record ''error'' in
      if status \<notin> {''failed'', ''error'', ''errored''}
      then (if status = [] \<and> py_truthy error
            then (case error of JObj e \<Rightarrow> provider_error e | _ \<Rightarrow> JStr (py_str error))
            else JNull)
      else (case error of JObj e \<Rightarrow> provider_error e | _ \<Rightarrow> truthy_or error (JStr status)))"

definition MESSAGE_REQUIRE_ID :: string where "MESSAGE_REQUIRE_ID = ''message_id''"
definition MESSAGE_REQUIRE_FINAL_ASSISTANT :: string where "MESSAGE_REQUIRE_FINAL_ASSISTANT = ''final_assistant''"

definition TERMINAL_MESSAGE_STATUSES :: "string set" where
  "TERMINAL_MESSAGE_STATUSES = {''done'', ''failed'', ''aborted'', ''timeout''}"

definition has_message_text :: "jdict \<Rightarrow> bool" where
  "has_message_text record \<longleftrightarrow> dict_get record ''text'' \<notin> {JNull, JStr []}"

definition has_explicit_terminal_status :: "jdict \<Rightarrow> bool" where
  "has_explicit_terminal_status record \<longleftrightarrow>
     (let raw = message_raw_status record JNull in
      raw \<noteq> JNull \<and> (case short_status raw of Some s \<Rightarrow> s \<in> TERMINAL_MESSAGE_STATUSES | None \<Rightarrow> False))"

definition incomplete_message_reason :: "jdict \<Rightarrow> string option \<Rightarrow> string \<Rightarrow> string option result" where
  "incomplete_message_reason record requirement label =
     (case requirement of
        None \<Rightarrow> Inr None
      | Some r \<Rightarrow>
          if r = MESSAGE_REQUIRE_ID
          then Inr (if py_truthy (dict_get record ''id'') then None else Some (''missing '' @ label @ '' message id''))
          else if r = MESSAGE_REQUIRE_FINAL_ASSISTANT
          then Inr (if \<not> py_truthy (dict_get record ''id'') then Some (''missing '' @ label @ '' message id'')
                    else if has_message_text record \<or> has_explicit_terminal_status record then None
                    else Some ''missing assistant text or explicit terminal status'')
          else Inl (ValueError (''unknown message requirement: '' @ r)))"

section \<open>Normalising\<close>

definition unknown_message_record :: "json \<Rightarrow> jdict" where
  "unknown_message_record raw =
     dict_set ''raw'' raw (dict_set ''schema_status'' (JStr ''unknown'')
       (dict_set ''text'' (JStr []) (map (\<lambda>f. (f, JNull)) MESSAGE_CANONICAL_FIELDS)))"

text \<open>\<open>text\<close> is a canonical field, so the last default never applies.\<close>

definition require_message_canonical_fields :: "jdict \<Rightarrow> jdict" where
  "require_message_canonical_fields d = fold default_null MESSAGE_CANONICAL_FIELDS d"

record message_result =
  mg_record :: jdict
  mg_fields :: jdict
  mg_known :: bool
  mg_provider_failure :: json
  mg_incomplete_reason :: "string option"

definition set_message_status :: "json \<Rightarrow> jdict \<Rightarrow> jdict" where
  "set_message_status raw d =
     (if raw = JNull then d
      else let s = opt_json (short_status raw); e = dict_set ''status'' s d in
        if s \<noteq> raw then dict_set ''raw_status'' raw e else e)"

definition apply_message_fields :: "jdict \<Rightarrow> json \<Rightarrow> jdict \<Rightarrow> jdict" where
  "apply_message_fields flds txt d =
     require_message_canonical_fields
       (set_missing ''error'' (dict_get flds ''error'')
       (set_missing ''text'' txt
       (set_missing ''tokens'' (normalized_tokens (dict_get flds ''tokens''))
       (set_missing ''cost'' (dict_get flds ''cost'')
       (set_message_status (dict_get flds ''status'')
       (set_missing ''role'' (dict_get flds ''role'')
       (set_missing ''id'' (dict_get flds ''id'') d)))))))"

definition unknown_result :: "json \<Rightarrow> jdict \<Rightarrow> message_result" where
  "unknown_result raw flds = \<lparr>mg_record = unknown_message_record raw, mg_fields = flds, mg_known = False,
     mg_provider_failure = JNull, mg_incomplete_reason = None\<rparr>"

definition normalize_message_result ::
  "route_contract \<Rightarrow> json \<Rightarrow> string option \<Rightarrow> string \<Rightarrow> message_result result" where
  "normalize_message_result c message requirement label =
     (if \<not> is_dict message then Inr (unknown_result message [])
      else let m = message_record message; flds = read_fields c (JObj m) in
        if \<not> has_known_shape c flds then Inr (unknown_result (JObj m) flds)
        else res_bind (message_text_from_fields m flds) (\<lambda>txt.
             let d = apply_message_fields flds txt m in
             res_bind (incomplete_message_reason d requirement label) (\<lambda>reason.
             Inr \<lparr>mg_record = d, mg_fields = flds, mg_known = True,
                  mg_provider_failure = message_provider_failure d, mg_incomplete_reason = reason\<rparr>)))"

definition normalize_message_record :: "json \<Rightarrow> json \<Rightarrow> jdict result" where
  "normalize_message_record message route =
     res_bind (normalize_message_result (message_codec_for_route route) message None ''message'') (\<lambda>r. Inr (mg_record r))"

definition iter_message_records :: "json \<Rightarrow> json list" where
  "iter_message_records data =
     (case data of
        JObj d \<Rightarrow>
          filter is_dict (map (dict_get d) [''message'', ''assistant'', ''reply'', ''output'']) @
          concat (map (\<lambda>k. case dict_get d k of JList xs \<Rightarrow> filter is_dict xs | _ \<Rightarrow> [])
            [''messages'', ''items'', ''entries''])
      | _ \<Rightarrow> [])"

definition message_value :: "json \<Rightarrow> string list \<Rightarrow> json \<Rightarrow> json result" where
  "message_value message names route =
     res_bind (normalize_message_record message route) (\<lambda>d.
     Inr (if dict_get d ''schema_status'' = JStr ''unknown'' then JNull
          else case find (\<lambda>f. list_ex (\<lambda>n. n \<in> set (rf_aliases f)) names) (rc_fields LEGACY_MESSAGE_CONTRACT) of
              Some f \<Rightarrow> dict_get d (rf_name f) | None \<Rightarrow> JNull))"

definition message_tokens :: "json \<Rightarrow> json \<Rightarrow> json" where
  "message_tokens message route =
     (let m = message_record message; c = message_codec_for_route route; flds = read_fields c (JObj m) in
      if route \<noteq> JNull \<and> \<not> has_known_shape c flds then JNull else normalized_tokens (dict_get flds ''tokens''))"

definition message_text :: "json \<Rightarrow> json \<Rightarrow> json result" where
  "message_text message route =
     (let m = message_record message; c = message_codec_for_route route; flds = read_fields c (JObj m) in
      if route \<noteq> JNull \<and> \<not> has_known_shape c flds then Inr (JStr []) else message_text_from_fields m flds)"

end
