(* ===== verification/Event_Schema.thy ===== *)
theory Event_Schema
  imports Schema_Helpers Status
begin

text \<open>
  \<open>schema_event_codecs.py\<close> and \<open>schema_event_adapter.py\<close>: an event of the server is decoded by the codec of
  its route, classified by its type and by the details it carries, and recorded under one set of names; an
  event of another session is recorded as ignored, and one that is not recognised as unknown.
\<close>

section \<open>Names\<close>

definition EVENT_MESSAGE_ID_FIELDS :: "string list" where
  "EVENT_MESSAGE_ID_FIELDS = MESSAGE_ID_ALIASES @ PROMPT_ID_ALIASES"

definition EVENT_STATUS_FIELDS :: "string list" where "EVENT_STATUS_FIELDS = [''status'', ''state'']"

definition EVENT_CALL_ID_FIELDS :: "string list" where
  "EVENT_CALL_ID_FIELDS = [''callID'', ''callId'', ''toolCallID'', ''toolCallId'', ''tool_call_id'']"

definition EVENT_STEP_FIELDS :: "string list" where "EVENT_STEP_FIELDS = [''stepID'', ''stepId'', ''step_id'']"

definition EVENT_TOOL_NAME_FIELDS :: "string list" where "EVENT_TOOL_NAME_FIELDS = [''toolName'', ''tool_name'']"

definition EVENT_PERMISSION_ID_FIELDS :: "string list" where
  "EVENT_PERMISSION_ID_FIELDS = [''permissionID'', ''permissionId'', ''permission_id'']"

definition EVENT_QUESTION_ID_FIELDS :: "string list" where
  "EVENT_QUESTION_ID_FIELDS = [''questionID'', ''questionId'', ''question_id'']"

definition EVENT_BLOCKER_ID_FIELDS :: "string list" where
  "EVENT_BLOCKER_ID_FIELDS = [''blockerID'', ''blockerId'', ''blocker_id'']"

definition BLOCKER_EVENT_TYPES :: "string list" where
  "BLOCKER_EVENT_TYPES = [''permission.requested'', ''question.requested'', ''blocker.requested'']"

definition ADMISSION_EVENT_TYPES :: "string list" where
  "ADMISSION_EVENT_TYPES = [''session.prompt.admitted'', ''session.prompt.promoted'', ''session.prompt.queued'']"

definition PROMPT_EVENT_TYPES :: "string list" where
  "PROMPT_EVENT_TYPES = [''session.prompt.started'', ''session.prompt.updated'', ''session.prompt.completed'']"

definition STEP_EVENT_TYPES :: "string list" where
  "STEP_EVENT_TYPES = [''session.step.started'', ''session.step.updated'', ''session.step.completed'']"

definition STATUS_EVENT_TYPES :: "string list" where "STATUS_EVENT_TYPES = [''session.status'', ''session.idle'']"

definition TEXT_EVENT_TYPES :: "string list" where
  "TEXT_EVENT_TYPES = [''message.part.updated'', ''message.part.delta'', ''message.text.delta'']"

definition TOOL_EVENT_TYPES :: "string list" where
  "TOOL_EVENT_TYPES = [''tool.execute.started'', ''tool.execute.updated'', ''tool.execute.completed'']"

definition ERROR_EVENT_TYPES :: "string list" where
  "ERROR_EVENT_TYPES = [''message.error'', ''session.error'', ''tool.execute.error'']"

definition EVENT_ROUTE_FIELDS :: "route_field list" where
  "EVENT_ROUTE_FIELDS =
     [make_field ''session_id'' SESSION_ID_ALIASES [] False,
      make_field ''message_id'' EVENT_MESSAGE_ID_FIELDS [] False,
      make_field ''status'' EVENT_STATUS_FIELDS [] False,
      make_field ''delivery'' DELIVERY_ALIASES [] False,
      make_field ''text'' [''delta'', ''text'', ''content''] [] False,
      make_field ''call_id'' EVENT_CALL_ID_FIELDS [] False,
      make_field ''step'' (''step'' # EVENT_STEP_FIELDS) [] False,
      make_field ''title'' [''title'', ''description''] [] False,
      make_field ''blocker_id'' (EVENT_PERMISSION_ID_FIELDS @ EVENT_QUESTION_ID_FIELDS @ EVENT_BLOCKER_ID_FIELDS) [] False,
      make_field ''question'' [''question'', ''prompt'', ''title''] [] False]"

definition event_contract :: "string \<Rightarrow> route_field list \<Rightarrow> string list \<Rightarrow> route_contract" where
  "event_contract version fs paths =
     \<lparr>rc_route = ''event'', rc_version = version, rc_fields = fs, rc_known_fields = [],
      rc_minimum_field_sets = [], rc_route_paths = paths, rc_endpoint_names = []\<rparr>"

definition API_EVENT_ROUTE :: string where "API_EVENT_ROUTE = ''/api/event''"

definition API_EVENT_CONTRACT :: route_contract where
  "API_EVENT_CONTRACT = event_contract ''api-v1'' EVENT_ROUTE_FIELDS [API_EVENT_ROUTE]"

definition LEGACY_EVENT_CONTRACT :: route_contract where
  "LEGACY_EVENT_CONTRACT = event_contract ''legacy'' EVENT_ROUTE_FIELDS [''/event'', ''/global/event'']"

section \<open>Decoding\<close>

text \<open>The attributes of a \<open>DecodedEvent\<close>; an absent one is \<open>None\<close>.\<close>

record decoded_event =
  de_type :: string
  de_session_id :: "string option"
  de_message_id :: "string option"
  de_status :: "string option"
  de_delivery :: "string option"
  de_text :: "string option"
  de_tool :: "string option"
  de_call_id :: "string option"
  de_step :: "string option"
  de_title :: "string option"
  de_blocker :: "string option"
  de_blocker_id :: "string option"
  de_question :: "string option"
  de_error :: "string option"

definition text_value :: "jdict \<Rightarrow> jdict \<Rightarrow> string option" where
  "text_value flds route_flds =
     (case dict_get route_flds ''text'' of
        JStr s \<Rightarrow> Some s
      | _ \<Rightarrow>
          (case dict_get flds ''part'' of
             JObj part \<Rightarrow> (if dict_get part ''type'' = JStr ''text'' then
                 (case dict_get part ''text'' of JStr s \<Rightarrow> Some s | _ \<Rightarrow> None) else None)
           | _ \<Rightarrow> None)) "

definition message_text_value :: "jdict \<Rightarrow> string option" where
  "message_text_value flds =
     (case dict_get flds ''message'' of
        JObj m \<Rightarrow> (case first_present (JObj m) [''text'', ''content''] of JStr s \<Rightarrow> Some s | _ \<Rightarrow> None)
      | _ \<Rightarrow> None)"

definition event_text :: "jdict \<Rightarrow> jdict \<Rightarrow> string option" where
  "event_text flds route_flds =
     (case text_value flds route_flds of Some s \<Rightarrow> Some s | None \<Rightarrow> message_text_value flds)"

definition status_value :: "jdict \<Rightarrow> jdict \<Rightarrow> string option" where
  "status_value flds route_flds =
     (case string_value (dict_get route_flds ''status'') of
        Some s \<Rightarrow> Some s
      | None \<Rightarrow> (case dict_get flds ''message'' of
          JObj m \<Rightarrow> string_value (first_present (JObj m) EVENT_STATUS_FIELDS) | _ \<Rightarrow> None))"

definition tool_name :: "jdict \<Rightarrow> string option" where
  "tool_name flds =
     (case dict_get flds ''tool'' of
        JObj tool \<Rightarrow>
          (let v = first_present (JObj tool) ([''name'', ''tool''] @ EVENT_TOOL_NAME_FIELDS) in
           Some (if v \<noteq> JNull then py_str v else json_dumps (JObj tool)))
      | _ \<Rightarrow> string_value (first_present (JObj flds) (''tool'' # EVENT_TOOL_NAME_FIELDS)))"

definition blocker_type :: "string \<Rightarrow> jdict \<Rightarrow> string option" where
  "blocker_type event_type flds =
     (let t = py_lower event_type in
      if t = ''permission.requested'' then Some ''permission''
      else if t = ''question.requested'' then Some ''question''
      else if t \<in> set BLOCKER_EVENT_TYPES then Some ''blocker''
      else if first_present (JObj flds) (''permission'' # EVENT_PERMISSION_ID_FIELDS) \<noteq> JNull then Some ''permission''
      else if first_present (JObj flds) EVENT_QUESTION_ID_FIELDS \<noteq> JNull then Some ''question''
      else if first_present (JObj flds) (''blocker'' # EVENT_BLOCKER_ID_FIELDS) \<noteq> JNull then Some ''blocker''
      else None)"

definition event_error_text :: "json \<Rightarrow> string option" where
  "event_error_text error =
     (case error of
        JObj e \<Rightarrow> (let v = first_present error [''message'', ''detail'', ''error''] in
          Some (if v \<noteq> JNull then py_str v else json_dumps error))
      | JNull \<Rightarrow> None
      | _ \<Rightarrow> Some (py_str error))"

text \<open>\<open>a or b\<close> of optional texts: an empty text counts as absent.\<close>

definition event_text_or :: "string option \<Rightarrow> string option \<Rightarrow> string option" where
  "event_text_or a b = (if a = None \<or> a = Some [] then b else a)"

definition decoded_from_event_fields :: "string \<Rightarrow> jdict \<Rightarrow> route_contract \<Rightarrow> decoded_event" where
  "decoded_from_event_fields event_type flds c =
     (let rf = read_fields c (JObj flds); blocker = blocker_type event_type flds in
      \<lparr>de_type = event_type,
       de_session_id = string_value (dict_get rf ''session_id''),
       de_message_id = string_value (dict_get rf ''message_id''),
       de_status = status_value flds rf,
       de_delivery = string_value (dict_get rf ''delivery''),
       de_text = event_text flds rf,
       de_tool = tool_name flds,
       de_call_id = string_value (dict_get rf ''call_id''),
       de_step = string_value (dict_get rf ''step''),
       de_title = string_value (dict_get rf ''title''),
       de_blocker = blocker,
       de_blocker_id = (if blocker \<noteq> None then string_value (dict_get rf ''blocker_id'') else None),
       de_question = (if blocker \<noteq> None then string_value (dict_get rf ''question'') else None),
       de_error = event_text_or (event_error_text (dict_get flds ''error'')) (string_value (first_present (JObj flds) [''reason'']))\<rparr>)"

datatype event_codec = ApiEvents | LegacyEvents | KnownEvents | UnknownEvents

definition decode_api_event :: "json \<Rightarrow> decoded_event option" where
  "decode_api_event event =
     (case event of
        JObj d \<Rightarrow>
          (case (dict_get d ''properties'', string_value (dict_get d ''type'')) of
             (JObj p, Some t) \<Rightarrow> Some (decoded_from_event_fields t p API_EVENT_CONTRACT)
           | _ \<Rightarrow> None)
      | _ \<Rightarrow> None)"

definition legacy_payload :: "jdict \<Rightarrow> json" where
  "legacy_payload d = (if is_dict (dict_get d ''payload'') then dict_get d ''payload'' else dict_get d ''data'')"

definition decode_legacy_event :: "json \<Rightarrow> decoded_event option" where
  "decode_legacy_event event =
     (case event of
        JObj d \<Rightarrow>
          (case (legacy_payload d, string_value (dict_get d ''event'')) of
             (JObj p, Some t) \<Rightarrow> Some (decoded_from_event_fields t p LEGACY_EVENT_CONTRACT)
           | _ \<Rightarrow> None)
      | _ \<Rightarrow> None)"

fun decode_event :: "event_codec \<Rightarrow> json \<Rightarrow> decoded_event option" where
  "decode_event ApiEvents event = decode_api_event event"
| "decode_event LegacyEvents event = decode_legacy_event event"
| "decode_event KnownEvents event =
     (case decode_api_event event of Some d \<Rightarrow> Some d | None \<Rightarrow> decode_legacy_event event)"
| "decode_event UnknownEvents event = None"

definition event_codec_for_route :: "json \<Rightarrow> event_codec" where
  "event_codec_for_route route_path =
     (if route_path = JNull then KnownEvents
      else case route_path_key route_path of
          None \<Rightarrow> UnknownEvents
        | Some k \<Rightarrow> if k \<in> set (rc_route_paths API_EVENT_CONTRACT) then ApiEvents
            else if k \<in> set (rc_route_paths LEGACY_EVENT_CONTRACT) then LegacyEvents else UnknownEvents)"

section \<open>Kinds\<close>

record event_kind_contract =
  ek_kind :: string
  ek_event_types :: "string list"
  ek_detail_fields :: "(decoded_event \<Rightarrow> string option) list"
  ek_requires_blocker :: bool

definition event_kind_row ::
  "string \<Rightarrow> string list \<Rightarrow> (decoded_event \<Rightarrow> string option) list \<Rightarrow> bool \<Rightarrow> event_kind_contract" where
  "event_kind_row kind types details b =
     \<lparr>ek_kind = kind, ek_event_types = types, ek_detail_fields = details, ek_requires_blocker = b\<rparr>"

definition EVENT_KIND_CONTRACTS_BY_KIND :: "event_kind_contract list" where
  "EVENT_KIND_CONTRACTS_BY_KIND =
     [event_kind_row ''blocker'' BLOCKER_EVENT_TYPES
        [de_session_id, de_message_id, de_blocker_id, de_question, de_status] True,
      event_kind_row ''error'' ERROR_EVENT_TYPES [de_session_id, de_message_id, de_error] False,
      event_kind_row ''text'' TEXT_EVENT_TYPES [de_text] False,
      event_kind_row ''tool'' TOOL_EVENT_TYPES [de_tool, de_call_id] False,
      event_kind_row ''admission'' ADMISSION_EVENT_TYPES [de_session_id, de_message_id, de_status, de_delivery] False,
      event_kind_row ''prompt'' PROMPT_EVENT_TYPES [de_session_id, de_message_id, de_status, de_delivery] False,
      event_kind_row ''step'' STEP_EVENT_TYPES [de_session_id, de_message_id, de_step, de_status, de_title] False,
      event_kind_row ''status'' STATUS_EVENT_TYPES [de_session_id, de_status] False]"

definition has_event_detail :: "decoded_event \<Rightarrow> (decoded_event \<Rightarrow> string option) list \<Rightarrow> bool" where
  "has_event_detail d details = list_ex (\<lambda>f. f d \<noteq> None) details"

text \<open>Every event type belongs to one kind.\<close>

definition decoded_event_kind :: "decoded_event \<Rightarrow> string" where
  "decoded_event_kind d =
     (case find (\<lambda>c. py_lower (de_type d) \<in> set (ek_event_types c)) EVENT_KIND_CONTRACTS_BY_KIND of
        None \<Rightarrow> ''unknown''
      | Some c \<Rightarrow> if ek_requires_blocker c \<and> de_blocker d = None then ''unknown''
          else if has_event_detail d (ek_detail_fields c) then ek_kind c else ''unknown'')"

section \<open>Normalising\<close>

definition ignored_event_record :: "string option \<Rightarrow> string \<Rightarrow> string \<Rightarrow> jdict" where
  "ignored_event_record session_id target event_type =
     set_if_present ''type'' (JStr event_type) (set_if_present ''session_id'' (opt_json session_id)
       [(''kind'', JStr ''ignored''), (''schema_status'', JStr ''known''), (''target_session_id'', JStr target),
        (''reason'', JStr ''session_mismatch'')])"

definition unknown_event_record :: "json \<Rightarrow> string option \<Rightarrow> string option \<Rightarrow> jdict" where
  "unknown_event_record raw event_type session_id =
     set_if_present ''type'' (opt_json event_type) (set_if_present ''session_id'' (opt_json session_id)
       [(''kind'', JStr ''unknown''), (''schema_status'', JStr ''unknown''),
        (''reason'', JStr ''unrecognized_event_shape''), (''raw'', raw)])"

definition event_attributes :: "(string \<times> (decoded_event \<Rightarrow> string option)) list" where
  "event_attributes =
     [(''session_id'', de_session_id), (''type'', \<lambda>d. Some (de_type d)), (''message_id'', de_message_id),
      (''delivery'', de_delivery), (''text'', de_text), (''tool'', de_tool), (''call_id'', de_call_id),
      (''step'', de_step), (''title'', de_title), (''blocker'', de_blocker), (''blocker_id'', de_blocker_id),
      (''question'', de_question), (''error'', de_error)]"

definition known_event_record :: "string \<Rightarrow> decoded_event \<Rightarrow> jdict" where
  "known_event_record kind d =
     (let n = fold (\<lambda>(k, f). set_if_present k (opt_json (f d))) event_attributes
        [(''kind'', JStr kind), (''schema_status'', JStr ''known'')] in
      case de_status d of
        None \<Rightarrow> n
      | Some s \<Rightarrow> (let e = dict_set ''status'' (JStr (short_status_str s)) n in
          if short_status_str s \<noteq> s then dict_set ''raw_status'' (JStr s) e else e))"

definition normalize_decoded_event :: "json \<Rightarrow> decoded_event option \<Rightarrow> string option \<Rightarrow> jdict" where
  "normalize_decoded_event raw decoded target =
     (case decoded of
        None \<Rightarrow> unknown_event_record raw None None
      | Some d \<Rightarrow>
          if target \<noteq> None \<and> de_session_id d \<noteq> None \<and> de_session_id d \<noteq> target
          then ignored_event_record (de_session_id d) (the target) (de_type d)
          else let kind = decoded_event_kind d in
            if kind = ''unknown'' then unknown_event_record raw (Some (de_type d)) (de_session_id d)
            else known_event_record kind d)"

definition normalize_event_record :: "json \<Rightarrow> string option \<Rightarrow> json \<Rightarrow> jdict" where
  "normalize_event_record event target route_path =
     normalize_decoded_event event (decode_event (event_codec_for_route route_path) event) target"

section \<open>What a record says\<close>

lemma dict_get_set_if_present:
  "dict_get (set_if_present k v d) k' = (if k' = k \<and> v \<noteq> JNull then v else dict_get d k')"
  by (simp add: set_if_present_def)

lemma opt_json_null [simp]: "opt_json v = JNull \<longleftrightarrow> v = None"
  by (simp add: opt_json_def split: option.split)

lemma event_attributes_keys: "''kind'' \<notin> fst ` set event_attributes" "''schema_status'' \<notin> fst ` set event_attributes"
  by (simp_all add: event_attributes_def)

lemma fold_attributes_other:
  "k \<notin> fst ` set xs \<Longrightarrow> dict_get (fold (\<lambda>(k, f). set_if_present k (opt_json (f d))) xs n) k = dict_get n k"
  by (induction xs arbitrary: n) (auto simp: dict_get_set_if_present)

lemma known_event_fields:
  "dict_get (known_event_record kind d) ''kind'' = JStr kind"
  "dict_get (known_event_record kind d) ''schema_status'' = JStr ''known''"
  "dict_get (known_event_record kind d) ''session_id'' = opt_json (de_session_id d)"
proof -
  have "dict_get (fold (\<lambda>(k, f). set_if_present k (opt_json (f d))) event_attributes n) ''session_id'' =
      (if de_session_id d = None then dict_get n ''session_id'' else opt_json (de_session_id d))" for n
    by (simp add: event_attributes_def dict_get_set_if_present)
  then show "dict_get (known_event_record kind d) ''session_id'' = opt_json (de_session_id d)"
    by (auto simp: known_event_record_def dict_get_def [of "[_, _]"] opt_json_def Let_def split: option.split)
qed (auto simp: known_event_record_def Let_def fold_attributes_other [OF event_attributes_keys(1)]
    fold_attributes_other [OF event_attributes_keys(2)] dict_get_def [of "[_, _]"] split: option.split)

definition EVENT_KINDS :: "string list" where
  "EVENT_KINDS = map ek_kind EVENT_KIND_CONTRACTS_BY_KIND"

lemma decoded_kinds: "decoded_event_kind d \<in> insert ''unknown'' (set EVENT_KINDS)"
proof -
  have "ek_kind c \<in> set EVENT_KINDS" if "find P EVENT_KIND_CONTRACTS_BY_KIND = Some c" for P c
    using that by (auto simp: EVENT_KINDS_def find_Some_iff)
  then show ?thesis by (simp add: decoded_event_kind_def split: option.split)
qed

lemma EVENT_KINDS_eq:
  "EVENT_KINDS = [''blocker'', ''error'', ''text'', ''tool'', ''admission'', ''prompt'', ''step'', ''status'']"
  by (simp add: EVENT_KINDS_def EVENT_KIND_CONTRACTS_BY_KIND_def event_kind_row_def)

text \<open>
  A record is known, ignored or unknown; an event is ignored exactly when it names another session than the
  target; a known record names no session but the target, and an unknown one keeps the event.
\<close>

lemma event_record_cases:
  fixes event target route_path
  defines "r \<equiv> normalize_event_record event target route_path"
    and "decoded \<equiv> decode_event (event_codec_for_route route_path) event"
  defines "other \<equiv> (\<exists>d s t. decoded = Some d \<and> de_session_id d = Some s \<and> target = Some t \<and> s \<noteq> t)"
  shows "dict_get r ''kind'' = JStr ''ignored'' \<longleftrightarrow> other"
    and "dict_get r ''kind'' = JStr ''unknown'' \<Longrightarrow> dict_get r ''raw'' = event \<and> dict_get r ''schema_status'' = JStr ''unknown''"
    and "\<not> other \<Longrightarrow> dict_get r ''kind'' \<noteq> JStr ''unknown'' \<Longrightarrow> \<exists>k \<in> set EVENT_KINDS. dict_get r ''kind'' = JStr k"
    and "\<not> other \<Longrightarrow> dict_get r ''kind'' \<noteq> JStr ''unknown'' \<Longrightarrow> target = Some t \<Longrightarrow> dict_get r ''session_id'' \<in> {JNull, JStr t}"
proof -
  have unknown: "dict_get (unknown_event_record raw x y) k =
      (if k = ''type'' \<and> x \<noteq> None then opt_json x else if k = ''session_id'' \<and> y \<noteq> None then opt_json y
       else dict_get [(''kind'', JStr ''unknown''), (''schema_status'', JStr ''unknown''),
        (''reason'', JStr ''unrecognized_event_shape''), (''raw'', raw)] k)" for raw x y k
    by (auto simp: unknown_event_record_def dict_get_set_if_present)
  have ignored: "dict_get (ignored_event_record x y z) ''kind'' = JStr ''ignored''" for x y z
    by (simp add: ignored_event_record_def dict_get_set_if_present dict_get_def [of "[_, _, _, _]"])
  note defs = r_def normalize_event_record_def decoded_def [symmetric] normalize_decoded_event_def
  consider (none) "decoded = None" | (alien) d s t where "decoded = Some d" "de_session_id d = Some s" "target = Some t" "s \<noteq> t"
    | (own) d where "decoded = Some d" "\<not> (target \<noteq> None \<and> de_session_id d \<noteq> None \<and> de_session_id d \<noteq> target)"
  proof (cases decoded)
    case (Some d)
    show thesis
    proof (cases "target \<noteq> None \<and> de_session_id d \<noteq> None \<and> de_session_id d \<noteq> target")
      case True
      then show thesis using alien Some by auto
    qed (use Some own in blast)
  qed (use none in blast)
  then have "(dict_get r ''kind'' = JStr ''ignored'' \<longleftrightarrow> other) \<and>
    (dict_get r ''kind'' = JStr ''unknown'' \<longrightarrow> dict_get r ''raw'' = event \<and> dict_get r ''schema_status'' = JStr ''unknown'') \<and>
    (\<not> other \<longrightarrow> dict_get r ''kind'' \<noteq> JStr ''unknown'' \<longrightarrow> (\<exists>k \<in> set EVENT_KINDS. dict_get r ''kind'' = JStr k) \<and>
      (\<forall>t. target = Some t \<longrightarrow> dict_get r ''session_id'' \<in> {JNull, JStr t}))"
  proof cases
    case none
    then show ?thesis by (simp add: defs unknown other_def dict_get_def [of "[_, _, _, _]"])
  next
    case alien
    then show ?thesis by (auto simp: defs ignored other_def)
  next
    case own
    have no: "\<not> other" using own by (auto simp: other_def)
    show ?thesis
    proof (cases "decoded_event_kind d = ''unknown''")
      case True
      then have "r = unknown_event_record event (Some (de_type d)) (de_session_id d)" using own by (auto simp: defs)
      then show ?thesis using no by (simp add: unknown dict_get_def [of "[_, _, _, _]"])
    next
      case False
      then have k: "decoded_event_kind d \<in> set EVENT_KINDS" using decoded_kinds [of d] by simp
      then have "decoded_event_kind d \<noteq> ''ignored''" by (auto simp: EVENT_KINDS_eq)
      moreover have r: "r = known_event_record (decoded_event_kind d) d" using own False by (auto simp: defs)
      ultimately show ?thesis using own no k False
        by (auto simp: r known_event_fields opt_json_def split: option.split)
    qed
  qed
  then show "dict_get r ''kind'' = JStr ''ignored'' \<longleftrightarrow> other"
    "dict_get r ''kind'' = JStr ''unknown'' \<Longrightarrow> dict_get r ''raw'' = event \<and> dict_get r ''schema_status'' = JStr ''unknown''"
    "\<not> other \<Longrightarrow> dict_get r ''kind'' \<noteq> JStr ''unknown'' \<Longrightarrow> \<exists>k \<in> set EVENT_KINDS. dict_get r ''kind'' = JStr k"
    "\<not> other \<Longrightarrow> dict_get r ''kind'' \<noteq> JStr ''unknown'' \<Longrightarrow> target = Some t \<Longrightarrow> dict_get r ''session_id'' \<in> {JNull, JStr t}"
    by blast+
qed

end
