(* ===== verification/Server_Profile.thy ===== *)
theory Server_Profile
  imports Session_Schema Message_Schema Event_Schema
begin

text \<open>
  \<open>api_profile_detection.py\<close>, \<open>project_routes.py\<close>, \<open>api_profile.py\<close> and \<open>capabilities.py\<close>: which routes the
  server's OpenAPI document offers, the plan of the routes to use, and the capabilities record that is handed
  around. The two documents of the server are JSON objects; what they hold may have any shape. A path is
  filled in (\<open>render_route_path\<close>) by the HTTP client and is not part of the model.
\<close>

section \<open>Routes\<close>

definition SESSION_PATHS :: "string list" where "SESSION_PATHS = [''/api/session'', ''/session'']"
definition PROMPT_PATHS :: "string list" where
  "PROMPT_PATHS = [''/api/session/{sessionID}/prompt'', ''/session/{sessionID}/prompt_async'']"
definition WAIT_PATHS :: "string list" where "WAIT_PATHS = [''/api/session/{sessionID}/wait'']"
definition EVENT_PATHS :: "string list" where "EVENT_PATHS = [API_EVENT_ROUTE, ''/event'', ''/global/event'']"

definition PROJECT_ROUTE_SPECS :: "(string \<times> string \<times> string) list" where
  "PROJECT_ROUTE_SPECS =
     [(''project_collection'', ''/project'', ''GET''),
      (''project_directories'', ''/project/{projectID}/directories'', ''GET''),
      (''workspace_collection'', ''/experimental/workspace'', ''GET''),
      (''workspace_item'', ''/experimental/workspace/{workspaceID}'', ''DELETE''),
      (''project_copy_refresh'', ''/experimental/project/{projectID}/copy/refresh'', ''POST'')]"

text \<open>\<open>value or {}\<close>, of which \<open>get\<close> is called.\<close>

definition mapping_or_empty :: "json \<Rightarrow> jdict result" where
  "mapping_or_empty v = (case v of JObj d \<Rightarrow> Inr d | _ \<Rightarrow> if py_truthy v then Inl (AttributeError ''get'') else Inr [])"

definition add_variant :: "string \<Rightarrow> string list \<Rightarrow> string list" where
  "add_variant v vs = (if v \<in> set vs then vs else vs @ [v])"

definition path_variants :: "string \<Rightarrow> string list" where
  "path_variants path =
     add_variant (replace_text ''{sessionID}'' ''{id}'' path)
       (add_variant (replace_text ''{sessionID}'' '':sessionID'' path) [path])"

definition project_path_variants :: "string \<Rightarrow> string list" where
  "project_path_variants path =
     fold (\<lambda>(source, target). add_variant (replace_text source target path))
       [(''{projectID}'', '':projectID''), (''{projectID}'', ''{id}''), (''{projectID}'', '':id''),
        (''{workspaceID}'', '':workspaceID''), (''{workspaceID}'', ''{id}''), (''{workspaceID}'', '':id'')] [path]"

text \<open>The first of the candidates that holds; a candidate that raises stops the search.\<close>

fun res_exists :: "('a \<Rightarrow> bool result) \<Rightarrow> 'a list \<Rightarrow> bool result" where
  "res_exists f [] = Inr False"
| "res_exists f (x # xs) = res_bind (f x) (\<lambda>b. if b then Inr True else res_exists f xs)"

definition has_method :: "jdict \<Rightarrow> string \<Rightarrow> string \<Rightarrow> bool result" where
  "has_method paths method candidate =
     res_bind (mapping_or_empty (dict_get paths candidate)) (\<lambda>route.
     Inr (list_ex (\<lambda>k. py_lower k = py_lower method) (map fst route)))"

definition route_offered :: "jdict \<Rightarrow> string \<Rightarrow> string \<Rightarrow> bool result" where
  "route_offered paths path method = res_exists (has_method paths method) (path_variants path)"

text \<open>The operations of a project route are only iterated over.\<close>

definition operation_name :: "json \<Rightarrow> string result" where
  "operation_name v = (case v of JStr s \<Rightarrow> Inr (py_lower s) | _ \<Rightarrow> Inl (AttributeError ''lower''))"

definition operation_names :: "json \<Rightarrow> string list result" where
  "operation_names v =
     (if \<not> py_truthy v then Inr []
      else case v of
        JObj d \<Rightarrow> Inr (map (\<lambda>kv. py_lower (fst kv)) d)
      | JList xs \<Rightarrow> res_map operation_name xs
      | JStr s \<Rightarrow> Inr (map (\<lambda>c. py_lower [c]) s)
      | _ \<Rightarrow> Inl (TypeError ''object is not iterable''))"

definition project_route_offered :: "jdict \<Rightarrow> string \<Rightarrow> string \<Rightarrow> bool result" where
  "project_route_offered paths path method =
     res_exists (\<lambda>c. res_bind (operation_names (dict_get paths c)) (\<lambda>ns. Inr (py_lower method \<in> set ns)))
       (project_path_variants path)"

definition parameter_named :: "string \<Rightarrow> json \<Rightarrow> bool result" where
  "parameter_named name p = (case p of JObj d \<Rightarrow> Inr (dict_get d ''name'' = JStr name) | _ \<Rightarrow> Inl (AttributeError ''get''))"

definition parameter_list :: "json \<Rightarrow> json list result" where
  "parameter_list v =
     (if \<not> py_truthy v then Inr []
      else case v of
        JList xs \<Rightarrow> Inr xs
      | JObj d \<Rightarrow> Inr (map (\<lambda>kv. JStr (fst kv)) d)
      | JStr s \<Rightarrow> Inr (map (\<lambda>c. JStr [c]) s)
      | _ \<Rightarrow> Inl (TypeError ''object is not iterable''))"

definition query_parameter_available :: "jdict \<Rightarrow> string \<Rightarrow> string \<Rightarrow> string \<Rightarrow> bool result" where
  "query_parameter_available paths path method name =
     res_exists (\<lambda>c.
       res_bind (mapping_or_empty (dict_get paths c)) (\<lambda>route.
       res_bind (mapping_or_empty (dict_get route (py_lower method))) (\<lambda>operation.
       res_bind (parameter_list (dict_get operation ''parameters'')) (\<lambda>ps.
       res_exists (parameter_named name) ps)))) (path_variants path)"

section \<open>Detection\<close>

definition route_entry :: "string \<Rightarrow> string \<Rightarrow> bool \<Rightarrow> json" where
  "route_entry path method available =
     JObj [(''path'', JStr path), (''method'', JStr method), (''available'', JBool available)]"

fun first_available_route :: "jdict \<Rightarrow> string \<Rightarrow> string list \<Rightarrow> string \<Rightarrow> (string \<times> bool) result" where
  "first_available_route paths fallback [] method = Inr (fallback, False)"
| "first_available_route paths fallback (c # cs) method =
     res_bind (route_offered paths c method) (\<lambda>b.
       if b then Inr (c, True) else first_available_route paths fallback cs method)"

definition detect_project_route_availability :: "jdict \<Rightarrow> jdict result" where
  "detect_project_route_availability paths =
     res_map (\<lambda>(name, path, method).
       res_bind (project_route_offered paths path method) (\<lambda>b. Inr (name, route_entry path method b))) PROJECT_ROUTE_SPECS"

definition health_status :: "jdict \<Rightarrow> string" where
  "health_status health =
     (if dict_has health ''status'' then py_str (dict_get health ''status'')
      else if dict_get health ''healthy'' = JBool True \<or> dict_get health ''ok'' = JBool True then ''ok''
      else ''unknown'')"

definition health_version :: "jdict \<Rightarrow> string" where
  "health_version health =
     py_str (truthy_or (dict_get health ''version'') (truthy_or (dict_get health ''serverVersion'') (JStr ''unknown'')))"

record detection =
  dt_health :: string
  dt_version :: string
  dt_route_availability :: jdict

text \<open>A wait route of its own, or the prompt route with a \<open>wait\<close> parameter.\<close>

definition detect_wait :: "jdict \<Rightarrow> string \<times> bool \<Rightarrow> (string \<times> bool) result" where
  "detect_wait paths prompt =
     res_bind (first_available_route paths (hd WAIT_PATHS) WAIT_PATHS ''post'') (\<lambda>wait.
     if snd wait \<or> \<not> snd prompt then Inr wait
     else res_bind (query_parameter_available paths (fst prompt) ''post'' ''wait'') (\<lambda>b.
       Inr (if b then (fst prompt @ ''?wait=true'', True) else wait)))"

definition detect_openapi_profile :: "jdict \<Rightarrow> jdict \<Rightarrow> detection result" where
  "detect_openapi_profile doc health =
     res_bind (mapping_or_empty (dict_get doc ''paths'')) (\<lambda>paths.
     res_bind (first_available_route paths (hd SESSION_PATHS) SESSION_PATHS ''post'') (\<lambda>session.
     res_bind (first_available_route paths (hd PROMPT_PATHS) PROMPT_PATHS ''post'') (\<lambda>prompt.
     res_bind (detect_wait paths prompt) (\<lambda>wait.
     res_bind (first_available_route paths (hd EVENT_PATHS) EVENT_PATHS ''get'') (\<lambda>events.
     res_bind (route_offered paths SESSION_MESSAGE_PATH ''post'') (\<lambda>blocking.
     res_bind (route_offered paths LEGACY_RUN_PATH ''post'') (\<lambda>run.
     res_bind (route_offered paths LEGACY_REPLY_PATH ''post'') (\<lambda>reply.
     res_bind (detect_project_route_availability paths) (\<lambda>projects.
     Inr \<lparr>dt_health = health_status health, dt_version = health_version health,
          dt_route_availability =
            [(''session'', route_entry (fst session) ''POST'' (snd session)),
             (''v2_prompt'', route_entry (fst prompt) ''POST'' (snd prompt)),
             (''v2_wait'', route_entry (fst wait) ''POST'' (snd wait)),
             (''events'', route_entry (fst events) ''GET'' (snd events)),
             (''blocking_message'', route_entry SESSION_MESSAGE_PATH ''POST'' blocking),
             (''legacy_run'', route_entry LEGACY_RUN_PATH ''POST'' run),
             (''legacy_reply'', route_entry LEGACY_REPLY_PATH ''POST'' reply)] @ projects\<rparr>)))))))))"

section \<open>Plans\<close>

definition PUBLIC_ROUTE_PLAN_KEYS :: "string list" where
  "PUBLIC_ROUTE_PLAN_KEYS =
     [''session_collection'', ''session_item'', ''v2_prompt'', ''v2_wait'', ''events'', ''blocking_message'',
      ''legacy_run'', ''legacy_reply'']"

definition DEFAULT_ROUTE_PLAN :: jdict where
  "DEFAULT_ROUTE_PLAN =
     map (\<lambda>(name, path, method). (name, JStr path)) PROJECT_ROUTE_SPECS @
     [(''session_collection'', JStr ''/api/session''), (''session_item'', JStr ''/api/session/{sessionID}''),
      (''v2_prompt'', JStr ''/api/session/{sessionID}/prompt''), (''v2_wait'', JStr ''/api/session/{sessionID}/wait''),
      (''events'', JStr ''/api/event''), (''blocking_message'', JStr ''/session/{sessionID}/message''),
      (''legacy_run'', JStr ''/session/{sessionID}/run''), (''legacy_reply'', JStr ''/session/{sessionID}/reply''),
      (''session_abort'', JStr ''/session/{sessionID}/abort''), (''session_fork'', JStr ''/session/{sessionID}/fork''),
      (''session_children'', JStr ''/session/{sessionID}/children''), (''permissions'', JStr ''/permission''),
      (''permission_reply'', JStr ''/permission/{requestID}/reply''), (''questions'', JStr ''/question''),
      (''question_reply'', JStr ''/question/{requestID}/reply''), (''question_reject'', JStr ''/question/{requestID}/reject'')]"

definition planned_route_path :: "jdict \<Rightarrow> string \<Rightarrow> string \<Rightarrow> json result" where
  "planned_route_path ra name fallback =
     res_bind (mapping_or_empty (dict_get ra name)) (\<lambda>route.
     Inr (if py_truthy (dict_get route ''available'') \<and> py_truthy (dict_get route ''path'')
          then dict_get route ''path'' else JStr fallback))"

definition session_item_path :: "json \<Rightarrow> json result" where
  "session_item_path path =
     (case path of JStr s \<Rightarrow> Inr (JStr (rstrip_char (CHR ''/'') s @ ''/{sessionID}'')) | _ \<Rightarrow> Inl (AttributeError ''rstrip''))"

definition planned_paths :: "jdict \<Rightarrow> (string \<times> string \<times> string) list \<Rightarrow> jdict result" where
  "planned_paths ra = res_map (\<lambda>(key, name, fallback). res_bind (planned_route_path ra name fallback) (\<lambda>p. Inr (key, p)))"

definition route_plan_from_availability :: "jdict \<Rightarrow> jdict result" where
  "route_plan_from_availability ra =
     res_bind (planned_route_path ra ''session'' (hd SESSION_PATHS)) (\<lambda>session.
     res_bind (session_item_path session) (\<lambda>item.
     res_bind (planned_paths ra
       [(''v2_prompt'', ''v2_prompt'', hd PROMPT_PATHS), (''v2_wait'', ''v2_wait'', hd WAIT_PATHS),
        (''events'', ''events'', hd EVENT_PATHS), (''blocking_message'', ''blocking_message'', SESSION_MESSAGE_PATH),
        (''legacy_run'', ''legacy_run'', LEGACY_RUN_PATH), (''legacy_reply'', ''legacy_reply'', LEGACY_REPLY_PATH)]) (\<lambda>rest.
     Inr ((''session_collection'', session) # (''session_item'', item) # rest))))"

definition plan_with_item :: "jdict \<Rightarrow> jdict \<Rightarrow> jdict result" where
  "plan_with_item plan full =
     (if dict_has plan ''session_collection'' \<and> \<not> dict_has plan ''session_item''
      then res_bind (session_item_path (dict_get full ''session_collection'')) (\<lambda>p. Inr (dict_set ''session_item'' p full))
      else Inr full)"

text \<open>\<open>_complete_route_plan\<close>, with the availability where there is one.\<close>

definition complete_route_plan :: "jdict \<Rightarrow> jdict option \<Rightarrow> jdict result" where
  "complete_route_plan plan availability =
     res_bind (case availability of
         None \<Rightarrow> Inr DEFAULT_ROUTE_PLAN
       | Some ra \<Rightarrow> res_bind (route_plan_from_availability ra) (\<lambda>p.
           Inr (dict_update DEFAULT_ROUTE_PLAN (dict_update DEFAULT_ROUTE_PLAN p)))) (\<lambda>base.
     plan_with_item plan (dict_update base plan))"

section \<open>Profiles\<close>

text \<open>The adapters of a profile are functions of its plan.\<close>

record server_profile =
  pr_health :: string
  pr_version :: string
  pr_route_availability :: jdict
  pr_route_plan :: jdict

definition from_route_plan :: "jdict \<Rightarrow> string \<Rightarrow> string \<Rightarrow> jdict option \<Rightarrow> server_profile result" where
  "from_route_plan plan health version availability =
     res_bind (complete_route_plan plan availability) (\<lambda>full.
     Inr \<lparr>pr_health = health, pr_version = version,
          pr_route_availability = (case availability of None \<Rightarrow> [] | Some ra \<Rightarrow> ra), pr_route_plan = full\<rparr>)"

definition default_profile :: "server_profile result" where
  "default_profile = from_route_plan [] ''unknown'' ''unknown'' None"

definition from_openapi_doc :: "jdict \<Rightarrow> jdict \<Rightarrow> server_profile result" where
  "from_openapi_doc doc health =
     res_bind (detect_openapi_profile doc health) (\<lambda>dt.
     res_bind (route_plan_from_availability (dt_route_availability dt)) (\<lambda>plan.
     from_route_plan plan (dt_health dt) (dt_version dt) (Some (dt_route_availability dt))))"

definition capabilities_route_plan :: "jdict \<Rightarrow> jdict \<Rightarrow> jdict result" where
  "capabilities_route_plan capabilities ra =
     (case dict_get capabilities ''route_plan'' of
        JObj p \<Rightarrow> (if p \<noteq> [] then Inr p else route_plan_from_availability ra)
      | v \<Rightarrow> if py_truthy v then Inl (TypeError ''route plan is not a mapping'') else route_plan_from_availability ra)"

definition from_capabilities :: "json \<Rightarrow> server_profile result" where
  "from_capabilities capabilities =
     (case capabilities of
        JObj d \<Rightarrow>
          res_bind (mapping_or_empty (dict_get d ''route_availability'')) (\<lambda>ra.
          res_bind (capabilities_route_plan d ra) (\<lambda>plan.
          from_route_plan plan (py_str (truthy_or (dict_get d ''health'') (JStr ''unknown'')))
            (py_str (truthy_or (dict_get d ''version'') (JStr ''unknown''))) (Some ra)))
      | _ \<Rightarrow> default_profile)"

definition route_available :: "server_profile \<Rightarrow> string \<Rightarrow> bool result" where
  "route_available p name =
     res_bind (mapping_or_empty (dict_get (pr_route_availability p) name)) (\<lambda>route.
     Inr (py_truthy (dict_get route ''available'')))"

definition public_route_plan :: "server_profile \<Rightarrow> jdict" where
  "public_route_plan p = map (\<lambda>k. (k, dict_get (pr_route_plan p) k)) PUBLIC_ROUTE_PLAN_KEYS"

text \<open>\<open>legacy_reply\<close> is asked for only when \<open>legacy_run\<close> is available.\<close>

definition legacy_available :: "server_profile \<Rightarrow> bool result" where
  "legacy_available p =
     res_bind (route_available p ''legacy_run'') (\<lambda>b. if b then route_available p ''legacy_reply'' else Inr False)"

definition to_capabilities :: "server_profile \<Rightarrow> jdict result" where
  "to_capabilities p =
     res_bind (legacy_available p) (\<lambda>legacy.
     res_bind (route_available p ''blocking_message'') (\<lambda>blocking.
     res_bind (route_available p ''v2_prompt'') (\<lambda>prompt.
     res_bind (route_available p ''v2_wait'') (\<lambda>wait.
     res_bind (route_available p ''events'') (\<lambda>events.
     Inr [(''health'', JStr (pr_health p)), (''version'', JStr (pr_version p)),
          (''route_availability'', JObj (pr_route_availability p)), (''route_plan'', JObj (public_route_plan p)),
          (''v2_prompt_support'', JBool prompt), (''v2_wait_support'', JBool wait), (''event_support'', JBool events),
          (''blocking_message_available'', JBool blocking), (''blocking_execution_available'', JBool (blocking \<or> legacy)),
          (''legacy_fallback_available'', JBool legacy)])))))"

definition capabilities_from_openapi_doc :: "jdict \<Rightarrow> jdict \<Rightarrow> jdict result" where
  "capabilities_from_openapi_doc doc health = res_bind (from_openapi_doc doc health) to_capabilities"

definition route_key :: "json \<Rightarrow> string" where
  "route_key path = rstrip_char (CHR ''/'') (before_char (CHR ''?'') (py_str path))"

definition prompt_admission_payload :: "server_profile \<Rightarrow> json \<Rightarrow> json \<Rightarrow> json \<Rightarrow> json" where
  "prompt_admission_payload p message_id txt delivery =
     (let path = truthy_or (dict_get (pr_route_plan p) ''v2_prompt'') (JStr (hd PROMPT_PATHS)) in
      if route_key path = hd PROMPT_PATHS
      then JObj [(''id'', message_id), (''prompt'', JObj [(''text'', txt)]), (''delivery'', delivery)]
      else JObj [(''messageID'', message_id), (''parts'', JList [JObj [(''type'', JStr ''text''), (''text'', txt)]]),
                 (''delivery'', delivery)])"

definition capability_strategy :: "json \<Rightarrow> string option result" where
  "capability_strategy capabilities =
     (case capabilities of
        JObj d \<Rightarrow>
          res_bind (mapping_or_empty (dict_get d ''route_availability'')) (\<lambda>routes.
          res_bind (mapping_or_empty (dict_get routes ''blocking_message'')) (\<lambda>blocking.
          Inr (if py_truthy (dict_get d ''blocking_message_available'') \<or> py_truthy (dict_get blocking ''available'')
               then Some ''session_message''
               else if py_truthy (dict_get d ''legacy_fallback_available'') then Some ''legacy_run_reply'' else None)))
      | _ \<Rightarrow> Inr None)"

definition blocking_execution_strategy :: "server_profile \<Rightarrow> json \<Rightarrow> string option result" where
  "blocking_execution_strategy p capabilities =
     res_bind (capability_strategy capabilities) (\<lambda>s.
     if s \<noteq> None then Inr s
     else res_bind (route_available p ''blocking_message'') (\<lambda>b.
       if b then Inr (Some ''session_message'')
       else res_bind (legacy_available p) (\<lambda>l. Inr (if l then Some ''legacy_run_reply'' else None))))"

definition session_adapter_of :: "server_profile \<Rightarrow> string \<Rightarrow> session_adapter" where
  "session_adapter_of p endpoint =
     (if endpoint \<in> {''session_collection'', ''session_item''}
      then session_adapter_for_route (dict_get (pr_route_plan p) ''session_collection'') JNull
      else if endpoint = ''session_children'' then LEGACY_SESSION_ADAPTER
      else session_adapter_for_route (dict_get (pr_route_plan p) endpoint) JNull)"

definition message_route :: "server_profile \<Rightarrow> string \<Rightarrow> string" where
  "message_route p endpoint =
     (if endpoint \<in> {''blocking_message'', ''legacy_run'', ''legacy_reply''}
      then rc_route (message_codec_for_endpoint endpoint (dict_get (pr_route_plan p) endpoint))
      else rc_route UNKNOWN_MESSAGE_CONTRACT)"

definition plan_path :: "server_profile \<Rightarrow> string \<Rightarrow> string \<Rightarrow> json" where
  "plan_path p name fallback =
     (if dict_has (pr_route_plan p) name then dict_get (pr_route_plan p) name else JStr fallback)"

definition blocking_api_path :: "server_profile \<Rightarrow> jdict" where
  "blocking_api_path p = [(''message'', plan_path p ''blocking_message'' SESSION_MESSAGE_PATH)]"

definition legacy_api_path :: "server_profile \<Rightarrow> jdict" where
  "legacy_api_path p = [(''run'', plan_path p ''legacy_run'' LEGACY_RUN_PATH),
     (''reply'', plan_path p ''legacy_reply'' LEGACY_REPLY_PATH)]"

section \<open>What is unsupported\<close>

definition available_entry :: "jdict \<Rightarrow> string \<Rightarrow> bool result" where
  "available_entry ra name =
     (case map_of ra name of
        None \<Rightarrow> Inl (KeyError name)
      | Some (JObj r) \<Rightarrow> (case map_of r ''available'' of None \<Rightarrow> Inl (KeyError ''available'') | Some v \<Rightarrow> Inr (py_truthy v))
      | Some _ \<Rightarrow> Inl (TypeError ''route is not a mapping''))"

definition indexed :: "jdict \<Rightarrow> string \<Rightarrow> json result" where
  "indexed d k = (case map_of d k of None \<Rightarrow> Inl (KeyError k) | Some v \<Rightarrow> Inr v)"

definition indexed_mapping :: "jdict \<Rightarrow> string \<Rightarrow> jdict result" where
  "indexed_mapping d k = res_bind (indexed d k) (\<lambda>v. case v of JObj e \<Rightarrow> Inr e | _ \<Rightarrow> Inl (TypeError ''not a mapping''))"

definition unsupported_execution :: "jdict \<Rightarrow> bool result" where
  "unsupported_execution capabilities =
     res_bind (indexed capabilities ''v2_prompt_support'') (\<lambda>prompt.
     if py_truthy prompt then Inr False
     else res_bind (indexed capabilities ''blocking_execution_available'') (\<lambda>b. Inr (\<not> py_truthy b)))"

definition unsupported_reasons :: "jdict \<Rightarrow> string list result" where
  "unsupported_reasons capabilities =
     res_bind (indexed_mapping capabilities ''route_availability'') (\<lambda>ra.
     res_bind (available_entry ra ''session'') (\<lambda>session.
     res_bind (unsupported_execution capabilities) (\<lambda>none.
     Inr ((if session then [] else [''missing session control: POST /api/session or POST /session'']) @
          (if none then [''missing prompt admission or blocking execution: POST /api/session/{sessionID}/prompt, '' @
             ''POST /session/{sessionID}/message, or legacy '' @
             ''POST /session/{sessionID}/run + POST /session/{sessionID}/reply''] else [])))))"

section \<open>The profile of a capabilities record\<close>

lemma plan_keys: "route_plan_from_availability ra = Inr plan \<Longrightarrow> map fst plan = PUBLIC_ROUTE_PLAN_KEYS"
  by (auto simp: route_plan_from_availability_def planned_paths_def res_bind_Inr_iff PUBLIC_ROUTE_PLAN_KEYS_def)

lemma public_keys_distinct: "distinct PUBLIC_ROUTE_PLAN_KEYS"
  by (simp add: PUBLIC_ROUTE_PLAN_KEYS_def)

lemma complete_plan:
  assumes "route_plan_from_availability ra = Inr plan"
  shows "complete_route_plan plan (Some ra) =
    Inr (dict_update (dict_update DEFAULT_ROUTE_PLAN (dict_update DEFAULT_ROUTE_PLAN plan)) plan)"
proof -
  have "dict_has plan ''session_item''"
    using plan_keys [OF assms] by (auto simp: dict_has_def PUBLIC_ROUTE_PLAN_KEYS_def)
  then show ?thesis by (simp add: complete_route_plan_def plan_with_item_def assms)
qed

lemma public_plan:
  assumes "route_plan_from_availability ra = Inr plan" and "pr_route_plan p = dict_update base plan"
  shows "public_route_plan p = plan"
proof -
  have keys: "map fst plan = PUBLIC_ROUTE_PLAN_KEYS" by (rule plan_keys [OF assms(1)])
  then have d: "distinct (map fst plan)" using public_keys_distinct by simp
  have "dict_get (pr_route_plan p) (fst kv) = snd kv" if "kv \<in> set plan" for kv
    using map_of_is_SomeI [OF d, of "fst kv" "snd kv"] that
    by (simp add: assms(2) dict_get_def map_of_dict_update [unfolded wf_dict_def, OF d] map_add_def)
  then have "map (\<lambda>kv. (fst kv, dict_get (pr_route_plan p) (fst kv))) plan = plan" by (simp add: map_idI)
  then show ?thesis by (simp add: public_route_plan_def keys [symmetric] comp_def)
qed

lemma detected_routes:
  assumes "detect_openapi_profile doc health = Inr dt"
    and "k \<in> {''v2_prompt'', ''v2_wait'', ''events'', ''blocking_message'', ''legacy_run'', ''legacy_reply''}"
  shows "\<exists>path method b. dict_get (dt_route_availability dt) k = route_entry path method b"
  using assms by (auto simp: detect_openapi_profile_def res_bind_Inr_iff dict_get_def route_entry_def)

lemma profile_round_trip:
  assumes p: "from_openapi_doc doc health = Inr p" and ne: "pr_health p \<noteq> []" "pr_version p \<noteq> []"
  obtains c where "to_capabilities p = Inr c" and "from_capabilities (JObj c) = Inr p"
proof -
  obtain dt plan where dt: "detect_openapi_profile doc health = Inr dt"
    and plan: "route_plan_from_availability (dt_route_availability dt) = Inr plan"
    and made: "from_route_plan plan (dt_health dt) (dt_version dt) (Some (dt_route_availability dt)) = Inr p"
    using p by (auto simp: from_openapi_doc_def res_bind_Inr_iff)
  let ?ra = "dt_route_availability dt"
  let ?full = "dict_update (dict_update DEFAULT_ROUTE_PLAN (dict_update DEFAULT_ROUTE_PLAN plan)) plan"
  have p': "p = \<lparr>pr_health = dt_health dt, pr_version = dt_version dt, pr_route_availability = ?ra, pr_route_plan = ?full\<rparr>"
    using made by (simp add: from_route_plan_def complete_plan [OF plan])
  have entry: "\<exists>b. route_available p k = Inr b"
    if "k \<in> {''v2_prompt'', ''v2_wait'', ''events'', ''blocking_message'', ''legacy_run'', ''legacy_reply''}" for k
    using detected_routes [OF dt that]
    by (auto simp: route_available_def p' route_entry_def mapping_or_empty_def dict_get_def)
  have public: "public_route_plan p = plan" by (rule public_plan [OF plan]) (simp add: p')
  have "\<exists>b. legacy_available p = Inr b"
    using entry [of "''legacy_run''"] entry [of "''legacy_reply''"] by (auto simp: legacy_available_def)
  then obtain legacy blocking prompt wait events where
    "legacy_available p = Inr legacy" "route_available p ''blocking_message'' = Inr blocking"
    "route_available p ''v2_prompt'' = Inr prompt" "route_available p ''v2_wait'' = Inr wait" "route_available p ''events'' = Inr events"
    using entry [of "''blocking_message''"] entry [of "''v2_prompt''"] entry [of "''v2_wait''"] entry [of "''events''"] by auto
  then obtain c where c: "to_capabilities p = Inr c" "dict_get c ''health'' = JStr (dt_health dt)"
    "dict_get c ''version'' = JStr (dt_version dt)" "dict_get c ''route_availability'' = JObj ?ra"
    "dict_get c ''route_plan'' = JObj plan"
    by (simp add: to_capabilities_def public) (simp add: p' dict_get_def)
  have "plan \<noteq> []" using plan_keys [OF plan] by (auto simp: PUBLIC_ROUTE_PLAN_KEYS_def)
  then have "from_capabilities (JObj c) = from_route_plan plan (dt_health dt) (dt_version dt) (Some ?ra)"
    using ne by (simp add: from_capabilities_def c mapping_or_empty_def capabilities_route_plan_def truthy_or_def p')
  with that c(1) made show thesis by simp
qed

end
