(* ===== verification/Prompt_Admission.thy ===== *)
theory Prompt_Admission
  imports Server_Profile Effects Run_Resources
begin

text \<open>
  \<open>schema_admission_adapter.py\<close>, \<open>prompt_admission.py\<close> and \<open>session_lifecycle.py\<close>: a prompt is admitted by
  the server's durable prompt route, a replay of an admission counts as the admission, and the answers of the
  abort route are read. An \<open>OpenCodeApiError\<close> is a value with its attributes; the request itself is the
  parameter \<open>send\<close>. The rendering of the records is not part of the model.
\<close>

section \<open>Answers of the server\<close>

record api_response_error =
  ae_message :: string
  ae_status :: "int option"
  ae_method :: "string option"
  ae_path :: "string option"
  ae_body :: "string option"
  ae_data :: json

datatype api_answer = ApiResponse json string | ApiError api_response_error

definition error_method :: "api_response_error \<Rightarrow> string" where
  "error_method e = py_upper (case ae_method e of None \<Rightarrow> [] | Some m \<Rightarrow> m)"

definition error_path :: "api_response_error \<Rightarrow> string" where
  "error_path e = before_char (CHR ''?'') (case ae_path e of None \<Rightarrow> [] | Some p \<Rightarrow> p)"

definition is_session_not_found_error :: "api_response_error \<Rightarrow> bool" where
  "is_session_not_found_error e \<longleftrightarrow>
     ae_status e = Some 404 \<and>
     (let method = error_method e; parts = split_on (CHR ''/'') (error_path e) in
      if method = ''POST'' \<and> length parts = 4 \<and> parts ! 1 = ''session''
      then parts ! 2 \<noteq> [] \<and> parts ! 3 \<in> {''run'', ''reply'', ''message'', ''abort'', ''fork''}
      else if method = ''GET'' \<and> length parts = 4 \<and> parts ! 1 = ''session''
      then parts ! 2 \<noteq> [] \<and> parts ! 3 = ''children''
      else method \<in> {''GET'', ''DELETE''} \<and> length parts = 4 \<and> parts ! 1 = ''api'' \<and> parts ! 2 = ''session'' \<and>
           parts ! 3 \<noteq> [])"

section \<open>Aborts\<close>

definition abort_data :: "json \<Rightarrow> jdict" where
  "abort_data data = (case data of JBool b \<Rightarrow> [(''accepted'', JBool b)] | JObj d \<Rightarrow> d | _ \<Rightarrow> [])"

definition abort_accepted :: "jdict \<Rightarrow> bool" where
  "abort_accepted d =
     (case bool_value (first_present (JObj d) [''accepted'', ''aborted'', ''ok'', ''success'']) of
        Some b \<Rightarrow> b
      | None \<Rightarrow>
          py_lower (py_str (truthy_or (first_present (JObj d) [''status'', ''state'']) (JStr [])))
            \<notin> {''denied'', ''error'', ''failed'', ''not_accepted'', ''rejected'', ''unsupported''})"

definition abort_record :: "json \<Rightarrow> json \<Rightarrow> jdict" where
  "abort_record session_id data =
     (let d = abort_data data; raw = first_present (JObj d) [''status'', ''state''] in
      [(''session_id'', truthy_or (first_present (JObj d) [''sessionID'', ''sessionId'', ''session_id'', ''id'']) session_id),
       (''accepted'', JBool (abort_accepted d)), (''status'', opt_json (short_status raw)), (''raw_status'', raw),
       (''response'', JObj d)])"

section \<open>Admissions\<close>

definition ADMISSION_MESSAGE_ID_ALIASES :: "string list" where
  "ADMISSION_MESSAGE_ID_ALIASES = CAMEL_MESSAGE_ID_ALIASES @ PROMPT_ID_ALIASES @ [''id'']"

definition ADMITTED_SEQUENCE_ALIASES :: "string list" where
  "ADMITTED_SEQUENCE_ALIASES = [''admittedSeq'', ''admittedSequence'', ''admitted_sequence'', ''sequence'']"

definition PROMOTED_SEQUENCE_ALIASES :: "string list" where
  "PROMOTED_SEQUENCE_ALIASES = [''promotedSeq'', ''promotedSequence'', ''promoted_sequence'']"

definition admission_data :: "json \<Rightarrow> json" where
  "admission_data data =
     (case data of
        JObj d \<Rightarrow> (if is_dict (dict_get d ''data'') then dict_get d ''data'' else data)
      | _ \<Rightarrow> JObj [])"

record admission_fields =
  af_session_id :: json
  af_message_id :: json
  af_delivery :: json
  af_state :: json
  af_idempotency :: json
  af_admitted_sequence :: json
  af_promoted_sequence :: json

definition admission_response_fields :: "json \<Rightarrow> admission_fields" where
  "admission_response_fields response =
     (let data = admission_data response in
      \<lparr>af_session_id = root_or_info_value data SESSION_ID_ALIASES,
       af_message_id = root_or_info_value data ADMISSION_MESSAGE_ID_ALIASES,
       af_delivery = first_present data DELIVERY_ALIASES,
       af_state = first_present data STATUS_ALIASES,
       af_idempotency = first_present data [''idempotency'', ''idempotencyStatus''],
       af_admitted_sequence = first_present data ADMITTED_SEQUENCE_ALIASES,
       af_promoted_sequence = first_present data PROMOTED_SEQUENCE_ALIASES\<rparr>)"

definition normalize_admission_record :: "json \<Rightarrow> json \<Rightarrow> json \<Rightarrow> json \<Rightarrow> jdict \<Rightarrow> jdict result" where
  "normalize_admission_record session_id delivery message_id data capabilities =
     (let f = admission_response_fields data; state = truthy_or (af_state f) (JStr ''admitted'') in
      res_bind (indexed_mapping capabilities ''route_availability'') (\<lambda>ra.
      res_bind (indexed_mapping ra ''v2_prompt'') (\<lambda>route.
      res_bind (indexed route ''path'') (\<lambda>path.
      res_bind (indexed capabilities ''legacy_fallback_available'') (\<lambda>legacy.
      Inr [(''session_id'', truthy_or (af_session_id f) session_id),
           (''message_id'', truthy_or (af_message_id f) message_id),
           (''delivery'', truthy_or (af_delivery f) delivery), (''state'', state), (''raw_state'', state),
           (''status'', opt_json (short_status state)), (''terminal_state'', JNull), (''api_path'', path),
           (''fallback'', JObj [(''available'', legacy), (''strategy'', JStr ''legacy_run_reply''), (''used'', JBool False)]),
           (''admitted_sequence'', af_admitted_sequence f), (''promoted_sequence'', af_promoted_sequence f)])))))"

text \<open>Membership in a set of texts raises on a value that cannot be hashed.\<close>

definition in_texts :: "json \<Rightarrow> string list \<Rightarrow> bool result" where
  "in_texts v ts = (if hashable v then Inr (v \<in> JStr ` set ts) else Inl (TypeError ''unhashable type''))"

definition replay_marked :: "jdict \<Rightarrow> admission_fields \<Rightarrow> bool result" where
  "replay_marked d f =
     (if dict_get d ''duplicate'' = JBool True \<or> dict_get d ''idempotent'' = JBool True then Inr True
      else res_bind (in_texts (af_idempotency f) [''duplicate'', ''replayed'', ''existing'']) (\<lambda>b.
        if b then Inr True
        else in_texts (af_state f) [''admitted'', ''promoted'', ''running'', ''completed'', ''failed'']))"

definition is_idempotent_admission_replay :: "api_response_error \<Rightarrow> json \<Rightarrow> bool result" where
  "is_idempotent_admission_replay e message_id =
     (if ae_status e \<noteq> Some 409 then Inr False
      else case ae_data e of
          JObj d \<Rightarrow> (let f = admission_response_fields (ae_data e) in
            if \<not> py_eq (af_message_id f) message_id then Inr False else replay_marked d f)
        | _ \<Rightarrow> Inr False)"

fun error_detail_in :: "jdict \<Rightarrow> string list \<Rightarrow> string option" where
  "error_detail_in d [] = None"
| "error_detail_in d (n # ns) =
     (case dict_get d n of
        JStr s \<Rightarrow> Some s
      | JObj e \<Rightarrow> (case first_present (JObj e) [''message'', ''detail'', ''error''] of
          JStr s \<Rightarrow> Some s | _ \<Rightarrow> error_detail_in d ns)
      | _ \<Rightarrow> error_detail_in d ns)"

definition api_error_detail :: "api_response_error \<Rightarrow> string" where
  "api_error_detail e =
     (case ae_data e of
        JObj d \<Rightarrow> (case error_detail_in d [''error'', ''message'', ''detail''] of Some s \<Rightarrow> s | None \<Rightarrow> ae_message e)
      | _ \<Rightarrow> ae_message e)"

definition UNSUPPORTED_BEHAVIOR_STATUSES :: "int list" where
  "UNSUPPORTED_BEHAVIOR_STATUSES = [400, 404, 405, 415, 422]"

definition unsupported_prompt_capability :: py_error where
  "unsupported_prompt_capability = RemoteError ''PromptAdmissionUnsupported''
     (''unsupported v2 prompt capability; durable prompt admission requires '' @
      ''POST /api/session/{sessionID}/prompt or POST /session/{sessionID}/prompt_async; '' @
      ''legacy run/reply fallback is not used for steer admission'')"

definition admission_failure :: "api_response_error \<Rightarrow> bool \<Rightarrow> py_error" where
  "admission_failure e map_unsupported =
     (if \<not> map_unsupported then RemoteError ''OpenCodeApiError'' (ae_message e)
      else if ae_status e \<in> Some ` set UNSUPPORTED_BEHAVIOR_STATUSES
      then RemoteError ''PromptAdmissionUnsupported''
        (''unsupported v2 prompt behavior; '' @ api_error_detail e @ ''; legacy run/reply fallback is not used'')
      else RemoteError ''PromptAdmissionFailure''
        (''prompt admission failed; '' @ ae_message e @ ''; legacy run/reply fallback is not used''))"

record admission_result =
  ad_record :: jdict
  ad_body :: string
  ad_message_id :: json
  ad_payload :: json
  ad_replayed :: bool

type_synonym 's prompt_sender = "json \<Rightarrow> json \<Rightarrow> json \<Rightarrow> ('s, api_answer) action"

definition admission_of_answer ::
  "jdict \<Rightarrow> json \<Rightarrow> json \<Rightarrow> json \<Rightarrow> json \<Rightarrow> bool \<Rightarrow> api_answer \<Rightarrow> admission_result result" where
  "admission_of_answer capabilities session_id delivery mid payload map_unsupported answer =
     (case answer of
        ApiResponse data body \<Rightarrow>
          res_bind (normalize_admission_record session_id delivery mid data capabilities) (\<lambda>r.
          Inr \<lparr>ad_record = r, ad_body = body, ad_message_id = mid, ad_payload = payload, ad_replayed = False\<rparr>)
      | ApiError e \<Rightarrow>
          res_bind (is_idempotent_admission_replay e mid) (\<lambda>replay.
          if replay
          then res_bind (normalize_admission_record session_id delivery mid (ae_data e) capabilities) (\<lambda>r.
               Inr \<lparr>ad_record = r, ad_body = (case ae_body e of None \<Rightarrow> [] | Some b \<Rightarrow> b), ad_message_id = mid,
                 ad_payload = payload, ad_replayed = True\<rparr>)
          else Inl (admission_failure e map_unsupported)))"

text \<open>A message id that is not given is drawn by the caller.\<close>

definition admit_prompt ::
  "'s prompt_sender \<Rightarrow> jdict \<Rightarrow> json \<Rightarrow> json \<Rightarrow> json \<Rightarrow> json \<Rightarrow> string \<Rightarrow> bool \<Rightarrow> ('s, admission_result) action" where
  "admit_prompt send capabilities session_id txt delivery message_id fresh map_unsupported =
     act_bind (act_result (indexed capabilities ''v2_prompt_support'')) (\<lambda>support.
     if \<not> py_truthy support then act_raise unsupported_prompt_capability
     else act_bind (act_result (from_capabilities (JObj capabilities))) (\<lambda>profile.
       let mid = truthy_or message_id (JStr fresh);
           payload = prompt_admission_payload profile mid txt delivery in
       act_bind (send session_id payload (dict_get (pr_route_plan profile) ''v2_prompt'')) (\<lambda>answer.
       act_result (admission_of_answer capabilities session_id delivery mid payload map_unsupported answer))))"

end
