(* ===== verification/Run_Commands.thy ===== *)
theory Run_Commands
  imports Start_Facts Prompt_Admission
begin

text \<open>
  \<open>run_services.py\<close> and \<open>run_prompt_worker.py\<close>: the commands on a run. Workers are created and changed
  through the store, prompts and aborts of a running worker are sent through the outbox of the run, expired
  attempts are recovered when a run is loaded, and results are collected. The connection to a server (the
  client with its capabilities), its two requests, drawn ids, the resolution of a directory and the server
  URL of the environment are parameters.
\<close>

section \<open>Workers of a run\<close>

definition run_label :: "run_record \<Rightarrow> string result" where
  "run_label run = res_bind (indexed (rn_fields run) ''name'') (\<lambda>v. Inr (py_str v))"

definition run_server_url :: "run_record \<Rightarrow> json result" where
  "run_server_url run = indexed (rn_fields run) ''server_url''"

definition not_in_run :: "run_record \<Rightarrow> string \<Rightarrow> 'a result" where
  "not_in_run run i =
     res_bind (run_label run) (\<lambda>n.
     Inl (store_error (''worker '' @ quoted i @ '' not found in run '' @ quoted n) ''missing''))"

definition worker_result :: "run_record \<Rightarrow> string \<Rightarrow> worker_record result" where
  "worker_result run i =
     (case run_worker run i of
        None \<Rightarrow> not_in_run run i
      | Some w \<Rightarrow>
          if is_dict (wr_slots w F_result) then Inr w
          else res_bind (run_label run) (\<lambda>n.
            Inl (store_error (''worker '' @ quoted i @ '' in run '' @ quoted n @ '' has no collected result'') ''missing'')))"

definition worker_with_session :: "run_record \<Rightarrow> string \<Rightarrow> worker_record result" where
  "worker_with_session run i =
     (case run_worker run i of
        None \<Rightarrow> not_in_run run i
      | Some w \<Rightarrow>
          if py_truthy (wr_slots w F_session_id) then Inr w
          else res_bind (run_label run) (\<lambda>n.
            Inl (store_error (''worker '' @ quoted i @ '' in run '' @ quoted n @ '' has no session'') ''missing'')))"

section \<open>Creating and changing workers\<close>

definition raw_lifecycle_error :: py_error where
  "raw_lifecycle_error = store_error
     (''raw lifecycle_state updates are not supported by run commands; '' @
      ''use --status active/blocked or the explicit start/abort/result transitions'') ''data''"

definition manual_status_error :: "string option \<Rightarrow> py_error" where
  "manual_status_error status = store_error
     (''worker status '' @ quoted (py_str (opt_json status)) @ '' cannot be set manually; '' @
      ''use run start, run abort, or reducer-owned result/failure/timeout handling'') ''data''"

definition blockers_required_error :: py_error where
  "blockers_required_error = store_error ''--status blocked requires at least one --blocker'' ''data''"

definition given_blockers :: "jdict \<Rightarrow> json list result" where
  "given_blockers changes =
     res_bind (iterated (dict_get changes ''blockers'')) (\<lambda>bs. Inr (filter (\<lambda>b. py_strip (py_str b) \<noteq> []) bs))"

definition manual_transition :: "string \<Rightarrow> jdict \<Rightarrow> json \<Rightarrow> worker_record \<Rightarrow> worker_transition result" where
  "manual_transition status changes now w =
     (if status = ''active'' then Inr (mark_worker_active w (Some now))
      else res_bind (given_blockers changes) (\<lambda>bs.
        if bs = [] then Inl blockers_required_error else Inr (mark_dependency_blocked w bs)))"

definition manual_status_update :: "string \<Rightarrow> string \<Rightarrow> jdict \<Rightarrow> json \<Rightarrow> run_record \<Rightarrow> run_record result" where
  "manual_status_update status i changes now run =
     res_bind (as_store_error (upsert_worker_record i changes now run)) (\<lambda>run1.
     case run_worker run1 i of
       None \<Rightarrow> Inl (KeyError i)
     | Some w \<Rightarrow>
         res_bind (manual_transition status changes now w) (\<lambda>tr.
         res_bind (apply_transition w tr) (\<lambda>w'.
         Inr (set_run_updated_at now (set_run_worker run1 i w')))))"

definition command_upsert_worker ::
  "(string \<Rightarrow> pyfloat option) \<Rightarrow> string \<Rightarrow> string \<Rightarrow> string \<Rightarrow> jdict \<Rightarrow> json \<Rightarrow> run_store \<Rightarrow> (run_record \<times> run_store) result" where
  "command_upsert_worker pf cwd name i given now s =
     (if dict_get given ''lifecycle_state'' \<noteq> JNull then Inl raw_lifecycle_error
      else let changes = dict_pop ''status'' (dict_pop ''lifecycle_state'' given);
               status = dict_get given ''status'' in
        if status = JNull then upsert_worker pf cwd name i changes now s
        else case short_status status of
            Some st \<Rightarrow> if st \<in> {''active'', ''blocked''}
              then update_run pf cwd name (manual_status_update st i changes now) False s
              else Inl (manual_status_error (Some st))
          | None \<Rightarrow> Inl (manual_status_error None))"

record prompt_request =
  pq_start :: start_request
  pq_prompt :: json
  pq_default_server_url :: "string option"

text \<open>\<open>a or b\<close> of an optional text\<close>

definition or_text :: "string option \<Rightarrow> string \<Rightarrow> string" where
  "or_text a b = (case a of Some (c # cs) \<Rightarrow> c # cs | _ \<Rightarrow> b)"

definition ensure_run ::
  "(string \<Rightarrow> pyfloat option) \<Rightarrow> string \<Rightarrow> (string \<Rightarrow> string) \<Rightarrow> string \<Rightarrow> prompt_request \<Rightarrow> json \<Rightarrow> (run_store, unit) action" where
  "ensure_run pf cwd resolve environment_url q now s =
     (let r = pq_start q; name = sq_name r in
      case load_run pf cwd name s of
        Inr run \<Rightarrow> (Inr (), s)
      | Inl (RunStoreError msg kind) \<Rightarrow>
          if kind \<noteq> ''missing'' then (Inl (RunStoreError msg kind), s)
          else act_bind (act_update (create_run pf cwd name (resolve (or_text (sq_directory r) ''.''))
              (JStr (or_text (sq_server_url r) (or_text (pq_default_server_url q) environment_url))) now)) (\<lambda>_.
            act_return ()) s
      | Inl e \<Rightarrow> (Inl e, s))"

definition prompt_changes :: "prompt_request \<Rightarrow> jdict" where
  "prompt_changes q =
     (let r = pq_start q in
      [(''role'', sq_role r), (''prompt'', pq_prompt q), (''lifecycle_state'', JStr (lifecycle_name Queued)),
       (''session_id'', sq_session_id r), (''agent'', sq_agent r), (''model'', sq_model r)])"

definition ensure_prompt_worker ::
  "(string \<Rightarrow> pyfloat option) \<Rightarrow> string \<Rightarrow> (string \<Rightarrow> string) \<Rightarrow> string \<Rightarrow> (run_store \<Rightarrow> json) \<Rightarrow> prompt_request \<Rightarrow>
   (run_store, unit) action" where
  "ensure_prompt_worker pf cwd resolve environment_url now q =
     act_bind (act_read now) (\<lambda>t.
     act_bind (ensure_run pf cwd resolve environment_url q t) (\<lambda>_.
     act_bind (act_read now) (\<lambda>t.
     act_bind (act_update (upsert_worker pf cwd (sq_name (pq_start q)) (sq_worker_id (pq_start q)) (prompt_changes q) t)) (\<lambda>_.
     act_return ()))))"

text \<open>Without a prompt the run has to exist; \<open>None\<close> is a start that does not return.\<close>

definition command_start_run ::
  "(string \<Rightarrow> pyfloat option) \<Rightarrow> string \<Rightarrow> (string \<Rightarrow> string) \<Rightarrow> string \<Rightarrow> (run_store \<Rightarrow> json) \<Rightarrow> (string \<Rightarrow> int option) \<Rightarrow>
   (run_store, 'c, 'k) capability_probe \<Rightarrow> (run_store, 'c, 'k) worker_executor \<Rightarrow> ('c \<Rightarrow> run_store cleanup_client) \<Rightarrow>
   prompt_request \<Rightarrow> run_store \<Rightarrow> (start_outcome result \<times> run_store) option" where
  "command_start_run pf cwd resolve environment_url now of_iso probe exec sessions q s =
     (let start = start_run (load_run pf cwd) (\<lambda>name m. update_run pf cwd name m False) now of_iso probe exec sessions (pq_start q) in
      if pq_prompt q = JNull then start s
      else case ensure_prompt_worker pf cwd resolve environment_url now q s of
          (Inl e, s') \<Rightarrow> Some (Inl e, s')
        | (Inr _, s') \<Rightarrow> start s')"

section \<open>Loading and collecting\<close>

definition command_load_run ::
  "'s loader \<Rightarrow> 's updater \<Rightarrow> ('s \<Rightarrow> json) \<Rightarrow> (string \<Rightarrow> int option) \<Rightarrow> string \<Rightarrow> ('s, run_record) action" where
  "command_load_run load update now of_iso name =
     act_bind (\<lambda>s. act_result (load name s) s) (\<lambda>run.
     act_bind (act_read now) (\<lambda>t.
     act_bind (act_result (recover_expired_active_attempts of_iso t (rn_workers run))) (\<lambda>recoveries.
     if recoveries = [] then act_return run
     else persist_all update now (map ar_transition recoveries) run)))"

record collect_result =
  cl_run :: run_record
  cl_worker :: "worker_record option"
  cl_workers :: "worker_record list"

definition collect_results :: "'s loader \<Rightarrow> string \<Rightarrow> string option \<Rightarrow> 's \<Rightarrow> collect_result result" where
  "collect_results load name chosen s =
     res_bind (load name s) (\<lambda>run.
     let one = (\<lambda>i. res_bind (worker_result run i) (\<lambda>w. Inr \<lparr>cl_run = run, cl_worker = Some w, cl_workers = []\<rparr>)) in
     case (chosen, rn_workers run) of
       (Some i, _) \<Rightarrow> one i
     | (None, [(i, w)]) \<Rightarrow> one i
     | (None, ws) \<Rightarrow>
         res_bind (workers_in_dependency_order ws) (\<lambda>order.
         let completed = filter (\<lambda>w. is_dict (wr_slots w F_result)) (map (\<lambda>i. the (map_of ws i)) order) in
         if completed = []
         then Inl (store_error (''run '' @ quoted name @ '' has no collected worker results'') ''missing'')
         else Inr \<lparr>cl_run = run, cl_worker = None, cl_workers = completed\<rparr>))"

section \<open>Operations of the outbox\<close>

definition STEER_PROMPT_KIND :: string where "STEER_PROMPT_KIND = ''steer_prompt''"
definition ABORT_WORKER_KIND :: string where "ABORT_WORKER_KIND = ''abort_worker''"

definition STEER_PROMPT_REMOTE_MUTATION :: mutation_operation where
  "STEER_PROMPT_REMOTE_MUTATION =
     \<lparr>mo_kind = STEER_PROMPT_KIND, mo_discard_cleanup_operation = ''discard_remote_mutation'',
      mo_finalize_cleanup_operation = ''finalize_remote_mutation'', mo_call_remote_operation = ''call_steer_prompt''\<rparr>"

definition ABORT_WORKER_REMOTE_MUTATION :: mutation_operation where
  "ABORT_WORKER_REMOTE_MUTATION =
     \<lparr>mo_kind = ABORT_WORKER_KIND, mo_discard_cleanup_operation = ''discard_remote_mutation'',
      mo_finalize_cleanup_operation = ''finalize_remote_mutation'', mo_call_remote_operation = ''call_abort_worker''\<rparr>"

definition recoverable_remote_mutation_entries :: "run_record \<Rightarrow> string option \<Rightarrow> json list result" where
  "recoverable_remote_mutation_entries run kind = pending_entries REMOTE_MUTATION_JOURNAL_FIELD kind None run"

text \<open>The fields of an intent are those it was made with.\<close>

definition intent_field :: "journal_record \<Rightarrow> string \<Rightarrow> json result" where
  "intent_field r k = indexed (jr_fields r) k"

section \<open>Steering a worker\<close>

definition steer_prompt_intent :: "string \<Rightarrow> string \<Rightarrow> json \<Rightarrow> string \<Rightarrow> string \<Rightarrow> string \<Rightarrow> journal_record result" where
  "steer_prompt_intent j i session_id message_id delivery txt =
     make_journal_record j STEER_PROMPT_KIND
       [(''worker_id'', JStr i), (''session_id'', session_id), (''message_id'', JStr message_id),
        (''delivery'', JStr delivery), (''text'', JStr txt)]"

definition remember_admitted_prompt :: "string \<Rightarrow> json \<Rightarrow> run_record \<Rightarrow> run_record result" where
  "remember_admitted_prompt i message_id latest =
     res_bind (worker_with_session latest i) (\<lambda>w.
     res_bind (remember_prompt_id w message_id) (\<lambda>w'. Inr (set_run_worker latest i w')))"

definition call_admission ::
  "'s prompt_sender \<Rightarrow> jdict \<Rightarrow> run_record \<Rightarrow> journal_record \<Rightarrow> ('s, admission_result) action" where
  "call_admission send capabilities run intent =
     act_bind (act_result (intent_field intent ''session_id'')) (\<lambda>session_id.
     act_bind (act_result (intent_field intent ''text'')) (\<lambda>txt.
     act_bind (act_result (intent_field intent ''delivery'')) (\<lambda>delivery.
     act_bind (act_result (intent_field intent ''message_id'')) (\<lambda>mid.
     admit_prompt send capabilities session_id txt delivery mid [] True))))"

definition apply_admission :: "admission_result \<Rightarrow> journal_record \<Rightarrow> mutation_result option result" where
  "apply_admission r intent =
     res_bind (intent_worker_id intent) (\<lambda>i.
     res_bind (indexed (ad_record r) ''message_id'') (\<lambda>mid.
     res_bind (result_finalize (Some (remember_admitted_prompt i mid))) (\<lambda>m. Inr (Some m))))"

definition steer_mutation ::
  "'s prompt_sender \<Rightarrow> jdict \<Rightarrow> string \<Rightarrow> string \<Rightarrow> string \<Rightarrow> string \<Rightarrow> string \<Rightarrow> ('s, admission_result) remote_mutation" where
  "steer_mutation send capabilities j i message_id delivery txt =
     \<lparr>rm_intent = (\<lambda>s latest. res_bind (worker_with_session latest i) (\<lambda>w.
        steer_prompt_intent j i (wr_slots w F_session_id) message_id delivery txt)),
      rm_call = call_admission send capabilities,
      rm_succeeded = None,
      rm_succeeded_policy = MISSING_INTENT_IGNORE,
      rm_apply = Some (\<lambda>s r intent succeeded. apply_admission r intent)\<rparr>"

record steer_result =
  st_run :: run_record
  st_worker :: "worker_record option"
  st_admission :: jdict

definition configured_capabilities :: "('c \<Rightarrow> ('s, jdict) action) \<Rightarrow> 'c \<Rightarrow> ('s, jdict) action" where
  "configured_capabilities detect client =
     act_bind (detect client) (\<lambda>capabilities.
     act_bind (act_result (from_capabilities (JObj capabilities))) (\<lambda>_. act_return capabilities))"

definition steer_worker ::
  "'s loader \<Rightarrow> 's updater \<Rightarrow> ('s \<Rightarrow> json) \<Rightarrow> (json \<Rightarrow> ('s, 'c) action) \<Rightarrow> ('c \<Rightarrow> ('s, jdict) action) \<Rightarrow>
   ('c \<Rightarrow> 's prompt_sender) \<Rightarrow> ('s \<Rightarrow> string) \<Rightarrow> ('s \<Rightarrow> string) \<Rightarrow> string \<Rightarrow> string \<Rightarrow> string \<Rightarrow> string \<Rightarrow> string option \<Rightarrow>
   ('s, steer_result) action" where
  "steer_worker load update now connect detect send new_message new_mutation name i txt delivery message_id =
     act_bind (\<lambda>s. act_result (load name s) s) (\<lambda>run.
     act_bind (act_result (worker_with_session run i)) (\<lambda>_.
     act_bind (act_result (run_server_url run)) (\<lambda>url.
     act_bind (connect url) (\<lambda>client.
     act_bind (configured_capabilities detect client) (\<lambda>capabilities.
     act_bind (act_read new_message) (\<lambda>fresh.
     act_bind (act_read new_mutation) (\<lambda>j.
     act_bind (run_remote_mutation load update now REMOTE_MUTATION_JOURNAL_FIELD j STEER_PROMPT_REMOTE_MUTATION
       (steer_mutation (send client) capabilities j i (or_text message_id fresh) delivery txt) run) (\<lambda>(run', r, intent).
     act_return \<lparr>st_run = run', st_worker = run_worker run' i, st_admission = ad_record r\<rparr>))))))))"

section \<open>Aborting a worker\<close>

definition abort_worker_intent :: "string \<Rightarrow> string \<Rightarrow> json \<Rightarrow> journal_record result" where
  "abort_worker_intent j i session_id =
     make_journal_record j ABORT_WORKER_KIND [(''worker_id'', JStr i), (''session_id'', session_id)]"

definition apply_abort_worker :: "string \<Rightarrow> json \<Rightarrow> json \<Rightarrow> run_record \<Rightarrow> run_record result" where
  "apply_abort_worker i session_id response latest =
     res_bind (worker_with_session latest i) (\<lambda>w.
     res_bind (apply_transition w (mark_worker_aborted w (JObj (abort_record session_id response)))) (\<lambda>w'.
     refresh_orchestration_run_summary (set_run_worker latest i w')))"

definition session_not_found :: "json \<Rightarrow> py_error" where
  "session_not_found session_id = RemoteError ''RunWorkerSessionNotFound'' (''session not found: '' @ py_str session_id)"

definition call_abort ::
  "(json \<Rightarrow> ('s, api_answer) action) \<Rightarrow> run_record \<Rightarrow> journal_record \<Rightarrow> ('s, json \<times> string) action" where
  "call_abort request run intent =
     act_bind (act_result (intent_field intent ''session_id'')) (\<lambda>session_id.
     act_bind (request session_id) (\<lambda>answer.
     case answer of
       ApiResponse data body \<Rightarrow> act_return (data, body)
     | ApiError e \<Rightarrow> act_raise (if is_session_not_found_error e then session_not_found session_id
         else RemoteError ''OpenCodeApiError'' (ae_message e))))"

definition apply_abort :: "json \<times> string \<Rightarrow> journal_record \<Rightarrow> mutation_result option result" where
  "apply_abort r intent =
     res_bind (intent_worker_id intent) (\<lambda>i.
     res_bind (intent_field intent ''session_id'') (\<lambda>session_id.
     res_bind (result_finalize (Some (apply_abort_worker i session_id (fst r)))) (\<lambda>m. Inr (Some m))))"

definition abort_mutation :: "(json \<Rightarrow> ('s, api_answer) action) \<Rightarrow> string \<Rightarrow> string \<Rightarrow> ('s, json \<times> string) remote_mutation" where
  "abort_mutation request j i =
     \<lparr>rm_intent = (\<lambda>s latest. res_bind (worker_with_session latest i) (\<lambda>w.
        abort_worker_intent j i (wr_slots w F_session_id))),
      rm_call = call_abort request,
      rm_succeeded = None,
      rm_succeeded_policy = MISSING_INTENT_IGNORE,
      rm_apply = Some (\<lambda>s r intent succeeded. apply_abort r intent)\<rparr>"

record abort_result =
  br_run :: run_record
  br_worker :: "worker_record option"
  br_abort :: jdict
  br_raw_body :: string

definition abort_worker ::
  "'s loader \<Rightarrow> 's updater \<Rightarrow> ('s \<Rightarrow> json) \<Rightarrow> (json \<Rightarrow> ('s, 'c) action) \<Rightarrow> ('c \<Rightarrow> json \<Rightarrow> ('s, api_answer) action) \<Rightarrow>
   ('s \<Rightarrow> string) \<Rightarrow> string \<Rightarrow> string \<Rightarrow> ('s, abort_result) action" where
  "abort_worker load update now connect request new_mutation name i =
     act_bind (\<lambda>s. act_result (load name s) s) (\<lambda>run.
     act_bind (act_result (worker_with_session run i)) (\<lambda>_.
     act_bind (act_result (run_server_url run)) (\<lambda>url.
     act_bind (connect url) (\<lambda>client.
     act_bind (act_read new_mutation) (\<lambda>j.
     act_bind (run_remote_mutation load update now REMOTE_MUTATION_JOURNAL_FIELD j ABORT_WORKER_REMOTE_MUTATION
       (abort_mutation (request client) j i) run) (\<lambda>(run', (data, body), intent).
     act_bind (act_result (intent_field intent ''session_id'')) (\<lambda>session_id.
     act_return \<lparr>br_run = run', br_worker = run_worker run' i, br_abort = abort_record session_id data, br_raw_body = body\<rparr>)))))))"

end
