(* ===== verification/Command_Facts.thy ===== *)
theory Command_Facts
  imports Live_Outbox Run_Commands
begin

text \<open>
  The commands on a run over the file store: an abort and a prompt for a running worker return when the server
  answers, the answer is in the stored worker and the outbox is empty again; when the server refuses, the workers
  are as before and the outbox keeps an uncertain entry that the recovery finds. A status set by hand moves the
  worker to one of two states.
\<close>

section \<open>The summary of a run\<close>

definition hashable_dependencies :: "workers \<Rightarrow> bool" where
  "hashable_dependencies ws \<longleftrightarrow> list_all (\<lambda>(i, w). list_all hashable (worker_dependencies w)) ws"

lemma hashable_set:
  "hashable_dependencies ws \<Longrightarrow> map_of ws i = Some w \<Longrightarrow> wr_slots w' F_dependencies = wr_slots w F_dependencies \<Longrightarrow>
     hashable_dependencies (dict_set i w' ws)"
proof -
  assume h: "hashable_dependencies ws" and w: "map_of ws i = Some w" and "wr_slots w' F_dependencies = wr_slots w F_dependencies"
  then have "worker_dependencies w' = worker_dependencies w" by (simp add: worker_dependencies_def)
  moreover have "(i, w) \<in> set ws" using w by (rule map_of_SomeD)
  ultimately show ?thesis using h by (fastforce simp: hashable_dependencies_def list_all_iff dest: in_dict_set)
qed

lemma refresh_returns:
  assumes "hashable_dependencies (rn_workers run)"
  obtains run' where "refresh_orchestration_run_summary run = Inr run'" and "rn_workers run' = rn_workers run"
    and "unfenced run run'"
proof -
  have "list_all (\<lambda>(i, ds). list_all hashable ds) (worker_dependency_graph (rn_workers run))"
    using assms by (auto simp: hashable_dependencies_def worker_dependency_graph_def list_all_iff)
  then have "\<exists>a. analyze_worker_dependencies (rn_workers run) = Inr a"
    by (auto simp: analyze_worker_dependencies_def Let_def list_ex_iff list_all_iff split: prod.split)
  then obtain a where a: "analyze_worker_dependencies (rn_workers run) = Inr a" by blast
  then have "\<exists>run'. refresh_orchestration_run_summary run = Inr run' \<and> rn_workers run' = rn_workers run \<and> unfenced run run'"
    by (auto simp: refresh_orchestration_run_summary_def refresh_run_summary_def worker_output_refs_in_dependency_order_def
        workers_in_dependency_order_def Let_def set_run_field_def unfenced_def split: option.split)
  with that show thesis by blast
qed

section \<open>The transition of an abort\<close>

lemma abort_record_accepted: "abort_is_accepted (JObj (abort_record sid data)) \<longleftrightarrow> abort_accepted (abort_data data)"
  by (simp add: abort_is_accepted_def abort_record_def Let_def dict_get_Cons)

lemma addressed_abort: "wf_worker w \<Longrightarrow> addressed (mark_worker_aborted w a)"
  using worker_id_str_nonempty
  by (simp add: addressed_def mark_worker_aborted_def aborted_transition_def make_transition_def)

lemma abort_applied:
  assumes wf: "wf_worker w" and app: "apply_transition w (mark_worker_aborted w a) = Inr w'"
  shows "wf_worker w'" and "worker_id w' = worker_id w"
proof -
  have wid: "wt_worker_id (mark_worker_aborted w a) \<noteq> []" and ns: "wt_name (mark_worker_aborted w a) \<noteq> T_SNAPSHOT_APPLIED"
    using addressed_abort [OF wf] by (simp_all add: addressed_def)
  show "wf_worker w'" by (rule wf_apply_transition [OF wf wid app])
  obtain i where i: "worker_id w = JStr i" "i \<noteq> []" using wf_worker_id [OF wf] by blast
  have "wt_worker_id (mark_worker_aborted w a) = i"
    by (simp add: mark_worker_aborted_def aborted_transition_def make_transition_def worker_id_str_def i(1))
  then have "has_id i w'" by (rule apply_transition_id [OF wf _ i(2) _ ns app]) (use i(1) in \<open>simp add: has_id_def worker_id_def\<close>)
  then show "worker_id w' = worker_id w" using i(1) by (simp add: has_id_def worker_id_def)
qed

lemma abort_transition:
  assumes wf: "wf_worker w" and l: "worker_lifecycle w = Some l" "l \<notin> final_states"
  obtains w' where "apply_transition w (mark_worker_aborted w a) = Inr w'" and "wf_worker w'" and "worker_id w' = worker_id w"
    and "wr_slots w' F_dependencies = wr_slots w F_dependencies"
    and "if abort_is_accepted a then accepted_abort w' else worker_lifecycle w' = Some l"
proof -
  let ?tr = "mark_worker_aborted w a" and ?p = "P_Aborted a"
  have tr: "wt_name ?tr = T_ABORTED" "require_transition_payload ?tr = Inr ?p" "wt_worker_id ?tr = worker_id_str w"
    by (simp_all add: mark_worker_aborted_def aborted_transition_def make_transition_def require_transition_payload_def)
  have wid: "wt_worker_id ?tr \<noteq> []" and ns: "wt_name ?tr \<noteq> T_SNAPSHOT_APPLIED"
    using addressed_abort [OF wf] by (simp_all add: addressed_def)
  have "l \<in> set (ts_source_states (worker_transition_spec (wt_name ?tr)))"
    using l(2) by (cases l) (simp_all add: tr final_states_def)
  then have "worker_transition_is_legal w ?tr = Inr True" using legal_source [OF wf l(1) ns] by simp
  then obtain w' where app: "apply_transition w ?tr = Inr w'"
    using legal_apply [OF wf wid tr(2)] by (auto simp: tr)
  have deps: "wr_slots w' F_dependencies = wr_slots w F_dependencies"
    by (rule public_apply_configuration [OF wf wid ns app]) (simp add: configuration_fields_def)
  obtain w1 where red: "reduce_worker_transition_payload w ?tr = Inr w1" and e1: "effect w1 {F_attempts} (worker_lifecycle w1) w'"
    by (rule public_apply_reduce [OF wf wid ns app])
  then obtain w0 where w0: "reduce_aborted_transition w ?tr (Some Aborted) a = Inr w0"
    and inv: "accepted_abort_terminal_invariant w w0 ?p = Inr w1"
    by (auto simp: reduce_worker_transition_payload_def tr(2) payload_resolver [OF tr(2)] res_bind_Inr_iff)
  have e0: "effect w {F_id, F_abort, F_lifecycle_state} (if abort_is_accepted a then Some Aborted else worker_lifecycle w) w0"
    "wr_slots w0 F_abort = a"
    using reduce_aborted_effect [OF wf wid, of Aborted a] w0 by auto
  have slots: "wr_slots w' F_abort = wr_slots w1 F_abort" "worker_lifecycle w' = worker_lifecycle w1"
    using e1 by (simp_all add: effect_def)
  have "if abort_is_accepted a then accepted_abort w' else worker_lifecycle w' = Some l"
  proof (cases "abort_is_accepted a")
    case True
    then have "w1 = w0" using inv by (simp add: accepted_abort_terminal_invariant_def)
    then have "wr_slots w' F_abort = a" "worker_lifecycle w' = Some Aborted" using slots e0 True by (simp_all add: effect_def)
    then show ?thesis using True by (simp add: accepted_abort_def accepted_abort_fields_def)
  next
    case False
    have "worker_lifecycle w1 = Some l"
    proof (cases "accepted_abort w")
      case True
      then have "apply_accepted_abort_passthrough w w ?p = Inr w1"
        using inv False wf by (simp add: accepted_abort_terminal_invariant_def)
      then show ?thesis using l(1) by simp
    next
      case na: False
      then have "w1 = w0" using inv by (simp add: accepted_abort_terminal_invariant_def)
      then show ?thesis using e0(1) False l(1) by (simp add: effect_def)
    qed
    then show ?thesis using False slots(2) by simp
  qed
  then show thesis using that [OF app abort_applied [OF wf app] deps] by simp
qed

section \<open>Updates of a run by a command\<close>

lemma run_label_good: "good_run n run \<Longrightarrow> run_label run = Inr n"
  by (auto simp: run_label_def indexed_def good_run_def run_named_def dict_get_def split: option.splits)

lemma worker_with_session_Inr:
  "worker_with_session run i = Inr w \<longleftrightarrow> run_worker run i = Some w \<and> py_truthy (wr_slots w F_session_id)"
  by (auto simp: worker_with_session_def not_in_run_def res_bind_def split: option.splits if_splits sum.splits)

lemma good_set_worker:
  assumes "good_run n r" and "run_worker r i = Some w" and "wf_worker w'" and "worker_id w' = worker_id w"
  shows "good_run n (set_run_worker r i w')"
proof -
  have "i \<noteq> []" "worker_id w = JStr i"
    using assms(1,2) run_worker_ok by (auto simp: good_run_def)
  then show ?thesis
    using assms good_run_workers [OF assms(1) workers_ok_set] by (simp add: set_run_worker_def good_run_def wf_run_def)
qed

lemma apply_abort_returns:
  assumes good: "good_run n r" and w: "run_worker r i = Some w" "py_truthy (wr_slots w F_session_id)"
    and l: "worker_lifecycle w = Some l" "l \<notin> final_states" and h: "hashable_dependencies (rn_workers r)"
  shows "\<exists>r0. apply_abort_worker i sid data r = Inr r0 \<and> unfenced r r0 \<and>
    (\<exists>w'. rn_workers r0 = dict_set i w' (rn_workers r) \<and>
       (if abort_accepted (abort_data data) then accepted_abort w' else worker_lifecycle w' = Some l))"
proof -
  have wf: "wf_worker w" using good w(1) run_worker_ok by (auto simp: good_run_def)
  let ?a = "JObj (abort_record sid data)"
  obtain w' where w': "apply_transition w (mark_worker_aborted w ?a) = Inr w'"
    "wr_slots w' F_dependencies = wr_slots w F_dependencies"
    "if abort_is_accepted ?a then accepted_abort w' else worker_lifecycle w' = Some l"
    by (rule abort_transition [OF wf l])
  have "hashable_dependencies (rn_workers (set_run_worker r i w'))"
    using hashable_set [OF h _ w'(2)] w(1) by (simp add: set_run_worker_def run_worker_def)
  then obtain r0 where r0: "refresh_orchestration_run_summary (set_run_worker r i w') = Inr r0"
    "rn_workers r0 = rn_workers (set_run_worker r i w')" "unfenced (set_run_worker r i w') r0"
    by (rule refresh_returns)
  have "worker_with_session r i = Inr w" using w by (simp add: worker_with_session_Inr)
  then have "apply_abort_worker i sid data r = Inr r0" by (simp add: apply_abort_worker_def w'(1) r0(1))
  moreover have "unfenced r r0" by (rule unfenced_trans [OF unfenced_workers(2) r0(3)])
  ultimately show ?thesis using w'(3) r0(2) by (auto simp: set_run_worker_def abort_record_accepted)
qed

lemma keeps_apply_abort: "keeps_run n (apply_abort_worker i sid data)"
proof (rule keeps_runI)
  fix r r' assume good: "good_run n r" and a: "apply_abort_worker i sid data r = Inr r'"
  then obtain w w' where w: "run_worker r i = Some w" and w': "apply_transition w (mark_worker_aborted w (JObj (abort_record sid data))) = Inr w'"
    and r': "refresh_orchestration_run_summary (set_run_worker r i w') = Inr r'"
    by (auto simp: apply_abort_worker_def res_bind_Inr_iff worker_with_session_Inr)
  have wf: "wf_worker w" using good w run_worker_ok by (auto simp: good_run_def)
  show "good_run n r'"
    by (rule keeps_runD [OF refresh_orchestration_laws(1) good_set_worker [OF good w abort_applied [OF wf w']] r'])
qed

lemma keeps_remember: "keeps_run n (remember_admitted_prompt i mid)"
proof (rule keeps_runI)
  fix r r' assume good: "good_run n r" and a: "remember_admitted_prompt i mid r = Inr r'"
  then obtain w w' where w: "run_worker r i = Some w" and w': "remember_prompt_id w mid = Inr w'" and r': "r' = set_run_worker r i w'"
    by (auto simp: remember_admitted_prompt_def res_bind_Inr_iff worker_with_session_Inr)
  have wf: "wf_worker w" using good w run_worker_ok by (auto simp: good_run_def)
  have "nonempty_str mid" using w' by (auto simp: remember_prompt_id_def split: if_splits)
  with remember_prompt_id_effect [OF wf this] w' have "effect w {F_prompt_ids} (worker_lifecycle w) w'" by auto
  then have "worker_id w' = worker_id w" by (simp add: effect_def worker_id_def)
  then show "good_run n r'" unfolding r' by (rule good_set_worker [OF good w wf_remember_prompt_id [OF wf w']])
qed

section \<open>Servers that only answer\<close>

text \<open>Requests that leave the run files alone, whatever they answer\<close>

definition remote_client :: "(json \<Rightarrow> 'c) \<Rightarrow> json \<Rightarrow> (run_store, 'c) action" where
  "remote_client clients url s = (Inr (clients url), s)"

definition remote_abort :: "('c \<Rightarrow> json \<Rightarrow> api_answer) \<Rightarrow> 'c \<Rightarrow> json \<Rightarrow> (run_store, api_answer) action" where
  "remote_abort answers client session_id s = (Inr (answers client session_id), s)"

definition remote_capabilities :: "('c \<Rightarrow> jdict) \<Rightarrow> 'c \<Rightarrow> (run_store, jdict) action" where
  "remote_capabilities offered client s = (Inr (offered client), s)"

definition remote_prompt :: "('c \<Rightarrow> json \<Rightarrow> json \<Rightarrow> api_answer) \<Rightarrow> 'c \<Rightarrow> run_store prompt_sender" where
  "remote_prompt answers client session_id payload path s = (Inr (answers client session_id payload), s)"

section \<open>Aborting over the store\<close>

definition abort_intent :: "string \<Rightarrow> string \<Rightarrow> json \<Rightarrow> journal_record" where
  "abort_intent j i sid = \<lparr>jr_id = j, jr_kind = ABORT_WORKER_KIND, jr_fields = [(''worker_id'', JStr i), (''session_id'', sid)]\<rparr>"

lemma abort_intent_made:
  assumes "j \<noteq> []"
  shows "abort_worker_intent j i sid = Inr (abort_intent j i sid)" and "made_record (abort_intent j i sid)"
    and "intent_field (abort_intent j i sid) ''session_id'' = Inr sid" and "intent_worker_id (abort_intent j i sid) = Inr i"
    and "jr_id (abort_intent j i sid) = j" and "jr_kind (abort_intent j i sid) = mo_kind ABORT_WORKER_REMOTE_MUTATION"
  using assms
  by (simp_all add: abort_worker_intent_def abort_intent_def made_record_def make_journal_record_def require_non_empty_string_def
      ABORT_WORKER_KIND_def RESERVED_RECORD_FIELDS_def RECORD_IDENTITY_FIELDS_def intent_field_def indexed_def
      intent_worker_id_def wf_dict_def dict_get_Cons dict_has_def ABORT_WORKER_REMOTE_MUTATION_def)

lemma abort_outcome:
  assumes s: "sound_store s" "load_run pf cwd n s = Inr run" "\<not> cleanup_in_progress run"
    and w: "run_worker run i = Some w" "py_truthy (wr_slots w F_session_id)" and url: "run_server_url run = Inr url"
    and j: "new_mutation s \<noteq> []"
  defines "sid \<equiv> wr_slots w F_session_id"
  shows "abort_worker (load_run pf cwd) (\<lambda>name m. update_run pf cwd name m allow) now (remote_client clients)
      (remote_abort answers) new_mutation n i s =
    act_bind (run_remote_mutation (load_run pf cwd) (\<lambda>name m. update_run pf cwd name m allow) now REMOTE_MUTATION_JOURNAL_FIELD
        (new_mutation s) ABORT_WORKER_REMOTE_MUTATION (abort_mutation (remote_abort answers (clients url)) (new_mutation s) i) run)
      (\<lambda>(run', (data, body), intent). act_bind (act_result (intent_field intent ''session_id'')) (\<lambda>session_id.
       act_return \<lparr>br_run = run', br_worker = run_worker run' i, br_abort = abort_record session_id data, br_raw_body = body\<rparr>)) s"
    and "rm_intent (abort_mutation (remote_abort answers (clients url)) (new_mutation s) i) s run =
      Inr (abort_intent (new_mutation s) i sid)"
proof -
  have ws: "worker_with_session run i = Inr w" using w by (simp add: worker_with_session_Inr)
  show "rm_intent (abort_mutation (remote_abort answers (clients url)) (new_mutation s) i) s run =
      Inr (abort_intent (new_mutation s) i sid)"
    by (simp add: abort_mutation_def ws abort_intent_made(1) [OF j] sid_def)
  show "abort_worker (load_run pf cwd) (\<lambda>name m. update_run pf cwd name m allow) now (remote_client clients)
      (remote_abort answers) new_mutation n i s =
    act_bind (run_remote_mutation (load_run pf cwd) (\<lambda>name m. update_run pf cwd name m allow) now REMOTE_MUTATION_JOURNAL_FIELD
        (new_mutation s) ABORT_WORKER_REMOTE_MUTATION (abort_mutation (remote_abort answers (clients url)) (new_mutation s) i) run)
      (\<lambda>(run', (data, body), intent). act_bind (act_result (intent_field intent ''session_id'')) (\<lambda>session_id.
       act_return \<lparr>br_run = run', br_worker = run_worker run' i, br_abort = abort_record session_id data, br_raw_body = body\<rparr>)) s"
    by (simp add: abort_worker_def act_bind_def s(2) ws url remote_client_def)
qed

lemma abort_answered:
  assumes s: "sound_store s" "load_run pf cwd n s = Inr run" "\<not> cleanup_in_progress run"
    and w: "run_worker run i = Some w" "py_truthy (wr_slots w F_session_id)"
    and l: "worker_lifecycle w = Some l" "l \<notin> final_states" and h: "hashable_dependencies (rn_workers run)"
    and url: "run_server_url run = Inr url" and j: "new_mutation s \<noteq> []"
    and answer: "answers (clients url) (wr_slots w F_session_id) = ApiResponse data body"
  obtains r s' w' where "abort_worker (load_run pf cwd) (\<lambda>name m. update_run pf cwd name m allow) now (remote_client clients)
      (remote_abort answers) new_mutation n i s = (Inr r, s')"
    and "load_run pf cwd n s' = Inr (br_run r)" and "br_worker r = Some w'"
    and "rn_workers (br_run r) = dict_set i w' (rn_workers run)"
    and "if abort_accepted (abort_data data) then accepted_abort w' else worker_lifecycle w' = Some l"
    and "\<not> has_entry REMOTE_MUTATION_JOURNAL_FIELD (new_mutation s) (br_run r)"
proof -
  let ?sid = "wr_slots w F_session_id" and ?j = "new_mutation s"
  let ?m = "abort_mutation (remote_abort answers (clients url)) ?j i" and ?intent = "abort_intent ?j i ?sid"
  let ?u = "apply_abort_worker i ?sid data"
  let ?Q = "\<lambda>ws. \<exists>w'. ws = dict_set i w' (rn_workers run) \<and>
    (if abort_accepted (abort_data data) then accepted_abort w' else worker_lifecycle w' = Some l)"
  note eq = abort_outcome [where new_mutation = new_mutation, OF s w url j]
  have o: "live_commands.opened pf cwd n run s" using s by (simp add: live_commands.opened_def)
  have run: "good_run n run" using load_run_good [OF s(1,2)] by blast
  obtain res where res: "result_finalize (Some ?u) = Inr res"
    by (simp add: result_finalize_def make_mutation_result_def require_known_result_action_def require_one_of_def
        require_known_missing_intent_policy_def REMOTE_MUTATION_RESULT_ACTIONS_def MISSING_INTENT_POLICIES_def
        RESULT_FINALIZE_def RESULT_RECORD_APPLIED_def RESULT_KEEP_PENDING_def MISSING_INTENT_IGNORE_def)
  obtain r' s' where m: "run_remote_mutation (load_run pf cwd) (\<lambda>name m. update_run pf cwd name m allow) now
      REMOTE_MUTATION_JOURNAL_FIELD ?j ABORT_WORKER_REMOTE_MUTATION ?m run s = (Inr (r', (data, body), ?intent), s')"
    and o': "live_commands.opened pf cwd n r' s'" and q: "?Q (rn_workers r')"
    and e: "\<not> has_entry REMOTE_MUTATION_JOURNAL_FIELD ?j r'"
  proof (rule live_commands.mutation_returns [where Q = ?Q, OF o run eq(2) abort_intent_made(2) [OF j]])
    show "rm_call ?m run1 ?intent s1 = (Inr (data, body), s1)" for run1 s1
      using answer by (simp add: abort_mutation_def call_abort_def act_bind_def abort_intent_made(3) [OF j] remote_abort_def)
    show "rm_apply ?m = Some (\<lambda>s r intent succeeded. apply_abort r intent)" by (simp add: abort_mutation_def)
    show "apply_abort (data, body) ?intent = Inr (Some res)"
      by (simp add: apply_abort_def abort_intent_made(3,4) [OF j] res)
    show "\<exists>r0. ?u r1 = Inr r0 \<and> unfenced r1 r0 \<and> ?Q (rn_workers r0)" if "good_run n r1" "rn_workers r1 = rn_workers run" for r1
      using apply_abort_returns [OF that(1) _ w(2) l] w(1) h that(2) by (auto simp: run_worker_def)
  qed (simp_all add: abort_mutation_def abort_intent_made(5,6) [OF j] keeps_apply_abort res)
  obtain w' where w': "rn_workers r' = dict_set i w' (rn_workers run)"
    "if abort_accepted (abort_data data) then accepted_abort w' else worker_lifecycle w' = Some l"
    using q by blast
  have "run_worker r' i = Some w'" by (simp add: run_worker_def w'(1))
  then have "abort_worker (load_run pf cwd) (\<lambda>name m. update_run pf cwd name m allow) now (remote_client clients)
      (remote_abort answers) new_mutation n i s =
      (Inr \<lparr>br_run = r', br_worker = Some w', br_abort = abort_record ?sid data, br_raw_body = body\<rparr>, s')"
    unfolding eq(1) act_bind_def m by (simp add: abort_intent_made(3) [OF j])
  then show thesis by (rule that) (use o' e w' in \<open>simp_all add: live_commands.opened_def\<close>)
qed

lemma abort_refused_outcome:
  assumes s: "sound_store s" "load_run pf cwd n s = Inr run" "\<not> cleanup_in_progress run"
    and w: "run_worker run i = Some w" "py_truthy (wr_slots w F_session_id)"
    and url: "run_server_url run = Inr url" and j: "new_mutation s \<noteq> []"
    and answer: "answers (clients url) (wr_slots w F_session_id) = ApiError e"
  obtains r' s' where "abort_worker (load_run pf cwd) (\<lambda>name m. update_run pf cwd name m allow) now (remote_client clients)
      (remote_abort answers) new_mutation n i s =
      (Inl (if is_session_not_found_error e then session_not_found (wr_slots w F_session_id)
            else RemoteError ''OpenCodeApiError'' (ae_message e)), s')"
    and "load_run pf cwd n s' = Inr r'" and "rn_workers r' = rn_workers run"
    and "uncertain REMOTE_MUTATION_JOURNAL_FIELD (new_mutation s) r'"
proof -
  let ?sid = "wr_slots w F_session_id" and ?j = "new_mutation s"
  let ?m = "abort_mutation (remote_abort answers (clients url)) ?j i" and ?intent = "abort_intent ?j i ?sid"
  let ?e = "if is_session_not_found_error e then session_not_found ?sid else RemoteError ''OpenCodeApiError'' (ae_message e)"
  note eq = abort_outcome [where new_mutation = new_mutation, OF s w url j]
  have o: "live_commands.opened pf cwd n run s" using s by (simp add: live_commands.opened_def)
  have run: "good_run n run" using load_run_good [OF s(1,2)] by blast
  obtain r' s' where m: "run_remote_mutation (load_run pf cwd) (\<lambda>name m. update_run pf cwd name m allow) now
      REMOTE_MUTATION_JOURNAL_FIELD ?j ABORT_WORKER_REMOTE_MUTATION ?m run s = (Inl ?e, s')"
    and o': "live_commands.opened pf cwd n r' s'" and ws: "rn_workers r' = rn_workers run"
    and u: "uncertain REMOTE_MUTATION_JOURNAL_FIELD ?j r'"
  proof (rule live_commands.mutation_raises [OF o run eq(2) abort_intent_made(2) [OF j]])
    show "rm_call ?m run1 ?intent s1 = (Inl ?e, s1)" for run1 s1
      using answer by (simp add: abort_mutation_def call_abort_def act_bind_def abort_intent_made(3) [OF j] remote_abort_def)
  qed (simp_all add: abort_intent_made(5,6) [OF j])
  have "abort_worker (load_run pf cwd) (\<lambda>name m. update_run pf cwd name m allow) now (remote_client clients)
      (remote_abort answers) new_mutation n i s = (Inl ?e, s')"
    unfolding eq(1) act_bind_def m by simp
  then show thesis by (rule that) (use o' ws u in \<open>simp_all add: live_commands.opened_def\<close>)
qed

section \<open>Steering over the store\<close>

definition steer_intent :: "string \<Rightarrow> string \<Rightarrow> json \<Rightarrow> string \<Rightarrow> string \<Rightarrow> string \<Rightarrow> journal_record" where
  "steer_intent j i sid mid delivery txt =
     \<lparr>jr_id = j, jr_kind = STEER_PROMPT_KIND, jr_fields =
        [(''worker_id'', JStr i), (''session_id'', sid), (''message_id'', JStr mid), (''delivery'', JStr delivery), (''text'', JStr txt)]\<rparr>"

lemma steer_intent_made:
  assumes "j \<noteq> []"
  shows "steer_prompt_intent j i sid mid delivery txt = Inr (steer_intent j i sid mid delivery txt)"
    and "made_record (steer_intent j i sid mid delivery txt)"
    and "intent_worker_id (steer_intent j i sid mid delivery txt) = Inr i"
    and "jr_id (steer_intent j i sid mid delivery txt) = j"
    and "jr_kind (steer_intent j i sid mid delivery txt) = mo_kind STEER_PROMPT_REMOTE_MUTATION"
  using assms
  by (simp_all add: steer_prompt_intent_def steer_intent_def made_record_def make_journal_record_def require_non_empty_string_def
      STEER_PROMPT_KIND_def RESERVED_RECORD_FIELDS_def RECORD_IDENTITY_FIELDS_def
      intent_worker_id_def wf_dict_def dict_get_Cons dict_has_def STEER_PROMPT_REMOTE_MUTATION_def)

lemma steer_intent_fields:
  "intent_field (steer_intent j i sid mid delivery txt) ''session_id'' = Inr sid"
  "intent_field (steer_intent j i sid mid delivery txt) ''message_id'' = Inr (JStr mid)"
  "intent_field (steer_intent j i sid mid delivery txt) ''delivery'' = Inr (JStr delivery)"
  "intent_field (steer_intent j i sid mid delivery txt) ''text'' = Inr (JStr txt)"
  by (simp_all add: steer_intent_def intent_field_def indexed_def)

text \<open>What the server makes of the prompt: an admission, a replay of one, or a refusal.\<close>

definition admission_from ::
  "('c \<Rightarrow> json \<Rightarrow> json \<Rightarrow> api_answer) \<Rightarrow> 'c \<Rightarrow> jdict \<Rightarrow> json \<Rightarrow> string \<Rightarrow> string \<Rightarrow> string \<Rightarrow> admission_result result" where
  "admission_from answers client capabilities sid txt delivery mid =
     fst (admit_prompt (remote_prompt answers client) capabilities sid (JStr txt) (JStr delivery) (JStr mid) [] True
       \<lparr>rs_root = [], rs_files = []\<rparr>)"

lemma admission_any:
  "admit_prompt (remote_prompt answers client) capabilities sid (JStr txt) (JStr delivery) (JStr mid) [] True s =
    (admission_from answers client capabilities sid txt delivery mid, s)"
  by (auto simp: admission_from_def admit_prompt_def act_bind_def remote_prompt_def Let_def split: sum.split)

lemma remembered_prompt:
  assumes good: "good_run n r" and w: "run_worker r i = Some w" "py_truthy (wr_slots w F_session_id)" and m: "m \<noteq> []"
  obtains w' where "remember_admitted_prompt i (JStr m) r = Inr (set_run_worker r i w')" and "remember_prompt_id w (JStr m) = Inr w'"
    and "JStr m \<in> set (list_slot w' F_prompt_ids)"
proof -
  have wf: "wf_worker w" using good w run_worker_ok by (auto simp: good_run_def)
  obtain w' where w': "remember_prompt_id w (JStr m) = Inr w'" using remember_prompt_id_effect [OF wf, of "JStr m"] m by auto
  obtain ids where ids: "wr_slots w F_prompt_ids = JList ids" using wf_worker_list [OF wf, of F_prompt_ids] by auto
  have "JStr m \<in> set (list_slot w' F_prompt_ids)"
    using w' m ids by (auto simp: remember_prompt_id_def set_canonical_field_def list_slot_def py_in_JStr split: if_splits)
  moreover have "worker_with_session r i = Inr w" using w by (simp add: worker_with_session_Inr)
  then have "remember_admitted_prompt i (JStr m) r = Inr (set_run_worker r i w')" by (simp add: remember_admitted_prompt_def w')
  ultimately show thesis using that w' by blast
qed

lemma steer_outcome:
  assumes s: "load_run pf cwd n s = Inr run"
    and w: "run_worker run i = Some w" "py_truthy (wr_slots w F_session_id)" and url: "run_server_url run = Inr url"
    and j: "new_mutation s \<noteq> []" and caps: "from_capabilities (JObj (offered (clients url))) = Inr profile"
  shows "steer_worker (load_run pf cwd) update now (remote_client clients)
      (remote_capabilities offered) (remote_prompt answers) new_message new_mutation n i txt delivery message_id s =
    act_bind (run_remote_mutation (load_run pf cwd) update now REMOTE_MUTATION_JOURNAL_FIELD
        (new_mutation s) STEER_PROMPT_REMOTE_MUTATION
        (steer_mutation (remote_prompt answers (clients url)) (offered (clients url)) (new_mutation s) i
          (or_text message_id (new_message s)) delivery txt) run)
      (\<lambda>(run', r, intent). act_return \<lparr>st_run = run', st_worker = run_worker run' i, st_admission = ad_record r\<rparr>) s"
    and "rm_intent (steer_mutation send (offered (clients url)) (new_mutation s) i mid delivery txt) s run =
      Inr (steer_intent (new_mutation s) i (wr_slots w F_session_id) mid delivery txt)"
proof -
  have ws: "worker_with_session run i = Inr w" using w by (simp add: worker_with_session_Inr)
  show "rm_intent (steer_mutation send (offered (clients url)) (new_mutation s) i mid delivery txt) s run =
      Inr (steer_intent (new_mutation s) i (wr_slots w F_session_id) mid delivery txt)"
    by (simp add: steer_mutation_def ws steer_intent_made(1) [OF j])
  show "steer_worker (load_run pf cwd) update now (remote_client clients)
      (remote_capabilities offered) (remote_prompt answers) new_message new_mutation n i txt delivery message_id s =
    act_bind (run_remote_mutation (load_run pf cwd) update now REMOTE_MUTATION_JOURNAL_FIELD
        (new_mutation s) STEER_PROMPT_REMOTE_MUTATION
        (steer_mutation (remote_prompt answers (clients url)) (offered (clients url)) (new_mutation s) i
          (or_text message_id (new_message s)) delivery txt) run)
      (\<lambda>(run', r, intent). act_return \<lparr>st_run = run', st_worker = run_worker run' i, st_admission = ad_record r\<rparr>) s"
    by (simp add: steer_worker_def act_bind_def s ws url remote_client_def configured_capabilities_def remote_capabilities_def caps)
qed

lemma steer_answered:
  assumes s: "sound_store s" "load_run pf cwd n s = Inr run" "\<not> cleanup_in_progress run"
    and w: "run_worker run i = Some w" "py_truthy (wr_slots w F_session_id)" and url: "run_server_url run = Inr url"
    and j: "new_mutation s \<noteq> []" and caps: "from_capabilities (JObj (offered (clients url))) = Inr profile"
    and answer: "admission_from answers (clients url) (offered (clients url)) (wr_slots w F_session_id) txt delivery
      (or_text message_id (new_message s)) = Inr a"
    and mid: "map_of (ad_record a) ''message_id'' = Some (JStr m)" "m \<noteq> []"
  obtains r s' w' where "steer_worker (load_run pf cwd) (\<lambda>name m. update_run pf cwd name m allow) now (remote_client clients)
      (remote_capabilities offered) (remote_prompt answers) new_message new_mutation n i txt delivery message_id s = (Inr r, s')"
    and "load_run pf cwd n s' = Inr (st_run r)" and "st_worker r = Some w'" and "st_admission r = ad_record a"
    and "rn_workers (st_run r) = dict_set i w' (rn_workers run)" and "JStr m \<in> set (list_slot w' F_prompt_ids)"
    and "\<not> has_entry REMOTE_MUTATION_JOURNAL_FIELD (new_mutation s) (st_run r)"
proof -
  let ?sid = "wr_slots w F_session_id" and ?j = "new_mutation s" and ?mid = "or_text message_id (new_message s)"
  let ?m = "steer_mutation (remote_prompt answers (clients url)) (offered (clients url)) ?j i ?mid delivery txt"
  let ?intent = "steer_intent ?j i ?sid ?mid delivery txt"
  let ?u = "remember_admitted_prompt i (JStr m)"
  let ?Q = "\<lambda>ws. \<exists>w'. ws = dict_set i w' (rn_workers run) \<and> JStr m \<in> set (list_slot w' F_prompt_ids)"
  note eq = steer_outcome [where new_mutation = new_mutation and offered = offered and clients = clients, OF s(2) w url j caps]
  have o: "live_commands.opened pf cwd n run s" using s by (simp add: live_commands.opened_def)
  have run: "good_run n run" using load_run_good [OF s(1,2)] by blast
  obtain res where res: "result_finalize (Some ?u) = Inr res"
    by (simp add: result_finalize_def make_mutation_result_def require_known_result_action_def require_one_of_def
        require_known_missing_intent_policy_def REMOTE_MUTATION_RESULT_ACTIONS_def MISSING_INTENT_POLICIES_def
        RESULT_FINALIZE_def RESULT_RECORD_APPLIED_def RESULT_KEEP_PENDING_def MISSING_INTENT_IGNORE_def)
  obtain r' s' where m: "run_remote_mutation (load_run pf cwd) (\<lambda>name m. update_run pf cwd name m allow) now
      REMOTE_MUTATION_JOURNAL_FIELD ?j STEER_PROMPT_REMOTE_MUTATION ?m run s = (Inr (r', a, ?intent), s')"
    and o': "live_commands.opened pf cwd n r' s'" and q: "?Q (rn_workers r')"
    and e: "\<not> has_entry REMOTE_MUTATION_JOURNAL_FIELD ?j r'"
  proof (rule live_commands.mutation_returns [where Q = ?Q, OF o run eq(2) steer_intent_made(2) [OF j]])
    show "rm_call ?m run1 ?intent s1 = (Inr a, s1)" for run1 s1
      using answer by (simp add: steer_mutation_def call_admission_def act_bind_def steer_intent_fields admission_any)
    show "rm_apply ?m = Some (\<lambda>s r intent succeeded. apply_admission r intent)" by (simp add: steer_mutation_def)
    show "apply_admission a ?intent = Inr (Some res)"
      by (simp add: apply_admission_def steer_intent_made(3) [OF j] res indexed_def mid(1))
    show "\<exists>r0. ?u r1 = Inr r0 \<and> unfenced r1 r0 \<and> ?Q (rn_workers r0)" if r1: "good_run n r1" "rn_workers r1 = rn_workers run" for r1
    proof -
      have "run_worker r1 i = Some w" using w(1) r1(2) by (simp add: run_worker_def)
      then obtain w' where w': "?u r1 = Inr (set_run_worker r1 i w')" "JStr m \<in> set (list_slot w' F_prompt_ids)"
        using remembered_prompt [OF r1(1) _ w(2) mid(2)] by metis
      show ?thesis by (intro exI [of _ "set_run_worker r1 i w'"]) (use w' r1(2) in \<open>auto simp: set_run_worker_def unfenced_def\<close>)
    qed
  qed (simp_all add: steer_mutation_def steer_intent_made(4,5) [OF j] keeps_remember res)
  obtain w' where w': "rn_workers r' = dict_set i w' (rn_workers run)" "JStr m \<in> set (list_slot w' F_prompt_ids)"
    using q by blast
  have "run_worker r' i = Some w'" by (simp add: run_worker_def w'(1))
  then have "steer_worker (load_run pf cwd) (\<lambda>name m. update_run pf cwd name m allow) now (remote_client clients)
      (remote_capabilities offered) (remote_prompt answers) new_message new_mutation n i txt delivery message_id s =
      (Inr \<lparr>st_run = r', st_worker = Some w', st_admission = ad_record a\<rparr>, s')"
    unfolding eq(1) act_bind_def m by simp
  then show thesis by (rule that) (use o' e w' in \<open>simp_all add: live_commands.opened_def\<close>)
qed

section \<open>A status that is set by hand\<close>

lemma mapping_slot:
  "f \<notin> set fs \<Longrightarrow> update_canonical_fields_from_mapping w d skip fs = Inr w' \<Longrightarrow> wr_slots w' f = wr_slots w f"
proof (induction fs arbitrary: w)
  case (Cons g gs)
  obtain u where u: "update_canonical_fields_from_mapping u d skip gs = Inr w'"
    and g: "(case map_of d (field_name g) of None \<Rightarrow> Inr w
      | Some v \<Rightarrow> if skip \<and> v = JNull then Inr w else set_canonical_field w g v) = Inr u"
    using Cons.prems(2) by (auto simp: update_canonical_fields_from_mapping_def res_bind_Inr_iff)
  have "wr_slots u f = wr_slots w f"
    using g Cons.prems(1) by (auto simp: set_canonical_field_Inr split: option.splits if_splits)
  then show ?case using Cons.IH [OF _ u] Cons.prems(1) by simp
qed (simp add: update_canonical_fields_from_mapping_def)

lemma existing_good:
  assumes "good_run n run" and i: "i \<noteq> []" and v: "existing_or_default run i = Inr w"
  shows "wf_worker w" and "worker_id w = JStr i"
proof -
  have "wf_worker w \<and> worker_id w = JStr i"
  proof (cases "run_worker run i")
    case None
    then have "w = reset_fields (JStr i)" using v i by (simp add: existing_or_default_def default_worker_record_eq)
    moreover have "worker_id (reset_fields (JStr i)) = JStr i" by (simp add: reset_fields_def default_value_eq worker_id_def)
    ultimately show ?thesis using wf_reset_fields [OF i] by simp
  next
    case (Some u)
    then have "wf_worker u" "worker_id u = JStr i" using run_worker_ok assms(1) by (auto simp: good_run_def)
    then show ?thesis using v Some by (simp add: existing_or_default_def worker_record_for_mutation_def to_worker_wf)
  qed
  then show "wf_worker w" "worker_id w = JStr i" by simp_all
qed

lemma upsert_good:
  assumes good: "good_run n r" and i: "i \<noteq> []" and u: "upsert_worker_record i changes now r = Inr r1"
  shows "good_run n r1" and "k \<noteq> i \<Longrightarrow> run_worker r1 k = run_worker r k"
proof -
  obtain w w1 where w: "existing_or_default r i = Inr w"
    and w1: "update_canonical_fields_from_mapping w changes True WORKER_RUN_UPSERT_FIELD_NAMES = Inr w1"
    and r1: "res_bind (to_worker w1) (\<lambda>w2. Inr (set_run_updated_at now (set_run_worker r i w2))) = Inr r1"
    using u by (auto simp: upsert_worker_record_def res_bind_Inr_iff split: if_splits)
  note g = existing_good [OF good i w]
  have wf: "wf_worker w1" by (rule wf_update_canonical_fields_from_mapping [OF g(1) w1])
  have "F_id \<notin> set WORKER_RUN_UPSERT_FIELD_NAMES" by (simp add: WORKER_RUN_UPSERT_FIELD_NAMES_def spec_names_def) code_simp
  then have id: "worker_id w1 = JStr i" using mapping_slot [OF _ w1, of F_id] g(2) by (simp add: worker_id_def)
  have r1: "r1 = set_run_updated_at now (set_run_worker r i w1)" using r1 by (simp add: to_worker_wf [OF wf])
  have "good_run n (set_run_worker r i w1)"
    using good_run_workers [OF good workers_ok_set [OF _ i wf id]] good by (simp add: set_run_worker_def good_run_def wf_run_def)
  then show "good_run n r1" unfolding r1 set_run_updated_at_def by (rule good_set_run_field) simp
  show "k \<noteq> i \<Longrightarrow> run_worker r1 k = run_worker r k"
    by (simp add: r1 run_worker_def set_run_updated_at_def set_run_field_def set_run_worker_def)
qed

text \<open>The two transitions that a command may ask for\<close>

lemma manual_step:
  assumes wf: "wf_worker w" and st: "st \<in> {''active'', ''blocked''}"
    and tr: "manual_transition st changes now w = Inr tr" and app: "apply_transition w tr = Inr w'"
  shows "wf_worker w'" and "worker_id w' = worker_id w"
    and "accepted_abort w' \<or> worker_lifecycle w' = Some (if st = ''active'' then Active_Wait else Blocked_Dependency)"
proof -
  have names: "wt_worker_id tr = worker_id_str w"
    "wt_name tr = (if st = ''active'' then T_ACTIVE else T_DEPENDENCY_BLOCKED)"
    using st tr by (auto simp: manual_transition_def mark_worker_active_def mark_dependency_blocked_def active_transition_def
        dependency_blocked_transition_def make_transition_def res_bind_Inr_iff split: if_splits)
  have wid: "wt_worker_id tr \<noteq> []" using names(1) worker_id_str_nonempty [OF wf] by simp
  have ns: "wt_name tr \<noteq> T_SNAPSHOT_APPLIED" by (simp add: names(2))
  show wf': "wf_worker w'" by (rule wf_apply_transition [OF wf wid app])
  obtain i where i: "worker_id w = JStr i" "i \<noteq> []" using wf_worker_id [OF wf] by blast
  have "has_id i w'"
    by (rule apply_transition_id [OF wf _ i(2) _ ns app]) (use i(1) in \<open>simp_all add: names has_id_def worker_id_def worker_id_str_def\<close>)
  then show "worker_id w' = worker_id w" using i(1) by (simp add: has_id_def worker_id_def)
  obtain l where l: "worker_lifecycle w' = Some l" using wf_worker_lifecycle [OF wf'] by blast
  have "lifecycle_step (machine_state w) (wt_name tr) (machine_state w')"
    by (rule public_transition_step [OF wf wid ns app])
  then have "absorbed (machine_state w') \<or> fst (machine_state w') = (if st = ''active'' then Active_Wait else Blocked_Dependency)"
    unfolding names(2) by (cases rule: lifecycle_stepE) (auto split: if_splits)
  then show "accepted_abort w' \<or> worker_lifecycle w' = Some (if st = ''active'' then Active_Wait else Blocked_Dependency)"
    using accepted_abort_iff [OF l] l by (simp add: machine_state_def)
qed

lemma manual_update_good:
  assumes good: "good_run n r" and i: "i \<noteq> []" and st: "st \<in> {''active'', ''blocked''}"
    and m: "manual_status_update st i changes now r = Inr r'"
  shows "good_run n r'" and "k \<noteq> i \<Longrightarrow> run_worker r' k = run_worker r k"
    and "\<exists>w. run_worker r' i = Some w \<and>
      (accepted_abort w \<or> worker_lifecycle w = Some (if st = ''active'' then Active_Wait else Blocked_Dependency))"
proof -
  obtain r1 w tr w' where r1: "upsert_worker_record i changes now r = Inr r1" and w: "run_worker r1 i = Some w"
    and tr: "manual_transition st changes now w = Inr tr" and w': "apply_transition w tr = Inr w'"
    and r': "r' = set_run_updated_at now (set_run_worker r1 i w')"
    using m by (auto simp: manual_status_update_def res_bind_Inr_iff split: option.splits)
  note g = upsert_good [OF good i r1]
  have wf: "wf_worker w" using run_worker_ok [OF _ w] g(1) by (simp add: good_run_def)
  note step = manual_step [OF wf st tr w']
  have "good_run n (set_run_worker r1 i w')" by (rule good_set_worker [OF g(1) w step(1,2)])
  then show "good_run n r'" unfolding r' set_run_updated_at_def by (rule good_set_run_field) simp
  show "k \<noteq> i \<Longrightarrow> run_worker r' k = run_worker r k"
    using g(2) by (simp add: r' run_worker_def set_run_updated_at_def set_run_field_def set_run_worker_def)
  show "\<exists>w. run_worker r' i = Some w \<and>
      (accepted_abort w \<or> worker_lifecycle w = Some (if st = ''active'' then Active_Wait else Blocked_Dependency))"
    using step(3) by (simp add: r' run_worker_def set_run_updated_at_def set_run_field_def set_run_worker_def)
qed

lemma manual_status_stored:
  assumes s: "sound_store s" and i: "i \<noteq> []" and st: "dict_get given ''status'' \<noteq> JNull"
    and u: "command_upsert_worker pf cwd n i given now s = Inr (run', s')"
  shows "dict_get given ''lifecycle_state'' = JNull" and "load_run pf cwd n s' = Inr run'"
    and "short_status (dict_get given ''status'') \<in> {Some ''active'', Some ''blocked''}"
    and "\<exists>w. run_worker run' i = Some w \<and> (accepted_abort w \<or> worker_lifecycle w =
      Some (if short_status (dict_get given ''status'') = Some ''active'' then Active_Wait else Blocked_Dependency))"
    and "\<exists>run. load_run pf cwd n s = Inr run \<and> (\<forall>k. k \<noteq> i \<longrightarrow> run_worker run' k = run_worker run k)"
proof -
  let ?changes = "dict_pop ''status'' (dict_pop ''lifecycle_state'' given)"
  show "dict_get given ''lifecycle_state'' = JNull"
    using u by (auto simp: command_upsert_worker_def split: if_splits)
  then obtain st where st: "short_status (dict_get given ''status'') = Some st" "st \<in> {''active'', ''blocked''}"
    and up: "update_run pf cwd n (manual_status_update st i ?changes now) False s = Inr (run', s')"
    using u st by (auto simp: command_upsert_worker_def Let_def split: if_splits option.splits)
  then show "short_status (dict_get given ''status'') \<in> {Some ''active'', Some ''blocked''}" by auto
  have k: "keeps_run n (manual_status_update st i ?changes now)"
    by (rule keeps_runI) (rule manual_update_good(1) [OF _ i st(2)])
  obtain run run1 where a: "load_run pf cwd n s = Inr run" "manual_status_update st i ?changes now run = Inr run1"
    "rn_workers run' = rn_workers run1" and l: "load_run pf cwd n s' = Inr run'"
    by (rule update_run_sound [where cwd' = cwd, OF up s k]) blast
  show "load_run pf cwd n s' = Inr run'" by (rule l)
  note good = manual_update_good [OF _ i st(2) a(2)]
  have run: "good_run n run" using load_run_good [OF s a(1)] by blast
  show "\<exists>w. run_worker run' i = Some w \<and> (accepted_abort w \<or> worker_lifecycle w =
      Some (if short_status (dict_get given ''status'') = Some ''active'' then Active_Wait else Blocked_Dependency))"
    using good(3) [OF run] a(3) st(1) by (simp add: run_worker_def)
  show "\<exists>run. load_run pf cwd n s = Inr run \<and> (\<forall>k. k \<noteq> i \<longrightarrow> run_worker run' k = run_worker run k)"
    using good(2) [OF run] a(1,3) by (auto simp: run_worker_def)
qed

section \<open>Collecting\<close>

lemma collected_results:
  assumes "collect_results load n chosen s = Inr r"
  shows "load n s = Inr (cl_run r)"
    and "cl_workers r = [] \<longrightarrow> (\<exists>w. cl_worker r = Some w)"
    and "cl_worker r = Some w \<Longrightarrow> is_dict (wr_slots w F_result) \<and> (\<exists>i. run_worker (cl_run r) i = Some w)"
    and "w \<in> set (cl_workers r) \<Longrightarrow> is_dict (wr_slots w F_result)"
proof -
  have one: "is_dict (wr_slots w F_result) \<and> (\<exists>i. run_worker run i = Some w)" if "worker_result run i = Inr w" for run i w
    using that by (auto simp: worker_result_def not_in_run_def res_bind_def split: option.splits if_splits sum.splits)
  show "load n s = Inr (cl_run r)" "cl_workers r = [] \<longrightarrow> (\<exists>w. cl_worker r = Some w)"
    "cl_worker r = Some w \<Longrightarrow> is_dict (wr_slots w F_result) \<and> (\<exists>i. run_worker (cl_run r) i = Some w)"
    "w \<in> set (cl_workers r) \<Longrightarrow> is_dict (wr_slots w F_result)"
    using assms by (auto simp: collect_results_def Let_def res_bind_Inr_iff dest!: one split: option.splits list.splits if_splits) blast+
qed

end
