(* ===== verification/Command_Samples.thy ===== *)
theory Command_Samples
  imports Store_Samples Command_Facts
begin

text \<open>A stored run with a worker that has a session, and servers that answer in one way.\<close>

definition session_worker :: worker_record where
  "session_worker = put_field (worker_in ''w1'' Active_Wait []) F_session_id (JStr ''s1'')"

lemma session_worker_facts:
  "wf_worker session_worker" "worker_id session_worker = JStr ''w1''" "worker_lifecycle session_worker = Some Active_Wait"
  "py_truthy (wr_slots session_worker F_session_id)" "wr_slots session_worker F_session_id = JStr ''s1''"
proof -
  show "wf_worker session_worker" unfolding session_worker_def by (intro wf_put_field wf_worker_in) simp_all
  show "worker_id session_worker = JStr ''w1''" by (simp add: session_worker_def worker_id_def)
  show "worker_lifecycle session_worker = Some Active_Wait" by (simp add: session_worker_def)
qed (simp_all add: session_worker_def)

lemma session_run:
  "run_worker (sample_record session_worker) ''w1'' = Some session_worker"
  "run_server_url (sample_record session_worker) = Inr (JStr ''http://h'')"
  "hashable_dependencies (rn_workers (sample_record session_worker))"
  "\<not> cleanup_in_progress (sample_record session_worker)"
  by (simp_all add: run_worker_def sample_record_def run_server_url_def indexed_def created_fields_def hashable_dependencies_def
      worker_dependencies_def session_worker_def worker_in_def reset_fields_def default_value_eq
      cleanup_in_progress_def dict_get_Cons)

definition session_store :: "run_store \<Rightarrow> bool" where
  "session_store s \<longleftrightarrow> sound_store s \<and> load_run no_floats ''/w'' ''r1'' s = Inr (sample_record session_worker)"

lemma session_stored: obtains s where "session_store s"
  using sample_stored [OF session_worker_facts(1,2)] by (auto simp: session_store_def)

definition abort_accepting :: "unit \<Rightarrow> json \<Rightarrow> api_answer" where
  "abort_accepting c sid = ApiResponse (JBool True) ''true''"

definition session_missing :: "unit \<Rightarrow> json \<Rightarrow> api_answer" where
  "session_missing c sid = ApiError \<lparr>ae_message = ''not found'', ae_status = Some 404, ae_method = Some ''POST'',
     ae_path = Some ''/session/s1/abort'', ae_body = None, ae_data = JNull\<rparr>"

definition prompt_admitting :: "unit \<Rightarrow> json \<Rightarrow> json \<Rightarrow> api_answer" where
  "prompt_admitting c sid payload = ApiResponse (JObj [(''messageID'', JStr ''p1''), (''state'', JStr ''admitted'')]) ''{}''"

definition prompt_capabilities :: "unit \<Rightarrow> jdict" where
  "prompt_capabilities c =
     [(''v2_prompt_support'', JBool True), (''legacy_fallback_available'', JBool False),
      (''route_availability'', JObj [(''v2_prompt'', JObj [(''path'', JStr ''/api/session/{sessionID}/prompt''), (''available'', JBool True)])])]"

lemma session_missing_found: "is_session_not_found_error \<lparr>ae_message = ''not found'', ae_status = Some 404,
    ae_method = Some ''POST'', ae_path = Some ''/session/s1/abort'', ae_body = None, ae_data = JNull\<rparr>"
  by code_simp

lemma prompt_profile: "\<exists>p. from_capabilities (JObj (prompt_capabilities ())) = Inr p"
proof -
  have "\<not> isl (from_capabilities (JObj (prompt_capabilities ())))" by code_simp
  then show ?thesis by (cases "from_capabilities (JObj (prompt_capabilities ()))") simp_all
qed

lemma prompt_admitted:
  "\<exists>a. admission_from prompt_admitting () (prompt_capabilities ()) (JStr ''s1'') ''go on'' ''queue'' ''m1'' = Inr a \<and>
     map_of (ad_record a) ''message_id'' = Some (JStr ''p1'')"
proof -
  have "case admission_from prompt_admitting () (prompt_capabilities ()) (JStr ''s1'') ''go on'' ''queue'' ''m1'' of
      Inr a \<Rightarrow> map_of (ad_record a) ''message_id'' = Some (JStr ''p1'') | Inl _ \<Rightarrow> False" by code_simp
  then show ?thesis by (auto split: sum.splits)
qed

text \<open>What a server offers that has a session route and a route for blocking messages\<close>

definition offered_doc :: jdict where
  "offered_doc = [(''paths'', JObj [(''/session'', JObj [(''post'', JObj [])]), (''/session/{id}/message'', JObj [(''POST'', JObj [])])])]"

lemma offered_profile:
  "\<exists>p. from_openapi_doc offered_doc [(''healthy'', JBool True), (''version'', JStr ''1'')] = Inr p \<and>
     pr_health p \<noteq> [] \<and> pr_version p \<noteq> []"
proof -
  have "case from_openapi_doc offered_doc [(''healthy'', JBool True), (''version'', JStr ''1'')] of
      Inr p \<Rightarrow> pr_health p \<noteq> [] \<and> pr_version p \<noteq> [] | Inl _ \<Rightarrow> False" by code_simp
  then show ?thesis by (auto split: sum.splits)
qed

text \<open>A status that is set by hand\<close>

lemma nothing_upserted: "update_canonical_fields_from_mapping w [] skip fs = Inr w"
  by (induction fs) (simp_all add: update_canonical_fields_from_mapping_def)

lemma activation_applies:
  obtains tr w' where "manual_transition ''active'' [] now session_worker = Inr tr" and "apply_transition session_worker tr = Inr w'"
proof -
  let ?tr = "mark_worker_active session_worker (Some now)"
  have wf: "wf_worker session_worker" by (rule session_worker_facts)
  have tr: "wt_name ?tr = T_ACTIVE" "wt_worker_id ?tr \<noteq> []"
    using worker_id_str_nonempty [OF wf] by (simp_all add: mark_worker_active_def active_transition_def make_transition_def)
  have p: "\<exists>p. require_transition_payload ?tr = Inr p \<and> payload_name p = T_ACTIVE"
    by (simp add: mark_worker_active_def active_transition_def make_transition_def require_transition_payload_def)
  have "worker_transition_is_legal session_worker ?tr = Inr True"
    using legal_source [OF wf session_worker_facts(3)] by (simp add: tr)
  then have "\<exists>w'. apply_transition session_worker ?tr = Inr w'" using p legal_apply [OF wf tr(2)] by auto
  then show thesis using that by (auto simp: manual_transition_def)
qed

lemma activated_by_hand:
  assumes "session_store s"
  obtains run' s' where "command_upsert_worker no_floats ''/w'' ''r1'' ''w1'' [(''status'', JStr ''active'')] (JStr ''t1'') s = Inr (run', s')"
proof -
  let ?run = "sample_record session_worker"
  let ?m = "manual_status_update ''active'' ''w1'' [] (JStr ''t1'')"
  let ?r1 = "set_run_updated_at (JStr ''t1'') (set_run_worker ?run ''w1'' session_worker)"
  have s: "sound_store s" "load_run no_floats ''/w'' ''r1'' s = Inr ?run" using assms by (simp_all add: session_store_def)
  have up: "upsert_worker_record ''w1'' [] (JStr ''t1'') ?run = Inr ?r1"
    using session_run(1) session_worker_facts(1)
    by (simp add: upsert_worker_record_def existing_or_default_def worker_record_for_mutation_def to_worker_wf check_upsert_changes_def
        nothing_upserted)
  have w: "run_worker ?r1 ''w1'' = Some session_worker"
    by (simp add: run_worker_def set_run_updated_at_def set_run_field_def set_run_worker_def)
  obtain tr w' where tr: "manual_transition ''active'' [] (JStr ''t1'') session_worker = Inr tr"
    "apply_transition session_worker tr = Inr w'"
    by (rule activation_applies)
  then have m: "?m ?run = Inr (set_run_updated_at (JStr ''t1'') (set_run_worker ?r1 ''w1'' w'))"
    by (simp add: manual_status_update_def up w as_store_error_def)
  have k: "keeps_run ''r1'' ?m" 
    by (rule keeps_runI) (rule manual_update_good(1) [of _ _ "''w1''" "''active''"]; simp)
  have "unfenced ?run (set_run_updated_at (JStr ''t1'') (set_run_worker ?r1 ''w1'' w'))"
    by (simp add: unfenced_def set_run_updated_at_def set_run_field_def set_run_worker_def)
  then have "\<exists>run' s'. update_run no_floats ''/w'' ''r1'' ?m False s = Inr (run', s')"
    using update_run_returns [OF s _ k m unfenced_resources] session_run(4) by blast
  moreover have "dict_pop ''status'' (dict_pop ''lifecycle_state'' [(''status'', JStr ''active'')]) = []"
    by (simp add: dict_pop_def)
  moreover have "short_status (JStr ''active'') = Some ''active''" by code_simp
  ultimately show thesis using that by (auto simp: command_upsert_worker_def dict_get_Cons)
qed

end
