(* ===== verification/Owned_Resources.thy ===== *)
theory Owned_Resources
  imports Session_Cleanup
begin

text \<open>
  \<open>run_resources.py\<close>, \<open>run_project_ownership.py\<close> and \<open>run_branch_transaction.py\<close>: worktrees, logs and
  project copies are registered with their identity on the file system, and a resource is owned as long as
  the identity matches. The operating system and the git program are the parameter \<open>host\<close>; the functions
  of \<open>pathlib\<close> and \<open>os.path\<close> that only read a path are written out for POSIX paths.
\<close>

section \<open>The host\<close>

record completed_process =
  cp_returncode :: int
  cp_stdout :: string
  cp_stderr :: string

datatype file_kind = Regular_File | Symbolic_Link | Directory | Other_File

record file_details =
  fd_device :: int
  fd_inode :: int
  fd_kind :: file_kind

text \<open>
  \<open>ho_git\<close> runs git with its arguments (an \<open>OSError\<close> when git cannot be started). A call of the operating
  system fails with the text of its \<open>OSError\<close>. \<open>ho_begin_deletion\<close> starts \<open>git update-ref --stdin\<close> for a
  git directory, writes a text to it and reads two lines; \<open>ho_end_deletion\<close> writes the last command to the
  process and yields its output, its error output and its return code. \<open>ho_lease_free\<close> tells whether no other
  process holds the cleanup lease of a run.
\<close>

record 'h host =
  ho_git :: "string list \<Rightarrow> ('h, completed_process) action"
  ho_exists :: "string \<Rightarrow> 'h \<Rightarrow> bool"
  ho_is_dir :: "string \<Rightarrow> 'h \<Rightarrow> bool"
  ho_is_symlink :: "string \<Rightarrow> 'h \<Rightarrow> bool"
  ho_expanduser :: "string \<Rightarrow> 'h \<Rightarrow> string"
  ho_realpath :: "string \<Rightarrow> 'h \<Rightarrow> string"
  ho_stat :: "string \<Rightarrow> 'h \<Rightarrow> string + file_details"
  ho_lstat :: "string \<Rightarrow> 'h \<Rightarrow> string + file_details"
  ho_read_text :: "string \<Rightarrow> 'h \<Rightarrow> string + string"
  ho_unlink :: "string \<Rightarrow> 'h \<Rightarrow> string option \<times> 'h"
  ho_begin_deletion :: "string \<Rightarrow> string \<Rightarrow> 'h \<Rightarrow> (string + int \<times> string \<times> string) \<times> 'h"
  ho_end_deletion :: "int \<Rightarrow> string \<Rightarrow> 'h \<Rightarrow> (string + string \<times> string \<times> int) \<times> 'h"
  ho_lease_free :: "string \<Rightarrow> 'h \<Rightarrow> bool"
  ho_kill :: "int \<Rightarrow> 'h \<Rightarrow> 'h"

section \<open>Paths and texts\<close>

definition path_root :: "string \<Rightarrow> string" where
  "path_root p = (if starts_with p ''//'' \<and> \<not> starts_with p ''///'' then ''//''
     else if starts_with p ''/'' then ''/'' else [])"

definition make_path :: "string \<Rightarrow> string list \<Rightarrow> string" where
  "make_path r parts = (let t = r @ join_with ''/'' parts in if t = [] then ''.'' else t)"

text \<open>\<open>str(Path(p))\<close>, \<open>Path(p) / q\<close> and \<open>Path(p).parent\<close>\<close>

definition path_text :: "string \<Rightarrow> string" where
  "path_text p = make_path (path_root p) (path_parts p)"

definition path_join :: "string \<Rightarrow> string \<Rightarrow> string" where
  "path_join p q = (if is_absolute q then path_text q else make_path (path_root p) (path_parts p @ path_parts q))"

definition path_parent :: "string \<Rightarrow> string" where
  "path_parent p = make_path (path_root p) (butlast (path_parts p))"

text \<open>\<open>os.path.normpath\<close>\<close>

fun norm_components :: "bool \<Rightarrow> string list \<Rightarrow> string list \<Rightarrow> string list" where
  "norm_components absolute done [] = rev done"
| "norm_components absolute done (c # cs) =
     (if c = ''..'' then
        (case done of
           [] \<Rightarrow> norm_components absolute (if absolute then [] else [c]) cs
         | d # ds \<Rightarrow> norm_components absolute (if d = ''..'' then c # done else ds) cs)
      else norm_components absolute (c # done) cs)"

definition normpath :: "string \<Rightarrow> string" where
  "normpath p = make_path (path_root p) (norm_components (path_root p \<noteq> []) [] (path_parts p))"

definition is_line_break :: "char \<Rightarrow> bool" where
  "is_line_break c = (let n = char_code c in 10 \<le> n \<and> n \<le> 13 \<or> 28 \<le> n \<and> n \<le> 30 \<or> n = 133)"

fun py_splitlines :: "string \<Rightarrow> string list" where
  "py_splitlines [] = []"
| "py_splitlines (c # s) =
     (if c = CHR 0x0D \<and> starts_with s [CHR 0x0A] then [] # py_splitlines (tl s)
      else if is_line_break c then [] # py_splitlines s
      else (case py_splitlines s of [] \<Rightarrow> [[c]] | l # ls \<Rightarrow> (c # l) # ls))"

definition py_words :: "string \<Rightarrow> string list" where
  "py_words s = filter (\<lambda>w. w \<noteq> []) (split_on (CHR '' '') (map (\<lambda>c. if is_space c then CHR '' '' else c) s))"

text \<open>The text of a field of a record that was validated\<close>

definition text_field :: "jdict \<Rightarrow> string \<Rightarrow> string" where
  "text_field r k = (case dict_get r k of JStr s \<Rightarrow> s | _ \<Rightarrow> [])"

definition or_else :: "string \<Rightarrow> string \<Rightarrow> string" where
  "or_else a b = (if a \<noteq> [] then a else b)"

section \<open>Identities\<close>

definition resource_error :: "string \<Rightarrow> py_error" where
  "resource_error msg = RemoteError ''RunResourceError'' msg"

definition directory_identity :: "'h host \<Rightarrow> string \<Rightarrow> string \<Rightarrow> 'h \<Rightarrow> string + int \<times> int" where
  "directory_identity host path label h =
     (case ho_stat host path h of
        Inl e \<Rightarrow> Inl (''cannot inspect '' @ label @ '' '' @ path @ '': '' @ e)
      | Inr d \<Rightarrow> if fd_kind d \<noteq> Directory then Inl (label @ '' is not a directory: '' @ path)
                 else Inr (fd_device d, fd_inode d))"

definition file_identity :: "'h host \<Rightarrow> string \<Rightarrow> string \<Rightarrow> 'h \<Rightarrow> string + int \<times> int" where
  "file_identity host path label h =
     (case ho_stat host path h of
        Inl e \<Rightarrow> Inl (''cannot inspect '' @ label @ '' '' @ path @ '': '' @ e)
      | Inr d \<Rightarrow> if fd_kind d \<noteq> Regular_File then Inl (label @ '' is not a regular file: '' @ path)
                 else Inr (fd_device d, fd_inode d))"

fun resource_type :: "file_kind \<Rightarrow> string option" where
  "resource_type Regular_File = Some ''file''"
| "resource_type Symbolic_Link = Some ''symlink''"
| "resource_type _ = None"

definition log_identity :: "'h host \<Rightarrow> string \<Rightarrow> 'h \<Rightarrow> string + int \<times> int \<times> string" where
  "log_identity host path h =
     (case ho_lstat host path h of
        Inl e \<Rightarrow> Inl (''cannot inspect owned log '' @ path @ '': '' @ e)
      | Inr d \<Rightarrow> (case resource_type (fd_kind d) of
            None \<Rightarrow> Inl (''owned log must be a regular file or symlink: '' @ path)
          | Some t \<Rightarrow> Inr (fd_device d, fd_inode d, t)))"

definition project_copy_identity :: "'h host \<Rightarrow> string \<Rightarrow> 'h \<Rightarrow> string + jdict" where
  "project_copy_identity host path h =
     (let parent = path_text (ho_realpath host (path_parent path) h) in
      case ho_stat host parent h of
        Inl e \<Rightarrow> Inl (''cannot inspect project-copy prefix parent '' @ parent @ '': '' @ e)
      | Inr d \<Rightarrow> if fd_kind d \<noteq> Directory then Inl (''project-copy prefix parent is not a directory: '' @ parent)
          else Inr [(''resolved_directory_prefix'', JStr (ho_realpath host path h)),
                    (''directory_prefix_parent_realpath'', JStr parent),
                    (''directory_prefix_parent_device'', JInt (fd_device d)),
                    (''directory_prefix_parent_inode'', JInt (fd_inode d))])"

text \<open>The trimmed output of git in a directory\<close>

definition git_output :: "'h host \<Rightarrow> string \<Rightarrow> string list \<Rightarrow> bool \<Rightarrow> ('h, string) action" where
  "git_output host path args allow_failure =
     act_bind (ho_git host ([''-C'', path] @ args)) (\<lambda>c.
     if cp_returncode c \<noteq> 0
     then if allow_failure then act_return []
          else act_raise (resource_error (''cannot register owned worktree '' @ path @ '': '' @
            or_else (py_strip (cp_stderr c)) (or_else (py_strip (cp_stdout c)) (''exit '' @ int_text (cp_returncode c)))))
     else act_return (py_strip (cp_stdout c)))"

text \<open>\<open>Path(p).resolve()\<close>\<close>

definition resolved :: "'h host \<Rightarrow> string \<Rightarrow> 'h \<Rightarrow> string" where
  "resolved host p h = ho_realpath host (path_text p) h"

section \<open>Registering resources\<close>

definition required_text :: "json \<Rightarrow> string \<Rightarrow> string result" where
  "required_text v label =
     (case v of
        JStr s \<Rightarrow> if py_strip s = [] then Inl (resource_error (''owned resource requires a non-empty '' @ label))
                  else Inr (py_strip s)
      | _ \<Rightarrow> Inl (resource_error (''owned resource requires a non-empty '' @ label)))"

definition safe_owned_path :: "json \<Rightarrow> string \<Rightarrow> string result" where
  "safe_owned_path v label =
     (case v of
        JStr raw \<Rightarrow>
          if py_strip raw = [] then Inl (resource_error (''owned '' @ label @ '' path cannot be blank''))
          else let path = path_text (normpath raw) in
            if \<not> is_absolute path then Inl (resource_error (''owned '' @ label @ '' path must be absolute: '' @ raw))
            else if path_parts path = []
            then Inl (resource_error (''owned '' @ label @ '' path cannot be a filesystem root: '' @ path))
            else Inr path
      | _ \<Rightarrow> Inl (resource_error (''owned '' @ label @ '' path must be a string or path'')))"

text \<open>A failed identity is a \<open>RunResourceError\<close>.\<close>

definition act_identity :: "('h \<Rightarrow> string + 'a) \<Rightarrow> ('h, 'a) action" where
  "act_identity f h = (case f h of Inl e \<Rightarrow> (Inl (resource_error e), h) | Inr x \<Rightarrow> (Inr x, h))"

definition branch_reflog :: "string \<Rightarrow> string \<Rightarrow> string" where
  "branch_reflog git_dir branch = path_join (path_join git_dir ''logs/refs/heads'') (path_text branch)"

definition worktree_record :: "'h host \<Rightarrow> json \<Rightarrow> json \<Rightarrow> ('h, jdict) action" where
  "worktree_record host v owner_id =
     act_bind (act_result (safe_owned_path v ''worktree'')) (\<lambda>path.
     act_bind (git_output host path [''rev-parse'', ''--show-toplevel''] False) (\<lambda>top.
     act_bind (act_read (resolved host top)) (\<lambda>top_level.
     if top_level \<noteq> path
     then act_raise (resource_error (''owned worktree must be its Git top-level directory: '' @ path))
     else act_bind (git_output host path [''rev-parse'', ''--path-format=absolute'', ''--git-common-dir''] False) (\<lambda>common.
     act_bind (act_read (resolved host common)) (\<lambda>git_dir.
     act_bind (git_output host path [''rev-parse'', ''--path-format=absolute'', ''--absolute-git-dir''] False) (\<lambda>own.
     act_bind (act_read (resolved host own)) (\<lambda>linked.
     act_bind (act_identity (directory_identity host linked ''linked Git directory'')) (\<lambda>(device, inode).
     act_bind (git_output host path [''symbolic-ref'', ''--quiet'', ''--short'', ''HEAD''] True) (\<lambda>branch.
     if branch = [] then act_raise (resource_error (''owned worktree must have an attached branch: '' @ path))
     else act_bind (act_identity (file_identity host (branch_reflog git_dir branch) ''branch reflog'')) (\<lambda>(rdevice, rinode).
     act_bind (git_output host path [''rev-parse'', ''--verify'', ''refs/heads/'' @ branch] False) (\<lambda>tip.
     act_bind (act_result (required_text owner_id ''worker ID'')) (\<lambda>owner.
     act_return
       [(''path'', JStr path), (''git_dir'', JStr git_dir), (''linked_git_dir'', JStr linked),
        (''linked_git_dir_device'', JInt device), (''linked_git_dir_inode'', JInt inode), (''branch'', JStr branch),
        (''branch_reflog'', JStr (branch_reflog git_dir branch)), (''branch_reflog_device'', JInt rdevice),
        (''branch_reflog_inode'', JInt rinode), (''registered_branch_tip'', JStr tip), (''worker_id'', JStr owner)]))))))))))))"

definition log_record :: "'h host \<Rightarrow> json \<Rightarrow> json \<Rightarrow> ('h, jdict) action" where
  "log_record host v owner_id =
     act_bind (act_result (safe_owned_path v ''log'')) (\<lambda>path.
     act_bind (act_identity (log_identity host path)) (\<lambda>(device, inode, kind).
     act_bind (act_read (\<lambda>h. path_text (ho_realpath host (path_parent path) h))) (\<lambda>parent.
     act_bind (act_identity (directory_identity host parent ''log parent directory'')) (\<lambda>(pdevice, pinode).
     act_bind (act_result (required_text owner_id ''worker ID'')) (\<lambda>owner.
     act_return
       [(''path'', JStr path), (''parent_realpath'', JStr parent), (''device'', JInt device), (''inode'', JInt inode),
        (''resource_type'', JStr kind), (''parent_device'', JInt pdevice), (''parent_inode'', JInt pinode),
        (''worker_id'', JStr owner)])))))"

definition project_copy_record :: "'h host \<Rightarrow> json \<Rightarrow> json \<Rightarrow> ('h, jdict) action" where
  "project_copy_record host v owner_id =
     (case v of
        JList [pid, prefix] \<Rightarrow>
          act_bind (act_result (required_text pid ''project ID'')) (\<lambda>project_id.
          act_bind (act_result (safe_owned_path prefix ''project-copy directory prefix'')) (\<lambda>path.
          act_bind (act_identity (project_copy_identity host path)) (\<lambda>identity.
          act_bind (act_result (required_text owner_id ''worker ID'')) (\<lambda>owner.
          act_return (dict_update [(''project_id'', JStr project_id), (''directory_prefix'', JStr path),
            (''worker_id'', JStr owner)] identity)))))
      | _ \<Rightarrow> act_raise (resource_error ''owned project copy requires PROJECT_ID and DIRECTORY_PREFIX''))"

fun act_map :: "('a \<Rightarrow> ('s, 'b) action) \<Rightarrow> 'a list \<Rightarrow> ('s, 'b list) action" where
  "act_map f [] = act_return []"
| "act_map f (x # xs) = act_bind (f x) (\<lambda>y. act_bind (act_map f xs) (\<lambda>ys. act_return (y # ys)))"

text \<open>A record of the same identity is replaced in its place.\<close>

definition same_fields :: "string list \<Rightarrow> json \<Rightarrow> jdict \<Rightarrow> bool" where
  "same_fields ks v r =
     (case v of JObj d \<Rightarrow> list_all (\<lambda>k. py_eq (dict_get d k) (dict_get r k)) ks | _ \<Rightarrow> False)"

fun append_unique_record :: "string list \<Rightarrow> jdict \<Rightarrow> json list \<Rightarrow> json list" where
  "append_unique_record ks r [] = [JObj r]"
| "append_unique_record ks r (v # vs) =
     (if same_fields ks v r then JObj r # vs else v # append_unique_record ks r vs)"

definition append_records :: "string \<Rightarrow> string list \<Rightarrow> jdict list \<Rightarrow> jdict \<Rightarrow> jdict" where
  "append_records k ks rs resources =
     (case dict_get resources k of
        JList vs \<Rightarrow> dict_set k (JList (fold (append_unique_record ks) rs vs)) resources
      | _ \<Rightarrow> resources)"

definition register_records :: "jdict list \<Rightarrow> jdict list \<Rightarrow> jdict list \<Rightarrow> run_record \<Rightarrow> run_record result" where
  "register_records worktrees logs projects run =
     res_bind (ensure_run_resources (rn_fields run)) (\<lambda>flds.
     case dict_get flds ''resources'' of
       JObj resources \<Rightarrow>
         Inr (set_run_field ''resources'' (JObj
           (append_records ''project_copies'' [''project_id'', ''directory_prefix''] projects
           (append_records ''logs'' [''path''] logs
           (append_records ''worktrees'' [''path''] worktrees resources)))) (run\<lparr>rn_fields := flds\<rparr>))
     | _ \<Rightarrow> Inl (schema_error ''resources'' '' must be an object''))"

text \<open>The world of a command: the run store, and the host with everything else.\<close>

type_synonym 'h world = "run_store \<times> 'h"

definition on_host :: "('h, 'a) action \<Rightarrow> ('h world, 'a) action" where
  "on_host m = (\<lambda>(s, h). case m h of (r, h') \<Rightarrow> (r, (s, h')))"

definition on_store :: "(run_store \<Rightarrow> ('a \<times> run_store) result) \<Rightarrow> ('h world, 'a) action" where
  "on_store u = (\<lambda>(s, h). case u s of Inl e \<Rightarrow> (Inl e, (s, h)) | Inr (x, s') \<Rightarrow> (Inr x, (s', h)))"

definition register_run_resources ::
  "(string \<Rightarrow> pyfloat option) \<Rightarrow> string \<Rightarrow> 'h host \<Rightarrow> string \<Rightarrow> json \<Rightarrow> json list \<Rightarrow> json list \<Rightarrow> json list \<Rightarrow>
   ('h world, run_record) action" where
  "register_run_resources pf cwd host name owner_id worktree_paths log_paths project_copies =
     act_bind (on_host (act_map (\<lambda>v. worktree_record host v owner_id) worktree_paths)) (\<lambda>worktrees.
     act_bind (on_host (act_map (\<lambda>v. log_record host v owner_id) log_paths)) (\<lambda>logs.
     act_bind (on_host (act_map (\<lambda>v. project_copy_record host v owner_id) project_copies)) (\<lambda>projects.
     on_store (update_run pf cwd name (register_records worktrees logs projects) False))))"

section \<open>The sessions of a run\<close>

definition add_ids :: "json list \<Rightarrow> json list \<Rightarrow> json list" where
  "add_ids new ids = fold (\<lambda>v acc. append_unique_string acc v) new ids"

definition attempt_ids :: "json \<Rightarrow> json list \<Rightarrow> json list" where
  "attempt_ids v ids =
     (case v of
        JObj a \<Rightarrow> add_ids (string_list (dict_get a ''created_session_ids''))
          (append_unique_string ids (dict_get a ''session_id''))
      | _ \<Rightarrow> ids)"

definition snapshot_ids :: "jdict \<Rightarrow> json list \<Rightarrow> json list result" where
  "snapshot_ids snapshot ids =
     res_bind (iterated (dict_get snapshot ''attempts'')) (\<lambda>attempts.
     let ids1 = fold attempt_ids attempts (append_unique_string ids (dict_get snapshot ''session_id'')) in
     Inr (case dict_get snapshot ''cleanup'' of
            JObj c \<Rightarrow> add_ids (string_list (dict_get c ''sessions'')) ids1
          | _ \<Rightarrow> ids1))"

definition journal_ids :: "json \<Rightarrow> json list \<Rightarrow> json list" where
  "journal_ids e ids = (case creation_of_entry e of Some (i, requested, created) \<Rightarrow> add_ids created ids | None \<Rightarrow> ids)"

definition run_owned_session_ids :: "run_record \<Rightarrow> json list result" where
  "run_owned_session_ids run =
     res_bind (res_fold (\<lambda>ids (i, w). res_bind (to_snapshot w) (\<lambda>snapshot. snapshot_ids snapshot ids)) [] (rn_workers run)) (\<lambda>ids.
     Inr (case dict_get (rn_fields run) ''worker_session_journal'' of
            JList es \<Rightarrow> fold journal_ids es ids
          | _ \<Rightarrow> ids))"

section \<open>Ownership\<close>

definition record_schema_error :: "string \<Rightarrow> jdict \<Rightarrow> string option" where
  "record_schema_error k r =
     (case validate_run_resource_manifest
        (JObj (dict_set k (JList [JObj r]) [(''worktrees'', JList []), (''logs'', JList []), (''project_copies'', JList [])])) of
        Inl (RunResourceSchemaError e) \<Rightarrow> Some (''invalid owned resource record: '' @ e)
      | _ \<Rightarrow> None)"

definition has_identity :: "jdict \<Rightarrow> string \<Rightarrow> string \<Rightarrow> int \<times> int \<Rightarrow> bool" where
  "has_identity r device inode i = (dict_get r device = JInt (fst i) \<and> dict_get r inode = JInt (snd i))"

definition verify_owned_branch_name :: "jdict \<Rightarrow> string \<Rightarrow> string option" where
  "verify_owned_branch_name r branch =
     (if branch = [] then Some ''owned worktree is now detached''
      else if branch \<noteq> text_field r ''branch''
      then Some (''owned worktree branch changed from '' @ text_field r ''branch'' @ '' to '' @ branch)
      else None)"

text \<open>\<open>None\<close> only while the worktree is the one that was registered\<close>

definition verify_owned_worktree :: "'h host \<Rightarrow> jdict \<Rightarrow> ('h, string option) action" where
  "verify_owned_worktree host r =
     (case record_schema_error ''worktrees'' r of
        Some e \<Rightarrow> act_return (Some e)
      | None \<Rightarrow>
     let path = path_text (text_field r ''path'') in
     act_bind (act_read (ho_is_dir host path)) (\<lambda>present.
     if \<not> present then act_return (Some ''owned worktree path no longer exists as a directory'')
     else act_bind (git_output host path [''rev-parse'', ''--show-toplevel''] True) (\<lambda>top.
     act_bind (act_read (resolved host top)) (\<lambda>top_real.
     if top = [] \<or> top_real \<noteq> path
     then act_return (Some ''owned worktree path is no longer the recorded Git top-level directory'')
     else act_bind (git_output host path [''rev-parse'', ''--path-format=absolute'', ''--git-common-dir''] True) (\<lambda>common.
     act_bind (act_read (resolved host common)) (\<lambda>common_real.
     if common = [] \<or> common_real \<noteq> path_text (text_field r ''git_dir'')
     then act_return (Some ''owned worktree no longer belongs to the recorded repository'')
     else act_bind (git_output host path [''rev-parse'', ''--path-format=absolute'', ''--absolute-git-dir''] True) (\<lambda>linked.
     act_bind (act_read (resolved host linked)) (\<lambda>linked_real.
     if linked = [] \<or> linked_real \<noteq> path_text (text_field r ''linked_git_dir'')
     then act_return (Some ''owned worktree linked Git directory has changed'')
     else act_bind (act_read (directory_identity host linked_real ''linked Git directory'')) (\<lambda>identity.
     case identity of
       Inl e \<Rightarrow> act_return (Some e)
     | Inr i \<Rightarrow>
         if \<not> has_identity r ''linked_git_dir_device'' ''linked_git_dir_inode'' i
         then act_return (Some ''owned worktree linked Git directory identity has changed'')
         else act_bind (git_output host path [''symbolic-ref'', ''--quiet'', ''--short'', ''HEAD''] True) (\<lambda>branch.
              act_return (verify_owned_branch_name r branch)))))))))))"

definition verify_owned_log :: "'h host \<Rightarrow> jdict \<Rightarrow> 'h \<Rightarrow> string option" where
  "verify_owned_log host r h =
     (case record_schema_error ''logs'' r of
        Some e \<Rightarrow> Some e
      | None \<Rightarrow>
     let path = path_text (text_field r ''path'');
         parent = path_text (ho_realpath host (path_parent path) h) in
     if parent \<noteq> path_text (text_field r ''parent_realpath'') then Some ''owned log parent real path has changed''
     else case directory_identity host parent ''log parent directory'' h of
       Inl e \<Rightarrow> Some e
     | Inr i \<Rightarrow>
         if \<not> has_identity r ''parent_device'' ''parent_inode'' i
         then Some ''owned log parent directory identity has changed''
         else case log_identity host path h of
           Inl e \<Rightarrow> Some e
         | Inr (device, inode, kind) \<Rightarrow>
             if \<not> (has_identity r ''device'' ''inode'' (device, inode) \<and> dict_get r ''resource_type'' = JStr kind)
             then Some ''owned log identity or type has changed'' else None)"

definition verify_owned_branch :: "'h host \<Rightarrow> jdict \<Rightarrow> 'h \<Rightarrow> string option" where
  "verify_owned_branch host r h =
     (case record_schema_error ''worktrees'' r of
        Some e \<Rightarrow> Some e
      | None \<Rightarrow>
     let expected = branch_reflog (text_field r ''git_dir'') (text_field r ''branch'') in
     if path_text (text_field r ''branch_reflog'') \<noteq> expected
     then Some ''owned branch reflog path does not match the recorded repository and branch''
     else case file_identity host expected ''branch reflog'' h of
       Inl e \<Rightarrow> Some e
     | Inr i \<Rightarrow>
         if \<not> has_identity r ''branch_reflog_device'' ''branch_reflog_inode'' i
         then Some ''owned branch reflog identity has changed''
         else case ho_read_text host expected h of
           Inl e \<Rightarrow> Some (''cannot read owned branch reflog: '' @ e)
         | Inr text \<Rightarrow>
             if text_field r ''registered_branch_tip'' \<notin> set (py_words text)
             then Some ''owned branch reflog no longer contains the registered tip'' else None)"

definition verify_owned_project_copy :: "'h host \<Rightarrow> jdict \<Rightarrow> 'h \<Rightarrow> string option" where
  "verify_owned_project_copy host r h =
     (case validate_run_resource_manifest
        (JObj [(''worktrees'', JList []), (''logs'', JList []), (''project_copies'', JList [JObj r])]) of
        Inl (RunResourceSchemaError e) \<Rightarrow> Some (''invalid owned project-copy record: '' @ e)
      | _ \<Rightarrow>
     case project_copy_identity host (path_text (text_field r ''directory_prefix'')) h of
       Inl e \<Rightarrow> Some e
     | Inr current \<Rightarrow>
         if list_ex (\<lambda>(k, v). dict_get r k \<noteq> v) current
         then Some ''owned project-copy directory prefix identity has changed'' else None)"

section \<open>Deleting a branch in a transaction\<close>

definition process_error :: "completed_process \<Rightarrow> string \<Rightarrow> string" where
  "process_error c fallback = or_else (py_strip (cp_stderr c)) (or_else (py_strip (cp_stdout c)) fallback)"

definition finish_deletion :: "'h host \<Rightarrow> int \<Rightarrow> string \<Rightarrow> string \<Rightarrow> 'h \<Rightarrow> string option \<times> 'h" where
  "finish_deletion host process command fallback h =
     (case ho_end_deletion host process command h of
        (Inl e, h') \<Rightarrow> (Some (fallback @ '': '' @ e), ho_kill host process h')
      | (Inr (out, err, code), h') \<Rightarrow>
          if code = 0 \<and> command @ '': ok'' \<in> set (py_splitlines (py_strip out)) then (None, h')
          else (Some (or_else (py_strip err) (or_else (py_strip out) fallback)), h'))"

definition commit_deletion :: "'h host \<Rightarrow> int \<Rightarrow> ('h, string option) action" where
  "commit_deletion host process h =
     (case finish_deletion host process ''commit'' ''atomic branch deletion failed'' h of (e, h') \<Rightarrow> (Inr e, h'))"

definition abort_deletion :: "'h host \<Rightarrow> int \<Rightarrow> ('h, string option) action" where
  "abort_deletion host process h =
     (case finish_deletion host process ''abort'' ''atomic branch deletion abort failed'' h of (e, h') \<Rightarrow> (Inr e, h'))"

text \<open>The process of a prepared transaction, or what prevents it. A refused preparation is aborted.\<close>

definition prepare_deletion :: "'h host \<Rightarrow> string \<Rightarrow> string \<Rightarrow> string \<Rightarrow> ('h, (string option, int) sum) action" where
  "prepare_deletion host git_dir branch tip =
     act_bind (ho_git host [''check-ref-format'', ''refs/heads/'' @ branch]) (\<lambda>valid.
     if cp_returncode valid \<noteq> 0 then act_return (Inl (Some (process_error valid ''recorded branch name is invalid'')))
     else (\<lambda>h. case ho_begin_deletion host git_dir
           (''start'' @ [CHR 0x0A] @ ''delete refs/heads/'' @ branch @ '' '' @ tip @ [CHR 0x0A] @ ''prepare'' @ [CHR 0x0A]) h of
         (Inl e, h') \<Rightarrow> (Inr (Inl (Some (''cannot prepare atomic branch deletion: '' @ e))), h')
       | (Inr (process, first, second), h') \<Rightarrow>
           if (py_strip first, py_strip second) \<noteq> (''start: ok'', ''prepare: ok'')
           then (case finish_deletion host process ''abort'' ''branch changed before deletion'' h' of
                   (e, h'') \<Rightarrow> (Inr (Inl e), h''))
           else (Inr (Inr process), h')))"

end
