(* ===== verification/Local_Cleanup.thy ===== *)
theory Local_Cleanup
  imports Owned_Resources
begin

text \<open>
  \<open>run_cleanup_local.py\<close>: the worktrees, branches and logs that a run owns are inspected before a cleanup, and
  removed by it. The preflight collects what is blocked and why; a removal verifies the ownership again.
\<close>

section \<open>Git\<close>

definition text_contains :: "string \<Rightarrow> string \<Rightarrow> bool" where
  "text_contains part s = list_ex (\<lambda>i. starts_with (drop i s) part) [0..<Suc (length s)]"

definition git_completed :: "'h host \<Rightarrow> string list \<Rightarrow> ('h, completed_process) action" where
  "git_completed host args =
     act_catch (ho_git host args) (\<lambda>e. case e of
         OSError m \<Rightarrow> act_raise (store_error (''cannot execute git: '' @ m) ''data'')
       | _ \<Rightarrow> act_raise e)"

definition git_error :: "completed_process \<Rightarrow> string" where
  "git_error c = process_error c (''git exited '' @ int_text (cp_returncode c))"

definition git_text :: "'h host \<Rightarrow> string list \<Rightarrow> ('h, string) action" where
  "git_text host args =
     act_bind (git_completed host args) (\<lambda>c.
     if cp_returncode c = 0 then act_return (py_strip (cp_stdout c)) else act_raise (store_error (git_error c) ''data''))"

definition run_git :: "'h host \<Rightarrow> string list \<Rightarrow> ('h, string option) action" where
  "run_git host args =
     act_bind (git_completed host args) (\<lambda>c. act_return (if cp_returncode c = 0 then None else Some (git_error c)))"

text \<open>\<open>except RunStoreError\<close>: the answer, or the text of the error\<close>

definition try_store :: "('s, 'a) action \<Rightarrow> ('s, string + 'a) action" where
  "try_store m =
     act_catch (act_bind m (\<lambda>x. act_return (Inr x))) (\<lambda>e. case e of
         RunStoreError msg kind \<Rightarrow> act_return (Inl msg)
       | _ \<Rightarrow> act_raise e)"

definition git_of :: "jdict \<Rightarrow> string list \<Rightarrow> string list" where
  "git_of r args = [''--git-dir'', text_field r ''git_dir''] @ args"

definition branch_ref :: "jdict \<Rightarrow> string" where
  "branch_ref r = ''refs/heads/'' @ text_field r ''branch''"

definition worktree_is_registered :: "'h host \<Rightarrow> jdict \<Rightarrow> ('h, bool) action" where
  "worktree_is_registered host r =
     act_bind (git_text host (git_of r [''worktree'', ''list'', ''--porcelain''])) (\<lambda>out.
     act_return (''worktree '' @ text_field r ''path'' \<in> set (py_splitlines out)))"

definition branch_tip :: "'h host \<Rightarrow> jdict \<Rightarrow> ('h, string option) action" where
  "branch_tip host r =
     act_bind (git_completed host (git_of r [''rev-parse'', ''--verify'', branch_ref r])) (\<lambda>c.
     if cp_returncode c = 0 then act_return (Some (py_strip (cp_stdout c)))
     else if cp_returncode c = 1 \<and> py_strip (cp_stderr c) = [] then act_return None
     else if cp_returncode c = 128 \<and> text_contains ''Needed a single revision'' (cp_stderr c) then act_return None
     else act_raise (store_error (git_error c) ''data''))"

text \<open>\<open>_branch_tip(record) if branch else None\<close>\<close>

definition named_branch_tip :: "'h host \<Rightarrow> jdict \<Rightarrow> ('h, string option) action" where
  "named_branch_tip host r = (if text_field r ''branch'' = [] then act_return None else branch_tip host r)"

definition merged_branches :: "'h host \<Rightarrow> jdict \<Rightarrow> ('h, string list) action" where
  "merged_branches host r =
     act_bind (git_text host (git_of r [''branch'', ''--merged'', ''HEAD'', ''--format=%(refname:short)''])) (\<lambda>out.
     act_return (py_splitlines out))"

section \<open>What is blocked\<close>

definition issue :: "string \<Rightarrow> jdict \<Rightarrow> string \<Rightarrow> json" where
  "issue category r e = JObj [(''category'', JStr category), (''resource'', JObj r), (''error'', JStr e)]"

definition about_resource :: "jdict \<Rightarrow> json \<Rightarrow> bool" where
  "about_resource r e = (case e of JObj d \<Rightarrow> py_eq (dict_get d ''resource'') (JObj r) | _ \<Rightarrow> False)"

type_synonym branch_identity = "string \<times> string"

definition identity_of :: "jdict \<Rightarrow> branch_identity" where
  "identity_of r = (text_field r ''git_dir'', text_field r ''branch'')"

text \<open>The sets of the source are lists without repetition.\<close>

record verdicts =
  vd_worktrees :: "string list"
  vd_branches :: "branch_identity list"
  vd_tips :: "(branch_identity \<times> string) list"
  vd_logs :: "string list"
  vd_errors :: "json list"

definition no_verdicts :: verdicts where
  "no_verdicts = \<lparr>vd_worktrees = [], vd_branches = [], vd_tips = [], vd_logs = [], vd_errors = []\<rparr>"

definition add_issue :: "string \<Rightarrow> jdict \<Rightarrow> string \<Rightarrow> verdicts \<Rightarrow> verdicts" where
  "add_issue category r e v = v\<lparr>vd_errors := vd_errors v @ [issue category r e]\<rparr>"

definition block_worktree :: "jdict \<Rightarrow> verdicts \<Rightarrow> verdicts" where
  "block_worktree r v = v\<lparr>vd_worktrees := List.insert (text_field r ''path'') (vd_worktrees v)\<rparr>"

definition block_branch :: "jdict \<Rightarrow> verdicts \<Rightarrow> verdicts" where
  "block_branch r v = v\<lparr>vd_branches := List.insert (identity_of r) (vd_branches v)\<rparr>"

definition block_log :: "jdict \<Rightarrow> verdicts \<Rightarrow> verdicts" where
  "block_log r v = v\<lparr>vd_logs := List.insert (text_field r ''path'') (vd_logs v)\<rparr>"

definition record_path :: "jdict \<Rightarrow> string" where
  "record_path r = path_text (text_field r ''path'')"

definition registration_remains :: string where
  "registration_remains = ''owned worktree path is missing but its Git registration remains''"

definition preflight_missing_worktree :: "'h host \<Rightarrow> jdict \<Rightarrow> verdicts \<Rightarrow> ('h, verdicts) action" where
  "preflight_missing_worktree host r v =
     act_bind (try_store (worktree_is_registered host r)) (\<lambda>answer.
     act_return (case answer of
         Inl msg \<Rightarrow> block_worktree r (add_issue ''worktrees'' r msg v)
       | Inr False \<Rightarrow> v
       | Inr True \<Rightarrow>
           if list_ex (about_resource r) (vd_errors v) then block_worktree r v
           else add_issue ''worktrees'' r registration_remains (block_worktree r v)))"

definition dirty_worktree :: "'h host \<Rightarrow> jdict \<Rightarrow> ('h, string option) action" where
  "dirty_worktree host r =
     act_bind (try_store (git_text host [''-C'', record_path r, ''status'', ''--porcelain''])) (\<lambda>answer.
     act_return (case answer of
         Inl msg \<Rightarrow> Some msg
       | Inr out \<Rightarrow> if out = [] then None else Some ''owned worktree is dirty; pass --force to remove it''))"

definition preflight_present_worktree :: "'h host \<Rightarrow> bool \<Rightarrow> jdict \<Rightarrow> verdicts \<Rightarrow> ('h, verdicts) action" where
  "preflight_present_worktree host force r v =
     act_bind (verify_owned_worktree host r) (\<lambda>e.
     act_bind (if e = None \<and> \<not> force then dirty_worktree host r else act_return e) (\<lambda>e'.
     act_return (case e' of None \<Rightarrow> v | Some msg \<Rightarrow> add_issue ''worktrees'' r msg (block_worktree r v))))"

definition preflight_worktree :: "'h host \<Rightarrow> bool \<Rightarrow> jdict \<Rightarrow> verdicts \<Rightarrow> ('h, verdicts) action" where
  "preflight_worktree host force r v =
     act_bind (act_read (ho_exists host (record_path r))) (\<lambda>present.
     if present then preflight_present_worktree host force r v else preflight_missing_worktree host r v)"

fun act_fold :: "('a \<Rightarrow> 'b \<Rightarrow> ('s, 'b) action) \<Rightarrow> 'a list \<Rightarrow> 'b \<Rightarrow> ('s, 'b) action" where
  "act_fold f [] b = act_return b"
| "act_fold f (x # xs) b = act_bind (f x b) (act_fold f xs)"

definition preflight_worktrees :: "'h host \<Rightarrow> bool \<Rightarrow> jdict list \<Rightarrow> verdicts \<Rightarrow> ('h, verdicts) action" where
  "preflight_worktrees host force rs v = act_fold (preflight_worktree host force) rs v"

definition branch_issue :: "jdict \<Rightarrow> string \<Rightarrow> verdicts \<Rightarrow> verdicts" where
  "branch_issue r e v = add_issue ''branches'' r e (block_branch r v)"

definition preflight_merged :: "'h host \<Rightarrow> bool \<Rightarrow> jdict \<Rightarrow> verdicts \<Rightarrow> ('h, verdicts) action" where
  "preflight_merged host force r v =
     (if force then act_return v
      else act_bind (try_store (merged_branches host r)) (\<lambda>answer.
           act_return (case answer of
               Inl msg \<Rightarrow> branch_issue r msg v
             | Inr names \<Rightarrow> if text_field r ''branch'' \<in> set names then v
                 else branch_issue r ''owned branch is not merged; pass --force to remove it'' v)))"

definition preflight_existing_branch ::
  "'h host \<Rightarrow> bool \<Rightarrow> string list \<Rightarrow> jdict \<Rightarrow> string \<Rightarrow> verdicts \<Rightarrow> ('h, verdicts) action" where
  "preflight_existing_branch host force selected r tip v =
     (if text_field r ''path'' \<notin> set selected
      then act_return (branch_issue r ''branch cleanup requires the same invocation to select its owned worktree'' v)
      else if text_field r ''path'' \<in> set (vd_worktrees v) then act_return (block_branch r v)
      else act_bind (act_read (ho_exists host (record_path r))) (\<lambda>present.
        if \<not> present
        then act_return (branch_issue r ''owned worktree must still exist when branch cleanup is planned'' v)
        else act_bind (act_read (verify_owned_branch host r)) (\<lambda>branch_error.
        case branch_error of
          Some e \<Rightarrow> act_return (branch_issue r e v)
        | None \<Rightarrow> act_bind (verify_owned_worktree host r) (\<lambda>ownership_error.
        case ownership_error of
          Some e \<Rightarrow> act_return (branch_issue r e v)
        | None \<Rightarrow> preflight_merged host force r (v\<lparr>vd_tips := dict_set (identity_of r) tip (vd_tips v)\<rparr>)))))"

definition preflight_branch :: "'h host \<Rightarrow> bool \<Rightarrow> string list \<Rightarrow> jdict \<Rightarrow> verdicts \<Rightarrow> ('h, verdicts) action" where
  "preflight_branch host force selected r v =
     act_bind (try_store (named_branch_tip host r)) (\<lambda>answer.
     case answer of
       Inl msg \<Rightarrow> act_return (branch_issue r msg v)
     | Inr None \<Rightarrow> act_return v
     | Inr (Some tip) \<Rightarrow> preflight_existing_branch host force selected r tip v)"

definition preflight_branches :: "'h host \<Rightarrow> bool \<Rightarrow> string list \<Rightarrow> jdict list \<Rightarrow> verdicts \<Rightarrow> ('h, verdicts) action" where
  "preflight_branches host force selected rs v = act_fold (preflight_branch host force selected) rs v"

definition preflight_log :: "'h host \<Rightarrow> jdict \<Rightarrow> verdicts \<Rightarrow> ('h, verdicts) action" where
  "preflight_log host r v =
     act_read (\<lambda>h.
       if \<not> ho_exists host (record_path r) h \<and> \<not> ho_is_symlink host (record_path r) h then v
       else case verify_owned_log host r h of None \<Rightarrow> v | Some e \<Rightarrow> add_issue ''logs'' r e (block_log r v))"

definition preflight_logs :: "'h host \<Rightarrow> jdict list \<Rightarrow> verdicts \<Rightarrow> ('h, verdicts) action" where
  "preflight_logs host rs v = act_fold (preflight_log host) rs v"

section \<open>Removing\<close>

record removals =
  rm_worktrees :: "jdict list"
  rm_branches :: "jdict list"
  rm_logs :: "jdict list"
  rm_errors :: "json list"

definition failed_removal :: "string \<Rightarrow> jdict \<Rightarrow> string \<Rightarrow> removals \<Rightarrow> removals" where
  "failed_removal category r e res = res\<lparr>rm_errors := rm_errors res @ [issue category r e]\<rparr>"

definition removed_worktree :: "jdict \<Rightarrow> removals \<Rightarrow> removals" where
  "removed_worktree r res = res\<lparr>rm_worktrees := rm_worktrees res @ [r]\<rparr>"

definition removed_branch :: "jdict \<Rightarrow> removals \<Rightarrow> removals" where
  "removed_branch r res = res\<lparr>rm_branches := rm_branches res @ [r]\<rparr>"

definition removed_log :: "jdict \<Rightarrow> removals \<Rightarrow> removals" where
  "removed_log r res = res\<lparr>rm_logs := rm_logs res @ [r]\<rparr>"

text \<open>A dict comprehension keeps the last record of a path.\<close>

definition branch_of_path :: "jdict list \<Rightarrow> branch_identity list \<Rightarrow> (branch_identity \<times> string) list \<Rightarrow> string \<Rightarrow> jdict option" where
  "branch_of_path branches blocked tips path =
     map_of (rev (map (\<lambda>r. (text_field r ''path'', r))
       (filter (\<lambda>r. identity_of r \<notin> set blocked \<and> dict_has tips (identity_of r)) branches))) path"

definition abort_prepared :: "'h host \<Rightarrow> int option \<Rightarrow> ('h, string option) action" where
  "abort_prepared host process = (case process of None \<Rightarrow> act_return None | Some p \<Rightarrow> abort_deletion host p)"

definition worktree_remove :: "bool \<Rightarrow> jdict \<Rightarrow> string list" where
  "worktree_remove force r =
     git_of r ([''worktree'', ''remove''] @ (if force then [''--force''] else []) @ [text_field r ''path''])"

definition commit_prepared :: "'h host \<Rightarrow> int option \<Rightarrow> jdict \<Rightarrow> removals \<Rightarrow> ('h, removals) action" where
  "commit_prepared host process b res =
     (case process of
        None \<Rightarrow> act_return res
      | Some p \<Rightarrow> act_bind (commit_deletion host p) (\<lambda>e. act_return (case e of
            Some msg \<Rightarrow> failed_removal ''branches'' b msg res
          | None \<Rightarrow> removed_branch b res)))"

definition remove_verified_worktree ::
  "'h host \<Rightarrow> bool \<Rightarrow> jdict \<Rightarrow> jdict \<Rightarrow> int option \<Rightarrow> removals \<Rightarrow> ('h, removals) action" where
  "remove_verified_worktree host force r b process res =
     act_bind (run_git host (worktree_remove force r)) (\<lambda>e.
     case e of
       Some msg \<Rightarrow> act_bind (abort_prepared host process) (\<lambda>_. act_return (failed_removal ''worktrees'' r msg res))
     | None \<Rightarrow> act_bind (commit_prepared host process b res) (\<lambda>res'. act_return (removed_worktree r res')))"

text \<open>A second verification follows the preparation of the branch; without a process there is nothing to abort.\<close>

definition remove_with_branch ::
  "'h host \<Rightarrow> bool \<Rightarrow> jdict \<Rightarrow> jdict \<Rightarrow> int option \<Rightarrow> removals \<Rightarrow> ('h, removals) action" where
  "remove_with_branch host force r b process res =
     act_bind (verify_owned_worktree host r) (\<lambda>e.
     case e of
       None \<Rightarrow> remove_verified_worktree host force r b process res
     | Some msg \<Rightarrow>
         (case process of
            None \<Rightarrow> act_raise (AttributeError ''abort'')
          | Some p \<Rightarrow> act_bind (abort_deletion host p) (\<lambda>_. act_return (failed_removal ''worktrees'' r msg res))))"

definition remove_present_worktree ::
  "'h host \<Rightarrow> bool \<Rightarrow> (branch_identity \<times> string) list \<Rightarrow> jdict option \<Rightarrow> jdict \<Rightarrow> removals \<Rightarrow> ('h, removals) action" where
  "remove_present_worktree host force tips branch r res =
     act_bind (verify_owned_worktree host r) (\<lambda>e.
     case e of
       Some msg \<Rightarrow> act_return (failed_removal ''worktrees'' r msg res)
     | None \<Rightarrow>
     (case branch of
        None \<Rightarrow> remove_verified_worktree host force r [] None res
      | Some b \<Rightarrow>
     (case map_of tips (identity_of b) of
        None \<Rightarrow> act_raise (KeyError (snd (identity_of b)))
      | Some tip \<Rightarrow>
          act_bind (prepare_deletion host (text_field b ''git_dir'') (text_field b ''branch'') tip) (\<lambda>prepared.
          case prepared of
            Inl (Some msg) \<Rightarrow> act_return (failed_removal ''branches'' b msg res)
          | Inl None \<Rightarrow> remove_with_branch host force r b None res
          | Inr process \<Rightarrow> remove_with_branch host force r b (Some process) res))))"

definition remove_missing_worktree :: "'h host \<Rightarrow> jdict option \<Rightarrow> jdict \<Rightarrow> removals \<Rightarrow> ('h, removals) action" where
  "remove_missing_worktree host branch r res =
     (case branch of
        Some b \<Rightarrow> act_return (failed_removal ''branches'' b ''atomic branch deletion was not acquired''
          (failed_removal ''worktrees'' r ''owned worktree disappeared after branch preflight'' res))
      | None \<Rightarrow>
          act_bind (try_store (worktree_is_registered host r)) (\<lambda>answer.
          act_return (case answer of
              Inl msg \<Rightarrow> failed_removal ''worktrees'' r msg res
            | Inr True \<Rightarrow> failed_removal ''worktrees'' r registration_remains res
            | Inr False \<Rightarrow> removed_worktree r res)))"

definition remove_worktree ::
  "'h host \<Rightarrow> bool \<Rightarrow> jdict list \<Rightarrow> verdicts \<Rightarrow> jdict \<Rightarrow> removals \<Rightarrow> ('h, removals) action" where
  "remove_worktree host force branches v r res =
     (let branch = branch_of_path branches (vd_branches v) (vd_tips v) (text_field r ''path'') in
      if text_field r ''path'' \<in> set (vd_worktrees v) then act_return res
      else act_bind (act_read (ho_exists host (record_path r))) (\<lambda>present.
        if present then remove_present_worktree host force (vd_tips v) branch r res
        else remove_missing_worktree host branch r res))"

definition remove_worktrees ::
  "'h host \<Rightarrow> bool \<Rightarrow> jdict list \<Rightarrow> verdicts \<Rightarrow> jdict list \<Rightarrow> removals \<Rightarrow> ('h, removals) action" where
  "remove_worktrees host force branches v rs res = act_fold (remove_worktree host force branches v) rs res"

definition branch_failed :: "jdict \<Rightarrow> json \<Rightarrow> bool" where
  "branch_failed r e =
     (case e of JObj d \<Rightarrow> dict_get d ''category'' = JStr ''branches'' \<and> about_resource r e | _ \<Rightarrow> False)"

definition delete_branch :: "'h host \<Rightarrow> verdicts \<Rightarrow> jdict \<Rightarrow> string \<Rightarrow> removals \<Rightarrow> ('h, removals) action" where
  "delete_branch host v r tip res =
     act_bind (act_read (verify_owned_branch host r)) (\<lambda>ownership_error.
     case ownership_error of
       Some e \<Rightarrow> act_return (failed_removal ''branches'' r e res)
     | None \<Rightarrow>
         if map_of (vd_tips v) (identity_of r) \<noteq> Some tip
         then act_return (failed_removal ''branches'' r ''owned branch tip changed after preflight'' res)
         else act_bind (run_git host (git_of r [''update-ref'', ''-d'', branch_ref r, tip])) (\<lambda>e.
              act_return (case e of
                  Some msg \<Rightarrow> failed_removal ''branches'' r msg res
                | None \<Rightarrow> removed_branch r res)))"

definition remove_branch :: "'h host \<Rightarrow> verdicts \<Rightarrow> jdict \<Rightarrow> removals \<Rightarrow> ('h, removals) action" where
  "remove_branch host v r res =
     (if list_ex (\<lambda>c. identity_of c = identity_of r) (rm_branches res) then act_return res
      else if list_ex (branch_failed r) (rm_errors res) then act_return res
      else if identity_of r \<in> set (vd_branches v) then act_return res
      else act_bind (try_store (named_branch_tip host r)) (\<lambda>answer.
        case answer of
          Inl msg \<Rightarrow> act_return (failed_removal ''branches'' r msg res)
        | Inr None \<Rightarrow> act_return (removed_branch r res)
        | Inr (Some tip) \<Rightarrow> delete_branch host v r tip res))"

definition remove_branches :: "'h host \<Rightarrow> verdicts \<Rightarrow> jdict list \<Rightarrow> removals \<Rightarrow> ('h, removals) action" where
  "remove_branches host v rs res = act_fold (remove_branch host v) rs res"

definition unlink_log :: "'h host \<Rightarrow> jdict \<Rightarrow> removals \<Rightarrow> ('h, removals) action" where
  "unlink_log host r res h =
     (case ho_unlink host (record_path r) h of
        (Some e, h') \<Rightarrow> (Inr (failed_removal ''logs'' r e res), h')
      | (None, h') \<Rightarrow> (Inr (removed_log r res), h'))"

definition remove_log :: "'h host \<Rightarrow> verdicts \<Rightarrow> jdict \<Rightarrow> removals \<Rightarrow> ('h, removals) action" where
  "remove_log host v r res =
     (if text_field r ''path'' \<in> set (vd_logs v) then act_return res
      else act_bind (act_read (\<lambda>h. ho_exists host (record_path r) h \<or> ho_is_symlink host (record_path r) h)) (\<lambda>present.
        if \<not> present then act_return (removed_log r res)
        else act_bind (act_read (verify_owned_log host r)) (\<lambda>identity_error.
        case identity_error of
          Some e \<Rightarrow> act_return (failed_removal ''logs'' r e res)
        | None \<Rightarrow> unlink_log host r res)))"

definition remove_logs :: "'h host \<Rightarrow> verdicts \<Rightarrow> jdict list \<Rightarrow> removals \<Rightarrow> ('h, removals) action" where
  "remove_logs host v rs res = act_fold (remove_log host v) rs res"

end
