(* ===== verification/Project_Metadata.thy ===== *)
theory Project_Metadata
  imports Owned_Resources Prompt_Admission
begin

text \<open>
  \<open>project_metadata.py\<close> and \<open>project_metadata_cleanup.py\<close>: what a server knows about projects, their
  directories and workspaces, and the removal of the entries below a directory prefix whose directories are
  gone. The requests of the client are parameters; the state is that of the client and the host.
\<close>

section \<open>Reading metadata\<close>

record 'h metadata_client =
  mc_projects :: "('h, api_answer) action"
  mc_directories :: "string \<Rightarrow> ('h, api_answer) action"
  mc_workspaces :: "('h, api_answer) action"
  mc_refresh :: "string \<Rightarrow> ('h, api_answer) action"
  mc_delete_workspace :: "string \<Rightarrow> ('h, api_answer) action"

record 'h metadata =
  md_client :: "'h metadata_client"
  md_profile :: server_profile
  md_host :: "'h host"

definition api_raise :: "string \<Rightarrow> py_error" where
  "api_raise msg = RemoteError ''OpenCodeApiError'' msg"

text \<open>The data of an answer; a refusal is raised.\<close>

definition answered :: "('h, api_answer) action \<Rightarrow> ('h, json) action" where
  "answered m = act_bind m (\<lambda>answer. case answer of
       ApiResponse data body \<Rightarrow> act_return data
     | ApiError e \<Rightarrow> act_raise (api_raise (ae_message e)))"

text \<open>\<open>except OpenCodeApiError\<close>: the answer, or the text of the error\<close>

definition try_api :: "('h, 'a) action \<Rightarrow> ('h, string + 'a) action" where
  "try_api m =
     act_catch (act_bind m (\<lambda>x. act_return (Inr x))) (\<lambda>e. case e of
         RemoteError t msg \<Rightarrow> if t = ''OpenCodeApiError'' then act_return (Inl msg) else act_raise e
       | _ \<Rightarrow> act_raise e)"

text \<open>A profile that was read from a description of the server answers for every route.\<close>

definition supports :: "'h metadata \<Rightarrow> string \<Rightarrow> ('h, bool) action" where
  "supports m name = act_result (route_available (md_profile m) name)"

definition unsupported_route :: "server_profile \<Rightarrow> string \<Rightarrow> py_error result" where
  "unsupported_route p name =
     (let method_path = (case dict_get (pr_route_availability p) name of
          JObj (kv # d) \<Rightarrow> res_bind (indexed (kv # d) ''method'') (\<lambda>m. res_bind (indexed (kv # d) ''path'') (\<lambda>q. Inr (m, q)))
        | _ \<Rightarrow> Inr (JStr ''UNKNOWN'', if dict_has (pr_route_plan p) name then dict_get (pr_route_plan p) name else JStr name)) in
      res_bind method_path (\<lambda>(m, q).
      Inr (RemoteError ''ProjectMetadataUnsupported'' (''unsupported OpenCode route: '' @ py_str m @ '' '' @ py_str q))))"

definition require_route :: "'h metadata \<Rightarrow> string \<Rightarrow> ('h, unit) action" where
  "require_route m name =
     act_bind (supports m name) (\<lambda>b.
     if b then act_return ()
     else act_bind (act_result (unsupported_route (md_profile m) name)) act_raise)"

definition normalized_text :: "'h host \<Rightarrow> string \<Rightarrow> 'h \<Rightarrow> string" where
  "normalized_text host p h = path_text (resolved host (ho_expanduser host (path_text p) h) h)"

definition normalized_directory :: "'h host \<Rightarrow> json \<Rightarrow> 'h \<Rightarrow> string option" where
  "normalized_directory host v h = (if v = JNull then None else Some (normalized_text host (py_str v) h))"

definition payload_records :: "json \<Rightarrow> string \<Rightarrow> bool \<Rightarrow> json list result" where
  "payload_records payload name allow_strings =
     (case (case payload of JObj d \<Rightarrow> dict_get d name | _ \<Rightarrow> payload) of
        JList rs \<Rightarrow>
          if \<not> allow_strings \<and> \<not> list_all is_dict rs
          then Inl (api_raise (''OpenCode '' @ name @ '' response has invalid records'')) else Inr rs
      | _ \<Rightarrow> Inl (api_raise (''OpenCode '' @ name @ '' response has invalid schema'')))"

definition directory_record :: "json \<Rightarrow> jdict result" where
  "directory_record v =
     (case v of
        JStr s \<Rightarrow> Inr [(''directory'', v)]
      | JObj d \<Rightarrow> if py_truthy (dict_get d ''directory'') then Inr d
                  else Inl (api_raise ''OpenCode directories response has invalid record'')
      | _ \<Rightarrow> Inl (api_raise ''OpenCode directories response has invalid record''))"

text \<open>Records that are mappings\<close>

fun mapping_of :: "json \<Rightarrow> jdict" where
  "mapping_of (JObj d) = d"
| "mapping_of _ = []"

definition project_directories :: "'h host \<Rightarrow> jdict \<Rightarrow> 'h \<Rightarrow> string option list result" where
  "project_directories host project h =
     res_bind (iterated (dict_get project ''sandboxes'')) (\<lambda>sandboxes.
     Inr (map (\<lambda>v. normalized_directory host v h)
       (filter py_truthy ([dict_get project ''worktree'', dict_get project ''directory''] @ sandboxes))))"

definition workspace_project_id :: "jdict \<Rightarrow> string option" where
  "workspace_project_id w =
     (let v = (if dict_get w ''projectID'' \<noteq> JNull then dict_get w ''projectID'' else dict_get w ''project_id'') in
      if v = JNull then None else Some (py_str v))"

fun res_filter :: "('a \<Rightarrow> bool result) \<Rightarrow> 'a list \<Rightarrow> 'a list result" where
  "res_filter P [] = Inr []"
| "res_filter P (x # xs) = res_bind (P x) (\<lambda>b. res_bind (res_filter P xs) (\<lambda>ys. Inr (if b then x # ys else ys)))"

definition list_projects :: "'h metadata \<Rightarrow> json \<Rightarrow> ('h, jdict list) action" where
  "list_projects m directory =
     act_bind (require_route m ''project_collection'') (\<lambda>_.
     act_bind (answered (mc_projects (md_client m))) (\<lambda>data.
     act_bind (act_result (payload_records data ''projects'' False)) (\<lambda>rs.
     let projects = map mapping_of rs in
     if directory = JNull then act_return projects
     else act_bind (act_read (\<lambda>h. res_filter (\<lambda>p. res_bind (project_directories (md_host m) p h) (\<lambda>ds.
            Inr (normalized_directory (md_host m) directory h \<in> set ds))) projects)) act_result)))"

definition inspect_project :: "'h metadata \<Rightarrow> string \<Rightarrow> ('h, jdict) action" where
  "inspect_project m project_id =
     act_bind (list_projects m JNull) (\<lambda>projects.
     case find (\<lambda>p. py_str (dict_get p ''id'') = project_id) projects of
       Some p \<Rightarrow> act_return p
     | None \<Rightarrow> act_raise (RemoteError ''ProjectMetadataNotFound'' (''project '' @ quoted project_id @ '' was not found'')))"

definition list_project_directories :: "'h metadata \<Rightarrow> string \<Rightarrow> json \<Rightarrow> ('h, jdict list) action" where
  "list_project_directories m project_id directory =
     act_bind (require_route m ''project_directories'') (\<lambda>_.
     act_bind (answered (mc_directories (md_client m) project_id)) (\<lambda>data.
     act_bind (act_result (payload_records data ''directories'' True)) (\<lambda>vs.
     act_bind (act_result (res_map directory_record vs)) (\<lambda>rs.
     if directory = JNull then act_return rs
     else act_read (\<lambda>h. filter (\<lambda>r. normalized_directory (md_host m) (dict_get r ''directory'') h =
            normalized_directory (md_host m) directory h) rs)))))"

definition list_workspaces :: "'h metadata \<Rightarrow> string option \<Rightarrow> json \<Rightarrow> ('h, jdict list) action" where
  "list_workspaces m project_id directory =
     act_bind (require_route m ''workspace_collection'') (\<lambda>_.
     act_bind (answered (mc_workspaces (md_client m))) (\<lambda>data.
     act_bind (act_result (payload_records data ''workspaces'' False)) (\<lambda>rs.
     let ws = map mapping_of rs;
         own = (case project_id of None \<Rightarrow> ws | Some i \<Rightarrow> filter (\<lambda>w. workspace_project_id w = Some i) ws) in
     if directory = JNull then act_return own
     else act_read (\<lambda>h. filter (\<lambda>w. normalized_directory (md_host m) (dict_get w ''directory'') h =
            normalized_directory (md_host m) directory h) own))))"

section \<open>Stale directories\<close>

text \<open>\<open>os.path.dirname\<close> and \<open>os.path.basename\<close>\<close>

definition basename :: "string \<Rightarrow> string" where
  "basename p = rev (takeWhile (\<lambda>c. c \<noteq> CHR ''/'') (rev p))"

definition dirname :: "string \<Rightarrow> string" where
  "dirname p = (let head = rev (dropWhile (\<lambda>c. c \<noteq> CHR ''/'') (rev p)) in
     if list_all (\<lambda>c. c = CHR ''/'') head then head else rstrip_char (CHR ''/'') head)"

fun common_prefix :: "string list \<Rightarrow> string list \<Rightarrow> string list" where
  "common_prefix (a # as) (b # bs) = (if a = b then a # common_prefix as bs else [])"
| "common_prefix _ _ = []"

text \<open>\<open>os.path.commonpath\<close> and \<open>os.path.relpath\<close> of absolute paths without dots\<close>

definition commonpath :: "string \<Rightarrow> string \<Rightarrow> string" where
  "commonpath p q = ''/'' @ join_with ''/'' (common_prefix (path_parts p) (path_parts q))"

definition relpath :: "string \<Rightarrow> string \<Rightarrow> string" where
  "relpath p start =
     (let i = length (common_prefix (path_parts start) (path_parts p)) in
      make_path [] (replicate (length (path_parts start) - i) ''..'' @ drop i (path_parts p)))"

definition matches_directory_prefix :: "string \<Rightarrow> string \<Rightarrow> bool" where
  "matches_directory_prefix path prefix =
     (let parent = dirname prefix in
      commonpath path parent = parent \<and> starts_with (before_char (CHR ''/'') (relpath path parent)) (basename prefix))"

definition is_stale :: "'h host \<Rightarrow> string list \<Rightarrow> string \<Rightarrow> string \<Rightarrow> 'h \<Rightarrow> bool" where
  "is_stale host assumed_missing prefix path h \<longleftrightarrow>
     matches_directory_prefix path prefix \<and> (path \<in> set assumed_missing \<or> \<not> ho_exists host path h)"

text \<open>The normalised texts of values, without null\<close>

definition normalized_all :: "'h host \<Rightarrow> json list \<Rightarrow> 'h \<Rightarrow> string list" where
  "normalized_all host vs h = List.map_filter (\<lambda>v. normalized_directory host v h) vs"

definition stale_paths :: "'h host \<Rightarrow> string list \<Rightarrow> string \<Rightarrow> json list \<Rightarrow> 'h \<Rightarrow> string list" where
  "stale_paths host assumed_missing prefix vs h =
     filter (\<lambda>p. is_stale host assumed_missing prefix p h) (normalized_all host vs h)"

definition missing_paths :: "'h host \<Rightarrow> json list \<Rightarrow> 'h \<Rightarrow> string list" where
  "missing_paths host vs h = filter (\<lambda>p. \<not> ho_exists host p h) (normalized_all host vs h)"

definition remember :: "string \<Rightarrow> string list \<Rightarrow> string list" where
  "remember v vs = (if v \<in> set vs then vs else vs @ [v])"

definition remember_if :: "bool \<Rightarrow> string \<Rightarrow> string list \<Rightarrow> string list" where
  "remember_if b v vs = (if b then remember v vs else vs)"

text \<open>\<open>sorted(set(values))\<close>\<close>

definition sorted_set :: "string list \<Rightarrow> string list" where
  "sorted_set vs = sort (remdups vs)"

definition valid_workspace_id :: "json \<Rightarrow> bool" where
  "valid_workspace_id v =
     (case v of
        JStr s \<Rightarrow> s \<noteq> [] \<and> s \<notin> {''.'', ''..''} \<and> list_all (\<lambda>c. \<not> is_space c \<and> c \<notin> {CHR ''/'', CHR 0x5C, CHR ''?'', CHR ''#''}) s
      | _ \<Rightarrow> False)"

section \<open>The outcome of a cleanup\<close>

record workspace_plan =
  wp_id :: string
  wp_directory :: string

record project_outcome =
  oc_status :: string
  oc_mode :: string
  oc_project_id :: string
  oc_directory_prefix :: string
  oc_planned_directories :: "string list"
  oc_planned_project_directories :: "string list"
  oc_planned_project_sandboxes :: "string list"
  oc_unrelated_stale_directories :: "string list"
  oc_planned_workspaces :: "workspace_plan list"
  oc_invalid_workspaces :: "string list"
  oc_refreshed :: bool
  oc_removed_workspaces :: "string list"
  oc_verified_directories :: "string list"
  oc_verified_workspaces :: "string list"
  oc_remaining_sandboxes :: "string list"
  oc_remaining_directories :: "string list"
  oc_remaining_workspaces :: "string list"
  oc_unsupported :: "string list"
  oc_errors :: "jdict list"
  oc_allowed_refresh_directories :: "string list option"

definition workspace_plan_of :: "'h host \<Rightarrow> jdict \<Rightarrow> 'h \<Rightarrow> workspace_plan option" where
  "workspace_plan_of host w h =
     (if \<not> valid_workspace_id (dict_get w ''id'') then None
      else Some \<lparr>wp_id = py_str (dict_get w ''id''),
        wp_directory = (case normalized_directory host (dict_get w ''directory'') h of None \<Rightarrow> [] | Some d \<Rightarrow> d)\<rparr>)"

text \<open>A null among the sandboxes is no path.\<close>

definition sandbox_values :: "jdict \<Rightarrow> json list result" where
  "sandbox_values project =
     res_bind (iterated (dict_get project ''sandboxes'')) (\<lambda>vs.
     if JNull \<in> set vs then Inl (TypeError ''expected str, bytes or os.PathLike object, not NoneType'') else Inr vs)"

text \<open>The workspaces of the plan: none, with the unsupported route, when the server does not list them\<close>

definition planned_workspace_records :: "'h metadata \<Rightarrow> string \<Rightarrow> ('h, jdict list \<times> string list) action" where
  "planned_workspace_records m project_id =
     act_catch (act_bind (list_workspaces m (Some project_id) JNull) (\<lambda>ws. act_return (ws, [])))
       (\<lambda>e. case e of
           RemoteError t msg \<Rightarrow> if t = ''ProjectMetadataUnsupported'' then act_return ([], [''workspace_collection'']) else act_raise e
         | _ \<Rightarrow> act_raise e)"

definition directory_values :: "jdict list \<Rightarrow> json list" where
  "directory_values ds = filter py_truthy (map (\<lambda>r. dict_get r ''directory'') ds)"

definition planned_outcome ::
  "'h host \<Rightarrow> string \<Rightarrow> string \<Rightarrow> string list \<Rightarrow> json list \<Rightarrow> json list \<Rightarrow> jdict list \<Rightarrow> string list \<Rightarrow> bool \<Rightarrow> bool \<Rightarrow>
   'h \<Rightarrow> project_outcome" where
  "planned_outcome host project_id prefix missing sandbox_vs directory_vs ws unsupported can_refresh can_remove h =
     (let sandboxes = stale_paths host missing prefix sandbox_vs h;
          directories = stale_paths host missing prefix directory_vs h;
          unrelated = sorted_set (filter (\<lambda>p. p \<notin> set directories) (missing_paths host directory_vs h));
          matching = filter (\<lambda>w. py_truthy (dict_get w ''directory'') \<and>
            list_ex (\<lambda>p. is_stale host missing prefix p h) (normalized_all host [dict_get w ''directory''] h) \<and>
            workspace_project_id w = Some project_id) ws;
          plans = List.map_filter (\<lambda>w. workspace_plan_of host w h) matching;
          invalid = filter (\<lambda>w. \<not> valid_workspace_id (dict_get w ''id'')) matching
      in \<lparr>oc_status = ''planned'', oc_mode = ''dry-run'', oc_project_id = project_id, oc_directory_prefix = prefix,
          oc_planned_directories = sorted_set (directories @ sandboxes),
          oc_planned_project_directories = sorted_set directories,
          oc_planned_project_sandboxes = sorted_set sandboxes,
          oc_unrelated_stale_directories = unrelated,
          oc_planned_workspaces = plans,
          oc_invalid_workspaces = concat (map (\<lambda>w. normalized_all host [dict_get w ''directory''] h) invalid),
          oc_refreshed = False, oc_removed_workspaces = [], oc_verified_directories = [], oc_verified_workspaces = [],
          oc_remaining_sandboxes = [], oc_remaining_directories = [], oc_remaining_workspaces = [],
          oc_unsupported =
            remember_if (plans \<noteq> [] \<and> \<not> can_remove) ''workspace_item''
            (remember_if (invalid \<noteq> []) ''workspace_identity''
            (remember_if (directories \<noteq> [] \<and> \<not> can_refresh) ''project_copy_refresh''
            (remember_if (directories \<noteq> [] \<and> unrelated \<noteq> []) ''project_copy_refresh_unscoped''
            (remember_if (sandboxes \<noteq> []) ''project_sandbox_remove'' unsupported)))),
          oc_errors = [], oc_allowed_refresh_directories = None\<rparr>)"

definition plan_project_cleanup ::
  "'h metadata \<Rightarrow> string \<Rightarrow> string \<Rightarrow> string list \<Rightarrow> ('h, project_outcome) action" where
  "plan_project_cleanup m project_id directory_prefix assumed_missing_paths =
     act_bind (inspect_project m project_id) (\<lambda>project.
     act_bind (list_project_directories m project_id JNull) (\<lambda>ds.
     act_bind (planned_workspace_records m project_id) (\<lambda>(ws, unsupported).
     act_bind (act_read (normalized_text (md_host m) directory_prefix)) (\<lambda>prefix.
     if dirname prefix = prefix
     then act_raise (RemoteError ''ProjectCopyCleanupError'' ''directory prefix cannot be a filesystem root'')
     else act_bind (act_read (normalized_all (md_host m) (map JStr assumed_missing_paths))) (\<lambda>missing.
     act_bind (act_result (sandbox_values project)) (\<lambda>sandboxes.
     act_bind (supports m ''project_copy_refresh'') (\<lambda>can_refresh.
     act_bind (supports m ''workspace_item'') (\<lambda>can_remove.
     act_read (planned_outcome (md_host m) project_id prefix missing sandboxes
       (directory_values ds) ws unsupported can_refresh can_remove)))))))))"

section \<open>Applying a plan\<close>

definition add_outcome_error :: "jdict \<Rightarrow> project_outcome \<Rightarrow> project_outcome" where
  "add_outcome_error e out = out\<lparr>oc_errors := oc_errors out @ [e]\<rparr>"

definition add_unsupported :: "string \<Rightarrow> project_outcome \<Rightarrow> project_outcome" where
  "add_unsupported name out = out\<lparr>oc_unsupported := remember name (oc_unsupported out)\<rparr>"

definition allowed_refresh :: "project_outcome \<Rightarrow> string list" where
  "allowed_refresh out =
     (case oc_allowed_refresh_directories out of
        Some (p # ps) \<Rightarrow> p # ps
      | _ \<Rightarrow> oc_planned_project_directories out)"

definition refresh_project_copies :: "'h metadata \<Rightarrow> project_outcome \<Rightarrow> ('h, project_outcome) action" where
  "refresh_project_copies m out =
     act_bind (list_project_directories m (oc_project_id out) JNull) (\<lambda>ds.
     act_bind (act_read (missing_paths (md_host m) (directory_values ds))) (\<lambda>missing.
     if \<not> list_ex (\<lambda>p. p \<in> set missing) (oc_planned_project_directories out) then act_return out
     else let unrelated = sorted_set (filter (\<lambda>p. p \<notin> set (allowed_refresh out)) missing);
              out1 = out\<lparr>oc_unrelated_stale_directories := unrelated\<rparr> in
       if unrelated \<noteq> [] then act_return (add_unsupported ''project_copy_refresh_unscoped'' out1)
       else act_bind (supports m ''project_copy_refresh'') (\<lambda>can.
         if \<not> can then act_return (add_unsupported ''project_copy_refresh'' out1)
         else act_bind (try_api (answered (mc_refresh (md_client m) (oc_project_id out)))) (\<lambda>answer.
           act_return (case answer of
               Inr _ \<Rightarrow> out1\<lparr>oc_refreshed := True\<rparr>
             | Inl msg \<Rightarrow> add_outcome_error [(''operation'', JStr ''project_copy_refresh''), (''error'', JStr msg)] out1)))))"

definition workspace_error :: "string \<Rightarrow> string \<Rightarrow> jdict" where
  "workspace_error i msg = [(''operation'', JStr ''workspace_remove''), (''workspace_id'', JStr i), (''error'', JStr msg)]"

text \<open>The last workspace of an id is the one that is read.\<close>

definition current_workspace :: "jdict list \<Rightarrow> string \<Rightarrow> jdict option" where
  "current_workspace ws i =
     map_of (rev (map (\<lambda>w. (py_str (dict_get w ''id''), w)) (filter (\<lambda>w. dict_get w ''id'' \<noteq> JNull) ws))) i"

definition remove_planned_workspace ::
  "'h metadata \<Rightarrow> jdict list \<Rightarrow> workspace_plan \<Rightarrow> project_outcome \<Rightarrow> ('h, project_outcome) action" where
  "remove_planned_workspace m current plan out =
     (case current_workspace current (wp_id plan) of
        None \<Rightarrow> act_return out
      | Some w \<Rightarrow>
          act_bind (act_read (normalized_directory (md_host m) (dict_get w ''directory''))) (\<lambda>directory.
          if workspace_project_id w \<noteq> Some (oc_project_id out) \<or> directory \<noteq> Some (wp_directory plan)
          then act_return (add_outcome_error (workspace_error (wp_id plan) ''workspace identity changed after preflight'') out)
          else act_bind (act_read (ho_exists (md_host m) (wp_directory plan))) (\<lambda>present.
          if present
          then act_return (add_outcome_error (workspace_error (wp_id plan) ''workspace directory is still present'') out)
          else act_bind (try_api (answered (mc_delete_workspace (md_client m) (wp_id plan)))) (\<lambda>answer.
          act_return (case answer of
              Inr _ \<Rightarrow> out\<lparr>oc_removed_workspaces := oc_removed_workspaces out @ [wp_id plan]\<rparr>
            | Inl msg \<Rightarrow> add_outcome_error (workspace_error (wp_id plan) msg) out)))))"

fun remove_planned_workspaces ::
  "'h metadata \<Rightarrow> jdict list \<Rightarrow> workspace_plan list \<Rightarrow> project_outcome \<Rightarrow> ('h, project_outcome) action" where
  "remove_planned_workspaces m current [] out = act_return out"
| "remove_planned_workspaces m current (p # ps) out =
     act_bind (remove_planned_workspace m current p out) (remove_planned_workspaces m current ps)"

definition remove_workspaces :: "'h metadata \<Rightarrow> project_outcome \<Rightarrow> ('h, project_outcome) action" where
  "remove_workspaces m out =
     (if oc_planned_workspaces out = [] then act_return out
      else act_bind (supports m ''workspace_item'') (\<lambda>can.
        if \<not> can then act_return (add_unsupported ''workspace_item'' out)
        else act_bind (list_workspaces m (Some (oc_project_id out)) JNull) (\<lambda>current.
          remove_planned_workspaces m current (oc_planned_workspaces out) out)))"

text \<open>A workspace that is still stale: its id, or the directory of an invalid id\<close>

definition remaining_workspace :: "'h host \<Rightarrow> string \<Rightarrow> jdict \<Rightarrow> 'h \<Rightarrow> (string option \<times> string) option" where
  "remaining_workspace host prefix w h =
     (case normalized_directory host (dict_get w ''directory'') h of
        Some d \<Rightarrow>
          if py_truthy (dict_get w ''directory'') \<and> is_stale host [] prefix d h
          then if valid_workspace_id (dict_get w ''id'')
               then Some (Some (py_str (dict_get w ''id'')), py_str (dict_get w ''id''))
               else Some (None, ''invalid-id:'' @ d)
          else None
      | None \<Rightarrow> None)"

definition remaining_paths :: "'h host \<Rightarrow> project_outcome \<Rightarrow> json list \<Rightarrow> 'h \<Rightarrow> string list" where
  "remaining_paths host out vs h =
     sorted_set (filter (\<lambda>p. p \<in> set (oc_planned_directories out) \<or> is_stale host [] (oc_directory_prefix out) p h)
       (normalized_all host vs h))"

definition verified_outcome ::
  "'h host \<Rightarrow> json list \<Rightarrow> json list \<Rightarrow> jdict list \<Rightarrow> project_outcome \<Rightarrow> 'h \<Rightarrow> project_outcome" where
  "verified_outcome host sandbox_vs directories ws out h =
     (let sandboxes = remaining_paths host out sandbox_vs h;
          remaining = remaining_paths host out directories h;
          left = List.map_filter (\<lambda>w. remaining_workspace host (oc_directory_prefix out) w h) ws;
          out1 = out\<lparr>oc_remaining_sandboxes := sandboxes, oc_remaining_directories := remaining,
            oc_remaining_workspaces := sort (map snd left),
            oc_verified_directories := sorted_set (filter (\<lambda>p. p \<notin> set (sandboxes @ remaining)) (oc_planned_directories out)),
            oc_verified_workspaces := sorted_set (filter (\<lambda>i. Some i \<notin> fst ` set left)
              (map wp_id (oc_planned_workspaces out)))\<rparr>
      in if sandboxes \<noteq> [] then add_unsupported ''project_sandbox_remove'' out1 else out1)"

definition verify_outcome :: "'h metadata \<Rightarrow> project_outcome \<Rightarrow> ('h, project_outcome) action" where
  "verify_outcome m out =
     act_bind (inspect_project m (oc_project_id out)) (\<lambda>project.
     act_bind (act_result (sandbox_values project)) (\<lambda>sandboxes.
     act_bind (list_project_directories m (oc_project_id out) JNull) (\<lambda>ds.
     act_bind (supports m ''workspace_collection'') (\<lambda>can.
     act_bind (if can then list_workspaces m (Some (oc_project_id out)) JNull else act_return []) (\<lambda>ws.
     act_read (verified_outcome (md_host m) sandboxes (directory_values ds) ws out))))))"

definition nothing_remains :: "project_outcome \<Rightarrow> bool" where
  "nothing_remains out \<longleftrightarrow>
     oc_remaining_sandboxes out = [] \<and> oc_remaining_directories out = [] \<and> oc_remaining_workspaces out = []"

definition final_status :: "project_outcome \<Rightarrow> string" where
  "final_status out =
     (if oc_errors out \<noteq> [] then ''failed''
      else if oc_unsupported out \<noteq> [] \<or> \<not> nothing_remains out then ''partial'' else ''done'')"

definition apply_project_plan :: "'h metadata \<Rightarrow> project_outcome \<Rightarrow> ('h, project_outcome) action" where
  "apply_project_plan m plan =
     act_bind (refresh_project_copies m (plan\<lparr>oc_mode := ''apply''\<rparr>)) (\<lambda>out1.
     act_bind (remove_workspaces m out1) (\<lambda>out2.
     act_bind (try_api (verify_outcome m out2)) (\<lambda>answer.
     let out3 = (case answer of
         Inr out \<Rightarrow> out
       | Inl msg \<Rightarrow> add_outcome_error [(''operation'', JStr ''verify''), (''error'', JStr msg)] out2) in
     act_return (out3\<lparr>oc_status := final_status out3\<rparr>))))"

definition cleanup_project_copies ::
  "'h metadata \<Rightarrow> string \<Rightarrow> string \<Rightarrow> bool \<Rightarrow> string list \<Rightarrow> ('h, project_outcome) action" where
  "cleanup_project_copies m project_id directory_prefix apply assumed_missing_paths =
     act_bind (plan_project_cleanup m project_id directory_prefix assumed_missing_paths) (\<lambda>plan.
     if apply then apply_project_plan m plan
     else act_return (plan\<lparr>oc_status := (if oc_unsupported plan \<noteq> [] then ''partial'' else ''planned'')\<rparr>))"

end
