(* ===== verification/Run_Cleanup.thy ===== *)
theory Run_Cleanup
  imports Local_Cleanup Project_Metadata
begin

text \<open>
  \<open>run_cleanup.py\<close>, \<open>run_cleanup_preflight.py\<close>, \<open>run_cleanup_projects.py\<close> and the command
  \<open>commands/run_cleanup.py\<close>: the cleanup of the resources of a run. A plan selects the resources, the
  preflight blocks what is not safe to remove, and the executor removes the rest while the run is fenced, with
  an audit of what it did in the run. The connection to the server and the cleanup of project metadata are
  parameters of the service, as in the source.
\<close>

section \<open>Requests and plans\<close>

record cleanup_request =
  cq_name :: string
  cq_sessions :: bool
  cq_worktrees :: bool
  cq_branches :: bool
  cq_project_metadata :: bool
  cq_logs :: bool
  cq_run_store :: bool
  cq_apply :: bool
  cq_force :: bool
  cq_server_url :: "string option"

record resource_plan =
  rp_run :: string
  rp_server_url :: json
  rp_sessions :: "json list"
  rp_worktrees :: "jdict list"
  rp_branches :: "jdict list"
  rp_projects :: "jdict list"
  rp_logs :: "jdict list"
  rp_run_store :: bool

definition resource_records :: "jdict \<Rightarrow> string \<Rightarrow> jdict list" where
  "resource_records resources k = (case dict_get resources k of JList vs \<Rightarrow> map mapping_of vs | _ \<Rightarrow> [])"

definition when_selected :: "bool \<Rightarrow> 'a list \<Rightarrow> 'a list" where
  "when_selected b xs = (if b then xs else [])"

definition requested_server_url :: "cleanup_request \<Rightarrow> run_record \<Rightarrow> json" where
  "requested_server_url q run =
     (case cq_server_url q of Some (c # cs) \<Rightarrow> JStr (c # cs) | _ \<Rightarrow> dict_get (rn_fields run) ''server_url'')"

definition plan_resources :: "run_record \<Rightarrow> cleanup_request \<Rightarrow> resource_plan result" where
  "plan_resources run q =
     res_bind (normalize_run_resources (dict_get (rn_fields run) ''resources'') True) (\<lambda>resources.
     res_bind (if cq_sessions q then run_owned_session_ids run else Inr []) (\<lambda>sessions.
     Inr \<lparr>rp_run = cq_name q, rp_server_url = requested_server_url q run, rp_sessions = sessions,
          rp_worktrees = when_selected (cq_worktrees q) (resource_records resources ''worktrees''),
          rp_branches = when_selected (cq_branches q)
            (filter (\<lambda>r. py_truthy (dict_get r ''branch'')) (resource_records resources ''worktrees'')),
          rp_projects = when_selected (cq_project_metadata q) (resource_records resources ''project_copies''),
          rp_logs = when_selected (cq_logs q) (resource_records resources ''logs''),
          rp_run_store = cq_run_store q\<rparr>))"

section \<open>Preflight\<close>

text \<open>The verdicts hold the errors of the preflight; the worktrees of blocked branches are blocked as well.\<close>

record preflight =
  pf_active_workers :: "string list"
  pf_verdicts :: verdicts
  pf_projects :: "branch_identity list"

definition active_worker_ids :: "run_record \<Rightarrow> string list result" where
  "active_worker_ids run =
     res_bind (run_record_for_output run) (\<lambda>d.
     Inr (sort (map fst (filter (\<lambda>(i, w). dict_get (mapping_of w) ''status'' = JStr ''active'')
       (mapping_of (dict_get d ''workers''))))))"

definition block_branch_worktrees :: "jdict list \<Rightarrow> verdicts \<Rightarrow> verdicts" where
  "block_branch_worktrees rs v =
     fold block_worktree (filter (\<lambda>r. identity_of r \<in> set (vd_branches v)) rs) v"

definition project_identity :: "jdict \<Rightarrow> branch_identity" where
  "project_identity r = (text_field r ''project_id'', text_field r ''directory_prefix'')"

definition preflight_project :: "'h host \<Rightarrow> jdict \<Rightarrow> verdicts \<times> branch_identity list \<Rightarrow> ('h, verdicts \<times> branch_identity list) action" where
  "preflight_project host r vb =
     act_read (\<lambda>h. case verify_owned_project_copy host r h of
       None \<Rightarrow> vb
     | Some e \<Rightarrow> (add_issue ''project_metadata'' r e (fst vb), List.insert (project_identity r) (snd vb)))"

definition active_issue :: "string list \<Rightarrow> json" where
  "active_issue ids = JObj [(''category'', JStr ''run''),
     (''error'', JStr ''active workers require --force before cleanup can apply''), (''workers'', JList (map JStr ids))]"

definition preflight_cleanup :: "'h host \<Rightarrow> run_record \<Rightarrow> resource_plan \<Rightarrow> bool \<Rightarrow> ('h, preflight) action" where
  "preflight_cleanup host run plan force =
     act_bind (preflight_worktrees host force (rp_worktrees plan) no_verdicts) (\<lambda>v1.
     act_bind (preflight_branches host force (map (\<lambda>r. text_field r ''path'') (rp_worktrees plan)) (rp_branches plan) v1) (\<lambda>v2.
     act_bind (preflight_logs host (rp_logs plan) (block_branch_worktrees (rp_branches plan) v2)) (\<lambda>v3.
     act_bind (act_fold (preflight_project host) (rp_projects plan) (v3, [])) (\<lambda>(v4, projects).
     act_bind (act_result (active_worker_ids run)) (\<lambda>active.
     act_return \<lparr>pf_active_workers = active,
       pf_verdicts = (if active \<noteq> [] \<and> \<not> force then v4\<lparr>vd_errors := vd_errors v4 @ [active_issue active]\<rparr> else v4),
       pf_projects = projects\<rparr>)))))"

definition active_cleanup_is_blocked :: "preflight \<Rightarrow> bool \<Rightarrow> bool" where
  "active_cleanup_is_blocked pf force \<longleftrightarrow> pf_active_workers pf \<noteq> [] \<and> \<not> force"

definition text_list :: "string list \<Rightarrow> json" where
  "text_list ts = JList (map JStr ts)"

definition pairs_json :: "branch_identity list \<Rightarrow> json" where
  "pairs_json ps = JList (map text_list (sort (map (\<lambda>(a, b). [a, b]) ps)))"

definition tips_json :: "(branch_identity \<times> string) list \<Rightarrow> json" where
  "tips_json tips = JList (map (\<lambda>t. JObj [(''git_dir'', JStr (t ! 0)), (''branch'', JStr (t ! 1)), (''tip'', JStr (t ! 2))])
     (sort (map (\<lambda>((g, b), tip). [g, b, tip]) tips)))"

definition public_preflight :: "preflight \<Rightarrow> json" where
  "public_preflight pf =
     JObj [(''active_workers'', text_list (pf_active_workers pf)),
           (''blocked_worktrees'', text_list (sort (vd_worktrees (pf_verdicts pf)))),
           (''blocked_branches'', pairs_json (vd_branches (pf_verdicts pf))),
           (''blocked_logs'', text_list (sort (vd_logs (pf_verdicts pf)))),
           (''blocked_project_metadata'', pairs_json (pf_projects pf)),
           (''branch_tips'', tips_json (vd_tips (pf_verdicts pf)))]"

section \<open>Project metadata\<close>

record project_result =
  pj_verified :: bool
  pj_error :: "string option"
  pj_outcome :: project_outcome

record 'h project_cleaner =
  pc_preview :: "jdict \<Rightarrow> json \<Rightarrow> string list \<Rightarrow> ('h, project_result) action"
  pc_apply :: "jdict \<Rightarrow> json \<Rightarrow> project_outcome \<Rightarrow> ('h, project_result) action"

type_synonym project_plans = "(jdict \<times> project_outcome) list"

definition allowed_directories :: "project_plans \<Rightarrow> string \<Rightarrow> string list" where
  "allowed_directories plans project_id =
     sorted_set (concat (map (\<lambda>(e, out). oc_planned_project_directories out)
       (filter (\<lambda>(e, out). oc_project_id out = project_id) plans)))"

definition freeze_outcome :: "string list \<Rightarrow> project_outcome \<Rightarrow> project_outcome" where
  "freeze_outcome allowed out =
     (let unrelated = filter (\<lambda>p. p \<notin> set allowed) (oc_unrelated_stale_directories out);
          unsupported = (if unrelated = [] then filter (\<lambda>u. u \<noteq> ''project_copy_refresh_unscoped'') (oc_unsupported out)
            else oc_unsupported out) in
      out\<lparr>oc_allowed_refresh_directories := Some allowed, oc_unrelated_stale_directories := unrelated,
          oc_unsupported := unsupported,
          oc_status := (if oc_mode out = ''dry-run'' then if unsupported \<noteq> [] then ''partial'' else ''planned''
            else oc_status out)\<rparr>)"

definition freeze_project_refresh_scope :: "project_plans \<Rightarrow> project_plans" where
  "freeze_project_refresh_scope plans =
     map (\<lambda>(e, out). (e, freeze_outcome (allowed_directories plans (oc_project_id out)) out)) plans"

definition project_plan_error :: "project_outcome \<Rightarrow> string" where
  "project_plan_error out =
     ''project-copy cleanup status='' @ or_else (oc_status out) ''unknown'' @
     (if oc_unsupported out \<noteq> [] then ''; unsupported='' @ join_with '','' (oc_unsupported out) else [])"

text \<open>\<open>except Exception\<close>: any exception becomes its text.\<close>

definition try_any :: "('s, 'a) action \<Rightarrow> ('s, string + 'a) action" where
  "try_any m = act_catch (act_bind m (\<lambda>x. act_return (Inr x))) (\<lambda>e. act_return (Inl (error_text e)))"

definition unsupported_projects :: json where
  "unsupported_projects = JObj [(''category'', JStr ''project_metadata''), (''error'', JStr ''project metadata cleanup is unsupported'')]"

text \<open>The plans that could be made, and the errors of the others\<close>

fun preview_projects ::
  "'h project_cleaner \<Rightarrow> json \<Rightarrow> string list \<Rightarrow> jdict list \<Rightarrow> ('h, project_plans \<times> json list) action" where
  "preview_projects cleaner url missing [] = act_return ([], [])"
| "preview_projects cleaner url missing (e # es) =
     act_bind (try_any (pc_preview cleaner e url missing)) (\<lambda>answer.
     act_bind (preview_projects cleaner url missing es) (\<lambda>(plans, errors).
     act_return (case answer of
         Inl msg \<Rightarrow> (plans, issue ''project_metadata'' e msg # errors)
       | Inr r \<Rightarrow> ((e, pj_outcome r) # plans, errors))))"

definition unplanned_issues :: "project_plans \<Rightarrow> json list" where
  "unplanned_issues plans =
     map (\<lambda>(e, out). issue ''project_metadata'' e (project_plan_error out))
       (filter (\<lambda>(e, out). oc_status out \<notin> {''planned'', ''done''}) plans)"

record project_preview =
  pp_plans :: project_plans
  pp_failed :: bool
  pp_errors :: "json list"

definition preview_project_metadata ::
  "'h project_cleaner option \<Rightarrow> resource_plan \<Rightarrow> string list \<Rightarrow> branch_identity list \<Rightarrow> ('h, project_preview) action" where
  "preview_project_metadata cleaner plan missing blocked =
     (if rp_projects plan = [] then act_return \<lparr>pp_plans = [], pp_failed = False, pp_errors = []\<rparr>
      else case cleaner of
        None \<Rightarrow> act_return \<lparr>pp_plans = [], pp_failed = True, pp_errors = [unsupported_projects]\<rparr>
      | Some c \<Rightarrow>
          act_bind (preview_projects c (rp_server_url plan) missing
            (filter (\<lambda>e. project_identity e \<notin> set blocked) (rp_projects plan))) (\<lambda>(plans, errors).
          let frozen = freeze_project_refresh_scope plans in
          act_return \<lparr>pp_plans = frozen, pp_failed = (blocked \<noteq> [] \<or> errors \<noteq> [] \<or> unplanned_issues frozen \<noteq> []),
            pp_errors = errors @ unplanned_issues frozen\<rparr>))"

section \<open>The record of a cleanup\<close>

record cleanup_report =
  ct_mode :: string
  ct_status :: string
  ct_plan :: resource_plan
  ct_sessions :: "json list"
  ct_projects :: "jdict list"
  ct_removed :: removals
  ct_preflight :: preflight
  ct_preview :: "project_outcome list"
  ct_results :: "project_outcome list"

abbreviation report_errors :: "cleanup_report \<Rightarrow> json list" where
  "report_errors rep \<equiv> rm_errors (ct_removed rep)"

definition dict_list :: "jdict list \<Rightarrow> json" where
  "dict_list ds = JList (map JObj ds)"

definition public_plan :: "resource_plan \<Rightarrow> json" where
  "public_plan plan =
     JObj [(''server_url'', rp_server_url plan), (''sessions'', JList (rp_sessions plan)),
           (''worktrees'', dict_list (rp_worktrees plan)), (''branches'', dict_list (rp_branches plan)),
           (''project_metadata'', dict_list (rp_projects plan)), (''logs'', dict_list (rp_logs plan)),
           (''run_store'', JBool (rp_run_store plan))]"

definition workspace_json :: "workspace_plan \<Rightarrow> json" where
  "workspace_json w = JObj [(''id'', JStr (wp_id w)), (''directory'', JStr (wp_directory w))]"

definition invalid_json :: "string \<Rightarrow> json" where
  "invalid_json d = JObj [(''directory'', JStr d), (''reason'', JStr ''invalid workspace id'')]"

definition outcome_json :: "project_outcome \<Rightarrow> json" where
  "outcome_json out =
     JObj ([(''status'', JStr (oc_status out)), (''mode'', JStr (oc_mode out)), (''project_id'', JStr (oc_project_id out)),
       (''directory_prefix'', JStr (oc_directory_prefix out)), (''planned_directories'', text_list (oc_planned_directories out)),
       (''planned_project_directories'', text_list (oc_planned_project_directories out)),
       (''planned_project_sandboxes'', text_list (oc_planned_project_sandboxes out)),
       (''unrelated_stale_directories'', text_list (oc_unrelated_stale_directories out)),
       (''planned_workspaces'', JList (map workspace_json (oc_planned_workspaces out))),
       (''invalid_workspaces'', JList (map invalid_json (oc_invalid_workspaces out))),
       (''refreshed'', JBool (oc_refreshed out)), (''removed_workspaces'', text_list (oc_removed_workspaces out)),
       (''verified'', JObj [(''directories'', text_list (oc_verified_directories out)),
          (''workspaces'', text_list (oc_verified_workspaces out))]),
       (''remaining'', JObj [(''project_sandboxes'', text_list (oc_remaining_sandboxes out)),
          (''project_directories'', text_list (oc_remaining_directories out)),
          (''workspaces'', text_list (oc_remaining_workspaces out))]),
       (''unsupported'', text_list (oc_unsupported out)), (''errors'', dict_list (oc_errors out))] @
       (case oc_allowed_refresh_directories out of None \<Rightarrow> [] | Some ds \<Rightarrow> [(''allowed_refresh_directories'', text_list ds)]))"

definition completed_json :: "cleanup_report \<Rightarrow> json" where
  "completed_json rep =
     JObj [(''sessions'', JList (ct_sessions rep)), (''worktrees'', dict_list (rm_worktrees (ct_removed rep))),
           (''branches'', dict_list (rm_branches (ct_removed rep))), (''project_metadata'', dict_list (ct_projects rep)),
           (''logs'', dict_list (rm_logs (ct_removed rep)))]"

definition report_json :: "cleanup_report \<Rightarrow> jdict" where
  "report_json rep =
     [(''mode'', JStr (ct_mode rep)), (''run'', JStr (rp_run (ct_plan rep))), (''status'', JStr (ct_status rep)),
      (''planned'', public_plan (ct_plan rep)), (''completed'', completed_json rep), (''run_store_deleted'', JBool False),
      (''preflight'', public_preflight (ct_preflight rep)),
      (''project_metadata_preview'', JList (map outcome_json (ct_preview rep))),
      (''project_metadata_results'', JList (map outcome_json (ct_results rep))), (''errors'', JList (report_errors rep))]"

definition new_report :: "string \<Rightarrow> string \<Rightarrow> resource_plan \<Rightarrow> preflight \<Rightarrow> project_outcome list \<Rightarrow> json list \<Rightarrow> cleanup_report" where
  "new_report mode status plan pf preview errors =
     \<lparr>ct_mode = mode, ct_status = status, ct_plan = plan, ct_sessions = [], ct_projects = [],
      ct_removed = \<lparr>rm_worktrees = [], rm_branches = [], rm_logs = [], rm_errors = errors\<rparr>,
      ct_preflight = pf, ct_preview = preview, ct_results = []\<rparr>"

definition dry_run_report :: "resource_plan \<Rightarrow> preflight \<Rightarrow> project_preview \<Rightarrow> cleanup_report" where
  "dry_run_report plan pf preview =
     (let errors = vd_errors (pf_verdicts pf) @ pp_errors preview in
      new_report ''dry-run'' (if errors \<noteq> [] then ''blocked'' else ''planned'') plan pf (map snd (pp_plans preview)) errors)"

section \<open>Applying a cleanup\<close>

definition add_errors :: "json list \<Rightarrow> cleanup_report \<Rightarrow> cleanup_report" where
  "add_errors es rep = rep\<lparr>ct_removed := (ct_removed rep)\<lparr>rm_errors := report_errors rep @ es\<rparr>\<rparr>"

definition session_issue :: "json \<times> string \<Rightarrow> json" where
  "session_issue f = JObj [(''category'', JStr ''sessions''), (''session_id'', fst f), (''error'', JStr (snd f))]"

text \<open>\<open>connect\<close> makes the client of a server URL and configures its routes.\<close>

definition cleanup_sessions ::
  "(json \<Rightarrow> ('h, 'h cleanup_client) action) \<Rightarrow> resource_plan \<Rightarrow> cleanup_report \<Rightarrow> ('h, cleanup_report) action" where
  "cleanup_sessions connect plan rep =
     (if rp_sessions plan = [] then act_return rep
      else act_bind (try_api (act_bind (connect (rp_server_url plan)) (\<lambda>client.
             cleanup_disposable_sessions client (rp_sessions plan)))) (\<lambda>answer.
           act_return (case answer of
               Inl msg \<Rightarrow> add_errors [JObj [(''category'', JStr ''sessions''), (''error'', JStr msg)]] rep
             | Inr out \<Rightarrow> add_errors (map session_issue (co_errors out))
                 (rep\<lparr>ct_sessions := ct_sessions rep @ co_deleted out\<rparr>))))"

definition project_applied :: "jdict \<Rightarrow> string + project_result \<Rightarrow> cleanup_report \<Rightarrow> cleanup_report" where
  "project_applied e answer rep =
     (case answer of
        Inl msg \<Rightarrow> add_errors [issue ''project_metadata'' e msg] rep
      | Inr r \<Rightarrow>
          let rep1 = rep\<lparr>ct_results := ct_results rep @ [pj_outcome r]\<rparr> in
          if pj_verified r then rep1\<lparr>ct_projects := ct_projects rep1 @ [e]\<rparr>
          else add_errors [issue ''project_metadata'' e (case pj_error r of Some (c # cs) \<Rightarrow> c # cs | _ \<Rightarrow> ''verification failed'')] rep1)"

fun apply_projects ::
  "'h project_cleaner \<Rightarrow> json \<Rightarrow> project_plans \<Rightarrow> cleanup_report \<Rightarrow> ('h, cleanup_report) action" where
  "apply_projects cleaner url [] rep = act_return rep"
| "apply_projects cleaner url ((e, out) # plans) rep =
     act_bind (try_any (pc_apply cleaner e url out)) (\<lambda>answer. apply_projects cleaner url plans (project_applied e answer rep))"

definition cleanup_project_metadata ::
  "'h project_cleaner option \<Rightarrow> resource_plan \<Rightarrow> project_plans \<Rightarrow> cleanup_report \<Rightarrow> ('h, cleanup_report) action" where
  "cleanup_project_metadata cleaner plan plans rep =
     (if rp_projects plan = [] then act_return rep
      else case cleaner of
        None \<Rightarrow> act_return (add_errors [unsupported_projects] rep)
      | Some c \<Rightarrow> apply_projects c (rp_server_url plan) plans rep)"

definition on_removals :: "(removals \<Rightarrow> ('h, removals) action) \<Rightarrow> cleanup_report \<Rightarrow> ('h, cleanup_report) action" where
  "on_removals f rep = act_bind (f (ct_removed rep)) (\<lambda>res. act_return (rep\<lparr>ct_removed := res\<rparr>))"

definition something_completed :: "cleanup_report \<Rightarrow> bool" where
  "something_completed rep \<longleftrightarrow>
     ct_sessions rep \<noteq> [] \<or> rm_worktrees (ct_removed rep) \<noteq> [] \<or> rm_branches (ct_removed rep) \<noteq> [] \<or>
     ct_projects rep \<noteq> [] \<or> rm_logs (ct_removed rep) \<noteq> []"

definition with_final_status :: "cleanup_report \<Rightarrow> cleanup_report" where
  "with_final_status rep =
     (if report_errors rep = [] then rep
      else rep\<lparr>ct_status := (if something_completed rep then ''partial'' else ''failed'')\<rparr>)"

record cleanup_service =
  cs_float :: "string \<Rightarrow> pyfloat option"
  cs_cwd :: string

text \<open>The removals between the two audits; everything happens on the host.\<close>

definition remove_resources ::
  "'h host \<Rightarrow> (json \<Rightarrow> ('h, 'h cleanup_client) action) \<Rightarrow> 'h project_cleaner option \<Rightarrow> resource_plan \<Rightarrow> preflight \<Rightarrow>
   project_plans \<Rightarrow> bool \<Rightarrow> cleanup_report \<Rightarrow> ('h, cleanup_report) action" where
  "remove_resources host connect cleaner plan pf plans force rep =
     (let v = pf_verdicts pf in
      act_bind (cleanup_sessions connect plan rep) (\<lambda>rep1.
      act_bind (on_removals (remove_worktrees host force (rp_branches plan) v (rp_worktrees plan)) rep1) (\<lambda>rep2.
      act_bind (cleanup_project_metadata cleaner plan plans rep2) (\<lambda>rep3.
      act_bind (on_removals (remove_branches host v (rp_branches plan)) rep3) (\<lambda>rep4.
      act_bind (on_removals (remove_logs host v (rp_logs plan)) rep4) (\<lambda>rep5.
      act_return (with_final_status rep5)))))))"

record run_cleanup_result =
  rr_record :: jdict
  rr_exit_code :: int

definition no_errors :: "jdict \<Rightarrow> bool" where
  "no_errors record \<longleftrightarrow> \<not> py_truthy (dict_get record ''errors'')"

definition result_of :: "jdict \<Rightarrow> run_cleanup_result" where
  "result_of record = \<lparr>rr_record = record, rr_exit_code = (if no_errors record then 0 else 1)\<rparr>"

text \<open>The audit in the run, and the deletion of the run when it is requested and nothing failed\<close>

definition finish_cleanup ::
  "cleanup_service \<Rightarrow> string \<Rightarrow> bool \<Rightarrow> run_record \<Rightarrow> jdict \<Rightarrow> ('h world, run_cleanup_result) action" where
  "finish_cleanup sv name delete baseline record =
     act_bind (on_store (\<lambda>s. res_bind (finish_cleanup_audit (cs_float sv) (cs_cwd sv) name baseline record s)
       (\<lambda>(run, s', record'). Inr ((run, record'), s')))) (\<lambda>(audited, record1).
     if delete \<and> no_errors record1
     then act_bind (on_store (\<lambda>s. res_bind (delete_audited_run (cs_float sv) (cs_cwd sv) name audited record1 s)
            (\<lambda>(gone, s', record'). Inr (record', s')))) (\<lambda>record2. act_return (result_of record2))
     else act_return (result_of record1))"

definition execute_cleanup ::
  "cleanup_service \<Rightarrow> 'h host \<Rightarrow> (json \<Rightarrow> ('h, 'h cleanup_client) action) \<Rightarrow> 'h project_cleaner option \<Rightarrow> run_record \<Rightarrow>
   resource_plan \<Rightarrow> preflight \<Rightarrow> project_plans \<Rightarrow> cleanup_request \<Rightarrow> ('h world, run_cleanup_result) action" where
  "execute_cleanup sv host connect cleaner run plan pf plans q =
     (let rep = new_report ''apply'' ''done'' plan pf (map snd plans) (vd_errors (pf_verdicts pf)) in
      act_bind (on_store (begin_cleanup_audit (cs_float sv) (cs_cwd sv) (cq_name q) run (report_json rep))) (\<lambda>baseline.
      act_bind (on_host (remove_resources host connect cleaner plan pf plans (cq_force q) rep)) (\<lambda>rep'.
      finish_cleanup sv (cq_name q) (rp_run_store plan) baseline (report_json rep'))))"

definition interrupted_cleanup_error :: "string \<Rightarrow> py_error" where
  "interrupted_cleanup_error name = store_error (''run '' @ quoted name @
     '' has an interrupted cleanup; inspect it and pass --force to resume'') ''conflict''"

definition assumed_missing :: "resource_plan \<Rightarrow> preflight \<Rightarrow> string list" where
  "assumed_missing plan pf =
     filter (\<lambda>p. p \<notin> set (vd_worktrees (pf_verdicts pf))) (map (\<lambda>r. text_field r ''path'') (rp_worktrees plan))"

definition planned_cleanup ::
  "cleanup_service \<Rightarrow> 'h host \<Rightarrow> (json \<Rightarrow> ('h, 'h cleanup_client) action) \<Rightarrow> 'h project_cleaner option \<Rightarrow> run_record \<Rightarrow>
   resource_plan \<Rightarrow> cleanup_request \<Rightarrow> ('h world, run_cleanup_result) action" where
  "planned_cleanup sv host connect cleaner run plan q =
     act_bind (on_host (preflight_cleanup host run plan (cq_force q))) (\<lambda>pf.
     act_bind (on_host (preview_project_metadata cleaner plan (assumed_missing plan pf) (pf_projects pf))) (\<lambda>preview.
     let rep = dry_run_report plan pf preview in
     if \<not> cq_apply q then act_return (result_of (report_json rep))
     else if active_cleanup_is_blocked pf (cq_force q) \<or> pp_failed preview
     then act_return \<lparr>rr_record = report_json (rep\<lparr>ct_mode := ''apply''\<rparr>), rr_exit_code = 1\<rparr>
     else execute_cleanup sv host connect cleaner run plan pf (pp_plans preview) q))"

definition unlocked_cleanup ::
  "cleanup_service \<Rightarrow> 'h host \<Rightarrow> (json \<Rightarrow> ('h, 'h cleanup_client) action) \<Rightarrow> 'h project_cleaner option \<Rightarrow> cleanup_request \<Rightarrow>
   ('h world, run_cleanup_result) action" where
  "unlocked_cleanup sv host connect cleaner q =
     act_bind (\<lambda>(s, h). (load_run (cs_float sv) (cs_cwd sv) (cq_name q) s, (s, h))) (\<lambda>run.
     if cq_apply q \<and> cleanup_in_progress run \<and> \<not> cq_force q then act_raise (interrupted_cleanup_error (cq_name q))
     else act_bind (act_result (plan_resources run q)) (\<lambda>plan. planned_cleanup sv host connect cleaner run plan q))"

definition lease_error :: "string \<Rightarrow> py_error" where
  "lease_error name = store_error (''run '' @ quoted name @ '' already has a cleanup process'') ''conflict''"

definition run_cleanup ::
  "cleanup_service \<Rightarrow> 'h host \<Rightarrow> (json \<Rightarrow> ('h, 'h cleanup_client) action) \<Rightarrow> 'h project_cleaner option \<Rightarrow> cleanup_request \<Rightarrow>
   ('h world, run_cleanup_result) action" where
  "run_cleanup sv host connect cleaner q =
     (if cq_apply q
      then act_bind (act_result (run_path (cq_name q))) (\<lambda>_.
           act_bind (on_host (act_read (ho_lease_free host (cq_name q)))) (\<lambda>free.
           if \<not> free then act_raise (lease_error (cq_name q))
           else unlocked_cleanup sv host connect cleaner q))
      else unlocked_cleanup sv host connect cleaner q)"

section \<open>The command\<close>

text \<open>The project cleaner of the command; \<open>metadata_of\<close> is the metadata service of a server URL.\<close>

definition outcome_remaining :: "project_outcome \<Rightarrow> string list" where
  "outcome_remaining out =
     map fst (filter snd [(''project_sandboxes'', oc_remaining_sandboxes out \<noteq> []),
       (''project_directories'', oc_remaining_directories out \<noteq> []), (''workspaces'', oc_remaining_workspaces out \<noteq> [])])"

definition project_cleanup_error :: "project_outcome \<Rightarrow> string option" where
  "project_cleanup_error out =
     (if oc_status out = ''done'' then None
      else Some (join_with ''; '' ([''project-copy cleanup status='' @ or_else (oc_status out) ''unknown''] @
        (if oc_unsupported out \<noteq> [] then [''unsupported='' @ join_with '','' (oc_unsupported out)] else []) @
        (if outcome_remaining out \<noteq> [] then [''remaining='' @ join_with '','' (outcome_remaining out)] else []) @
        (if oc_errors out \<noteq> [] then [''errors='' @ nat_text (length (oc_errors out))] else []))))"

definition project_result_of :: "project_outcome \<Rightarrow> project_result" where
  "project_result_of out = \<lparr>pj_verified = (oc_status out = ''done''), pj_error = project_cleanup_error out, pj_outcome = out\<rparr>"

definition command_project_cleaner :: "(json \<Rightarrow> ('h, 'h metadata) action) \<Rightarrow> 'h project_cleaner" where
  "command_project_cleaner metadata_of =
     \<lparr>pc_preview = (\<lambda>e url missing. act_bind (metadata_of url) (\<lambda>m.
        act_bind (cleanup_project_copies m (text_field e ''project_id'') (text_field e ''resolved_directory_prefix'') False missing)
          (\<lambda>out. act_return (project_result_of out)))),
      pc_apply = (\<lambda>e url out. act_bind (metadata_of url) (\<lambda>m.
        act_bind (apply_project_plan m out) (\<lambda>out'. act_return (project_result_of out'))))\<rparr>"

definition format_run_cleanup_compact :: "cleanup_report \<Rightarrow> string" where
  "format_run_cleanup_compact rep =
     (let plan = ct_plan rep in
      ''run='' @ rp_run plan @ '' cleanup='' @ ct_mode rep @ '' status='' @ ct_status rep @
      '' sessions='' @ nat_text (length (rp_sessions plan)) @ '' worktrees='' @ nat_text (length (rp_worktrees plan)) @
      '' branches='' @ nat_text (length (rp_branches plan)) @ '' projects='' @ nat_text (length (rp_projects plan)) @
      '' logs='' @ nat_text (length (rp_logs plan)) @ '' run_store='' @ (if rp_run_store plan then ''true'' else ''false'') @
      '' errors='' @ nat_text (length (report_errors rep)))"

end
