(* ===== verification/Cleanup_Safety.thy ===== *)
theory Cleanup_Safety
  imports Run_Cleanup
begin

text \<open>
  What a cleanup may do to the host: it asks git questions, and it removes a worktree, a branch or a log of the
  plan that is not blocked, in the state in which its ownership was verified. The steps are a relation on the
  states of the host; an action of the cleanup moves the host along them, also when it raises.
\<close>

section \<open>Actions that move along a relation\<close>

definition moves :: "('s \<Rightarrow> 's \<Rightarrow> bool) \<Rightarrow> ('s, 'a) action \<Rightarrow> bool" where
  "moves R m \<longleftrightarrow> (\<forall>s r s'. m s = (r, s') \<longrightarrow> R\<^sup>*\<^sup>* s s')"

named_theorems moves_intros \<open>actions that move along a relation\<close>

lemma movesI: "(\<And>s r s'. m s = (r, s') \<Longrightarrow> R\<^sup>*\<^sup>* s s') \<Longrightarrow> moves R m"
  by (simp add: moves_def)

lemma movesD: "moves R m \<Longrightarrow> m s = (r, s') \<Longrightarrow> R\<^sup>*\<^sup>* s s'"
  by (simp add: moves_def)

lemma moves_return [moves_intros]: "moves R (act_return x)"
  by (simp add: moves_def)

lemma moves_raise [moves_intros]: "moves R (act_raise e)"
  by (simp add: moves_def)

lemma moves_read [moves_intros]: "moves R (act_read f)"
  by (simp add: moves_def)

lemma moves_result [moves_intros]: "moves R (act_result r)"
  by (simp add: moves_def)

lemma moves_bind [moves_intros]: "moves R m \<Longrightarrow> (\<And>x. moves R (f x)) \<Longrightarrow> moves R (act_bind m f)"
  by (rule movesI, elim act_bindE) (auto dest: movesD intro: rtranclp_trans)

lemma moves_catch [moves_intros]: "moves R m \<Longrightarrow> (\<And>e. moves R (h e)) \<Longrightarrow> moves R (act_catch m h)"
  by (rule movesI, elim act_catchE) (auto dest: movesD intro: rtranclp_trans)

lemma moves_fold [moves_intros]: "(\<And>x b. x \<in> set xs \<Longrightarrow> moves R (f x b)) \<Longrightarrow> moves R (act_fold f xs b)"
proof (induction xs arbitrary: b)
  case (Cons x xs)
  then show ?case by (simp, intro moves_bind) auto
qed (simp add: moves_return)

lemma moves_if [moves_intros]: "(c \<Longrightarrow> moves R m) \<Longrightarrow> (\<not> c \<Longrightarrow> moves R n) \<Longrightarrow> moves R (if c then m else n)"
  by simp

lemma moves_case_option [moves_intros]:
  "(v = None \<Longrightarrow> moves R m) \<Longrightarrow> (\<And>x. v = Some x \<Longrightarrow> moves R (f x)) \<Longrightarrow> moves R (case v of None \<Rightarrow> m | Some x \<Rightarrow> f x)"
  by (cases v) simp_all

lemma moves_case_sum [moves_intros]:
  "(\<And>x. v = Inl x \<Longrightarrow> moves R (f x)) \<Longrightarrow> (\<And>y. v = Inr y \<Longrightarrow> moves R (g y)) \<Longrightarrow> moves R (case v of Inl x \<Rightarrow> f x | Inr y \<Rightarrow> g y)"
  by (cases v) simp_all

lemma moves_case_prod [moves_intros]:
  "(\<And>x y. v = (x, y) \<Longrightarrow> moves R (f x y)) \<Longrightarrow> moves R (case v of (x, y) \<Rightarrow> f x y)"
  by (cases v) simp

lemma moves_error [moves_intros]:
  "(\<And>msg kind. moves R (f msg)) \<Longrightarrow> moves R (case e of RunStoreError msg kind \<Rightarrow> f msg | _ \<Rightarrow> act_raise e)"
  "(\<And>m. moves R (g m)) \<Longrightarrow> moves R (case e of OSError m \<Rightarrow> g m | _ \<Rightarrow> act_raise e)"
  by (cases e; simp add: moves_raise)+

lemma moves_mono: "moves R m \<Longrightarrow> (\<And>s s'. R s s' \<Longrightarrow> Q s s') \<Longrightarrow> moves Q m"
  unfolding moves_def by (metis (no_types, lifting) mono_rtranclp)

section \<open>Questions\<close>

definition WORKTREE_QUESTIONS :: "string list list" where
  "WORKTREE_QUESTIONS =
     [[''rev-parse'', ''--show-toplevel''], [''rev-parse'', ''--path-format=absolute'', ''--git-common-dir''],
      [''rev-parse'', ''--path-format=absolute'', ''--absolute-git-dir''], [''symbolic-ref'', ''--quiet'', ''--short'', ''HEAD''],
      [''status'', ''--porcelain'']]"

text \<open>The commands of git that read a worktree, the registered worktrees, a branch tip, the merged branches or a name\<close>

inductive git_question :: "string list \<Rightarrow> bool" where
  in_worktree: "args \<in> set WORKTREE_QUESTIONS \<Longrightarrow> git_question ([''-C'', path] @ args)"
| registered: "git_question (git_of r [''worktree'', ''list'', ''--porcelain''])"
| tip: "git_question (git_of r [''rev-parse'', ''--verify'', branch_ref b])"
| merged: "git_question (git_of r [''branch'', ''--merged'', ''HEAD'', ''--format=%(refname:short)''])"
| branch_name: "git_question [''check-ref-format'', branch_ref b]"

inductive asks :: "'h host \<Rightarrow> 'h \<Rightarrow> 'h \<Rightarrow> bool" for host where
  "git_question args \<Longrightarrow> ho_git host args h = (r, h') \<Longrightarrow> asks host h h'"

lemma asking: "git_question args \<Longrightarrow> moves (asks host) (ho_git host args)"
  by (rule movesI) (auto intro: asks.intros)

lemma git_completed_asks: "git_question args \<Longrightarrow> moves (asks host) (git_completed host args)"
  unfolding git_completed_def by (intro moves_intros asking)

lemma git_text_asks [moves_intros]: "git_question args \<Longrightarrow> moves (asks host) (git_text host args)"
  unfolding git_text_def by (intro moves_intros git_completed_asks)

lemma try_store_moves [moves_intros]: "moves R m \<Longrightarrow> moves R (try_store m)"
  unfolding try_store_def by (intro moves_intros)

lemma git_output_asks: "args \<in> set WORKTREE_QUESTIONS \<Longrightarrow> moves (asks host) (git_output host path args b)"
  unfolding git_output_def by (intro moves_intros asking in_worktree)

lemma worktree_questions: "args \<in> set WORKTREE_QUESTIONS \<Longrightarrow> git_question (''-C'' # path # args)"
  using in_worktree [of args path] by simp

lemma verify_worktree_asks [moves_intros]: "moves (asks host) (verify_owned_worktree host r)"
  unfolding verify_owned_worktree_def Let_def
  by (intro moves_intros git_output_asks) (simp_all add: WORKTREE_QUESTIONS_def)

lemma dirty_worktree_asks [moves_intros]: "moves (asks host) (dirty_worktree host r)"
  unfolding dirty_worktree_def by (intro moves_intros worktree_questions) (simp add: WORKTREE_QUESTIONS_def)

lemma registered_asks [moves_intros]: "moves (asks host) (worktree_is_registered host r)"
  unfolding worktree_is_registered_def by (intro moves_intros registered)

lemma tip_asks [moves_intros]: "moves (asks host) (named_branch_tip host r)"
  unfolding named_branch_tip_def branch_tip_def by (intro moves_intros git_completed_asks tip)

lemma merged_asks [moves_intros]: "moves (asks host) (merged_branches host r)"
  unfolding merged_branches_def by (intro moves_intros merged)

text \<open>The preflight only asks.\<close>

lemma preflight_worktrees_ask [moves_intros]: "moves (asks host) (preflight_worktrees host force rs v)"
  unfolding preflight_worktrees_def preflight_worktree_def preflight_present_worktree_def preflight_missing_worktree_def
  by (intro moves_intros)

lemma preflight_branches_ask [moves_intros]: "moves (asks host) (preflight_branches host force selected rs v)"
  unfolding preflight_branches_def preflight_branch_def preflight_existing_branch_def preflight_merged_def
  by (intro moves_intros)

lemma preflight_logs_ask [moves_intros]: "moves (asks host) (preflight_logs host rs v)"
  unfolding preflight_logs_def preflight_log_def by (intro moves_intros)

lemma preflight_asks [moves_intros]: "moves (asks host) (preflight_cleanup host run plan force)"
  unfolding preflight_cleanup_def preflight_project_def by (intro moves_intros)

section \<open>Removals\<close>

text \<open>
  The steps of the removals of a plan: \<open>W\<close>, \<open>B\<close> and \<open>L\<close> are the worktrees, branches and logs that may be removed,
  \<open>tips\<close> the tips that the preflight verified.
\<close>

inductive removal_step ::
  "'h host \<Rightarrow> jdict set \<Rightarrow> jdict set \<Rightarrow> jdict set \<Rightarrow> (branch_identity \<times> string) list \<Rightarrow> 'h \<Rightarrow> 'h \<Rightarrow> bool"
  for host W B L tips where
  question: "asks host h h' \<Longrightarrow> removal_step host W B L tips h h'"
| worktree: "r \<in> W \<Longrightarrow> verify_owned_worktree host r h = (Inr None, h1) \<Longrightarrow>
    ho_git host (worktree_remove force r) h1 = (x, h') \<Longrightarrow> removal_step host W B L tips h h'"
| branch: "b \<in> B \<Longrightarrow> verify_owned_branch host b h = None \<Longrightarrow> map_of tips (identity_of b) = Some tip \<Longrightarrow>
    ho_git host (git_of b [''update-ref'', ''-d'', branch_ref b, tip]) h = (x, h') \<Longrightarrow> removal_step host W B L tips h h'"
| prepare: "b \<in> B \<Longrightarrow> map_of tips (identity_of b) = Some tip \<Longrightarrow>
    prepare_deletion host (text_field b ''git_dir'') (text_field b ''branch'') tip h = (x, h') \<Longrightarrow> removal_step host W B L tips h h'"
| transaction_commit: "commit_deletion host process h = (x, h') \<Longrightarrow> removal_step host W B L tips h h'"
| transaction_abort: "abort_deletion host process h = (x, h') \<Longrightarrow> removal_step host W B L tips h h'"
| log: "l \<in> L \<Longrightarrow> verify_owned_log host l h = None \<Longrightarrow> ho_unlink host (record_path l) h = (x, h') \<Longrightarrow>
    removal_step host W B L tips h h'"

lemma asks_removal: "moves (asks host) m \<Longrightarrow> moves (removal_step host W B L tips) m"
  by (erule moves_mono) (rule removal_step.question)

lemma one_step: "(\<And>s r s'. m s = (r, s') \<Longrightarrow> R s s') \<Longrightarrow> moves R m"
  by (rule movesI) blast

lemma abort_moves [moves_intros]: "moves (removal_step host W B L tips) (abort_deletion host p)"
  by (rule one_step) (rule removal_step.transaction_abort)

lemma commit_moves [moves_intros]: "moves (removal_step host W B L tips) (commit_prepared host p b res)"
  unfolding commit_prepared_def by (intro moves_intros one_step) (rule removal_step.transaction_commit)

lemma abort_prepared_moves [moves_intros]: "moves (removal_step host W B L tips) (abort_prepared host p)"
  unfolding abort_prepared_def by (intro moves_intros)

text \<open>A removal of a worktree continues in the state of its verification.\<close>

lemma run_git_state: "run_git host args h = (x, h') \<Longrightarrow> \<exists>y. ho_git host args h = (y, h')"
  by (auto simp: run_git_def git_completed_def act_bind_def act_catch_def split: prod.splits sum.splits py_error.splits)

lemma verified_removal:
  assumes r: "r \<in> W" and k: "\<And>e. moves (removal_step host W B L tips) (k e)"
    and other: "\<And>msg. moves (removal_step host W B L tips) (f msg)"
  shows "moves (removal_step host W B L tips) (act_bind (verify_owned_worktree host r) (\<lambda>e. case e of
      None \<Rightarrow> act_bind (run_git host (worktree_remove force r)) k | Some msg \<Rightarrow> f msg))"
proof (rule movesI)
  let ?R = "removal_step host W B L tips"
  fix h x h'
  assume run: "act_bind (verify_owned_worktree host r) (\<lambda>e. case e of
      None \<Rightarrow> act_bind (run_git host (worktree_remove force r)) k | Some msg \<Rightarrow> f msg) h = (x, h')"
  note asked = asks_removal [OF verify_worktree_asks, THEN movesD]
  from run show "?R\<^sup>*\<^sup>* h h'"
  proof (cases rule: act_bindE)
    case (1 e)
    show ?thesis by (rule asked [OF 1(1)])
  next
    case (2 e h1)
    show ?thesis
    proof (cases e)
      case (Some msg)
      then have "?R\<^sup>*\<^sup>* h1 h'" using 2 movesD [OF other] by auto
      with asked [OF 2(1)] show ?thesis by (rule rtranclp_trans)
    next
      case None
      have go: "act_bind (run_git host (worktree_remove force r)) k h1 = (x, h')" using 2(2) None by simp
      have step: "?R h h2" if ran: "run_git host (worktree_remove force r) h1 = (y, h2)" for y h2
    proof -
      obtain z where "ho_git host (worktree_remove force r) h1 = (z, h2)" by (elim run_git_state [OF ran, THEN exE])
      then show ?thesis by (rule removal_step.worktree [OF r 2(1) [unfolded None]])
    qed
      from go show ?thesis
        by (cases rule: act_bindE) (auto dest: step movesD [OF k] intro: converse_rtranclp_into_rtranclp)
    qed
  qed
qed

lemma remove_with_branch_moves:
  "r \<in> W \<Longrightarrow> moves (removal_step host W B L tips) (remove_with_branch host force r b p res)"
  unfolding remove_with_branch_def remove_verified_worktree_def
  by (rule verified_removal) (auto intro!: moves_intros)

lemma remove_present_moves:
  assumes r: "r \<in> W" and b: "\<And>b. branch = Some b \<Longrightarrow> b \<in> B"
  shows "moves (removal_step host W B L tips) (remove_present_worktree host force tips branch r res)"
proof (cases branch)
  case None
  show ?thesis
    unfolding remove_present_worktree_def remove_verified_worktree_def None option.case
    by (rule verified_removal [OF r]) (intro moves_intros)+
next
  case (Some b)
  have "moves (removal_step host W B L tips)
      (prepare_deletion host (text_field b ''git_dir'') (text_field b ''branch'') tip)" if "map_of tips (identity_of b) = Some tip" for tip
    by (rule one_step) (rule removal_step.prepare [OF assms(2) [OF Some] that])
  then show ?thesis
    unfolding remove_present_worktree_def Some option.case
    by (intro moves_intros asks_removal [OF verify_worktree_asks] remove_with_branch_moves [OF r])
qed

definition unblocked_worktrees :: "verdicts \<Rightarrow> jdict list \<Rightarrow> jdict set" where
  "unblocked_worktrees v rs = {r \<in> set rs. text_field r ''path'' \<notin> set (vd_worktrees v)}"

definition unblocked_branches :: "verdicts \<Rightarrow> jdict list \<Rightarrow> jdict set" where
  "unblocked_branches v rs = {r \<in> set rs. identity_of r \<notin> set (vd_branches v)}"

definition unblocked_logs :: "verdicts \<Rightarrow> jdict list \<Rightarrow> jdict set" where
  "unblocked_logs v rs = {r \<in> set rs. text_field r ''path'' \<notin> set (vd_logs v)}"

abbreviation plan_step :: "'h host \<Rightarrow> resource_plan \<Rightarrow> verdicts \<Rightarrow> 'h \<Rightarrow> 'h \<Rightarrow> bool" where
  "plan_step host plan v \<equiv> removal_step host (unblocked_worktrees v (rp_worktrees plan))
     (unblocked_branches v (rp_branches plan)) (unblocked_logs v (rp_logs plan)) (vd_tips v)"

lemma branch_of_path_unblocked:
  "branch_of_path branches (vd_branches v) tips p = Some b \<Longrightarrow> b \<in> unblocked_branches v branches"
  by (auto simp: branch_of_path_def unblocked_branches_def dest!: map_of_SomeD)

lemma remove_worktrees_moves:
  "moves (plan_step host plan v) (remove_worktrees host force (rp_branches plan) v (rp_worktrees plan) res)"
  unfolding remove_worktrees_def
proof (rule moves_fold)
  fix r res assume r: "r \<in> set (rp_worktrees plan)"
  show "moves (plan_step host plan v) (remove_worktree host force (rp_branches plan) v r res)"
    unfolding remove_worktree_def Let_def remove_missing_worktree_def
    by (intro moves_intros remove_present_moves asks_removal [OF registered_asks])
      (use r in \<open>auto simp: unblocked_worktrees_def dest: branch_of_path_unblocked\<close>)
qed

lemma remove_branches_moves: "moves (plan_step host plan v) (remove_branches host v (rp_branches plan) res)"
  unfolding remove_branches_def
proof (rule moves_fold)
  fix r res assume r: "r \<in> set (rp_branches plan)"
  have delete: "moves (plan_step host plan v) (delete_branch host v r tip res)" if un: "identity_of r \<notin> set (vd_branches v)" for tip
  proof (rule movesI)
    fix h x h' assume run: "delete_branch host v r tip res h = (x, h')"
    have b: "r \<in> unblocked_branches v (rp_branches plan)" using r un by (simp add: unblocked_branches_def)
    show "(plan_step host plan v)\<^sup>*\<^sup>* h h'"
    proof (cases "verify_owned_branch host r h = None \<and> map_of (vd_tips v) (identity_of r) = Some tip")
      case True
      then obtain y where "run_git host (git_of r [''update-ref'', ''-d'', branch_ref r, tip]) h = (y, h')"
        using run by (auto simp: delete_branch_def act_bind_def split: prod.splits sum.splits)
      then obtain z where "ho_git host (git_of r [''update-ref'', ''-d'', branch_ref r, tip]) h = (z, h')"
        by (elim run_git_state [THEN exE])
      then show ?thesis using True by (intro r_into_rtranclp removal_step.branch [OF b]) auto
    next
      case False
      then have "h' = h" using run by (auto simp: delete_branch_def act_bind_def split: option.splits if_splits)
      then show ?thesis by simp
    qed
  qed
  show "moves (plan_step host plan v) (remove_branch host v r res)"
    unfolding remove_branch_def by (intro moves_intros asks_removal [OF tip_asks] delete)
qed

lemma remove_logs_moves: "moves (plan_step host plan v) (remove_logs host v (rp_logs plan) res)"
  unfolding remove_logs_def
proof (rule moves_fold)
  fix r res assume r: "r \<in> set (rp_logs plan)"
  show "moves (plan_step host plan v) (remove_log host v r res)"
  proof (rule movesI)
    fix h x h' assume run: "remove_log host v r res h = (x, h')"
    show "(plan_step host plan v)\<^sup>*\<^sup>* h h'"
    proof (cases "text_field r ''path'' \<notin> set (vd_logs v) \<and> verify_owned_log host r h = None \<and>
        (ho_exists host (record_path r) h \<or> ho_is_symlink host (record_path r) h)")
      case True
      then have l: "r \<in> unblocked_logs v (rp_logs plan)" using r by (simp add: unblocked_logs_def)
      obtain e where "ho_unlink host (record_path r) h = (e, h')"
        using run True by (auto simp: remove_log_def act_bind_def unlink_log_def split: prod.splits option.splits)
      then show ?thesis using True by (intro r_into_rtranclp removal_step.log [OF l]) auto
    next
      case False
      then have "h' = h" using run by (auto simp: remove_log_def act_bind_def split: option.splits if_splits)
      then show ?thesis by simp
    qed
  qed
qed

section \<open>The whole cleanup\<close>

text \<open>What the parameters do: the connection, the client it makes and the project cleaner move the host along \<open>Q\<close>.\<close>

definition serves ::
  "('h \<Rightarrow> 'h \<Rightarrow> bool) \<Rightarrow> (json \<Rightarrow> ('h, 'h cleanup_client) action) \<Rightarrow> 'h project_cleaner option \<Rightarrow> bool" where
  "serves Q connect cleaner \<longleftrightarrow>
     (\<forall>url. moves Q (connect url)) \<and>
     (\<forall>url h client h' i. connect url h = (Inr client, h') \<longrightarrow>
        moves Q (cc_delete_session client i) \<and> moves Q (cc_get_session client i)) \<and>
     (\<forall>c e url. cleaner = Some c \<longrightarrow> (\<forall>missing. moves Q (pc_preview c e url missing)) \<and> (\<forall>out. moves Q (pc_apply c e url out)))"

definition either :: "('h \<Rightarrow> 'h \<Rightarrow> bool) \<Rightarrow> ('h \<Rightarrow> 'h \<Rightarrow> bool) \<Rightarrow> 'h \<Rightarrow> 'h \<Rightarrow> bool" where
  "either R Q a b \<longleftrightarrow> R a b \<or> Q a b"

lemma either_left: "moves R m \<Longrightarrow> moves (either R Q) m"
  by (erule moves_mono) (simp add: either_def)

lemma either_right: "moves Q m \<Longrightarrow> moves (either R Q) m"
  by (erule moves_mono) (simp add: either_def)

lemma try_any_moves [moves_intros]: "moves R m \<Longrightarrow> moves R (try_any m)"
  unfolding try_any_def by (intro moves_intros)

lemma try_api_moves [moves_intros]: "moves R m \<Longrightarrow> moves R (try_api m)"
  unfolding try_api_def by (rule moves_catch) (auto intro!: moves_intros split: py_error.split)

lemma preview_moves:
  assumes "serves Q connect cleaner"
  shows "moves Q (preview_project_metadata cleaner plan missing blocked)"
proof (cases cleaner)
  case (Some c)
  have "moves Q (preview_projects c url missing es)" for url es
    using assms Some by (induction es) (auto simp: serves_def intro!: moves_intros)
  then show ?thesis unfolding preview_project_metadata_def Some option.case Let_def by (intro moves_intros)
qed (auto simp: preview_project_metadata_def intro!: moves_intros)

lemma cleanup_from_moves:
  assumes "\<And>i. moves Q (cc_delete_session client i)" and "\<And>i. moves Q (cc_get_session client i)"
  shows "moves Q (cleanup_from client ids out)"
  by (induction ids arbitrary: out)
    (auto simp: delete_and_verify_def verify_deleted_def intro!: moves_intros assms)

lemma sessions_move:
  assumes "serves Q connect cleaner"
  shows "moves Q (cleanup_sessions connect plan rep)"
proof -
  have conn: "moves Q (act_bind (connect url) (\<lambda>client. cleanup_disposable_sessions client ids))" for url ids
  proof (rule movesI, elim act_bindE)
    fix h r h' e assume "connect url h = (Inl e, h')"
    then show "Q\<^sup>*\<^sup>* h h'" using assms movesD [of Q "connect url"] by (auto simp: serves_def)
  next
    fix h r h' client h1 assume c: "connect url h = (Inr client, h1)" and d: "cleanup_disposable_sessions client ids h1 = (r, h')"
    have "moves Q (cleanup_disposable_sessions client ids)"
      unfolding cleanup_disposable_sessions_def by (rule cleanup_from_moves) (use assms c in \<open>unfold serves_def, blast\<close>)+
    then have "Q\<^sup>*\<^sup>* h1 h'" using d by (rule movesD)
    moreover have "Q\<^sup>*\<^sup>* h h1" using assms c movesD [of Q "connect url"] by (auto simp: serves_def)
    ultimately show "Q\<^sup>*\<^sup>* h h'" by (rule rtranclp_trans [rotated])
  qed
  show ?thesis
    unfolding cleanup_sessions_def by (intro moves_if moves_return moves_bind [OF try_api_moves [OF conn]])
qed

lemma projects_move:
  assumes "serves Q connect cleaner"
  shows "moves Q (cleanup_project_metadata cleaner plan plans rep)"
proof (cases cleaner)
  case (Some c)
  have "moves Q (apply_projects c url ps rep)" for url ps rep
    using assms Some by (induction c url ps rep rule: apply_projects.induct) (auto simp: serves_def intro!: moves_intros)
  then show ?thesis unfolding cleanup_project_metadata_def Some option.case by (intro moves_intros)
qed (auto simp: cleanup_project_metadata_def intro!: moves_intros)

lemma on_removals_moves: "(\<And>res. moves R (f res)) \<Longrightarrow> moves R (on_removals f rep)"
  unfolding on_removals_def by (intro moves_intros)

lemma remove_resources_moves:
  assumes "serves Q connect cleaner"
  shows "moves (either (plan_step host plan (pf_verdicts pf)) Q) (remove_resources host connect cleaner plan pf plans force rep)"
  unfolding remove_resources_def Let_def
  by (intro moves_intros on_removals_moves either_left [OF remove_worktrees_moves] either_left [OF remove_branches_moves]
      either_left [OF remove_logs_moves] either_right [OF sessions_move [OF assms]] either_right [OF projects_move [OF assms]])

lemma on_host_moves: "moves R m \<Longrightarrow> on_host m (s, h) = (r, (s', h')) \<Longrightarrow> s' = s \<and> R\<^sup>*\<^sup>* h h'"
  by (auto simp: on_host_def split: prod.splits dest: movesD)

lemma on_store_host: "on_store u (s, h) = (r, (s', h')) \<Longrightarrow> h' = h"
  by (auto simp: on_store_def split: sum.splits)

lemma finish_cleanup_host: "finish_cleanup sv name delete baseline record (s, h) = (r, (s', h')) \<Longrightarrow> h' = h"
  by (auto simp: finish_cleanup_def elim!: act_bindE dest!: on_store_host split: if_splits prod.splits)

lemma execute_moves:
  assumes q: "serves Q connect cleaner" and run: "execute_cleanup sv host connect cleaner run plan pf plans q (s, h) = (r, (s', h'))"
  shows "(either (plan_step host plan (pf_verdicts pf)) Q)\<^sup>*\<^sup>* h h'"
proof -
  let ?R = "either (plan_step host plan (pf_verdicts pf)) Q"
  have removed: "?R\<^sup>*\<^sup>* a b" if "on_host (remove_resources host connect cleaner plan pf plans (cq_force q) rep) (s0, a) = (x, (s1, b))"
    for s0 a x s1 b rep
    using on_host_moves [OF remove_resources_moves [OF q] that] by simp
  from run show ?thesis
    unfolding execute_cleanup_def Let_def
    by (elim act_bindE) (auto dest!: on_store_host finish_cleanup_host removed)
qed

text \<open>
  A cleanup either only asks, and then it is not applied or its exit code is not 0, or it executes its plan: then
  it was planned from the stored run, has no active workers or is forced, and no project failed in the preview.
\<close>

definition asked_only ::
  "'h host \<Rightarrow> ('h \<Rightarrow> 'h \<Rightarrow> bool) \<Rightarrow> cleanup_request \<Rightarrow> 'h world \<Rightarrow> run_cleanup_result result \<Rightarrow> 'h world \<Rightarrow> bool" where
  "asked_only host Q q w r w' \<longleftrightarrow>
     fst w' = fst w \<and> (either (asks host) Q)\<^sup>*\<^sup>* (snd w) (snd w') \<and>
     (\<forall>x. cq_apply q \<and> r = Inr x \<longrightarrow> rr_exit_code x \<noteq> 0)"

definition executed_plan ::
  "cleanup_service \<Rightarrow> 'h host \<Rightarrow> (json \<Rightarrow> ('h, 'h cleanup_client) action) \<Rightarrow> 'h project_cleaner option \<Rightarrow> run_record \<Rightarrow>
   resource_plan \<Rightarrow> cleanup_request \<Rightarrow> 'h world \<Rightarrow> run_cleanup_result result \<Rightarrow> 'h world \<Rightarrow> bool" where
  "executed_plan sv host connect cleaner run plan q w r w' \<longleftrightarrow>
     (\<exists>pf h1 preview h2. cq_apply q \<and> preflight_cleanup host run plan (cq_force q) (snd w) = (Inr pf, h1) \<and>
        preview_project_metadata cleaner plan (assumed_missing plan pf) (pf_projects pf) h1 = (Inr preview, h2) \<and>
        \<not> active_cleanup_is_blocked pf (cq_force q) \<and> \<not> pp_failed preview \<and>
        execute_cleanup sv host connect cleaner run plan pf (pp_plans preview) q (fst w, h2) = (r, w'))"

lemma planned_path:
  assumes q: "serves Q connect cleaner" and run: "planned_cleanup sv host connect cleaner run plan q (s, h) = (r, w')"
  shows "asked_only host Q q (s, h) r w' \<or> executed_plan sv host connect cleaner run plan q (s, h) r w'"
proof -
  let ?A = "(either (asks host) Q)\<^sup>*\<^sup>*"
  obtain x h1 where pf: "preflight_cleanup host run plan (cq_force q) h = (x, h1)" by (cases "preflight_cleanup host run plan (cq_force q) h")
  have h1: "?A h h1" by (rule movesD [OF either_left [OF preflight_asks] pf])
  show ?thesis
  proof (cases x)
    case (Inl e)
    then show ?thesis using run h1 by (auto simp: planned_cleanup_def act_bind_def on_host_def pf asked_only_def)
  next
    case x: (Inr pre)
    obtain y h2 where pv: "preview_project_metadata cleaner plan (assumed_missing plan pre) (pf_projects pre) h1 = (y, h2)"
      by (cases "preview_project_metadata cleaner plan (assumed_missing plan pre) (pf_projects pre) h1")
    have h2: "?A h h2" by (rule rtranclp_trans [OF h1 movesD [OF either_right [OF preview_moves [OF q]] pv]])
    show ?thesis
    proof (cases "\<exists>preview :: project_preview. y = Inr preview \<and> cq_apply q \<and> \<not> active_cleanup_is_blocked pre (cq_force q) \<and> \<not> pp_failed preview")
      case True
      then have "executed_plan sv host connect cleaner run plan q (s, h) r w'"
        using run by (auto simp: planned_cleanup_def executed_plan_def act_bind_def on_host_def pf x pv)
      then show ?thesis ..
    next
      case False
      then have "asked_only host Q q (s, h) r w'"
        using run h2 by (cases y) (auto simp: planned_cleanup_def asked_only_def Let_def act_bind_def on_host_def pf x pv split: if_splits)
      then show ?thesis ..
    qed
  qed
qed

lemma cleanup_path:
  assumes q: "serves Q connect cleaner" and run: "run_cleanup sv host connect cleaner q (s, h) = (r, w')"
  shows "asked_only host Q q (s, h) r w' \<or>
    (\<exists>run plan. load_run (cs_float sv) (cs_cwd sv) (cq_name q) s = Inr run \<and> plan_resources run q = Inr plan \<and>
       executed_plan sv host connect cleaner run plan q (s, h) r w')"
proof -
  let ?load = "load_run (cs_float sv) (cs_cwd sv) (cq_name q) s"
  consider e where "(r, w') = (Inl e, (s, h))" | "unlocked_cleanup sv host connect cleaner q (s, h) = (r, w')"
    using run by (auto simp: run_cleanup_def on_host_def act_bind_def act_raise_def split: if_splits sum.splits)
  then have "asked_only host Q q (s, h) r w' \<or> (\<exists>run plan. ?load = Inr run \<and> plan_resources run q = Inr plan \<and>
      planned_cleanup sv host connect cleaner run plan q (s, h) = (r, w'))"
  proof cases
    case 2
    show ?thesis
    proof (cases "\<exists>run plan. ?load = Inr run \<and> \<not> (cq_apply q \<and> cleanup_in_progress run \<and> \<not> cq_force q) \<and> plan_resources run q = Inr plan")
      case True
      then show ?thesis using 2 by (auto simp: unlocked_cleanup_def act_bind_def)
    next
      case False
      then have "\<exists>e. r = Inl e \<and> w' = (s, h)"
        using 2 by (cases ?load; cases "plan_resources (projr ?load) q")
          (auto simp: unlocked_cleanup_def act_bind_def act_raise_def split: if_splits)
      then show ?thesis by (auto simp: asked_only_def)
    qed
  qed (auto simp: asked_only_def)
  then show ?thesis using planned_path [OF q] by blast
qed

lemma executed_plan_moves:
  assumes q: "serves Q connect cleaner" and run: "executed_plan sv host connect cleaner run plan q (s, h) r (s', h')"
  shows "\<exists>pf h1. cq_apply q \<and> preflight_cleanup host run plan (cq_force q) h = (Inr pf, h1) \<and> (pf_active_workers pf = [] \<or> cq_force q) \<and>
    (either (plan_step host plan (pf_verdicts pf)) Q)\<^sup>*\<^sup>* h h'"
proof -
  from run obtain pf h1 h2 and preview :: project_preview where c: "cq_apply q"
    and pf: "preflight_cleanup host run plan (cq_force q) h = (Inr pf, h1)"
    and pv: "preview_project_metadata cleaner plan (assumed_missing plan pf) (pf_projects pf) h1 = (Inr preview, h2)"
    and free: "\<not> active_cleanup_is_blocked pf (cq_force q)"
    and ex: "execute_cleanup sv host connect cleaner run plan pf (pp_plans preview) q (s, h2) = (r, (s', h'))"
    by (auto simp: executed_plan_def)
  let ?R = "either (plan_step host plan (pf_verdicts pf)) Q"
  have "?R\<^sup>*\<^sup>* h h1" by (rule movesD [OF either_left [OF asks_removal [OF preflight_asks]] pf])
  moreover have "?R\<^sup>*\<^sup>* h1 h2" by (rule movesD [OF either_right [OF preview_moves [OF q]] pv])
  moreover have "?R\<^sup>*\<^sup>* h2 h'" by (rule execute_moves [OF q ex])
  ultimately have "?R\<^sup>*\<^sup>* h h'" by (metis rtranclp_trans)
  then show ?thesis using c pf free unfolding active_cleanup_is_blocked_def by blast
qed

text \<open>
  A cleanup that is not applied only asks. An applied one that goes further than asking was planned from the
  stored run, has no active workers or is forced, and takes the steps of its plan.
\<close>

lemma cleanup_moves:
  assumes q: "serves Q connect cleaner" and run: "run_cleanup sv host connect cleaner q (s, h) = (r, (s', h'))"
  shows "s' = s \<and> (either (asks host) Q)\<^sup>*\<^sup>* h h' \<or>
    (\<exists>run plan pf h1. cq_apply q \<and> load_run (cs_float sv) (cs_cwd sv) (cq_name q) s = Inr run \<and> plan_resources run q = Inr plan \<and>
       preflight_cleanup host run plan (cq_force q) h = (Inr pf, h1) \<and> (pf_active_workers pf = [] \<or> cq_force q) \<and>
       (either (plan_step host plan (pf_verdicts pf)) Q)\<^sup>*\<^sup>* h h')"
  using cleanup_path [OF q run]
proof (elim disjE exE conjE)
  fix run plan assume "executed_plan sv host connect cleaner run plan q (s, h) r (s', h')"
    and "load_run (cs_float sv) (cs_cwd sv) (cq_name q) s = Inr run" and "plan_resources run q = Inr plan"
  then show ?thesis using executed_plan_moves [OF q] by blast
qed (simp add: asked_only_def)

lemma dry_run_moves:
  assumes "serves Q connect cleaner" and "run_cleanup sv host connect cleaner q (s, h) = (r, (s', h'))" and "\<not> cq_apply q"
  shows "s' = s \<and> (either (asks host) Q)\<^sup>*\<^sup>* h h'"
  using cleanup_moves [OF assms(1,2)] assms(3) by blast

lemma serves_anything: "serves (\<lambda>_ _. True) connect cleaner"
  by (auto simp: serves_def intro!: one_step)

end
