(* ===== verification/Cleanup_Accounting.thy ===== *)
theory Cleanup_Accounting
  imports Cleanup_Safety
begin

text \<open>
  What a cleanup reports: every planned resource is blocked, removed, or named by an error; nothing is blocked
  without an error; so a cleanup that is applied and exits with 0 has removed everything that was planned.
\<close>

section \<open>Values that actions return\<close>

definition yields :: "('a \<Rightarrow> bool) \<Rightarrow> ('s, 'a) action \<Rightarrow> bool" where
  "yields P m \<longleftrightarrow> (\<forall>s x s'. m s = (Inr x, s') \<longrightarrow> P x)"

lemma yieldsI: "(\<And>s x s'. m s = (Inr x, s') \<Longrightarrow> P x) \<Longrightarrow> yields P m"
  by (simp add: yields_def)

lemma yieldsD: "yields P m \<Longrightarrow> m s = (Inr x, s') \<Longrightarrow> P x"
  by (auto simp: yields_def)

lemma yields_return [simp]: "yields P (act_return x) \<longleftrightarrow> P x"
  by (simp add: yields_def)

lemma yields_pair [simp]: "yields P (Pair (Inr x)) \<longleftrightarrow> P x"
  by (simp add: yields_def)

lemma yields_raise [simp]: "yields P (act_raise e)"
  by (simp add: yields_def)

lemma yields_read: "(\<And>s. P (f s)) \<Longrightarrow> yields P (act_read f)"
  by (simp add: yields_def)

lemma yields_any: "yields (\<lambda>x. True) m"
  by (simp add: yields_def)

lemma yields_then: "yields Q m \<Longrightarrow> (\<And>x. Q x \<Longrightarrow> yields P (f x)) \<Longrightarrow> yields P (act_bind m f)"
  by (rule yieldsI, elim act_bindE) (auto dest: yieldsD)

lemma yields_bind: "(\<And>x. yields P (f x)) \<Longrightarrow> yields P (act_bind m f)"
  by (rule yields_then [OF yields_any])

lemma yields_mono: "yields P m \<Longrightarrow> (\<And>x. P x \<Longrightarrow> Q x) \<Longrightarrow> yields Q m"
  by (auto simp: yields_def)

lemma yields_fold:
  assumes "\<And>x b. x \<in> set xs \<Longrightarrow> I b \<Longrightarrow> yields I (f x b)" and "I b"
  shows "yields I (act_fold f xs b)"
  using assms
proof (induction xs arbitrary: b)
  case (Cons x xs)
  show ?case
    unfolding act_fold.simps by (rule yields_then [where Q = I]) (use Cons in auto)
qed simp

text \<open>Every element leaves its mark, and later elements keep it.\<close>

lemma yields_fold_all:
  assumes step: "\<And>x b. x \<in> set xs \<Longrightarrow> yields (\<lambda>b'. K b b' \<and> D x b') (f x b)"
    and refl: "\<And>b. K b b" and trans: "\<And>a b c. K a b \<Longrightarrow> K b c \<Longrightarrow> K a c" and mono: "\<And>x b b'. D x b \<Longrightarrow> K b b' \<Longrightarrow> D x b'"
  shows "yields (\<lambda>b'. K b b' \<and> (\<forall>x \<in> set xs. D x b')) (act_fold f xs b)"
  using step
proof (induction xs arbitrary: b)
  case (Cons x xs)
  show ?case
    unfolding act_fold.simps
  proof (rule yields_then [OF Cons.prems])
    show "x \<in> set (x # xs)" by simp
    fix b1 assume b1: "K b b1 \<and> D x b1"
    have "yields (\<lambda>b'. K b1 b' \<and> (\<forall>x \<in> set xs. D x b')) (act_fold f xs b1)" using Cons.IH Cons.prems by simp
    then show "yields (\<lambda>b'. K b b' \<and> (\<forall>x \<in> set (x # xs). D x b')) (act_fold f xs b1)"
      by (rule yields_mono) (use b1 in \<open>auto intro: trans mono\<close>)
  qed
qed (simp add: refl)

section \<open>Nothing is blocked without an error\<close>

definition explained :: "verdicts \<Rightarrow> bool" where
  "explained v \<longleftrightarrow> (vd_errors v = [] \<longrightarrow> vd_worktrees v = [] \<and> vd_branches v = [] \<and> vd_logs v = [])"

lemma explained_no_verdicts [simp]: "explained no_verdicts"
  by (simp add: explained_def no_verdicts_def)

lemma explained_issue [simp]: "explained (add_issue c r e v)"
  by (simp add: explained_def add_issue_def)

lemma explained_known: "vd_errors v \<noteq> [] \<Longrightarrow> explained v"
  by (simp add: explained_def)

lemma block_errors [simp]:
  "vd_errors (block_worktree r v) = vd_errors v" "vd_errors (block_branch r v) = vd_errors v" "vd_errors (block_log r v) = vd_errors v"
  by (simp_all add: block_worktree_def block_branch_def block_log_def)

lemma add_issue_errors [simp]: "vd_errors (add_issue c r e v) \<noteq> []"
  by (simp add: add_issue_def)

lemma explained_tips [simp]: "explained (v\<lparr>vd_tips := t\<rparr>) = explained v"
  by (simp add: explained_def)

lemma explained_branch_issue [simp]: "explained (branch_issue r e v)"
  by (simp add: branch_issue_def)

lemma explained_block [simp]: "explained (block_worktree r (add_issue c r' e v))"
  by (rule explained_known) simp

lemma explained_member: "e \<in> set (vd_errors v) \<Longrightarrow> explained (block_worktree r v)"
  by (rule explained_known) auto

lemma explained_preflight_worktree: "explained v \<Longrightarrow> yields explained (preflight_worktree host force r v)"
  unfolding preflight_worktree_def preflight_present_worktree_def preflight_missing_worktree_def
  by (intro yields_bind)
    (auto intro!: yields_bind intro: explained_member simp: list_ex_iff split: option.split sum.split bool.split)

lemma explained_preflight_branch: "explained v \<Longrightarrow> yields explained (preflight_branch host force paths r v)"
  unfolding preflight_branch_def preflight_existing_branch_def preflight_merged_def
  by (intro yields_bind) (auto intro!: yields_bind explained_known simp: explained_def [of v] split: option.split sum.split)

lemma explained_preflight_log: "explained v \<Longrightarrow> yields explained (preflight_log host r v)"
  unfolding preflight_log_def by (intro yields_read) (auto split: option.split)

lemma block_branch_worktrees_explained: "explained v \<Longrightarrow> explained (block_branch_worktrees rs v)"
proof (cases "vd_errors v = []")
  case True
  moreover assume "explained v"
  ultimately show ?thesis by (simp add: block_branch_worktrees_def explained_def)
next
  case False
  have "vd_errors (fold block_worktree xs v) = vd_errors v" for xs by (induction xs arbitrary: v) simp_all
  then show ?thesis using False by (simp add: block_branch_worktrees_def explained_known)
qed

lemma explained_preflight:
  "yields (\<lambda>pf. explained (pf_verdicts pf) \<and> (vd_errors (pf_verdicts pf) = [] \<longrightarrow> pf_projects pf = []))
     (preflight_cleanup host run plan force)"
proof -
  have project: "yields (\<lambda>vb. explained (fst vb) \<and> (vd_errors (fst vb) = [] \<longrightarrow> snd vb = [])) (preflight_project host r vb)"
    if "explained (fst vb) \<and> (vd_errors (fst vb) = [] \<longrightarrow> snd vb = [])" for r vb
    unfolding preflight_project_def by (rule yields_read) (use that in \<open>auto split: option.split\<close>)
  show ?thesis
    unfolding preflight_cleanup_def
  proof (rule yields_then)
    show "yields explained (preflight_worktrees host force (rp_worktrees plan) no_verdicts)"
      unfolding preflight_worktrees_def by (rule yields_fold) (simp_all add: explained_preflight_worktree)
  next
    fix v1 assume v1: "explained v1"
    show "yields (\<lambda>pf. explained (pf_verdicts pf) \<and> (vd_errors (pf_verdicts pf) = [] \<longrightarrow> pf_projects pf = []))
      (act_bind (preflight_branches host force (map (\<lambda>r. text_field r ''path'') (rp_worktrees plan)) (rp_branches plan) v1) (\<lambda>v2.
       act_bind (preflight_logs host (rp_logs plan) (block_branch_worktrees (rp_branches plan) v2)) (\<lambda>v3.
       act_bind (act_fold (preflight_project host) (rp_projects plan) (v3, [])) (\<lambda>(v4, projects).
       act_bind (act_result (active_worker_ids run)) (\<lambda>active.
       act_return \<lparr>pf_active_workers = active,
         pf_verdicts = (if active \<noteq> [] \<and> \<not> force then v4\<lparr>vd_errors := vd_errors v4 @ [active_issue active]\<rparr> else v4),
         pf_projects = projects\<rparr>)))))"
    proof (rule yields_then)
      show "yields explained (preflight_branches host force (map (\<lambda>r. text_field r ''path'') (rp_worktrees plan)) (rp_branches plan) v1)"
        unfolding preflight_branches_def by (rule yields_fold) (simp_all add: explained_preflight_branch v1)
    next
      fix v2 assume v2: "explained v2"
      have v3: "yields explained (preflight_logs host (rp_logs plan) (block_branch_worktrees (rp_branches plan) v2))"
        unfolding preflight_logs_def
        by (rule yields_fold) (simp_all add: explained_preflight_log block_branch_worktrees_explained v2)
      have v4: "yields (\<lambda>vb. explained (fst vb) \<and> (vd_errors (fst vb) = [] \<longrightarrow> snd vb = []))
          (act_fold (preflight_project host) (rp_projects plan) (v3, []))" if "explained v3" for v3
        by (rule yields_fold) (use that project in auto)
      show "yields (\<lambda>pf. explained (pf_verdicts pf) \<and> (vd_errors (pf_verdicts pf) = [] \<longrightarrow> pf_projects pf = []))
        (act_bind (preflight_logs host (rp_logs plan) (block_branch_worktrees (rp_branches plan) v2)) (\<lambda>v3.
         act_bind (act_fold (preflight_project host) (rp_projects plan) (v3, [])) (\<lambda>(v4, projects).
         act_bind (act_result (active_worker_ids run)) (\<lambda>active.
         act_return \<lparr>pf_active_workers = active,
           pf_verdicts = (if active \<noteq> [] \<and> \<not> force then v4\<lparr>vd_errors := vd_errors v4 @ [active_issue active]\<rparr> else v4),
           pf_projects = projects\<rparr>))))"
        by (rule yields_then [OF v3], rule yields_then [OF v4], assumption)
          (auto intro!: yields_bind explained_known split: prod.split)
    qed
  qed
qed

section \<open>Every planned resource is accounted for\<close>

definition grows :: "removals \<Rightarrow> removals \<Rightarrow> bool" where
  "grows a b \<longleftrightarrow> set (rm_worktrees a) \<subseteq> set (rm_worktrees b) \<and> set (rm_branches a) \<subseteq> set (rm_branches b) \<and>
     set (rm_logs a) \<subseteq> set (rm_logs b) \<and> set (rm_errors a) \<subseteq> set (rm_errors b)"

lemma grows_refl [simp]: "grows a a"
  by (simp add: grows_def)

lemma grows_trans: "grows a b \<Longrightarrow> grows b c \<Longrightarrow> grows a c"
  by (auto simp: grows_def)

lemmas removal_defs = failed_removal_def removed_worktree_def removed_branch_def removed_log_def

text \<open>A worktree is accounted for when it is removed or an error names a resource of its path.\<close>

definition same_path :: "jdict \<Rightarrow> json \<Rightarrow> bool" where
  "same_path r e \<longleftrightarrow> (\<exists>c r' msg. e = issue c r' msg \<and> text_field r' ''path'' = text_field r ''path'')"

definition worktree_accounted :: "verdicts \<Rightarrow> jdict \<Rightarrow> removals \<Rightarrow> bool" where
  "worktree_accounted v r res \<longleftrightarrow>
     text_field r ''path'' \<in> set (vd_worktrees v) \<or> r \<in> set (rm_worktrees res) \<or> (\<exists>e \<in> set (rm_errors res). same_path r e)"

definition branch_accounted :: "verdicts \<Rightarrow> jdict \<Rightarrow> removals \<Rightarrow> bool" where
  "branch_accounted v r res \<longleftrightarrow>
     identity_of r \<in> set (vd_branches v) \<or> (\<exists>c \<in> set (rm_branches res). identity_of c = identity_of r) \<or>
     (\<exists>e \<in> set (rm_errors res). branch_failed r e \<or> (\<exists>msg. e = issue ''branches'' r msg))"

definition log_accounted :: "verdicts \<Rightarrow> jdict \<Rightarrow> removals \<Rightarrow> bool" where
  "log_accounted v r res \<longleftrightarrow>
     text_field r ''path'' \<in> set (vd_logs v) \<or> r \<in> set (rm_logs res) \<or> (\<exists>msg. issue ''logs'' r msg \<in> set (rm_errors res))"

lemma accounted_mono:
  "worktree_accounted v r a \<Longrightarrow> grows a b \<Longrightarrow> worktree_accounted v r b"
  "branch_accounted v r a \<Longrightarrow> grows a b \<Longrightarrow> branch_accounted v r b"
  "log_accounted v r a \<Longrightarrow> grows a b \<Longrightarrow> log_accounted v r b"
  by (auto simp: worktree_accounted_def branch_accounted_def log_accounted_def grows_def)

lemma same_path_issue: "text_field r' ''path'' = text_field r ''path'' \<Longrightarrow> same_path r (issue c r' msg)"
  by (auto simp: same_path_def)

lemma branch_of_path_path: "branch_of_path branches blocked tips p = Some b \<Longrightarrow> text_field b ''path'' = p"
  by (auto simp: branch_of_path_def dest!: map_of_SomeD)

lemma failed_accounted: "text_field r' ''path'' = text_field r ''path'' \<Longrightarrow> worktree_accounted v r (failed_removal c r' msg res)"
  by (auto simp: worktree_accounted_def failed_removal_def intro: same_path_issue)

lemma removed_accounted: "worktree_accounted v r (removed_worktree r res)"
  by (simp add: worktree_accounted_def removed_worktree_def)

lemma grows_removal: "grows res (failed_removal c r msg res)" "grows res (removed_worktree r res)"
  "grows res (removed_branch r res)" "grows res (removed_log r res)"
  by (auto simp: grows_def removal_defs)

lemma remove_verified_accounted:
  "yields (\<lambda>res'. grows res res' \<and> worktree_accounted v r res') (remove_verified_worktree host force r b p res)"
proof -
  have commit: "yields (grows res) (commit_prepared host p b res)"
    unfolding commit_prepared_def by (auto intro!: yields_bind simp: grows_removal split: option.split)
  show ?thesis
    unfolding remove_verified_worktree_def
  proof (rule yields_bind)
    fix e
    show "yields (\<lambda>res'. grows res res' \<and> worktree_accounted v r res')
        (case e of Some msg \<Rightarrow> act_bind (abort_prepared host p) (\<lambda>_. act_return (failed_removal ''worktrees'' r msg res))
         | None \<Rightarrow> act_bind (commit_prepared host p b res) (\<lambda>res'. act_return (removed_worktree r res')))"
    proof (cases e)
      case None
      show ?thesis
        unfolding None option.case
        by (rule yields_then [OF commit]) (auto intro: grows_trans grows_removal removed_accounted)
    qed (auto intro!: yields_bind simp: grows_removal failed_accounted)
  qed
qed

lemma remove_worktree_accounted:
  "yields (\<lambda>res'. grows res res' \<and> worktree_accounted v r res') (remove_worktree host force branches v r res)"
proof -
  let ?P = "\<lambda>res'. grows res res' \<and> worktree_accounted v r res'"
  let ?branch = "branch_of_path branches (vd_branches v) (vd_tips v) (text_field r ''path'')"
  have path: "text_field b ''path'' = text_field r ''path''" if "?branch = Some b" for b by (rule branch_of_path_path [OF that])
  have second: "yields ?P (remove_with_branch host force r b p res)" for b p
    unfolding remove_with_branch_def
    by (auto intro!: yields_bind remove_verified_accounted simp: grows_removal failed_accounted split: option.split)
  have present: "yields ?P (remove_present_worktree host force (vd_tips v) ?branch r res)"
    unfolding remove_present_worktree_def
    by (auto intro!: yields_bind remove_verified_accounted second simp: grows_removal failed_accounted path split: option.split sum.split)
  have missing: "yields ?P (remove_missing_worktree host ?branch r res)"
  proof (cases ?branch)
    case None
    then show ?thesis
      unfolding remove_missing_worktree_def
      by (auto intro!: yields_bind simp: grows_removal failed_accounted removed_accounted split: sum.split bool.split)
  next
    case (Some b)
    have "grows res (failed_removal ''branches'' b m1 (failed_removal ''worktrees'' r m2 res))" for m1 m2
      by (rule grows_trans; rule grows_removal)
    then show ?thesis unfolding remove_missing_worktree_def Some by (simp add: failed_accounted path [OF Some])
  qed
  show ?thesis
  proof (cases "text_field r ''path'' \<in> set (vd_worktrees v)")
    case True
    then show ?thesis by (simp add: remove_worktree_def worktree_accounted_def)
  next
    case False
    have "yields ?P (if b then remove_present_worktree host force (vd_tips v) ?branch r res
        else remove_missing_worktree host ?branch r res)" for b
      using present missing by (cases b) simp_all
    then show ?thesis using False by (simp add: remove_worktree_def Let_def yields_bind)
  qed
qed

lemma remove_branch_accounted:
  "yields (\<lambda>res'. grows res res' \<and> branch_accounted v r res') (remove_branch host v r res)"
proof -
  have failed: "branch_accounted v r (failed_removal ''branches'' r msg res)" for msg
    by (auto simp: branch_accounted_def failed_removal_def)
  have removed: "branch_accounted v r (removed_branch r res)" by (auto simp: branch_accounted_def removed_branch_def)
  show ?thesis
    unfolding remove_branch_def delete_branch_def
    by (auto intro!: yields_bind simp: grows_removal failed removed split: sum.split option.split)
      (auto simp: branch_accounted_def list_ex_iff)
qed

lemma remove_log_accounted:
  "yields (\<lambda>res'. grows res res' \<and> log_accounted v r res') (remove_log host v r res)"
proof -
  have "yields (\<lambda>res'. grows res res' \<and> log_accounted v r res') (unlink_log host r res)"
    by (rule yieldsI) (auto simp: unlink_log_def log_accounted_def grows_def removal_defs split: prod.splits option.splits)
  then show ?thesis
    unfolding remove_log_def
    by (auto intro!: yields_bind simp: grows_removal split: option.split)
      (auto simp: log_accounted_def removal_defs)
qed

lemma removals_accounted:
  "yields (\<lambda>res'. grows res res' \<and> (\<forall>r \<in> set rs. worktree_accounted v r res')) (remove_worktrees host force branches v rs res)"
  "yields (\<lambda>res'. grows res res' \<and> (\<forall>r \<in> set rs. branch_accounted v r res')) (remove_branches host v rs res)"
  "yields (\<lambda>res'. grows res res' \<and> (\<forall>r \<in> set rs. log_accounted v r res')) (remove_logs host v rs res)"
  unfolding remove_worktrees_def remove_branches_def remove_logs_def
  by (rule yields_fold_all, rule remove_worktree_accounted remove_branch_accounted remove_log_accounted, rule grows_refl,
      erule grows_trans, assumption, erule accounted_mono, assumption)+

section \<open>The report\<close>

definition grows_report :: "cleanup_report \<Rightarrow> cleanup_report \<Rightarrow> bool" where
  "grows_report a b \<longleftrightarrow> grows (ct_removed a) (ct_removed b) \<and> set (ct_sessions a) \<subseteq> set (ct_sessions b) \<and>
     set (ct_projects a) \<subseteq> set (ct_projects b) \<and> ct_plan b = ct_plan a"

lemma grows_report_refl [simp]: "grows_report a a"
  by (simp add: grows_report_def)

lemma grows_report_trans: "grows_report a b \<Longrightarrow> grows_report b c \<Longrightarrow> grows_report a c"
  by (auto simp: grows_report_def intro: grows_trans)

definition in_category :: "string \<Rightarrow> json \<Rightarrow> bool" where
  "in_category c e \<longleftrightarrow> dict_get (mapping_of e) ''category'' = JStr c"

definition sessions_accounted :: "resource_plan \<Rightarrow> cleanup_report \<Rightarrow> bool" where
  "sessions_accounted plan rep \<longleftrightarrow>
     (\<forall>i \<in> set (rp_sessions plan). i \<in> set (ct_sessions rep) \<or> (\<exists>e \<in> set (report_errors rep). in_category ''sessions'' e))"

definition projects_accounted :: "project_plans \<Rightarrow> cleanup_report \<Rightarrow> bool" where
  "projects_accounted plans rep \<longleftrightarrow>
     (\<forall>e \<in> fst ` set plans. e \<in> set (ct_projects rep) \<or> (\<exists>msg. issue ''project_metadata'' e msg \<in> set (report_errors rep)))"

definition locally_accounted :: "verdicts \<Rightarrow> resource_plan \<Rightarrow> removals \<Rightarrow> bool" where
  "locally_accounted v plan res \<longleftrightarrow>
     (\<forall>r \<in> set (rp_worktrees plan). worktree_accounted v r res) \<and>
     (\<forall>r \<in> set (rp_branches plan). branch_accounted v r res) \<and> (\<forall>r \<in> set (rp_logs plan). log_accounted v r res)"

lemma accounted_grows:
  "sessions_accounted plan a \<Longrightarrow> grows_report a b \<Longrightarrow> sessions_accounted plan b"
  "projects_accounted plans a \<Longrightarrow> grows_report a b \<Longrightarrow> projects_accounted plans b"
  by (fastforce simp: sessions_accounted_def projects_accounted_def grows_report_def grows_def)+

lemma cleanup_from_total:
  "yields (\<lambda>out'. set (co_deleted out) \<subseteq> set (co_deleted out') \<and> (co_errors out \<noteq> [] \<longrightarrow> co_errors out' \<noteq> []) \<and>
     (\<forall>i \<in> set ids. i \<in> set (co_deleted out') \<or> co_errors out' \<noteq> [])) (cleanup_from client ids out)"
proof (induction ids arbitrary: out)
  case (Cons i ids)
  show ?case
    unfolding cleanup_from.simps
  proof (rule yields_bind)
    fix f
    show "yields (\<lambda>out'. set (co_deleted out) \<subseteq> set (co_deleted out') \<and> (co_errors out \<noteq> [] \<longrightarrow> co_errors out' \<noteq> []) \<and>
        (\<forall>j \<in> set (i # ids). j \<in> set (co_deleted out') \<or> co_errors out' \<noteq> [])) (cleanup_from client ids (add_cleanup i f out))"
      by (rule yields_mono [OF Cons.IH]) (cases f; auto simp: add_cleanup_def)
  qed
qed simp

lemma add_errors_grows: "grows_report rep (add_errors es rep)"
  by (auto simp: grows_report_def grows_def add_errors_def)

lemma sessions_step: "yields (\<lambda>rep'. grows_report rep rep' \<and> sessions_accounted plan rep') (cleanup_sessions connect plan rep)"
proof -
  let ?Q = "\<lambda>out. \<forall>i \<in> set (rp_sessions plan). i \<in> set (co_deleted out) \<or> co_errors out \<noteq> []"
  have "yields (\<lambda>answer. case answer of Inl msg \<Rightarrow> True | Inr out \<Rightarrow> ?Q out)
      (try_api (act_bind (connect url) (\<lambda>client. cleanup_disposable_sessions client (rp_sessions plan))))" for url
  proof -
    have q: "yields ?Q (cleanup_disposable_sessions client (rp_sessions plan))" for client :: "'a cleanup_client"
      unfolding cleanup_disposable_sessions_def by (rule yields_mono [OF cleanup_from_total]) auto
    show ?thesis
      unfolding try_api_def
      by (rule yieldsI) (auto elim!: act_catchE act_bindE dest!: yieldsD [OF q] split: py_error.splits if_splits)
  qed
  note answer = this
  show ?thesis
    unfolding cleanup_sessions_def
  proof (cases "rp_sessions plan = []")
    case False
    show "yields (\<lambda>rep'. grows_report rep rep' \<and> sessions_accounted plan rep')
        (if rp_sessions plan = [] then act_return rep
         else act_bind (try_api (act_bind (connect (rp_server_url plan)) (\<lambda>client. cleanup_disposable_sessions client (rp_sessions plan))))
           (\<lambda>answer. act_return (case answer of
              Inl msg \<Rightarrow> add_errors [JObj [(''category'', JStr ''sessions''), (''error'', JStr msg)]] rep
            | Inr out \<Rightarrow> add_errors (map session_issue (co_errors out)) (rep\<lparr>ct_sessions := ct_sessions rep @ co_deleted out\<rparr>))))"
      unfolding if_not_P [OF False]
    proof (rule yields_then [OF answer])
      fix answer :: "string + cleanup_outcome"
      assume a: "case answer of Inl msg \<Rightarrow> True | Inr out \<Rightarrow> ?Q out"
      show "yields (\<lambda>rep'. grows_report rep rep' \<and> sessions_accounted plan rep') (act_return (case answer of
          Inl msg \<Rightarrow> add_errors [JObj [(''category'', JStr ''sessions''), (''error'', JStr msg)]] rep
        | Inr out \<Rightarrow> add_errors (map session_issue (co_errors out)) (rep\<lparr>ct_sessions := ct_sessions rep @ co_deleted out\<rparr>)))"
      proof (cases answer)
        case (Inl msg)
        then show ?thesis by (simp add: add_errors_grows) (simp add: sessions_accounted_def add_errors_def in_category_def)
      next
        case (Inr out)
        have "grows_report rep (add_errors es (rep\<lparr>ct_sessions := ct_sessions rep @ co_deleted out\<rparr>))" for es
          by (rule grows_report_trans [OF _ add_errors_grows]) (auto simp: grows_report_def)
        moreover have "\<exists>e \<in> session_issue ` set (co_errors out). in_category ''sessions'' e" if "co_errors out \<noteq> []"
          using that by (cases "co_errors out") (auto simp: in_category_def session_issue_def)
        ultimately show ?thesis using a Inr by (auto simp: sessions_accounted_def add_errors_def)
      qed
    qed
  qed (simp add: sessions_accounted_def)
qed

lemma projects_step: "yields (\<lambda>rep'. grows_report rep rep' \<and> projects_accounted plans rep') (apply_projects c url plans rep)"
proof (induction c url plans rep rule: apply_projects.induct)
  case (2 c url e out plans rep)
  show ?case
    unfolding apply_projects.simps
  proof (rule yields_bind)
    fix answer
    have "grows_report rep (project_applied e answer rep)"
      by (auto simp: project_applied_def Let_def grows_report_def grows_def add_errors_def split: sum.split option.split list.split)
    moreover have "e \<in> set (ct_projects (project_applied e answer rep)) \<or>
        (\<exists>msg. issue ''project_metadata'' e msg \<in> set (report_errors (project_applied e answer rep)))"
      by (auto simp: project_applied_def Let_def add_errors_def split: sum.split)
    ultimately show "yields (\<lambda>rep'. grows_report rep rep' \<and> projects_accounted ((e, out) # plans) rep')
        (apply_projects c url plans (project_applied e answer rep))"
      by (intro yields_mono [OF 2]) (fastforce simp: projects_accounted_def grows_report_def grows_def intro: grows_report_trans)
  qed
qed (simp add: projects_accounted_def yields_def act_return_def)

lemma on_removals_step:
  assumes "\<And>res. yields (\<lambda>res'. grows res res' \<and> A res') (f res)"
  shows "yields (\<lambda>rep'. grows_report rep rep' \<and> A (ct_removed rep')) (on_removals f rep)"
  unfolding on_removals_def by (rule yields_then [OF assms]) (auto simp: grows_report_def)

lemma final_status_removed [simp]:
  "ct_removed (with_final_status rep) = ct_removed rep" "ct_sessions (with_final_status rep) = ct_sessions rep"
  "ct_projects (with_final_status rep) = ct_projects rep" "ct_plan (with_final_status rep) = ct_plan rep"
  by (simp_all add: with_final_status_def)

text \<open>After the removals everything planned is accounted for.\<close>

lemma resources_accounted:
  assumes "cleaner = None \<longrightarrow> rp_projects plan = []" and "map fst plans = rp_projects plan"
  shows "yields (\<lambda>rep'. grows_report rep rep' \<and> sessions_accounted plan rep' \<and> projects_accounted plans rep' \<and>
     locally_accounted (pf_verdicts pf) plan (ct_removed rep')) (remove_resources host connect cleaner plan pf plans force rep)"
proof -
  let ?v = "pf_verdicts pf"
  have projects: "yields (\<lambda>rep'. grows_report rep rep' \<and> projects_accounted plans rep') (cleanup_project_metadata cleaner plan plans rep)" for rep
  proof (cases "rp_projects plan = []")
    case True
    then show ?thesis using assms(2) by (simp add: cleanup_project_metadata_def projects_accounted_def)
  next
    case False
    then show ?thesis using assms(1) projects_step by (auto simp: cleanup_project_metadata_def split: option.split)
  qed
  let ?W = "\<lambda>res. \<forall>r \<in> set (rp_worktrees plan). worktree_accounted ?v r res"
  let ?B = "\<lambda>res. \<forall>r \<in> set (rp_branches plan). branch_accounted ?v r res"
  have W: "yields (\<lambda>rep'. grows_report a rep' \<and> ?W (ct_removed rep'))
      (on_removals (remove_worktrees host force (rp_branches plan) ?v (rp_worktrees plan)) a)" for a
    by (rule on_removals_step) (rule removals_accounted(1))
  have B: "yields (\<lambda>rep'. grows_report a rep' \<and> ?B (ct_removed rep')) (on_removals (remove_branches host ?v (rp_branches plan)) a)" for a
    by (rule on_removals_step) (rule removals_accounted(2))
  have L: "yields (\<lambda>rep'. grows_report a rep' \<and> (\<forall>r \<in> set (rp_logs plan). log_accounted ?v r (ct_removed rep')))
      (on_removals (remove_logs host ?v (rp_logs plan)) a)" for a
    by (rule on_removals_step) (rule removals_accounted(3))
  have removed: "grows (ct_removed a) (ct_removed b)" if "grows_report a b" for a b using that by (simp add: grows_report_def)
  show ?thesis
    unfolding remove_resources_def Let_def
  proof (rule yields_then [OF sessions_step])
    fix r1 assume 1: "grows_report rep r1 \<and> sessions_accounted plan r1"
    show "yields (\<lambda>rep'. grows_report rep rep' \<and> sessions_accounted plan rep' \<and> projects_accounted plans rep' \<and>
        locally_accounted ?v plan (ct_removed rep'))
      (act_bind (on_removals (remove_worktrees host force (rp_branches plan) ?v (rp_worktrees plan)) r1) (\<lambda>rep2.
       act_bind (cleanup_project_metadata cleaner plan plans rep2) (\<lambda>rep3.
       act_bind (on_removals (remove_branches host ?v (rp_branches plan)) rep3) (\<lambda>rep4.
       act_bind (on_removals (remove_logs host ?v (rp_logs plan)) rep4) (\<lambda>rep5.
       act_return (with_final_status rep5))))))"
    proof (rule yields_then [OF W], rule yields_then [OF projects], rule yields_then [OF B], rule yields_then [OF L])
      fix r2 r3 r4 r5
      assume 2: "grows_report r1 r2 \<and> ?W (ct_removed r2)" and 3: "grows_report r2 r3 \<and> projects_accounted plans r3"
        and 4: "grows_report r3 r4 \<and> ?B (ct_removed r4)"
        and 5: "grows_report r4 r5 \<and> (\<forall>r \<in> set (rp_logs plan). log_accounted ?v r (ct_removed r5))"
      have g4: "grows_report r4 r5" using 5 by simp
      have g3: "grows_report r3 r5" by (rule grows_report_trans [OF _ g4]) (simp add: 4)
      have g2: "grows_report r2 r5" by (rule grows_report_trans [OF _ g3]) (simp add: 3)
      have g1: "grows_report r1 r5" by (rule grows_report_trans [OF _ g2]) (simp add: 2)
      have r5: "grows_report rep r5" "sessions_accounted plan r5" "projects_accounted plans r5"
        using 1 3 by (auto intro: grows_report_trans [OF _ g1] accounted_grows(1) [OF _ g1] accounted_grows(2) [OF _ g3])
      have "locally_accounted ?v plan (ct_removed r5)"
        using 2 4 5 unfolding locally_accounted_def
        by (auto intro: accounted_mono(1) [OF _ removed [OF g2]] accounted_mono(2) [OF _ removed [OF g4]])
      then show "yields (\<lambda>rep'. grows_report rep rep' \<and> sessions_accounted plan rep' \<and> projects_accounted plans rep' \<and>
          locally_accounted ?v plan (ct_removed rep')) (act_return (with_final_status r5))"
        using r5 by (simp add: grows_report_def sessions_accounted_def projects_accounted_def)
    qed
  qed
qed

section \<open>A clean exit\<close>

lemma record_store_error_errors: "record_store_error record msg = Inr failed \<Longrightarrow> \<not> no_errors failed"
  by (auto simp: record_store_error_def append_error_def res_bind_Inr_iff no_errors_def dict_get_def
      split: option.splits json.splits if_splits)

lemma result_of_clean: "rr_exit_code (result_of record) = 0 \<longleftrightarrow> no_errors record"
  by (simp add: result_of_def)

text \<open>A clean end: the record had no errors, it is stored, and the run is deleted when that was requested.\<close>

definition cleanup_stored ::
  "cleanup_service \<Rightarrow> string \<Rightarrow> bool \<Rightarrow> run_record \<Rightarrow> jdict \<Rightarrow> run_store \<Rightarrow> run_store \<Rightarrow> jdict \<Rightarrow> bool" where
  "cleanup_stored sv name delete baseline record s s' result \<longleftrightarrow>
     (\<exists>audited s1. update_if_unchanged (cs_float sv) (cs_cwd sv) name baseline record s = Inr (audited, s1) \<and>
        (if delete then delete_run (cs_float sv) (cs_cwd sv) name (Some audited) s1 = Inr s' \<and>
             result = dict_set ''run_store_deleted'' (JBool True) record
         else s' = s1 \<and> result = record))"

lemma finish_audit_clean:
  "finish_cleanup_audit pf cwd name baseline record s = Inr (run, s', record') \<Longrightarrow> no_errors record' \<Longrightarrow>
     update_if_unchanged pf cwd name baseline record s = Inr (run, s') \<and> record' = record"
  by (auto simp: finish_cleanup_audit_def res_bind_Inr_iff dest: record_store_error_errors
      split: sum.splits py_error.splits if_splits)

lemma delete_audited_clean:
  "delete_audited_run pf cwd name expected record s = Inr (gone, s', record') \<Longrightarrow> no_errors record' \<Longrightarrow>
     delete_run pf cwd name (Some expected) s = Inr s' \<and> record' = dict_set ''run_store_deleted'' (JBool True) record"
  by (auto simp: delete_audited_run_def res_bind_Inr_iff dest: record_store_error_errors
      split: sum.splits py_error.splits if_splits)

lemma finish_cleanup_clean:
  assumes run: "finish_cleanup sv name delete baseline record (s, h) = (Inr r, (s', h'))" and clean: "rr_exit_code r = 0"
  shows "no_errors record \<and> cleanup_stored sv name delete baseline record s s' (rr_record r)"
proof -
  obtain audited s1 record1 where f: "finish_cleanup_audit (cs_float sv) (cs_cwd sv) name baseline record s = Inr (audited, s1, record1)"
    and go: "(if delete \<and> no_errors record1
       then act_bind (on_store (\<lambda>s. res_bind (delete_audited_run (cs_float sv) (cs_cwd sv) name audited record1 s)
              (\<lambda>(gone, s', record'). Inr (record', s')))) (\<lambda>record2. act_return (result_of record2))
       else act_return (result_of record1)) (s1, h) = (Inr r, (s', h'))"
    using run by (auto simp: finish_cleanup_def act_bind_def on_store_def res_bind_Inr_iff split: sum.splits)
  have one: "no_errors record1"
    using go clean by (cases "delete \<and> no_errors record1") (auto simp: result_of_clean)
  note stored = finish_audit_clean [OF f one]
  show ?thesis
  proof (cases delete)
    case True
    then obtain gone record2 where d: "delete_audited_run (cs_float sv) (cs_cwd sv) name audited record1 s1 = Inr (gone, s', record2)"
      and r: "r = result_of record2"
      using go one by (auto simp: act_bind_def on_store_def res_bind_Inr_iff split: sum.splits)
    then have "no_errors record2" using clean by (simp add: result_of_clean)
    then show ?thesis using delete_audited_clean [OF d] stored one True r by (auto simp: cleanup_stored_def result_of_def)
  qed (use go one stored in \<open>auto simp: cleanup_stored_def result_of_def\<close>)
qed

text \<open>When no project fails in the preview, all of them are planned.\<close>

lemma preview_plans_all:
  "yields (\<lambda>(plans, errors). errors = [] \<longrightarrow> map fst plans = es) (preview_projects c url missing es)"
proof (induction es)
  case (Cons e es)
  show ?case
    unfolding preview_projects.simps
    by (rule yields_bind, rule yields_then [OF Cons.IH]) (auto split: sum.split)
qed simp

lemma freeze_entries [simp]: "map fst (freeze_project_refresh_scope plans) = map fst plans"
  by (simp add: freeze_project_refresh_scope_def comp_def case_prod_beta)

lemma preview_accepted:
  "yields (\<lambda>pv. \<not> pp_failed pv \<longrightarrow> (cleaner = None \<longrightarrow> rp_projects plan = []) \<and> map fst (pp_plans pv) = rp_projects plan)
     (preview_project_metadata cleaner plan missing blocked)"
proof -
  have planned: "yields (\<lambda>pv. \<not> pp_failed pv \<longrightarrow> map fst (pp_plans pv) = rp_projects plan)
      (act_bind (preview_projects c (rp_server_url plan) missing
            (filter (\<lambda>e. project_identity e \<notin> set blocked) (rp_projects plan))) (\<lambda>(plans, errors).
          let frozen = freeze_project_refresh_scope plans in
          act_return \<lparr>pp_plans = frozen, pp_failed = (blocked \<noteq> [] \<or> errors \<noteq> [] \<or> unplanned_issues frozen \<noteq> []),
            pp_errors = errors @ unplanned_issues frozen\<rparr>))" for c
    by (rule yields_then [OF preview_plans_all]) (auto simp: Let_def filter_id_conv)
  show ?thesis
  proof (cases "rp_projects plan = []")
    case False
    show ?thesis
      unfolding preview_project_metadata_def if_not_P [OF False]
      by (cases cleaner; simp only: option.case) (simp, rule yields_mono [OF planned], simp)
  qed (simp add: preview_project_metadata_def)
qed

text \<open>Everything that the plan names is gone, and no error was recorded.\<close>

definition all_removed :: "resource_plan \<Rightarrow> cleanup_report \<Rightarrow> bool" where
  "all_removed plan rep \<longleftrightarrow>
     report_errors rep = [] \<and> ct_plan rep = plan \<and> set (rp_sessions plan) \<subseteq> set (ct_sessions rep) \<and>
     set (rp_worktrees plan) \<subseteq> set (rm_worktrees (ct_removed rep)) \<and>
     identity_of ` set (rp_branches plan) \<subseteq> identity_of ` set (rm_branches (ct_removed rep)) \<and>
     set (rp_projects plan) \<subseteq> set (ct_projects rep) \<and> set (rp_logs plan) \<subseteq> set (rm_logs (ct_removed rep))"

lemma accounted_all_removed:
  assumes "grows_report rep rep'" and "sessions_accounted plan rep'" and "projects_accounted plans rep'"
    and "locally_accounted v plan (ct_removed rep')" and "explained v" and "report_errors rep = vd_errors v"
    and "ct_plan rep = plan" and "map fst plans = rp_projects plan" and "report_errors rep' = []"
  shows "all_removed plan rep'"
proof -
  have "vd_errors v = []" using assms(1,6,9) by (simp add: grows_report_def grows_def)
  then have v: "vd_worktrees v = []" "vd_branches v = []" "vd_logs v = []" using assms(5) by (simp_all add: explained_def)
  have projects: "set (rp_projects plan) = fst ` set plans" by (metis assms(8) set_map)
  have removed: "rm_errors (ct_removed rep') = []" by (rule assms(9))
  have "set (rp_sessions plan) \<subseteq> set (ct_sessions rep')" using assms(2) removed by (auto simp: sessions_accounted_def)
  moreover have "set (rp_projects plan) \<subseteq> set (ct_projects rep')"
    using assms(3) removed unfolding projects projects_accounted_def by auto
  moreover have "set (rp_worktrees plan) \<subseteq> set (rm_worktrees (ct_removed rep'))" "set (rp_logs plan) \<subseteq> set (rm_logs (ct_removed rep'))"
    using assms(4) v removed by (auto simp: locally_accounted_def worktree_accounted_def log_accounted_def)
  moreover have "identity_of ` set (rp_branches plan) \<subseteq> identity_of ` set (rm_branches (ct_removed rep'))"
  proof (intro image_subsetI)
    fix r assume "r \<in> set (rp_branches plan)"
    then have "\<exists>c \<in> set (rm_branches (ct_removed rep')). identity_of c = identity_of r"
      using assms(4) v removed by (auto simp: locally_accounted_def branch_accounted_def)
    then show "identity_of r \<in> identity_of ` set (rm_branches (ct_removed rep'))" by (metis image_eqI)
  qed
  ultimately show ?thesis using assms(1,7) removed by (simp add: all_removed_def grows_report_def)
qed

lemma report_no_errors: "no_errors (report_json rep) \<longleftrightarrow> report_errors rep = []"
  by (simp add: no_errors_def report_json_def dict_get_def)

lemma execute_clean:
  assumes run: "execute_cleanup sv host connect cleaner run plan pf plans q (s, h) = (Inr r, (s', h'))" and clean: "rr_exit_code r = 0"
    and pf: "explained (pf_verdicts pf)" and cl: "cleaner = None \<longrightarrow> rp_projects plan = []" and plans: "map fst plans = rp_projects plan"
  shows "\<exists>rep baseline s1. all_removed plan rep \<and> cleanup_stored sv (cq_name q) (rp_run_store plan) baseline (report_json rep) s1 s' (rr_record r)"
proof -
  let ?rep = "new_report ''apply'' ''done'' plan pf (map snd plans) (vd_errors (pf_verdicts pf))"
  obtain baseline s1 h1 rep' where rep': "remove_resources host connect cleaner plan pf plans (cq_force q) ?rep h = (Inr rep', h1)"
    and fin: "finish_cleanup sv (cq_name q) (rp_run_store plan) baseline (report_json rep') (s1, h1) = (Inr r, (s', h'))"
    using run by (auto simp: execute_cleanup_def Let_def act_bind_def on_store_def on_host_def split: sum.splits prod.splits)
  note ended = finish_cleanup_clean [OF fin clean]
  have "report_errors ?rep = vd_errors (pf_verdicts pf)" "ct_plan ?rep = plan" by (simp_all add: new_report_def)
  moreover have "report_errors rep' = []" using ended by (simp add: report_no_errors)
  ultimately have "all_removed plan rep'"
    using yieldsD [OF resources_accounted [OF cl plans] rep'] pf plans by (blast intro: accounted_all_removed)
  then show ?thesis using ended by blast
qed

text \<open>An applied cleanup that exits with 0 has removed everything that its plan names, and the result is stored.\<close>

lemma clean_exit:
  assumes run: "run_cleanup sv host connect cleaner q (s, h) = (Inr r, (s', h'))" and q: "cq_apply q" and clean: "rr_exit_code r = 0"
  shows "\<exists>run plan rep baseline s1. load_run (cs_float sv) (cs_cwd sv) (cq_name q) s = Inr run \<and> plan_resources run q = Inr plan \<and>
    all_removed plan rep \<and> cleanup_stored sv (cq_name q) (rp_run_store plan) baseline (report_json rep) s1 s' (rr_record r)"
proof -
  obtain run plan where loaded: "load_run (cs_float sv) (cs_cwd sv) (cq_name q) s = Inr run" "plan_resources run q = Inr plan"
    and "executed_plan sv host connect cleaner run plan q (s, h) (Inr r) (s', h')"
    using cleanup_path [OF serves_anything run] q clean by (auto simp: asked_only_def)
  then obtain pf h1 h2 and preview :: project_preview where pf: "preflight_cleanup host run plan (cq_force q) h = (Inr pf, h1)"
    and pv: "preview_project_metadata cleaner plan (assumed_missing plan pf) (pf_projects pf) h1 = (Inr preview, h2)"
    and ok: "\<not> pp_failed preview"
    and ex: "execute_cleanup sv host connect cleaner run plan pf (pp_plans preview) q (s, h2) = (Inr r, (s', h'))"
    by (auto simp: executed_plan_def)
  have "explained (pf_verdicts pf)" using yieldsD [OF explained_preflight pf] by simp
  then show ?thesis using execute_clean [OF ex clean] yieldsD [OF preview_accepted pv] ok loaded by blast
qed

end
