(* ===== verification/Cleanup_Audit.thy ===== *)
theory Cleanup_Audit
  imports Cleanup_Accounting Store_Totality
begin

text \<open>
  The audit of an applied cleanup: the run is fenced before the first removal; when the removals end, their record
  is stored in the run, or the run is deleted; when they raise, the run stays fenced.
\<close>

section \<open>Comparing runs\<close>

lemma worker_eq_returns: "wf_worker w \<Longrightarrow> wf_worker v \<Longrightarrow> \<exists>b. worker_eq w v = Inr b"
  by (simp add: worker_eq_def to_snapshot_wf)

lemma workers_eq_returns:
  assumes "workers_ok ws" and "workers_ok vs"
  shows "\<exists>b. workers_eq ws vs = Inr b"
proof -
  let ?f = "\<lambda>eq (i, w). if \<not> eq then Inr False
        else case map_of vs i of None \<Rightarrow> Inr False | Some v \<Rightarrow> worker_eq w v"
  have "\<exists>b'. res_fold ?f b us = Inr b'" if "\<forall>(i, w) \<in> set us. wf_worker w" for us b
    using that
  proof (induction us arbitrary: b)
    case (Cons iw us)
    obtain i w where iw: "iw = (i, w)" by (cases iw)
    have "wf_worker v" if "map_of vs i = Some v" for v
      using map_of_SomeD [OF that] assms(2) by (auto simp: workers_ok_def)
    then have "\<exists>b1. ?f b (i, w) = Inr b1"
      using Cons.prems worker_eq_returns by (auto simp: iw split: option.split)
    then show ?case using Cons.IH Cons.prems by (auto simp: iw)
  qed simp
  moreover have "\<forall>(i, w) \<in> set ws. wf_worker w" using assms(1) by (auto simp: workers_ok_def)
  ultimately show ?thesis unfolding workers_eq_def by (cases "length ws = length vs") (simp_all only: if_False if_True not_False_eq_True not_True_eq_False simp_thms, blast+)
qed

lemma runs_equal_returns: "good_run n a \<Longrightarrow> good_run m c \<Longrightarrow> \<exists>b. runs_equal a c = Inr b"
  using workers_eq_returns [of "rn_workers a" "rn_workers c"] by (auto simp: runs_equal_def good_run_def wf_run_def)

section \<open>Storing the record\<close>

definition cleanup_of :: "run_record \<Rightarrow> json" where
  "cleanup_of run = dict_get (rn_fields run) ''resource_cleanup''"

lemma set_cleanup_good: "good_run n r \<Longrightarrow> good_run n (set_cleanup record r)"
  unfolding set_cleanup_def by (rule good_set_run_field) simp_all

lemma set_cleanup_same: "same_resources r (set_cleanup record r)"
  by (simp add: same_resources_def set_cleanup_def set_run_field_def)

lemma normalized_cleanup:
  assumes "normalize_run_fields cwd fallback run = Inr d" and "dict_get run ''resource_cleanup'' = JObj c"
  shows "dict_get d ''resource_cleanup'' = JObj c"
proof -
  obtain r where r: "normalize_resources fallback (normalize_base_fields cwd fallback run) = Inr r"
    and d: "d = set_default ''updated_at'' JNull (set_default ''created_at'' JNull (normalize_cleanup r))"
    using assms(1) by (rule normalize_run_fieldsE)
  have "dict_get r ''resource_cleanup'' = JObj c"
    using normalize_resources_facts(1) [OF r] base_fields_frame(1) [of "''resource_cleanup''" cwd fallback run] assms(2)
    by (simp add: base_field_names_def)
  then show ?thesis by (simp add: d normalize_cleanup_def)
qed

text \<open>The store with the record of a cleanup in a run\<close>

definition holds_cleanup :: "cleanup_service \<Rightarrow> string \<Rightarrow> run_store \<Rightarrow> run_record \<Rightarrow> jdict \<Rightarrow> bool" where
  "holds_cleanup sv name s run record \<longleftrightarrow>
     sound_store s \<and> load_run (cs_float sv) (cs_cwd sv) name s = Inr run \<and> good_run name run \<and> cleanup_of run = JObj record"

lemma store_cleanup:
  assumes s: "sound_store s" "load_run (cs_float sv) (cs_cwd sv) name s = Inr run"
    and m: "\<And>r r1. m r = Inr r1 \<Longrightarrow> r1 = set_cleanup record r"
    and u: "update_run (cs_float sv) (cs_cwd sv) name m True s = Inr (run', s')"
  shows "holds_cleanup sv name s' run' record"
proof (rule update_run_sound [where cwd' = "cs_cwd sv", OF u s(1)])
  show "keeps_run name m" by (rule keeps_runI) (use m set_cleanup_good in blast)
  fix r r1
  assume "m r = Inr r1" "normalize_run_fields (cs_cwd sv) name (rn_fields r1) = Inr (rn_fields run')" "good_run name run'"
    "sound_store s'" "load_run (cs_float sv) (cs_cwd sv) name s' = Inr run'"
  moreover from this(1) have "r1 = set_cleanup record r" by (rule m)
  then have "dict_get (rn_fields r1) ''resource_cleanup'' = JObj record"
    by (simp add: set_cleanup_def set_run_field_def)
  ultimately show ?thesis using normalized_cleanup by (auto simp: holds_cleanup_def cleanup_of_def)
qed

lemma store_failed_returns:
  assumes s: "sound_store s" "load_run (cs_float sv) (cs_cwd sv) name s = Inr run"
  shows "\<exists>run' s'. store_failed_audit (cs_float sv) (cs_cwd sv) name record s = Inr (run', s') \<and> holds_cleanup sv name s' run' record"
proof -
  let ?m = "\<lambda>latest. Inr (set_cleanup record latest)"
  have keeps: "keeps_run name ?m" by (rule keeps_runI) (auto intro: set_cleanup_good)
  have "\<exists>run' s'. update_run (cs_float sv) (cs_cwd sv) name ?m True s = Inr (run', s')"
    by (rule update_run_returns [OF s _ keeps refl set_cleanup_same]) simp
  then obtain run' s' where u: "update_run (cs_float sv) (cs_cwd sv) name ?m True s = Inr (run', s')" by blast
  moreover have "holds_cleanup sv name s' run' record" by (rule store_cleanup [OF s _ u]) simp
  ultimately show ?thesis by (auto simp: store_failed_audit_def)
qed

text \<open>An audit stores its record, or it finds a run that is not the expected one.\<close>

lemma audit_cases:
  assumes s: "sound_store s" "load_run (cs_float sv) (cs_cwd sv) name s = Inr run" and e: "good_run name expected"
  obtains run' s' where "update_if_unchanged (cs_float sv) (cs_cwd sv) name expected new s = Inr (run', s')"
      and "holds_cleanup sv name s' run' new"
  | "update_if_unchanged (cs_float sv) (cs_cwd sv) name expected new s = Inl stale_plan_error"
proof -
  let ?m = "\<lambda>latest. res_bind (runs_equal latest expected) (\<lambda>same. if same then Inr (set_cleanup new latest) else Inl stale_plan_error)"
  have m: "r1 = set_cleanup new r" if "?m r = Inr r1" for r r1
    using that by (auto simp: res_bind_Inr_iff split: if_splits)
  have run: "good_run name run" by (rule load_run_good(1) [OF s])
  obtain b where b: "runs_equal run expected = Inr b" using runs_equal_returns [OF run e] by blast
  show thesis
  proof (cases b)
    case True
    have keeps: "keeps_run name ?m" by (rule keeps_runI) (use m set_cleanup_good in blast)
    have mr: "?m run = Inr (set_cleanup new run)" using b True by simp
    have "\<exists>run' s'. update_run (cs_float sv) (cs_cwd sv) name ?m True s = Inr (run', s')"
      by (rule update_run_returns [OF s _ keeps mr set_cleanup_same]) simp
    then obtain run' s' where u: "update_run (cs_float sv) (cs_cwd sv) name ?m True s = Inr (run', s')" by blast
    show thesis
      by (rule that(1) [OF _ store_cleanup [OF s m u]]) (simp add: update_if_unchanged_def u)
  next
    case False
    obtain d where "read_run_data s name = Inr d" "normalize_run (cs_float sv) (cs_cwd sv) name d = Inr run"
      using s(2) by (auto simp: load_run_def normalize_for_store_def res_bind_Inr_iff)
    then have "update_run (cs_float sv) (cs_cwd sv) name ?m True s = Inl stale_plan_error"
      using s(2) b False by (simp add: update_run_def load_run_def)
    then show thesis using that(2) by (simp add: update_if_unchanged_def)
  qed
qed

text \<open>A run that compares equal to itself is stored with its record.\<close>

lemma set_cleanup_normal: "normal_fields (rn_fields r) \<Longrightarrow> normal_fields (rn_fields (set_cleanup new r))"
  by (simp add: normal_fields_def set_cleanup_def set_run_field_def)

lemma audit_stores:
  assumes s: "sound_store s" "load_run (cs_float sv) (cs_cwd sv) name s = Inr run" and same: "runs_equal run run = Inr True"
  shows "\<exists>s'. update_if_unchanged (cs_float sv) (cs_cwd sv) name run new s = Inr (set_cleanup new run, s') \<and>
    sound_store s' \<and> load_run (cs_float sv) (cs_cwd sv) name s' = Inr (set_cleanup new run)"
proof -
  let ?m = "\<lambda>latest. res_bind (runs_equal latest run) (\<lambda>same. if same then Inr (set_cleanup new latest) else Inl stale_plan_error)"
  note good = load_run_good [OF s]
  have keeps: "keeps_run name ?m" by (rule keeps_runI) (auto simp: res_bind_Inr_iff set_cleanup_good split: if_splits)
  have mr: "?m run = Inr (set_cleanup new run)" using same by simp
  have "\<exists>run' s'. update_run (cs_float sv) (cs_cwd sv) name ?m True s = Inr (run', s')"
    by (rule update_run_returns [OF s _ keeps mr set_cleanup_same]) simp
  then obtain run' s' where u: "update_run (cs_float sv) (cs_cwd sv) name ?m True s = Inr (run', s')" by blast
  then show ?thesis
  proof (rule update_run_sound [where cwd' = "cs_cwd sv", OF _ s(1) keeps])
    fix r r1
    assume l: "load_run (cs_float sv) (cs_cwd sv) name s = Inr r" and r1: "?m r = Inr r1"
      and n: "normalize_run_fields (cs_cwd sv) name (rn_fields r1) = Inr (rn_fields run')" and ws: "rn_workers run' = rn_workers r1"
      and s': "sound_store s'" "load_run (cs_float sv) (cs_cwd sv) name s' = Inr run'"
    have "r = run" using l s(2) by simp
    then have "r1 = set_cleanup new run" using r1 same by (simp add: res_bind_Inr_iff)
    moreover from this have "rn_fields run' = rn_fields r1"
      using n normal_fields_fixed [OF set_cleanup_normal [OF good(2)]] by simp
    ultimately have "run' = set_cleanup new run" using ws by (intro run_record.equality) simp_all
    then show ?thesis using u s' by (simp add: update_if_unchanged_def)
  qed
qed

text \<open>The records of a report can be extended by an error of the store.\<close>

definition has_errors_field :: "jdict \<Rightarrow> bool" where
  "has_errors_field record \<longleftrightarrow> (\<exists>es c. map_of record ''errors'' = Some (JList es) \<and> map_of record ''completed'' = Some (JObj c))"

lemma store_error_returns: "has_errors_field record \<Longrightarrow> \<exists>failed. record_store_error record msg = Inr failed"
  by (auto simp: has_errors_field_def record_store_error_def append_error_def any_completed_def)

lemma report_has_errors: "has_errors_field (report_json rep)"
  by (simp add: has_errors_field_def report_json_def completed_json_def)

text \<open>On a sound store the end of a cleanup returns; its record is stored, or the run is deleted.\<close>

definition cleanup_recorded :: "cleanup_service \<Rightarrow> string \<Rightarrow> bool \<Rightarrow> run_store \<Rightarrow> run_cleanup_result \<Rightarrow> bool" where
  "cleanup_recorded sv name delete s x \<longleftrightarrow>
     (\<exists>run. holds_cleanup sv name s run (rr_record x)) \<or>
     delete \<and> rr_exit_code x = 0 \<and> dict_get (rr_record x) ''run_store_deleted'' = JBool True \<and> map_of (rs_files s) name = None"

lemma holds_recorded: "holds_cleanup sv name s run record \<Longrightarrow> cleanup_recorded sv name delete s (result_of record)"
  by (auto simp: cleanup_recorded_def result_of_def)

lemma finish_audit_returns:
  assumes s: "sound_store s" "load_run (cs_float sv) (cs_cwd sv) name s = Inr run" and e: "good_run name expected"
    and f: "has_errors_field record"
  shows "\<exists>run' s' record'. finish_cleanup_audit (cs_float sv) (cs_cwd sv) name expected record s = Inr (run', s', record') \<and>
    holds_cleanup sv name s' run' record' \<and> (no_errors record' \<longrightarrow> record' = record)"
  using s e
proof (cases rule: audit_cases [where new = "record"])
  case (1 run' s')
  then show ?thesis by (simp add: finish_cleanup_audit_def)
next
  case 2
  obtain failed where failed: "record_store_error record ''run record changed during cleanup; refusing to use the stale cleanup plan'' = Inr failed"
    using store_error_returns [OF f] by blast
  obtain run' s' where "store_failed_audit (cs_float sv) (cs_cwd sv) name failed s = Inr (run', s')" "holds_cleanup sv name s' run' failed"
    using store_failed_returns [OF s] by blast
  then show ?thesis
    using record_store_error_errors [OF failed] failed 2
    by (simp add: finish_cleanup_audit_def stale_plan_error_def store_error_def)
qed

lemma delete_audited_returns:
  assumes h: "holds_cleanup sv name s run record" and f: "has_errors_field record"
  shows "\<exists>gone s' record'. delete_audited_run (cs_float sv) (cs_cwd sv) name run record s = Inr (gone, s', record') \<and>
    ((\<exists>run'. holds_cleanup sv name s' run' record') \<or>
     record' = dict_set ''run_store_deleted'' (JBool True) record \<and> map_of (rs_files s') name = None)"
proof -
  have s: "sound_store s" "load_run (cs_float sv) (cs_cwd sv) name s = Inr run" and run: "good_run name run"
    using h by (simp_all add: holds_cleanup_def)
  have path: "run_path name = Inr name" and there: "map_of (rs_files s) name \<noteq> None"
    using s(2) by (auto simp: load_run_def res_bind_Inr_iff read_run_data_Inr run_path_def)
  obtain b where b: "runs_equal run run = Inr b" using runs_equal_returns [OF run run] by blast
  show ?thesis
  proof (cases b)
    case True
    then show ?thesis using there by (auto simp: delete_audited_run_def delete_run_def path s(2) b)
  next
    case False
    obtain failed where failed: "record_store_error record ''run record changed before deletion; refusing to delete the updated record'' = Inr failed"
      using store_error_returns [OF f] by blast
    obtain run' s' where "store_failed_audit (cs_float sv) (cs_cwd sv) name failed s = Inr (run', s')" "holds_cleanup sv name s' run' failed"
      using store_failed_returns [OF s] by blast
    then show ?thesis
      using False failed by (auto simp: delete_audited_run_def delete_run_def path s(2) b stale_delete_error_def store_error_def)
  qed
qed

lemma deleted_flag: "no_errors (dict_set ''run_store_deleted'' (JBool True) record) \<longleftrightarrow> no_errors record"
  by (simp add: no_errors_def)

lemma finish_cleanup_returns:
  assumes s: "sound_store s" "load_run (cs_float sv) (cs_cwd sv) name s = Inr run" and e: "good_run name expected"
    and f: "has_errors_field record"
  shows "\<exists>x s'. finish_cleanup sv name delete expected record (s, h) = (Inr x, (s', h)) \<and> cleanup_recorded sv name delete s' x"
proof -
  obtain run1 s1 record1 where a: "finish_cleanup_audit (cs_float sv) (cs_cwd sv) name expected record s = Inr (run1, s1, record1)"
    and held: "holds_cleanup sv name s1 run1 record1" and clean: "no_errors record1 \<longrightarrow> record1 = record"
    using finish_audit_returns [OF s e f] by blast
  show ?thesis
  proof (cases "delete \<and> no_errors record1")
    case False
    then show ?thesis using held by (auto simp: finish_cleanup_def act_bind_def on_store_def a intro: holds_recorded)
  next
    case True
    then have "has_errors_field record1" using clean f by simp
    then obtain gone s2 record2 where d: "delete_audited_run (cs_float sv) (cs_cwd sv) name run1 record1 s1 = Inr (gone, s2, record2)"
      and two: "(\<exists>run'. holds_cleanup sv name s2 run' record2) \<or>
        record2 = dict_set ''run_store_deleted'' (JBool True) record1 \<and> map_of (rs_files s2) name = None"
      using delete_audited_returns [OF held] by blast
    have "finish_cleanup sv name delete expected record (s, h) = (Inr (result_of record2), (s2, h))"
      using True by (simp add: finish_cleanup_def act_bind_def on_store_def a d)
    moreover have "cleanup_recorded sv name delete s2 (result_of record2)"
      using two True by (auto intro: holds_recorded simp: cleanup_recorded_def result_of_def deleted_flag)
    ultimately show ?thesis by blast
  qed
qed

section \<open>The whole cleanup\<close>

text \<open>The run stays fenced.\<close>

definition left_fenced :: "cleanup_service \<Rightarrow> string \<Rightarrow> run_store \<Rightarrow> bool" where
  "left_fenced sv name s \<longleftrightarrow> (\<exists>run. load_run (cs_float sv) (cs_cwd sv) name s = Inr run \<and> cleanup_in_progress run)"

lemma begin_audit_holds:
  assumes s: "sound_store s" "load_run (cs_float sv) (cs_cwd sv) name s = Inr run" and e: "good_run name expected"
    and b: "begin_cleanup_audit (cs_float sv) (cs_cwd sv) name expected record s = Inr (baseline, s')"
  shows "holds_cleanup sv name s' baseline (dict_set ''status'' (JStr ''in_progress'') record)"
  using s e
  by (cases rule: audit_cases [where new = "dict_set ''status'' (JStr ''in_progress'') record"])
    (use b in \<open>auto simp: begin_cleanup_audit_def\<close>)

lemma execute_audited:
  assumes s: "sound_store s" "load_run (cs_float sv) (cs_cwd sv) (cq_name q) s = Inr run"
    and ex: "execute_cleanup sv host connect cleaner run plan pf plans q (s, h) = (r, (s', h'))"
  shows "case r of
      Inr x \<Rightarrow> cleanup_recorded sv (cq_name q) (rp_run_store plan) s' x
    | Inl e \<Rightarrow> s' = s \<or> left_fenced sv (cq_name q) s'"
proof -
  let ?rep = "new_report ''apply'' ''done'' plan pf (map snd plans) (vd_errors (pf_verdicts pf))"
  show ?thesis
  proof (cases "begin_cleanup_audit (cs_float sv) (cs_cwd sv) (cq_name q) run (report_json ?rep) s")
    case (Inl e)
    then show ?thesis using ex by (auto simp: execute_cleanup_def Let_def act_bind_def on_store_def)
  next
    case (Inr bs)
    obtain baseline s1 where bs: "bs = (baseline, s1)" by (cases bs)
    have held: "holds_cleanup sv (cq_name q) s1 baseline (dict_set ''status'' (JStr ''in_progress'') (report_json ?rep))"
      by (rule begin_audit_holds [OF s load_run_good(1) [OF s]]) (simp add: Inr bs)
    then have base: "sound_store s1" "load_run (cs_float sv) (cs_cwd sv) (cq_name q) s1 = Inr baseline" "good_run (cq_name q) baseline"
      by (simp_all add: holds_cleanup_def)
    obtain y h1 where y: "remove_resources host connect cleaner plan pf plans (cq_force q) ?rep h = (y, h1)"
      by (cases "remove_resources host connect cleaner plan pf plans (cq_force q) ?rep h")
    show ?thesis
    proof (cases y)
      case (Inl e)
      then have "r = Inl e \<and> s' = s1" using ex by (simp add: execute_cleanup_def Let_def act_bind_def on_store_def on_host_def Inr bs y)
      moreover have "left_fenced sv (cq_name q) s1"
        using held by (auto simp: left_fenced_def holds_cleanup_def cleanup_of_def cleanup_in_progress_def)
      ultimately show ?thesis by simp
    next
      case rep: (Inr rep)
      have "finish_cleanup sv (cq_name q) (rp_run_store plan) baseline (report_json rep) (s1, h1) = (r, (s', h'))"
        using ex by (simp add: execute_cleanup_def Let_def act_bind_def on_store_def on_host_def Inr bs y rep)
      moreover obtain s2 and x :: run_cleanup_result where "finish_cleanup sv (cq_name q) (rp_run_store plan) baseline (report_json rep) (s1, h1) = (Inr x, (s2, h1))"
        and "cleanup_recorded sv (cq_name q) (rp_run_store plan) s2 x"
        using finish_cleanup_returns [where delete = "rp_run_store plan" and h = h1, OF base report_has_errors [of rep]] by blast
      ultimately show ?thesis by auto
    qed
  qed
qed

text \<open>
  A cleanup leaves the store alone, or it is recorded in the run or deletes it when it returns, and leaves the run
  fenced when it raises.
\<close>

lemma cleanup_audited:
  assumes s: "sound_store s" and run: "run_cleanup sv host connect cleaner q (s, h) = (r, (s', h'))"
  shows "s' = s \<or> cq_apply q \<and> (case r of
      Inr x \<Rightarrow> cleanup_recorded sv (cq_name q) (cq_run_store q) s' x | Inl e \<Rightarrow> left_fenced sv (cq_name q) s')"
  using cleanup_path [OF serves_anything run]
proof (elim disjE exE conjE)
  fix run plan
  assume l: "load_run (cs_float sv) (cs_cwd sv) (cq_name q) s = Inr run" and p: "plan_resources run q = Inr plan"
    and "executed_plan sv host connect cleaner run plan q (s, h) r (s', h')"
  then obtain pf h2 and preview :: project_preview where "cq_apply q"
    and ex: "execute_cleanup sv host connect cleaner run plan pf (pp_plans preview) q (s, h2) = (r, (s', h'))"
    by (auto simp: executed_plan_def)
  moreover have "rp_run_store plan = cq_run_store q" using p by (auto simp: plan_resources_def res_bind_Inr_iff)
  ultimately show ?thesis using execute_audited [OF s l ex] by (cases r) auto
qed (simp add: asked_only_def)

end
