(* ===== verification/Project_Facts.thy ===== *)
theory Project_Facts
  imports Project_Metadata Cleanup_Accounting
begin

text \<open>
  What the cleanup of project metadata establishes: a plan that is applied with the status done was verified
  against the answers of the server, and a refresh is asked only within the directories that it may drop.
\<close>

section \<open>The plan is kept\<close>

definition same_plan :: "project_outcome \<Rightarrow> project_outcome \<Rightarrow> bool" where
  "same_plan a b \<longleftrightarrow>
     oc_project_id b = oc_project_id a \<and> oc_directory_prefix b = oc_directory_prefix a \<and>
     oc_planned_directories b = oc_planned_directories a \<and>
     oc_planned_project_directories b = oc_planned_project_directories a \<and> oc_planned_workspaces b = oc_planned_workspaces a"

lemma same_plan_refl [simp]: "same_plan a a"
  by (simp add: same_plan_def)

lemma same_plan_trans: "same_plan a b \<Longrightarrow> same_plan b c \<Longrightarrow> same_plan a c"
  by (simp add: same_plan_def)

lemma same_plan_updates [simp]:
  "same_plan a (add_outcome_error e b) = same_plan a b" "same_plan a (add_unsupported n b) = same_plan a b"
  "same_plan a (b\<lparr>oc_unrelated_stale_directories := ds\<rparr>) = same_plan a b" "same_plan a (b\<lparr>oc_refreshed := f\<rparr>) = same_plan a b"
  "same_plan a (b\<lparr>oc_removed_workspaces := ws\<rparr>) = same_plan a b" "same_plan a (b\<lparr>oc_mode := mode\<rparr>) = same_plan a b"
  by (simp_all add: same_plan_def add_outcome_error_def add_unsupported_def)

lemma refresh_same_plan: "yields (same_plan out) (refresh_project_copies m out)"
  unfolding refresh_project_copies_def by (auto intro!: yields_bind simp: Let_def split: sum.split)

lemma remove_planned_same_plan: "yields (same_plan out) (remove_planned_workspace m current p out)"
  unfolding remove_planned_workspace_def by (auto intro!: yields_bind split: option.split sum.split)

lemma remove_workspaces_same_plan: "yields (same_plan out) (remove_workspaces m out)"
proof -
  have "yields (same_plan o1) (remove_planned_workspaces m current ps o1)" for current ps o1
  proof (induction ps arbitrary: o1)
    case (Cons p ps)
    show ?case
      unfolding remove_planned_workspaces.simps
      by (rule yields_then [OF remove_planned_same_plan], rule yields_mono [OF Cons.IH]) (rule same_plan_trans)
  qed simp
  then show ?thesis unfolding remove_workspaces_def by (auto intro!: yields_bind)
qed

section \<open>Verification\<close>

text \<open>The server was asked for the sandboxes, directories and workspaces, and the outcome was compared with them.\<close>

definition verified_from :: "'h metadata \<Rightarrow> project_outcome \<Rightarrow> project_outcome \<Rightarrow> bool" where
  "verified_from m plan out \<longleftrightarrow>
     (\<exists>h0 h1 h2 sandboxes ds ws before. list_project_directories m (oc_project_id plan) JNull h0 = (Inr ds, h1) \<and> same_plan plan before \<and>
        out = verified_outcome (md_host m) sandboxes (directory_values ds) ws before h2)"

lemma verify_verified:
  assumes plan: "same_plan plan out"
  shows "yields (verified_from m plan) (verify_outcome m out)"
proof -
  have i: "oc_project_id out = oc_project_id plan" using plan by (simp add: same_plan_def)
  have ds: "yields (\<lambda>ds. \<exists>h0 h1. list_project_directories m (oc_project_id plan) JNull h0 = (Inr ds, h1))
      (list_project_directories m (oc_project_id plan) JNull)"
    by (rule yieldsI) blast
  show ?thesis
    unfolding verify_outcome_def i
    by (rule yields_bind, rule yields_bind, rule yields_then [OF ds], rule yields_bind, rule yields_bind, rule yields_read)
      (use plan in \<open>unfold verified_from_def, blast\<close>)
qed

lemma done_is_clean: "final_status out = ''done'' \<Longrightarrow> oc_errors out = [] \<and> oc_unsupported out = [] \<and> nothing_remains out"
  by (simp add: final_status_def split: if_splits)

lemma sorted_set_members [simp]: "set (sorted_set vs) = set vs"
  by (simp add: sorted_set_def)

lemma sorted_set_empty [simp]: "sorted_set vs = [] \<longleftrightarrow> vs = []"
  by (metis set_empty sorted_set_members)

lemma normalized_append: "normalized_all host (vs @ ws) h = normalized_all host vs h @ normalized_all host ws h"
  by (simp add: normalized_all_def map_filter_def)

text \<open>When nothing remains, everything that was planned is verified.\<close>

lemma nothing_remains_verified:
  assumes "nothing_remains (verified_outcome host sandboxes ds ws out h)"
  shows "set (oc_planned_directories out) \<subseteq> set (oc_verified_directories (verified_outcome host sandboxes ds ws out h)) \<and>
    wp_id ` set (oc_planned_workspaces out) \<subseteq> set (oc_verified_workspaces (verified_outcome host sandboxes ds ws out h)) \<and>
    (\<forall>p \<in> set (normalized_all host (sandboxes @ ds) h). p \<notin> set (oc_planned_directories out) \<and> \<not> is_stale host [] (oc_directory_prefix out) p h)"
proof -
  have none: "remaining_paths host out sandboxes h = []" "remaining_paths host out ds h = []"
    "List.map_filter (\<lambda>w. remaining_workspace host (oc_directory_prefix out) w h) ws = []"
    using assms by (simp_all add: nothing_remains_def verified_outcome_def Let_def add_unsupported_def split: if_splits)
      (metis length_0_conv length_map length_sort)+
  show ?thesis using none by (auto simp: normalized_append verified_outcome_def Let_def remaining_paths_def filter_empty_conv)
qed

lemma verified_same_plan: "same_plan out (verified_outcome host sandboxes ds ws out h)"
  by (simp add: verified_outcome_def Let_def same_plan_def add_unsupported_def)

text \<open>What an outcome with the status done shows\<close>

definition project_cleaned :: "'h metadata \<Rightarrow> project_outcome \<Rightarrow> project_outcome \<Rightarrow> bool" where
  "project_cleaned m plan out \<longleftrightarrow>
     set (oc_planned_directories plan) \<subseteq> set (oc_verified_directories out) \<and>
     wp_id ` set (oc_planned_workspaces plan) \<subseteq> set (oc_verified_workspaces out) \<and>
     (\<exists>h0 h1 h2 ds. list_project_directories m (oc_project_id plan) JNull h0 = (Inr ds, h1) \<and>
       (\<forall>p \<in> set (normalized_all (md_host m) (directory_values ds) h2).
          p \<notin> set (oc_planned_directories plan) \<and> \<not> is_stale (md_host m) [] (oc_directory_prefix plan) p h2))"

lemma verified_cleaned:
  assumes "verified_from m plan out" and "nothing_remains out"
  shows "project_cleaned m plan out"
proof -
  from assms(1) obtain h0 h1 h2 sandboxes ds ws before where ds: "list_project_directories m (oc_project_id plan) JNull h0 = (Inr ds, h1)"
    and plan: "same_plan plan before" and out: "out = verified_outcome (md_host m) sandboxes (directory_values ds) ws before h2"
    unfolding verified_from_def by blast
  have v: "set (oc_planned_directories plan) \<subseteq> set (oc_verified_directories out)"
      "wp_id ` set (oc_planned_workspaces plan) \<subseteq> set (oc_verified_workspaces out)"
      "\<forall>p \<in> set (normalized_all (md_host m) (directory_values ds) h2).
         p \<notin> set (oc_planned_directories plan) \<and> \<not> is_stale (md_host m) [] (oc_directory_prefix plan) p h2"
    using nothing_remains_verified [OF assms(2) [unfolded out]] plan by (simp_all add: out same_plan_def normalized_append)
  then show ?thesis using ds unfolding project_cleaned_def by blast
qed

lemma cleaned_status [simp]: "project_cleaned m plan (out\<lparr>oc_status := st\<rparr>) = project_cleaned m plan out"
  by (simp add: project_cleaned_def)

lemma project_done: "yields (\<lambda>out. oc_status out = ''done'' \<longrightarrow> project_cleaned m plan out) (apply_project_plan m plan)"
proof -
  have start: "same_plan plan (plan\<lparr>oc_mode := ''apply''\<rparr>)" by simp
  have verify: "yields (\<lambda>answer. case answer of Inl e \<Rightarrow> True | Inr out \<Rightarrow> verified_from m plan out) (try_api (verify_outcome m out))"
    if "same_plan plan out" for out
    unfolding try_api_def
    by (rule yieldsI) (auto elim!: act_catchE act_bindE dest!: yieldsD [OF verify_verified [OF that]] split: py_error.splits if_splits)
  have final: "oc_status (out3\<lparr>oc_status := final_status out3\<rparr>) = ''done'' \<longrightarrow> project_cleaned m plan (out3\<lparr>oc_status := final_status out3\<rparr>)"
    if "answer = Inr out3 \<and> verified_from m plan out3 \<or> (\<exists>e b. out3 = add_outcome_error e b)" for answer :: "string + project_outcome" and out3
    using that verified_cleaned done_is_clean [of out3] by (auto simp: add_outcome_error_def)
  show ?thesis
    unfolding apply_project_plan_def
  proof (rule yields_then [OF refresh_same_plan], rule yields_then [OF remove_workspaces_same_plan])
    fix out1 out2 assume "same_plan (plan\<lparr>oc_mode := ''apply''\<rparr>) out1" "same_plan out1 out2"
    then have "same_plan plan out2" by (simp add: same_plan_def)
    note verified = verify [OF this]
    show "yields (\<lambda>out. oc_status out = ''done'' \<longrightarrow> project_cleaned m plan out)
        (act_bind (try_api (verify_outcome m out2)) (\<lambda>answer.
         let out3 = (case answer of
             Inr out \<Rightarrow> out
           | Inl msg \<Rightarrow> add_outcome_error [(''operation'', JStr ''verify''), (''error'', JStr msg)] out2) in
         act_return (out3\<lparr>oc_status := final_status out3\<rparr>)))"
    proof (rule yields_then [OF verified])
      fix answer :: "string + project_outcome"
      assume "case answer of Inl e \<Rightarrow> True | Inr out \<Rightarrow> verified_from m plan out"
      then show "yields (\<lambda>out. oc_status out = ''done'' \<longrightarrow> project_cleaned m plan out)
          (let out3 = (case answer of
               Inr out \<Rightarrow> out
             | Inl msg \<Rightarrow> add_outcome_error [(''operation'', JStr ''verify''), (''error'', JStr msg)] out2) in
           act_return (out3\<lparr>oc_status := final_status out3\<rparr>))"
        using final by (cases answer) (auto simp: Let_def)
    qed
  qed
qed

section \<open>The scope of a refresh\<close>

lemma refresh_scoped:
  assumes "refresh_project_copies m out h = (Inr out', h')" and "oc_refreshed out'" and "\<not> oc_refreshed out"
  shows "\<exists>ds h1. list_project_directories m (oc_project_id out) JNull h = (Inr ds, h1) \<and>
    set (missing_paths (md_host m) (directory_values ds) h1) \<subseteq> set (allowed_refresh out)"
  using assms unfolding refresh_project_copies_def
  by (elim act_bindE) (auto simp: Let_def filter_empty_conv add_unsupported_def add_outcome_error_def elim!: act_bindE split: if_splits sum.splits)

end
