(* ===== verification/Ownership_Facts.thy ===== *)
theory Ownership_Facts
  imports Owned_Resources
begin

text \<open>
  A resource that is registered verifies as owned while the host stays as it was. The verification normalises the
  recorded paths again, so the lemmas on paths come first: a path is its root and its parts.
\<close>

section \<open>Paths\<close>

definition proper_parts :: "string list \<Rightarrow> bool" where
  "proper_parts parts \<longleftrightarrow> (\<forall>s \<in> set parts. s \<noteq> [] \<and> s \<noteq> ''.'' \<and> CHR ''/'' \<notin> set s)"

definition path_roots :: "string set" where
  "path_roots = {[], ''/'', ''//''}"

lemma proper_path_parts [simp]: "proper_parts (path_parts p)"
  using split_on_pieces [of "CHR ''/''" p] by (auto simp: proper_parts_def path_parts_def)

lemma path_root_roots [simp]: "path_root p \<in> path_roots"
  by (simp add: path_root_def path_roots_def)

lemma parts_of_slash [simp]: "path_parts (CHR ''/'' # p) = path_parts p"
  by (simp add: path_parts_def)

lemma parts_of_join: "proper_parts parts \<Longrightarrow> path_parts (join_with ''/'' parts) = parts"
  by (cases "parts = []") (auto simp: path_parts_def split_on_join proper_parts_def filter_id_conv)

lemma parts_of_empty [simp]: "path_parts [] = []" "path_parts ''.'' = []"
  by (simp_all add: path_parts_def)

lemma parts_of_make: "proper_parts parts \<Longrightarrow> r \<in> path_roots \<Longrightarrow> path_parts (make_path r parts) = parts"
  using parts_of_join [of parts] by (auto simp: make_path_def Let_def path_roots_def)

lemma join_starts_plain: "proper_parts parts \<Longrightarrow> \<not> starts_with (join_with ''/'' parts) (CHR ''/'' # s)"
  by (induction parts rule: join_with.induct [of _ "''/''"]) (auto simp: proper_parts_def neq_Nil_conv)

lemma root_of_make: "proper_parts parts \<Longrightarrow> r \<in> path_roots \<Longrightarrow> path_root (make_path r parts) = r"
  using join_starts_plain [of parts] by (auto simp: make_path_def Let_def path_roots_def path_root_def)

lemma path_text_make [simp]: "proper_parts parts \<Longrightarrow> r \<in> path_roots \<Longrightarrow> path_text (make_path r parts) = make_path r parts"
  by (simp add: path_text_def parts_of_make root_of_make)

lemma path_text_idem [simp]: "path_text (path_text p) = path_text p"
  by (simp add: path_text_def [of p])

lemma proper_butlast: "proper_parts parts \<Longrightarrow> proper_parts (butlast parts)"
  by (auto simp: proper_parts_def dest: in_set_butlastD)

lemma path_text_parent [simp]: "path_text (path_parent p) = path_parent p"
  by (simp add: path_parent_def proper_butlast)

lemma path_text_join [simp]: "path_text (path_join p q) = path_join p q"
proof -
  have "proper_parts (path_parts p @ path_parts q)"
    using proper_path_parts [of p] proper_path_parts [of q] by (auto simp: proper_parts_def)
  then show ?thesis by (simp add: path_join_def)
qed

lemma safe_path_text: "safe_owned_path v label = Inr path \<Longrightarrow> path_text path = path"
  by (auto simp: safe_owned_path_def Let_def split: json.splits if_splits)

section \<open>Logs and project copies\<close>

lemma log_registration:
  assumes reg: "log_record host v owner h = (Inr r, h')" and schema: "record_schema_error ''logs'' r = None"
  shows "h' = h \<and> verify_owned_log host r h = None"
proof -
  let ?parent = "\<lambda>path. path_text (ho_realpath host (path_parent path) h)"
  obtain path where path: "safe_owned_path v ''log'' = Inr path"
    using reg by (cases "safe_owned_path v ''log''") (simp_all add: log_record_def act_bind_def act_result_def)
  obtain device inode kind where id: "log_identity host path h = Inr (device, inode, kind)"
    using reg by (cases "log_identity host path h") (auto simp: log_record_def act_bind_def act_result_def act_identity_def path)
  obtain pdevice pinode where parent: "directory_identity host (?parent path) ''log parent directory'' h = Inr (pdevice, pinode)"
    using reg by (cases "directory_identity host (?parent path) ''log parent directory'' h")
      (auto simp: log_record_def act_bind_def act_result_def act_identity_def act_read_def path id)
  obtain who where who: "required_text owner ''worker ID'' = Inr who"
    using reg by (cases "required_text owner ''worker ID''")
      (auto simp: log_record_def act_bind_def act_result_def act_identity_def act_read_def path id parent)
  have h': "h' = h" and r: "r = [(''path'', JStr path), (''parent_realpath'', JStr (?parent path)), (''device'', JInt device),
      (''inode'', JInt inode), (''resource_type'', JStr kind), (''parent_device'', JInt pdevice), (''parent_inode'', JInt pinode),
      (''worker_id'', JStr who)]"
    using reg by (auto simp: log_record_def act_bind_def act_result_def act_identity_def act_read_def path id parent who)
  have f: "text_field r ''path'' = path" "text_field r ''parent_realpath'' = ?parent path"
      "has_identity r ''device'' ''inode'' (device, inode)" "has_identity r ''parent_device'' ''parent_inode'' (pdevice, pinode)"
      "dict_get r ''resource_type'' = JStr kind"
    by (simp_all add: r text_field_def has_identity_def dict_get_Cons)
  show ?thesis
    using h' by (simp add: verify_owned_log_def schema f safe_path_text [OF path] parent id Let_def)
qed

lemma project_copy_registration:
  assumes reg: "project_copy_record host v owner h = (Inr r, h')"
    and schema: "\<not> isl (validate_run_resource_manifest (JObj [(''worktrees'', JList []), (''logs'', JList []), (''project_copies'', JList [JObj r])]))"
  shows "h' = h \<and> verify_owned_project_copy host r h = None"
proof -
  obtain pid prefix where v: "v = JList [pid, prefix]"
    using reg by (cases v rule: json.exhaust) (auto simp: project_copy_record_def split: list.splits)
  obtain project where project: "required_text pid ''project ID'' = Inr project"
    using reg by (cases "required_text pid ''project ID''") (auto simp: project_copy_record_def v act_bind_def act_result_def)
  obtain path where path: "safe_owned_path prefix ''project-copy directory prefix'' = Inr path"
    using reg by (cases "safe_owned_path prefix ''project-copy directory prefix''")
      (auto simp: project_copy_record_def v act_bind_def act_result_def project)
  obtain identity where identity: "project_copy_identity host path h = Inr identity"
    using reg by (cases "project_copy_identity host path h")
      (auto simp: project_copy_record_def v act_bind_def act_result_def act_identity_def project path)
  obtain who where who: "required_text owner ''worker ID'' = Inr who"
    using reg by (cases "required_text owner ''worker ID''")
      (auto simp: project_copy_record_def v act_bind_def act_result_def act_identity_def project path identity)
  have h': "h' = h" and r: "r = dict_update [(''project_id'', JStr project), (''directory_prefix'', JStr path), (''worker_id'', JStr who)] identity"
    using reg by (auto simp: project_copy_record_def v act_bind_def act_result_def act_identity_def project path identity who)
  have keys: "map fst identity = [''resolved_directory_prefix'', ''directory_prefix_parent_realpath'',
      ''directory_prefix_parent_device'', ''directory_prefix_parent_inode'']"
    using identity by (auto simp: project_copy_identity_def Let_def split: sum.splits if_splits)
  then have "dict_get r ''directory_prefix'' = JStr path" and "list_all (\<lambda>(k, w). dict_get r k = w) identity"
    by (auto simp: r dict_update_def map_eq_Cons_conv)
  then show ?thesis
    using schema h' identity safe_path_text [OF path]
    by (cases "validate_run_resource_manifest (JObj [(''worktrees'', JList []), (''logs'', JList []), (''project_copies'', JList [JObj r])])")
      (auto simp: verify_owned_project_copy_def text_field_def list_ex_iff list_all_iff)
qed

section \<open>Worktrees\<close>

text \<open>Git answers without changing the host, \<open>rev-parse\<close> prints an answer, and \<open>realpath\<close> yields a normal path.\<close>

definition asks_to_parse :: "string list \<Rightarrow> bool" where
  "asks_to_parse args \<longleftrightarrow> take 1 args = [''rev-parse'']"

definition still_host :: "'h host \<Rightarrow> 'h \<Rightarrow> bool" where
  "still_host host h \<longleftrightarrow>
     (\<forall>args. snd (ho_git host args h) = h) \<and>
     (\<forall>p args c h'. asks_to_parse args \<and> ho_git host ([''-C'', p] @ args) h = (Inr c, h') \<and> cp_returncode c = 0 \<longrightarrow>
        py_strip (cp_stdout c) \<noteq> []) \<and>
     (\<forall>p. path_text (ho_realpath host p h) = ho_realpath host p h)"

lemma still_git:
  assumes still: "still_host host h" and out: "git_output host p args b h = (Inr out, h1)"
  shows "h1 = h \<and> git_output host p args True h = (Inr out, h) \<and> (\<not> b \<and> asks_to_parse args \<longrightarrow> out \<noteq> [])"
proof -
  obtain c where c: "ho_git host ([''-C'', p] @ args) h = (Inr c, h1)"
    using out unfolding git_output_def by (elim act_bindE) (auto split: if_splits)
  moreover have "h1 = h" using c still by (metis snd_conv still_host_def)
  moreover have "asks_to_parse args \<and> cp_returncode c = 0 \<longrightarrow> py_strip (cp_stdout c) \<noteq> []"
    using still c unfolding still_host_def by blast
  ultimately show ?thesis using out by (auto simp: git_output_def act_bind_def split: if_splits)
qed

lemma still_resolved: "still_host host h \<Longrightarrow> path_text (resolved host p h) = resolved host p h"
  by (simp add: still_host_def resolved_def)

text \<open>What the steps of a registration that returned did\<close>

lemma still_answer:
  assumes "act_bind (git_output host p args b) f h = (Inr x, h')" and "still_host host h"
  obtains out where "git_output host p args True h = (Inr out, h)" and "\<not> b \<and> asks_to_parse args \<longrightarrow> out \<noteq> []"
    and "f out h = (Inr x, h')"
  using assms(1)
proof (cases rule: act_bindE)
  case (2 out h1)
  then show thesis using still_git [OF assms(2) 2(1)] that by simp
qed simp

lemma read_then:
  assumes "act_bind (act_read g) f h = (Inr x, h')"
  obtains "f (g h) h = (Inr x, h')"
  using assms by (simp add: act_bind_def act_read_def)

lemma identity_then:
  assumes "act_bind (act_identity g) (\<lambda>(a, b). f a b) h = (Inr x, h')"
  obtains a b where "g h = Inr (a, b)" and "f a b h = (Inr x, h')"
  using assms by (cases "g h") (auto simp: act_bind_def act_identity_def)

lemma result_then:
  assumes "act_bind (act_result g) f h = (Inr x, h')"
  obtains y where "g = Inr y" and "f y h = (Inr x, h')"
  using assms by (cases g) (auto simp: act_bind_def act_result_def)

lemma unless_raised:
  assumes "(if c then act_raise e else m) h = (Inr x, h')"
  obtains "\<not> c" and "m h = (Inr x, h')"
  using assms by (cases c) (simp_all add: act_raise_def)

lemma returned:
  assumes "act_return y h = (Inr x, h')"
  obtains "x = y" and "h' = h"
  using assms by (simp add: act_return_def)

lemma worktree_registration:
  assumes reg: "worktree_record host v owner h = (Inr r, h')" and schema: "record_schema_error ''worktrees'' r = None"
    and still: "still_host host h" and present: "\<And>path. safe_owned_path v ''worktree'' = Inr path \<Longrightarrow> ho_is_dir host path h"
  shows "h' = h \<and> verify_owned_worktree host r h = (Inr None, h)"
proof -
  obtain path top common own device inode branch rdevice rinode tip who where path: "safe_owned_path v ''worktree'' = Inr path"
    and top: "git_output host path [''rev-parse'', ''--show-toplevel''] True h = (Inr top, h)" "\<not> False \<and> asks_to_parse [''rev-parse'', ''--show-toplevel''] \<longrightarrow> top \<noteq> []" "\<not> resolved host top h \<noteq> path"
    and common: "git_output host path [''rev-parse'', ''--path-format=absolute'', ''--git-common-dir''] True h = (Inr common, h)" "\<not> False \<and> asks_to_parse [''rev-parse'', ''--path-format=absolute'', ''--git-common-dir''] \<longrightarrow> common \<noteq> []"
    and own: "git_output host path [''rev-parse'', ''--path-format=absolute'', ''--absolute-git-dir''] True h = (Inr own, h)" "\<not> False \<and> asks_to_parse [''rev-parse'', ''--path-format=absolute'', ''--absolute-git-dir''] \<longrightarrow> own \<noteq> []"
    and id: "directory_identity host (resolved host own h) ''linked Git directory'' h = Inr (device, inode)"
    and branch: "git_output host path [''symbolic-ref'', ''--quiet'', ''--short'', ''HEAD''] True h = (Inr branch, h)" "branch \<noteq> []"
    and r: "r = [(''path'', JStr path), (''git_dir'', JStr (resolved host common h)), (''linked_git_dir'', JStr (resolved host own h)),
        (''linked_git_dir_device'', JInt device), (''linked_git_dir_inode'', JInt inode), (''branch'', JStr branch),
        (''branch_reflog'', JStr (branch_reflog (resolved host common h) branch)), (''branch_reflog_device'', JInt rdevice),
        (''branch_reflog_inode'', JInt rinode), (''registered_branch_tip'', JStr tip), (''worker_id'', JStr who)]"
    and h': "h' = h"
    using reg unfolding worktree_record_def
    by (elim result_then still_answer [OF _ still] read_then identity_then unless_raised returned) (rule that)
  have f: "text_field r ''path'' = path" "text_field r ''git_dir'' = resolved host common h"
      "text_field r ''linked_git_dir'' = resolved host own h" "text_field r ''branch'' = branch"
      "has_identity r ''linked_git_dir_device'' ''linked_git_dir_inode'' (device, inode)"
    by (simp_all add: r text_field_def has_identity_def dict_get_Cons)
  have answers: "top \<noteq> []" "common \<noteq> []" "own \<noteq> []" using top(2) common(2) own(2) by (simp_all add: asks_to_parse_def)
  have "ho_is_dir host path h" by (rule present [OF path])
  then show ?thesis
    using h' top(3) answers branch(2)
    by (simp add: verify_owned_worktree_def schema f Let_def safe_path_text [OF path] act_bind_def act_read_def top(1) common(1) own(1)
        branch(1) id still_resolved [OF still] verify_owned_branch_name_def)
qed

end
