(* ===== verification/Cleanup_Samples.thy ===== *)
theory Cleanup_Samples
  imports Command_Samples Cleanup_Audit Project_Facts Ownership_Facts
begin

text \<open>A run with one session, a server that holds a list of sessions, and a host without files.\<close>

definition bare_host :: "json list host" where
  "bare_host = \<lparr>ho_git = \<lambda>args. act_raise (OSError ''no git''), ho_exists = \<lambda>p h. False, ho_is_dir = \<lambda>p h. False,
     ho_is_symlink = \<lambda>p h. False, ho_expanduser = \<lambda>p h. p, ho_realpath = \<lambda>p h. p, ho_stat = \<lambda>p h. Inl ''no file'',
     ho_lstat = \<lambda>p h. Inl ''no file'', ho_read_text = \<lambda>p h. Inl ''no file'', ho_unlink = \<lambda>p h. (Some ''no file'', h),
     ho_begin_deletion = \<lambda>g t h. (Inl ''no git'', h), ho_end_deletion = \<lambda>p t h. (Inl ''no git'', h),
     ho_lease_free = \<lambda>n h. True, ho_kill = \<lambda>p h. h\<rparr>"

definition session_client :: "json list cleanup_client" where
  "session_client = \<lparr>cc_delete_session = \<lambda>i h. (Inr None, removeAll i h),
     cc_get_session = \<lambda>i h. (Inr (if i \<in> set h then None else Some \<lparr>af_message = ''not found'', af_status = Some 404\<rparr>), h)\<rparr>"

definition session_server :: "json \<Rightarrow> (json list, json list cleanup_client) action" where
  "session_server url = act_return session_client"

definition sample_service :: cleanup_service where
  "sample_service = \<lparr>cs_float = no_floats, cs_cwd = ''/w''\<rparr>"

definition session_cleanup :: cleanup_request where
  "session_cleanup = \<lparr>cq_name = ''r1'', cq_sessions = True, cq_worktrees = False, cq_branches = False,
     cq_project_metadata = False, cq_logs = False, cq_run_store = False, cq_apply = True, cq_force = True, cq_server_url = None\<rparr>"

lemma session_server_serves: "serves (\<lambda>a b. set b \<subseteq> set a) session_server None"
  by (auto simp: serves_def session_server_def session_client_def act_return_def moves_def)

definition session_plan :: resource_plan where
  "session_plan = \<lparr>rp_run = ''r1'', rp_server_url = JStr ''http://h'', rp_sessions = [JStr ''s1''], rp_worktrees = [],
     rp_branches = [], rp_projects = [], rp_logs = [], rp_run_store = False\<rparr>"

lemma session_planned: "plan_resources (sample_record session_worker) session_cleanup = Inr session_plan"
  by code_simp

definition session_preflight :: preflight where
  "session_preflight = \<lparr>pf_active_workers = [''w1''], pf_verdicts = no_verdicts, pf_projects = []\<rparr>"

lemma session_preflighted: "preflight_cleanup bare_host (sample_record session_worker) session_plan True h = (Inr session_preflight, h)"
proof -
  have "active_worker_ids (sample_record session_worker) = Inr [''w1'']" by code_simp
  then show ?thesis
    by (simp add: preflight_cleanup_def preflight_worktrees_def preflight_branches_def preflight_logs_def act_bind_def
        act_result_def session_plan_def session_preflight_def block_branch_worktrees_def no_verdicts_def)
qed

definition session_report :: cleanup_report where
  "session_report = new_report ''apply'' ''done'' session_plan session_preflight [] []"

definition session_fence :: jdict where
  "session_fence = dict_set ''status'' (JStr ''in_progress'') (report_json session_report)"

lemma session_runs_equal:
  "runs_equal (sample_record session_worker) (sample_record session_worker) = Inr True"
  "runs_equal (set_cleanup session_fence (sample_record session_worker)) (set_cleanup session_fence (sample_record session_worker)) = Inr True"
  by code_simp+

definition session_done :: cleanup_report where
  "session_done = session_report\<lparr>ct_sessions := [JStr ''s1'']\<rparr>"

lemma session_removed:
  "remove_resources bare_host session_server None session_plan session_preflight [] True session_report [JStr ''s1''] = (Inr session_done, [])"
proof -
  have "ct_sessions session_report = []" "report_errors session_report = []"
    by (simp_all add: session_report_def new_report_def session_preflight_def no_verdicts_def)
  then show ?thesis
    by (simp add: remove_resources_def session_plan_def cleanup_sessions_def try_api_def session_server_def session_client_def
        cleanup_disposable_sessions_def delete_and_verify_def verify_deleted_def add_cleanup_def act_bind_def act_catch_def
        act_return_def add_errors_def on_removals_def remove_worktrees_def remove_branches_def remove_logs_def
        cleanup_project_metadata_def with_final_status_def session_done_def)
qed

text \<open>The cleanup deletes the session and exits with 0.\<close>

lemma session_cleanup_runs:
  assumes "session_store s"
  shows "\<exists>r s'. run_cleanup sample_service bare_host session_server None session_cleanup (s, [JStr ''s1'']) = (Inr r, (s', [])) \<and>
    rr_exit_code r = 0"
proof -
  let ?run = "sample_record session_worker"
  have sv: "cs_float sample_service = no_floats" "cs_cwd sample_service = ''/w''" by (simp_all add: sample_service_def)
  have s: "sound_store s" "load_run (cs_float sample_service) (cs_cwd sample_service) ''r1'' s = Inr ?run"
    using assms by (simp_all add: session_store_def sv)
  obtain s1 where s1: "update_if_unchanged (cs_float sample_service) (cs_cwd sample_service) ''r1'' ?run session_fence s =
      Inr (set_cleanup session_fence ?run, s1)" "sound_store s1"
      "load_run (cs_float sample_service) (cs_cwd sample_service) ''r1'' s1 = Inr (set_cleanup session_fence ?run)"
    using audit_stores [OF s session_runs_equal(1)] by blast
  obtain s2 where s2: "update_if_unchanged (cs_float sample_service) (cs_cwd sample_service) ''r1'' (set_cleanup session_fence ?run)
      (report_json session_done) s1 = Inr (set_cleanup (report_json session_done) (set_cleanup session_fence ?run), s2)"
    using audit_stores [OF s1(2,3) session_runs_equal(2)] by blast
  have q: "cq_name session_cleanup = ''r1''" "cq_apply session_cleanup" "cq_force session_cleanup"
    by (simp_all add: session_cleanup_def)
  have clean: "no_errors (report_json session_done)"
    by (simp add: report_no_errors session_done_def session_report_def new_report_def session_preflight_def no_verdicts_def)
  have fin: "finish_cleanup sample_service ''r1'' False (set_cleanup session_fence ?run) (report_json session_done) (s1, []) =
      (Inr (result_of (report_json session_done)), (s2, []))"
    by (simp add: finish_cleanup_def finish_cleanup_audit_def act_bind_def on_store_def s2)
  have rep: "new_report ''apply'' ''done'' session_plan session_preflight (map snd []) (vd_errors (pf_verdicts session_preflight)) = session_report"
    by (simp add: session_report_def session_preflight_def no_verdicts_def)
  have kept: "rp_run_store session_plan = False" by (simp add: session_plan_def)
  have ex: "execute_cleanup sample_service bare_host session_server None ?run session_plan session_preflight [] session_cleanup
      (s, [JStr ''s1'']) = (Inr (result_of (report_json session_done)), (s2, []))"
    unfolding execute_cleanup_def Let_def rep begin_cleanup_audit_def q session_fence_def [symmetric]
    using fin session_removed s1(1) by (simp add: act_bind_def on_store_def on_host_def kept q(3) [simplified])
  have preview: "preview_project_metadata None session_plan m b h = (Inr \<lparr>pp_plans = [], pp_failed = False, pp_errors = []\<rparr>, h)" for m b h
    by (simp add: preview_project_metadata_def session_plan_def)
  have "planned_cleanup sample_service bare_host session_server None ?run session_plan session_cleanup (s, [JStr ''s1'']) =
      (Inr (result_of (report_json session_done)), (s2, []))"
    using ex by (simp add: planned_cleanup_def act_bind_def on_host_def session_preflighted preview q active_cleanup_is_blocked_def)
  then have "run_cleanup sample_service bare_host session_server None session_cleanup (s, [JStr ''s1'']) =
      (Inr (result_of (report_json session_done)), (s2, []))"
    using s(2) sample_name(1)
    by (simp add: run_cleanup_def unlocked_cleanup_def act_bind_def act_result_def on_host_def q session_planned bare_host_def run_path_def)
  then show ?thesis using clean by (auto simp: result_of_clean)
qed

section \<open>A project with a stale copy\<close>

text \<open>The server drops the stale copy when it is asked to refresh; the state tells whether it was.\<close>

definition project_host :: "bool host" where
  "project_host = \<lparr>ho_git = \<lambda>args. act_raise (OSError ''no git''), ho_exists = \<lambda>p h. p = ''/w/main'', ho_is_dir = \<lambda>p h. False,
     ho_is_symlink = \<lambda>p h. False, ho_expanduser = \<lambda>p h. p, ho_realpath = \<lambda>p h. p, ho_stat = \<lambda>p h. Inl ''no file'',
     ho_lstat = \<lambda>p h. Inl ''no file'', ho_read_text = \<lambda>p h. Inl ''no file'', ho_unlink = \<lambda>p h. (Some ''no file'', h),
     ho_begin_deletion = \<lambda>g t h. (Inl ''no git'', h), ho_end_deletion = \<lambda>p t h. (Inl ''no git'', h),
     ho_lease_free = \<lambda>n h. True, ho_kill = \<lambda>p h. h\<rparr>"

definition offered_route :: "string \<Rightarrow> string \<times> json" where
  "offered_route name = (name, JObj [(''available'', JBool True)])"

definition project_server :: "bool metadata" where
  "project_server = \<lparr>
     md_client = \<lparr>mc_projects = act_return (ApiResponse (JList [JObj [(''id'', JStr ''p1''), (''sandboxes'', JList [])]]) []),
       mc_directories = \<lambda>i refreshed. (Inr (ApiResponse (JList
         (if refreshed then [JStr ''/w/main''] else [JStr ''/w/main'', JStr ''/w/copy-1''])) []), refreshed),
       mc_workspaces = act_return (ApiResponse (JList []) []),
       mc_refresh = \<lambda>i refreshed. (Inr (ApiResponse JNull []), True),
       mc_delete_workspace = \<lambda>i. act_return (ApiResponse JNull [])\<rparr>,
     md_profile = \<lparr>pr_health = ''healthy'', pr_version = ''1'', pr_route_availability =
       map offered_route [''project_collection'', ''project_directories'', ''workspace_collection'', ''project_copy_refresh''],
       pr_route_plan = []\<rparr>,
     md_host = project_host\<rparr>"

definition copy_plan :: project_outcome where
  "copy_plan = (case plan_project_cleanup project_server ''p1'' ''/w/copy-'' [] False of (Inr out, _) \<Rightarrow> out)"

lemma copy_planned:
  "plan_project_cleanup project_server ''p1'' ''/w/copy-'' [] False = (Inr copy_plan, False)"
  "oc_planned_directories copy_plan = [''/w/copy-1'']" "\<not> oc_refreshed copy_plan"
  by code_simp+

lemma copy_refreshed:
  "\<exists>out. apply_project_plan project_server copy_plan False = (Inr out, True) \<and> oc_status out = ''done''"
  "\<exists>out. refresh_project_copies project_server copy_plan False = (Inr out, True) \<and> oc_refreshed out"
proof -
  have "case apply_project_plan project_server copy_plan False of (Inr out, h) \<Rightarrow> h \<and> oc_status out = ''done'' | _ \<Rightarrow> False"
    "case refresh_project_copies project_server copy_plan False of (Inr out, h) \<Rightarrow> h \<and> oc_refreshed out | _ \<Rightarrow> False"
    by code_simp+
  then show "\<exists>out. apply_project_plan project_server copy_plan False = (Inr out, True) \<and> oc_status out = ''done''"
    "\<exists>out. refresh_project_copies project_server copy_plan False = (Inr out, True) \<and> oc_refreshed out"
    by (auto split: prod.splits sum.splits)
qed

section \<open>A worktree and a log\<close>

text \<open>A repository in \<open>/w/main\<close> with a linked worktree \<open>/w/tree\<close> on the branch \<open>topic\<close>, and a log in \<open>/w/logs\<close>.\<close>

definition repo_answer :: "string list \<Rightarrow> string" where
  "repo_answer args =
     (if args = [''rev-parse'', ''--show-toplevel''] then ''/w/tree''
      else if args = [''rev-parse'', ''--path-format=absolute'', ''--git-common-dir''] then ''/w/main/.git''
      else if args = [''rev-parse'', ''--path-format=absolute'', ''--absolute-git-dir''] then ''/w/main/.git/worktrees/tree''
      else if args = [''symbolic-ref'', ''--quiet'', ''--short'', ''HEAD''] then ''topic'' else ''c0ffee'')"

definition repo_details :: "string \<Rightarrow> file_details" where
  "repo_details p = \<lparr>fd_device = 1, fd_inode = int (length p),
     fd_kind = (if p \<in> {''/w/main/.git/worktrees/tree'', ''/w/logs''} then Directory else Regular_File)\<rparr>"

definition repo_host :: "unit host" where
  "repo_host = \<lparr>ho_git = \<lambda>args. act_return \<lparr>cp_returncode = 0, cp_stdout = repo_answer (drop 2 args), cp_stderr = []\<rparr>,
     ho_exists = \<lambda>p h. True, ho_is_dir = \<lambda>p h. p = ''/w/tree'', ho_is_symlink = \<lambda>p h. False, ho_expanduser = \<lambda>p h. p,
     ho_realpath = \<lambda>p h. path_text p, ho_stat = \<lambda>p h. Inr (repo_details p), ho_lstat = \<lambda>p h. Inr (repo_details p),
     ho_read_text = \<lambda>p h. Inr ''c0ffee'', ho_unlink = \<lambda>p h. (None, h), ho_begin_deletion = \<lambda>g t h. (Inl ''no git'', h),
     ho_end_deletion = \<lambda>p t h. (Inl ''no git'', h), ho_lease_free = \<lambda>n h. True, ho_kill = \<lambda>p h. h\<rparr>"

lemma repo_still: "still_host repo_host ()"
proof -
  have "py_strip (repo_answer args) \<noteq> []" for args
  proof -
    have "repo_answer args \<in> {''/w/tree'', ''/w/main/.git'', ''/w/main/.git/worktrees/tree'', ''topic'', ''c0ffee''}"
      by (simp add: repo_answer_def)
    moreover have "\<forall>t \<in> {''/w/tree'', ''/w/main/.git'', ''/w/main/.git/worktrees/tree'', ''topic'', ''c0ffee''}. py_strip t \<noteq> []"
      by code_simp
    ultimately show ?thesis by blast
  qed
  then show ?thesis by (auto simp: still_host_def repo_host_def act_return_def)
qed

lemma repo_worktree:
  "\<exists>r. worktree_record repo_host (JStr ''/w/tree'') (JStr ''w1'') () = (Inr r, ()) \<and> record_schema_error ''worktrees'' r = None"
proof -
  have "case worktree_record repo_host (JStr ''/w/tree'') (JStr ''w1'') () of
      (Inr r, h) \<Rightarrow> record_schema_error ''worktrees'' r = None | _ \<Rightarrow> False"
    by code_simp
  then show ?thesis by (auto split: prod.splits sum.splits)
qed

lemma repo_log:
  "\<exists>r. log_record repo_host (JStr ''/w/logs/a.log'') (JStr ''w1'') () = (Inr r, ()) \<and> record_schema_error ''logs'' r = None"
proof -
  have "case log_record repo_host (JStr ''/w/logs/a.log'') (JStr ''w1'') () of
      (Inr r, h) \<Rightarrow> record_schema_error ''logs'' r = None | _ \<Rightarrow> False"
    by code_simp
  then show ?thesis by (auto split: prod.splits sum.splits)
qed

lemma repo_paths: "safe_owned_path (JStr ''/w/tree'') ''worktree'' = Inr p \<Longrightarrow> ho_is_dir repo_host p ()"
proof -
  have "safe_owned_path (JStr ''/w/tree'') ''worktree'' = Inr ''/w/tree''" by code_simp
  then show "safe_owned_path (JStr ''/w/tree'') ''worktree'' = Inr p \<Longrightarrow> ho_is_dir repo_host p ()"
    by (simp add: repo_host_def)
qed

end
