(* ===== verification/Api_Routes.thy ===== *)
theory Api_Routes
  imports Prompt_Admission
begin

text \<open>
  \<open>api_routes.py\<close> and the rendering of route paths in \<open>api_profile.py\<close> and \<open>project_routes.py\<close>: the planner holds
  the route plan of the server, looks a route up and puts the ids into its path. An id is percent-encoded, so it
  stays inside its segment of the path.
\<close>

section \<open>\<open>urllib.parse.quote(value, safe="")\<close>\<close>

text \<open>The UTF-8 bytes of a Latin-1 code point\<close>

definition utf8_bytes :: "char \<Rightarrow> nat list" where
  "utf8_bytes c = (let n = char_code c in if n < 128 then [n] else [192 + n div 64, 128 + n mod 64])"

definition unreserved :: "nat \<Rightarrow> bool" where
  "unreserved n \<longleftrightarrow> 48 \<le> n \<and> n \<le> 57 \<or> 65 \<le> n \<and> n \<le> 90 \<or> 97 \<le> n \<and> n \<le> 122 \<or> n = 45 \<or> n = 46 \<or> n = 95 \<or> n = 126"

definition upper_hex_digit :: "nat \<Rightarrow> char" where
  "upper_hex_digit n = (if n < 10 then char_of (48 + n) else char_of (55 + n))"

definition quote_byte :: "nat \<Rightarrow> string" where
  "quote_byte n = (if unreserved n then [char_of n] else [CHR ''%'', upper_hex_digit (n div 16), upper_hex_digit (n mod 16)])"

definition quote_bytes :: "nat list \<Rightarrow> string" where
  "quote_bytes bs = concat (map quote_byte bs)"

definition quote :: "string \<Rightarrow> string" where
  "quote s = quote_bytes (concat (map utf8_bytes s))"

section \<open>Rendering a path\<close>

definition replace_placeholders :: "string \<Rightarrow> string list \<Rightarrow> string \<Rightarrow> string" where
  "replace_placeholders quoted_value placeholders path = fold (\<lambda>p. replace_text p quoted_value) placeholders path"

text \<open>\<open>quote\<close> takes texts only; an id of a project or a workspace is made a text first.\<close>

definition quote_value :: "json \<Rightarrow> string result" where
  "quote_value v = (case v of JStr s \<Rightarrow> Inr (quote s) | _ \<Rightarrow> Inl (TypeError ''quote_from_bytes() expected bytes''))"

definition fill_id :: "json \<Rightarrow> string list \<Rightarrow> string \<Rightarrow> string result" where
  "fill_id v placeholders path =
     (if v = JNull then Inr path else res_bind (quote_value v) (\<lambda>q. Inr (replace_placeholders q placeholders path)))"

definition render_project_route_path :: "string \<Rightarrow> json \<Rightarrow> json \<Rightarrow> string result" where
  "render_project_route_path path project_id workspace_id =
     (let text_of = (\<lambda>v. if v = JNull then JNull else JStr (py_str v)) in
     res_bind (fill_id (text_of project_id) [''{projectID}'', '':projectID'', ''{id}'', '':id''] path)
       (fill_id (text_of workspace_id) [''{workspaceID}'', '':workspaceID'', ''{id}'', '':id'']))"

record route_ids =
  ri_session :: json
  ri_request :: json
  ri_project :: json
  ri_workspace :: json

definition render_route_path :: "json \<Rightarrow> route_ids \<Rightarrow> string result" where
  "render_route_path path ids =
     res_bind (fill_id (ri_session ids) [''{sessionID}'', '':sessionID'', ''{id}'', '':id''] (py_str path)) (\<lambda>rendered.
     res_bind (fill_id (ri_request ids) [''{requestID}'', '':requestID'', ''{id}'', '':id''] rendered) (\<lambda>rendered'.
     render_project_route_path rendered' (ri_project ids) (ri_workspace ids)))"

definition no_ids :: route_ids where
  "no_ids = \<lparr>ri_session = JNull, ri_request = JNull, ri_project = JNull, ri_workspace = JNull\<rparr>"

definition lstrip_char :: "char \<Rightarrow> string \<Rightarrow> string" where
  "lstrip_char c s = dropWhile (\<lambda>x. x = c) s"

definition session_prompt_path :: "json \<Rightarrow> json \<Rightarrow> string result" where
  "session_prompt_path prompt_path session_id =
     res_bind (render_route_path prompt_path (no_ids\<lparr>ri_session := session_id\<rparr>)) (\<lambda>p. Inr (lstrip_char (CHR ''/'') p))"

section \<open>The route planner\<close>

record route_planner =
  rp_profile :: "server_profile option"

definition new_planner :: route_planner where
  "new_planner = \<lparr>rp_profile = None\<rparr>"

text \<open>The plan and the profile are set together; the plan is the plan of the profile.\<close>

definition planner_route_plan :: "route_planner \<Rightarrow> jdict option" where
  "planner_route_plan r = map_option pr_route_plan (rp_profile r)"

definition configure_profile :: "server_profile \<Rightarrow> route_planner \<Rightarrow> route_planner" where
  "configure_profile p r = r\<lparr>rp_profile := Some p\<rparr>"

definition configure_routes :: "jdict \<Rightarrow> route_planner \<Rightarrow> route_planner result" where
  "configure_routes plan r =
     res_bind (from_route_plan plan ''unknown'' ''unknown'' None) (\<lambda>p. Inr (configure_profile p r))"

definition route_plan_required :: api_response_error where
  "route_plan_required =
     \<lparr>ae_message = ''client route plan is not configured; discover capabilities and configure routes before session calls'',
      ae_status = None, ae_method = None, ae_path = None, ae_body = None,
      ae_data = JObj [(''kind'', JStr ''route_plan_required'')]\<rparr>"

definition require_route_plan :: "route_planner \<Rightarrow> api_response_error + jdict" where
  "require_route_plan r = (case planner_route_plan r of None \<Rightarrow> Inl route_plan_required | Some plan \<Rightarrow> Inr plan)"

definition plan_for :: "route_planner \<Rightarrow> bool \<Rightarrow> api_response_error + jdict" where
  "plan_for r allow_default =
     (if allow_default \<and> planner_route_plan r = None then Inr DEFAULT_ROUTE_PLAN else require_route_plan r)"

definition stripped_path :: "json \<Rightarrow> string result" where
  "stripped_path path = (case path of JStr s \<Rightarrow> Inr (lstrip_char (CHR ''/'') s)
     | _ \<Rightarrow> Inl (AttributeError ''object has no attribute lstrip''))"

definition planner_path :: "route_planner \<Rightarrow> string \<Rightarrow> route_ids \<Rightarrow> bool \<Rightarrow> (api_response_error + string) result" where
  "planner_path r name ids allow_default =
     (case plan_for r allow_default of
        Inl e \<Rightarrow> Inr (Inl e)
      | Inr plan \<Rightarrow>
          res_bind (if py_truthy (dict_get plan name) then Inr (dict_get plan name) else indexed DEFAULT_ROUTE_PLAN name) (\<lambda>path.
          res_bind (if ids = no_ids then Inr path
                    else res_bind (render_route_path path ids) (\<lambda>p. Inr (JStr p))) (\<lambda>path'.
          res_bind (stripped_path path') (\<lambda>p. Inr (Inr p)))))"

section \<open>Quoting can be undone\<close>

fun hex_value :: "char \<Rightarrow> nat" where
  "hex_value c = (let n = char_code c in if n < 65 then n - 48 else n - 55)"

fun unquote_bytes :: "string \<Rightarrow> nat list" where
  "unquote_bytes (c # d # e # s) =
     (if c = CHR ''%'' then (16 * hex_value d + hex_value e) # unquote_bytes s else char_code c # unquote_bytes (d # e # s))"
| "unquote_bytes s = map char_code s"

fun utf8_text :: "nat list \<Rightarrow> string" where
  "utf8_text [] = []"
| "utf8_text (b # bs) =
     (if b < 128 then char_of b # utf8_text bs
      else case bs of [] \<Rightarrow> [] | b' # bs' \<Rightarrow> char_of ((b - 192) * 64 + (b' - 128)) # utf8_text bs')"

definition unquote :: "string \<Rightarrow> string" where
  "unquote s = utf8_text (unquote_bytes s)"

lemma unquote_bytes_plain: "c \<noteq> CHR ''%'' \<Longrightarrow> unquote_bytes (c # s) = char_code c # unquote_bytes s"
  by (cases s rule: unquote_bytes.cases) auto

lemma hex_value_digit: "n < 16 \<Longrightarrow> hex_value (upper_hex_digit n) = n"
  by (auto simp: upper_hex_digit_def char_code_def of_char_of)

lemma unreserved_char: "unreserved n \<Longrightarrow> n < 256 \<and> char_of n \<noteq> CHR ''%''"
proof -
  assume n: "unreserved n"
  then have "n < 256" "n \<noteq> 37" by (auto simp: unreserved_def)
  moreover have "of_char (CHR ''%'') = (37::nat)" by simp
  ultimately show ?thesis by (metis of_char_of mod_less)
qed

lemma unquote_bytes_byte: "n < 256 \<Longrightarrow> unquote_bytes (quote_byte n @ s) = n # unquote_bytes s"
proof (cases "unreserved n")
  case True
  then show ?thesis
    using unreserved_char [OF True] by (simp add: quote_byte_def unquote_bytes_plain char_code_def of_char_of)
next
  case False
  moreover assume "n < 256"
  ultimately show ?thesis
    by (simp add: quote_byte_def hex_value_digit del: hex_value.simps)
qed

lemma unquote_bytes_quote: "\<forall>b \<in> set bs. b < 256 \<Longrightarrow> unquote_bytes (quote_bytes bs) = bs"
  by (induction bs) (simp_all add: quote_bytes_def unquote_bytes_byte)

lemma utf8_bytes_less: "b \<in> set (utf8_bytes c) \<Longrightarrow> b < 256"
proof -
  have "of_char c < (256::nat)" by simp
  then have "of_char c div 64 < (64::nat)" by linarith
  then show "b \<in> set (utf8_bytes c) \<Longrightarrow> b < 256" by (auto simp: utf8_bytes_def char_code_def Let_def split: if_splits)
qed

lemma utf8_text_bytes: "utf8_text (utf8_bytes c @ bs) = c # utf8_text bs"
proof -
  have "64 * (of_char c div 64) + of_char c mod 64 = (of_char c :: nat)" by simp
  then show ?thesis by (simp add: utf8_bytes_def char_code_def Let_def mult.commute)
qed

lemma utf8_text_concat: "utf8_text (concat (map utf8_bytes s)) = s"
  by (induction s) (simp_all add: utf8_text_bytes)

lemma unquote_quote: "unquote (quote s) = s"
proof -
  have "unquote_bytes (quote s) = concat (map utf8_bytes s)"
    unfolding quote_def by (rule unquote_bytes_quote) (auto dest: utf8_bytes_less)
  then show ?thesis by (simp add: unquote_def utf8_text_concat)
qed

lemma quote_inj [simp]: "quote s = quote t \<longleftrightarrow> s = t"
  by (metis unquote_quote)

section \<open>A quoted id is one piece of a path\<close>

definition plain_char :: "char \<Rightarrow> bool" where
  "plain_char c \<longleftrightarrow> unreserved (char_code c) \<or> c = CHR ''%''"

lemma hex_digit_plain: "n < 16 \<Longrightarrow> plain_char (upper_hex_digit n)"
  by (auto simp: plain_char_def upper_hex_digit_def unreserved_def char_code_def of_char_of)

lemma quote_plain: "c \<in> set (quote s) \<Longrightarrow> plain_char c"
proof -
  have "plain_char c" if "c \<in> set (quote_byte n)" "n < 256" for n
    using that hex_digit_plain [of "n div 16"] hex_digit_plain [of "n mod 16"]
    by (auto simp: quote_byte_def plain_char_def char_code_def of_char_of split: if_splits)
  moreover assume "c \<in> set (quote s)"
  ultimately show ?thesis
    by (auto simp: quote_def quote_bytes_def dest: utf8_bytes_less)
qed

lemma plain_chars:
  "\<not> plain_char (CHR ''/'')" "\<not> plain_char (CHR ''?'')" "\<not> plain_char (CHR ''{'')" "\<not> plain_char (CHR '':'')"
  "\<not> plain_char (CHR ''}'')"
  by (simp_all add: plain_char_def unreserved_def char_code_def)

lemma quote_no: "\<not> plain_char c \<Longrightarrow> c \<notin> set (quote s)"
  using quote_plain by blast

lemma quote_nonempty [simp]: "quote s = [] \<longleftrightarrow> s = []"
  by (metis unquote_quote quote_inj quote_def quote_bytes_def concat.simps(1) list.simps(8))

end
