(* ===== verification/Text_Output.thy ===== *)
theory Text_Output
  imports Schema_Helpers Run_Resources
begin

text \<open>
  \<open>formatting.py\<close>: the compact output of the commands. A value is one word, or a JSON text when it holds white
  space, so a compact line stays a line and the cells of a table can be read back.
\<close>

section \<open>Values\<close>

definition compact_value :: "json \<Rightarrow> string" where
  "compact_value v =
     (if v = JNull \<or> v = JStr [] then ''-''
      else let t = py_str v in if list_ex is_space t then json_string t else t)"

definition compact_bool :: "json \<Rightarrow> json" where
  "compact_bool v = (case v of JBool True \<Rightarrow> JStr ''true'' | JBool False \<Rightarrow> JStr ''false'' | _ \<Rightarrow> v)"

text \<open>\<open>list(values)\<close>: a text gives its characters, a dictionary its keys.\<close>

definition py_items :: "json \<Rightarrow> json list result" where
  "py_items v =
     (case v of
        JList xs \<Rightarrow> Inr xs
      | JStr s \<Rightarrow> Inr (map (\<lambda>c. JStr [c]) s)
      | JObj d \<Rightarrow> Inr (map (\<lambda>kv. JStr (fst kv)) d)
      | _ \<Rightarrow> Inl (TypeError ''object is not iterable''))"

definition compact_items :: "json list \<Rightarrow> json" where
  "compact_items vs = (if vs = [] then JNull else JStr (join_with '','' (map py_str vs)))"

definition compact_list :: "json \<Rightarrow> json result" where
  "compact_list values = (if values = JNull then Inr JNull else res_bind (py_items values) (\<lambda>vs. Inr (compact_items vs)))"

section \<open>Lines and tables\<close>

definition TAB :: string where "TAB = [CHR 0x09]"
definition NEWLINE :: string where "NEWLINE = [CHR 0x0A]"

text \<open>The line \<open>" ".join(f"{key}={compact_value(value)}" ...)\<close> of every compact record\<close>

definition compact_fields :: "(string \<times> json) list \<Rightarrow> string" where
  "compact_fields flds = join_with '' '' (map (\<lambda>f. fst f @ ''='' @ compact_value (snd f)) flds)"

definition format_table :: "string list \<Rightarrow> json list list \<Rightarrow> string" where
  "format_table headers rows =
     join_with NEWLINE (join_with TAB headers # map (\<lambda>row. join_with TAB (map compact_value row)) rows)"

section \<open>What is read back\<close>

definition blank_free :: "string \<Rightarrow> bool" where
  "blank_free s \<longleftrightarrow> (\<forall>c \<in> set s. is_space c \<longrightarrow> c = CHR '' '')"

lemma not_blank_codes: "is_space c \<Longrightarrow> c \<noteq> CHR '' '' \<Longrightarrow> \<not> (33 \<le> char_code c \<and> char_code c \<le> 126)"
  by (auto simp: is_space_def Let_def)

lemma blank_free_code: "(\<And>c. c \<in> set s \<Longrightarrow> 32 \<le> char_code c \<and> char_code c \<le> 126) \<Longrightarrow> blank_free s"
proof -
  assume codes: "\<And>c. c \<in> set s \<Longrightarrow> 32 \<le> char_code c \<and> char_code c \<le> 126"
  have "c = CHR '' ''" if "c \<in> set s" "is_space c" for c
  proof -
    from codes [OF that(1)] that(2) have "char_code c = 32" by (auto simp: is_space_def Let_def)
    then have "of_char c = (of_char (CHR '' '') :: nat)" by (simp add: char_code_def)
    then show ?thesis by (simp only: of_char_eq_iff)
  qed
  then show ?thesis by (auto simp: blank_free_def)
qed

lemma hex_digit_code: "n < 16 \<Longrightarrow> 32 \<le> char_code (hex_digit n) \<and> char_code (hex_digit n) \<le> 126"
  by (auto simp: hex_digit_def char_code_def of_char_of)

lemma char_code_less: "char_code c < 256"
  by (simp add: char_code_def)

lemma json_char_code: "x \<in> set (json_char c) \<Longrightarrow> 32 \<le> char_code x \<and> char_code x \<le> 126"
proof -
  have "char_code c div 16 < 16" "char_code c mod 16 < 16"
    using char_code_less [of c] by auto
  note digits = this [THEN hex_digit_code, unfolded char_code_def]
  then show "x \<in> set (json_char c) \<Longrightarrow> 32 \<le> char_code x \<and> char_code x \<le> 126"
    by (auto simp: json_char_def Let_def char_code_def of_char_of split: if_splits)
qed

lemma json_string_blank_free: "blank_free (json_string s)"
  by (rule blank_free_code) (auto simp: json_string_def char_code_def of_char_of dest!: json_char_code)

lemma compact_value_blank_free [simp]: "blank_free (compact_value v)"
proof (cases "list_ex is_space (py_str v)")
  case True
  then show ?thesis
    by (simp add: compact_value_def Let_def json_string_blank_free) (simp add: blank_free_def is_space_def char_code_def)
next
  case False
  then show ?thesis by (auto simp: compact_value_def is_space_def char_code_def blank_free_def Let_def list_ex_iff)
qed

lemma blank_free_parts: "blank_free s \<Longrightarrow> CHR 0x09 \<notin> set s \<and> CHR 0x0A \<notin> set s"
proof -
  have "is_space (CHR 0x09)" "is_space (CHR 0x0A)" by (simp_all add: is_space_def char_code_def)
  then show "blank_free s \<Longrightarrow> CHR 0x09 \<notin> set s \<and> CHR 0x0A \<notin> set s" by (auto simp: blank_free_def)
qed

lemma set_join: "set (join_with sep ss) \<subseteq> set sep \<union> \<Union> (set ` set ss)"
  by (induction sep ss rule: join_with.induct) auto

lemma compact_fields_blank_free: "\<forall>f \<in> set flds. blank_free (fst f) \<Longrightarrow> blank_free (compact_fields flds)"
proof -
  have join: "\<forall>s \<in> set ss. blank_free s \<Longrightarrow> blank_free (join_with '' '' ss)" for ss
    using set_join [of "'' ''" ss] by (fastforce simp: blank_free_def)
  assume "\<forall>f \<in> set flds. blank_free (fst f)"
  then show ?thesis
    unfolding compact_fields_def
    by (intro join) (use compact_value_blank_free in \<open>auto simp: blank_free_def is_space_def char_code_def\<close>)
qed

text \<open>Splitting the lines and then the cells of a table gives its rows.\<close>

definition read_table :: "string \<Rightarrow> string list list" where
  "read_table t = map (split_on (CHR 0x09)) (split_on (CHR 0x0A) t)"

lemma table_read_back:
  assumes "headers \<noteq> []" and "\<forall>h \<in> set headers. blank_free h" and "\<forall>row \<in> set rows. row \<noteq> []"
  shows "read_table (format_table headers rows) = headers # map (map compact_value) rows"
proof -
  let ?lines = "headers # map (map compact_value) rows"
  have cells: "\<forall>line \<in> set ?lines. line \<noteq> [] \<and> (\<forall>s \<in> set line. CHR 0x09 \<notin> set s \<and> CHR 0x0A \<notin> set s)"
    using assms blank_free_parts compact_value_blank_free by fastforce
  have no_break: "CHR 0x0A \<notin> set (join_with TAB line)" if "line \<in> set ?lines" for line
  proof -
    have "CHR 0x0A \<notin> set s" if "s \<in> set line" for s
      using cells \<open>line \<in> set ?lines\<close> that by blast
    then show ?thesis using set_join [of TAB line] by (auto simp: TAB_def)
  qed
  have table: "format_table headers rows = join_with [CHR 0x0A] (map (join_with TAB) ?lines)"
    by (simp add: format_table_def NEWLINE_def comp_def)
  have "split_on (CHR 0x0A) (format_table headers rows) = map (join_with TAB) ?lines"
    unfolding table by (rule split_on_join) (use no_break in auto)
  moreover have "map (split_on (CHR 0x09)) (map (join_with TAB) ?lines) = ?lines"
    using cells by (auto simp: TAB_def comp_def intro!: map_idI split_on_join)
  ultimately show ?thesis by (simp add: read_table_def)
qed

end
