(* ===== verification/Blocking_Execution.thy ===== *)
theory Blocking_Execution
  imports Stored_Executor Prompt_Admission Text_Output
begin

text \<open>
  \<open>blocking_execution.py\<close>, \<open>blocking_timeout.py\<close> and \<open>timeout_boundary.py\<close>: a prompt is sent to a session and the
  answer of the assistant is waited for, by the message route or by the older pair of routes run and reply. The
  requests of the client and the clock are parameters. What a request raises is a \<open>request_error\<close>, what the
  execution raises a \<open>blocking_failure\<close>; any other exception is the exception of the action.
\<close>

section \<open>Deadlines\<close>

type_synonym 's clock = "'s \<Rightarrow> rat"

record deadline =
  dl_timeout :: "rat option"
  dl_expires_at :: "rat option"

definition timeout_deadline :: "rat option \<Rightarrow> rat \<Rightarrow> deadline" where
  "timeout_deadline timeout now = \<lparr>dl_timeout = timeout, dl_expires_at = map_option (\<lambda>t. now + t) timeout\<rparr>"

definition remaining_time :: "deadline \<Rightarrow> rat \<Rightarrow> rat option" where
  "remaining_time d now = map_option (\<lambda>e. max 0 (e - now)) (dl_expires_at d)"

definition deadline_expired :: "deadline \<Rightarrow> rat \<Rightarrow> bool" where
  "deadline_expired d now = (case remaining_time d now of None \<Rightarrow> False | Some r \<Rightarrow> r \<le> 0)"

section \<open>Exceptions of a request\<close>

datatype request_error =
    ApiTimeout api_response_error
  | DeadlineExpired
  | SystemTimeout string
  | ApiFailure api_response_error

fun timed_out :: "request_error \<Rightarrow> bool" where
  "timed_out (ApiFailure _) = False"
| "timed_out _ = True"

fun request_error_text :: "request_error \<Rightarrow> string" where
  "request_error_text (ApiTimeout e) = ae_message e"
| "request_error_text DeadlineExpired = []"
| "request_error_text (SystemTimeout m) = m"
| "request_error_text (ApiFailure e) = ae_message e"

fun request_error_name :: "request_error \<Rightarrow> string" where
  "request_error_name (ApiTimeout _) = ''OpenCodeApiTimeoutError''"
| "request_error_name DeadlineExpired = ''TimeoutExpired''"
| "request_error_name (SystemTimeout _) = ''TimeoutError''"
| "request_error_name (ApiFailure _) = ''OpenCodeApiError''"

datatype blocking_failure =
    ExecutionTimeout string json "string option"
      \<comment> \<open>the message, the prompt id, the error of the abort\<close>
  | ProviderFailed string json
  | RequestRaised request_error

type_synonym ('s, 'e, 'a) attempt = "('s, 'e + 'a) action"

definition attempt_bind :: "('s, 'e, 'a) attempt \<Rightarrow> ('a \<Rightarrow> ('s, 'e, 'b) attempt) \<Rightarrow> ('s, 'e, 'b) attempt" where
  "attempt_bind m f = act_bind m (\<lambda>x. case x of Inl e \<Rightarrow> act_return (Inl e) | Inr y \<Rightarrow> f y)"

definition attempt_raise :: "'e \<Rightarrow> ('s, 'e, 'a) attempt" where
  "attempt_raise e = act_return (Inl e)"

definition attempt_return :: "'a \<Rightarrow> ('s, 'e, 'a) attempt" where
  "attempt_return x = act_return (Inr x)"

text \<open>The data and the body of an answer; the time a request may take is its timeout or its deadline.\<close>

type_synonym 's request = "('s, request_error, json \<times> string) attempt"

record 's blocking_client =
  bc_message :: "json \<Rightarrow> json \<Rightarrow> string \<Rightarrow> rat option \<Rightarrow> deadline option \<Rightarrow> 's request"
  bc_run :: "json \<Rightarrow> json \<Rightarrow> rat option \<Rightarrow> deadline option \<Rightarrow> 's request"
  bc_reply :: "json \<Rightarrow> rat option \<Rightarrow> deadline option \<Rightarrow> 's request"
  bc_abort :: "json \<Rightarrow> 's request"
  bc_timeout :: "rat option"

definition require_time :: "'s clock \<Rightarrow> deadline \<Rightarrow> ('s, request_error, rat option) attempt" where
  "require_time clock d = act_bind (act_read clock) (\<lambda>now.
     if deadline_expired d now then attempt_raise DeadlineExpired else attempt_return (remaining_time d now))"

definition run_within :: "'s clock \<Rightarrow> deadline \<Rightarrow> ('s, request_error, 'a) attempt \<Rightarrow> ('s, request_error, 'a) attempt" where
  "run_within clock d callback =
     attempt_bind (require_time clock d) (\<lambda>_. attempt_bind callback (\<lambda>x.
     attempt_bind (require_time clock d) (\<lambda>_. attempt_return x)))"

section \<open>Timeouts\<close>

definition abort_acceptance_is_explicit :: "json \<Rightarrow> bool" where
  "abort_acceptance_is_explicit data =
     (case data of
        JObj d \<Rightarrow>
          list_ex (\<lambda>k. dict_has d k \<and> bool_value (dict_get d k) \<noteq> None) [''accepted'', ''aborted'', ''ok'', ''success''] \<or>
          py_lower (py_str (truthy_or (dict_get d ''status'') (truthy_or (dict_get d ''state'') (JStr []))))
            \<in> {''abort'', ''aborted'', ''aborting'', ''accepted'', ''canceled'', ''cancelled'', ''denied'', ''error'',
               ''failed'', ''not_accepted'', ''rejected'', ''unsupported''}
      | _ \<Rightarrow> False)"

definition abort_refusal :: "json \<Rightarrow> json \<Rightarrow> string option" where
  "abort_refusal session_id data =
     (let response = (case data of JBool b \<Rightarrow> JObj [(''accepted'', JBool b)] | _ \<Rightarrow> data) in
      if \<not> abort_acceptance_is_explicit response then Some ''abort response did not confirm acceptance''
      else let abort = abort_record session_id response in
        if py_truthy (dict_get abort ''accepted'') then None
        else Some (''abort was not accepted ('' @ py_str (truthy_or (dict_get abort ''raw_status'')
          (truthy_or (dict_get abort ''status'') (JStr ''not accepted''))) @ '')''))"

definition or_name :: "string \<Rightarrow> string \<Rightarrow> string" where
  "or_name text name = (if text = [] then name else text)"

definition abort_timed_out_session :: "'s blocking_client \<Rightarrow> json \<Rightarrow> ('s, string option) action" where
  "abort_timed_out_session client session_id =
     act_catch (act_bind (bc_abort client session_id) (\<lambda>answer.
         act_return (case answer of
             Inl e \<Rightarrow> Some (or_name (request_error_text e) (request_error_name e))
           | Inr (data, body) \<Rightarrow> abort_refusal session_id data)))
       (\<lambda>e. act_return (Some (or_name (error_text e) (error_type_name e))))"

definition execute_with_timeout_abort ::
  "'s blocking_client \<Rightarrow> json \<Rightarrow> json \<Rightarrow> 's request \<Rightarrow> ('s, blocking_failure, json \<times> string) attempt" where
  "execute_with_timeout_abort client session_id prompt_id callback =
     act_bind callback (\<lambda>answer.
     case answer of
       Inr response \<Rightarrow> attempt_return response
     | Inl e \<Rightarrow>
         if timed_out e
         then act_bind (abort_timed_out_session client session_id) (\<lambda>abort_error.
           attempt_raise (ExecutionTimeout
             (or_name (request_error_text e) (''blocking execution timed out for session '' @ py_str session_id))
             prompt_id abort_error))
         else attempt_raise (RequestRaised e))"

section \<open>Checking the answers\<close>

definition known_message_result ::
  "json \<Rightarrow> string \<Rightarrow> string \<Rightarrow> json \<Rightarrow> string \<Rightarrow> string \<Rightarrow> (blocking_failure + message_result) result" where
  "known_message_result message route source prompt_id requirement label =
     res_bind (normalize_message_result (message_codec_for_route (JStr route)) message (Some requirement) label) (\<lambda>r.
     Inr (if mg_known r then Inr r
          else Inl (ProviderFailed (''unrecognized message schema from '' @ source @ '': '' @
            compact_value (dict_get (mg_record r) ''raw'')) prompt_id)))"

definition raise_provider_failure :: "message_result \<Rightarrow> json \<Rightarrow> blocking_failure option" where
  "raise_provider_failure r prompt_id =
     (if py_truthy (mg_provider_failure r) then Some (ProviderFailed (py_str (mg_provider_failure r)) prompt_id) else None)"

definition raise_incomplete_message_schema :: "message_result \<Rightarrow> string \<Rightarrow> json \<Rightarrow> blocking_failure option" where
  "raise_incomplete_message_schema r source prompt_id =
     (case mg_incomplete_reason r of
        None \<Rightarrow> None
      | Some reason \<Rightarrow> Some (ProviderFailed (''incomplete message schema from '' @ source @ '': '' @ reason) prompt_id))"

fun checked :: "blocking_failure option list \<Rightarrow> 'a \<Rightarrow> blocking_failure + 'a" where
  "checked [] x = Inr x"
| "checked (None # fs) x = checked fs x"
| "checked (Some f # fs) x = Inl f"

section \<open>Results\<close>

definition fallback_json :: "json \<Rightarrow> bool \<Rightarrow> json" where
  "fallback_json available used =
     JObj [(''available'', available), (''strategy'', JStr ''legacy_run_reply''), (''used'', JBool used)]"

definition blocking_result ::
  "json \<Rightarrow> json \<Rightarrow> jdict \<Rightarrow> jdict \<Rightarrow> string \<Rightarrow> json \<Rightarrow> jdict" where
  "blocking_result session_id user_id reply api_path strategy fallback =
     (let raw = message_raw_status reply (JStr ''completed''); status = opt_json (short_status raw) in
      [(''session_id'', session_id),
       (''message_ids'', JObj [(''user'', user_id), (''assistant'', dict_get reply ''id'')]),
       (''status'', status), (''raw_status'', raw), (''terminal_state'', status), (''api_path'', JObj api_path),
       (''execution_strategy'', JStr strategy), (''fallback'', fallback), (''cost'', dict_get reply ''cost''),
       (''tokens'', dict_get reply ''tokens''), (''text'', dict_get reply ''text'')])"

definition legacy_run_reply_result_from_records ::
  "json \<Rightarrow> jdict \<Rightarrow> jdict \<Rightarrow> jdict \<Rightarrow> server_profile \<Rightarrow> jdict" where
  "legacy_run_reply_result_from_records session_id run reply api_path profile =
     blocking_result session_id (dict_get run ''id'') reply
       (if api_path = [] then legacy_api_path profile else api_path) ''legacy_run_reply'' (fallback_json (JBool True) True)"

definition dict_get_default :: "jdict \<Rightarrow> string \<Rightarrow> json \<Rightarrow> json" where
  "dict_get_default d k v = (case map_of d k of None \<Rightarrow> v | Some w \<Rightarrow> w)"

definition session_message_result ::
  "json \<Rightarrow> string \<Rightarrow> jdict \<Rightarrow> jdict \<Rightarrow> server_profile \<Rightarrow> jdict" where
  "session_message_result session_id prompt_message_id reply capabilities profile =
     blocking_result session_id (JStr prompt_message_id) reply (blocking_api_path profile) ''session_message''
       (fallback_json (dict_get_default capabilities ''legacy_fallback_available'' (JBool False)) False)"

definition legacy_run_reply_result ::
  "json \<Rightarrow> json \<Rightarrow> json \<Rightarrow> jdict \<Rightarrow> server_profile option \<Rightarrow> (blocking_failure + jdict) result" where
  "legacy_run_reply_result session_id run_message reply_message api_path profile =
     res_bind (case profile of None \<Rightarrow> default_profile | Some p \<Rightarrow> Inr p) (\<lambda>p.
     let route = message_route p ''legacy_run'' in
     res_bind (known_message_result run_message route ''legacy run response'' JNull MESSAGE_REQUIRE_ID ''user'') (\<lambda>run.
     case run of Inl f \<Rightarrow> Inr (Inl f) | Inr run_result \<Rightarrow>
     (case raise_incomplete_message_schema run_result ''legacy run response'' JNull of Some f \<Rightarrow> Inr (Inl f) | None \<Rightarrow>
      let prompt_id = dict_get (mg_record run_result) ''id'' in
      res_bind (known_message_result reply_message route ''legacy reply response'' prompt_id
          MESSAGE_REQUIRE_FINAL_ASSISTANT ''assistant'') (\<lambda>reply.
      case reply of Inl f \<Rightarrow> Inr (Inl f) | Inr reply_result \<Rightarrow>
      Inr (checked [raise_incomplete_message_schema reply_result ''legacy reply response'' prompt_id]
        (legacy_run_reply_result_from_records session_id (mg_record run_result) (mg_record reply_result) api_path p))))))"

definition capabilities_legacy_api_path :: "json \<Rightarrow> jdict result" where
  "capabilities_legacy_api_path capabilities = res_bind (from_capabilities capabilities) (\<lambda>p. Inr (legacy_api_path p))"

definition skipped_blocking_execution_result :: "json \<Rightarrow> jdict \<Rightarrow> string \<Rightarrow> jdict result" where
  "skipped_blocking_execution_result session_id capabilities reason =
     res_bind (capabilities_legacy_api_path (JObj capabilities)) (\<lambda>api_path.
     res_bind (indexed capabilities ''legacy_fallback_available'') (\<lambda>legacy.
     Inr [(''session_id'', session_id), (''status'', JStr ''skipped''), (''reason'', JStr reason),
          (''raw_status'', JStr ''skipped''), (''terminal_state'', JStr ''skipped''), (''api_path'', JObj api_path),
          (''fallback'', fallback_json legacy False)]))"

definition format_blocking_execution_compact :: "jdict \<Rightarrow> string result" where
  "format_blocking_execution_compact result =
     res_bind (indexed result ''session_id'') (\<lambda>session.
     res_bind (indexed result ''status'') (\<lambda>status.
     res_bind (indexed_mapping result ''message_ids'') (\<lambda>ids.
     res_bind (indexed ids ''user'') (\<lambda>user.
     res_bind (indexed ids ''assistant'') (\<lambda>assistant.
     res_bind (indexed result ''cost'') (\<lambda>cost.
     res_bind (indexed result ''tokens'') (\<lambda>tokens.
     res_bind (indexed result ''text'') (\<lambda>txt.
     Inr (''run_blocking '' @ compact_fields [(''session'', session), (''status'', status), (''user'', user),
       (''assistant'', assistant), (''cost'', cost), (''tokens'', tokens_total tokens), (''text'', txt)])))))))))"

definition provider_failure :: "json \<Rightarrow> json \<Rightarrow> json result" where
  "provider_failure message route =
     res_bind (normalize_message_result (message_codec_for_route route) message None ''message'') (\<lambda>r.
     Inr (mg_provider_failure r))"

section \<open>Executing a prompt\<close>

definition DEFAULT_BLOCKING_EXECUTION_TIMEOUT_SECONDS :: rat where
  "DEFAULT_BLOCKING_EXECUTION_TIMEOUT_SECONDS = 120"

text \<open>The deadline is asked for its time before the request is sent.\<close>

definition request_timeout ::
  "'s clock \<Rightarrow> 's blocking_client \<Rightarrow> rat option \<Rightarrow> deadline option \<Rightarrow> ('s, blocking_failure, rat option) attempt" where
  "request_timeout clock client timeout deadline =
     (case deadline of
        Some d \<Rightarrow> act_bind (require_time clock d) (\<lambda>r.
          case r of Inl e \<Rightarrow> attempt_raise (RequestRaised e) | Inr t \<Rightarrow> attempt_return t)
      | None \<Rightarrow> attempt_return (if timeout = None then bc_timeout client else timeout))"

definition message_reply ::
  "json \<Rightarrow> string \<Rightarrow> jdict \<Rightarrow> server_profile \<Rightarrow> json \<Rightarrow> (blocking_failure + jdict) result" where
  "message_reply session_id mid capabilities profile data =
     res_bind (known_message_result data (message_route profile ''blocking_message'') ''blocking message response''
         (JStr mid) MESSAGE_REQUIRE_FINAL_ASSISTANT ''assistant'') (\<lambda>known.
     Inr (case known of Inl f \<Rightarrow> Inl f | Inr r \<Rightarrow>
       checked [raise_provider_failure r (JStr mid),
                raise_incomplete_message_schema r ''blocking message response'' (JStr mid)]
         (session_message_result session_id mid (mg_record r) capabilities profile)))"

definition execute_session_message_prompt ::
  "'s clock \<Rightarrow> ('s \<Rightarrow> string) \<Rightarrow> 's blocking_client \<Rightarrow> json \<Rightarrow> json \<Rightarrow> jdict \<Rightarrow> server_profile \<Rightarrow> rat option \<Rightarrow>
   deadline option \<Rightarrow> string option \<Rightarrow> ('s, blocking_failure, jdict) attempt" where
  "execute_session_message_prompt clock new_id client session_id prompt capabilities profile timeout deadline message_id =
     act_bind (act_read (\<lambda>s. case message_id of Some (c # cs) \<Rightarrow> c # cs | _ \<Rightarrow> new_id s)) (\<lambda>mid.
     attempt_bind (request_timeout clock client timeout deadline) (\<lambda>t.
     attempt_bind (execute_with_timeout_abort client session_id (JStr mid)
       (bc_message client session_id prompt mid t deadline)) (\<lambda>response.
     act_result (message_reply session_id mid capabilities profile (fst response)))))"

definition run_reply ::
  "server_profile \<Rightarrow> json \<Rightarrow> (blocking_failure + jdict) result" where
  "run_reply profile data =
     res_bind (known_message_result data (message_route profile ''legacy_run'') ''legacy run response'' JNull
         MESSAGE_REQUIRE_ID ''user'') (\<lambda>known.
     Inr (case known of Inl f \<Rightarrow> Inl f | Inr r \<Rightarrow>
       checked [raise_provider_failure r (dict_get (mg_record r) ''id''),
                raise_incomplete_message_schema r ''legacy run response'' JNull] (mg_record r)))"

definition legacy_reply ::
  "json \<Rightarrow> jdict \<Rightarrow> json \<Rightarrow> server_profile \<Rightarrow> json \<Rightarrow> (blocking_failure + jdict) result" where
  "legacy_reply session_id run capabilities profile data =
     (let prompt_id = dict_get run ''id'' in
     res_bind (known_message_result data (message_route profile ''legacy_run'') ''legacy reply response'' prompt_id
         MESSAGE_REQUIRE_FINAL_ASSISTANT ''assistant'') (\<lambda>known.
     case known of Inl f \<Rightarrow> Inr (Inl f) | Inr r \<Rightarrow>
     (case checked [raise_provider_failure r prompt_id,
                    raise_incomplete_message_schema r ''legacy reply response'' prompt_id] (mg_record r) of
        Inl f \<Rightarrow> Inr (Inl f)
      | Inr reply \<Rightarrow> res_bind (capabilities_legacy_api_path capabilities) (\<lambda>api_path.
          Inr (Inr (legacy_run_reply_result_from_records session_id run reply api_path profile))))))"

definition execute_legacy_run_reply_prompt ::
  "'s clock \<Rightarrow> 's blocking_client \<Rightarrow> json \<Rightarrow> json \<Rightarrow> json \<Rightarrow> server_profile \<Rightarrow> rat option \<Rightarrow> deadline option \<Rightarrow>
   ('s, blocking_failure, jdict) attempt" where
  "execute_legacy_run_reply_prompt clock client session_id prompt capabilities profile timeout deadline =
     attempt_bind (request_timeout clock client timeout deadline) (\<lambda>t.
     attempt_bind (execute_with_timeout_abort client session_id JNull (bc_run client session_id prompt t deadline)) (\<lambda>response.
     attempt_bind (act_result (run_reply profile (fst response))) (\<lambda>run.
     attempt_bind (request_timeout clock client timeout deadline) (\<lambda>t'.
     attempt_bind (execute_with_timeout_abort client session_id (dict_get run ''id'')
       (bc_reply client session_id t' deadline)) (\<lambda>response'.
     act_result (legacy_reply session_id run capabilities profile (fst response')))))))"

definition unsupported_blocking_execution_message :: string where
  "unsupported_blocking_execution_message =
     ''unsupported route behavior: missing blocking execution: POST /session/{sessionID}/message or legacy '' @
     ''POST /session/{sessionID}/run + POST /session/{sessionID}/reply; v2 prompt admission is not execution''"

definition client_side_error :: "string \<Rightarrow> api_response_error" where
  "client_side_error m = \<lparr>ae_message = m, ae_status = None, ae_method = None, ae_path = None, ae_body = None, ae_data = JNull\<rparr>"

text \<open>A profile that offers a strategy comes from a capabilities dictionary.\<close>

definition execute_blocking_prompt ::
  "'s clock \<Rightarrow> ('s \<Rightarrow> string) \<Rightarrow> 's blocking_client \<Rightarrow> json \<Rightarrow> json \<Rightarrow> jdict \<Rightarrow> rat option \<Rightarrow> deadline option \<Rightarrow>
   string option \<Rightarrow> ('s, blocking_failure, jdict) attempt" where
  "execute_blocking_prompt clock new_id client session_id prompt capabilities timeout deadline message_id =
     act_bind (act_result (from_capabilities (JObj capabilities))) (\<lambda>profile.
     act_bind (act_result (blocking_execution_strategy profile (JObj capabilities))) (\<lambda>strategy.
     if strategy = Some ''session_message''
     then execute_session_message_prompt clock new_id client session_id prompt capabilities profile timeout deadline message_id
     else if strategy = Some ''legacy_run_reply''
     then execute_legacy_run_reply_prompt clock client session_id prompt (JObj capabilities) profile timeout deadline
     else attempt_raise (RequestRaised (ApiFailure (client_side_error unsupported_blocking_execution_message)))))"

section \<open>The prompt executor of a worker\<close>

text \<open>
  \<open>CallableWorkerPromptExecutor\<close> with \<open>execute_blocking_prompt\<close>: a message id is drawn beforehand for the message
  route, and the timeout of the worker is the deadline of the call. A time that is out becomes a
  \<open>WorkerExecutionTimeout\<close>. The policy of the attempts reads prompt ids that are texts; \<open>attempt_error_of\<close> gives
  the exception it sees for those.
\<close>

definition prepare_worker_prompt_id :: "string \<Rightarrow> jdict \<Rightarrow> string option result" where
  "prepare_worker_prompt_id new_id capabilities =
     res_bind (from_capabilities (JObj capabilities)) (\<lambda>profile.
     res_bind (blocking_execution_strategy profile (JObj capabilities)) (\<lambda>strategy.
     Inr (if strategy = Some ''session_message'' then Some new_id else None)))"

definition json_text :: "json \<Rightarrow> string option" where
  "json_text v = (case v of JStr s \<Rightarrow> Some s | _ \<Rightarrow> None)"

fun attempt_error_of :: "blocking_failure \<Rightarrow> attempt_error" where
  "attempt_error_of (ExecutionTimeout m pid abort_error) =
     BlockingExecutionTimeout m (json_text pid) (case abort_error of None \<Rightarrow> [] | Some e \<Rightarrow> e)"
| "attempt_error_of (ProviderFailed m pid) = BlockingProviderFailure m (json_text pid)"
| "attempt_error_of (RequestRaised DeadlineExpired) = WorkerExecutionTimeout None"
| "attempt_error_of (RequestRaised (SystemTimeout m)) = WorkerExecutionTimeout None"
| "attempt_error_of (RequestRaised (ApiTimeout e)) = OpenCodeApiTimeoutError (ae_message e)"
| "attempt_error_of (RequestRaised (ApiFailure e)) = OpenCodeApiError (ae_message e)"

definition call_worker_with_deadline ::
  "'s clock \<Rightarrow> rat option \<Rightarrow> (deadline option \<Rightarrow> ('s, blocking_failure, jdict) attempt) \<Rightarrow>
   ('s, attempt_error, jdict) attempt" where
  "call_worker_with_deadline clock timeout callback =
     act_bind (act_read clock) (\<lambda>now.
     let d = map_option (\<lambda>t. timeout_deadline (Some t) now) timeout in
     act_bind (case d of None \<Rightarrow> attempt_return None | Some dl \<Rightarrow> require_time clock dl) (\<lambda>r.
     case r of
       Inl e \<Rightarrow> attempt_raise (WorkerExecutionTimeout None)
     | Inr t \<Rightarrow> act_bind (callback d) (\<lambda>answer.
         case answer of Inl f \<Rightarrow> attempt_raise (attempt_error_of f) | Inr result \<Rightarrow> attempt_return result)))"

text \<open>The timeout of a stored worker is absent or a positive finite number.\<close>

definition seconds_of :: "json \<Rightarrow> rat option result" where
  "seconds_of v =
     (if v = JNull then Inr None
      else case num_value v of Some r \<Rightarrow> Inr (Some r) | None \<Rightarrow> Inl (TypeError ''unsupported operand type for +''))"

definition blocking_prompt_executor ::
  "'s clock \<Rightarrow> ('s \<Rightarrow> string) \<Rightarrow> ('s, 's blocking_client, jdict) prompt_executor" where
  "blocking_prompt_executor clock new_id client w prompt capabilities prompt_id =
     act_bind (act_result (seconds_of (wr_slots w F_timeout_seconds))) (\<lambda>timeout.
     call_worker_with_deadline clock timeout (\<lambda>d.
       execute_blocking_prompt clock new_id client (wr_slots w F_session_id) (opt_json prompt) capabilities
         (Some DEFAULT_BLOCKING_EXECUTION_TIMEOUT_SECONDS) d prompt_id))"

end
