(* ===== verification/Api_Client.thy ===== *)
theory Api_Client
  imports Api_Routes Blocking_Execution
begin

text \<open>
  \<open>api_transport.py\<close>, \<open>api_domain.py\<close> and \<open>api_client.py\<close>: a request goes to a path of the server, what comes back
  is read as JSON or becomes one of the exceptions of the client, and every operation of the domain is a method, a
  path of the route planner and a payload. The exchange of bytes over HTTP and \<open>json.loads\<close> are parameters.
\<close>

section \<open>The transport\<close>

text \<open>
  What \<open>urlopen\<close> gives or raises: a body, an \<open>HTTPError\<close> with its code and body, a \<open>URLError\<close> with its reason and
  whether the reason is a timeout, a timeout, or the expired deadline.
\<close>

datatype http_outcome =
    HttpBody string
  | HttpStatus int string
  | HttpUnreachable string bool
  | HttpTimedOut
  | HttpExpired

record 's transport =
  tp_base_url :: string
  tp_timeout :: "rat option"
  tp_send :: "string \<Rightarrow> string \<Rightarrow> json option \<Rightarrow> rat option \<Rightarrow> bool \<Rightarrow> ('s, http_outcome) action"
    \<comment> \<open>method, path below the base URL, payload, time, whether redirects are followed\<close>
  tp_loads :: "string \<Rightarrow> json option"
  tp_clock :: "'s clock"

definition bare_path :: "string \<Rightarrow> string" where
  "bare_path path = lstrip_char (CHR ''/'') path"

definition absolute_path :: "string \<Rightarrow> string" where
  "absolute_path path = CHR ''/'' # bare_path path"

definition or_empty_object :: "string \<Rightarrow> string" where
  "or_empty_object body = (if body = [] then ''{}'' else body)"

definition raise_http_error :: "(string \<Rightarrow> json option) \<Rightarrow> string \<Rightarrow> string \<Rightarrow> int \<Rightarrow> string \<Rightarrow> request_error" where
  "raise_http_error loads method path code body =
     ApiFailure \<lparr>ae_message = method @ '' '' @ absolute_path path @ '' failed: HTTP '' @ int_text code,
       ae_status = Some code, ae_method = Some method, ae_path = Some (absolute_path path), ae_body = Some body,
       ae_data = (case loads (or_empty_object body) of Some v \<Rightarrow> v | None \<Rightarrow> JNull)\<rparr>"

definition server_url :: "string \<Rightarrow> string" where
  "server_url base_url = rstrip_char (CHR ''/'') base_url"

definition raise_api_timeout :: "string \<Rightarrow> bool \<Rightarrow> request_error" where
  "raise_api_timeout base_url stream = ApiTimeout (client_side_error
     (''OpenCode '' @ (if stream then ''event stream'' else ''server'') @ '' timed out at '' @ server_url base_url))"

definition timeout_error :: "string \<Rightarrow> bool \<Rightarrow> bool \<Rightarrow> request_error" where
  "timeout_error base_url has_deadline stream =
     (if has_deadline then DeadlineExpired else raise_api_timeout base_url stream)"

definition raise_url_error :: "string \<Rightarrow> bool \<Rightarrow> bool \<Rightarrow> string \<Rightarrow> bool \<Rightarrow> request_error" where
  "raise_url_error base_url has_deadline stream reason is_timeout =
     (if is_timeout then timeout_error base_url has_deadline stream
      else ApiFailure (client_side_error (''cannot reach OpenCode server at '' @ server_url base_url @ '': '' @ reason)))"

fun read_outcome ::
  "(string \<Rightarrow> json option) \<Rightarrow> string \<Rightarrow> string \<Rightarrow> string \<Rightarrow> bool \<Rightarrow> http_outcome \<Rightarrow> request_error + string" where
  "read_outcome loads base_url method path has_deadline (HttpBody body) = Inr body"
| "read_outcome loads base_url method path has_deadline (HttpStatus code body) =
     Inl (raise_http_error loads method path code body)"
| "read_outcome loads base_url method path has_deadline (HttpUnreachable reason is_timeout) =
     Inl (raise_url_error base_url has_deadline False reason is_timeout)"
| "read_outcome loads base_url method path has_deadline HttpTimedOut = Inl (timeout_error base_url has_deadline False)"
| "read_outcome loads base_url method path has_deadline HttpExpired = Inl DeadlineExpired"

definition transport_timeout :: "'s transport \<Rightarrow> rat option \<Rightarrow> deadline option \<Rightarrow> ('s, request_error, rat option) attempt" where
  "transport_timeout t timeout deadline =
     (case deadline of
        Some d \<Rightarrow> require_time (tp_clock t) d
      | None \<Rightarrow> attempt_return (if timeout = None then tp_timeout t else timeout))"

definition request_body ::
  "'s transport \<Rightarrow> string \<Rightarrow> string \<Rightarrow> json option \<Rightarrow> rat option \<Rightarrow> deadline option \<Rightarrow> bool \<Rightarrow> ('s, request_error, string) attempt" where
  "request_body t method path payload timeout deadline follow =
     attempt_bind (transport_timeout t timeout deadline) (\<lambda>seconds.
     act_bind (tp_send t method (bare_path path) payload seconds follow) (\<lambda>outcome.
     act_return (read_outcome (tp_loads t) (tp_base_url t) method path (deadline \<noteq> None) outcome)))"

definition parsed_response :: "(string \<Rightarrow> json option) \<Rightarrow> string \<Rightarrow> string \<Rightarrow> string \<Rightarrow> request_error + json \<times> string" where
  "parsed_response loads method path body =
     (case loads (or_empty_object body) of
        Some data \<Rightarrow> Inr (data, body)
      | None \<Rightarrow> Inl (ApiFailure
          \<lparr>ae_message = method @ '' '' @ absolute_path path @ '' returned invalid JSON'', ae_status = None,
           ae_method = Some method, ae_path = Some (absolute_path path), ae_body = None, ae_data = JNull\<rparr>))"

definition request_json ::
  "'s transport \<Rightarrow> string \<Rightarrow> string \<Rightarrow> json option \<Rightarrow> rat option \<Rightarrow> deadline option \<Rightarrow> bool \<Rightarrow> 's request" where
  "request_json t method path payload timeout deadline follow =
     attempt_bind (request_body t method path payload timeout deadline follow) (\<lambda>body.
     act_return (parsed_response (tp_loads t) method path body))"

definition get_response :: "'s transport \<Rightarrow> string \<Rightarrow> rat option \<Rightarrow> deadline option \<Rightarrow> 's request" where
  "get_response t path timeout deadline = request_json t ''GET'' path None timeout deadline True"

definition get_response_no_redirects :: "'s transport \<Rightarrow> string \<Rightarrow> rat option \<Rightarrow> deadline option \<Rightarrow> 's request" where
  "get_response_no_redirects t path timeout deadline = request_json t ''GET'' path None timeout deadline False"

definition post_response :: "'s transport \<Rightarrow> string \<Rightarrow> json \<Rightarrow> rat option \<Rightarrow> deadline option \<Rightarrow> 's request" where
  "post_response t path payload timeout deadline = request_json t ''POST'' path (Some payload) timeout deadline True"

definition delete_response :: "'s transport \<Rightarrow> string \<Rightarrow> rat option \<Rightarrow> deadline option \<Rightarrow> 's request" where
  "delete_response t path timeout deadline = request_json t ''DELETE'' path None timeout deadline True"

definition response_data :: "'s request \<Rightarrow> ('s, request_error, json) attempt" where
  "response_data r = attempt_bind r (\<lambda>response. attempt_return (fst response))"

text \<open>The base URL is given with a scheme and a host; it is kept with one slash at its end.\<close>

definition url_scheme :: "string \<Rightarrow> string" where
  "url_scheme url = py_lower (before_char (CHR '':'') url)"

definition url_host :: "string \<Rightarrow> string" where
  "url_host url =
     (let rest = drop (Suc (length (before_char (CHR '':'') url))) url in
      if starts_with rest ''//'' then takeWhile (\<lambda>c. c \<notin> {CHR ''/'', CHR ''?'', CHR ''#''}) (drop 2 rest) else [])"

definition validate_base_url :: "string \<Rightarrow> api_response_error option" where
  "validate_base_url url =
     (if url_scheme url \<in> {''http'', ''https''} \<and> url_host url \<noteq> [] then None
      else Some (client_side_error (''invalid OpenCode server URL '' @ repr_str url @ '': expected http(s) URL'')))"

definition new_transport :: "string \<Rightarrow> rat option \<Rightarrow> 's transport \<Rightarrow> api_response_error + 's transport" where
  "new_transport base_url timeout t =
     (case validate_base_url base_url of
        Some e \<Rightarrow> Inl e
      | None \<Rightarrow> Inr (t\<lparr>tp_base_url := server_url base_url @ ''/'', tp_timeout := timeout\<rparr>))"

section \<open>The client of the domain\<close>

record 's api_client =
  cl_transport :: "'s transport"
  cl_routes :: route_planner

definition client_profile :: "'s api_client \<Rightarrow> server_profile option" where
  "client_profile c = rp_profile (cl_routes c)"

definition configure_server_profile :: "server_profile \<Rightarrow> 's api_client \<Rightarrow> 's api_client" where
  "configure_server_profile p c = c\<lparr>cl_routes := configure_profile p (cl_routes c)\<rparr>"

definition configure_route_plan :: "jdict \<Rightarrow> 's api_client \<Rightarrow> 's api_client result" where
  "configure_route_plan plan c = res_bind (configure_routes plan (cl_routes c)) (\<lambda>r. Inr (c\<lparr>cl_routes := r\<rparr>))"

definition configure_client_route_plan :: "json \<Rightarrow> 's api_client \<Rightarrow> 's api_client result" where
  "configure_client_route_plan capabilities c =
     res_bind (from_capabilities capabilities) (\<lambda>p. Inr (configure_server_profile p c))"

definition DEFAULT_PROFILE_ENDPOINTS :: "string list" where
  "DEFAULT_PROFILE_ENDPOINTS = [''session_abort'', ''session_fork'', ''session_children'', ''permissions'',
     ''permission_reply'', ''questions'', ''question_reply'', ''question_reject'']"

definition client_route_path :: "'s api_client \<Rightarrow> string \<Rightarrow> route_ids \<Rightarrow> (api_response_error + string) result" where
  "client_route_path c name ids = planner_path (cl_routes c) name ids (name \<in> set DEFAULT_PROFILE_ENDPOINTS)"

text \<open>Every operation finds its path first.\<close>

definition sent_to :: "(api_response_error + string) result \<Rightarrow> (string \<Rightarrow> 's request) \<Rightarrow> 's request" where
  "sent_to path f = act_bind (act_result path) (\<lambda>p. case p of Inl e \<Rightarrow> attempt_raise (ApiFailure e) | Inr q \<Rightarrow> f q)"

definition route_request :: "'s api_client \<Rightarrow> string \<Rightarrow> route_ids \<Rightarrow> (string \<Rightarrow> 's request) \<Rightarrow> 's request" where
  "route_request c name ids f = sent_to (client_route_path c name ids) f"

definition of_session :: "json \<Rightarrow> route_ids" where "of_session i = no_ids\<lparr>ri_session := i\<rparr>"
definition of_request :: "json \<Rightarrow> route_ids" where "of_request i = no_ids\<lparr>ri_request := i\<rparr>"
definition of_project :: "json \<Rightarrow> route_ids" where "of_project i = no_ids\<lparr>ri_project := i\<rparr>"
definition of_workspace :: "json \<Rightarrow> route_ids" where "of_workspace i = no_ids\<lparr>ri_workspace := i\<rparr>"

definition with_session_payload :: "server_profile option \<Rightarrow> string \<Rightarrow> json \<times> string \<Rightarrow> json \<times> string" where
  "with_session_payload profile endpoint response =
     (normalize_session_payload (case profile of Some p \<Rightarrow> session_adapter_of p endpoint
        | None \<Rightarrow> session_adapter_for_route JNull JNull) (fst response), snd response)"

definition session_answers :: "'s api_client \<Rightarrow> string \<Rightarrow> 's request \<Rightarrow> 's request" where
  "session_answers c endpoint r =
     attempt_bind r (\<lambda>response. attempt_return (with_session_payload (client_profile c) endpoint response))"

definition get_from :: "'s api_client \<Rightarrow> string \<Rightarrow> route_ids \<Rightarrow> 's request" where
  "get_from c name ids = route_request c name ids (\<lambda>p. get_response (cl_transport c) p None None)"

definition delete_at :: "'s api_client \<Rightarrow> string \<Rightarrow> route_ids \<Rightarrow> 's request" where
  "delete_at c name ids = route_request c name ids (\<lambda>p. delete_response (cl_transport c) p None None)"

definition post_to ::
  "'s api_client \<Rightarrow> string \<Rightarrow> route_ids \<Rightarrow> json \<Rightarrow> rat option \<Rightarrow> deadline option \<Rightarrow> 's request" where
  "post_to c name ids payload timeout deadline =
     route_request c name ids (\<lambda>p. post_response (cl_transport c) p payload timeout deadline)"

text \<open>Health and the OpenAPI document\<close>

fun health_from :: "'s api_client \<Rightarrow> deadline option \<Rightarrow> string list \<Rightarrow> string list \<Rightarrow> ('s, request_error, json) attempt" where
  "health_from c deadline errors [] = attempt_raise (ApiFailure (client_side_error (join_with ''; '' errors)))"
| "health_from c deadline errors (p # ps) =
     act_bind (get_response (cl_transport c) p None deadline) (\<lambda>answer.
     case answer of
       Inr response \<Rightarrow> attempt_return (fst response)
     | Inl (ApiFailure e) \<Rightarrow> health_from c deadline (errors @ [ae_message e]) ps
     | Inl (ApiTimeout e) \<Rightarrow> health_from c deadline (errors @ [ae_message e]) ps
     | Inl e \<Rightarrow> attempt_raise e)"

definition get_health :: "'s api_client \<Rightarrow> deadline option \<Rightarrow> ('s, request_error, json) attempt" where
  "get_health c deadline = health_from c deadline [] [''global/health'', ''api/health'', ''health'']"

definition require_openapi_doc :: "'s api_client \<Rightarrow> deadline option \<Rightarrow> ('s, request_error, json) attempt" where
  "require_openapi_doc c deadline = response_data (get_response (cl_transport c) ''doc'' None deadline)"

definition is_api_error :: "request_error \<Rightarrow> bool" where
  "is_api_error e = (case e of ApiFailure _ \<Rightarrow> True | ApiTimeout _ \<Rightarrow> True | _ \<Rightarrow> False)"

definition get_openapi_doc :: "'s api_client \<Rightarrow> deadline option \<Rightarrow> ('s, request_error, json) attempt" where
  "get_openapi_doc c deadline =
     act_bind (require_openapi_doc c deadline) (\<lambda>answer.
     case answer of
       Inl e \<Rightarrow> if is_api_error e then attempt_return (JObj [(''paths'', JObj [])]) else attempt_raise e
     | Inr doc \<Rightarrow> attempt_return doc)"

text \<open>Sessions\<close>

definition creation_payload :: "string \<Rightarrow> json \<Rightarrow> json \<Rightarrow> json \<Rightarrow> json \<Rightarrow> json" where
  "creation_payload directory agent model title metadata =
     JObj (set_if_present ''metadata'' metadata (set_if_present ''title'' title (set_if_present ''model'' model
       (set_if_present ''agent'' agent [(''location'', JObj [(''directory'', JStr directory)])]))))"

definition create_session_response :: "'s api_client \<Rightarrow> string \<Rightarrow> json \<Rightarrow> json \<Rightarrow> json \<Rightarrow> json \<Rightarrow> 's request" where
  "create_session_response c directory agent model title metadata =
     session_answers c ''session_collection'' (post_to c ''session_collection'' no_ids
       (creation_payload directory agent model title metadata) None None)"

definition list_sessions_response :: "'s api_client \<Rightarrow> 's request" where
  "list_sessions_response c = session_answers c ''session_collection'' (get_from c ''session_collection'' no_ids)"

definition get_session_response :: "'s api_client \<Rightarrow> json \<Rightarrow> 's request" where
  "get_session_response c i = session_answers c ''session_collection'' (get_from c ''session_item'' (of_session i))"

definition delete_session_response :: "'s api_client \<Rightarrow> json \<Rightarrow> 's request" where
  "delete_session_response c i = delete_at c ''session_item'' (of_session i)"

definition abort_session_response :: "'s api_client \<Rightarrow> json \<Rightarrow> 's request" where
  "abort_session_response c i = post_to c ''session_abort'' (of_session i) (JObj []) None None"

definition fork_session_response :: "'s api_client \<Rightarrow> json \<Rightarrow> json \<Rightarrow> 's request" where
  "fork_session_response c i message_id =
     post_to c ''session_fork'' (of_session i) (JObj (set_if_present ''messageID'' message_id [])) None None"

definition list_child_sessions_response :: "'s api_client \<Rightarrow> json \<Rightarrow> 's request" where
  "list_child_sessions_response c i = session_answers c ''session_children'' (get_from c ''session_children'' (of_session i))"

text \<open>Prompts\<close>

definition run_session_response :: "'s api_client \<Rightarrow> json \<Rightarrow> json \<Rightarrow> rat option \<Rightarrow> deadline option \<Rightarrow> 's request" where
  "run_session_response c i message timeout deadline =
     post_to c ''legacy_run'' (of_session i) (JObj [(''message'', message)]) timeout deadline"

definition reply_session_response :: "'s api_client \<Rightarrow> json \<Rightarrow> rat option \<Rightarrow> deadline option \<Rightarrow> 's request" where
  "reply_session_response c i timeout deadline = post_to c ''legacy_reply'' (of_session i) (JObj []) timeout deadline"

definition message_payload :: "json \<Rightarrow> json \<Rightarrow> json" where
  "message_payload message message_id =
     JObj (set_if_present ''messageID'' message_id
       [(''parts'', JList [JObj [(''type'', JStr ''text''), (''text'', message)]])])"

definition message_session_response ::
  "'s api_client \<Rightarrow> json \<Rightarrow> json \<Rightarrow> json \<Rightarrow> rat option \<Rightarrow> deadline option \<Rightarrow> 's request" where
  "message_session_response c i message message_id timeout deadline =
     post_to c ''blocking_message'' (of_session i) (message_payload message message_id) timeout deadline"

definition on_prompt_path :: "json \<Rightarrow> json \<Rightarrow> (string \<Rightarrow> 's request) \<Rightarrow> 's request" where
  "on_prompt_path path i f = sent_to (res_bind (session_prompt_path path i) (\<lambda>p. Inr (Inr p))) f"

definition admit_prompt_response :: "'s api_client \<Rightarrow> json \<Rightarrow> json \<Rightarrow> json \<Rightarrow> 's request" where
  "admit_prompt_response c i payload prompt_path =
     on_prompt_path prompt_path i (\<lambda>p. post_response (cl_transport c) p payload None None)"

definition wait_session_response :: "'s api_client \<Rightarrow> json \<Rightarrow> json \<Rightarrow> deadline option \<Rightarrow> 's request" where
  "wait_session_response c i wait_path deadline =
     on_prompt_path wait_path i (\<lambda>p. post_response (cl_transport c) p (JObj []) None deadline)"

text \<open>Permissions and questions\<close>

definition list_permissions_response :: "'s api_client \<Rightarrow> 's request" where
  "list_permissions_response c = get_from c ''permissions'' no_ids"

definition reply_permission_response :: "'s api_client \<Rightarrow> json \<Rightarrow> json \<Rightarrow> json \<Rightarrow> 's request" where
  "reply_permission_response c i reply message =
     post_to c ''permission_reply'' (of_request i) (JObj (set_if_present ''message'' message [(''reply'', reply)])) None None"

definition list_questions_response :: "'s api_client \<Rightarrow> 's request" where
  "list_questions_response c = get_from c ''questions'' no_ids"

definition answer_question_response :: "'s api_client \<Rightarrow> json \<Rightarrow> json \<Rightarrow> 's request" where
  "answer_question_response c i answers =
     post_to c ''question_reply'' (of_request i) (JObj [(''answers'', answers)]) None None"

definition reject_question_response :: "'s api_client \<Rightarrow> json \<Rightarrow> 's request" where
  "reject_question_response c i = post_to c ''question_reject'' (of_request i) (JObj []) None None"

text \<open>Projects and workspaces\<close>

definition list_projects_response :: "'s api_client \<Rightarrow> 's request" where
  "list_projects_response c = get_from c ''project_collection'' no_ids"

definition list_project_directories_response :: "'s api_client \<Rightarrow> json \<Rightarrow> 's request" where
  "list_project_directories_response c i = get_from c ''project_directories'' (of_project i)"

definition list_workspaces_response :: "'s api_client \<Rightarrow> 's request" where
  "list_workspaces_response c = get_from c ''workspace_collection'' no_ids"

definition delete_workspace_response :: "'s api_client \<Rightarrow> json \<Rightarrow> 's request" where
  "delete_workspace_response c i = delete_at c ''workspace_item'' (of_workspace i)"

definition refresh_project_copies_response :: "'s api_client \<Rightarrow> json \<Rightarrow> 's request" where
  "refresh_project_copies_response c i = post_to c ''project_copy_refresh'' (of_project i) (JObj []) None None"

section \<open>The client of the blocking execution\<close>

definition blocking_client_of :: "'s api_client \<Rightarrow> 's blocking_client" where
  "blocking_client_of c =
     \<lparr>bc_message = \<lambda>i message mid timeout deadline. message_session_response c i message (JStr mid) timeout deadline,
      bc_run = run_session_response c, bc_reply = reply_session_response c, bc_abort = abort_session_response c,
      bc_timeout = tp_timeout (cl_transport c)\<rparr>"

end
