(* ===== verification/Command_Output.thy ===== *)
theory Command_Output
  imports Api_Client
begin

text \<open>
  \<open>commands/rendering.py\<close> and what the services of the commands share: a command prints the raw body, the JSON or the
  compact text of its result, or the text of its error, and ends with an exit code. An error of the API becomes the
  error of the service, any other exception of a request passes through.
\<close>

section \<open>Errors of a service\<close>

datatype service_error =
    ServiceFailed string string
      \<comment> \<open>the message and the kind of the error\<close>
  | Uncaught request_error

fun caught_api_error :: "request_error \<Rightarrow> api_response_error option" where
  "caught_api_error (ApiFailure e) = Some e"
| "caught_api_error (ApiTimeout e) = Some e"
| "caught_api_error _ = None"

definition guard_api ::
  "(api_response_error \<Rightarrow> service_error) \<Rightarrow> ('s, request_error, 'a) attempt \<Rightarrow> ('s, service_error, 'a) attempt" where
  "guard_api handle r =
     act_bind r (\<lambda>answer. act_return (case answer of
         Inr x \<Rightarrow> Inr x
       | Inl e \<Rightarrow> Inl (case caught_api_error e of Some err \<Rightarrow> handle err | None \<Rightarrow> Uncaught e)))"

definition UNAVAILABLE :: string where "UNAVAILABLE = ''unavailable''"

definition api_message :: "api_response_error \<Rightarrow> service_error" where
  "api_message e = ServiceFailed (ae_message e) UNAVAILABLE"

section \<open>Printing a result\<close>

record output_args =
  oa_raw :: bool
  oa_json :: bool

record command_result =
  cr_data :: json
  cr_raw_body :: "string option"
  cr_compact :: "string result option"
  cr_exit_code :: int
  cr_error :: "string option"
  cr_warnings :: "string list"

record printed =
  pd_out :: string
  pd_errors :: "string list"
  pd_exit_code :: int

definition result_of_data :: "json \<Rightarrow> command_result" where
  "result_of_data data = \<lparr>cr_data = data, cr_raw_body = None, cr_compact = None, cr_exit_code = 0, cr_error = None,
     cr_warnings = []\<rparr>"

definition error_of :: "string \<Rightarrow> int \<Rightarrow> string list \<Rightarrow> command_result" where
  "error_of message code warnings = \<lparr>cr_data = JNull, cr_raw_body = None, cr_compact = None, cr_exit_code = code,
     cr_error = Some message, cr_warnings = warnings\<rparr>"

text \<open>\<open>print\<close> ends the line.\<close>

definition print_line :: "string \<Rightarrow> string" where
  "print_line s = s @ NEWLINE"

definition nothing_printed :: "int \<Rightarrow> printed" where
  "nothing_printed code = \<lparr>pd_out = [], pd_errors = [], pd_exit_code = code\<rparr>"

definition printing :: "string \<Rightarrow> int \<Rightarrow> printed" where
  "printing out code = \<lparr>pd_out = out, pd_errors = [], pd_exit_code = code\<rparr>"

definition print_error :: "string \<Rightarrow> int \<Rightarrow> printed" where
  "print_error message code = \<lparr>pd_out = [], pd_errors = [message], pd_exit_code = code\<rparr>"

text \<open>\<open>to_stderr\<close> says that a \<open>print_error\<close> function is given; the warnings come first.\<close>

definition render_command_result :: "output_args \<Rightarrow> command_result \<Rightarrow> bool \<Rightarrow> printed result" where
  "render_command_result args r to_stderr =
     (let warned = (if to_stderr then cr_warnings r else []);
          output = (\<lambda>out. Inr \<lparr>pd_out = out, pd_errors = warned, pd_exit_code = cr_exit_code r\<rparr>) in
      case cr_error r of
        Some message \<Rightarrow> Inr \<lparr>pd_out = [], pd_errors = warned @ (if to_stderr then [message] else []),
          pd_exit_code = cr_exit_code r\<rparr>
      | None \<Rightarrow>
          if oa_raw args \<and> cr_raw_body r \<noteq> None then output (the (cr_raw_body r))
          else if oa_json args then output (print_line (json_dumps (cr_data r)))
          else (case cr_compact r of
              None \<Rightarrow> output []
            | Some txt \<Rightarrow> res_bind txt (\<lambda>t. output (print_line t))))"

definition print_json_or :: "output_args \<Rightarrow> json \<Rightarrow> string \<Rightarrow> string result \<Rightarrow> printed result" where
  "print_json_or args data raw_body text_result =
     (if oa_raw args then Inr (printing raw_body 0)
      else if oa_json args then Inr (printing (print_line (json_dumps data)) 0)
      else res_bind text_result (\<lambda>t. Inr (printing (print_line t) 0)))"

end
