(* ===== verification/Blockers.thy ===== *)
theory Blockers
  imports Command_Output
begin

text \<open>
  \<open>blocker_inventory.py\<close>, \<open>blocker_services.py\<close>, \<open>blocker_formatting.py\<close> and \<open>commands/blockers.py\<close>: the requests
  for permission and the questions that block a session are listed, counted and answered.
\<close>

section \<open>Records of blockers\<close>

definition BLOCKER_CANONICAL_FIELDS :: "string list" where
  "BLOCKER_CANONICAL_FIELDS = [''id'', ''session_id'', ''tool_message_id'', ''tool_call_id'', ''tool_ref'']"

definition unknown_blocker_record :: "json \<Rightarrow> jdict" where
  "unknown_blocker_record raw =
     map (\<lambda>f. (f, JNull)) BLOCKER_CANONICAL_FIELDS @ [(''schema_status'', JStr ''unknown''), (''raw'', raw)]"

definition tool_ref :: "json \<Rightarrow> json \<Rightarrow> json" where
  "tool_ref message_id call_id =
     (if py_truthy message_id \<and> py_truthy call_id then JStr (py_str message_id @ ''/'' @ py_str call_id)
      else truthy_or call_id message_id)"

definition apply_tool_fields :: "json \<Rightarrow> jdict \<Rightarrow> jdict" where
  "apply_tool_fields tool d =
     (let message_id = first_present (JObj d) [''tool_message_id'']; call_id = first_present (JObj d) [''tool_call_id''];
          message_id' = (if is_dict tool then truthy_or message_id (first_present tool MESSAGE_ID_ALIASES) else message_id);
          call_id' = (if is_dict tool then truthy_or call_id (first_present tool CALL_ID_ALIASES) else call_id) in
      set_missing ''tool_ref'' (tool_ref message_id' call_id')
        (set_missing ''tool_call_id'' call_id' (set_missing ''tool_message_id'' message_id' d)))"

definition normalize_blocker_record :: "json \<Rightarrow> jdict" where
  "normalize_blocker_record blocker =
     (case blocker of
        JObj b \<Rightarrow> apply_tool_fields (dict_get b ''tool'')
          (set_missing ''session_id'' (first_present blocker SESSION_ID_ALIASES)
          (set_missing ''id'' (first_present blocker (''id'' # REQUEST_ID_ALIASES))
          (dict_set ''schema_status'' (JStr ''known'') b)))
      | _ \<Rightarrow> unknown_blocker_record blocker)"

definition collection_blockers :: "json \<Rightarrow> string \<Rightarrow> jdict list" where
  "collection_blockers collection plural_name =
     map normalize_blocker_record (collection_records collection [plural_name, ''requests'', ''data''])"

definition blocker_session_id :: "jdict \<Rightarrow> json" where
  "blocker_session_id blocker = dict_get blocker ''session_id''"

section \<open>Counting\<close>

record blocker_count =
  bk_permissions :: nat
  bk_questions :: nat

text \<open>The counts of the sessions in a dictionary whose keys are compared by \<open>==\<close>.\<close>

type_synonym blocker_counts = "(json \<times> blocker_count) list"

datatype blocker_kind = Permissions | Questions

definition no_blockers :: blocker_count where
  "no_blockers = \<lparr>bk_permissions = 0, bk_questions = 0\<rparr>"

fun count_one :: "blocker_kind \<Rightarrow> blocker_count \<Rightarrow> blocker_count" where
  "count_one Permissions b = b\<lparr>bk_permissions := Suc (bk_permissions b)\<rparr>"
| "count_one Questions b = b\<lparr>bk_questions := Suc (bk_questions b)\<rparr>"

fun increment_entry :: "json \<Rightarrow> blocker_kind \<Rightarrow> blocker_counts \<Rightarrow> blocker_counts" where
  "increment_entry i k [] = [(i, count_one k no_blockers)]"
| "increment_entry i k ((j, b) # cs) = (if py_eq j i then (j, count_one k b) # cs else (j, b) # increment_entry i k cs)"

definition increment_blocker_count :: "blocker_counts \<Rightarrow> json \<Rightarrow> blocker_kind \<Rightarrow> blocker_counts result" where
  "increment_blocker_count counts session_id k =
     (if \<not> py_truthy session_id then Inr counts
      else if \<not> hashable session_id then Inl (TypeError ''unhashable type'')
      else Inr (increment_entry session_id k counts))"

definition count_blockers :: "blocker_counts \<Rightarrow> blocker_kind \<Rightarrow> jdict list \<Rightarrow> blocker_counts result" where
  "count_blockers counts k blockers =
     res_fold (\<lambda>cs b. increment_blocker_count cs (blocker_session_id b) k) counts blockers"

definition counts_of :: "json \<Rightarrow> json \<Rightarrow> blocker_counts result" where
  "counts_of permissions questions =
     res_bind (count_blockers [] Permissions (collection_blockers permissions ''permissions'')) (\<lambda>counts.
     count_blockers counts Questions (collection_blockers questions ''questions''))"

definition load_blocker_counts :: "'s api_client \<Rightarrow> ('s, request_error, blocker_counts) attempt" where
  "load_blocker_counts c =
     attempt_bind (list_permissions_response c) (\<lambda>permissions.
     attempt_bind (list_questions_response c) (\<lambda>questions.
     act_result (res_bind (counts_of (fst permissions) (fst questions)) (\<lambda>counts. Inr (Inr counts)))))"

definition counted :: "blocker_counts \<Rightarrow> json \<Rightarrow> blocker_count" where
  "counted counts session_id = (case find (\<lambda>e. py_eq (fst e) session_id) counts of Some e \<Rightarrow> snd e | None \<Rightarrow> no_blockers)"

definition blocker_counts_for_session :: "blocker_counts \<Rightarrow> json \<Rightarrow> jdict result" where
  "blocker_counts_for_session counts session_id =
     (if \<not> hashable session_id then Inl (TypeError ''unhashable type'')
      else let b = counted counts session_id in
        Inr [(''permissions'', JInt (int (bk_permissions b))), (''questions'', JInt (int (bk_questions b))),
             (''total'', JInt (int (bk_permissions b + bk_questions b)))])"

section \<open>Listing and answering\<close>

record blocker_list =
  bl_blockers :: "jdict list"
  bl_raw_body :: string

record blocker_resolution =
  br_result :: jdict
  br_raw_body :: string

definition filter_blockers_by_session :: "jdict list \<Rightarrow> string option \<Rightarrow> jdict list" where
  "filter_blockers_by_session blockers session_id =
     (case session_id of None \<Rightarrow> blockers | Some i \<Rightarrow> filter (\<lambda>b. py_eq (blocker_session_id b) (JStr i)) blockers)"

definition list_blockers :: "'s request \<Rightarrow> string \<Rightarrow> string option \<Rightarrow> ('s, service_error, blocker_list) attempt" where
  "list_blockers r plural_name session_id =
     attempt_bind (guard_api api_message r) (\<lambda>response. attempt_return
       \<lparr>bl_blockers = filter_blockers_by_session (collection_blockers (fst response) plural_name) session_id,
        bl_raw_body = snd response\<rparr>)"

definition list_permissions :: "'s api_client \<Rightarrow> string option \<Rightarrow> ('s, service_error, blocker_list) attempt" where
  "list_permissions c session_id = list_blockers (list_permissions_response c) ''permissions'' session_id"

definition list_questions :: "'s api_client \<Rightarrow> string option \<Rightarrow> ('s, service_error, blocker_list) attempt" where
  "list_questions c session_id = list_blockers (list_questions_response c) ''questions'' session_id"

definition is_blocker_resolution_not_found_error :: "api_response_error \<Rightarrow> string \<Rightarrow> string \<Rightarrow> string list \<Rightarrow> bool" where
  "is_blocker_resolution_not_found_error e blocker_name request_id actions \<longleftrightarrow>
     ae_status e = Some 404 \<and> error_method e = ''POST'' \<and>
     error_path e \<in> set (map (\<lambda>action. ''/'' @ blocker_name @ ''/'' @ quote request_id @ ''/'' @ action) actions)"

definition is_permission_request_not_found_error :: "api_response_error \<Rightarrow> string \<Rightarrow> bool" where
  "is_permission_request_not_found_error e request_id =
     is_blocker_resolution_not_found_error e ''permission'' request_id [''reply'']"

definition is_question_request_not_found_error :: "api_response_error \<Rightarrow> string \<Rightarrow> bool" where
  "is_question_request_not_found_error e request_id =
     is_blocker_resolution_not_found_error e ''question'' request_id [''reply'', ''reject'']"

definition NOINPUT :: string where "NOINPUT = ''noinput''"
definition DATAERR :: string where "DATAERR = ''dataerr''"

definition resolve_blocker ::
  "'s request \<Rightarrow> (api_response_error \<Rightarrow> bool) \<Rightarrow> string \<Rightarrow> (json \<Rightarrow> jdict) \<Rightarrow> ('s, service_error, blocker_resolution) attempt" where
  "resolve_blocker r is_not_found_error not_found_message result_factory =
     attempt_bind (guard_api (\<lambda>e. if is_not_found_error e then ServiceFailed not_found_message NOINPUT else api_message e) r)
       (\<lambda>response. attempt_return \<lparr>br_result = result_factory (fst response), br_raw_body = snd response\<rparr>)"

definition reply_permission ::
  "'s api_client \<Rightarrow> string \<Rightarrow> string \<Rightarrow> string option \<Rightarrow> ('s, service_error, blocker_resolution) attempt" where
  "reply_permission c request_id reply message =
     resolve_blocker (reply_permission_response c (JStr request_id) (JStr reply) (opt_json message))
       (\<lambda>e. is_permission_request_not_found_error e request_id) (''permission request not found: '' @ request_id)
       (\<lambda>data. [(''id'', JStr request_id), (''reply'', JStr reply), (''ok'', JBool (py_truthy data)), (''response'', data)])"

definition valid_question_answers :: "json \<Rightarrow> bool" where
  "valid_question_answers answers =
     (case answers of
        JList xs \<Rightarrow> list_all (\<lambda>x. case x of JList vs \<Rightarrow> list_all is_str vs | _ \<Rightarrow> False) xs
      | _ \<Rightarrow> False)"

text \<open>\<open>json.loads\<close> of the option gives the value or the text of its error.\<close>

definition question_answers_from_values ::
  "(string \<Rightarrow> string + json) \<Rightarrow> string list \<Rightarrow> string option \<Rightarrow> service_error + json" where
  "question_answers_from_values loads answers answers_json =
     (case answers_json of
        Some t \<Rightarrow>
          if answers \<noteq> [] then Inl (ServiceFailed ''cannot combine positional answers with --answers-json'' DATAERR)
          else (case loads t of
              Inl m \<Rightarrow> Inl (ServiceFailed (''invalid --answers-json: '' @ m) DATAERR)
            | Inr v \<Rightarrow> if valid_question_answers v then Inr v
                else Inl (ServiceFailed ''--answers-json must be a JSON array of string arrays'' DATAERR))
      | None \<Rightarrow>
          if answers = [] then Inl (ServiceFailed ''at least one answer is required'' DATAERR)
          else Inr (JList (map (\<lambda>a. JList [JStr a]) answers)))"

definition answer_question ::
  "(string \<Rightarrow> string + json) \<Rightarrow> 's api_client \<Rightarrow> string \<Rightarrow> string list \<Rightarrow> string option \<Rightarrow>
   ('s, service_error, blocker_resolution) attempt" where
  "answer_question loads c request_id answers answers_json =
     attempt_bind (act_return (question_answers_from_values loads answers answers_json)) (\<lambda>parsed.
     resolve_blocker (answer_question_response c (JStr request_id) parsed)
       (\<lambda>e. is_question_request_not_found_error e request_id) (''question request not found: '' @ request_id)
       (\<lambda>data. [(''id'', JStr request_id), (''action'', JStr ''answer''), (''ok'', JBool (py_truthy data)),
                (''response'', data), (''answers'', parsed)]))"

definition reject_question :: "'s api_client \<Rightarrow> string \<Rightarrow> ('s, service_error, blocker_resolution) attempt" where
  "reject_question c request_id =
     resolve_blocker (reject_question_response c (JStr request_id))
       (\<lambda>e. is_question_request_not_found_error e request_id) (''question request not found: '' @ request_id)
       (\<lambda>data. [(''id'', JStr request_id), (''action'', JStr ''reject''), (''ok'', JBool (py_truthy data)),
                (''response'', data)])"

section \<open>Compact output\<close>

definition permission_cells :: "jdict \<Rightarrow> json list result" where
  "permission_cells p =
     res_bind (compact_list (dict_get p ''patterns'')) (\<lambda>patterns.
     res_bind (compact_list (dict_get p ''always'')) (\<lambda>always.
     Inr [dict_get p ''id'', dict_get p ''session_id'', dict_get p ''permission'', patterns, always, dict_get p ''tool_ref'']))"

definition PERMISSION_HEADERS :: "string list" where
  "PERMISSION_HEADERS = [''id'', ''session'', ''permission'', ''patterns'', ''always'', ''tool'']"

definition format_permission_compact :: "jdict \<Rightarrow> string result" where
  "format_permission_compact p = res_bind (permission_cells p) (\<lambda>cells. Inr (compact_fields (zip PERMISSION_HEADERS cells)))"

definition format_permission_table :: "jdict list \<Rightarrow> string result" where
  "format_permission_table ps = res_bind (res_map permission_cells ps) (\<lambda>rows. Inr (format_table PERMISSION_HEADERS rows))"

definition question_items :: "jdict \<Rightarrow> json list" where
  "question_items q = (case dict_get q ''questions'' of JList xs \<Rightarrow> xs | _ \<Rightarrow> [])"

definition first_question_text :: "json list \<Rightarrow> json" where
  "first_question_text items =
     (case find (\<lambda>i. case i of JObj d \<Rightarrow> py_truthy (dict_get d ''question'') | _ \<Rightarrow> False) items of
        Some (JObj d) \<Rightarrow> dict_get d ''question'' | _ \<Rightarrow> JNull)"

definition question_headers :: "json list \<Rightarrow> json list" where
  "question_headers items = List.map_filter (\<lambda>i. case i of JObj d \<Rightarrow> Some (dict_get d ''header'') | _ \<Rightarrow> None) items"

definition question_cells :: "jdict \<Rightarrow> json list" where
  "question_cells q =
     (let items = question_items q in
      [dict_get q ''id'', dict_get q ''session_id'', JInt (int (length items)), compact_items (question_headers items),
       first_question_text items, dict_get q ''tool_ref''])"

definition QUESTION_HEADERS :: "string list" where
  "QUESTION_HEADERS = [''id'', ''session'', ''questions'', ''headers'', ''question'', ''tool'']"

definition format_question_compact :: "jdict \<Rightarrow> string" where
  "format_question_compact q = compact_fields (zip QUESTION_HEADERS (question_cells q))"

definition format_question_table :: "jdict list \<Rightarrow> string" where
  "format_question_table qs = format_table QUESTION_HEADERS (map question_cells qs)"

definition resolution_fields :: "string list \<Rightarrow> jdict \<Rightarrow> (string \<times> json) list result" where
  "resolution_fields names r = res_map (\<lambda>n. res_bind (indexed r n) (\<lambda>v. Inr (n, if n = ''ok'' then compact_bool v else v))) names"

definition format_permission_reply_compact :: "jdict \<Rightarrow> string result" where
  "format_permission_reply_compact r =
     res_bind (resolution_fields [''id'', ''reply'', ''ok''] r) (\<lambda>flds. Inr (compact_fields flds))"

definition format_question_resolution_compact :: "jdict \<Rightarrow> string result" where
  "format_question_resolution_compact r =
     res_bind (resolution_fields [''id'', ''action'', ''ok''] r) (\<lambda>flds. Inr (compact_fields flds))"

section \<open>The commands\<close>

datatype blocker_command =
    PermissionList "string option"
  | PermissionReply string string "string option"
  | QuestionList "string option"
  | QuestionAnswer string "string list" "string option"
  | QuestionReject string

definition print_blocker_list ::
  "output_args \<Rightarrow> blocker_list \<Rightarrow> (jdict \<Rightarrow> string result) \<Rightarrow> (jdict list \<Rightarrow> string result) \<Rightarrow> printed result" where
  "print_blocker_list args r compact_formatter table_formatter =
     (if oa_raw args then Inr (printing (bl_raw_body r) 0)
      else if oa_json args then Inr (printing (print_line (json_dumps (JList (map JObj (bl_blockers r))))) 0)
      else case bl_blockers r of
        [] \<Rightarrow> Inr (nothing_printed 0)
      | [b] \<Rightarrow> res_bind (compact_formatter b) (\<lambda>t. Inr (printing (print_line t) 0))
      | bs \<Rightarrow> res_bind (table_formatter bs) (\<lambda>t. Inr (printing (print_line t) 0)))"

definition print_resolution :: "output_args \<Rightarrow> blocker_resolution \<Rightarrow> (jdict \<Rightarrow> string result) \<Rightarrow> printed result" where
  "print_resolution args r compact_formatter =
     print_json_or args (JObj (br_result r)) (br_raw_body r) (compact_formatter (br_result r))"

definition shown :: "('s, service_error, 'a) attempt \<Rightarrow> ('a \<Rightarrow> printed result) \<Rightarrow> ('s, service_error, printed) attempt" where
  "shown m show_result = attempt_bind m (\<lambda>x. act_bind (act_result (show_result x)) attempt_return)"

fun run_blocker_command ::
  "(string \<Rightarrow> string + json) \<Rightarrow> output_args \<Rightarrow> 's api_client \<Rightarrow> blocker_command \<Rightarrow> ('s, service_error, printed) attempt" where
  "run_blocker_command loads args c (PermissionList i) = shown (list_permissions c i)
     (\<lambda>r. print_blocker_list args r format_permission_compact format_permission_table)"
| "run_blocker_command loads args c (PermissionReply i reply message) = shown (reply_permission c i reply message)
     (\<lambda>r. print_resolution args r format_permission_reply_compact)"
| "run_blocker_command loads args c (QuestionList i) = shown (list_questions c i)
     (\<lambda>r. print_blocker_list args r (\<lambda>q. Inr (format_question_compact q)) (\<lambda>qs. Inr (format_question_table qs)))"
| "run_blocker_command loads args c (QuestionAnswer i answers answers_json) =
     shown (answer_question loads c i answers answers_json) (\<lambda>r. print_resolution args r format_question_resolution_compact)"
| "run_blocker_command loads args c (QuestionReject i) = shown (reject_question c i)
     (\<lambda>r. print_resolution args r format_question_resolution_compact)"

record exit_codes =
  ec_unavailable :: int
  ec_unsupported :: int
  ec_noinput :: int
  ec_dataerr :: int

definition blocker_error_exit :: "exit_codes \<Rightarrow> string \<Rightarrow> int" where
  "blocker_error_exit codes kind =
     (if kind = NOINPUT then ec_noinput codes else if kind = DATAERR then ec_dataerr codes else ec_unavailable codes)"

definition handle_blocker_command ::
  "(string \<Rightarrow> string + json) \<Rightarrow> exit_codes \<Rightarrow> output_args \<Rightarrow> (api_response_error + 's api_client) \<Rightarrow> blocker_command \<Rightarrow>
   ('s, request_error, printed) attempt" where
  "handle_blocker_command loads codes args client command =
     (case client of
        Inl e \<Rightarrow> attempt_return (print_error (ae_message e) (ec_unavailable codes))
      | Inr c \<Rightarrow> act_bind (run_blocker_command loads args c command) (\<lambda>answer.
          case answer of
            Inr p \<Rightarrow> attempt_return p
          | Inl (ServiceFailed m kind) \<Rightarrow> attempt_return (print_error m (blocker_error_exit codes kind))
          | Inl (Uncaught e) \<Rightarrow> attempt_raise e))"

end
