(* ===== verification/Session_Commands.thy ===== *)
theory Session_Commands
  imports Blockers
begin

text \<open>
  \<open>session_services.py\<close>, \<open>session_formatting.py\<close>, \<open>session_ids.py\<close>, \<open>commands/sessions.py\<close> and
  \<open>commands/run_blocking.py\<close>: the commands that create, list, read, delete, abort and fork sessions, and the
  command that runs one prompt in a session it creates and deletes again. \<open>Path.resolve\<close> is the parameter \<open>resolve\<close>.
\<close>

section \<open>The service\<close>

record 's session_service =
  ss_client :: "'s api_client"
  ss_capabilities :: "json option"
  ss_routes_configured :: bool

definition capabilities_of_doc :: "json \<Rightarrow> jdict result" where
  "capabilities_of_doc doc =
     (case doc of JObj d \<Rightarrow> capabilities_from_openapi_doc d [] | _ \<Rightarrow> Inl (AttributeError ''object has no attribute get''))"

definition service_capabilities :: "'s session_service \<Rightarrow> ('s, request_error, json) attempt" where
  "service_capabilities svc =
     (case ss_capabilities svc of
        Some k \<Rightarrow> attempt_return k
      | None \<Rightarrow> attempt_bind (get_openapi_doc (ss_client svc) None) (\<lambda>doc.
          act_bind (act_result (capabilities_of_doc doc)) (\<lambda>k. attempt_return (JObj k))))"

definition ensure_routes :: "'s session_service \<Rightarrow> ('s, request_error, 's session_service) attempt" where
  "ensure_routes svc =
     (if ss_routes_configured svc then attempt_return svc
      else attempt_bind (service_capabilities svc) (\<lambda>k.
        act_bind (act_result (configure_client_route_plan k (ss_client svc))) (\<lambda>c.
        attempt_return (svc\<lparr>ss_client := c, ss_routes_configured := True\<rparr>))))"

text \<open>An operation on a client whose routes are configured first; the service keeps them.\<close>

definition with_routes ::
  "'s session_service \<Rightarrow> ('s api_client \<Rightarrow> ('s, service_error, 'a) attempt) \<Rightarrow>
   ('s, (service_error + 'a) \<times> 's session_service) action" where
  "with_routes svc op =
     act_bind (ensure_routes svc) (\<lambda>r.
     case r of
       Inl e \<Rightarrow> act_return (Inl (Uncaught e), svc)
     | Inr svc' \<Rightarrow> act_bind (op (ss_client svc')) (\<lambda>x. act_return (x, svc')))"

record session_reply =
  sr_session :: json
  sr_blocker_counts :: "blocker_counts option"
  sr_raw_body :: string

record session_listing =
  sl_sessions :: "json list"
  sl_blocker_counts :: "blocker_counts option"
  sl_raw_body :: string

definition session_get :: "json \<Rightarrow> string \<Rightarrow> json" where
  "session_get session k = (case session_record session of JObj d \<Rightarrow> dict_get d k | _ \<Rightarrow> JNull)"

definition matches_field :: "json \<Rightarrow> string \<Rightarrow> string option \<Rightarrow> bool" where
  "matches_field session k wanted = (case wanted of None \<Rightarrow> True | Some v \<Rightarrow> py_eq (session_get session k) (JStr v))"

definition filter_sessions :: "json list \<Rightarrow> string option \<Rightarrow> string option \<Rightarrow> string option \<Rightarrow> json list" where
  "filter_sessions sessions directory agent model =
     filter (\<lambda>s. matches_field s ''directory'' directory \<and> matches_field s ''agent'' agent \<and> matches_field s ''model'' model)
       sessions"

definition session_not_found_or_message :: "string \<Rightarrow> api_response_error \<Rightarrow> service_error" where
  "session_not_found_or_message session_id e =
     (if is_session_not_found_error e then ServiceFailed (''session not found: '' @ session_id) UNAVAILABLE else api_message e)"

text \<open>A directory is resolved when it is given and not empty.\<close>

definition resolved_directory :: "('s \<Rightarrow> string \<Rightarrow> string) \<Rightarrow> string option \<Rightarrow> 's \<Rightarrow> string option" where
  "resolved_directory resolve directory s =
     (case directory of Some (c # cs) \<Rightarrow> Some (resolve s (c # cs)) | _ \<Rightarrow> None)"

definition create_session ::
  "('s \<Rightarrow> string \<Rightarrow> string) \<Rightarrow> string \<Rightarrow> string option \<Rightarrow> string option \<Rightarrow> 's api_client \<Rightarrow>
   ('s, service_error, session_reply) attempt" where
  "create_session resolve directory agent model c =
     act_bind (act_read (\<lambda>s. resolve s directory)) (\<lambda>resolved.
     attempt_bind (guard_api api_message
       (create_session_response c resolved (opt_json agent) (opt_json model) JNull JNull)) (\<lambda>response.
     attempt_return \<lparr>sr_session = session_record (fst response), sr_blocker_counts = None, sr_raw_body = snd response\<rparr>))"

definition service_blocker_counts :: "bool \<Rightarrow> 's api_client \<Rightarrow> ('s, service_error, blocker_counts option) attempt" where
  "service_blocker_counts include_blockers c =
     (if \<not> include_blockers then attempt_return None
      else attempt_bind (guard_api (\<lambda>e. ServiceFailed (''blocker summary failed: '' @ ae_message e) UNAVAILABLE)
        (load_blocker_counts c)) (\<lambda>counts. attempt_return (Some counts)))"

definition list_sessions ::
  "('s \<Rightarrow> string \<Rightarrow> string) \<Rightarrow> string option \<Rightarrow> string option \<Rightarrow> string option \<Rightarrow> bool \<Rightarrow> 's api_client \<Rightarrow>
   ('s, service_error, session_listing) attempt" where
  "list_sessions resolve directory agent model include_blockers c =
     attempt_bind (guard_api api_message (list_sessions_response c)) (\<lambda>response.
     act_bind (act_read (resolved_directory resolve directory)) (\<lambda>dir.
     attempt_bind (service_blocker_counts include_blockers c) (\<lambda>counts.
     attempt_return \<lparr>sl_sessions = filter_sessions (collection_sessions (fst response)) dir agent model,
       sl_blocker_counts = counts, sl_raw_body = snd response\<rparr>)))"

definition inspect_session :: "string \<Rightarrow> bool \<Rightarrow> 's api_client \<Rightarrow> ('s, service_error, session_reply) attempt" where
  "inspect_session session_id include_blockers c =
     attempt_bind (guard_api api_message (get_session_response c (JStr session_id))) (\<lambda>response.
     attempt_bind (service_blocker_counts include_blockers c) (\<lambda>counts.
     attempt_return \<lparr>sr_session = fst response, sr_blocker_counts = counts, sr_raw_body = snd response\<rparr>))"

record session_deletion =
  sd_session_id :: string
  sd_response :: json
  sd_raw_body :: string
  sd_verified :: string

text \<open>The deletion is done when the session cannot be read any more.\<close>

definition verify_deletion :: "string \<Rightarrow> 's api_client \<Rightarrow> json \<times> string \<Rightarrow> ('s, service_error, session_deletion) attempt" where
  "verify_deletion session_id c response =
     act_bind (get_session_response c (JStr session_id)) (\<lambda>answer.
     act_return (case answer of
         Inr _ \<Rightarrow> Inl (ServiceFailed (''delete verification failed; session '' @ session_id @ '' is still readable'') UNAVAILABLE)
       | Inl e \<Rightarrow> (case caught_api_error e of
           None \<Rightarrow> Inl (Uncaught e)
         | Some err \<Rightarrow> if ae_status err = Some 404
             then Inr \<lparr>sd_session_id = session_id, sd_response = fst response, sd_raw_body = snd response,
               sd_verified = ''unreadable''\<rparr>
             else Inl (api_message err))))"

definition delete_session :: "string \<Rightarrow> 's api_client \<Rightarrow> ('s, service_error, session_deletion) attempt" where
  "delete_session session_id c =
     attempt_bind (guard_api api_message (delete_session_response c (JStr session_id))) (verify_deletion session_id c)"

definition abort_session :: "string \<Rightarrow> 's api_client \<Rightarrow> ('s, service_error, jdict \<times> string) attempt" where
  "abort_session session_id c =
     attempt_bind (guard_api (session_not_found_or_message session_id) (abort_session_response c (JStr session_id)))
       (\<lambda>response. attempt_return (abort_record (JStr session_id) (fst response), snd response))"

definition fork_record :: "json \<Rightarrow> json \<Rightarrow> json \<Rightarrow> jdict" where
  "fork_record parent_session_id message_id data =
     (let d = (if is_dict data then data else JObj []);
          session = (case d of JObj kvs \<Rightarrow> (if is_dict (dict_get kvs ''session'') then dict_get kvs ''session'' else JObj [])
            | _ \<Rightarrow> JObj []) in
      [(''parent_session_id'', truthy_or (first_present d
          [''parentID'', ''parentId'', ''parentSessionID'', ''parentSessionId'', ''parent_session_id'']) parent_session_id),
       (''session_id'', truthy_or (first_present d [''id'', ''sessionID'', ''sessionId'', ''childSessionID'', ''childSessionId''])
          (first_present session [''id'', ''sessionID'', ''sessionId''])),
       (''message_id'', truthy_or (first_present d [''messageID'', ''messageId'', ''message_id'']) message_id),
       (''response'', d)])"

definition fork_session :: "string \<Rightarrow> string option \<Rightarrow> 's api_client \<Rightarrow> ('s, service_error, jdict \<times> string) attempt" where
  "fork_session session_id message_id c =
     attempt_bind (guard_api (session_not_found_or_message session_id)
       (fork_session_response c (JStr session_id) (opt_json message_id)))
       (\<lambda>response. attempt_return (fork_record (JStr session_id) (opt_json message_id) (fst response), snd response))"

definition child_sessions ::
  "('s \<Rightarrow> string \<Rightarrow> string) \<Rightarrow> string \<Rightarrow> string option \<Rightarrow> 's api_client \<Rightarrow> ('s, service_error, session_listing) attempt" where
  "child_sessions resolve session_id directory c =
     attempt_bind (guard_api (session_not_found_or_message session_id) (list_child_sessions_response c (JStr session_id)))
       (\<lambda>response. act_bind (act_read (resolved_directory resolve directory)) (\<lambda>dir.
       attempt_return \<lparr>sl_sessions = filter_sessions (collection_sessions (fst response)) dir None None,
         sl_blocker_counts = None, sl_raw_body = snd response\<rparr>))"

section \<open>Compact output\<close>

definition counts_for_session :: "blocker_counts option \<Rightarrow> json \<Rightarrow> jdict option result" where
  "counts_for_session counts session =
     (case counts of
        None \<Rightarrow> Inr None
      | Some cs \<Rightarrow> res_bind (blocker_counts_for_session cs (session_get session ''id'')) (\<lambda>d. Inr (Some d)))"

definition session_with_blocker_counts :: "blocker_counts option \<Rightarrow> json \<Rightarrow> json result" where
  "session_with_blocker_counts counts session =
     (case session of
        JObj d \<Rightarrow> res_bind (counts_for_session counts session) (\<lambda>c.
          Inr (JObj (dict_set ''blockers'' (case c of None \<Rightarrow> JNull | Some cs \<Rightarrow> JObj cs) d)))
      | _ \<Rightarrow> Inl (TypeError ''object is not iterable''))"

definition session_tokens :: "json \<Rightarrow> json" where
  "session_tokens session = tokens_total (session_get session ''tokens'')"

definition blocker_cells :: "jdict option \<Rightarrow> (string \<times> json) list result" where
  "blocker_cells counts =
     (case counts of
        None \<Rightarrow> Inr []
      | Some d \<Rightarrow> res_map (\<lambda>(name, k). res_bind (indexed d k) (\<lambda>v. Inr (name, v)))
          [(''permissions'', ''permissions''), (''questions'', ''questions''), (''blockers'', ''total'')])"

definition format_session_compact :: "json \<Rightarrow> jdict option \<Rightarrow> string result" where
  "format_session_compact session counts =
     (let s = session_record session; get = session_get s in
      res_bind (blocker_cells counts) (\<lambda>cells.
      Inr (compact_fields ([(''id'', get ''id''), (''title'', get ''title''), (''dir'', get ''directory''),
        (''agent'', get ''agent''), (''model'', get ''model''), (''cost'', get ''cost''), (''tokens'', session_tokens s),
        (''created'', get ''createdAt''), (''updated'', get ''updatedAt'')] @ cells))))"

definition session_row :: "blocker_counts option \<Rightarrow> json \<Rightarrow> json list result" where
  "session_row counts session =
     (let s = session_record session; get = session_get s in
      res_bind (counts_for_session counts s) (\<lambda>c.
      res_bind (blocker_cells c) (\<lambda>cells.
      Inr ([get ''id'', get ''title'', get ''directory'', get ''agent'', get ''model'', get ''cost'', session_tokens s,
        get ''updatedAt''] @ map snd cells))))"

definition format_session_table :: "json list \<Rightarrow> blocker_counts option \<Rightarrow> string result" where
  "format_session_table sessions counts =
     res_bind (res_map (session_row counts) sessions) (\<lambda>rows.
     Inr (format_table ([''id'', ''title'', ''dir'', ''agent'', ''model'', ''cost'', ''tokens'', ''updated''] @
       (if counts = None then [] else [''permissions'', ''questions'', ''blockers''])) rows))"

definition format_fork_compact :: "jdict \<Rightarrow> string result" where
  "format_fork_compact f =
     res_bind (indexed f ''parent_session_id'') (\<lambda>parent.
     res_bind (indexed f ''session_id'') (\<lambda>child.
     res_bind (indexed f ''message_id'') (\<lambda>message.
     Inr (''forked '' @ compact_fields [(''parent'', parent), (''child'', child), (''message'', message)]))))"

definition format_abort_compact :: "jdict \<Rightarrow> string result" where
  "format_abort_compact a =
     res_bind (indexed a ''session_id'') (\<lambda>session.
     res_bind (indexed a ''accepted'') (\<lambda>accepted.
     res_bind (indexed a ''status'') (\<lambda>status.
     Inr (''abort '' @ compact_fields [(''session'', session), (''accepted'', compact_bool accepted), (''status'', status)]))))"

section \<open>The commands\<close>

datatype session_command =
    CreateCommand string "string option" "string option"
  | ListCommand "string option" "string option" "string option" bool
  | InspectCommand string bool
  | DeleteCommand string
  | AbortCommand string
  | ForkCommand string "string option"
  | ChildrenCommand string "string option"

definition print_compact_sessions :: "json list \<Rightarrow> blocker_counts option \<Rightarrow> printed result" where
  "print_compact_sessions sessions counts =
     (case sessions of
        [] \<Rightarrow> Inr (nothing_printed 0)
      | [s] \<Rightarrow> res_bind (counts_for_session counts s) (\<lambda>c. res_bind (format_session_compact s c) (\<lambda>t.
          Inr (printing (print_line t) 0)))
      | ss \<Rightarrow> res_bind (format_session_table ss counts) (\<lambda>t. Inr (printing (print_line t) 0)))"

definition print_sessions :: "output_args \<Rightarrow> session_listing \<Rightarrow> printed result" where
  "print_sessions args r =
     (if oa_raw args then Inr (printing (sl_raw_body r) 0)
      else if oa_json args
      then res_bind (if sl_blocker_counts r = None then Inr (sl_sessions r)
          else res_map (session_with_blocker_counts (sl_blocker_counts r)) (sl_sessions r)) (\<lambda>ss.
        Inr (printing (print_line (json_dumps (JList ss))) 0))
      else print_compact_sessions (sl_sessions r) (sl_blocker_counts r))"

definition print_inspected :: "output_args \<Rightarrow> session_reply \<Rightarrow> printed result" where
  "print_inspected args r =
     (if oa_raw args then Inr (printing (sr_raw_body r) 0)
      else res_bind (if oa_json args \<and> sr_blocker_counts r \<noteq> None
          then session_with_blocker_counts (sr_blocker_counts r) (sr_session r) else Inr (sr_session r)) (\<lambda>session.
        res_bind (counts_for_session (sr_blocker_counts r) session) (\<lambda>counts.
        res_bind (format_session_compact session counts) (\<lambda>t.
        render_command_result args ((result_of_data session)\<lparr>cr_compact := Some (Inr t)\<rparr>) False))))"

definition print_result :: "output_args \<Rightarrow> json \<Rightarrow> string \<Rightarrow> string result \<Rightarrow> printed result" where
  "print_result args data raw_body txt =
     res_bind txt (\<lambda>t. render_command_result args
       ((result_of_data data)\<lparr>cr_raw_body := Some raw_body, cr_compact := Some (Inr t)\<rparr>) False)"

definition deletion_json :: "session_deletion \<Rightarrow> json" where
  "deletion_json r = JObj [(''deleted'', JBool True), (''id'', JStr (sd_session_id r)), (''response'', sd_response r),
     (''verified'', JStr (sd_verified r))]"

fun run_session_command ::
  "('s \<Rightarrow> string \<Rightarrow> string) \<Rightarrow> output_args \<Rightarrow> session_command \<Rightarrow> 's api_client \<Rightarrow> ('s, service_error, printed) attempt" where
  "run_session_command resolve args (CreateCommand directory agent model) c =
     shown (create_session resolve directory agent model c)
       (\<lambda>r. print_result args (sr_session r) (sr_raw_body r) (format_session_compact (sr_session r) None))"
| "run_session_command resolve args (ListCommand directory agent model blockers) c =
     shown (list_sessions resolve directory agent model blockers c) (print_sessions args)"
| "run_session_command resolve args (InspectCommand i blockers) c = shown (inspect_session i blockers c) (print_inspected args)"
| "run_session_command resolve args (DeleteCommand i) c = shown (delete_session i c)
       (\<lambda>r. print_result args (deletion_json r) (sd_raw_body r) (Inr (''deleted id='' @
         compact_value (JStr (sd_session_id r)) @ '' verified='' @ sd_verified r)))"
| "run_session_command resolve args (AbortCommand i) c = shown (abort_session i c)
       (\<lambda>r. print_result args (JObj (fst r)) (snd r) (format_abort_compact (fst r)))"
| "run_session_command resolve args (ForkCommand i message_id) c = shown (fork_session i message_id c)
       (\<lambda>r. print_result args (JObj (fst r)) (snd r) (format_fork_compact (fst r)))"
| "run_session_command resolve args (ChildrenCommand i directory) c =
     shown (child_sessions resolve i directory c) (print_sessions args)"

definition new_session_service :: "'s api_client \<Rightarrow> json option \<Rightarrow> 's session_service" where
  "new_session_service c capabilities = \<lparr>ss_client = c, ss_capabilities = capabilities, ss_routes_configured = False\<rparr>"

definition handle_session_command ::
  "('s \<Rightarrow> string \<Rightarrow> string) \<Rightarrow> int \<Rightarrow> output_args \<Rightarrow> (api_response_error + 's api_client) \<Rightarrow> session_command \<Rightarrow>
   ('s, request_error, printed) attempt" where
  "handle_session_command resolve unavailable_exit args client command =
     (case client of
        Inl e \<Rightarrow> attempt_return (print_error (ae_message e) unavailable_exit)
      | Inr c \<Rightarrow> act_bind (with_routes (new_session_service c None) (run_session_command resolve args command)) (\<lambda>(answer, svc).
          case answer of
            Inr p \<Rightarrow> attempt_return p
          | Inl (ServiceFailed m kind) \<Rightarrow> attempt_return (print_error m unavailable_exit)
          | Inl (Uncaught e) \<Rightarrow> attempt_raise e))"

section \<open>A prompt in a disposable session\<close>

definition require_session_id :: "json \<Rightarrow> string \<Rightarrow> api_response_error + json" where
  "require_session_id data context =
     (let i = session_value data [''id''] JNull JNull in
      if py_truthy i then Inr i
      else Inl (client_side_error (context @ '' returned malformed response: missing session id'')))"

definition cleanup_answer :: "('s, request_error, 'a) attempt \<Rightarrow> ('s, request_error, api_failure option) attempt" where
  "cleanup_answer r =
     act_bind r (\<lambda>answer.
     act_return (case answer of
         Inr _ \<Rightarrow> Inr None
       | Inl e \<Rightarrow> (case caught_api_error e of
           Some err \<Rightarrow> Inr (Some \<lparr>af_message = ae_message err, af_status = ae_status err\<rparr>) | None \<Rightarrow> Inl e)))"

text \<open>An exception of a request that is no error of the API ends the cleanup; it is an exception of the action.\<close>

definition disposable_client :: "'s api_client \<Rightarrow> 's cleanup_client" where
  "disposable_client c =
     (let uncaught = (\<lambda>r. act_bind r (\<lambda>answer. case answer of
            Inr x \<Rightarrow> act_return x | Inl e \<Rightarrow> act_raise (RemoteError (request_error_name e) (request_error_text e)))) in
      \<lparr>cc_delete_session = \<lambda>i. uncaught (cleanup_answer (delete_session_response c i)),
       cc_get_session = \<lambda>i. uncaught (cleanup_answer (get_session_response c i))\<rparr>)"

definition delete_disposable_session :: "'s api_client \<Rightarrow> json \<Rightarrow> ('s, api_failure option) action" where
  "delete_disposable_session c session_id =
     (if session_id = JNull then act_return None else delete_and_verify (disposable_client c) session_id)"

definition cleanup_message :: "api_failure \<Rightarrow> string" where
  "cleanup_message e = ''api failure: disposable session cleanup failed: '' @ af_message e"

definition cleanup_warnings :: "api_failure option \<Rightarrow> string list" where
  "cleanup_warnings failure = (case failure of None \<Rightarrow> [] | Some e \<Rightarrow> [cleanup_message e])"

text \<open>The words of the command line, or standard input without its line end\<close>

definition drop_last_char :: "char \<Rightarrow> string \<Rightarrow> string" where
  "drop_last_char c s = (if s \<noteq> [] \<and> last s = c then butlast s else s)"

definition read_prompt :: "string list \<Rightarrow> string \<Rightarrow> string" where
  "read_prompt prompt_words stdin =
     (if prompt_words \<noteq> [] then join_with '' '' prompt_words
      else drop_last_char (CHR 0x0D) (drop_last_char (CHR 0x0A) stdin))"

record run_blocking_args =
  rb_prompt :: string
  rb_session :: "string option"
  rb_directory :: "string option"
  rb_agent :: "string option"
  rb_model :: "string option"

text \<open>
  What the body of the command leaves for its handlers: the strategy is missing, a provider failure, an error of the
  API, or the result. With it come the client, whose routes the body configures, the session of the prompt and the
  one that was created; \<open>JNull\<close> is none.
\<close>

datatype blocking_outcome =
    NoStrategy
  | ProviderStopped string
  | ApiStopped api_response_error
  | Executed jdict

record 's blocking_run =
  bn_client :: "'s api_client"
  bn_outcome :: blocking_outcome
  bn_session :: json
  bn_created :: json

definition stopped_by :: "blocking_failure \<Rightarrow> request_error + blocking_outcome" where
  "stopped_by f =
     (case f of
        ProviderFailed m pid \<Rightarrow> Inr (ProviderStopped m)
      | ExecutionTimeout m pid abort_error \<Rightarrow> Inr (ApiStopped (client_side_error
          (blocking_timeout_text m (case abort_error of None \<Rightarrow> [] | Some e \<Rightarrow> e))))
      | RequestRaised e \<Rightarrow> (case caught_api_error e of Some err \<Rightarrow> Inr (ApiStopped err) | None \<Rightarrow> Inl e))"

definition api_stops :: "'s api_client \<Rightarrow> json \<Rightarrow> json \<Rightarrow> request_error \<Rightarrow> request_error + 's blocking_run" where
  "api_stops c session created e =
     (case caught_api_error e of
        Some err \<Rightarrow> Inr \<lparr>bn_client = c, bn_outcome = ApiStopped err, bn_session = session, bn_created = created\<rparr> | None \<Rightarrow> Inl e)"

definition run_prompt ::
  "('s \<Rightarrow> string) \<Rightarrow> 's api_client \<Rightarrow> string \<Rightarrow> jdict \<Rightarrow> json \<Rightarrow> json \<Rightarrow> ('s, request_error, 's blocking_run) attempt" where
  "run_prompt new_id c prompt capabilities session created =
     act_bind (execute_blocking_prompt (tp_clock (cl_transport c)) new_id (blocking_client_of c) session (JStr prompt)
       capabilities (Some DEFAULT_BLOCKING_EXECUTION_TIMEOUT_SECONDS) None None) (\<lambda>answer.
     act_return (case answer of
         Inr result \<Rightarrow> Inr \<lparr>bn_client = c, bn_outcome = Executed result, bn_session = session, bn_created = created\<rparr>
       | Inl f \<Rightarrow> (case stopped_by f of Inl e \<Rightarrow> Inl e
           | Inr out \<Rightarrow> Inr \<lparr>bn_client = c, bn_outcome = out, bn_session = session, bn_created = created\<rparr>)))"

definition in_new_session ::
  "('s \<Rightarrow> string \<Rightarrow> string) \<Rightarrow> ('s \<Rightarrow> string) \<Rightarrow> 's api_client \<Rightarrow> run_blocking_args \<Rightarrow> jdict \<Rightarrow>
   ('s, request_error, 's blocking_run) attempt" where
  "in_new_session resolve new_id c args capabilities =
     act_bind (act_read (\<lambda>s. resolve s (case rb_directory args of Some (x # xs) \<Rightarrow> x # xs | _ \<Rightarrow> ''.''))) (\<lambda>directory.
     act_bind (create_session_response c directory (opt_json (rb_agent args)) (opt_json (rb_model args)) JNull JNull) (\<lambda>answer.
     case answer of
       Inl e \<Rightarrow> act_return (api_stops c JNull JNull e)
     | Inr response \<Rightarrow>
         (case require_session_id (fst response) ''session creation'' of
            Inl e \<Rightarrow> act_return (Inr \<lparr>bn_client = c, bn_outcome = ApiStopped e, bn_session = JNull, bn_created = JNull\<rparr>)
          | Inr i \<Rightarrow> run_prompt new_id c (rb_prompt args) capabilities i i)))"

definition run_blocking_body ::
  "('s \<Rightarrow> string \<Rightarrow> string) \<Rightarrow> ('s \<Rightarrow> string) \<Rightarrow> 's api_client \<Rightarrow> run_blocking_args \<Rightarrow>
   ('s, request_error, 's blocking_run) attempt" where
  "run_blocking_body resolve new_id c args =
     (let given = opt_json (rb_session args) in
     act_bind (require_openapi_doc c None) (\<lambda>answer.
     case answer of
       Inl e \<Rightarrow> act_return (api_stops c given JNull e)
     | Inr doc \<Rightarrow>
         act_bind (act_result (capabilities_of_doc doc)) (\<lambda>capabilities.
         act_bind (act_result (configure_client_route_plan (JObj capabilities) c)) (\<lambda>c'.
         act_bind (act_result (res_bind (from_capabilities (JObj capabilities)) (\<lambda>p.
           blocking_execution_strategy p (JObj capabilities)))) (\<lambda>strategy.
         if strategy = None then attempt_return \<lparr>bn_client = c', bn_outcome = NoStrategy, bn_session = given, bn_created = JNull\<rparr>
         else if rb_session args = None then in_new_session resolve new_id c' args capabilities
         else run_prompt new_id c' (rb_prompt args) capabilities given JNull)))))"

definition blocking_message :: "'s blocking_run \<Rightarrow> string" where
  "blocking_message b =
     (case bn_outcome b of
        ProviderStopped m \<Rightarrow> ''provider failure: '' @ m
      | ApiStopped e \<Rightarrow>
          (if bn_session b \<noteq> JNull \<and> is_session_not_found_error e then ''session not found: '' @ py_str (bn_session b)
           else ''api failure: '' @ ae_message e)
      | _ \<Rightarrow> unsupported_blocking_execution_message)"

definition finish_blocking_run :: "exit_codes \<Rightarrow> output_args \<Rightarrow> 's blocking_run \<Rightarrow> api_failure option \<Rightarrow> printed result" where
  "finish_blocking_run codes args b failure =
     (case bn_outcome b of
        NoStrategy \<Rightarrow> render_command_result args (error_of unsupported_blocking_execution_message (ec_unsupported codes) []) True
      | Executed result \<Rightarrow>
          (case failure of
             Some e \<Rightarrow> render_command_result args (error_of (cleanup_message e) (ec_unavailable codes) []) True
           | None \<Rightarrow> render_command_result args
               ((result_of_data (JObj result))\<lparr>cr_compact := Some (format_blocking_execution_compact result)\<rparr>) False)
      | _ \<Rightarrow> render_command_result args (error_of (blocking_message b) (ec_unavailable codes) (cleanup_warnings failure)) True)"

definition handle_run_blocking_command ::
  "('s \<Rightarrow> string \<Rightarrow> string) \<Rightarrow> ('s \<Rightarrow> string) \<Rightarrow> exit_codes \<Rightarrow> output_args \<Rightarrow> (api_response_error + 's api_client) \<Rightarrow>
   run_blocking_args \<Rightarrow> ('s, request_error, printed) attempt" where
  "handle_run_blocking_command resolve new_id codes out client args =
     (case client of
        Inl e \<Rightarrow> act_bind (act_result (render_command_result out (error_of (ae_message e) (ec_unavailable codes) []) True))
          attempt_return
      | Inr c \<Rightarrow> attempt_bind (run_blocking_body resolve new_id c args) (\<lambda>b.
          act_bind (delete_disposable_session (bn_client b) (bn_created b)) (\<lambda>failure.
          act_bind (act_result (finish_blocking_run codes out b failure)) attempt_return)))"

end
