(* ===== verification/Event_Stream.thy ===== *)
theory Event_Stream
  imports Session_Commands Event_Schema
begin

text \<open>
  \<open>events.py\<close>, \<open>event_watcher.py\<close>, \<open>commands/watch.py\<close>, \<open>commands/capabilities.py\<close> and \<open>commands/steer.py\<close>: the
  lines of an event stream become events, the events of one session are watched until a last one, and the texts of a
  message are printed together. \<open>json.loads\<close> is a parameter that gives the value or the text of its error; the
  stream is the list of its lines and how it ends.
\<close>

section \<open>The lines of a stream\<close>

record event_parts =
  ep_name :: "string option"
  ep_id :: "string option"
  ep_data :: "string list"

definition no_parts :: event_parts where
  "no_parts = \<lparr>ep_name = None, ep_id = None, ep_data = []\<rparr>"

definition set_default_text :: "string \<Rightarrow> string option \<Rightarrow> jdict \<Rightarrow> jdict" where
  "set_default_text k v d = (case v of Some s \<Rightarrow> if dict_has d k then d else dict_set k (JStr s) d | None \<Rightarrow> d)"

text \<open>No event, an event, or the text of a decoding error\<close>

definition event_from_parts :: "(string \<Rightarrow> string + json) \<Rightarrow> event_parts \<Rightarrow> string + jdict option" where
  "event_from_parts loads p =
     (if p = no_parts then Inr None
      else let data_text = join_with NEWLINE (ep_data p) in
        case (if data_text = [] then Inr (JObj []) else loads data_text) of
          Inl m \<Rightarrow> Inl (''invalid JSON: '' @ m)
        | Inr data \<Rightarrow> Inr (Some (set_default_text ''event_id'' (ep_id p) (set_default_text ''event'' (ep_name p)
            (case data of JObj d \<Rightarrow> d | _ \<Rightarrow> [(''data'', data)])))))"

definition stripped_line :: "string \<Rightarrow> string" where
  "stripped_line s = rev (dropWhile (\<lambda>c. c = CHR 0x0A \<or> c = CHR 0x0D) (rev s))"

definition text_after_colon :: "string \<Rightarrow> string" where
  "text_after_colon line =
     (let v = drop (Suc (length (before_char (CHR '':'') line))) line in
      case v of c # cs \<Rightarrow> if c = CHR '' '' then cs else v | [] \<Rightarrow> v)"

definition read_field :: "string \<Rightarrow> event_parts \<Rightarrow> event_parts" where
  "read_field line p =
     (if CHR '':'' \<notin> set line then p\<lparr>ep_data := ep_data p @ [line]\<rparr>
      else let field = before_char (CHR '':'') line; v = text_after_colon line in
        if field = ''event'' then p\<lparr>ep_name := Some v\<rparr>
        else if field = ''id'' then p\<lparr>ep_id := Some v\<rparr>
        else if field = ''data'' then p\<lparr>ep_data := ep_data p @ [v]\<rparr> else p)"

text \<open>One line: an event may be complete, and the parts of the next one are what is left.\<close>

definition read_line :: "(string \<Rightarrow> string + json) \<Rightarrow> string \<Rightarrow> event_parts \<Rightarrow> string + jdict option \<times> event_parts" where
  "read_line loads raw p =
     (let line = stripped_line raw in
      if line = [] then map_sum id (\<lambda>e. (e, no_parts)) (event_from_parts loads p)
      else if starts_with line '':'' then Inr (None, p)
      else if starts_with line ''{'' \<and> ep_data p = []
      then map_sum id (\<lambda>e. (e, p)) (event_from_parts loads (no_parts\<lparr>ep_data := [line]\<rparr>))
      else Inr (None, read_field line p))"

definition with_event :: "jdict option \<Rightarrow> jdict list \<times> string option \<Rightarrow> jdict list \<times> string option" where
  "with_event e r = (case e of Some x \<Rightarrow> (x # fst r, snd r) | None \<Rightarrow> r)"

text \<open>The events that are yielded and the error that ends the iteration, if there is one\<close>

fun event_stream_from :: "(string \<Rightarrow> string + json) \<Rightarrow> string list \<Rightarrow> event_parts \<Rightarrow> jdict list \<times> string option" where
  "event_stream_from loads [] p =
     (case event_from_parts loads p of Inl m \<Rightarrow> ([], Some m) | Inr e \<Rightarrow> with_event e ([], None))"
| "event_stream_from loads (raw # rest) p =
     (case read_line loads raw p of
        Inl m \<Rightarrow> ([], Some m)
      | Inr (e, p') \<Rightarrow> with_event e (event_stream_from loads rest p'))"

definition iter_event_stream :: "(string \<Rightarrow> string + json) \<Rightarrow> string list \<Rightarrow> jdict list \<times> string option" where
  "iter_event_stream loads lines = event_stream_from loads lines no_parts"

section \<open>Events of a session\<close>

text \<open>A profile that knows the route decodes the event by that route.\<close>

definition normalize_event :: "jdict \<Rightarrow> string option \<Rightarrow> json \<Rightarrow> server_profile option \<Rightarrow> jdict option" where
  "normalize_event event target route profile =
     (let n = (case profile of
            Some p \<Rightarrow> normalize_event_record (JObj event) target (dict_get (pr_route_plan p) ''events'')
          | None \<Rightarrow> normalize_event_record (JObj event) target route) in
      if dict_get n ''kind'' = JStr ''ignored'' then None else Some n)"

definition is_terminal_event :: "jdict \<Rightarrow> bool" where
  "is_terminal_event event =
     (case short_status (dict_get event ''status'') of
        None \<Rightarrow> False
      | Some s \<Rightarrow> s \<in> {''done'', ''aborted'', ''timeout''} \<or> s = ''failed'' \<and> dict_get event ''kind'' = JStr ''status'')"

definition is_abort_event :: "jdict \<Rightarrow> bool" where
  "is_abort_event event \<longleftrightarrow> short_status (dict_get event ''status'') = Some ''aborted''"

definition event_profile :: "server_profile option \<Rightarrow> string \<Rightarrow> server_profile option" where
  "event_profile profile path =
     (case profile of
        Some p \<Rightarrow> if dict_get (pr_route_plan p) ''events'' = JStr path then Some p else None
      | None \<Rightarrow> None)"

definition iter_events :: "server_profile option \<Rightarrow> string \<Rightarrow> string \<Rightarrow> jdict list \<Rightarrow> jdict list" where
  "iter_events profile path session_id raw_events =
     List.map_filter (\<lambda>e. normalize_event e (Some session_id) (JStr path) (event_profile profile path)) raw_events"

text \<open>
  What a background watcher puts into its queue, up to the end of the waiting time: events, an error, the end.
\<close>

datatype 'e queue_item = QueuedEvent jdict | QueuedError 'e | QueuedEnd

datatype 'e watch_failure = WatchRaised 'e | EventWatchTimeout | EventWatchEmpty

fun collected :: "nat \<Rightarrow> bool \<Rightarrow> 'e queue_item list \<Rightarrow> 'e + jdict list" where
  "collected 0 stop_on_terminal items = Inr []"
| "collected (Suc n) stop_on_terminal [] = Inr []"
| "collected (Suc n) stop_on_terminal (QueuedError e # items) = Inl e"
| "collected (Suc n) stop_on_terminal (QueuedEnd # items) = Inr []"
| "collected (Suc n) stop_on_terminal (QueuedEvent v # items) =
     (if stop_on_terminal \<and> is_terminal_event v then Inr [v]
      else map_sum id (\<lambda>vs. v # vs) (collected n stop_on_terminal items))"

definition collect_events :: "nat \<Rightarrow> bool \<Rightarrow> bool \<Rightarrow> 'e queue_item list \<Rightarrow> 'e watch_failure + jdict list" where
  "collect_events limit stop_on_terminal thread_alive items =
     (case collected limit stop_on_terminal items of
        Inl e \<Rightarrow> Inl (WatchRaised e)
      | Inr events \<Rightarrow> if events \<noteq> [] then Inr events
          else Inl (if thread_alive then EventWatchTimeout else EventWatchEmpty))"

section \<open>Printing events\<close>

definition named_fields :: "jdict \<Rightarrow> (string \<times> string) list \<Rightarrow> (string \<times> json) list" where
  "named_fields event names = map (\<lambda>(shown_as, k). (shown_as, dict_get event k)) names"

definition text_length :: "json \<Rightarrow> json" where
  "text_length v = (case v of JStr s \<Rightarrow> JInt (int (length s)) | _ \<Rightarrow> JInt 0)"

definition watch_fields :: "jdict \<Rightarrow> string \<Rightarrow> (string \<times> json) list" where
  "watch_fields event kind =
     (let get = named_fields event in
      if kind = ''admission'' then get [(''message'', ''message_id''), (''delivery'', ''delivery''), (''status'', ''status'')]
      else if kind = ''tool''
      then get [(''message'', ''message_id''), (''call'', ''call_id''), (''tool'', ''tool''), (''status'', ''status'')]
      else if kind = ''status'' then get [(''status'', ''status'')]
      else if kind = ''prompt'' then get [(''message'', ''message_id''), (''status'', ''status'')]
      else if kind = ''step''
      then get [(''message'', ''message_id''), (''step'', ''step''), (''status'', ''status''), (''title'', ''title'')]
      else if kind = ''text''
      then get [(''message'', ''message_id'')] @ [(''chars'', text_length (dict_get event ''text''))] @ get [(''text'', ''text'')]
      else if kind = ''error'' then get [(''message'', ''message_id''), (''status'', ''status''), (''error'', ''error'')]
      else if kind = ''blocker''
      then get [(''blocker'', ''blocker''), (''id'', ''blocker_id''), (''message'', ''message_id''), (''question'', ''question'')]
      else get [(''message'', ''message_id''), (''status'', ''status'')])"

text \<open>The fields that are absent are left out; \<open>kind\<close> is a text in every record.\<close>

definition format_watch_event :: "jdict \<Rightarrow> string result" where
  "format_watch_event event =
     res_bind (indexed event ''kind'') (\<lambda>kind.
     Inr (join_with '' '' (py_str kind # map (\<lambda>f. fst f @ ''='' @ compact_value (snd f))
       (filter (\<lambda>f. snd f \<noteq> JNull) ((''session'', dict_get event ''session_id'') # watch_fields event (py_str kind))))))"

definition same_watch_text_group :: "jdict \<Rightarrow> jdict \<Rightarrow> bool" where
  "same_watch_text_group l r \<longleftrightarrow>
     py_eq (dict_get l ''session_id'') (dict_get r ''session_id'') \<and> py_eq (dict_get l ''message_id'') (dict_get r ''message_id'')"

definition event_text_of :: "jdict \<Rightarrow> string" where
  "event_text_of event = (case dict_get event ''text'' of JStr s \<Rightarrow> s | _ \<Rightarrow> [])"

record watch_state =
  wt_pending :: "jdict option"
  wt_shown :: "jdict list"

definition flush_pending_text :: "watch_state \<Rightarrow> watch_state" where
  "flush_pending_text w =
     (case wt_pending w of None \<Rightarrow> w | Some e \<Rightarrow> \<lparr>wt_pending = None, wt_shown = wt_shown w @ [e]\<rparr>)"

text \<open>Consecutive texts of a message are joined; any other event is shown after the pending text.\<close>

definition emit_event :: "jdict \<Rightarrow> watch_state \<Rightarrow> watch_state" where
  "emit_event event w =
     (if dict_get event ''kind'' = JStr ''text''
      then (case wt_pending w of
          Some p \<Rightarrow> if same_watch_text_group p event
            then w\<lparr>wt_pending := Some (dict_set ''text'' (JStr (event_text_of p @ event_text_of event)) p)\<rparr>
            else (flush_pending_text w)\<lparr>wt_pending := Some event\<rparr>
        | None \<Rightarrow> w\<lparr>wt_pending := Some event\<rparr>)
      else let f = flush_pending_text w in f\<lparr>wt_shown := wt_shown f @ [event]\<rparr>)"

definition emit_json :: "jdict \<Rightarrow> watch_state \<Rightarrow> watch_state" where
  "emit_json event w = w\<lparr>wt_shown := wt_shown w @ [event]\<rparr>"

text \<open>The events up to the first that ends the watch, which is returned with the state\<close>

fun watch_events :: "bool \<Rightarrow> jdict list \<Rightarrow> watch_state \<Rightarrow> watch_state \<times> jdict option" where
  "watch_events as_json [] w = (w, None)"
| "watch_events as_json (e # es) w =
     (let w' = (if as_json then emit_json e w else emit_event e w) in
      if is_terminal_event e then (flush_pending_text w', Some e) else watch_events as_json es w')"

section \<open>The watch command\<close>

datatype stream_end = StreamClosed | StreamRaised request_error

definition is_invalid_event_stream_error :: "api_response_error \<Rightarrow> bool" where
  "is_invalid_event_stream_error e =
     (case ae_data e of JObj d \<Rightarrow> dict_get d ''kind'' = JStr ''invalid_event_stream'' | _ \<Rightarrow> False)"

definition invalid_stream :: "string \<Rightarrow> string \<Rightarrow> api_response_error" where
  "invalid_stream path m =
     \<lparr>ae_message = ''GET '' @ absolute_path path @ '' returned invalid event stream: '' @ m, ae_status = None,
      ae_method = Some ''GET'', ae_path = Some (absolute_path path), ae_body = None,
      ae_data = JObj [(''kind'', JStr ''invalid_event_stream'')]\<rparr>"

text \<open>The raw events of a stream: a decoding error ends it before its own end.\<close>

definition stream_events :: "(string \<Rightarrow> string + json) \<Rightarrow> string \<Rightarrow> string list \<Rightarrow> stream_end \<Rightarrow> jdict list \<times> stream_end" where
  "stream_events loads path lines ending =
     (case iter_event_stream loads lines of
        (events, Some m) \<Rightarrow> (events, StreamRaised (ApiFailure (invalid_stream path m)))
      | (events, None) \<Rightarrow> (events, ending))"

record watch_exits =
  wx_unavailable :: int
  wx_unsupported :: int
  wx_dataerr :: int
  wx_timeout :: int
  wx_aborted :: int

definition watch_output :: "bool \<Rightarrow> jdict list \<Rightarrow> string result" where
  "watch_output as_json events =
     res_bind (res_map (\<lambda>e. if as_json then Inr (json_dumps (JObj e)) else format_watch_event e) events) (\<lambda>lines.
     Inr (concat (map print_line lines)))"

definition watch_timed_out :: "json \<Rightarrow> string" where
  "watch_timed_out timeout = ''watch timed out after '' @ py_str timeout @ ''s''"

definition watch_end :: "watch_exits \<Rightarrow> json \<Rightarrow> jdict option \<Rightarrow> stream_end \<Rightarrow> (string list \<times> int) result" where
  "watch_end exits timeout last_event ending =
     (case last_event of
        Some e \<Rightarrow> Inr ([], if is_abort_event e then wx_aborted exits else 0)
      | None \<Rightarrow> (case ending of
          StreamClosed \<Rightarrow> Inr ([], 0)
        | StreamRaised DeadlineExpired \<Rightarrow> Inr ([watch_timed_out timeout], wx_timeout exits)
        | StreamRaised (SystemTimeout m) \<Rightarrow> Inl (RemoteError ''TimeoutError'' m)
        | StreamRaised (ApiTimeout e) \<Rightarrow> Inr ([''event stream failure: '' @ ae_message e],
            if is_invalid_event_stream_error e then wx_dataerr exits else wx_unavailable exits)
        | StreamRaised (ApiFailure e) \<Rightarrow> Inr ([''event stream failure: '' @ ae_message e],
            if is_invalid_event_stream_error e then wx_dataerr exits else wx_unavailable exits)))"

definition watch_stream ::
  "watch_exits \<Rightarrow> bool \<Rightarrow> json \<Rightarrow> server_profile option \<Rightarrow> string \<Rightarrow> string \<Rightarrow> jdict list \<times> stream_end \<Rightarrow> printed result" where
  "watch_stream exits as_json timeout profile path session_id stream =
     (case watch_events as_json (iter_events profile path session_id (fst stream)) \<lparr>wt_pending = None, wt_shown = []\<rparr> of
        (w, last_event) \<Rightarrow>
          res_bind (watch_output as_json (wt_shown (flush_pending_text w))) (\<lambda>out.
          res_bind (watch_end exits timeout last_event (snd stream)) (\<lambda>(errors, code).
          Inr \<lparr>pd_out = out, pd_errors = errors, pd_exit_code = code\<rparr>)))"

definition detect_capabilities :: "'s api_client \<Rightarrow> deadline option \<Rightarrow> ('s, request_error, jdict) attempt" where
  "detect_capabilities c deadline =
     attempt_bind (get_health c deadline) (\<lambda>health.
     attempt_bind (get_openapi_doc c deadline) (\<lambda>doc.
     act_bind (act_result (case (doc, health) of
         (JObj d, JObj h) \<Rightarrow> capabilities_from_openapi_doc d h
       | (JObj d, _) \<Rightarrow> if py_truthy health then Inl (AttributeError ''object has no attribute get'')
           else capabilities_from_openapi_doc d []
       | _ \<Rightarrow> Inl (AttributeError ''object has no attribute get''))) attempt_return))"

text \<open>The whole deadline of the command covers the detection and the stream; \<open>open_stream\<close> reads the lines.\<close>

definition watch_session ::
  "watch_exits \<Rightarrow> (string \<Rightarrow> string + json) \<Rightarrow> (string \<Rightarrow> deadline option \<Rightarrow> ('s, string list \<times> stream_end) action) \<Rightarrow>
   's api_client \<Rightarrow> string \<Rightarrow> bool \<Rightarrow> json \<Rightarrow> rat option \<Rightarrow> ('s, request_error, printed) attempt" where
  "watch_session exits loads open_stream c session_id as_json timeout seconds =
     (let clock = tp_clock (cl_transport c);
          timed = print_error (watch_timed_out timeout) (wx_timeout exits) in
      act_bind (act_read (\<lambda>s. timeout_deadline seconds (clock s))) (\<lambda>d.
      act_bind (run_within clock d (detect_capabilities c (Some d))) (\<lambda>answer.
      case answer of
        Inl DeadlineExpired \<Rightarrow> attempt_return timed
      | Inl e \<Rightarrow> (case caught_api_error e of
            Some err \<Rightarrow> attempt_return (print_error (ae_message err) (wx_unavailable exits)) | None \<Rightarrow> attempt_raise e)
      | Inr capabilities \<Rightarrow>
          act_bind (act_result (res_bind (indexed_mapping capabilities ''route_availability'') (\<lambda>ra.
            indexed_mapping ra ''events''))) (\<lambda>route.
          act_bind (act_result (indexed route ''available'')) (\<lambda>available.
          if \<not> py_truthy available
          then attempt_return (print_error (''unsupported OpenCode server; missing event stream: '' @
            ''GET /api/event or GET /event or GET /global/event'') (wx_unsupported exits))
          else act_bind (act_result (res_bind (indexed route ''path'') (\<lambda>p. Inr (py_str p)))) (\<lambda>path.
            act_bind (open_stream path (if seconds = None then None else Some d)) (\<lambda>(lines, ending).
            act_bind (act_result (watch_stream exits as_json timeout (client_profile c) path session_id
              (stream_events loads path lines ending))) attempt_return)))))))"

section \<open>Capabilities and steering\<close>

definition route_text :: "jdict \<Rightarrow> string \<Rightarrow> string result" where
  "route_text ra name =
     res_bind (available_entry ra name) (\<lambda>available.
     if available then res_bind (indexed_mapping ra name) (\<lambda>r. res_bind (indexed r ''path'') (\<lambda>p. Inr (py_str p)))
     else Inr ''unsupported'')"

definition legacy_text :: "jdict \<Rightarrow> string result" where
  "legacy_text ra =
     res_bind (available_entry ra ''legacy_run'') (\<lambda>run.
     if \<not> run then Inr ''unsupported''
     else res_bind (available_entry ra ''legacy_reply'') (\<lambda>reply.
       if \<not> reply then Inr ''unsupported''
       else res_bind (route_text ra ''legacy_run'') (\<lambda>r. res_bind (route_text ra ''legacy_reply'') (\<lambda>p.
         Inr (r @ '','' @ p)))))"

definition format_capabilities_compact :: "jdict \<Rightarrow> string result" where
  "format_capabilities_compact capabilities =
     res_bind (indexed_mapping capabilities ''route_availability'') (\<lambda>ra.
     res_bind (route_text ra ''v2_wait'') (\<lambda>wait.
     res_bind (legacy_text ra) (\<lambda>legacy.
     res_bind (available_entry ra ''blocking_message'') (\<lambda>blocking.
     res_bind (if blocking then route_text ra ''blocking_message'' else Inr legacy) (\<lambda>execution.
     res_bind (indexed capabilities ''health'') (\<lambda>health.
     res_bind (indexed capabilities ''version'') (\<lambda>version.
     res_bind (route_text ra ''session'') (\<lambda>session.
     res_bind (route_text ra ''v2_prompt'') (\<lambda>prompt.
     res_bind (route_text ra ''events'') (\<lambda>events.
     Inr (join_with '' '' [''health='' @ py_str health, ''version='' @ py_str version, ''session='' @ session,
       ''prompt='' @ prompt, ''wait='' @ wait, ''events='' @ events, ''execution='' @ execution,
       ''legacy='' @ legacy])))))))))))"

definition handle_capabilities ::
  "exit_codes \<Rightarrow> output_args \<Rightarrow> (api_response_error + 's api_client) \<Rightarrow> ('s, request_error, printed) attempt" where
  "handle_capabilities codes args client =
     (case client of
        Inl e \<Rightarrow> attempt_return (print_error (ae_message e) (ec_unavailable codes))
      | Inr c \<Rightarrow> act_bind (detect_capabilities c None) (\<lambda>answer.
          case answer of
            Inl e \<Rightarrow> (case caught_api_error e of
                Some err \<Rightarrow> attempt_return (print_error (ae_message err) (ec_unavailable codes)) | None \<Rightarrow> attempt_raise e)
          | Inr capabilities \<Rightarrow> act_bind (act_result (unsupported_reasons capabilities)) (\<lambda>reasons.
              if reasons \<noteq> []
              then attempt_return (print_error (''unsupported OpenCode server; '' @ join_with ''; '' reasons) (ec_unsupported codes))
              else act_bind (act_result (if oa_json args then Inr (json_dumps (JObj capabilities))
                  else format_capabilities_compact capabilities)) (\<lambda>t.
                attempt_return (printing (print_line t) 0)))))"

definition format_admission_compact :: "jdict \<Rightarrow> string result" where
  "format_admission_compact a =
     res_bind (res_map (\<lambda>(shown_as, k). res_bind (indexed a k) (\<lambda>v. Inr (shown_as, v)))
       [(''session'', ''session_id''), (''message'', ''message_id''), (''delivery'', ''delivery''), (''status'', ''status''),
        (''admitted'', ''admitted_sequence''), (''promoted'', ''promoted_sequence'')]) (\<lambda>flds.
     Inr (''steer '' @ compact_fields flds))"

text \<open>The sender of prompts over the client; what is no error of the API is an exception of the action.\<close>

definition client_sender :: "'s api_client \<Rightarrow> 's prompt_sender" where
  "client_sender c session_id payload path =
     act_bind (admit_prompt_response c session_id payload path) (\<lambda>answer.
     case answer of
       Inr response \<Rightarrow> act_return (ApiResponse (fst response) (snd response))
     | Inl e \<Rightarrow> (case caught_api_error e of
         Some err \<Rightarrow> act_return (ApiError err) | None \<Rightarrow> act_raise (RemoteError (request_error_name e) (request_error_text e))))"

definition steer_exit :: "exit_codes \<Rightarrow> py_error \<Rightarrow> printed option" where
  "steer_exit codes e =
     (if error_type_name e = ''PromptAdmissionUnsupported'' then Some (print_error (error_text e) (ec_unsupported codes))
      else if error_type_name e = ''PromptAdmissionFailure'' then Some (print_error (error_text e) (ec_unavailable codes))
      else None)"

definition handle_steer_command ::
  "('s \<Rightarrow> string) \<Rightarrow> exit_codes \<Rightarrow> output_args \<Rightarrow> (api_response_error + 's api_client) \<Rightarrow> string \<Rightarrow> string \<Rightarrow> string \<Rightarrow>
   string option \<Rightarrow> ('s, request_error, printed) attempt" where
  "handle_steer_command new_id codes args client session_id txt delivery message_id =
     (case client of
        Inl e \<Rightarrow> attempt_return (print_error (ae_message e) (ec_unavailable codes))
      | Inr c \<Rightarrow> act_bind (detect_capabilities c None) (\<lambda>answer.
          case answer of
            Inl e \<Rightarrow> (case caught_api_error e of
                Some err \<Rightarrow> attempt_return (print_error (ae_message err) (ec_unavailable codes)) | None \<Rightarrow> attempt_raise e)
          | Inr capabilities \<Rightarrow> act_bind (act_read new_id) (\<lambda>fresh.
              act_catch (act_bind (admit_prompt (client_sender c) capabilities (JStr session_id) (JStr txt) (JStr delivery)
                  (opt_json message_id) fresh True) (\<lambda>r.
                act_bind (act_result (render_command_result args ((result_of_data (JObj (ad_record r)))
                  \<lparr>cr_raw_body := Some (ad_body r), cr_compact := Some (format_admission_compact (ad_record r))\<rparr>) False))
                  attempt_return))
                (\<lambda>e. case steer_exit codes e of Some p \<Rightarrow> attempt_return p | None \<Rightarrow> act_raise e))))"

end
