(* ===== verification/Spec2Isabelle.thy ===== *)
theory Spec2Isabelle
  imports Store_Samples Creation_Outbox Command_Samples Cleanup_Samples Event_Stream
begin

text \<open>
  OCS (\<open>src/opencode_session\<close>) runs groups of AI workers against an OpenCode server. A run is a
  JSON record with a map of workers; every change of a worker goes through a transition, the
  workers of a run are scheduled in dependency order, and the status of the run and the exit code
  of the command are derived from the statuses of its workers.

  Conventions. JSON and the Python values that reach the code are the datatype \<open>json\<close>; a Python
  dict is an association list with insertion order (\<open>jdict\<close>); a raised exception is \<open>Inl\<close> of a
  \<open>py_error\<close>, with the type and the message of the source. Python's integers are unbounded, so
  \<open>int\<close>; floats are the rationals they denote, where they occur.

  Theories, in the order the code has the layers:

  \<^item> \<open>Ocs_Prelude\<close>: JSON values, dicts, Python's truth, equality, \<open>str\<close>, text helpers, results, and
    the lemma collections \<open>wf_intros\<close>.
  \<^item> \<open>Status\<close> (\<open>status.py\<close>), \<open>Worker_Lifecycle\<close> (\<open>worker_state.py\<close>): the status words, the
    table of the fourteen lifecycle states with their public status, action and dimensions, the
    aggregate status of a run.
  \<^item> \<open>Worker_Fields\<close> (\<open>worker_field_spec.py\<close>), \<open>Worker_Record\<close> (\<open>worker_state.py\<close>): the field
    specifications with defaults and canonical values, the worker record with its slots and its
    updates, snapshots and their hydration; \<open>wf_worker\<close> is the invariant of a hydrated worker.
  \<^item> \<open>Worker_Transition\<close> (\<open>worker_state.py\<close>): the transition table, the payloads, the legality
    test, the reducers and the invariant of an accepted abort. \<open>Worker_Transition_Facts\<close> gives
    each reducer's effect (which slots it changes, which state it enters) and the preservation of
    \<open>wf_worker\<close>; \<open>Transition_Totality\<close> shows when a transition is applied and when it raises.
  \<^item> \<open>Worker_Snapshot\<close> (\<open>worker_state.py\<close>, \<open>worker_snapshot_transition.py\<close>): building a snapshot patch
    and replaying it.
  \<^item> \<open>Lifecycle_Machine\<close>: the abstract state machine (\<open>lifecycle_step\<close>) over the lifecycle state
    and the acceptance of an abort, and the refinement of it by the concrete transitions.
  \<^item> \<open>Worker_Attempts\<close> (\<open>worker_state.py\<close>, \<open>worker_attempt_policy.py\<close>, \<open>worker_attempt_execution.py\<close>,
    \<open>worker_execution.py\<close>, \<open>worker_attempt_log.py\<close>): the transition factories, retry and timeout
    policy, the classification of a failed attempt and the worker executor; \<open>Attempt_Facts\<close> holds
    the locale \<open>persistence_boundary\<close>, the contract between the executor and the store that
    applies its transitions, and the retry budget; \<open>Attempt_Numbering\<close> the attempt log.
  \<^item> \<open>Worker_Dependencies\<close> (\<open>worker_dependencies.py\<close>): the depth-first search, the blocker maps
    and the ready workers; \<open>Dependency_Order\<close> and \<open>Dependency_Blockers\<close> their correctness.
  \<^item> \<open>Run_Summary\<close> (\<open>worker_state.py\<close>, \<open>cli_policy.py\<close>): the status, the output references and
    the exit code of a run.
  \<^item> \<open>Worker_Storage\<close> (\<open>worker_storage_adapter.py\<close>): migration of persisted snapshots, hydration,
    normalisation for storage; \<open>Storage_Facts\<close>: what is stored reads back, unknown fields survive.
  \<^item> \<open>Run_Resources\<close> (\<open>run_resource_schema.py\<close>), \<open>Run_Record\<close> (\<open>run_record.py\<close>), \<open>Run_Store\<close>
    (\<open>run_store.py\<close>, \<open>run_cleanup_audit.py\<close>): the manifest of owned resources, run records, and the
    files of the store. \<open>Store_Facts\<close> holds the invariant \<open>sound_store\<close>, its preservation and the
    locale \<open>run_storage\<close> (load and update of a store, as its clients see them), interpreted on
    \<open>load_run\<close> and \<open>update_run\<close>; \<open>Store_Totality\<close> shows when the operations return.
  \<^item> \<open>Run_Persistence\<close> (\<open>run_persistence.py\<close>, \<open>multi_worker_orchestration_persistence.py\<close>): mutations,
    transitions and summaries written through the store. \<open>Persistence_Facts\<close>: the locale
    \<open>run_persistence\<close>, a \<open>persistence_boundary\<close> of the executor.
  \<^item> \<open>Effects\<close>: actions, which keep what was written before an exception.
  \<^item> \<open>Remote_Journal\<close> (\<open>remote_journal.py\<close>), \<open>Session_Provisioning\<close>
    (\<open>worker_session_provisioning.py\<close>): the outbox of a run, and sessions created through it.
    \<open>Journal_Facts\<close> (locale \<open>remote_outbox\<close>), \<open>Outbox_Workers\<close>, \<open>Creation_Outbox\<close> and
    \<open>Provisioning_Facts\<close>: an interrupted mutation leaves its entry, the server is called only after
    the intent is stored, and other workers are left alone.
  \<^item> \<open>Stored_Executor\<close> (\<open>worker_execution.py\<close>): the executor over the store and the outbox;
    \<open>Execution_Facts\<close> (locale \<open>stored_execution\<close>): it changes one worker, and an execution
    without an error uses up one of the attempts that \<open>Attempt_Progress\<close> counts.
  \<^item> \<open>Attempt_Recovery\<close> (\<open>worker_active_attempt_recovery.py\<close>): attempts whose lease expired.
  \<^item> \<open>Session_Cleanup\<close> (\<open>disposable_session_lifecycle.py\<close>, \<open>worker_cleanup_recovery.py\<close>): deletion of
    created sessions, with the pending ones recorded; \<open>Cleanup_Facts\<close>: none is forgotten.
  \<^item> \<open>Orchestration\<close> (\<open>multi_worker_orchestration*.py\<close>, \<open>multi_worker_execution_outcome.py\<close>,
    \<open>run_start_policy.py\<close>, \<open>run_start_core.py\<close>): a start from the request to the outcome.
    \<open>Orchestration_Facts\<close> (locales \<open>orchestration_store\<close> and \<open>serial_orchestration\<close>) and
    \<open>Start_Facts\<close> (locale \<open>start_service\<close>): a start under the fail-fast policy returns;
    \<open>Store_Execution\<close> (locale \<open>live_store\<close>): under the continue policy it need not.
  \<^item> \<open>Schema_Helpers\<close> (\<open>schema_helpers.py\<close>, \<open>schema_route_contract.py\<close>): reading a payload of the server by
    the names its versions use. \<open>Session_Schema\<close>, \<open>Message_Schema\<close> and \<open>Event_Schema\<close>
    (\<open>schema_*_adapter.py\<close>, \<open>schema_*_codecs.py\<close>): sessions, messages and events under one set of names.
  \<^item> \<open>Server_Profile\<close> (\<open>api_profile_detection.py\<close>, \<open>project_routes.py\<close>, \<open>api_profile.py\<close>,
    \<open>capabilities.py\<close>): the routes the server offers, the plan of the routes to use, and the
    capabilities record that carries them.
  \<^item> \<open>Prompt_Admission\<close> (\<open>prompt_admission.py\<close>, \<open>schema_admission_adapter.py\<close>, \<open>session_lifecycle.py\<close>):
    the admission of a prompt, its replays and errors, the answer of an abort.
  \<^item> \<open>Run_Commands\<close> (\<open>run_services.py\<close>, \<open>run_prompt_worker.py\<close>): the commands on a run.
    \<open>Live_Outbox\<close> (locale \<open>live_outbox\<close>, over \<open>live_store\<close> and \<open>remote_outbox\<close>) shows that a remote
    mutation over the store returns when the server answers and leaves an uncertain entry when it does
    not; \<open>Command_Facts\<close> carries that over to aborts and prompts.
  \<^item> \<open>Owned_Resources\<close> (\<open>run_resources.py\<close>, \<open>run_project_ownership.py\<close>, \<open>run_branch_transaction.py\<close>): the
    registration of worktrees, logs and project copies with their identities, and the verification of the
    ownership; the operating system and git are the record \<open>host\<close>. \<open>Ownership_Facts\<close>: POSIX paths are their root
    and their parts, and what was registered verifies on an unchanged host.
  \<^item> \<open>Local_Cleanup\<close> (\<open>run_cleanup_local.py\<close>), \<open>Project_Metadata\<close> (\<open>project_metadata.py\<close>,
    \<open>project_metadata_cleanup.py\<close>), \<open>Run_Cleanup\<close> (\<open>run_cleanup*.py\<close>, \<open>commands/run_cleanup.py\<close>): the cleanup of a
    run, from the plan and its preflight to the removals and the audit. The state of a cleanup is the
    store together with the host (\<open>world\<close>). \<open>Cleanup_Safety\<close> gives the steps that a cleanup may take on the
    host as a relation (\<open>plan_step\<close>) and shows that every action moves along it (\<open>moves\<close>);
    \<open>Cleanup_Accounting\<close> shows what actions return (\<open>yields\<close>): every planned resource is removed, blocked or named
    by an error; \<open>Cleanup_Audit\<close> what is stored in the run; \<open>Project_Facts\<close> what a project cleanup verified.
  \<^item> \<open>Text_Output\<close> (\<open>formatting.py\<close>): compact lines and tables, and that they can be read back.
  \<^item> \<open>Blocking_Execution\<close> (\<open>blocking_execution.py\<close>, \<open>blocking_timeout.py\<close>, \<open>timeout_boundary.py\<close>): a prompt is
    sent and its answer checked; an execution that times out aborts its session. Its \<open>blocking_prompt_executor\<close> is
    a prompt executor of \<open>Stored_Executor\<close>.
  \<^item> \<open>Api_Routes\<close> (\<open>api_routes.py\<close>, \<open>api_profile.py\<close>, \<open>project_routes.py\<close>): the paths of the routes with their
    percent-encoded ids. \<open>Api_Client\<close> (\<open>api_transport.py\<close>, \<open>api_domain.py\<close>, \<open>api_client.py\<close>): the requests over them.
  \<^item> \<open>Command_Output\<close> (\<open>commands/rendering.py\<close>), \<open>Blockers\<close> (\<open>blocker_*.py\<close>), \<open>Session_Commands\<close>
    (\<open>session_*.py\<close>, \<open>commands/sessions.py\<close>, \<open>commands/run_blocking.py\<close>), \<open>Event_Stream\<close> (\<open>events.py\<close>,
    \<open>event_watcher.py\<close>, \<open>commands/watch.py\<close>, \<open>commands/capabilities.py\<close>, \<open>commands/steer.py\<close>): the commands on
    permissions, questions, sessions and event streams, from the request to the text they print.
  \<^item> \<open>Samples\<close>, \<open>Store_Samples\<close>, \<open>Command_Samples\<close>, \<open>Cleanup_Samples\<close>: the concrete values on which the properties below are instantiated.
    \<open>Executor_Totality\<close>, \<open>Worker_Identity\<close>: the executor returns; a transition keeps a worker's id.

  Loops: the depth-first search and the propagation of blockers are \<open>function\<close>s with a proved
  termination measure (the graph's keys not yet on the path; the workers not yet blocked). The
  loop over the workers of a start is a \<open>partial_function\<close>, whose \<open>None\<close> is a start that never
  returns: C24 shows that it returns under the fail-fast policy, by the number of attempts that are
  left, and C25 that under the continue policy it may run forever. No fuel is used.

  Parameters: the answers of the OpenCode server (the prompt executor, the session client, the cleanup
  client, the capability probe, the metadata client), the host (the operating system and git), the clock, drawn ids, \<open>Path.cwd()\<close>, \<open>float(text)\<close> (\<open>pf\<close>) and
  \<open>datetime.fromisoformat\<close> (\<open>of_iso\<close>). Properties about the store as a whole instantiate the clients
  by functions that answer in any way but leave the run files alone (\<open>remote_sessions\<close>,
  \<open>remote_prompts\<close>, \<open>remote_probe\<close>).

  Abstractions: an operation under the lock of the store is one step, and concurrent processes are
  the interleavings of such steps that a stale copy of a run stands for (C27); \<open>OSError\<close>s of the
  file system and the key order of written files are left out. A file holds the value that was
  written, or a text that does not parse.

  Not modelled: the parsing of the command line, the exchange of bytes over HTTP and \<open>json.loads\<close> (parameters of the
  transport), socket timeouts, the thread of a background watcher, the rendering of runs and projects, the
  read-only API probe, live validation.
\<close>

section \<open>The worker's state machine\<close>

text \<open>
  C1. Any sequence of transitions that the program applies to a well-formed worker leaves it
  well-formed, and the change of its lifecycle state is a run of the abstract state machine.
\<close>

theorem worker_history_refines_machine:
  assumes "wf_worker w" and "\<forall>tr \<in> set trs. system_transition tr"
    and "res_fold apply_transition w trs = Inr w'"
  shows "wf_worker w' \<and> lifecycle_reach (machine_state w) (machine_state w')"
  using system_history assms by blast

theorem worker_history_refines_machine_witness:
  "\<exists>w'. res_fold apply_transition sample_worker [active_transition ''w1'' None False] = Inr w' \<and>
     wf_worker w' \<and> lifecycle_reach (machine_state sample_worker) (machine_state w')"
proof -
  let ?tr = "active_transition ''w1'' None False"
  obtain w' where "apply_transition sample_worker ?tr = Inr w'"
    using sample_activation by blast
  then have "res_fold apply_transition sample_worker [?tr] = Inr w'" by simp
  with worker_history_refines_machine [of sample_worker "[?tr]" w'] show ?thesis
    by (simp add: system_transition_def active_transition_def)
qed

text \<open>
  C2. Once an abort was accepted and the worker aborted, no sequence of transitions undoes it.
\<close>

theorem accepted_abort_is_permanent:
  assumes "wf_worker w" and "accepted_abort w" and "\<forall>tr \<in> set trs. system_transition tr"
    and "res_fold apply_transition w trs = Inr w'"
  shows "accepted_abort w'"
proof -
  have w': "wf_worker w'" and reach: "lifecycle_reach (machine_state w) (machine_state w')"
    using system_history [OF assms(4,1,3)] by simp_all
  obtain l l' where "worker_lifecycle w = Some l" and "worker_lifecycle w' = Some l'"
    using assms(1) w' by (meson wf_worker_lifecycle)
  with assms(2) absorbed_reach [OF reach] show ?thesis by (simp add: accepted_abort_iff)
qed

theorem accepted_abort_is_permanent_witness:
  "\<exists>w'. res_fold apply_transition sample_aborted [active_transition ''w1'' None False] = Inr w' \<and>
     accepted_abort w'"
proof -
  let ?tr = "active_transition ''w1'' None False"
  obtain w' where "apply_transition sample_aborted ?tr = Inr w'"
    using aborted_activation by blast
  then have "res_fold apply_transition sample_aborted [?tr] = Inr w'" by simp
  with accepted_abort_is_permanent [of sample_aborted "[?tr]" w'] show ?thesis
    by (simp add: system_transition_def active_transition_def)
qed





text \<open>
  No sequence of transitions changes a worker's configuration: its role, name, title, prompt,
  dependencies, retry limit, retryable failures, timeout and timeout policy.
\<close>

theorem configuration_is_immutable:
  assumes "worker_history w w'" and "wf_worker w"
    and "f \<in> {F_role, F_name, F_title, F_prompt, F_dependencies, F_retry_limit, F_retryable_failures,
      F_timeout_seconds, F_timeout_policy}"
  shows "wr_slots w' f = wr_slots w f"
  using worker_history_configuration [of w w' f] assms unfolding configuration_fields_def by blast

theorem configuration_is_immutable_witness:
  "\<exists>w'. worker_history sample_worker w' \<and> worker_lifecycle w' = Some Active_Wait \<and>
     wr_slots w' F_prompt = wr_slots sample_worker F_prompt"
  using configuration_is_immutable [of sample_worker _ F_prompt] sample_history by fastforce

text \<open>
  C5. However its transitions and retries are interleaved, a worker that starts within its retry
  budget never has a retry count above its retry limit, when retries are scheduled by the policy.
\<close>

theorem retry_count_within_limit:
  assumes "worker_history w w'" and "wf_worker w" and "within_budget w"
  shows "wf_worker w' \<and> within_budget w'"
  by (rule worker_history_budget [OF assms])

theorem retry_count_within_limit_witness:
  "\<exists>w'. worker_history sample_worker w' \<and> worker_lifecycle w' = Some Active_Wait \<and> within_budget w'"
  using retry_count_within_limit [of sample_worker] sample_history
  by (fastforce simp: within_budget_def)

section \<open>The worker executor\<close>

text \<open>
  C6. An execution that returns never leaves its worker waiting for the server: every outcome of
  the prompt (result, timeout, failure) ends the attempt, over every provisioner that returns a
  well-formed worker.
\<close>

theorem execution_ends_attempt:
  assumes "wf_worker w"
    and "\<And>run1 w1 c. provision run w = Inr (run1, w1, c) \<Longrightarrow> wf_worker w1"
    and "\<And>run2 w2 run3 w3. wf_worker w2 \<Longrightarrow> finalize run2 w2 = (run3, w3) \<Longrightarrow> wf_worker w3"
    and "execute_worker apply_in_memory provision finalize prompt prompt_id clock run w = Inr out"
  shows "wf_worker (eo_worker out) \<and> worker_lifecycle (eo_worker out) \<noteq> Some Active_Wait"
  by (rule conjunct2 [OF in_memory.execute_worker_ends [OF TrueI assms(1) _ _ assms(4)]]) (use assms(2,3) in auto)

theorem execution_ends_attempt_witness:
  "\<exists>out. execute_worker apply_in_memory sample_provision Pair sample_outage None sample_clock () sample_worker = Inr out \<and>
     worker_lifecycle (eo_worker out) \<noteq> Some Active_Wait"
proof -
  obtain out where out: "execute_worker apply_in_memory sample_provision Pair sample_outage None sample_clock () sample_worker = Inr out"
    using sample_execution by blast
  have "wf_worker (eo_worker out) \<and> worker_lifecycle (eo_worker out) \<noteq> Some Active_Wait"
    by (rule execution_ends_attempt [OF _ _ _ out]) (auto simp: sample_provision_def)
  with out show ?thesis by blast
qed

text \<open>
  C7. The executor never gets stuck: for a schedulable worker, a provisioner and a finalization
  that keep it schedulable, and an answer of the prompt that the policy classifies, every
  transition on the way is legal and an outcome is returned.
\<close>

theorem execution_returns:
  assumes "provision run w = Inr (run1, w1, c)" and "schedulable_worker w1"
    and "\<And>run2 w2. schedulable_worker w2 \<Longrightarrow> schedulable_worker (snd (finalize run2 w2))"
    and "\<And>w. prompt_answered w (prompt w)"
  shows "\<exists>out. execute_worker apply_in_memory provision finalize prompt prompt_id clock run w = Inr out"
  by (rule execute_worker_returns [where provision = provision and finalize = finalize]) (fact assms)+

theorem execution_returns_witness:
  "\<exists>out. execute_worker apply_in_memory sample_provision Pair sample_outage None sample_clock () sample_worker = Inr out"
  by (rule execution_returns [of _ _ _ "()" sample_worker JNull])
    (simp_all add: sample_provision_def sample_outage_def prompt_answered_def sample_schedulable)

text \<open>
  Snapshot round trip: the snapshot transition of a worker exists, and applying it to a
  worker from which the snapshot may be replayed sets every replayed field to the snapshot's value.
\<close>

theorem snapshot_round_trip:
  assumes "wf_worker w" and "wf_worker v" and "worker_lifecycle v = Some lv" and "worker_lifecycle w = Some l"
    and "l \<in> set (worker_snapshot_replay_source_lifecycle_states (Some lv))" and "\<not> accepted_abort w"
  shows "\<exists>tr w'. worker_snapshot_transition v None = Inr tr \<and> apply_transition w tr = Inr w' \<and> wf_worker w' \<and>
    worker_lifecycle w' = Some lv \<and> (\<forall>f \<in> set (patch_fields v). wr_slots w' f = wr_slots v f)"
  by (rule snapshot_replayed [OF assms])

theorem snapshot_round_trip_witness:
  "\<exists>tr w'. worker_snapshot_transition (worker_in ''w1'' Done_Collect []) None = Inr tr \<and>
     apply_transition (worker_in ''w1'' Active_Wait []) tr = Inr w' \<and> worker_lifecycle w' = Some Done_Collect"
  using snapshot_round_trip [of "worker_in ''w1'' Active_Wait []" "worker_in ''w1'' Done_Collect []"
      Done_Collect Active_Wait] done_replay_source
  by (fastforce simp: worker_in_not_aborted)

section \<open>Worker records\<close>

text \<open>
  C8. Snapshots round trip: the snapshot of a well-formed worker has distinct keys, and building a
  worker from it gives the same worker back.
\<close>

theorem snapshot_reads_back:
  assumes "wf_worker w"
  shows "\<exists>d. serialize_worker_snapshot w wid = Inr d \<and> wf_dict d \<and> worker_init wid d = Inr w"
  using assms by (simp add: serialize_wf wf_dict_snapshot_of worker_init_snapshot)

theorem snapshot_reads_back_witness:
  "\<exists>d. serialize_worker_snapshot sample_worker JNull = Inr d \<and> wf_dict d \<and> worker_init JNull d = Inr sample_worker"
  by (rule snapshot_reads_back) simp

text \<open>A new worker with an id is well-formed, queued, and carries that id.\<close>

theorem new_worker_is_queued:
  assumes "s \<noteq> []"
  shows "\<exists>w. default_worker_record (JStr s) = Inr w \<and> wf_worker w \<and> worker_lifecycle w = Some Queued \<and>
    worker_id w = JStr s"
  using assms default_worker_record_eq wf_reset_fields reset_fields_state by blast

theorem new_worker_is_queued_witness:
  "\<exists>w. default_worker_record (JStr ''w1'') = Inr w \<and> worker_lifecycle w = Some Queued"
  using new_worker_is_queued [of "''w1''"] by blast

text \<open>
  C9. Attempts are numbered 1, 2, 3 without gaps: starting one appends a record with the next
  number, and finalizing that number changes no other record and keeps the numbering.
\<close>

theorem attempts_stay_numbered:
  assumes "numbered (worker_attempts w)" and "\<not> dict_has flds ''id''"
  shows "\<exists>w1 w2. append_attempt w (started_attempt w started created pid) = Inr w1 \<and>
    finalize_attempt w1 (attempt_id (length (worker_attempts w) + 1)) flds = Inr w2 \<and>
    numbered (worker_attempts w2) \<and> length (worker_attempts w2) = length (worker_attempts w) + 1 \<and>
    take (length (worker_attempts w)) (worker_attempts w2) = worker_attempts w"
  by (rule started_and_finalized [OF assms])

theorem attempts_stay_numbered_witness:
  "\<exists>w1 w2. append_attempt sample_worker (started_attempt sample_worker JNull [] None) = Inr w1 \<and>
    finalize_attempt w1 (attempt_id (length (worker_attempts sample_worker) + 1)) [(''status'', JStr ''completed'')] = Inr w2 \<and>
    numbered (worker_attempts w2)"
  using attempts_stay_numbered [of sample_worker "[(''status'', JStr ''completed'')]" JNull "[]" None]
  by (fastforce simp: numbered_def dict_has_def)

section \<open>Scheduling\<close>

text \<open>The dependency order of an analysed run lists every worker exactly once.\<close>

theorem dependency_order_complete:
  assumes "analyze_worker_dependencies workers = Inr a"
  shows "distinct (da_order a) \<and> set (da_order a) = fst ` set workers"
  using search_facts(1,2) [of workers] analysis_facts(1) [OF assms] by (simp add: dfs_ok_def)

theorem dependency_order_complete_witness:
  "\<exists>a. analyze_worker_dependencies sample_workers = Inr a \<and> set (da_order a) = {''w1'', ''w2'', ''w3''}"
  using dependency_order_complete [of sample_workers] sample_analysis by (force simp: sample_workers_def)

text \<open>
  C10. When the search reports no cycle, the order is topological: every dependency of a worker
  that is itself a worker of the run comes before it.
\<close>

theorem dependency_order_topological:
  assumes "dependency_order_and_cycles workers (worker_dependency_graph workers) = (order, [])"
    and "i < length order" and "edge (worker_dependency_graph workers) (order ! i) j"
  shows "j \<in> set (take i order)"
proof -
  have "order = dfs_ordered (search_of workers)" and "dfs_cycles (search_of workers) = []"
    using assms(1) by (auto simp: dependency_order_and_cycles_def search_of_def Let_def)
  with assms(2,3) search_facts(3) [of workers] show ?thesis
    by (auto simp: topological_def reported_def)
qed

theorem dependency_order_topological_witness:
  "dependency_order_and_cycles sample_workers (worker_dependency_graph sample_workers) = ([''w1'', ''w2'', ''w3''], []) \<and>
   ''w1'' \<in> set (take 1 [''w1'', ''w2'', ''w3''])"
  by (intro conjI sample_order dependency_order_topological [OF sample_order])
    (simp_all add: edge_def sample_graph graph_dependencies_def graph_keys [unfolded sample_graph] sample_keys)

text \<open>C11. The search reports no cycle exactly when the dependency graph is acyclic.\<close>

theorem cycles_reported_iff_cyclic:
  "snd (dependency_order_and_cycles workers (worker_dependency_graph workers)) = [] \<longleftrightarrow>
     acyclic (edges (worker_dependency_graph workers))"
proof -
  have "acyclic (edges (worker_dependency_graph workers))" if "dfs_cycles (search_of workers) = []"
    using search_acyclic [of workers] that by (simp add: edges_def reported_def)
  then show ?thesis
    using search_facts(4) [of _ workers] unfolding search_cycles
    by (metis list.set_intros(1) neq_Nil_conv real_cycle_not_acyclic)
qed

text \<open>
  C12. The blocked workers are exactly the least set that contains the seeds (members of a cycle,
  dependents of failed, missing or not runnable workers) and is closed under dependence of
  blockable workers.
\<close>

theorem blockers_are_the_least_closure:
  assumes "analyze_worker_dependencies workers = Inr a"
  shows "dict_dom (da_blockers a) =
    Collect (blocked_from workers (worker_dependency_graph workers) (blocker_seeds workers))"
  by (rule analysis_facts(2) [OF assms])

theorem blockers_are_the_least_closure_witness:
  "\<exists>a. analyze_worker_dependencies sample_workers = Inr a \<and> dict_dom (da_blockers a) =
     Collect (blocked_from sample_workers (worker_dependency_graph sample_workers) (blocker_seeds sample_workers))"
  using blockers_are_the_least_closure [of sample_workers] sample_analysis by blast



text \<open>
  C14. The scheduler makes progress: as long as a worker waits (it is queued or active and not
  blocked), some waiting worker is ready, or one is running.
\<close>

theorem scheduler_makes_progress:
  assumes "analyze_worker_dependencies workers = Inr a" and "\<forall>(i, w) \<in> set workers. wf_worker w"
    and "waiting workers i"
  shows "\<exists>j w. map_of workers j = Some w \<and> waiting workers j \<and>
    (j \<in> set (da_ready a) \<or> worker_lifecycle w = Some Active_Wait)"
  using waiting_ready [OF assms] by metis

theorem scheduler_makes_progress_witness:
  "\<exists>a j w. analyze_worker_dependencies single_worker = Inr a \<and> map_of single_worker j = Some w \<and>
     (j \<in> set (da_ready a) \<or> worker_lifecycle w = Some Active_Wait)"
proof -
  obtain a where a: "analyze_worker_dependencies single_worker = Inr a" using single_analysis ..
  have "\<forall>(i, w) \<in> set single_worker. wf_worker w" by (simp add: single_worker_def)
  from scheduler_makes_progress [OF a this single_waiting] a show ?thesis by blast
qed

section \<open>Statuses and exit codes\<close>

text \<open>
  The status of a refreshed run: done exactly when every prompted worker is done, and otherwise
  the most severe status among the prompted workers that are not done, in the order queued, active,
  blocked, timeout, aborted, failed.
\<close>

theorem refreshed_run_status:
  assumes "\<forall>(i, w) \<in> set (rn_workers run). wf_worker w"
    and "filter prompted (map snd (rn_workers run)) \<noteq> []"
    and "refresh_run_summary inc run = Inr run'"
  shows "\<exists>ss t. map worker_status (filter prompted (map snd (rn_workers run))) = map (Some \<circ> status_name) ss \<and>
    dict_get (rn_fields run') ''status'' = JStr (status_name t) \<and>
    (if set ss = {St_Done} then t = St_Done
     else t \<in> set ss - {St_Done} \<and> (\<forall>u \<in> set ss - {St_Done}. status_rank u \<le> status_rank t))"
  using refresh_status [OF assms] by metis

theorem refreshed_run_status_witness:
  "\<exists>run' t. refresh_run_summary False sample_run = Inr run' \<and>
     dict_get (rn_fields run') ''status'' = JStr (status_name t)"
proof -
  obtain run' where "refresh_run_summary False sample_run = Inr run'" using sample_refresh ..
  with refreshed_run_status [OF sample_run_wf sample_run_prompted this] show ?thesis by blast
qed

text \<open>
  C15. The exit code of a refreshed run is 0 exactly when every prompted worker is done: partial
  success, blocked, timed out and aborted runs never look successful to a script.
\<close>

theorem exit_code_zero_iff_done:
  assumes "\<forall>(i, w) \<in> set (rn_workers run). wf_worker w"
    and "filter prompted (map snd (rn_workers run)) \<noteq> []"
    and "refresh_run_summary inc run = Inr run'"
  shows "exit_code_for_run run' = 0 \<longleftrightarrow>
    (\<forall>w \<in> set (filter prompted (map snd (rn_workers run))). worker_status w = Some ''done'')"
  by (rule refreshed_exit_code [OF assms])

theorem exit_code_zero_iff_done_witness:
  "\<exists>run'. refresh_run_summary False sample_run = Inr run' \<and> exit_code_for_run run' \<noteq> 0"
proof -
  obtain run' where r: "refresh_run_summary False sample_run = Inr run'" using sample_refresh ..
  with exit_code_zero_iff_done [OF sample_run_wf sample_run_prompted r] sample_run_queued show ?thesis by blast
qed

text \<open>
  A retryable failure (of the API or the provider) is retried exactly when the budget allows
  it; then the scheduled retry carries the next count, and otherwise the worker fails.
\<close>

theorem retry_scheduled_iff_available:
  assumes "retry_available w (JStr category) = Inr available" and "wr_slots w F_retry_count = JInt n"
  shows "\<exists>att. apply_retryable_attempt_failure w category reason prefix ids = Inr att \<and>
    (at_kind att = RETRY_SCHEDULED \<longleftrightarrow> available) \<and>
    at_worker_transition att =
      (if available then retry_scheduled_transition (worker_id_str w) category reason (n + 1)
         (Some (wr_slots w F_timeout_started_at)) ids
       else failed_transition (worker_id_str w) category reason True False
         (Some (wr_slots w F_timeout_started_at)) ids)"
  using assms by (cases available)
    (simp_all add: apply_retryable_attempt_failure_def schedule_worker_retry_def mark_worker_failed_def)

theorem retry_scheduled_iff_available_witness:
  "\<exists>att. apply_retryable_attempt_failure sample_worker ''api'' ''refused'' ''api failure'' [] = Inr att \<and>
     at_kind att \<noteq> RETRY_SCHEDULED"
proof -
  have "retry_available sample_worker (JStr ''api'') = Inr False"
    by (simp add: retry_available_def sample_worker_def reset_fields_def default_value_eq)
  from retry_scheduled_iff_available [OF this, of 0 "''refused''" "''api failure''" "[]"] show ?thesis by auto
qed

text \<open>
  A timed-out attempt is never retried by the policy, whatever the budget: its transition is
  the timeout transition, and the attempt ends as a terminal failure.
\<close>

theorem timeout_is_never_retried:
  assumes "apply_worker_attempt_transition w (AttemptFailed ''timeout'' reason pid) now = Inr att"
  shows "at_kind att = TERMINAL_FAILURE \<and> wt_name (at_worker_transition att) = T_TIMED_OUT"
  using assms mark_worker_timeout_name [of w reason now]
  by (auto simp: apply_timeout_attempt_failure_def res_bind_Inr_iff)

theorem timeout_is_never_retried_witness:
  "\<exists>att. apply_worker_attempt_transition sample_worker (AttemptFailed ''timeout'' ''late'' None) JNull = Inr att \<and>
     at_kind att = TERMINAL_FAILURE"
proof -
  obtain att where "apply_worker_attempt_transition sample_worker (AttemptFailed ''timeout'' ''late'' None) JNull = Inr att"
    using timeout_returns [of sample_worker "''late''" JNull] sample_schedulable
    by (auto simp: schedulable_worker_def)
  with timeout_is_never_retried [OF this] show ?thesis by blast
qed

text \<open>
  The public status and action of a worker are a faithful view of its lifecycle state: every
  state is found again from its dimensions.
\<close>

theorem lifecycle_dimensions_round_trip:
  "\<exists>d. lifecycle_dims l = Some d \<and> worker_lifecycle_state_for_dimensions d = Some l \<and>
     public_worker_state (Some l) = (Some (public_status d), public_action d)"
  by (cases l) (simp_all add: lifecycle_dims_def worker_lifecycle_state_for_dimensions_def lifecycle_tables
      public_status_def public_action_def)



text \<open>
  A worker that times out under the default policy while its budget allows a retry stays
  executable with its retry count unchanged: only the caller's own bookkeeping, not the budget, stops
  the scheduler from selecting it again.
\<close>

theorem timed_out_worker_stays_executable:
  assumes "wf_worker w" and "worker_lifecycle w = Some Active_Wait" and "has_prompt w"
    and "wr_slots w F_timeout_policy = JStr ''timeout''"
    and "retry_available w (JStr ''timeout'') = Inr True"
  shows "\<exists>tr w'. mark_worker_timeout w reason now manual = Inr tr \<and> apply_transition w tr = Inr w' \<and>
    worker_lifecycle w' = Some Timeout_Retry \<and> can_execute w' \<and>
    wr_slots w' F_retry_count = wr_slots w F_retry_count"
  by (rule timed_out_again [OF assms])

theorem timed_out_worker_stays_executable_witness:
  "\<exists>tr w'. mark_worker_timeout sample_retryable ''late'' JNull True = Inr tr \<and>
     apply_transition sample_retryable tr = Inr w' \<and> can_execute w'"
  using timed_out_worker_stays_executable [OF sample_retryable_facts, of "''late''" JNull True] by blast

text \<open>Every cycle the search reports is a closed path of the dependency graph.\<close>

theorem reported_cycles_are_real:
  assumes "c \<in> set (snd (dependency_order_and_cycles workers (worker_dependency_graph workers)))"
  shows "real_cycle (worker_dependency_graph workers) c"
  using assms search_facts(4) [of c workers] by (simp add: search_cycles)

theorem reported_cycles_are_real_witness:
  "real_cycle (worker_dependency_graph cyclic_workers) [''w1'', ''w2'', ''w1'']"
  by (rule reported_cycles_are_real) (simp add: cyclic_order)

section \<open>The store\<close>

text \<open>
  C17. An update reads back: the run that is returned is the run that is loaded next, it is well formed and
  carries the workers the mutator made, and no other file changes.
\<close>

theorem update_reads_back:
  assumes "sound_store s" and "keeps_run n m" and "update_run pf cwd n m allow s = Inr (run', s')"
  shows "sound_store s' \<and> good_run n run' \<and> load_run pf cwd n s' = Inr run' \<and> same_files_but n s s' \<and>
    (\<exists>run run1. load_run pf cwd n s = Inr run \<and> m run = Inr run1 \<and> rn_workers run' = rn_workers run1)"
  by (rule update_run_sound [OF assms(3,1,2)]) blast

theorem update_reads_back_witness:
  "\<exists>s s' run'. load_run no_floats ''/w'' ''r1'' s = Inr (sample_record sample_worker) \<and>
     load_run no_floats ''/w'' ''r1'' s' = Inr run' \<and> rn_workers run' = [(''w1'', sample_aborted)]"
proof -
  have w: "wf_worker sample_worker" "worker_id sample_worker = JStr ''w1''"
    "wf_worker sample_aborted" and a: "worker_id sample_aborted = JStr ''w1''"
    by (simp, rule sample_worker_slots, simp, simp add: sample_aborted_def sample_worker_slots(2) [unfolded worker_id_def] worker_id_def)
  obtain s where s: "sound_store s" "load_run no_floats ''/w'' ''r1'' s = Inr (sample_record sample_worker)"
    by (rule sample_stored [OF w(1,2)])
  let ?m = "\<lambda>r. Inr (sample_record sample_aborted) :: run_record result"
  have k: "keeps_run ''r1'' ?m" by (rule keeps_runI) (use sample_good [OF w(3) a] in simp)
  have same: "same_resources (sample_record sample_worker) (sample_record sample_aborted)"
    by (simp add: same_resources_def sample_record_def)
  obtain run' s' where u: "update_run no_floats ''/w'' ''r1'' ?m False s = Inr (run', s')"
    using update_run_returns [OF s _ k refl same, of False] sample_open by blast
  from update_reads_back [OF s(1) k u] s(2) show ?thesis by (auto simp: sample_record_def)
qed

text \<open>
  C18. An update of a stored run is refused with a conflict exactly when a cleanup of the run is in progress
  and the caller is not the cleanup; otherwise, for a mutator that returns a good run with the same resources,
  it returns.
\<close>

theorem cleanup_fences_updates:
  assumes "sound_store s" and "load_run pf cwd n s = Inr run" and "keeps_run n m" and "m run = Inr run1"
    and "same_resources run run1"
  shows "if cleanup_in_progress run \<and> \<not> allow then update_run pf cwd n m allow s = Inl (fence_error n)
    else \<exists>run' s'. update_run pf cwd n m allow s = Inr (run', s')"
proof (cases "cleanup_in_progress run \<and> \<not> allow")
  case True
  then show ?thesis using assms(2) by (auto simp: load_run_def update_run_def res_bind_Inr_iff)
next
  case False
  then have "\<exists>run' s'. update_run pf cwd n m allow s = Inr (run', s')"
    by (intro update_run_returns [OF assms(1,2) _ assms(3,4,5)]) blast
  then show ?thesis unfolding if_not_P [OF False] .
qed

theorem cleanup_fences_updates_witness:
  "\<exists>s. load_run no_floats ''/w'' ''r1'' s = Inr (sample_record sample_worker) \<and>
     (\<exists>run' s'. update_run no_floats ''/w'' ''r1'' Inr False s = Inr (run', s'))"
proof -
  have w: "wf_worker sample_worker" "worker_id sample_worker = JStr ''w1''" by (simp, rule sample_worker_slots)
  obtain s where s: "sound_store s" "load_run no_floats ''/w'' ''r1'' s = Inr (sample_record sample_worker)"
    by (rule sample_stored [OF w])
  have "keeps_run ''r1'' Inr" by (rule keeps_runI) simp
  from cleanup_fences_updates [OF s this refl, of False] s show ?thesis
    by (auto simp: sample_open same_resources_def)
qed

text \<open>
  C19. Creating a run never overwrites: under a free name the new run, without workers, is what is loaded
  next and no other file changes; under a name that is taken the call raises that the run exists.
\<close>

theorem create_never_overwrites:
  assumes "sound_store s" and "valid_run_name n" and "py_truthy url"
  shows "if map_of (rs_files s) n = None
    then \<exists>run s'. create_run pf cwd n directory url t s = Inr (run, s') \<and> rn_workers run = [] \<and>
      load_run pf cwd n s' = Inr run \<and> same_files_but n s s' \<and> sound_store s'
    else create_run pf cwd n directory url t s =
      Inl (store_error (''run '' @ quoted n @ '' already exists in '' @ rs_root s) ''exists'')"
proof (cases "map_of (rs_files s) n = None")
  case True
  obtain run s' where c: "create_run pf cwd n directory url t s = Inr (run, s')"
    using create_run_returns [OF assms(2) True assms(3)] by blast
  from create_run_sound [OF c assms(1)] c show ?thesis by (auto simp: True)
next
  case False
  show ?thesis unfolding if_not_P [OF False] by (rule existing_run [OF assms(2,3) False])
qed

theorem create_never_overwrites_witness:
  "\<exists>run s'. create_run no_floats ''/w'' ''r1'' ''/w'' (JStr ''http://h'') (JStr ''t0'') empty_store = Inr (run, s')"
  using create_never_overwrites [OF sound_empty sample_name(1,3), of no_floats "''/w''" "''/w''" "JStr ''t0''"]
  by (auto simp: empty_free)

text \<open>
  A run is deleted only while it is the run the caller expects: then its file is removed and no other,
  and the store stays sound; a run that has changed in the meantime is kept and the deletion is refused.
\<close>

theorem delete_only_unchanged:
  assumes "sound_store s" and "load_run pf cwd n s = Inr run" and "runs_equal run expected = Inr same"
  shows "if same
    then \<exists>s'. delete_run pf cwd n (Some expected) s = Inr s' \<and> map_of (rs_files s') n = None \<and>
      same_files_but n s s' \<and> sound_store s'
    else delete_run pf cwd n (Some expected) s = Inl stale_delete_error"
proof (cases same)
  case True
  have "map_of (rs_files s) n \<noteq> None" "valid_run_name n"
    using assms(2) by (auto simp: load_run_def read_run_data_Inr res_bind_Inr_iff)
  then obtain s' where d: "delete_run pf cwd n (Some expected) s = Inr s'"
    using assms(2,3) True by (auto simp: delete_run_def run_path_def)
  from delete_run_sound [OF d assms(1)] d True show ?thesis by simp
next
  case False
  have "valid_run_name n" using assms(2) by (auto simp: load_run_def read_run_data_Inr res_bind_Inr_iff)
  then show ?thesis using assms(2,3) False by (simp add: delete_run_def run_path_def)
qed

theorem delete_only_unchanged_witness:
  "\<exists>s. load_run no_floats ''/w'' ''r1'' s = Inr (sample_record sample_worker) \<and>
     delete_run no_floats ''/w'' ''r1'' (Some (sample_record sample_worker\<lparr>rn_workers := []\<rparr>)) s = Inl stale_delete_error"
proof -
  have w: "wf_worker sample_worker" "worker_id sample_worker = JStr ''w1''" by (simp, rule sample_worker_slots)
  obtain s where s: "sound_store s" "load_run no_floats ''/w'' ''r1'' s = Inr (sample_record sample_worker)"
    by (rule sample_stored [OF w])
  have "runs_equal (sample_record sample_worker) (sample_record sample_worker\<lparr>rn_workers := []\<rparr>) = Inr False"
    by (simp add: runs_equal_def workers_eq_def sample_record_def)
  from delete_only_unchanged [OF s this] s(2) show ?thesis by auto
qed



text \<open>
  C21. A worker survives storage: what is written for a worker over its stored snapshot reads back as the same
  worker, and the fields that this version does not know are carried over.
\<close>

theorem stored_worker_round_trip:
  assumes "wf_worker w" and "worker_id w = JStr i" and "i \<noteq> []" and "coerced_schema_version version = Inr n" and "wf_dict p"
  shows "case normalize_worker_record_for_storage pf w i version (Some (JObj p)) of
      Inr d \<Rightarrow> hydrate_worker_record pf (JObj d) i version = Inr w \<and>
        (\<forall>k. field_of_name k = None \<longrightarrow> k \<notin> set PUBLIC_WORKER_STATE_FIELD_NAMES \<longrightarrow> map_of d k = map_of p k)
    | Inl e \<Rightarrow> \<exists>e'. migrated_persisted_worker_snapshot pf (JObj p) i version = Inl e'"
  using stored_worker [OF assms] storage_returns [OF assms(1,2), of pf version "Some (JObj p)"]
  by (auto simp: migratable_def split: sum.split) (metis sumE)

theorem stored_worker_round_trip_witness:
  "case normalize_worker_record_for_storage no_floats sample_worker ''w1'' SCHEMA_VERSION (Some (JObj [(''note'', JInt 1)])) of
      Inr d \<Rightarrow> hydrate_worker_record no_floats (JObj d) ''w1'' SCHEMA_VERSION = Inr sample_worker
    | Inl e \<Rightarrow> \<exists>e'. migrated_persisted_worker_snapshot no_floats (JObj [(''note'', JInt 1)]) ''w1'' SCHEMA_VERSION = Inl e'"
proof -
  obtain n where n: "coerced_schema_version SCHEMA_VERSION = Inr n" using coerced_version_SCHEMA by blast
  have "wf_dict [(''note'', JInt 1)]" by (simp add: wf_dict_def)
  from stored_worker_round_trip [OF wf_sample_worker sample_worker_slots(2) _ n this, of no_floats]
  show ?thesis by (auto split: sum.splits)
qed

section \<open>The outbox\<close>





text \<open>
  Finalizing an entry removes it from the stored run, and no other entry.
\<close>

theorem finalize_removes_entry:
  assumes "sound_store s" and "good_run n run"
  shows "case persisted_finalize (\<lambda>name m. update_run pf cwd name m allow) now WORKER_SESSION_JOURNAL_FIELD j None run s of
      (Inr run', s') \<Rightarrow> load_run pf cwd n s' = Inr run' \<and> \<not> has_entry WORKER_SESSION_JOURNAL_FIELD j run' \<and>
        (\<exists>r. load_run pf cwd n s = Inr r \<and> others WORKER_SESSION_JOURNAL_FIELD j run' = others WORKER_SESSION_JOURNAL_FIELD j r)
    | (Inl e, s') \<Rightarrow> True"
  using session_outbox.finalize_removes [OF _ assms, of pf cwd allow now j] by (auto split: prod.split sum.split)

theorem finalize_removes_entry_witness:
  "\<exists>s. case persisted_finalize (\<lambda>name m. update_run no_floats ''/w'' name m False) store_clock
      WORKER_SESSION_JOURNAL_FIELD ''j1'' None (sample_record sample_worker) s of
      (Inr run', s') \<Rightarrow> \<not> has_entry WORKER_SESSION_JOURNAL_FIELD ''j1'' run'
    | (Inl e, s') \<Rightarrow> True"
proof -
  have w: "wf_worker sample_worker" "worker_id sample_worker = JStr ''w1''" by (simp, rule sample_worker_slots)
  obtain s where s: "sound_store s" by (rule sample_stored [OF w])
  from finalize_removes_entry [OF s sample_good [OF w], where pf = no_floats and cwd = "''/w''" and allow = False and
      now = store_clock and j = "''j1''"]
  show ?thesis by (intro exI [of _ s]) (auto split: prod.splits sum.splits)
qed

section \<open>Orchestration over the store\<close>

text \<open>
  C24. A start of a run under the fail-fast policy ends: whatever the server, the probe and the prompts answer,
  the serial loop reaches an outcome.
\<close>

theorem fail_fast_start_returns:
  assumes "sound_store s" and "sq_worker_id q \<noteq> []"
    and "normalize_execution_policy (sq_execution_policy q) = Inr EXECUTION_POLICY_FAIL_FAST"
  shows "\<exists>outcome s'. start_run (load_run pf cwd) (\<lambda>name m. update_run pf cwd name m allow) now of_iso (remote_probe finds)
      (execute_stored_worker (load_run pf cwd) (\<lambda>name m. update_run pf cwd name m allow) now
        (remote_sessions answers) new_id (remote_prompts replies) prepare_prompt_id) sessions q s = Some (outcome, s')"
  using remote_service.start_run_returns [OF assms] by fast

theorem fail_fast_start_returns_witness:
  "\<exists>s. load_run no_floats ''/w'' ''r1'' s = Inr (sample_record patient_worker) \<and>
     (\<exists>outcome s'. start_run (load_run no_floats ''/w'') (\<lambda>name m. update_run no_floats ''/w'' name m False)
      store_clock (\<lambda>_. None) (remote_probe all_found)
      (execute_stored_worker (load_run no_floats ''/w'') (\<lambda>name m. update_run no_floats ''/w'' name m False) store_clock
        (remote_sessions unreachable) (\<lambda>_. ''j1'') (remote_prompts slow_prompts) (\<lambda>_. None))
      (\<lambda>_. deleting_client) sample_request s = Some (outcome, s'))"
proof -
  obtain s where s: "sound_store s" "load_run no_floats ''/w'' ''r1'' s = Inr (sample_record patient_worker)"
    by (rule sample_stored [OF patient_worker_facts(1,2)])
  have "sq_worker_id sample_request \<noteq> []" by (simp add: sample_request_def)
  from s(2) fail_fast_start_returns [OF s(1) this sample_policy] show ?thesis by blast
qed

text \<open>
  C25. Under the continue policy the loop need not end: a run of one worker with a session and a budget for
  timeouts, whose prompts always time out, is executed again and again, because a timeout uses up no retry.
\<close>

theorem continue_never_ends:
  assumes "sound_store s" and "load_run pf cwd n s = Inr run" and "\<not> cleanup_in_progress run"
    and "rn_workers run = [(i, w)]" and "tireless w" and "fst (machine_state w) \<in> schedulable"
    and "always_times_out replies"
  shows "execute_serial_workers (\<lambda>name m. update_run pf cwd name m allow) now
      (execute_stored_worker (load_run pf cwd) (\<lambda>name m. update_run pf cwd name m allow) now create new_id
        (remote_prompts replies) prep) client capabilities EXECUTION_POLICY_CONTINUE first_error (Some i) run (s, None) = None"
proof (rule live.continue_diverges [OF assms(7)])
  have "wr_slots w F_dependencies = JList []" using assms(5) by (simp add: tireless_def)
  then show "live.trapped pf cwd n i run (s, None)"
    unfolding live.trapped_def live.alone_def using assms(1-6) by auto
qed

theorem continue_never_ends_witness:
  "\<exists>s. load_run no_floats ''/w'' ''r1'' s = Inr (sample_record patient_worker) \<and>
     execute_serial_workers (\<lambda>name m. update_run no_floats ''/w'' name m False) store_clock
      (execute_stored_worker (load_run no_floats ''/w'') (\<lambda>name m. update_run no_floats ''/w'' name m False) store_clock
        (remote_sessions unreachable) (\<lambda>_. ''j1'') (remote_prompts slow_prompts) (\<lambda>_. None))
      () () EXECUTION_POLICY_CONTINUE None (Some ''w1'') (sample_record patient_worker) (s, None) = None"
proof -
  obtain s where s: "sound_store s" "load_run no_floats ''/w'' ''r1'' s = Inr (sample_record patient_worker)"
    by (rule sample_stored [OF patient_worker_facts(1,2)])
  have "rn_workers (sample_record patient_worker) = [(''w1'', patient_worker)]" by (simp add: sample_record_def)
  from s(2) continue_never_ends [OF s sample_open this patient_worker_facts(3,5) slow_prompts_time_out] show ?thesis by blast
qed

text \<open>
  C26. An execution of a worker over the store changes that worker only: it leaves it in no waiting state, the
  returned run is what the store holds, and an execution without an error uses up an attempt.
\<close>

theorem execution_touches_one_worker:
  assumes "sound_store s" and "load_run pf cwd n s = Inr run" and "map_of (rn_workers run) i = Some w"
    and "execute_stored_worker (load_run pf cwd) (\<lambda>name m. update_run pf cwd name m allow) now (remote_sessions answers)
      new_id (remote_prompts replies) prep client run w prompt capabilities cleanup s = (Inr out, s')"
  shows "sound_store s' \<and> load_run pf cwd n s' = Inr (wo_run out) \<and>
    executed i (rn_workers run) (rn_workers (wo_run out)) (wo_error out)"
  by (intro conjI remote_execution.execution_executed [OF assms])

theorem execution_touches_one_worker_witness:
  "\<exists>s out s'. load_run no_floats ''/w'' ''r1'' s = Inr (sample_record patient_worker) \<and>
     execute_stored_worker (load_run no_floats ''/w'') (\<lambda>name m. update_run no_floats ''/w'' name m False) store_clock
      (remote_sessions unreachable) (\<lambda>_. ''j1'') (remote_prompts slow_prompts) (\<lambda>_. None) ()
      (sample_record patient_worker) patient_worker None () False s = (Inr out, s') \<and>
     executed ''w1'' [(''w1'', patient_worker)] (rn_workers (wo_run out)) (wo_error out)"
proof -
  let ?run = "sample_record patient_worker"
  obtain s where s: "sound_store s" "load_run no_floats ''/w'' ''r1'' s = Inr ?run"
    by (rule sample_stored [OF patient_worker_facts(1,2)])
  have ws: "rn_workers ?run = [(''w1'', patient_worker)]" by (simp add: sample_record_def)
  have "live.alone no_floats ''/w'' ''r1'' ''w1'' patient_worker ?run s"
    unfolding live.alone_def using s sample_open ws patient_worker_facts(3) by (simp add: tireless_def)
  then obtain out w' s' where e: "execute_stored_worker (load_run no_floats ''/w'')
      (\<lambda>name m. update_run no_floats ''/w'' name m False) store_clock
      (remote_sessions unreachable) (\<lambda>_. ''j1'') (remote_prompts slow_prompts) (\<lambda>_. None) ()
      ?run patient_worker None () False s = (Inr out, s')"
    by (rule live.timed_out_execution [OF _ patient_worker_facts(3,5) slow_prompts_time_out])
  have "map_of (rn_workers ?run) ''w1'' = Some patient_worker" by (simp add: ws)
  from execution_touches_one_worker [OF s this e] e s(2) show ?thesis unfolding ws by blast
qed

text \<open>
  C27. When an API error ends an execution whose copy of the run is stale, the marking of the pending workers
  can itself be refused: if a worker that the copy holds as executable is already final in the store, the
  result is a raised WorkerTransitionError instead of the API failure, and nothing is written.
\<close>

theorem stale_copy_hides_api_failure:
  assumes "sound_store s" and "load_run pf cwd n s = Inr r" and "\<not> cleanup_in_progress r"
    and "good_run n run" and "\<forall>(j, u) \<in> set (rn_workers run). retry_configured u"
    and "map_of (rn_workers run) i = Some w" and "can_execute w"
    and "map_of (rn_workers r) i = Some v" and "worker_lifecycle v = Some l" and "l \<in> final_states"
    and "api_error e"
  shows "\<exists>msg. api_failure_result (\<lambda>name m. update_run pf cwd name m False) now run client e (s, created) =
    (Inl (WorkerTransitionError msg), (s, created))"
  by (rule stale_api_failure [OF assms])

theorem stale_copy_hides_api_failure_witness:
  "\<exists>s msg. load_run no_floats ''/w'' ''r1'' s = Inr (sample_record (worker_in ''w1'' Done_Collect [])) \<and>
     api_failure_result (\<lambda>name m. update_run no_floats ''/w'' name m False) store_clock
       (sample_record (worker_in ''w1'' Queued [])) (Some ()) (RemoteError ''OpenCodeApiError'' ''refused'') (s, None) =
     (Inl (WorkerTransitionError msg), (s, None))"
proof -
  let ?stored = "sample_record (worker_in ''w1'' Done_Collect [])" and ?stale = "sample_record (worker_in ''w1'' Queued [])"
  have wf: "wf_worker (worker_in ''w1'' l [])" "worker_id (worker_in ''w1'' l []) = JStr ''w1''" for l
    by (simp_all add: worker_id_def)
  obtain s where s: "sound_store s" "load_run no_floats ''/w'' ''r1'' s = Inr ?stored" by (rule sample_stored [OF wf])
  have ws: "rn_workers (sample_record u) = [(''w1'', u)]" for u by (simp add: sample_record_def)
  have can: "can_execute (worker_in ''w1'' Queued [])" by (simp add: can_execute_def has_prompt_def worker_prompt_def lifecycle_metadata_def lifecycle_tables)
  from stale_copy_hides_api_failure [OF s sample_open sample_good [OF wf], of Queued "''w1''" "worker_in ''w1'' Queued []"
      "worker_in ''w1'' Done_Collect []" Done_Collect "RemoteError ''OpenCodeApiError'' ''refused''" store_clock "Some ()" None]
    s(2) can worker_in_configured [of "''w1''" Queued "[]"]
  show ?thesis by (simp add: ws final_states_def) blast
qed

text \<open>
  C28. The cleanup of created sessions forgets none: each one is confirmed gone by the server or stays in the
  worker's pending list, and the worker counts as cleaned only when no session is pending.
\<close>

theorem cleanup_forgets_no_session:
  assumes "distinct ids" and "[] \<notin> set ids"
  shows "case cleanup_created_worker_sessions client w (map JStr ids) s of
      (Inr (w', failure), s') \<Rightarrow>
        set (cleanup_pending_ids w') \<subseteq> set (map JStr ids) \<and>
        (\<forall>i \<in> set ids. JStr i \<in> set (cleanup_pending_ids w') \<or> confirmed_gone client (JStr i)) \<and>
        (failure = None \<longleftrightarrow> cleanup_pending_ids w' = []) \<and>
        dict_get (cleanup_dict w') ''deleted'' = JBool (ids \<noteq> [] \<and> cleanup_pending_ids w' = [])
    | (Inl e, s') \<Rightarrow> True"
proof (cases "cleanup_created_worker_sessions client w (map JStr ids) s")
  case (Pair r s')
  show ?thesis
  proof (cases r)
    case (Inr x)
    obtain w' failure where x: "x = (w', failure)" by (cases x)
    note f = created_sessions_cleanup [OF Pair [unfolded Inr x] assms]
    show ?thesis unfolding Pair Inr x prod.case sum.case using f by blast
  qed (simp add: Pair)
qed

theorem cleanup_forgets_no_session_witness:
  "\<exists>w'. cleanup_created_worker_sessions deleting_client sample_worker [JStr ''s1'', JStr ''s2''] empty_store =
      (Inr (w', None), empty_store) \<and> cleanup_pending_ids w' = [] \<and> dict_get (cleanup_dict w') ''deleted'' = JBool True"
proof -
  obtain w' where c: "cleanup_created_worker_sessions deleting_client sample_worker [JStr ''s1'', JStr ''s2''] empty_store =
      (Inr (w', None), empty_store)"
    by (simp add: cleanup_created_worker_sessions_def cleanup_disposable_sessions_def delete_and_verify_def
        verify_deleted_def deleting_client_def act_bind_def act_return_def add_cleanup_def)
  from cleanup_forgets_no_session [of "[''s1'', ''s2'']" deleting_client sample_worker empty_store] c show ?thesis by simp
qed

section \<open>The server's payloads\<close>

text \<open>
  A session record of either route version is normalised once: the result is marked as known, has every
  canonical field, keeps the values it came with, and normalising it again changes nothing.
\<close>

theorem session_normalised_once:
  assumes "a \<in> {API_SESSION_ADAPTER, LEGACY_SESSION_ADAPTER}" and "\<not> is_dict (dict_get d ''data'')"
    and "has_known_shape (sa_contract a) (read_fields (sa_contract a) (JObj d))"
  shows "\<exists>e. normalize_session_record a (JObj d) = JObj e \<and> normalize_session_record a (JObj e) = JObj e \<and>
    dict_get e ''schema_status'' = JStr ''known'' \<and> (\<forall>f \<in> set SESSION_CANONICAL_FIELDS. dict_has e f) \<and>
    (\<forall>k. k \<noteq> ''schema_status'' \<longrightarrow> dict_get d k \<noteq> JNull \<longrightarrow> dict_get e k = dict_get d k)"
  by (rule session_normalised [OF assms]) blast

theorem session_normalised_once_witness:
  "\<exists>e. normalize_session_record LEGACY_SESSION_ADAPTER (JObj [(''sessionID'', JStr ''s1''), (''cwd'', JStr ''/w'')]) = JObj e \<and>
     normalize_session_record LEGACY_SESSION_ADAPTER (JObj e) = JObj e \<and> dict_get e ''sessionID'' = JStr ''s1''"
proof -
  let ?d = "[(''sessionID'', JStr ''s1''), (''cwd'', JStr ''/w'')]"
  have "has_known_shape (sa_contract LEGACY_SESSION_ADAPTER) (read_fields (sa_contract LEGACY_SESSION_ADAPTER) (JObj ?d))"
    by code_simp
  moreover have "\<not> is_dict (dict_get ?d ''data'')" "dict_get ?d ''sessionID'' = JStr ''s1''" by (simp_all add: dict_get_Cons)
  ultimately show ?thesis using session_normalised_once [of LEGACY_SESSION_ADAPTER ?d] by auto
qed

text \<open>
  C29. An event is ignored exactly when it names another session than the target. Otherwise its record is unknown and
  keeps the event as it came, or it has one of the eight kinds and names no session but the target.
\<close>

theorem event_record_kinds:
  fixes event t route_path
  defines "r \<equiv> normalize_event_record event (Some t) route_path"
    and "other_session \<equiv> (\<exists>d u. decode_event (event_codec_for_route route_path) event = Some d \<and> de_session_id d = Some u \<and> u \<noteq> t)"
  shows "if other_session then dict_get r ''kind'' = JStr ''ignored''
    else dict_get r ''kind'' = JStr ''unknown'' \<and> dict_get r ''raw'' = event \<or>
      dict_get r ''kind'' \<in> JStr ` set EVENT_KINDS \<and> dict_get r ''session_id'' \<in> {JNull, JStr t}"
proof -
  note cases = event_record_cases [where event = event and target = "Some t" and route_path = route_path]
  show ?thesis
  proof (cases other_session)
    case True
    then show ?thesis using cases(1) by (simp add: r_def other_session_def)
  next
    case False
    then have own: "\<not> (\<exists>d u ta. decode_event (event_codec_for_route route_path) event = Some d \<and> de_session_id d = Some u \<and>
        Some t = Some ta \<and> u \<noteq> ta)"
      by (simp add: other_session_def)
    show ?thesis using cases(2) cases(3) [OF own] cases(4) [OF own _ refl] False unfolding r_def by fastforce
  qed
qed

text \<open>
  What a server offers survives the round trip through the capabilities that the program stores: a profile
  read from the server's description is found again from its capabilities.
\<close>

theorem capabilities_round_trip:
  assumes "from_openapi_doc doc health = Inr p" and "pr_health p \<noteq> []" and "pr_version p \<noteq> []"
  shows "\<exists>c. to_capabilities p = Inr c \<and> capabilities_from_openapi_doc doc health = Inr c \<and> from_capabilities (JObj c) = Inr p"
  by (rule profile_round_trip [OF assms]) (use assms(1) in \<open>auto simp: capabilities_from_openapi_doc_def\<close>)

theorem capabilities_round_trip_witness:
  "\<exists>p c. from_openapi_doc offered_doc [(''healthy'', JBool True), (''version'', JStr ''1'')] = Inr p \<and>
     to_capabilities p = Inr c \<and> from_capabilities (JObj c) = Inr p"
  using offered_profile capabilities_round_trip by blast

section \<open>Commands on a running worker\<close>

text \<open>
  C30. An abort of a worker that has a session and is not final returns when the server answers: the worker is
  aborted for good if the answer accepts, and keeps its state if not; the other workers are as before, the
  returned run is what the store holds, and the outbox entry is gone.
\<close>

theorem abort_reaches_the_store:
  assumes "sound_store s" and "load_run pf cwd n s = Inr run" and "\<not> cleanup_in_progress run"
    and "run_worker run i = Some w" and "py_truthy (wr_slots w F_session_id)"
    and "worker_lifecycle w = Some l" and "l \<notin> final_states" and "hashable_dependencies (rn_workers run)"
    and "run_server_url run = Inr url" and "new_mutation s \<noteq> []"
    and "answers (clients url) (wr_slots w F_session_id) = ApiResponse data body"
  shows "\<exists>r s' w'. abort_worker (load_run pf cwd) (\<lambda>name m. update_run pf cwd name m allow) now (remote_client clients)
      (remote_abort answers) new_mutation n i s = (Inr r, s') \<and>
    load_run pf cwd n s' = Inr (br_run r) \<and> br_worker r = Some w' \<and>
    rn_workers (br_run r) = dict_set i w' (rn_workers run) \<and>
    (if abort_accepted (abort_data data) then accepted_abort w' else worker_lifecycle w' = Some l) \<and>
    \<not> has_entry REMOTE_MUTATION_JOURNAL_FIELD (new_mutation s) (br_run r)"
  by (rule abort_answered [where new_mutation = new_mutation and clients = clients and answers = answers, OF assms]) blast

theorem abort_reaches_the_store_witness:
  "\<exists>s r s' w'. load_run no_floats ''/w'' ''r1'' s = Inr (sample_record session_worker) \<and>
     abort_worker (load_run no_floats ''/w'') (\<lambda>name m. update_run no_floats ''/w'' name m False)
      store_clock (remote_client (\<lambda>_. ())) (remote_abort abort_accepting) (\<lambda>_. ''j1'') ''r1'' ''w1'' s = (Inr r, s') \<and>
     br_worker r = Some w' \<and> accepted_abort w'"
proof -
  obtain s where s: "sound_store s" "load_run no_floats ''/w'' ''r1'' s = Inr (sample_record session_worker)"
    using session_stored by (auto simp: session_store_def)
  have accepting: "abort_accepting () sid = ApiResponse (JBool True) ''true''" for sid by (simp add: abort_accepting_def)
  have accepted: "abort_accepted (abort_data (JBool True))" by code_simp
  from abort_reaches_the_store [where new_mutation = "\<lambda>_. ''j1''" and clients = "\<lambda>_. ()" and now = store_clock and allow = False
      and answers = abort_accepting, OF s session_run(4,1) session_worker_facts(4,3) _ session_run(3,2) _ accepting] accepted s(2)
  show ?thesis by (simp add: final_states_def) blast
qed

text \<open>
  C31. When the server refuses an abort, the command raises: the error of the API, or \<open>session not found\<close> for a
  status of 404. The workers are as before and the intent stays in the outbox, where the recovery finds it.
\<close>

theorem refused_abort_is_recoverable:
  assumes "sound_store s" and "load_run pf cwd n s = Inr run" and "\<not> cleanup_in_progress run"
    and "run_worker run i = Some w" and "py_truthy (wr_slots w F_session_id)"
    and "run_server_url run = Inr url" and "new_mutation s \<noteq> []"
    and "answers (clients url) (wr_slots w F_session_id) = ApiError e"
  shows "\<exists>r' s' es j. abort_worker (load_run pf cwd) (\<lambda>name m. update_run pf cwd name m allow) now (remote_client clients)
      (remote_abort answers) new_mutation n i s =
      (Inl (if is_session_not_found_error e then session_not_found (wr_slots w F_session_id)
            else RemoteError ''OpenCodeApiError'' (ae_message e)), s') \<and>
    load_run pf cwd n s' = Inr r' \<and> rn_workers r' = rn_workers run \<and>
    recoverable_remote_mutation_entries r' None = Inr es \<and> j \<in> set es \<and> entry_has_id (new_mutation s) j"
  by (rule abort_refused_outcome [where new_mutation = new_mutation and clients = clients and answers = answers, OF assms])
    (use uncertain_pending in \<open>fastforce simp: recoverable_remote_mutation_entries_def\<close>)

theorem refused_abort_is_recoverable_witness:
  "\<exists>s r' s' es j. load_run no_floats ''/w'' ''r1'' s = Inr (sample_record session_worker) \<and>
     abort_worker (load_run no_floats ''/w'') (\<lambda>name m. update_run no_floats ''/w'' name m False)
      store_clock (remote_client (\<lambda>_. ())) (remote_abort session_missing) (\<lambda>_. ''j1'') ''r1'' ''w1'' s =
       (Inl (session_not_found (JStr ''s1'')), s') \<and>
     load_run no_floats ''/w'' ''r1'' s' = Inr r' \<and>
     recoverable_remote_mutation_entries r' None = Inr es \<and> j \<in> set es \<and> entry_has_id ''j1'' j"
proof -
  obtain s where s: "sound_store s" "load_run no_floats ''/w'' ''r1'' s = Inr (sample_record session_worker)"
    using session_stored by (auto simp: session_store_def)
  from refused_abort_is_recoverable [where new_mutation = "\<lambda>_. ''j1''" and clients = "\<lambda>_. ()" and now = store_clock and allow = False
      and answers = session_missing, OF s session_run(4,1) session_worker_facts(4) session_run(2) _ session_missing_def] session_missing_found s(2)
  show ?thesis by (simp add: session_worker_facts(5)) blast
qed

text \<open>
  C32. A prompt for a running worker, which the server admits, is remembered by the worker in the store under the
  message id of the admission; the other workers are as before and the outbox entry is gone.
\<close>

theorem steer_reaches_the_store:
  assumes "sound_store s" and "load_run pf cwd n s = Inr run" and "\<not> cleanup_in_progress run"
    and "run_worker run i = Some w" and "py_truthy (wr_slots w F_session_id)" and "run_server_url run = Inr url"
    and "new_mutation s \<noteq> []" and "from_capabilities (JObj (offered (clients url))) = Inr profile"
    and "admission_from answers (clients url) (offered (clients url)) (wr_slots w F_session_id) txt delivery
      (or_text message_id (new_message s)) = Inr a"
    and "map_of (ad_record a) ''message_id'' = Some (JStr m)" and "m \<noteq> []"
  shows "\<exists>r s' w'. steer_worker (load_run pf cwd) (\<lambda>name m. update_run pf cwd name m allow) now (remote_client clients)
      (remote_capabilities offered) (remote_prompt answers) new_message new_mutation n i txt delivery message_id s = (Inr r, s') \<and>
    load_run pf cwd n s' = Inr (st_run r) \<and> st_worker r = Some w' \<and> st_admission r = ad_record a \<and>
    rn_workers (st_run r) = dict_set i w' (rn_workers run) \<and> JStr m \<in> set (list_slot w' F_prompt_ids) \<and>
    \<not> has_entry REMOTE_MUTATION_JOURNAL_FIELD (new_mutation s) (st_run r)"
  by (rule steer_answered [where new_mutation = new_mutation and new_message = new_message and offered = offered and clients = clients and answers = answers, OF assms]) blast

theorem steer_reaches_the_store_witness:
  "\<exists>s r s' w'. load_run no_floats ''/w'' ''r1'' s = Inr (sample_record session_worker) \<and>
     steer_worker (load_run no_floats ''/w'') (\<lambda>name m. update_run no_floats ''/w'' name m False) store_clock
      (remote_client (\<lambda>_. ())) (remote_capabilities prompt_capabilities) (remote_prompt prompt_admitting)
      (\<lambda>_. ''m1'') (\<lambda>_. ''j1'') ''r1'' ''w1'' ''go on'' ''queue'' None s = (Inr r, s') \<and>
     st_worker r = Some w' \<and> JStr ''p1'' \<in> set (list_slot w' F_prompt_ids)"
proof -
  obtain s where s: "sound_store s" "load_run no_floats ''/w'' ''r1'' s = Inr (sample_record session_worker)"
    using session_stored by (auto simp: session_store_def)
  obtain p where p: "from_capabilities (JObj (prompt_capabilities ())) = Inr p" using prompt_profile by blast
  obtain a where a: "admission_from prompt_admitting () (prompt_capabilities ()) (wr_slots session_worker F_session_id)
      ''go on'' ''queue'' (or_text None ''m1'') = Inr a" "map_of (ad_record a) ''message_id'' = Some (JStr ''p1'')"
    using prompt_admitted by (auto simp: session_worker_facts(5) or_text_def)
  from steer_reaches_the_store [where new_mutation = "\<lambda>_. ''j1''" and new_message = "\<lambda>_. ''m1''" and clients = "\<lambda>_. ()"
      and offered = prompt_capabilities and answers = prompt_admitting and now = store_clock and allow = False,
      OF s session_run(4,1) session_worker_facts(4) session_run(2) _ p a] s(2)
  show ?thesis by simp blast
qed

text \<open>
  C33. A status that is set by hand is \<open>active\<close> or \<open>blocked\<close> and comes without a lifecycle state: the stored worker
  then waits or is blocked by its dependencies, unless its abort was accepted before; no other worker changes.
\<close>

theorem manual_status_moves_worker:
  assumes "sound_store s" and "i \<noteq> []" and "dict_get given ''status'' \<noteq> JNull"
    and "command_upsert_worker pf cwd n i given now s = Inr (run', s')"
  shows "dict_get given ''lifecycle_state'' = JNull \<and> load_run pf cwd n s' = Inr run' \<and>
    short_status (dict_get given ''status'') \<in> {Some ''active'', Some ''blocked''} \<and>
    (\<exists>w. run_worker run' i = Some w \<and> (accepted_abort w \<or> worker_lifecycle w =
      Some (if short_status (dict_get given ''status'') = Some ''active'' then Active_Wait else Blocked_Dependency))) \<and>
    (\<exists>run. load_run pf cwd n s = Inr run \<and> (\<forall>k. k \<noteq> i \<longrightarrow> run_worker run' k = run_worker run k))"
  by (intro conjI manual_status_stored [OF assms])

theorem manual_status_moves_worker_witness:
  "\<exists>s run' s' w. load_run no_floats ''/w'' ''r1'' s = Inr (sample_record session_worker) \<and>
     command_upsert_worker no_floats ''/w'' ''r1'' ''w1'' [(''status'', JStr ''active'')] (JStr ''t1'') s = Inr (run', s') \<and>
     run_worker run' ''w1'' = Some w \<and> (accepted_abort w \<or> worker_lifecycle w = Some Active_Wait)"
proof -
  obtain s where s: "session_store s" by (rule session_stored)
  obtain run' s' where u: "command_upsert_worker no_floats ''/w'' ''r1'' ''w1'' [(''status'', JStr ''active'')] (JStr ''t1'') s =
      Inr (run', s')" by (rule activated_by_hand [OF s])
  have "short_status (JStr ''active'') = Some ''active''" by code_simp
  with manual_status_moves_worker [OF _ _ _ u] u s show ?thesis by (simp add: session_store_def dict_get_Cons) blast
qed
section \<open>Resources of a run\<close>

text \<open>C37. A worktree that is registered for a run verifies as owned, and the verification changes nothing, as long as
the host is as it was: the recorded paths, the device and inode of the linked git directory and the branch are the
ones the verification finds. Hypotheses: git answers without changing the host, \<open>rev-parse\<close> prints an answer when it
succeeds, \<open>realpath\<close> yields a normal path, and the record satisfies the schema of the manifest.\<close>

theorem registered_worktree_verifies:
  assumes "worktree_record host v owner h = (Inr r, h')" and "record_schema_error ''worktrees'' r = None"
    and "still_host host h" and "\<And>path. safe_owned_path v ''worktree'' = Inr path \<Longrightarrow> ho_is_dir host path h"
  shows "h' = h \<and> verify_owned_worktree host r h = (Inr None, h)"
  by (rule worktree_registration [OF assms])

lemma registered_worktree_verifies_witness:
  "\<exists>r. worktree_record repo_host (JStr ''/w/tree'') (JStr ''w1'') () = (Inr r, ()) \<and>
     verify_owned_worktree repo_host r () = (Inr None, ())"
  using repo_worktree registered_worktree_verifies [OF _ _ repo_still repo_paths] by blast

text \<open>C38. A log that is registered for a run verifies as owned as long as the host is as it was.\<close>

theorem registered_log_verifies:
  assumes "log_record host v owner h = (Inr r, h')" and "record_schema_error ''logs'' r = None"
  shows "h' = h \<and> verify_owned_log host r h = None"
  by (rule log_registration [OF assms])

lemma registered_log_verifies_witness:
  "\<exists>r. log_record repo_host (JStr ''/w/logs/a.log'') (JStr ''w1'') () = (Inr r, ()) \<and> verify_owned_log repo_host r () = None"
proof -
  obtain r where r: "log_record repo_host (JStr ''/w/logs/a.log'') (JStr ''w1'') () = (Inr r, ())" "record_schema_error ''logs'' r = None"
    using repo_log by blast
  show ?thesis using r(1) registered_log_verifies [OF r] by blast
qed

section \<open>The cleanup of a run\<close>

text \<open>C34. What a cleanup may do to the host. Either it only asks git questions and leaves the store as it was; or it is
applied, was planned from the stored run, has no active workers or is forced, and every change of the host is a step
of its plan: it removes an unblocked worktree in the state right after its ownership was verified, an unblocked branch
at the tip that the preflight saw, or an unblocked log in the state in which its identity was verified. This holds
also when the cleanup raises. \<open>Q\<close> is what the session server and the project cleaner do to the host.\<close>

theorem cleanup_takes_planned_steps:
  assumes "serves Q connect cleaner" and "run_cleanup sv host connect cleaner q (s, h) = (r, (s', h'))"
  shows "s' = s \<and> (either (asks host) Q)\<^sup>*\<^sup>* h h' \<or>
    (\<exists>run plan pf h1. cq_apply q \<and> load_run (cs_float sv) (cs_cwd sv) (cq_name q) s = Inr run \<and> plan_resources run q = Inr plan \<and>
       preflight_cleanup host run plan (cq_force q) h = (Inr pf, h1) \<and> (pf_active_workers pf = [] \<or> cq_force q) \<and>
       (either (plan_step host plan (pf_verdicts pf)) Q)\<^sup>*\<^sup>* h h')"
  by (rule cleanup_moves [OF assms])

lemma cleanup_takes_planned_steps_witness:
  "\<exists>s r s'. run_cleanup sample_service bare_host session_server None session_cleanup (s, [JStr ''s1'']) = (Inr r, (s', [])) \<and>
     (\<exists>plan v. (either (asks bare_host) (\<lambda>a b. set b \<subseteq> set a))\<^sup>*\<^sup>* [JStr ''s1''] [] \<or>
        (either (plan_step bare_host plan v) (\<lambda>a b. set b \<subseteq> set a))\<^sup>*\<^sup>* [JStr ''s1''] [])"
proof -
  obtain s where "session_store s" by (rule session_stored)
  then obtain s' and r :: run_cleanup_result
    where run: "run_cleanup sample_service bare_host session_server None session_cleanup (s, [JStr ''s1'']) = (Inr r, (s', []))"
    using session_cleanup_runs by blast
  then show ?thesis using cleanup_takes_planned_steps [OF session_server_serves run] by blast
qed



text \<open>C36. The audit of a cleanup on a sound store: the store is as it was; or the cleanup was applied and, when it
returns, the record it returns is the one the stored run holds, or the run was to be deleted, is gone, and the exit
code is 0; and when it raises, the run is left fenced, so that no update runs before the cleanup is resumed.\<close>

theorem cleanup_is_recorded:
  assumes "sound_store s" and "run_cleanup sv host connect cleaner q (s, h) = (r, (s', h'))"
  shows "s' = s \<or> cq_apply q \<and> (case r of
      Inr x \<Rightarrow> cleanup_recorded sv (cq_name q) (cq_run_store q) s' x | Inl e \<Rightarrow> left_fenced sv (cq_name q) s')"
  by (rule cleanup_audited [OF assms])

lemma cleanup_is_recorded_witness:
  "\<exists>s r s'. run_cleanup sample_service bare_host session_server None session_cleanup (s, [JStr ''s1'']) = (Inr r, (s', [])) \<and>
     (s' = s \<or> cleanup_recorded sample_service ''r1'' False s' r)"
proof -
  obtain s where s: "session_store s" by (rule session_stored)
  then obtain s' and r :: run_cleanup_result
    where run: "run_cleanup sample_service bare_host session_server None session_cleanup (s, [JStr ''s1'']) = (Inr r, (s', []))"
    using session_cleanup_runs by blast
  have "sound_store s" using s by (simp add: session_store_def)
  then show ?thesis using cleanup_is_recorded [OF _ run] run by (auto simp: session_cleanup_def)
qed





end
